(* ===== verification/Asr_Prelude.thy ===== *)
theory Asr_Prelude
  imports Main "HOL-Library.Word" "HOL-Library.Sublist"
begin

text \<open>
  Shared vocabulary of the development: the result type that stands for Rust's
  \<^verbatim>\<open>Result\<close> and its sequencing operator (the \<^verbatim>\<open>?\<close> operator), tables as
  lists of rows with the three statements the SQL of the program uses (look a row up,
  update the rows that match, append a row), the fixed-width types (\<^verbatim>\<open>Uuid\<close> and
  SHA-256 digests), and the byte/character conventions of strings.
\<close>

section \<open>Collections of facts\<close>

named_theorems result_simps \<open>unfolding a successful or failed chain of fallible calls\<close>
named_theorems table_simps \<open>reading a table after an update or an insertion\<close>

section \<open>Fixed-width values\<close>

text \<open>A \<^verbatim>\<open>uuid::Uuid\<close> is a 128-bit value, a SHA-256 digest \<^verbatim>\<open>[u8; 32]\<close> a 256-bit
  one. An \<^verbatim>\<open>i64\<close> of the program is an \<open>int\<close>; the schema bounds every stored one by
  \<^verbatim>\<open>MAX_SAFE_INTEGER\<close>, and the development proves those bounds rather than assuming
  them.\<close>

type_synonym uuid = "128 word"
type_synonym digest = "256 word"

definition nil_uuid :: uuid where
  "nil_uuid = 0"

definition MAX_SAFE_INTEGER :: int where
  "MAX_SAFE_INTEGER = 9007199254740991"

definition I64_MAX :: int where
  "I64_MAX = 9223372036854775807"

section \<open>Results\<close>

text \<open>\<^verbatim>\<open>Result<T, E>\<close> is \<open>'e + 'a\<close>. \<open>bindR\<close> is the \<^verbatim>\<open>?\<close> operator: an error leaves the
  function at once. \<open>guardR\<close> is \<^verbatim>\<open>if !condition { return Err(e) }\<close>.\<close>

definition bindR :: "'e + 'a \<Rightarrow> ('a \<Rightarrow> 'e + 'b) \<Rightarrow> 'e + 'b" where
  "bindR m f = (case m of Inl e \<Rightarrow> Inl e | Inr x \<Rightarrow> f x)"

definition guardR :: "bool \<Rightarrow> 'e \<Rightarrow> 'e + unit" where
  "guardR b e = (if b then Inr () else Inl e)"

definition map_err :: "('e \<Rightarrow> 'f) \<Rightarrow> 'e + 'a \<Rightarrow> 'f + 'a" where
  "map_err g m = (case m of Inl e \<Rightarrow> Inl (g e) | Inr x \<Rightarrow> Inr x)"

definition ok_or :: "'a option \<Rightarrow> 'e \<Rightarrow> 'e + 'a" where
  "ok_or x e = (case x of None \<Rightarrow> Inl e | Some v \<Rightarrow> Inr v)"

text \<open>\<^verbatim>\<open>Option::map(f).transpose()\<close>: run a fallible reader on an optional key.\<close>

definition transposeR :: "('a \<Rightarrow> 'e + 'b) \<Rightarrow> 'a option \<Rightarrow> 'e + 'b option" where
  "transposeR f x = (case x of None \<Rightarrow> Inr None | Some v \<Rightarrow>
     (case f v of Inl e \<Rightarrow> Inl e | Inr w \<Rightarrow> Inr (Some w)))"

text \<open>A \<^verbatim>\<open>for\<close> loop whose body may fail, threading the state.\<close>

fun foldR :: "('x \<Rightarrow> 's \<Rightarrow> 'e + 's) \<Rightarrow> 'x list \<Rightarrow> 's \<Rightarrow> 'e + 's" where
  "foldR f [] s = Inr s"
| "foldR f (x # xs) s = bindR (f x s) (foldR f xs)"

text \<open>\<^verbatim>\<open>iter.map(f).collect::<Result<Vec<_>, _>>()\<close>.\<close>

fun mapR :: "('x \<Rightarrow> 'e + 'y) \<Rightarrow> 'x list \<Rightarrow> 'e + 'y list" where
  "mapR f [] = Inr []"
| "mapR f (x # xs) = bindR (f x) (\<lambda>y. bindR (mapR f xs) (\<lambda>ys. Inr (y # ys)))"

section \<open>Tables\<close>

text \<open>A table is the list of its rows in insertion order. \<open>update_where P f rows\<close> is
  \<^verbatim>\<open>UPDATE .. SET .. WHERE ..\<close>; \<open>count_where\<close> is the number of rows it changes, which
  \<^verbatim>\<open>execute\<close> returns.\<close>

definition update_where :: "('r \<Rightarrow> bool) \<Rightarrow> ('r \<Rightarrow> 'r) \<Rightarrow> 'r list \<Rightarrow> 'r list" where
  "update_where P f rows = map (\<lambda>r. if P r then f r else r) rows"

definition count_where :: "('r \<Rightarrow> bool) \<Rightarrow> 'r list \<Rightarrow> nat" where
  "count_where P rows = length (filter P rows)"

definition exists_row :: "('r \<Rightarrow> bool) \<Rightarrow> 'r list \<Rightarrow> bool" where
  "exists_row P rows = list_ex P rows"

section \<open>Strings\<close>

text \<open>A Rust \<^verbatim>\<open>str\<close> is its UTF-8 bytes, so \<open>length\<close> is \<^verbatim>\<open>str::len\<close>. A byte of the form
  \<open>10xxxxxx\<close> continues a character; the others start one, so \<^verbatim>\<open>chars().count()\<close> counts
  the bytes that are not continuation bytes.\<close>

definition byte :: "char \<Rightarrow> nat" where
  "byte c = of_char c"

definition scalar_count :: "string \<Rightarrow> nat" where
  "scalar_count s = length (filter (\<lambda>c. \<not> (128 \<le> byte c \<and> byte c < 192)) s)"

text \<open>SQLite's \<^verbatim>\<open>length(text)\<close> counts the characters before the first NUL.\<close>

definition sql_length :: "string \<Rightarrow> nat" where
  "sql_length s = scalar_count (takeWhile (\<lambda>c. byte c \<noteq> 0) s)"

definition is_ascii :: "string \<Rightarrow> bool" where
  "is_ascii s = list_all (\<lambda>c. byte c < 128) s"

definition is_ascii_alphanumeric :: "char \<Rightarrow> bool" where
  "is_ascii_alphanumeric c =
     (48 \<le> byte c \<and> byte c \<le> 57 \<or> 65 \<le> byte c \<and> byte c \<le> 90 \<or> 97 \<le> byte c \<and> byte c \<le> 122)"

definition starts_with :: "string \<Rightarrow> string \<Rightarrow> bool" where
  "starts_with s p = prefix p s"

section \<open>Lemmas: results\<close>

lemma bindR_Inl [simp, result_simps]: "bindR (Inl e) f = Inl e"
  by (simp add: bindR_def)

lemma bindR_Inr [simp, result_simps]: "bindR (Inr x) f = f x"
  by (simp add: bindR_def)

lemma bindR_eq_Inr [result_simps]: "bindR m f = Inr y \<longleftrightarrow> (\<exists>x. m = Inr x \<and> f x = Inr y)"
  by (cases m) auto

lemma bindR_eq_Inl [result_simps]:
  "bindR m f = Inl e \<longleftrightarrow> m = Inl e \<or> (\<exists>x. m = Inr x \<and> f x = Inl e)"
  by (cases m) auto

lemma bindR_assoc: "bindR (bindR m f) g = bindR m (\<lambda>x. bindR (f x) g)"
  by (cases m) auto

lemma guardR_eq_Inr [simp, result_simps]: "guardR b e = Inr u \<longleftrightarrow> b"
  by (simp add: guardR_def)

lemma guardR_eq_Inl [simp, result_simps]: "guardR b e = Inl d \<longleftrightarrow> \<not> b \<and> d = e"
  by (auto simp: guardR_def)

lemma guardR_True [simp]: "guardR True e = Inr ()"
  by (simp add: guardR_def)

lemma guardR_False [simp]: "guardR False e = Inl e"
  by (simp add: guardR_def)

lemma map_err_eq_Inr [simp, result_simps]: "map_err g m = Inr y \<longleftrightarrow> m = Inr y"
  by (cases m) (auto simp: map_err_def)

lemma map_err_eq_Inl [simp, result_simps]: "map_err g m = Inl d \<longleftrightarrow> (\<exists>e. m = Inl e \<and> d = g e)"
  by (cases m) (auto simp: map_err_def)

lemma map_err_Inr [simp]: "map_err g (Inr x) = Inr x"
  by (simp add: map_err_def)

lemma map_err_Inl [simp]: "map_err g (Inl e) = Inl (g e)"
  by (simp add: map_err_def)

lemma ok_or_eq_Inr [simp, result_simps]: "ok_or x e = Inr y \<longleftrightarrow> x = Some y"
  by (cases x) (auto simp: ok_or_def)

lemma ok_or_eq_Inl [simp, result_simps]: "ok_or x e = Inl d \<longleftrightarrow> x = None \<and> d = e"
  by (cases x) (auto simp: ok_or_def)

lemma ok_or_Some [simp]: "ok_or (Some v) e = Inr v"
  by (simp add: ok_or_def)

lemma ok_or_None [simp]: "ok_or None e = Inl e"
  by (simp add: ok_or_def)

lemma transposeR_None [simp]: "transposeR f None = Inr None"
  by (simp add: transposeR_def)

lemma transposeR_eq_Inr [result_simps]:
  "transposeR f x = Inr y \<longleftrightarrow>
     (case x of None \<Rightarrow> y = None | Some v \<Rightarrow> \<exists>w. f v = Inr w \<and> y = Some w)"
  by (auto simp: transposeR_def split: option.splits sum.splits)

lemma foldR_preserves:
  assumes "foldR f xs s = Inr s'" and "P s"
    and "\<And>x s s'. x \<in> set xs \<Longrightarrow> P s \<Longrightarrow> f x s = Inr s' \<Longrightarrow> P s'"
  shows "P s'"
  using assms
proof (induction xs arbitrary: s)
  case Nil
  then show ?case by simp
next
  case (Cons x xs)
  from Cons.prems(1) obtain s1 where s1: "f x s = Inr s1" "foldR f xs s1 = Inr s'"
    by (auto simp: bindR_eq_Inr)
  have "P s1" using Cons.prems(2,3) s1(1) by (meson list.set_intros(1))
  then show ?case using Cons.IH [OF s1(2)] Cons.prems(3) by (meson list.set_intros(2))
qed

lemma foldR_append: "foldR f (xs @ ys) s = bindR (foldR f xs s) (foldR f ys)"
  by (induction xs arbitrary: s) (auto simp: bindR_def split: sum.split)

lemma mapR_eq_Inr: "mapR f xs = Inr ys \<longleftrightarrow> list_all2 (\<lambda>x y. f x = Inr y) xs ys"
  by (induction xs arbitrary: ys) (auto simp: bindR_eq_Inr list_all2_Cons1)

section \<open>Lemmas: tables\<close>

lemma length_update_where [simp]: "length (update_where P f rows) = length rows"
  by (simp add: update_where_def)

lemma set_update_where [table_simps]:
  "set (update_where P f rows) = {f r |r. r \<in> set rows \<and> P r} \<union> {r \<in> set rows. \<not> P r}"
  by (auto simp: update_where_def)

lemma update_whereE:
  assumes "x \<in> set (update_where P f rows)"
  obtains r where "r \<in> set rows" and "x = (if P r then f r else r)"
  using assms unfolding update_where_def set_map by (elim imageE) blast

lemma map_update_where:
  "(\<And>r. P r \<Longrightarrow> k (f r) = k r) \<Longrightarrow> map k (update_where P f rows) = map k rows"
  by (auto simp: update_where_def)

lemma update_where_none: "(\<And>r. r \<in> set rows \<Longrightarrow> \<not> P r) \<Longrightarrow> update_where P f rows = rows"
  by (induction rows) (auto simp: update_where_def)

lemma find_update_where_key:
  assumes "\<And>r. k (f r) = k r"
  shows "find (\<lambda>r. k r = key) (update_where (\<lambda>r. k r = key) f rows) =
           map_option f (find (\<lambda>r. k r = key) rows)"
  using assms by (induction rows) (auto simp: update_where_def)

lemma find_update_where_other:
  assumes "\<And>r. P r \<Longrightarrow> k (f r) = k r" and "\<And>r. r \<in> set rows \<Longrightarrow> P r \<Longrightarrow> k r \<noteq> key"
  shows "find (\<lambda>r. k r = key) (update_where P f rows) = find (\<lambda>r. k r = key) rows"
  using assms by (induction rows) (auto simp: update_where_def)

lemma find_key_SomeD: "find (\<lambda>r. k r = key) rows = Some r \<Longrightarrow> r \<in> set rows \<and> k r = key"
  by (auto simp: find_Some_iff)

lemma find_key_distinct:
  "distinct (map k rows) \<Longrightarrow> r \<in> set rows \<Longrightarrow> find (\<lambda>x. k x = k r) rows = Some r"
  by (induction rows) (auto simp: image_iff)

lemma find_append [table_simps]:
  "find P (xs @ ys) = (case find P xs of None \<Rightarrow> find P ys | Some r \<Rightarrow> Some r)"
  by (induction xs) auto

lemma distinct_key_eq:
  "distinct (map k rows) \<Longrightarrow> r \<in> set rows \<Longrightarrow> s \<in> set rows \<Longrightarrow> k r = k s \<Longrightarrow> r = s"
  by (induction rows) (auto simp: image_iff)

lemma in_set_update_where_key:
  assumes "distinct (map k rows)" and "r \<in> set rows"
  shows "x \<in> set (update_where (\<lambda>u. k u = k r) f rows) \<longleftrightarrow> x = f r \<or> x \<in> set rows \<and> k x \<noteq> k r"
  using assms distinct_key_eq [OF assms] by (fastforce simp: set_update_where)

lemma keys_update_where:
  "(\<And>r. P r \<Longrightarrow> k (f r) = k r) \<Longrightarrow> k ` set (update_where P f rows) = k ` set rows"
  using map_update_where [of P k f rows] by (metis set_map)

lemma key_update_where_ex:
  assumes "\<And>r. P r \<Longrightarrow> k (f r) = k r" and "r \<in> set rows"
  shows "\<exists>s\<in>set (update_where P f rows). k s = k r"
  using keys_update_where [of P k f rows, OF assms(1)] assms(2) by (metis image_iff imageI)

lemma count_where_key_one:
  assumes "distinct (map k rows)" and "r \<in> set rows" and "P r"
    and "\<And>x. x \<in> set rows \<Longrightarrow> P x \<Longrightarrow> k x = k r"
  shows "count_where P rows = 1"
proof -
  have "set (filter P rows) = {r}"
    using assms distinct_key_eq [OF assms(1)] by auto
  moreover have "distinct (filter P rows)"
    using assms(1) by (simp add: distinct_map)
  ultimately show ?thesis
    by (metis count_where_def distinct_card card.empty card_insert_disjoint finite.emptyI
        empty_iff One_nat_def)
qed

lemma exists_row_iff [simp]: "exists_row P rows \<longleftrightarrow> (\<exists>r\<in>set rows. P r)"
  by (simp add: exists_row_def list_ex_iff)

lemma distinct_map_append1:
  "distinct (map k (rows @ [r])) \<longleftrightarrow> distinct (map k rows) \<and> k r \<notin> k ` set rows"
  by auto

end
