(* ===== verification/Protocol_Core.thy ===== *)
theory Protocol_Core
  imports Asr_Prelude
begin

text \<open>
  The part of \<^verbatim>\<open>src/protocol.rs\<close> every other component relies on: error codes and
  their wire names, the identity enumerations, the name and identifier validators, and
  the scalar validators of page cursors, limits and timeouts. The store keeps the
  enumerations as text; the printers and parsers of \<^verbatim>\<open>src/store.rs\<close> are here with their
  round trips, so the tables of the later theories may hold the values themselves.
\<close>

section \<open>Error codes\<close>

datatype router_error_code =
    InvalidMessage | ProtocolMismatch | Unauthorized | NotRegistered
  | AgentConflict | TargetOffline | TargetNotReady | RequestConflict
  | RequestNotFound | ReplyForbidden | TargetDisconnected | RequesterDisconnected
  | RequestTimeout | RequestCancelled | WorkspaceRequired | WorkspaceNotFound
  | WorkspaceConflict | WorkspaceAlreadyJoined | WorkspaceBusy | WorkspaceMismatch
  | PermissionDenied | MessageTooLarge | RateLimited | StorageError
  | StoreInUse | ConfigurationRequired | RouterRestarted | SessionBusy
  | ProviderError | ProviderNotReady | ProviderDisconnected | ReplyMissing
  | TaskNotFound | TaskConflict | TaskNotAssigned | TaskActive
  | TaskStaleAttempt | TaskStopUnconfirmed | TaskInvalidTransition | TaskInterrupted
  | IntegrationNotConfigured | IntegrationBusy | IntegrationError | ExternalUnconfirmed
  | ExternalConflict | IntegrationConfigurationInvalid | SessionAdapterFailed | ClaudeProtocolError
  | ClaudeNoResult | ClaudeSdkError | ClaudeMaxTurns | ClaudeMaxBudget
  | ClaudeStructuredOutputError | ClaudeExecutionError | CodexProtocolError | CodexNoFinalResponse
  | CodexTurnInterrupted | CodexTurnFailed | LeaveUnconfirmed

fun error_as_str :: "router_error_code \<Rightarrow> string" where
  "error_as_str InvalidMessage = ''invalid_message''"
| "error_as_str ProtocolMismatch = ''protocol_mismatch''"
| "error_as_str Unauthorized = ''unauthorized''"
| "error_as_str NotRegistered = ''not_registered''"
| "error_as_str AgentConflict = ''agent_conflict''"
| "error_as_str TargetOffline = ''target_offline''"
| "error_as_str TargetNotReady = ''target_not_ready''"
| "error_as_str RequestConflict = ''request_conflict''"
| "error_as_str RequestNotFound = ''request_not_found''"
| "error_as_str ReplyForbidden = ''reply_forbidden''"
| "error_as_str TargetDisconnected = ''target_disconnected''"
| "error_as_str RequesterDisconnected = ''requester_disconnected''"
| "error_as_str RequestTimeout = ''request_timeout''"
| "error_as_str RequestCancelled = ''request_cancelled''"
| "error_as_str WorkspaceRequired = ''workspace_required''"
| "error_as_str WorkspaceNotFound = ''workspace_not_found''"
| "error_as_str WorkspaceConflict = ''workspace_conflict''"
| "error_as_str WorkspaceAlreadyJoined = ''workspace_already_joined''"
| "error_as_str WorkspaceBusy = ''workspace_busy''"
| "error_as_str WorkspaceMismatch = ''workspace_mismatch''"
| "error_as_str PermissionDenied = ''permission_denied''"
| "error_as_str MessageTooLarge = ''message_too_large''"
| "error_as_str RateLimited = ''rate_limited''"
| "error_as_str StorageError = ''storage_error''"
| "error_as_str StoreInUse = ''store_in_use''"
| "error_as_str ConfigurationRequired = ''configuration_required''"
| "error_as_str RouterRestarted = ''router_restarted''"
| "error_as_str SessionBusy = ''session_busy''"
| "error_as_str ProviderError = ''provider_error''"
| "error_as_str ProviderNotReady = ''provider_not_ready''"
| "error_as_str ProviderDisconnected = ''provider_disconnected''"
| "error_as_str ReplyMissing = ''reply_missing''"
| "error_as_str TaskNotFound = ''task_not_found''"
| "error_as_str TaskConflict = ''task_conflict''"
| "error_as_str TaskNotAssigned = ''task_not_assigned''"
| "error_as_str TaskActive = ''task_active''"
| "error_as_str TaskStaleAttempt = ''task_stale_attempt''"
| "error_as_str TaskStopUnconfirmed = ''task_stop_unconfirmed''"
| "error_as_str TaskInvalidTransition = ''task_invalid_transition''"
| "error_as_str TaskInterrupted = ''task_interrupted''"
| "error_as_str IntegrationNotConfigured = ''integration_not_configured''"
| "error_as_str IntegrationBusy = ''integration_busy''"
| "error_as_str IntegrationError = ''integration_error''"
| "error_as_str ExternalUnconfirmed = ''external_unconfirmed''"
| "error_as_str ExternalConflict = ''external_conflict''"
| "error_as_str IntegrationConfigurationInvalid = ''integration_configuration_invalid''"
| "error_as_str SessionAdapterFailed = ''session_adapter_failed''"
| "error_as_str ClaudeProtocolError = ''claude_protocol_error''"
| "error_as_str ClaudeNoResult = ''claude_no_result''"
| "error_as_str ClaudeSdkError = ''claude_sdk_error''"
| "error_as_str ClaudeMaxTurns = ''claude_max_turns''"
| "error_as_str ClaudeMaxBudget = ''claude_max_budget''"
| "error_as_str ClaudeStructuredOutputError = ''claude_structured_output_error''"
| "error_as_str ClaudeExecutionError = ''claude_execution_error''"
| "error_as_str CodexProtocolError = ''codex_protocol_error''"
| "error_as_str CodexNoFinalResponse = ''codex_no_final_response''"
| "error_as_str CodexTurnInterrupted = ''codex_turn_interrupted''"
| "error_as_str CodexTurnFailed = ''codex_turn_failed''"
| "error_as_str LeaveUnconfirmed = ''leave_unconfirmed''"

definition all_error_codes :: "router_error_code list" where
  "all_error_codes =
    [InvalidMessage, ProtocolMismatch, Unauthorized, NotRegistered,
     AgentConflict, TargetOffline, TargetNotReady, RequestConflict,
     RequestNotFound, ReplyForbidden, TargetDisconnected, RequesterDisconnected,
     RequestTimeout, RequestCancelled, WorkspaceRequired, WorkspaceNotFound,
     WorkspaceConflict, WorkspaceAlreadyJoined, WorkspaceBusy, WorkspaceMismatch,
     PermissionDenied, MessageTooLarge, RateLimited, StorageError,
     StoreInUse, ConfigurationRequired, RouterRestarted, SessionBusy,
     ProviderError, ProviderNotReady, ProviderDisconnected, ReplyMissing,
     TaskNotFound, TaskConflict, TaskNotAssigned, TaskActive,
     TaskStaleAttempt, TaskStopUnconfirmed, TaskInvalidTransition, TaskInterrupted,
     IntegrationNotConfigured, IntegrationBusy, IntegrationError, ExternalUnconfirmed,
     ExternalConflict, IntegrationConfigurationInvalid, SessionAdapterFailed, ClaudeProtocolError,
     ClaudeNoResult, ClaudeSdkError, ClaudeMaxTurns, ClaudeMaxBudget,
     ClaudeStructuredOutputError, ClaudeExecutionError, CodexProtocolError, CodexNoFinalResponse,
     CodexTurnInterrupted, CodexTurnFailed, LeaveUnconfirmed]"

text \<open>Reading a stored code: \<^verbatim>\<open>serde_json::from_value\<close> of the string, where the derived
  deserializer accepts exactly the wire names.\<close>

definition parse_error_code :: "string \<Rightarrow> router_error_code option" where
  "parse_error_code s = find (\<lambda>c. error_as_str c = s) all_error_codes"

section \<open>Enumerations stored as text\<close>

datatype agent_side = SideClaude | SideCodex | SideGeneric

datatype agent_client =
    ClientOmp | ClientClaudeCode | ClientClaudeSdk | ClientCodexCli | ClientCodexAppServer
  | ClientGeneric

datatype workspace_event_kind =
    KChat | KRequest | KResult | KMemberJoined | KMemberLeft | KTask | KIntegration

datatype credential_role = RoleAgent | RoleOperator

fun event_kind_str :: "workspace_event_kind \<Rightarrow> string" where
  "event_kind_str KChat = ''chat''"
| "event_kind_str KRequest = ''request''"
| "event_kind_str KResult = ''result''"
| "event_kind_str KMemberJoined = ''member_joined''"
| "event_kind_str KMemberLeft = ''member_left''"
| "event_kind_str KTask = ''task''"
| "event_kind_str KIntegration = ''integration''"

definition parse_event_kind :: "string \<Rightarrow> workspace_event_kind option" where
  "parse_event_kind v =
     (if v = ''chat'' then Some KChat
      else if v = ''request'' then Some KRequest
      else if v = ''result'' then Some KResult
      else if v = ''member_joined'' then Some KMemberJoined
      else if v = ''member_left'' then Some KMemberLeft
      else if v = ''task'' then Some KTask
      else if v = ''integration'' then Some KIntegration
      else None)"

fun agent_side_str :: "agent_side \<Rightarrow> string" where
  "agent_side_str SideClaude = ''claude''"
| "agent_side_str SideCodex = ''codex''"
| "agent_side_str SideGeneric = ''generic''"

definition parse_agent_side :: "string \<Rightarrow> unit + agent_side" where
  "parse_agent_side v =
     (if v = ''claude'' then Inr SideClaude
      else if v = ''codex'' then Inr SideCodex
      else if v = ''generic'' then Inr SideGeneric
      else Inl ())"

fun agent_client_str :: "agent_client \<Rightarrow> string" where
  "agent_client_str ClientOmp = ''omp''"
| "agent_client_str ClientClaudeCode = ''claude-code''"
| "agent_client_str ClientClaudeSdk = ''claude-sdk''"
| "agent_client_str ClientCodexCli = ''codex-cli''"
| "agent_client_str ClientCodexAppServer = ''codex-app-server''"
| "agent_client_str ClientGeneric = ''generic''"

definition parse_agent_client :: "string \<Rightarrow> unit + agent_client" where
  "parse_agent_client v =
     (if v = ''omp'' then Inr ClientOmp
      else if v = ''claude-code'' then Inr ClientClaudeCode
      else if v = ''claude-sdk'' then Inr ClientClaudeSdk
      else if v = ''codex-cli'' then Inr ClientCodexCli
      else if v = ''codex-app-server'' then Inr ClientCodexAppServer
      else if v = ''generic'' then Inr ClientGeneric
      else Inl ())"

fun role_as_str :: "credential_role \<Rightarrow> string" where
  "role_as_str RoleAgent = ''agent''"
| "role_as_str RoleOperator = ''operator''"

definition parse_role :: "string \<Rightarrow> credential_role option" where
  "parse_role v =
     (if v = ''agent'' then Some RoleAgent
      else if v = ''operator'' then Some RoleOperator
      else None)"

section \<open>Names and identifiers\<close>

type_synonym workspace_name = string

definition MAX_WORKSPACE_NAME_BYTES :: nat where "MAX_WORKSPACE_NAME_BYTES = 64"
definition MAX_AGENT_ID_BYTES :: nat where "MAX_AGENT_ID_BYTES = 128"
definition DEFAULT_REQUEST_TIMEOUT_MS :: nat where "DEFAULT_REQUEST_TIMEOUT_MS = 60000"
definition MAX_REQUEST_TIMEOUT_MS :: nat where "MAX_REQUEST_TIMEOUT_MS = 600000"
definition DEFAULT_PAGE_LIMIT :: nat where "DEFAULT_PAGE_LIMIT = 50"
definition MAX_PAGE_LIMIT :: nat where "MAX_PAGE_LIMIT = 100"

definition is_workspace_name :: "string \<Rightarrow> bool" where
  "is_workspace_name value =
     (if value = [] \<or> length value > MAX_WORKSPACE_NAME_BYTES \<or> \<not> is_ascii value then False
      else list_all (\<lambda>(index, c). is_ascii_alphanumeric c \<or> (0 < index \<and> c \<in> set ''._-''))
             (List.enumerate 0 value))"

definition is_agent_id :: "string \<Rightarrow> bool" where
  "is_agent_id value =
     (if value = [] \<or> length value > MAX_AGENT_ID_BYTES \<or> \<not> is_ascii value
         \<or> starts_with value ''operator:'' \<or> starts_with value ''system:'' then False
      else list_all (\<lambda>(index, c). is_ascii_alphanumeric c \<or> (0 < index \<and> c \<in> set ''._-:''))
             (List.enumerate 0 value))"

definition is_request_id :: "string \<Rightarrow> bool" where
  "is_request_id value =
     (value \<noteq> [] \<and> length value \<le> MAX_AGENT_ID_BYTES \<and> is_ascii value \<and>
      list_all (\<lambda>(index, c). is_ascii_alphanumeric c \<or> (0 < index \<and> c \<in> set ''._-:''))
        (List.enumerate 0 value))"

definition valid_actor_id :: "string \<Rightarrow> bool" where
  "valid_actor_id value =
     ((starts_with value ''operator:'' \<or> starts_with value ''system:'' \<or> is_agent_id value)
      \<and> value \<noteq> [] \<and> length value \<le> MAX_AGENT_ID_BYTES \<and> is_ascii value)"

definition parse_workspace_name :: "string \<Rightarrow> router_error_code + workspace_name" where
  "parse_workspace_name value =
     (if is_workspace_name value then Inr value else Inl InvalidMessage)"

definition valid_bearer :: "string \<Rightarrow> bool" where
  "valid_bearer value =
     (length value = 43 \<and> list_all (\<lambda>c. is_ascii_alphanumeric c \<or> c \<in> set ''-_'') value)"

fun valid_agent_client :: "agent_side \<Rightarrow> agent_client \<Rightarrow> bool" where
  "valid_agent_client SideGeneric c = (c = ClientOmp \<or> c = ClientGeneric)"
| "valid_agent_client SideClaude c = (c = ClientClaudeCode \<or> c = ClientClaudeSdk)"
| "valid_agent_client SideCodex c = (c = ClientCodexCli \<or> c = ClientCodexAppServer)"

section \<open>Scalars of requests\<close>

definition normalize_timeout_ms :: "nat option \<Rightarrow> nat" where
  "normalize_timeout_ms value =
     min MAX_REQUEST_TIMEOUT_MS
       (max 1 (case value of None \<Rightarrow> DEFAULT_REQUEST_TIMEOUT_MS | Some v \<Rightarrow> v))"

definition validate_page :: "int option \<Rightarrow> nat option \<Rightarrow> router_error_code + int \<times> nat" where
  "validate_page after limit =
     (let after = (case after of None \<Rightarrow> 0 | Some a \<Rightarrow> a);
          limit = (case limit of None \<Rightarrow> DEFAULT_PAGE_LIMIT | Some l \<Rightarrow> l)
      in if after < 0 \<or> \<not> (1 \<le> limit \<and> limit \<le> MAX_PAGE_LIMIT) then Inl InvalidMessage
         else Inr (after, limit))"

definition valid_timeout :: "nat option \<Rightarrow> bool" where
  "valid_timeout value =
     (case value of None \<Rightarrow> True | Some t \<Rightarrow> 1 \<le> t \<and> t \<le> MAX_REQUEST_TIMEOUT_MS)"

definition valid_limit :: "nat option \<Rightarrow> bool" where
  "valid_limit value = (case value of None \<Rightarrow> True | Some l \<Rightarrow> 1 \<le> l \<and> l \<le> MAX_PAGE_LIMIT)"

definition valid_cursor :: "int option \<Rightarrow> bool" where
  "valid_cursor value = (case value of None \<Rightarrow> True | Some c \<Rightarrow> 0 \<le> c \<and> c \<le> MAX_SAFE_INTEGER)"

section \<open>Round trips of the stored text\<close>

lemma all_error_codes_complete: "c \<in> set all_error_codes"
  by (cases c) (simp_all add: all_error_codes_def)

lemma distinct_error_strs: "distinct (map error_as_str all_error_codes)"
  by code_simp

lemma error_as_str_inject: "error_as_str c = error_as_str d \<Longrightarrow> c = d"
  using distinct_key_eq [OF distinct_error_strs all_error_codes_complete all_error_codes_complete]
  by blast

lemma parse_error_code_as_str [simp]: "parse_error_code (error_as_str c) = Some c"
  using find_key_distinct [OF distinct_error_strs all_error_codes_complete]
  by (simp add: parse_error_code_def)

lemma parse_event_kind_str [simp]: "parse_event_kind (event_kind_str k) = Some k"
  by (cases k) (simp_all add: parse_event_kind_def)

lemma parse_agent_side_str [simp]: "parse_agent_side (agent_side_str s) = Inr s"
  by (cases s) (simp_all add: parse_agent_side_def)

lemma parse_agent_client_str [simp]: "parse_agent_client (agent_client_str c) = Inr c"
  by (cases c) (simp_all add: parse_agent_client_def)

lemma parse_role_as_str [simp]: "parse_role (role_as_str r) = Some r"
  by (cases r) (simp_all add: parse_role_def)

section \<open>Identifiers\<close>

text \<open>The indexed test of the validators, read as a head and a tail.\<close>

lemma enumerate_head_tail:
  "list_all (\<lambda>(i, c). P c \<or> ((0::nat) < i \<and> Q c)) (List.enumerate 0 (c # cs)) \<longleftrightarrow>
     P c \<and> list_all (\<lambda>c. P c \<or> Q c) cs"
proof -
  have "list_all (\<lambda>(i, c). P c \<or> (0 < i \<and> Q c)) (List.enumerate (Suc n) cs) \<longleftrightarrow>
          list_all (\<lambda>c. P c \<or> Q c) cs" for n
    by (induction cs arbitrary: n) auto
  then show ?thesis by simp
qed

lemma is_ascii_alphanumeric_ascii: "is_ascii_alphanumeric c \<Longrightarrow> byte c < 128"
  by (auto simp: is_ascii_alphanumeric_def)

lemma is_agent_id_request_id: "is_agent_id a \<Longrightarrow> is_request_id a"
  by (simp add: is_agent_id_def is_request_id_def split: if_splits)

lemma is_agent_id_no_namespace:
  "is_agent_id a \<Longrightarrow> \<not> starts_with a ''operator:'' \<and> \<not> starts_with a ''system:''"
  by (simp add: is_agent_id_def split: if_splits)

lemma is_agent_id_actor: "is_agent_id a \<Longrightarrow> valid_actor_id a"
  by (simp add: valid_actor_id_def is_agent_id_def split: if_splits)

lemma is_agent_id_length: "is_agent_id a \<Longrightarrow> 1 \<le> length a \<and> length a \<le> 128"
  by (cases a) (auto simp: is_agent_id_def MAX_AGENT_ID_BYTES_def split: if_splits)

end
