(* ===== verification/Task_Types.thy ===== *)
theory Task_Types
  imports Protocol_Core
begin

text \<open>
  The data model of \<^verbatim>\<open>src/tasks.rs\<close>: states, attempts, stop evidence, reports, external
  links and operations, the commands a caller sends, the caller's context and the error
  a command returns, with the validators that run before a transaction is opened.

  Third-party code enters as the record \<open>env\<close>: the clock readings of one call, the
  identifiers \<^verbatim>\<open>Uuid::new_v4\<close> returns, the SHA-256 of the serialised command and the
  length of the JSON text of a report body.
\<close>

section \<open>Task states\<close>

datatype task_state = Todo | InProgress | Blocked | Paused | Done | Cancelled

definition is_terminal :: "task_state \<Rightarrow> bool" where
  "is_terminal s = (s = Done \<or> s = Cancelled)"

definition is_beginable :: "task_state \<Rightarrow> bool" where
  "is_beginable s = (s = Todo \<or> s = Paused \<or> s = Blocked)"

fun state_as_str :: "task_state \<Rightarrow> string" where
  "state_as_str Todo = ''todo''"
| "state_as_str InProgress = ''in_progress''"
| "state_as_str Blocked = ''blocked''"
| "state_as_str Paused = ''paused''"
| "state_as_str Done = ''done''"
| "state_as_str Cancelled = ''cancelled''"

definition parse_task_state :: "string \<Rightarrow> task_state option" where
  "parse_task_state v =
     (if v = ''todo'' then Some Todo
      else if v = ''in_progress'' then Some InProgress
      else if v = ''blocked'' then Some Blocked
      else if v = ''paused'' then Some Paused
      else if v = ''done'' then Some Done
      else if v = ''cancelled'' then Some Cancelled
      else None)"

datatype attempt_status = Running | Released | Completed | Interrupted

fun attempt_status_as_str :: "attempt_status \<Rightarrow> string" where
  "attempt_status_as_str Running = ''running''"
| "attempt_status_as_str Released = ''released''"
| "attempt_status_as_str Completed = ''completed''"
| "attempt_status_as_str Interrupted = ''interrupted''"

definition parse_attempt_status :: "string \<Rightarrow> attempt_status option" where
  "parse_attempt_status v =
     (if v = ''running'' then Some Running
      else if v = ''released'' then Some Released
      else if v = ''completed'' then Some Completed
      else if v = ''interrupted'' then Some Interrupted
      else None)"

datatype stop_evidence = EvReleased | EvConfirmed | EvUnknown

fun stop_evidence_as_str :: "stop_evidence \<Rightarrow> string" where
  "stop_evidence_as_str EvReleased = ''released''"
| "stop_evidence_as_str EvConfirmed = ''confirmed''"
| "stop_evidence_as_str EvUnknown = ''unknown''"

definition parse_stop_evidence :: "string \<Rightarrow> stop_evidence option" where
  "parse_stop_evidence v =
     (if v = ''released'' then Some EvReleased
      else if v = ''confirmed'' then Some EvConfirmed
      else if v = ''unknown'' then Some EvUnknown
      else None)"

datatype pause_reason =
    ReasonPaused | ReasonBlocked | TransportLost | CredentialRevoked | SessionEnded
  | ReasonRouterRestarted | ReasonRequestTimeout | ReasonRequestCancelled | TurnEnded
  | HostError | OperatorInterrupt | ReplyWithoutRelease

fun pause_reason_as_str :: "pause_reason \<Rightarrow> string" where
  "pause_reason_as_str ReasonPaused = ''paused''"
| "pause_reason_as_str ReasonBlocked = ''blocked''"
| "pause_reason_as_str TransportLost = ''transport_lost''"
| "pause_reason_as_str CredentialRevoked = ''credential_revoked''"
| "pause_reason_as_str SessionEnded = ''session_ended''"
| "pause_reason_as_str ReasonRouterRestarted = ''router_restarted''"
| "pause_reason_as_str ReasonRequestTimeout = ''request_timeout''"
| "pause_reason_as_str ReasonRequestCancelled = ''request_cancelled''"
| "pause_reason_as_str TurnEnded = ''turn_ended''"
| "pause_reason_as_str HostError = ''host_error''"
| "pause_reason_as_str OperatorInterrupt = ''operator_interrupt''"
| "pause_reason_as_str ReplyWithoutRelease = ''reply_without_release''"

definition parse_pause_reason :: "string \<Rightarrow> pause_reason option" where
  "parse_pause_reason v =
     (if v = ''paused'' then Some ReasonPaused
      else if v = ''blocked'' then Some ReasonBlocked
      else if v = ''transport_lost'' then Some TransportLost
      else if v = ''credential_revoked'' then Some CredentialRevoked
      else if v = ''session_ended'' then Some SessionEnded
      else if v = ''router_restarted'' then Some ReasonRouterRestarted
      else if v = ''request_timeout'' then Some ReasonRequestTimeout
      else if v = ''request_cancelled'' then Some ReasonRequestCancelled
      else if v = ''turn_ended'' then Some TurnEnded
      else if v = ''host_error'' then Some HostError
      else if v = ''operator_interrupt'' then Some OperatorInterrupt
      else if v = ''reply_without_release'' then Some ReplyWithoutRelease
      else None)"

datatype report_kind = RNote | RCheckpoint | RResult

fun report_kind_as_str :: "report_kind \<Rightarrow> string" where
  "report_kind_as_str RNote = ''note''"
| "report_kind_as_str RCheckpoint = ''checkpoint''"
| "report_kind_as_str RResult = ''result''"

definition parse_report_kind :: "string \<Rightarrow> report_kind option" where
  "parse_report_kind v =
     (if v = ''note'' then Some RNote
      else if v = ''checkpoint'' then Some RCheckpoint
      else if v = ''result'' then Some RResult
      else None)"

section \<open>Tasks, attempts and reports as the API shows them\<close>

record task_checkpoint =
  ck_summary :: string
  ck_next_steps :: string
  ck_artifacts :: "string list"
  ck_risks :: string

record task_summary =
  ts_id :: int
  ts_workspace :: workspace_name
  ts_title :: string
  ts_state :: task_state
  ts_version :: int
  ts_assigned_agent_id :: "string option"
  ts_current_attempt_id :: "uuid option"
  ts_last_executor_id :: "string option"
  ts_execution_session_id :: "uuid option"
  ts_last_checkpoint_at :: "int option"
  ts_pause_reason :: "pause_reason option"
  ts_stop_evidence :: "stop_evidence option"
  ts_created_at :: int
  ts_updated_at :: int

record task_attempt =
  ta_id :: uuid
  ta_task_id :: int
  ta_agent_id :: string
  ta_session_id :: uuid
  ta_work_request_id :: string
  ta_resumed_from_checkpoint_id :: "uuid option"
  ta_status :: attempt_status
  ta_stop_evidence :: stop_evidence
  ta_reason :: "pause_reason option"
  ta_started_at :: int
  ta_ended_at :: "int option"
  ta_stopped_at :: "int option"

datatype report_body = BodyCheckpoint task_checkpoint | BodyText string

record task_report_record =
  tr_id :: uuid
  tr_task_id :: int
  tr_attempt_id :: "uuid option"
  tr_actor_id :: string
  tr_kind :: report_kind
  tr_body :: report_body
  tr_created_at :: int

section \<open>External links and operations\<close>

datatype external_provider = Github | Linear

fun provider_as_str :: "external_provider \<Rightarrow> string" where
  "provider_as_str Github = ''github''"
| "provider_as_str Linear = ''linear''"

definition parse_external_provider :: "string \<Rightarrow> external_provider option" where
  "parse_external_provider v =
     (if v = ''github'' then Some Github else if v = ''linear'' then Some Linear else None)"

record external_link =
  el_provider :: external_provider
  el_namespace :: string
  el_external_id :: string
  el_url :: string
  el_linked_at :: int

datatype external_operation_kind = OpImport | OpLink | OpPublishIssue | OpPublishReport

definition parse_external_kind :: "string \<Rightarrow> external_operation_kind option" where
  "parse_external_kind v =
     (if v = ''import'' then Some OpImport
      else if v = ''link'' then Some OpLink
      else if v = ''publish_issue'' then Some OpPublishIssue
      else if v = ''publish_report'' then Some OpPublishReport
      else None)"

datatype external_publish_kind = PkIssue | PkReport

datatype external_operation_status = OpRunning | OpSucceeded | OpFailed | OpUnconfirmed

definition parse_external_status :: "string \<Rightarrow> external_operation_status option" where
  "parse_external_status v =
     (if v = ''running'' then Some OpRunning
      else if v = ''succeeded'' then Some OpSucceeded
      else if v = ''failed'' then Some OpFailed
      else if v = ''unconfirmed'' then Some OpUnconfirmed
      else None)"

record external_operation_summary =
  eo_id :: uuid
  eo_task_id :: "int option"
  eo_provider :: external_provider
  eo_kind :: external_operation_kind
  eo_status :: external_operation_status
  eo_source_version :: "int option"
  eo_external_id :: "string option"
  eo_url :: "string option"
  eo_error :: "string option"
  eo_created_at :: int
  eo_updated_at :: int

datatype external_resolution_outcome = Applied | NotApplied

record external_resolution =
  er_id :: uuid
  er_operation_id :: uuid
  er_actor_id :: string
  er_outcome :: external_resolution_outcome
  er_external_id :: "string option"
  er_note :: string
  er_created_at :: int

datatype integration_access = AccessRead | AccessWrite

record integration_public =
  ip_provider :: external_provider
  ip_workspace :: workspace_name
  ip_target :: string
  ip_access :: integration_access
  ip_available :: bool
  ip_error :: "string option"

datatype integration_change = Configured | Disabled | Operation | Resolved

record integration_event =
  ie_change :: integration_change
  ie_integration :: "integration_public option"
  ie_operation :: "external_operation_summary option"
  ie_resolution :: "external_resolution option"

record task_detail =
  td_summary :: task_summary
  td_description :: string
  td_created_by :: string
  td_updated_by :: string
  td_current_attempt :: "task_attempt option"
  td_last_attempt :: "task_attempt option"
  td_checkpoint :: "task_report_record option"
  td_result :: "task_report_record option"
  td_links :: "external_link list"
  td_external_operations :: "external_operation_summary list"

record task_mutation_result =
  tm_operation_id :: uuid
  tm_applied_version :: int
  tm_report_id :: "uuid option"
  tm_task :: task_detail

datatype task_change =
    ChgCreated | ChgEdited | ChgAssigned | ChgBegun | ChgCheckpoint | ChgNoted | ChgPaused
  | ChgCompleted | ChgInterrupted | ChgStopped | ChgCancelled | ChgReopened | ChgExternal

record task_event =
  te_change :: task_change
  te_task :: task_summary
  te_attempt_id :: "uuid option"
  te_report_id :: "uuid option"
  te_external_operation_id :: "uuid option"

end
