(* ===== verification/Task_Commands.thy ===== *)
theory Task_Commands
  imports Task_Types
begin

text \<open>
  Commands, callers and the checks of \<^verbatim>\<open>src/tasks.rs\<close> that need no database: the text
  validators, \<^verbatim>\<open>TaskCheckpoint::validate\<close>, \<^verbatim>\<open>validate_command\<close> and
  \<^verbatim>\<open>require_executor\<close>.
\<close>

section \<open>Text limits\<close>

datatype validation_error = VEmpty | VTooLarge | VInvalidCheckpoint | VInvalidIdentifier

definition MAX_TITLE_BYTES :: nat where "MAX_TITLE_BYTES = 1024"
definition MAX_TITLE_SCALARS :: nat where "MAX_TITLE_SCALARS = 256"
definition MAX_DESCRIPTION_BYTES :: nat where "MAX_DESCRIPTION_BYTES = 64 * 1024"
definition MAX_NOTE_BYTES :: nat where "MAX_NOTE_BYTES = 16 * 1024"
definition MAX_HANDOFF_NOTE_BYTES :: nat where "MAX_HANDOFF_NOTE_BYTES = 4 * 1024"
definition MAX_CHECKPOINT_TEXT_BYTES :: nat where "MAX_CHECKPOINT_TEXT_BYTES = 8 * 1024"
definition MAX_CHECKPOINT_BYTES :: nat where "MAX_CHECKPOINT_BYTES = 32 * 1024"
definition MAX_ARTIFACTS :: nat where "MAX_ARTIFACTS = 32"
definition MAX_ARTIFACT_BYTES :: nat where "MAX_ARTIFACT_BYTES = 512"

definition validate_text :: "string \<Rightarrow> nat \<Rightarrow> validation_error + unit" where
  "validate_text value max_bytes =
     (if length value > max_bytes then Inl VTooLarge else Inr ())"

definition validate_nonempty_text :: "string \<Rightarrow> nat \<Rightarrow> validation_error + unit" where
  "validate_nonempty_text value max_bytes =
     (if value = [] then Inl VEmpty else validate_text value max_bytes)"

definition validate_title :: "string \<Rightarrow> validation_error + unit" where
  "validate_title title =
     bindR (validate_nonempty_text title MAX_TITLE_BYTES) (\<lambda>_.
       if scalar_count title > MAX_TITLE_SCALARS then Inl VTooLarge else Inr ())"

definition validate_description :: "string \<Rightarrow> validation_error + unit" where
  "validate_description description = validate_text description MAX_DESCRIPTION_BYTES"

definition validate_note :: "string \<Rightarrow> validation_error + unit" where
  "validate_note note = validate_nonempty_text note MAX_NOTE_BYTES"

definition validate_handoff_note :: "string \<Rightarrow> validation_error + unit" where
  "validate_handoff_note note = validate_nonempty_text note MAX_HANDOFF_NOTE_BYTES"

definition validate_positive_safe_integer :: "int \<Rightarrow> validation_error + unit" where
  "validate_positive_safe_integer value =
     (if 1 \<le> value \<and> value \<le> MAX_SAFE_INTEGER then Inr () else Inl VInvalidIdentifier)"

text \<open>\<open>jlen\<close> is the length of \<^verbatim>\<open>serde_json::to_vec\<close> of the checkpoint.\<close>

definition checkpoint_validate ::
  "(report_body \<Rightarrow> nat) \<Rightarrow> task_checkpoint \<Rightarrow> validation_error + unit" where
  "checkpoint_validate jlen c =
     bindR (validate_nonempty_text (ck_summary c) MAX_CHECKPOINT_TEXT_BYTES) (\<lambda>_.
     bindR (validate_text (ck_next_steps c) MAX_CHECKPOINT_TEXT_BYTES) (\<lambda>_.
     bindR (validate_text (ck_risks c) MAX_CHECKPOINT_TEXT_BYTES) (\<lambda>_.
     bindR (guardR (length (ck_artifacts c) \<le> MAX_ARTIFACTS) VInvalidCheckpoint) (\<lambda>_.
     bindR (foldR (\<lambda>artifact _. validate_nonempty_text artifact MAX_ARTIFACT_BYTES)
              (ck_artifacts c) ()) (\<lambda>_.
     guardR (jlen (BodyCheckpoint c) \<le> MAX_CHECKPOINT_BYTES) VInvalidCheckpoint)))))"

section \<open>Callers and commands\<close>

datatype caller_role = Agent | Delegate | Operator | Admin

record reservation_fence =
  rf_work_request_id :: string
  rf_task_id :: int

record caller_context =
  cc_actor_id :: string
  cc_role :: caller_role
  cc_workspace :: workspace_name
  cc_agent_id :: "string option"
  cc_credential_id :: uuid
  cc_session_id :: "uuid option"
  cc_connection_generation :: int
  cc_reservation :: "reservation_fence option"

text \<open>The fields stand in the order of the source's variants; the operation id is first.\<close>

datatype task_command =
    CmdCreate uuid string string
  | CmdEdit uuid int int "string option" "string option"
  | CmdAssign uuid int int "string option"
  | CmdNote uuid int string
  | CmdBegin uuid int string int "uuid option" string
  | CmdCheckpoint uuid int uuid int task_checkpoint
  | CmdPause uuid int uuid int task_checkpoint bool
  | CmdComplete uuid int uuid int task_checkpoint
  | CmdCancel uuid int int string
  | CmdReopen uuid int int string
  | CmdInterrupt uuid int int string
  | CmdConfirmStopped uuid int uuid int string

fun operation_id :: "task_command \<Rightarrow> uuid" where
  "operation_id (CmdCreate op _ _) = op"
| "operation_id (CmdEdit op _ _ _ _) = op"
| "operation_id (CmdAssign op _ _ _) = op"
| "operation_id (CmdNote op _ _) = op"
| "operation_id (CmdBegin op _ _ _ _ _) = op"
| "operation_id (CmdCheckpoint op _ _ _ _) = op"
| "operation_id (CmdPause op _ _ _ _ _) = op"
| "operation_id (CmdComplete op _ _ _ _) = op"
| "operation_id (CmdCancel op _ _ _) = op"
| "operation_id (CmdReopen op _ _ _) = op"
| "operation_id (CmdInterrupt op _ _ _) = op"
| "operation_id (CmdConfirmStopped op _ _ _ _) = op"

section \<open>What one call takes from outside the repository\<close>

text \<open>\<open>op_clock\<close> and \<open>event_clock\<close> are the two readings of the system clock one call makes, in
  milliseconds from the Unix epoch (negative before it): the operation's own and the one
  of \<^verbatim>\<open>append_event_in_transaction\<close>. \<open>new_attempt_id\<close> and \<open>new_report_id\<close> are what
  \<^verbatim>\<open>Uuid::new_v4\<close> returns; nothing is assumed of them, and an identifier that is
  already in the table runs into its primary key. \<open>request_digest\<close> is the SHA-256 of the
  command's JSON, \<open>body_json_len\<close> the length of a report body's JSON.\<close>

record env =
  op_clock :: int
  event_clock :: int
  new_attempt_id :: uuid
  new_report_id :: uuid
  request_digest :: "task_command \<Rightarrow> digest"
  body_json_len :: "report_body \<Rightarrow> nat"

section \<open>Errors of a command\<close>

record task_error =
  err_code :: router_error_code
  err_current_version :: "int option"
  err_operation_id :: "uuid option"

definition task_error_code :: "router_error_code \<Rightarrow> uuid option \<Rightarrow> task_error" where
  "task_error_code code op =
     \<lparr>err_code = code, err_current_version = None, err_operation_id = op\<rparr>"

definition task_error_conflict :: "int \<Rightarrow> uuid \<Rightarrow> task_error" where
  "task_error_conflict version op =
     \<lparr>err_code = TaskConflict, err_current_version = Some version, err_operation_id = Some op\<rparr>"

section \<open>Validation of a command\<close>

definition require_executor :: "caller_context \<Rightarrow> uuid option \<Rightarrow> task_error + unit" where
  "require_executor caller op =
     (if (cc_role caller = Agent \<or> cc_role caller = Delegate) \<and> cc_agent_id caller \<noteq> None
      then Inr () else Inl (task_error_code PermissionDenied op))"

fun validate_body :: "env \<Rightarrow> caller_context \<Rightarrow> task_command \<Rightarrow> task_error + unit" where
  "validate_body ev caller (CmdCreate op title description) =
     map_err (\<lambda>_. task_error_code InvalidMessage (Some op))
       (bindR (validate_title title) (\<lambda>_. validate_description description))"
| "validate_body ev caller (CmdEdit op _ _ title description) =
     bindR (guardR (\<not> (title = None \<and> description = None))
              (task_error_code InvalidMessage (Some op))) (\<lambda>_.
     bindR (case title of None \<Rightarrow> Inr () | Some t \<Rightarrow>
              map_err (\<lambda>_. task_error_code InvalidMessage (Some op)) (validate_title t)) (\<lambda>_.
     case description of None \<Rightarrow> Inr () | Some d \<Rightarrow>
       map_err (\<lambda>_. task_error_code InvalidMessage (Some op)) (validate_description d)))"
| "validate_body ev caller (CmdAssign op _ _ agent_id) =
     guardR (case agent_id of None \<Rightarrow> True | Some a \<Rightarrow> is_agent_id a)
       (task_error_code InvalidMessage (Some op))"
| "validate_body ev caller (CmdNote op _ text) =
     map_err (\<lambda>_. task_error_code InvalidMessage (Some op)) (validate_note text)"
| "validate_body ev caller (CmdBegin op _ work_request_id _ _ resume_note) =
     bindR (map_err (\<lambda>_. task_error_code InvalidMessage (Some op))
              (validate_handoff_note resume_note)) (\<lambda>_.
     bindR (guardR (is_request_id work_request_id)
              (task_error_code InvalidMessage (Some op))) (\<lambda>_.
     require_executor caller (Some op)))"
| "validate_body ev caller (CmdCheckpoint op _ _ _ checkpoint) =
     bindR (map_err (\<lambda>_. task_error_code InvalidMessage (Some op))
              (checkpoint_validate (body_json_len ev) checkpoint)) (\<lambda>_.
     require_executor caller (Some op))"
| "validate_body ev caller (CmdPause op _ _ _ checkpoint _) =
     bindR (map_err (\<lambda>_. task_error_code InvalidMessage (Some op))
              (checkpoint_validate (body_json_len ev) checkpoint)) (\<lambda>_.
     require_executor caller (Some op))"
| "validate_body ev caller (CmdComplete op _ _ _ result) =
     bindR (map_err (\<lambda>_. task_error_code InvalidMessage (Some op))
              (checkpoint_validate (body_json_len ev) result)) (\<lambda>_.
     require_executor caller (Some op))"
| "validate_body ev caller (CmdCancel op _ _ note) =
     map_err (\<lambda>_. task_error_code InvalidMessage (Some op)) (validate_handoff_note note)"
| "validate_body ev caller (CmdReopen op _ _ note) =
     map_err (\<lambda>_. task_error_code InvalidMessage (Some op)) (validate_handoff_note note)"
| "validate_body ev caller (CmdInterrupt op _ _ note) =
     map_err (\<lambda>_. task_error_code InvalidMessage (Some op)) (validate_handoff_note note)"
| "validate_body ev caller (CmdConfirmStopped op _ _ _ note) =
     map_err (\<lambda>_. task_error_code InvalidMessage (Some op)) (validate_handoff_note note)"

fun operator_only :: "task_command \<Rightarrow> bool" where
  "operator_only (CmdInterrupt _ _ _ _) = True"
| "operator_only (CmdConfirmStopped _ _ _ _ _) = True"
| "operator_only _ = False"

definition validate_command :: "env \<Rightarrow> caller_context \<Rightarrow> task_command \<Rightarrow> task_error + unit" where
  "validate_command ev caller command =
     bindR (validate_body ev caller command) (\<lambda>_.
       if operator_only command \<and> \<not> (cc_role caller = Operator \<or> cc_role caller = Admin)
       then Inl (task_error_code PermissionDenied (Some (operation_id command)))
       else Inr ())"

section \<open>Lemmas\<close>

lemma parse_task_state_as_str [simp]: "parse_task_state (state_as_str s) = Some s"
  by (cases s) (simp_all add: parse_task_state_def)

lemma parse_attempt_status_as_str [simp]:
  "parse_attempt_status (attempt_status_as_str s) = Some s"
  by (cases s) (simp_all add: parse_attempt_status_def)

lemma parse_stop_evidence_as_str [simp]: "parse_stop_evidence (stop_evidence_as_str e) = Some e"
  by (cases e) (simp_all add: parse_stop_evidence_def)

lemma parse_pause_reason_as_str [simp]: "parse_pause_reason (pause_reason_as_str r) = Some r"
  by (cases r) (simp_all add: parse_pause_reason_def)

lemma parse_report_kind_as_str [simp]: "parse_report_kind (report_kind_as_str k) = Some k"
  by (cases k) (simp_all add: parse_report_kind_def)

lemma parse_external_provider_as_str [simp]:
  "parse_external_provider (provider_as_str p) = Some p"
  by (cases p) (simp_all add: parse_external_provider_def)

lemma task_error_code_simps [simp]:
  "err_code (task_error_code c op) = c"
  "err_current_version (task_error_code c op) = None"
  "err_operation_id (task_error_code c op) = op"
  by (simp_all add: task_error_code_def)

lemma validate_text_ok [simp]: "validate_text v n = Inr u \<longleftrightarrow> length v \<le> n"
  by (auto simp: validate_text_def)

lemma validate_nonempty_text_ok [simp]:
  "validate_nonempty_text v n = Inr u \<longleftrightarrow> v \<noteq> [] \<and> length v \<le> n"
  by (auto simp: validate_nonempty_text_def)

lemma validate_title_ok:
  "validate_title t = Inr u \<longleftrightarrow> t \<noteq> [] \<and> length t \<le> 1024 \<and> scalar_count t \<le> 256"
  by (auto simp: validate_title_def bindR_eq_Inr MAX_TITLE_BYTES_def MAX_TITLE_SCALARS_def)

lemma foldR_unit_ok: "foldR (\<lambda>x _. f x) xs () = Inr () \<longleftrightarrow> (\<forall>x\<in>set xs. f x = Inr ())"
  by (induction xs) (auto simp: bindR_eq_Inr)

lemma checkpoint_validate_ok:
  "checkpoint_validate jlen c = Inr u \<longleftrightarrow>
     ck_summary c \<noteq> [] \<and> length (ck_summary c) \<le> 8192 \<and> length (ck_next_steps c) \<le> 8192 \<and>
     length (ck_risks c) \<le> 8192 \<and> length (ck_artifacts c) \<le> 32 \<and>
     (\<forall>a\<in>set (ck_artifacts c). a \<noteq> [] \<and> length a \<le> 512) \<and>
     jlen (BodyCheckpoint c) \<le> 32768"
  by (auto simp: checkpoint_validate_def bindR_eq_Inr foldR_unit_ok MAX_CHECKPOINT_TEXT_BYTES_def
      MAX_ARTIFACTS_def MAX_ARTIFACT_BYTES_def MAX_CHECKPOINT_BYTES_def)

end
