(* ===== verification/Store_Schema.thy ===== *)
theory Store_Schema
  imports Task_Commands
begin

text \<open>
  The database of \<^verbatim>\<open>src/store.rs\<close>: one record per table of \<^verbatim>\<open>SCHEMA\<close> and
  \<^verbatim>\<open>ONBOARDING_SCHEMA\<close>, the \<^verbatim>\<open>CHECK\<close> constraints as predicates on rows, and each
  \<^verbatim>\<open>INSERT\<close> and \<^verbatim>\<open>UPDATE\<close> the program issues as a function that evaluates the
  constraints, unique indexes and immediate foreign keys before it changes the table.
  Columns of enumeration type hold the value; the text SQLite keeps is its \<^verbatim>\<open>as_str\<close>, and
  the round trips of \<open>Protocol_Core\<close> and \<open>Task_Commands\<close> show that reading it back gives
  the value. Faults of the storage medium are not modelled: a statement fails only for a
  constraint.
\<close>

section \<open>Errors\<close>

datatype sql_error =
    ConstraintCheck | ConstraintUnique | ConstraintPrimaryKey | ConstraintForeignKey
  | QueryReturnedNoRows | InvalidQuery

datatype store_error =
    SInUse | SConflict | SWorkspaceNotFound | SRequestNotFound | SUnsupportedSchema
  | SSqlite sql_error | SIo | SInvalidData | SOverflow

fun store_error_code :: "store_error \<Rightarrow> router_error_code" where
  "store_error_code SInUse = StoreInUse"
| "store_error_code SConflict = RequestConflict"
| "store_error_code SWorkspaceNotFound = WorkspaceNotFound"
| "store_error_code SRequestNotFound = RequestNotFound"
| "store_error_code SUnsupportedSchema = ConfigurationRequired"
| "store_error_code SInvalidData = ConfigurationRequired"
| "store_error_code (SSqlite _) = StorageError"
| "store_error_code SIo = StorageError"
| "store_error_code SOverflow = StorageError"

definition is_constraint :: "sql_error \<Rightarrow> bool" where
  "is_constraint e = (e \<in> {ConstraintCheck, ConstraintUnique, ConstraintPrimaryKey, ConstraintForeignKey})"

text \<open>The clock reading \<open>t\<close> is what \<^verbatim>\<open>SystemTime::now()\<close> gives, in milliseconds.\<close>

definition now_millis :: "int \<Rightarrow> store_error + int" where
  "now_millis t = (if t < 0 then Inl SInvalidData else if t > I64_MAX then Inl SOverflow else Inr t)"

section \<open>Rows\<close>

datatype event_content =
    ContentText string | ContentTask task_event | ContentIntegration integration_event

record workspace_event =
  we_workspace :: workspace_name
  we_seq :: int
  we_kind :: workspace_event_kind
  we_actor_id :: string
  we_created_at :: int
  we_request_id :: "string option"
  we_target_id :: "string option"
  we_task_id :: "int option"
  we_content :: "event_content option"
  we_ok :: "bool option"
  we_error :: "router_error_code option"

record workspace_row =
  w_name :: workspace_name
  w_created_at :: int
  w_next_seq :: int
  w_next_task_id :: int

record credential_row =
  c_id :: uuid
  c_token_hash :: digest
  c_role :: credential_role
  c_subject :: string
  c_agent_side :: "agent_side option"
  c_agent_client :: "agent_client option"
  c_workspaces :: "workspace_name list"
  c_created_at :: int
  c_revoked_at :: "int option"

record task_row =
  t_workspace :: workspace_name
  t_id :: int
  t_version :: int
  t_title :: string
  t_description :: string
  t_state :: task_state
  t_assigned_agent_id :: "string option"
  t_current_attempt_id :: "uuid option"
  t_last_attempt_id :: "uuid option"
  t_last_checkpoint_id :: "uuid option"
  t_result_report_id :: "uuid option"
  t_pause_reason :: "pause_reason option"
  t_created_by :: string
  t_updated_by :: string
  t_created_at :: int
  t_updated_at :: int

record attempt_row =
  a_id :: uuid
  a_workspace :: workspace_name
  a_task_id :: int
  a_agent_id :: string
  a_credential_id :: uuid
  a_session_id :: uuid
  a_connection_generation :: int
  a_work_request_id :: string
  a_resumed_from_checkpoint_id :: "uuid option"
  a_status :: attempt_status
  a_stop_evidence :: stop_evidence
  a_reason :: "pause_reason option"
  a_started_at :: int
  a_ended_at :: "int option"
  a_stopped_at :: "int option"

record report_row =
  r_id :: uuid
  r_workspace :: workspace_name
  r_task_id :: int
  r_attempt_id :: "uuid option"
  r_actor_id :: string
  r_kind :: report_kind
  r_body :: report_body
  r_created_at :: int

record mutation_row =
  m_workspace :: workspace_name
  m_operation_id :: uuid
  m_actor_id :: string
  m_request_hash :: digest
  m_task_id :: int
  m_applied_version :: int
  m_attempt_id :: "uuid option"
  m_report_id :: "uuid option"
  m_created_at :: int

record link_row =
  l_workspace :: workspace_name
  l_task_id :: int
  l_link :: external_link

datatype operation_phase = Prepared | Dispatched | Terminal

text \<open>\<^verbatim>\<open>OperationPayload\<close> of \<^verbatim>\<open>src/integrations/mod.rs\<close>, which \<^verbatim>\<open>payload_json\<close> holds. The fields
  stand in the order of the source's variants.\<close>

datatype operation_payload =
    PayImport string
  | PayLink string int bool
  | PayPublishIssue uuid string string string
  | PayPublishReport uuid string uuid string string

record external_operation_row =
  x_workspace :: workspace_name
  x_operation_id :: uuid
  x_actor_id :: string
  x_provider :: external_provider
  x_namespace :: string
  x_kind :: external_operation_kind
  x_task_id :: "int option"
  x_source_version :: "int option"
  x_request_hash :: digest
  x_payload :: operation_payload
  x_phase :: operation_phase
  x_status :: external_operation_status
  x_external_id :: "string option"
  x_url :: "string option"
  x_error :: "string option"
  x_created_at :: int
  x_updated_at :: int

record resolution_row =
  v_workspace :: workspace_name
  v_request_hash :: digest
  v_resolution :: external_resolution

record binding_row =
  b_workspace :: workspace_name
  b_provider :: external_provider
  b_target :: string
  b_access :: integration_access
  b_enabled :: bool
  b_config_hash :: digest
  b_revision :: int
  b_updated_at :: int

datatype onboarding_provider = ProvClaudeCode | ProvCodexCli | ProvOmp

record invite_row =
  i_id :: uuid
  i_token_hash :: digest
  i_provider :: "onboarding_provider option"
  i_workspace :: workspace_name
  i_subject :: string
  i_created_at :: int
  i_expires_at :: int
  i_revoked_at :: "int option"
  i_enrollment_id :: "uuid option"
  i_credential_id :: "uuid option"
  i_redeemed_at :: "int option"

record db =
  workspaces :: "workspace_row list"
  events :: "workspace_event list"
  credentials :: "credential_row list"
  tasks :: "task_row list"
  attempts :: "attempt_row list"
  reports :: "report_row list"
  mutations :: "mutation_row list"
  links :: "link_row list"
  external_operations :: "external_operation_row list"
  resolutions :: "resolution_row list"
  bindings :: "binding_row list"
  server_id :: uuid
  invites :: "invite_row list"

section \<open>Keys\<close>

definition t_key :: "task_row \<Rightarrow> workspace_name \<times> int" where
  "t_key t = (t_workspace t, t_id t)"

definition a_key :: "attempt_row \<Rightarrow> workspace_name \<times> int" where
  "a_key a = (a_workspace a, a_task_id a)"

definition r_key :: "report_row \<Rightarrow> workspace_name \<times> int" where
  "r_key r = (r_workspace r, r_task_id r)"

definition m_key :: "mutation_row \<Rightarrow> workspace_name \<times> uuid" where
  "m_key m = (m_workspace m, m_operation_id m)"

definition e_key :: "workspace_event \<Rightarrow> workspace_name \<times> int" where
  "e_key e = (we_workspace e, we_seq e)"

definition x_key :: "external_operation_row \<Rightarrow> workspace_name \<times> uuid" where
  "x_key x = (x_workspace x, x_operation_id x)"

text \<open>The primary key of a link and its other unique key.\<close>

definition l_key :: "link_row \<Rightarrow> workspace_name \<times> int \<times> external_provider" where
  "l_key l = (l_workspace l, l_task_id l, el_provider (l_link l))"

definition l_external :: "link_row \<Rightarrow> external_provider \<times> string \<times> string" where
  "l_external l = (el_provider (l_link l), el_namespace (l_link l), el_external_id (l_link l))"

definition v_key :: "resolution_row \<Rightarrow> workspace_name \<times> uuid" where
  "v_key v = (v_workspace v, er_id (v_resolution v))"

definition v_operation :: "resolution_row \<Rightarrow> workspace_name \<times> uuid" where
  "v_operation v = (v_workspace v, er_operation_id (v_resolution v))"

definition b_key :: "binding_row \<Rightarrow> workspace_name \<times> external_provider" where
  "b_key b = (b_workspace b, b_provider b)"

section \<open>CHECK constraints\<close>

definition safe_time :: "int \<Rightarrow> bool" where
  "safe_time t = (0 \<le> t \<and> t \<le> MAX_SAFE_INTEGER)"

definition safe_id :: "int \<Rightarrow> bool" where
  "safe_id n = (1 \<le> n \<and> n \<le> MAX_SAFE_INTEGER)"

definition opt_all :: "('a \<Rightarrow> bool) \<Rightarrow> 'a option \<Rightarrow> bool" where
  "opt_all P x = (case x of None \<Rightarrow> True | Some v \<Rightarrow> P v)"

definition workspace_check :: "workspace_row \<Rightarrow> bool" where
  "workspace_check w =
     (safe_time (w_created_at w) \<and> safe_id (w_next_seq w) \<and> safe_id (w_next_task_id w))"

fun event_shape :: "workspace_event_kind \<Rightarrow> workspace_event \<Rightarrow> bool" where
  "event_shape KChat e =
     (we_content e \<noteq> None \<and> we_request_id e \<noteq> None \<and> we_target_id e = None \<and>
      we_task_id e = None \<and> we_ok e = None \<and> we_error e = None)"
| "event_shape KRequest e =
     (we_content e \<noteq> None \<and> we_request_id e \<noteq> None \<and> we_target_id e \<noteq> None \<and>
      we_ok e = None \<and> we_error e = None)"
| "event_shape KResult e =
     (we_request_id e \<noteq> None \<and> we_target_id e \<noteq> None \<and>
      (we_ok e = Some True \<and> we_content e \<noteq> None \<and> we_error e = None \<or>
       we_ok e = Some False \<and> we_content e = None \<and> we_error e \<noteq> None))"
| "event_shape KMemberJoined e =
     (we_request_id e = None \<and> we_target_id e = None \<and> we_task_id e = None \<and>
      we_content e = None \<and> we_ok e = None \<and> we_error e = None)"
| "event_shape KMemberLeft e =
     (we_request_id e = None \<and> we_target_id e = None \<and> we_task_id e = None \<and>
      we_content e = None \<and> we_ok e = None \<and> we_error e = None)"
| "event_shape KTask e =
     (we_request_id e = None \<and> we_target_id e = None \<and> we_content e \<noteq> None \<and>
      we_ok e = None \<and> we_error e = None)"
| "event_shape KIntegration e =
     (we_request_id e = None \<and> we_target_id e = None \<and> we_content e \<noteq> None \<and>
      we_ok e = None \<and> we_error e = None)"

definition event_check :: "workspace_event \<Rightarrow> bool" where
  "event_check e =
     (safe_id (we_seq e) \<and> 1 \<le> sql_length (we_actor_id e) \<and> sql_length (we_actor_id e) \<le> 128 \<and>
      safe_time (we_created_at e) \<and> opt_all safe_id (we_task_id e) \<and> event_shape (we_kind e) e)"

definition credential_check :: "credential_row \<Rightarrow> bool" where
  "credential_check c =
     (1 \<le> sql_length (c_subject c) \<and> sql_length (c_subject c) \<le> 128 \<and>
      length (c_workspaces c) \<le> 64 \<and> safe_time (c_created_at c) \<and>
      opt_all safe_time (c_revoked_at c) \<and>
      (c_role c = RoleAgent \<and> c_agent_side c \<noteq> None \<and> c_agent_client c \<noteq> None \<or>
       c_role c = RoleOperator \<and> c_agent_side c = None \<and> c_agent_client c = None))"

definition task_check :: "task_row \<Rightarrow> bool" where
  "task_check t =
     (safe_id (t_id t) \<and> safe_id (t_version t) \<and>
      0 < sql_length (t_title t) \<and> length (t_title t) \<le> 1024 \<and>
      length (t_description t) \<le> 65536 \<and>
      safe_time (t_created_at t) \<and> safe_time (t_updated_at t) \<and>
      (t_state t = InProgress \<and> t_current_attempt_id t \<noteq> None \<or>
       t_state t \<noteq> InProgress \<and> t_current_attempt_id t = None) \<and>
      (t_state t \<notin> {Done, Cancelled} \<or> t_assigned_agent_id t = None))"

definition attempt_check :: "attempt_row \<Rightarrow> bool" where
  "attempt_check a =
     (safe_id (a_connection_generation a) \<and> safe_time (a_started_at a) \<and>
      opt_all safe_time (a_ended_at a) \<and> opt_all safe_time (a_stopped_at a) \<and>
      (a_status a = Running \<and> a_ended_at a = None \<and> a_stop_evidence a = EvUnknown \<or>
       a_status a \<noteq> Running \<and> a_ended_at a \<noteq> None))"

definition report_check :: "(report_body \<Rightarrow> nat) \<Rightarrow> report_row \<Rightarrow> bool" where
  "report_check jlen r = (jlen (r_body r) \<le> 131072 \<and> safe_time (r_created_at r))"

definition invite_check :: "invite_row \<Rightarrow> bool" where
  "invite_check i =
     (safe_time (i_created_at i) \<and> i_expires_at i = i_created_at i + 600000 \<and>
      i_expires_at i \<le> MAX_SAFE_INTEGER \<and> opt_all safe_time (i_revoked_at i) \<and>
      opt_all (\<lambda>t. 0 \<le> t \<and> t < i_expires_at i) (i_redeemed_at i) \<and>
      (i_enrollment_id i = None \<and> i_credential_id i = None \<and> i_redeemed_at i = None \<or>
       i_enrollment_id i \<noteq> None \<and> i_credential_id i \<noteq> None \<and> i_redeemed_at i \<noteq> None))"

definition resolution_check :: "resolution_row \<Rightarrow> bool" where
  "resolution_check v =
     (1 \<le> length (er_note (v_resolution v)) \<and> length (er_note (v_resolution v)) \<le> 4096)"

definition binding_check :: "binding_row \<Rightarrow> bool" where
  "binding_check b = (1 \<le> b_revision b \<and> safe_time (b_updated_at b))"

section \<open>Unique indexes\<close>

definition is_running :: "attempt_row \<Rightarrow> bool" where
  "is_running a = (a_status a = Running)"

text \<open>The predicate of \<^verbatim>\<open>agent_execution_barrier_unique\<close>: the attempt still runs, or was
  interrupted and nobody has evidence that it stopped.\<close>

definition is_barrier :: "attempt_row \<Rightarrow> bool" where
  "is_barrier a =
     (a_status a = Running \<or> a_status a = Interrupted \<and> a_stop_evidence a = EvUnknown)"

definition attempts_unique :: "attempt_row list \<Rightarrow> bool" where
  "attempts_unique rows =
     (distinct (map a_key (filter is_running rows)) \<and>
      distinct (map a_agent_id (filter is_barrier rows)))"

definition event_conflict :: "workspace_event \<Rightarrow> workspace_event \<Rightarrow> bool" where
  "event_conflict e f =
     (we_workspace e = we_workspace f \<and> we_kind e = we_kind f \<and>
      we_request_id e = we_request_id f \<and> we_request_id e \<noteq> None \<and>
      (we_kind e = KRequest \<or> we_kind e = KResult \<or>
       we_kind e = KChat \<and> we_actor_id e = we_actor_id f))"

section \<open>INSERT statements\<close>

definition task_exists :: "db \<Rightarrow> workspace_name \<times> int \<Rightarrow> bool" where
  "task_exists d k = exists_row (\<lambda>t. t_key t = k) (tasks d)"

definition insert_workspace :: "workspace_row \<Rightarrow> db \<Rightarrow> sql_error + db \<times> nat" where
  "insert_workspace w d =
     (if \<not> workspace_check w then Inl ConstraintCheck
      else if exists_row (\<lambda>v. w_name v = w_name w) (workspaces d) then Inr (d, 0)
      else Inr (d\<lparr>workspaces := workspaces d @ [w]\<rparr>, 1))"

definition insert_event :: "workspace_event \<Rightarrow> db \<Rightarrow> sql_error + db" where
  "insert_event e d =
     (if \<not> event_check e then Inl ConstraintCheck
      else if exists_row (\<lambda>f. e_key f = e_key e) (events d) then Inl ConstraintPrimaryKey
      else if exists_row (event_conflict e) (events d) then Inl ConstraintUnique
      else if \<not> exists_row (\<lambda>w. w_name w = we_workspace e) (workspaces d)
        then Inl ConstraintForeignKey
      else Inr (d\<lparr>events := events d @ [e]\<rparr>))"

definition insert_credential_row :: "credential_row \<Rightarrow> db \<Rightarrow> sql_error + db" where
  "insert_credential_row c d =
     (if \<not> credential_check c then Inl ConstraintCheck
      else if exists_row (\<lambda>r. c_id r = c_id c) (credentials d) then Inl ConstraintPrimaryKey
      else if exists_row (\<lambda>r. c_token_hash r = c_token_hash c) (credentials d)
        then Inl ConstraintUnique
      else Inr (d\<lparr>credentials := credentials d @ [c]\<rparr>))"

definition insert_task :: "task_row \<Rightarrow> db \<Rightarrow> sql_error + db" where
  "insert_task t d =
     (if \<not> task_check t then Inl ConstraintCheck
      else if task_exists d (t_key t) then Inl ConstraintPrimaryKey
      else if \<not> exists_row (\<lambda>w. w_name w = t_workspace t) (workspaces d)
        then Inl ConstraintForeignKey
      else Inr (d\<lparr>tasks := tasks d @ [t]\<rparr>))"

definition insert_attempt :: "attempt_row \<Rightarrow> db \<Rightarrow> sql_error + db" where
  "insert_attempt a d =
     (if \<not> attempt_check a then Inl ConstraintCheck
      else if exists_row (\<lambda>b. a_id b = a_id a) (attempts d) then Inl ConstraintPrimaryKey
      else if is_running a \<and> exists_row (\<lambda>b. is_running b \<and> a_key b = a_key a) (attempts d)
        then Inl ConstraintUnique
      else if is_barrier a \<and> exists_row (\<lambda>b. is_barrier b \<and> a_agent_id b = a_agent_id a) (attempts d)
        then Inl ConstraintUnique
      else if \<not> exists_row (\<lambda>c. c_id c = a_credential_id a) (credentials d)
        then Inl ConstraintForeignKey
      else if \<not> task_exists d (a_key a) then Inl ConstraintForeignKey
      else Inr (d\<lparr>attempts := attempts d @ [a]\<rparr>))"

definition insert_report :: "(report_body \<Rightarrow> nat) \<Rightarrow> report_row \<Rightarrow> db \<Rightarrow> sql_error + db" where
  "insert_report jlen r d =
     (if \<not> report_check jlen r then Inl ConstraintCheck
      else if exists_row (\<lambda>s. r_id s = r_id r) (reports d) then Inl ConstraintPrimaryKey
      else if \<not> opt_all (\<lambda>i. exists_row (\<lambda>a. a_id a = i) (attempts d)) (r_attempt_id r)
        then Inl ConstraintForeignKey
      else if \<not> task_exists d (r_key r) then Inl ConstraintForeignKey
      else Inr (d\<lparr>reports := reports d @ [r]\<rparr>))"

definition insert_mutation :: "mutation_row \<Rightarrow> db \<Rightarrow> sql_error + db" where
  "insert_mutation m d =
     (if exists_row (\<lambda>n. m_key n = m_key m) (mutations d) then Inl ConstraintPrimaryKey
      else if \<not> opt_all (\<lambda>i. exists_row (\<lambda>r. r_id r = i) (reports d)) (m_report_id m)
        then Inl ConstraintForeignKey
      else if \<not> task_exists d (m_workspace m, m_task_id m) then Inl ConstraintForeignKey
      else Inr (d\<lparr>mutations := mutations d @ [m]\<rparr>))"

definition insert_invite :: "invite_row \<Rightarrow> db \<Rightarrow> sql_error + db" where
  "insert_invite i d =
     (if \<not> invite_check i then Inl ConstraintCheck
      else if exists_row (\<lambda>j. i_id j = i_id i) (invites d) then Inl ConstraintPrimaryKey
      else if exists_row (\<lambda>j. i_token_hash j = i_token_hash i \<or> i_subject j = i_subject i) (invites d)
        then Inl ConstraintUnique
      else if \<not> exists_row (\<lambda>w. w_name w = i_workspace i) (workspaces d)
        then Inl ConstraintForeignKey
      else if \<not> opt_all (\<lambda>c. exists_row (\<lambda>r. c_id r = c) (credentials d)) (i_credential_id i)
        then Inl ConstraintForeignKey
      else Inr (d\<lparr>invites := invites d @ [i]\<rparr>))"

definition insert_link :: "link_row \<Rightarrow> db \<Rightarrow> sql_error + db" where
  "insert_link l d =
     (if \<not> safe_time (el_linked_at (l_link l)) then Inl ConstraintCheck
      else if exists_row (\<lambda>k. l_key k = l_key l) (links d) then Inl ConstraintPrimaryKey
      else if exists_row (\<lambda>k. l_external k = l_external l) (links d) then Inl ConstraintUnique
      else if \<not> task_exists d (l_workspace l, l_task_id l) then Inl ConstraintForeignKey
      else Inr (d\<lparr>links := links d @ [l]\<rparr>))"

text \<open>\<^verbatim>\<open>INSERT .. ON CONFLICT(workspace,task_id,provider) DO UPDATE SET ..\<close>: the row of the task and
  provider, when there is one, takes the new namespace, id, URL and time.\<close>

definition upsert_link :: "link_row \<Rightarrow> db \<Rightarrow> sql_error + db" where
  "upsert_link l d =
     (if \<not> exists_row (\<lambda>k. l_key k = l_key l) (links d) then insert_link l d
      else if \<not> safe_time (el_linked_at (l_link l)) then Inl ConstraintCheck
      else if exists_row (\<lambda>k. l_key k \<noteq> l_key l \<and> l_external k = l_external l) (links d)
        then Inl ConstraintUnique
      else Inr (d\<lparr>links := update_where (\<lambda>k. l_key k = l_key l) (\<lambda>_. l) (links d)\<rparr>))"

text \<open>\<open>plen\<close> is the length of \<^verbatim>\<open>payload_json\<close>.\<close>

definition insert_operation ::
  "(operation_payload \<Rightarrow> nat) \<Rightarrow> external_operation_row \<Rightarrow> db \<Rightarrow> sql_error + db" where
  "insert_operation plen x d =
     (if \<not> plen (x_payload x) \<le> 131072 then Inl ConstraintCheck
      else if exists_row (\<lambda>y. x_key y = x_key x) (external_operations d)
        then Inl ConstraintPrimaryKey
      else if \<not> opt_all (\<lambda>i. task_exists d (x_workspace x, i)) (x_task_id x)
        then Inl ConstraintForeignKey
      else Inr (d\<lparr>external_operations := external_operations d @ [x]\<rparr>))"

definition insert_resolution_row :: "resolution_row \<Rightarrow> db \<Rightarrow> sql_error + db" where
  "insert_resolution_row v d =
     (if \<not> resolution_check v then Inl ConstraintCheck
      else if exists_row (\<lambda>u. v_key u = v_key v) (resolutions d) then Inl ConstraintPrimaryKey
      else if exists_row (\<lambda>u. v_operation u = v_operation v) (resolutions d)
        then Inl ConstraintUnique
      else if \<not> exists_row (\<lambda>x. x_key x = v_operation v) (external_operations d)
        then Inl ConstraintForeignKey
      else Inr (d\<lparr>resolutions := resolutions d @ [v]\<rparr>))"

definition upsert_binding :: "binding_row \<Rightarrow> db \<Rightarrow> sql_error + db" where
  "upsert_binding b d =
     (if \<not> binding_check b then Inl ConstraintCheck
      else if exists_row (\<lambda>k. b_key k = b_key b) (bindings d)
        then Inr (d\<lparr>bindings := update_where (\<lambda>k. b_key k = b_key b) (\<lambda>_. b) (bindings d)\<rparr>)
      else if \<not> exists_row (\<lambda>w. w_name w = b_workspace b) (workspaces d)
        then Inl ConstraintForeignKey
      else Inr (d\<lparr>bindings := bindings d @ [b]\<rparr>))"

section \<open>UPDATE statements\<close>

text \<open>Each returns the new database and the number of rows changed. No statement of the
  program changes a primary key.\<close>

definition update_workspaces ::
  "(workspace_row \<Rightarrow> bool) \<Rightarrow> (workspace_row \<Rightarrow> workspace_row) \<Rightarrow> db \<Rightarrow> sql_error + db \<times> nat" where
  "update_workspaces P f d =
     (if \<exists>w\<in>set (workspaces d). P w \<and> \<not> workspace_check (f w) then Inl ConstraintCheck
      else Inr (d\<lparr>workspaces := update_where P f (workspaces d)\<rparr>, count_where P (workspaces d)))"

definition update_tasks ::
  "(task_row \<Rightarrow> bool) \<Rightarrow> (task_row \<Rightarrow> task_row) \<Rightarrow> db \<Rightarrow> sql_error + db \<times> nat" where
  "update_tasks P f d =
     (if \<exists>t\<in>set (tasks d). P t \<and> \<not> task_check (f t) then Inl ConstraintCheck
      else Inr (d\<lparr>tasks := update_where P f (tasks d)\<rparr>, count_where P (tasks d)))"

definition update_attempts ::
  "(attempt_row \<Rightarrow> bool) \<Rightarrow> (attempt_row \<Rightarrow> attempt_row) \<Rightarrow> db \<Rightarrow> sql_error + db \<times> nat" where
  "update_attempts P f d =
     (if \<exists>a\<in>set (attempts d). P a \<and> \<not> attempt_check (f a) then Inl ConstraintCheck
      else if \<not> attempts_unique (update_where P f (attempts d)) then Inl ConstraintUnique
      else Inr (d\<lparr>attempts := update_where P f (attempts d)\<rparr>, count_where P (attempts d)))"

definition update_credentials ::
  "(credential_row \<Rightarrow> bool) \<Rightarrow> (credential_row \<Rightarrow> credential_row) \<Rightarrow> db \<Rightarrow> sql_error + db \<times> nat" where
  "update_credentials P f d =
     (if \<exists>c\<in>set (credentials d). P c \<and> \<not> credential_check (f c) then Inl ConstraintCheck
      else Inr (d\<lparr>credentials := update_where P f (credentials d)\<rparr>, count_where P (credentials d)))"

definition update_invites ::
  "(invite_row \<Rightarrow> bool) \<Rightarrow> (invite_row \<Rightarrow> invite_row) \<Rightarrow> db \<Rightarrow> sql_error + db \<times> nat" where
  "update_invites P f d =
     (if \<exists>i\<in>set (invites d). P i \<and> \<not> invite_check (f i) then Inl ConstraintCheck
      else if \<exists>i\<in>set (invites d). P i \<and>
        \<not> opt_all (\<lambda>c. exists_row (\<lambda>r. c_id r = c) (credentials d)) (i_credential_id (f i))
        then Inl ConstraintForeignKey
      else Inr (d\<lparr>invites := update_where P f (invites d)\<rparr>, count_where P (invites d)))"

definition update_external_operations ::
  "(external_operation_row \<Rightarrow> bool) \<Rightarrow> (external_operation_row \<Rightarrow> external_operation_row) \<Rightarrow>
     db \<Rightarrow> sql_error + db \<times> nat" where
  "update_external_operations P f d =
     Inr (d\<lparr>external_operations := update_where P f (external_operations d)\<rparr>,
          count_where P (external_operations d))"

text \<open>The same statement when it also sets \<^verbatim>\<open>task_id\<close>, whose foreign key is then checked.\<close>

definition update_operation_tasks ::
  "(external_operation_row \<Rightarrow> bool) \<Rightarrow> (external_operation_row \<Rightarrow> external_operation_row) \<Rightarrow>
     db \<Rightarrow> sql_error + db \<times> nat" where
  "update_operation_tasks P f d =
     (if \<exists>x\<in>set (external_operations d). P x \<and>
        \<not> opt_all (\<lambda>i. task_exists d (x_workspace (f x), i)) (x_task_id (f x))
      then Inl ConstraintForeignKey
      else update_external_operations P f d)"

definition update_bindings ::
  "(binding_row \<Rightarrow> bool) \<Rightarrow> (binding_row \<Rightarrow> binding_row) \<Rightarrow> db \<Rightarrow> sql_error + db \<times> nat" where
  "update_bindings P f d =
     (if \<exists>b\<in>set (bindings d). P b \<and> \<not> binding_check (f b) then Inl ConstraintCheck
      else Inr (d\<lparr>bindings := update_where P f (bindings d)\<rparr>, count_where P (bindings d)))"

section \<open>COMMIT\<close>

text \<open>The foreign keys declared \<^verbatim>\<open>DEFERRABLE INITIALLY DEFERRED\<close> are checked here.\<close>

definition deferred_ok :: "db \<Rightarrow> bool" where
  "deferred_ok d =
     (list_all (\<lambda>t. opt_all (\<lambda>i. exists_row (\<lambda>a. a_id a = i) (attempts d)) (t_current_attempt_id t) \<and>
                    opt_all (\<lambda>i. exists_row (\<lambda>a. a_id a = i) (attempts d)) (t_last_attempt_id t) \<and>
                    opt_all (\<lambda>i. exists_row (\<lambda>r. r_id r = i) (reports d)) (t_last_checkpoint_id t) \<and>
                    opt_all (\<lambda>i. exists_row (\<lambda>r. r_id r = i) (reports d)) (t_result_report_id t))
        (tasks d) \<and>
      list_all (\<lambda>a. opt_all (\<lambda>i. exists_row (\<lambda>r. r_id r = i) (reports d))
                      (a_resumed_from_checkpoint_id a)) (attempts d))"

definition commit :: "db \<Rightarrow> sql_error + db" where
  "commit d = (if deferred_ok d then Inr d else Inl ConstraintForeignKey)"

end
