(* ===== verification/Paging.thy ===== *)
theory Paging
  imports Asr_Prelude
begin

text \<open>
  Cursor paging. Every listing of the router (\<^verbatim>\<open>history\<close>, \<^verbatim>\<open>task_history\<close>,
  \<^verbatim>\<open>list_tasks\<close>, \<^verbatim>\<open>list_credentials\<close>, \<^verbatim>\<open>list_workspace_rows\<close>) reads one row more than
  the limit, drops it, and returns the last key as the next cursor. The locale states what
  one page promises; inside it a client that follows the cursors is shown to see every row
  once, in order, and to stop.
\<close>

section \<open>The shared code\<close>

text \<open>\<^verbatim>\<open>let has_more = rows.len() > limit; if has_more { rows.pop(); }\<close>\<close>

definition pop_page :: "nat \<Rightarrow> 'r list \<Rightarrow> 'r list \<times> bool" where
  "pop_page limit fetched =
     (let has_more = limit < length fetched
      in (if has_more then butlast fetched else fetched, has_more))"

text \<open>\<^verbatim>\<open>rows.last().map_or(after, |row| key(row))\<close>\<close>

definition next_cursor :: "('r \<Rightarrow> 'k) \<Rightarrow> 'k \<Rightarrow> 'r list \<Rightarrow> 'k" where
  "next_cursor key after page = (if page = [] then after else key (last page))"

text \<open>A client that follows the cursors, with fuel: \<open>None\<close> when the fuel runs out, an error
  when a page fails.\<close>

fun collect_pages ::
  "nat \<Rightarrow> ('k \<Rightarrow> 'e + 'r list \<times> 'k \<times> bool) \<Rightarrow> 'k \<Rightarrow> ('e + 'r list) option" where
  "collect_pages 0 page after = None"
| "collect_pages (Suc n) page after =
     (case page after of
        Inl e \<Rightarrow> Some (Inl e)
      | Inr (rows, cursor, has_more) \<Rightarrow>
          if has_more then map_option (map_sum id ((@) rows)) (collect_pages n page cursor)
          else Some (Inr rows))"

section \<open>Lemmas\<close>

lemma pop_page_take_Suc:
  "pop_page limit (take (limit + 1) rows) = (take limit rows, limit < length rows)"
proof (cases "limit < length rows")
  case True
  then have "butlast (take (Suc limit) rows) = take limit rows"
    by (simp add: butlast_take)
  with True show ?thesis by (simp add: pop_page_def Let_def)
next
  case False
  then show ?thesis by (simp add: pop_page_def Let_def)
qed

lemma sorted_filter_after:
  fixes key :: "'r \<Rightarrow> 'k::linorder"
  assumes "sorted_wrt (<) (map key rows)" and "1 \<le> limit"
    and "later = filter (\<lambda>r. after < key r) rows" and "limit < length later"
  shows "filter (\<lambda>r. key (last (take limit later)) < key r) rows = drop limit later"
proof -
  let ?cut = "later ! (limit - 1)"
  have last: "last (take limit later) = ?cut"
    using assms(2,4) by (subst last_conv_nth) auto
  have srt: "sorted_wrt (\<lambda>r s. key r < key s) later"
    using assms(1,3) by (simp add: sorted_wrt_map sorted_wrt_filter)
  have cut_later: "?cut \<in> set later" using assms(2,4) by simp
  have "filter (\<lambda>r. key ?cut < key r) rows = filter (\<lambda>r. key ?cut < key r) later"
    using cut_later by (auto simp: assms(3) intro!: filter_cong intro: less_trans)
  also have "\<dots> = filter (\<lambda>r. key ?cut < key r) (take limit later @ drop limit later)"
    by simp
  also have "\<dots> = drop limit later"
  proof -
    have "\<not> key ?cut < key r" if "r \<in> set (take limit later)" for r
    proof -
      from that obtain i where i: "i < limit" "r = later ! i"
        using assms(4) by (auto simp: in_set_conv_nth)
      show ?thesis
      proof (cases "i = limit - 1")
        case True
        with i show ?thesis by simp
      next
        case False
        with i have "key r < key ?cut"
          using assms(4) by (auto intro!: sorted_wrt_nth_less [OF srt])
        then show ?thesis by simp
      qed
    qed
    moreover have "key ?cut < key r" if "r \<in> set (drop limit later)" for r
    proof -
      from that obtain i where "i < length later - limit" "r = later ! (limit + i)"
        by (auto simp: in_set_conv_nth)
      then show ?thesis
        using assms(2) by (auto intro!: sorted_wrt_nth_less [OF srt])
    qed
    ultimately have "filter (\<lambda>r. key ?cut < key r) (take limit later) = []"
      and "filter (\<lambda>r. key ?cut < key r) (drop limit later) = drop limit later"
      by (simp_all add: filter_empty_conv)
    then show ?thesis by (simp only: filter_append append_Nil)
  qed
  finally show ?thesis by (simp add: last)
qed

section \<open>The interface\<close>

text \<open>\<open>rows s q\<close> are the rows query \<open>q\<close> selects in state \<open>s\<close>, in key order; \<open>ready\<close> is when a
  cursor is acceptable; \<open>idle after\<close> is the cursor a page without rows returns.\<close>

locale paged_query =
  fixes invar :: "'s \<Rightarrow> bool"
    and ready :: "'s \<Rightarrow> 'q \<Rightarrow> 'k::linorder \<Rightarrow> bool"
    and rows :: "'s \<Rightarrow> 'q \<Rightarrow> 'r list"
    and key :: "'r \<Rightarrow> 'k"
    and idle :: "'k \<Rightarrow> 'k"
    and page :: "'s \<Rightarrow> 'q \<Rightarrow> 'k \<Rightarrow> nat \<Rightarrow> 'e + 'r list \<times> 'k \<times> bool"
  assumes rows_sorted: "invar s \<Longrightarrow> sorted_wrt (<) (map key (rows s q))"
    and page_ok: "invar s \<Longrightarrow> ready s q after \<Longrightarrow>
      page s q after limit =
        Inr (take limit (filter (\<lambda>r. after < key r) (rows s q)),
             next_cursor key (idle after) (take limit (filter (\<lambda>r. after < key r) (rows s q))),
             limit < length (filter (\<lambda>r. after < key r) (rows s q)))"
    and ready_row: "invar s \<Longrightarrow> ready s q after \<Longrightarrow> r \<in> set (rows s q) \<Longrightarrow> after < key r \<Longrightarrow>
      ready s q (key r)"
begin

lemma collect_complete:
  assumes "invar s" and "ready s q after" and "1 \<le> limit"
    and "length (filter (\<lambda>r. after < key r) (rows s q)) < fuel"
  shows "collect_pages fuel (\<lambda>c. page s q c limit) after =
           Some (Inr (filter (\<lambda>r. after < key r) (rows s q)))"
  using assms(2,4)
proof (induction fuel arbitrary: after)
  case 0
  then show ?case by simp
next
  case (Suc n)
  define later where "later = filter (\<lambda>r. after < key r) (rows s q)"
  note page = page_ok [OF assms(1) Suc.prems(1), of limit, folded later_def]
  show ?case
  proof (cases "limit < length later")
    case False
    then show ?thesis by (simp add: page later_def)
  next
    case True
    let ?c = "key (last (take limit later))"
    have ne: "take limit later \<noteq> []" using True assms(3) by auto
    have rest: "filter (\<lambda>r. ?c < key r) (rows s q) = drop limit later"
      using sorted_filter_after [OF rows_sorted [OF assms(1)] assms(3) later_def True] .
    have "last (take limit later) \<in> set later"
      using ne by (meson in_set_takeD last_in_set)
    then have ready': "ready s q ?c"
      using ready_row [OF assms(1) Suc.prems(1)] by (simp add: later_def)
    have "length (filter (\<lambda>r. ?c < key r) (rows s q)) < n"
      using Suc.prems(2) True assms(3) by (simp add: rest later_def [symmetric])
    from Suc.IH [OF ready' this] show ?thesis
      using True ne by (simp add: page next_cursor_def rest later_def [symmetric])
  qed
qed

lemma page_bounded:
  "invar s \<Longrightarrow> ready s q after \<Longrightarrow> page s q after limit = Inr (rs, c, more) \<Longrightarrow> length rs \<le> limit"
  by (auto simp: page_ok)

lemma page_progress:
  assumes "invar s" and "ready s q after" and "1 \<le> limit"
    and "page s q after limit = Inr (rs, c, True)"
  shows "after < c"
proof -
  let ?later = "filter (\<lambda>r. after < key r) (rows s q)"
  from assms have "limit < length ?later" "rs = take limit ?later" "c = next_cursor key (idle after) rs"
    by (auto simp: page_ok)
  moreover from this assms(3) have ne: "rs \<noteq> []" by auto
  moreover have "last rs \<in> set ?later"
    using calculation by (metis in_set_takeD last_in_set)
  ultimately show ?thesis by (simp add: next_cursor_def)
qed

end

end
