(* ===== verification/Event_Log.thy ===== *)
theory Event_Log
  imports Store_Schema Paging
begin

text \<open>
  Workspaces and their event logs: \<^verbatim>\<open>append_event_in_transaction\<close>, the idempotent chat
  append, the request append, workspace creation and the history queries of
  \<^verbatim>\<open>src/store.rs\<close>. A locale states what an append promises of the log; it is
  interpreted on the model, and \<^verbatim>\<open>history\<close> is interpreted as a paged query.
\<close>

section \<open>Operations\<close>

record event_insert =
  ei_workspace :: workspace_name
  ei_kind :: workspace_event_kind
  ei_actor_id :: string
  ei_request_id :: "string option"
  ei_target_id :: "string option"
  ei_task_id :: "int option"
  ei_content :: "event_content option"
  ei_ok :: "bool option"
  ei_error :: "router_error_code option"

definition can_bump_seq :: "workspace_name \<Rightarrow> workspace_row \<Rightarrow> bool" where
  "can_bump_seq ws w = (w_name w = ws \<and> w_next_seq w \<le> MAX_SAFE_INTEGER)"

definition bump_seq :: "workspace_row \<Rightarrow> workspace_row" where
  "bump_seq w = w\<lparr>w_next_seq := w_next_seq w + 1\<rparr>"

definition event_of_insert :: "event_insert \<Rightarrow> int \<Rightarrow> int \<Rightarrow> workspace_event" where
  "event_of_insert i seq created_at =
     \<lparr>we_workspace = ei_workspace i, we_seq = seq, we_kind = ei_kind i,
      we_actor_id = ei_actor_id i, we_created_at = created_at, we_request_id = ei_request_id i,
      we_target_id = ei_target_id i, we_task_id = ei_task_id i, we_content = ei_content i,
      we_ok = ei_ok i, we_error = ei_error i\<rparr>"

text \<open>\<open>clock\<close> is the reading of this call's \<^verbatim>\<open>now_millis()\<close>. The \<^verbatim>\<open>RETURNING\<close> clause
  yields the new \<^verbatim>\<open>next_seq\<close> minus one of the row the statement updated.\<close>

definition append_event_in_transaction ::
  "int \<Rightarrow> event_insert \<Rightarrow> db \<Rightarrow> store_error + db \<times> workspace_event" where
  "append_event_in_transaction clock i d =
     bindR (map_err SSqlite
              (update_workspaces (can_bump_seq (ei_workspace i)) bump_seq d)) (\<lambda>(d1, _).
     bindR (ok_or (map_option (\<lambda>w. w_next_seq (bump_seq w) - 1)
                     (find (can_bump_seq (ei_workspace i)) (workspaces d))) SOverflow) (\<lambda>seq.
     bindR (now_millis clock) (\<lambda>created_at.
     bindR (map_err SSqlite (insert_event (event_of_insert i seq created_at) d1)) (\<lambda>d2.
     Inr (d2, event_of_insert i seq created_at)))))"

definition append_event :: "int \<Rightarrow> event_insert \<Rightarrow> db \<Rightarrow> store_error + db \<times> workspace_event" where
  "append_event clock i d =
     bindR (append_event_in_transaction clock i d) (\<lambda>(d1, event).
     bindR (map_err SSqlite (commit d1)) (\<lambda>d2. Inr (d2, event)))"

record chat_append =
  ca_event :: workspace_event
  ca_inserted :: bool

definition chat_insert ::
  "workspace_name \<Rightarrow> string \<Rightarrow> string \<Rightarrow> string \<Rightarrow> event_insert" where
  "chat_insert workspace actor_id request_id content =
     \<lparr>ei_workspace = workspace, ei_kind = KChat, ei_actor_id = actor_id,
      ei_request_id = Some request_id, ei_target_id = None, ei_task_id = None,
      ei_content = Some (ContentText content), ei_ok = None, ei_error = None\<rparr>"

definition append_chat_idempotent ::
  "int \<Rightarrow> workspace_name \<Rightarrow> string \<Rightarrow> string \<Rightarrow> string \<Rightarrow> db \<Rightarrow> store_error + db \<times> chat_append" where
  "append_chat_idempotent clock workspace actor_id request_id content d =
     (case find (\<lambda>e. we_workspace e = workspace \<and> we_actor_id e = actor_id \<and>
                      we_request_id e = Some request_id \<and> we_kind e = KChat) (events d) of
        Some event \<Rightarrow>
          bindR (guardR (we_content event = Some (ContentText content)) SConflict) (\<lambda>_.
          bindR (map_err SSqlite (commit d)) (\<lambda>d1.
          Inr (d1, \<lparr>ca_event = event, ca_inserted = False\<rparr>)))
      | None \<Rightarrow>
          bindR (append_event_in_transaction clock
                   (chat_insert workspace actor_id request_id content) d) (\<lambda>(d1, event).
          bindR (map_err SSqlite (commit d1)) (\<lambda>d2.
          Inr (d2, \<lparr>ca_event = event, ca_inserted = True\<rparr>))))"

definition append_request ::
  "int \<Rightarrow> event_insert \<Rightarrow> db \<Rightarrow> store_error + db \<times> workspace_event" where
  "append_request clock i d =
     bindR (guardR (ei_kind i = KRequest) SInvalidData) (\<lambda>_.
     bindR (ok_or (ei_request_id i) SInvalidData) (\<lambda>request_id.
     bindR (guardR (\<not> exists_row (\<lambda>e. we_workspace e = ei_workspace i \<and>
                       we_request_id e = Some request_id \<and> we_kind e = KRequest) (events d))
              SConflict) (\<lambda>_.
     bindR (append_event_in_transaction clock i d) (\<lambda>(d1, event).
     bindR (map_err SSqlite (commit d1)) (\<lambda>d2. Inr (d2, event))))))"

definition create_workspace ::
  "int \<Rightarrow> workspace_name \<Rightarrow> db \<Rightarrow> store_error + db \<times> (int \<times> bool)" where
  "create_workspace clock name d =
     bindR (now_millis clock) (\<lambda>now.
     bindR (map_err SSqlite
              (insert_workspace \<lparr>w_name = name, w_created_at = now, w_next_seq = 1,
                                 w_next_task_id = 1\<rparr> d)) (\<lambda>(d1, changed).
     Inr (d1, (now, changed = 1))))"

definition workspace_exists :: "db \<Rightarrow> workspace_name \<Rightarrow> bool" where
  "workspace_exists d name = exists_row (\<lambda>w. w_name w = name) (workspaces d)"

definition workspace_created_at :: "db \<Rightarrow> workspace_name \<Rightarrow> int option" where
  "workspace_created_at d name =
     map_option w_created_at (find (\<lambda>w. w_name w = name) (workspaces d))"

definition latest_seq :: "db \<Rightarrow> workspace_name \<Rightarrow> int option" where
  "latest_seq d workspace =
     map_option (\<lambda>w. w_next_seq w - 1) (find (\<lambda>w. w_name w = workspace) (workspaces d))"

definition workspace_log :: "db \<Rightarrow> workspace_name \<Rightarrow> workspace_event list" where
  "workspace_log d workspace = filter (\<lambda>e. we_workspace e = workspace) (events d)"

text \<open>\<^verbatim>\<open>ORDER BY seq DESC LIMIT limit\<close>, then \<^verbatim>\<open>reverse\<close>.\<close>

definition recent_history ::
  "db \<Rightarrow> workspace_name \<Rightarrow> nat \<Rightarrow> store_error + workspace_event list \<times> int \<times> bool" where
  "recent_history d workspace limit =
     bindR (ok_or (latest_seq d workspace) SInvalidData) (\<lambda>latest.
       let evs = rev (take limit (rev (sort_key we_seq (workspace_log d workspace))))
       in Inr (evs, next_cursor we_seq 0 evs, False))"

definition history ::
  "db \<Rightarrow> workspace_name \<Rightarrow> int \<Rightarrow> nat \<Rightarrow> store_error + workspace_event list \<times> int \<times> bool" where
  "history d workspace after limit =
     bindR (ok_or (latest_seq d workspace) SInvalidData) (\<lambda>latest.
     bindR (guardR (\<not> latest < after) SInvalidData) (\<lambda>_.
       let fetched = take (limit + 1)
             (sort_key we_seq (filter (\<lambda>e. after < we_seq e) (workspace_log d workspace)));
           (evs, has_more) = pop_page limit fetched
       in Inr (evs, next_cursor we_seq after evs, has_more)))"

section \<open>The invariant of the logs\<close>

text \<open>Names are unique, rows satisfy their checks, every event belongs to a workspace, the
  sequence numbers of a workspace's events are exactly \<open>1, 2, \<dots>, next_seq - 1\<close> in order, and
  no event conflicts with an earlier one under a unique index.\<close>

definition log_inv :: "db \<Rightarrow> bool" where
  "log_inv d \<longleftrightarrow>
     distinct (map w_name (workspaces d)) \<and>
     (\<forall>w\<in>set (workspaces d). workspace_check w) \<and>
     (\<forall>e\<in>set (events d). event_check e \<and> we_workspace e \<in> w_name ` set (workspaces d)) \<and>
     (\<forall>w\<in>set (workspaces d). map we_seq (workspace_log d (w_name w)) = [1..w_next_seq w - 1]) \<and>
     sorted_wrt (\<lambda>e f. \<not> event_conflict f e) (events d)"

lemma log_invD:
  assumes "log_inv d"
  shows "distinct (map w_name (workspaces d))"
    and "w \<in> set (workspaces d) \<Longrightarrow> workspace_check w"
    and "e \<in> set (events d) \<Longrightarrow> event_check e \<and> we_workspace e \<in> w_name ` set (workspaces d)"
    and "w \<in> set (workspaces d) \<Longrightarrow> map we_seq (workspace_log d (w_name w)) = [1..w_next_seq w - 1]"
    and "sorted_wrt (\<lambda>e f. \<not> event_conflict f e) (events d)"
  using assms by (simp_all add: log_inv_def)

text \<open>The log part of the database is its workspaces and events alone.\<close>

lemma log_inv_frame:
  "workspaces d' = workspaces d \<Longrightarrow> events d' = events d \<Longrightarrow> log_inv d' = log_inv d"
  by (simp add: log_inv_def workspace_log_def)

lemma workspace_log_unknown:
  "log_inv d \<Longrightarrow> ws \<notin> w_name ` set (workspaces d) \<Longrightarrow> workspace_log d ws = []"
  using log_invD(3) by (fastforce simp: workspace_log_def filter_empty_conv)

lemma log_dense:
  assumes "log_inv d"
  shows "map we_seq (workspace_log d ws) = [1..int (length (workspace_log d ws))]"
proof (cases "ws \<in> w_name ` set (workspaces d)")
  case True
  then obtain w where w: "w \<in> set (workspaces d)" "ws = w_name w" by auto
  have "length (workspace_log d ws) = length [1..w_next_seq w - 1]"
    using log_invD(4) [OF assms w(1)] w(2) by (metis length_map)
  then have "int (length (workspace_log d ws)) = w_next_seq w - 1"
    using log_invD(2) [OF assms w(1)] by (simp add: workspace_check_def safe_id_def)
  with log_invD(4) [OF assms w(1)] w(2) show ?thesis by simp
next
  case False
  then show ?thesis using workspace_log_unknown [OF assms] by simp
qed

lemma latest_seq_length:
  assumes "log_inv d" and "latest_seq d ws = Some n"
  shows "n = int (length (workspace_log d ws))"
proof -
  from assms(2) obtain w where w: "w \<in> set (workspaces d)" "w_name w = ws" "n = w_next_seq w - 1"
    by (auto simp: latest_seq_def dest: find_key_SomeD)
  have "length (workspace_log d ws) = length [1..w_next_seq w - 1]"
    using log_invD(4) [OF assms(1) w(1)] w(2) by (metis length_map)
  then show ?thesis
    using log_invD(2) [OF assms(1) w(1)] w(3) by (simp add: workspace_check_def safe_id_def)
qed

section \<open>Appending\<close>

lemma bump_seq_simps [simp]:
  "w_name (bump_seq w) = w_name w" "w_next_seq (bump_seq w) = w_next_seq w + 1"
  "w_next_task_id (bump_seq w) = w_next_task_id w" "w_created_at (bump_seq w) = w_created_at w"
  by (simp_all add: bump_seq_def)

lemma event_of_insert_simps [simp]:
  "we_workspace (event_of_insert i n c) = ei_workspace i" "we_seq (event_of_insert i n c) = n"
  "we_kind (event_of_insert i n c) = ei_kind i" "we_actor_id (event_of_insert i n c) = ei_actor_id i"
  "we_created_at (event_of_insert i n c) = c" "we_request_id (event_of_insert i n c) = ei_request_id i"
  "we_target_id (event_of_insert i n c) = ei_target_id i" "we_task_id (event_of_insert i n c) = ei_task_id i"
  "we_content (event_of_insert i n c) = ei_content i" "we_ok (event_of_insert i n c) = ei_ok i"
  "we_error (event_of_insert i n c) = ei_error i"
  by (simp_all add: event_of_insert_def)

text \<open>What a successful append did, without any assumption on the database.\<close>

lemma append_event_effect:
  assumes "append_event_in_transaction clock i d = Inr (d', e)"
  shows "\<exists>w. find (can_bump_seq (ei_workspace i)) (workspaces d) = Some w \<and>
           e = event_of_insert i (w_next_seq w) clock \<and> 0 \<le> clock \<and> event_check e \<and>
           (\<forall>f\<in>set (events d). \<not> event_conflict e f \<and> e_key f \<noteq> e_key e) \<and>
           (\<forall>v\<in>set (workspaces d). can_bump_seq (ei_workspace i) v \<longrightarrow> workspace_check (bump_seq v)) \<and>
           d' = d\<lparr>workspaces := update_where (can_bump_seq (ei_workspace i)) bump_seq (workspaces d),
                  events := events d @ [e]\<rparr>"
  using assms
  by (auto simp: append_event_in_transaction_def bindR_eq_Inr update_workspaces_def
      insert_event_def now_millis_def split: if_splits)

lemma append_event_fields:
  assumes "append_event_in_transaction clock i d = Inr (d', e)"
  shows "events d' = events d @ [e]" "tasks d' = tasks d" "attempts d' = attempts d"
    "reports d' = reports d" "mutations d' = mutations d" "credentials d' = credentials d"
    "links d' = links d" "external_operations d' = external_operations d"
    "invites d' = invites d" "server_id d' = server_id d"
    "map w_next_task_id (workspaces d') = map w_next_task_id (workspaces d)"
    "map w_name (workspaces d') = map w_name (workspaces d)"
    "resolutions d' = resolutions d" "bindings d' = bindings d"
  using append_event_effect [OF assms] by (auto simp: map_update_where)

lemma append_event_names:
  assumes "append_event_in_transaction clock i d = Inr (d', e)"
  shows "w_name ` set (workspaces d') = w_name ` set (workspaces d)"
  using arg_cong [OF append_event_fields(12) [OF assms], of set] by simp

lemma append_event_event:
  assumes "append_event_in_transaction clock i d = Inr (d', e)"
  shows "we_workspace e = ei_workspace i" "we_kind e = ei_kind i" "we_actor_id e = ei_actor_id i"
    "we_request_id e = ei_request_id i" "we_target_id e = ei_target_id i"
    "we_task_id e = ei_task_id i" "we_content e = ei_content i" "we_ok e = ei_ok i"
    "we_error e = ei_error i" "we_created_at e = clock"
  using append_event_effect [OF assms] by auto

lemma append_workspace_log:
  assumes "append_event_in_transaction clock i d = Inr (d', e)"
  shows "workspace_log d' ws = workspace_log d ws @ (if ws = ei_workspace i then [e] else [])"
  using append_event_fields(1) [OF assms] append_event_event(1) [OF assms]
  by (auto simp: workspace_log_def)

lemma can_bump_seq_checked:
  "workspace_check w \<Longrightarrow> can_bump_seq ws w \<longleftrightarrow> w_name w = ws"
  by (auto simp: can_bump_seq_def workspace_check_def safe_id_def)

lemma append_log_inv:
  assumes "log_inv d" and app: "append_event_in_transaction clock i d = Inr (d', e)"
  shows "log_inv d'"
proof -
  let ?P = "can_bump_seq (ei_workspace i)"
  from append_event_effect [OF app] obtain w where
    w: "find ?P (workspaces d) = Some w" "e = event_of_insert i (w_next_seq w) clock" "event_check e"
    "\<forall>f\<in>set (events d). \<not> event_conflict e f \<and> e_key f \<noteq> e_key e"
    "\<forall>v\<in>set (workspaces d). ?P v \<longrightarrow> workspace_check (bump_seq v)"
    "d' = d\<lparr>workspaces := update_where ?P bump_seq (workspaces d), events := events d @ [e]\<rparr>"
    by blast
  from w(1) have win: "w \<in> set (workspaces d)" "w_name w = ei_workspace i"
    by (auto simp: find_Some_iff can_bump_seq_def)
  have P: "?P v \<longleftrightarrow> v = w" if "v \<in> set (workspaces d)" for v
    using that win can_bump_seq_checked log_invD(1,2) [OF assms(1)]
    by (metis distinct_key_eq)
  have dense: "map we_seq (workspace_log d' (w_name v)) = [1..w_next_seq v - 1]"
    if v: "v \<in> set (workspaces d')" for v
  proof (cases "w_name v = ei_workspace i")
    case True
    with v have "v = bump_seq w"
      using P win by (auto simp: w(6) table_simps can_bump_seq_checked log_invD(2) [OF assms(1)])
    moreover have "1 \<le> w_next_seq w"
      using log_invD(2) [OF assms(1) win(1)] by (simp add: workspace_check_def safe_id_def)
    ultimately show ?thesis
      using log_invD(4) [OF assms(1) win(1)] win(2)
      by (simp add: append_workspace_log [OF app] w(2) upto_rec2)
  next
    case False
    with v have "v \<in> set (workspaces d)"
      using win(2) P by (auto simp: w(6) table_simps)
    with False show ?thesis
      using log_invD(4) [OF assms(1)] by (simp add: append_workspace_log [OF app])
  qed
  show ?thesis
    unfolding log_inv_def
  proof (intro conjI ballI)
    show "distinct (map w_name (workspaces d'))"
      using log_invD(1) [OF assms(1)] by (simp add: append_event_fields(12) [OF app])
    show "workspace_check v" if "v \<in> set (workspaces d')" for v
      using that w(5) log_invD(2) [OF assms(1)] by (auto simp: w(6) table_simps)
    show "event_check f" if "f \<in> set (events d')" for f
      using that w(3) log_invD(3) [OF assms(1)] by (auto simp: w(6))
    show "we_workspace f \<in> w_name ` set (workspaces d')" if "f \<in> set (events d')" for f
      using that imageI [OF win(1), of w_name] win(2) log_invD(3) [OF assms(1)]
      by (auto simp: append_event_fields(1) [OF app] append_event_names [OF app]
          append_event_event(1) [OF app])
    show "map we_seq (workspace_log d' (w_name v)) = [1..w_next_seq v - 1]"
      if "v \<in> set (workspaces d')" for v
      using dense [OF that] .
    show "sorted_wrt (\<lambda>e f. \<not> event_conflict f e) (events d')"
      using w(4) log_invD(5) [OF assms(1)] by (simp add: w(6) sorted_wrt_append)
  qed
qed

section \<open>The interface of an append-only log\<close>

locale append_log =
  fixes invar :: "'s \<Rightarrow> bool"
    and append_entry :: "'c \<Rightarrow> 'i \<Rightarrow> 's \<Rightarrow> 'x + 's \<times> 'e"
    and log :: "'s \<Rightarrow> 'w \<Rightarrow> 'e list"
    and seq :: "'e \<Rightarrow> int"
    and target :: "'i \<Rightarrow> 'w"
  assumes append_invar: "invar s \<Longrightarrow> append_entry c i s = Inr (s', e) \<Longrightarrow> invar s'"
    and append_extends: "append_entry c i s = Inr (s', e) \<Longrightarrow>
      log s' w = log s w @ (if w = target i then [e] else [])"
    and dense: "invar s \<Longrightarrow> map seq (log s w) = [1..int (length (log s w))]"
begin

lemma append_seq:
  assumes "invar s" and "append_entry c i s = Inr (s', e)"
  shows "seq e = int (length (log s (target i))) + 1"
proof -
  let ?n = "length (log s (target i))"
  have "map seq (log s (target i) @ [e]) = [1..int (Suc ?n)]"
    using dense [OF append_invar [OF assms], of "target i"] append_extends [OF assms(2), of "target i"]
    by simp
  then have "last (map seq (log s (target i) @ [e])) = last [1..int (Suc ?n)]" by simp
  then show ?thesis by (simp add: upto_rec2)
qed

text \<open>A loop of appends: the invariant survives, and each log grows by one entry per insert
  that names it.\<close>

lemma append_loop:
  assumes "foldR (\<lambda>(c, i) s. bindR (append_entry c i s) (\<lambda>(s', _). Inr s')) cis s = Inr s'" and "invar s"
  shows "invar s' \<and> (\<forall>w. \<exists>es. log s' w = log s w @ es \<and>
            length es = count_where (\<lambda>(c, i). target i = w) cis)"
  using assms
proof (induction cis arbitrary: s)
  case Nil
  then show ?case by (simp add: count_where_def)
next
  case (Cons ci cis)
  obtain c i where ci: "ci = (c, i)" by fastforce
  from Cons.prems(1) obtain s1 e where s1: "append_entry c i s = Inr (s1, e)"
    "foldR (\<lambda>(c, i) s. bindR (append_entry c i s) (\<lambda>(s', _). Inr s')) cis s1 = Inr s'"
    by (auto simp: ci bindR_eq_Inr)
  from Cons.IH [OF s1(2) append_invar [OF Cons.prems(2) s1(1)]]
  have IH: "invar s'" "\<forall>w. \<exists>es. log s' w = log s1 w @ es \<and>
      length es = count_where (\<lambda>(c, i). target i = w) cis" by auto
  have "\<exists>es. log s' w = log s w @ es \<and> length es = count_where (\<lambda>(c, i). target i = w) (ci # cis)"
    for w
  proof -
    from IH(2) obtain es where "log s' w = log s1 w @ es"
      "length es = count_where (\<lambda>(c, i). target i = w) cis" by blast
    then show ?thesis
      using append_extends [OF s1(1), of w]
      by (intro exI [of _ "(if w = target i then [e] else []) @ es"]) (simp add: ci count_where_def)
  qed
  with IH(1) show ?case by blast
qed

end

interpretation wlog: append_log log_inv append_event_in_transaction workspace_log we_seq ei_workspace
  by unfold_locales (fact append_log_inv append_workspace_log log_dense)+

section \<open>History as a paged query\<close>

definition history_ready :: "db \<Rightarrow> workspace_name \<Rightarrow> int \<Rightarrow> bool" where
  "history_ready d ws after = (case latest_seq d ws of None \<Rightarrow> False | Some n \<Rightarrow> after \<le> n)"

lemma workspace_log_sorted:
  assumes "log_inv d"
  shows "sorted_wrt (<) (map we_seq (workspace_log d ws))"
  unfolding log_dense [OF assms] by simp

lemma sort_log_id:
  assumes "log_inv d"
  shows "sort_key we_seq (filter P (workspace_log d ws)) = filter P (workspace_log d ws)"
proof -
  have "sorted_wrt (<) (map we_seq (filter P (workspace_log d ws)))"
    using workspace_log_sorted [OF assms, of ws] by (simp add: sorted_wrt_map sorted_wrt_filter)
  then show ?thesis
    by (simp add: sort_key_id_if_sorted strict_sorted_imp_sorted)
qed

lemma log_seq_le_latest:
  assumes "log_inv d" and "e \<in> set (workspace_log d ws)"
  shows "1 \<le> we_seq e \<and> we_seq e \<le> int (length (workspace_log d ws))"
proof -
  have "we_seq e \<in> set (map we_seq (workspace_log d ws))" using assms(2) by simp
  then show ?thesis by (simp add: log_dense [OF assms(1)] del: set_map)
qed

interpretation hist: paged_query log_inv history_ready workspace_log we_seq id history
proof (unfold_locales, goal_cases)
  case (1 d ws)
  then show ?case by (rule workspace_log_sorted)
next
  case (2 d ws after limit)
  then show ?case
    by (auto simp: history_def history_ready_def sort_log_id pop_page_take_Suc [simplified] Let_def
        split: option.splits)
next
  case (3 d ws after e)
  then show ?case
    by (auto simp: history_ready_def dest: log_seq_le_latest latest_seq_length split: option.splits)
qed

section \<open>Chat and request appends\<close>

lemma commit_idem: "commit d = Inr d' \<Longrightarrow> d' = d \<and> commit d' = Inr d'"
  by (auto simp: commit_def split: if_splits)

lemma commit_ok_iff [simp]: "commit d = Inr d' \<longleftrightarrow> d' = d \<and> deferred_ok d"
  by (auto simp: commit_def)

lemma deferred_ok_append:
  "append_event_in_transaction clock i d = Inr (d', e) \<Longrightarrow> deferred_ok d' = deferred_ok d"
  by (simp add: deferred_ok_def append_event_fields)

lemma append_chat_log_inv:
  "log_inv d \<Longrightarrow> append_chat_idempotent clock ws actor req content d = Inr (d', r) \<Longrightarrow> log_inv d'"
  by (auto simp: append_chat_idempotent_def bindR_eq_Inr split: option.splits intro: append_log_inv)

lemma append_request_log_inv:
  "log_inv d \<Longrightarrow> append_request clock i d = Inr (d', e) \<Longrightarrow> log_inv d'"
  by (auto simp: append_request_def bindR_eq_Inr intro: append_log_inv)

lemma create_workspace_log_inv:
  assumes "log_inv d" and "create_workspace clock name d = Inr (d', r)"
  shows "log_inv d'"
proof -
  define w where "w = \<lparr>w_name = name, w_created_at = clock, w_next_seq = 1, w_next_task_id = 1\<rparr>"
  from assms(2) have chk: "workspace_check w"
    and d': "d' = d \<or> (\<forall>v\<in>set (workspaces d). w_name v \<noteq> name) \<and>
               d' = d\<lparr>workspaces := workspaces d @ [w]\<rparr>"
    by (auto simp: create_workspace_def bindR_eq_Inr insert_workspace_def now_millis_def w_def
        split: if_splits)
  have w: "w_name w = name" "w_next_seq w = 1" "workspace_check w"
    using chk by (simp_all add: w_def)
  show ?thesis
  proof (cases "d' = d")
    case True
    with assms(1) show ?thesis by simp
  next
    case False
    with d' have new: "\<forall>v\<in>set (workspaces d). w_name v \<noteq> name"
      and eq: "d' = d\<lparr>workspaces := workspaces d @ [w]\<rparr>" by auto
    have log: "workspace_log d' ws = workspace_log d ws" for ws
      by (simp add: eq workspace_log_def)
    have "workspace_log d name = []"
      using new by (intro workspace_log_unknown [OF assms(1)]) auto
    then show ?thesis
      using log_invD [OF assms(1)] new w
      unfolding log_inv_def log by (auto simp: eq)
  qed
qed

end
