(* ===== verification/Task_Read.thy ===== *)
theory Task_Read
  imports Event_Log
begin

text \<open>
  Reading tasks (\<^verbatim>\<open>src/tasks.rs\<close>): the row readers, \<^verbatim>\<open>get_task_detail_connection\<close>, the
  summary of one row, the listing, and the execution fences of an agent.
\<close>

definition find_task :: "db \<Rightarrow> workspace_name \<Rightarrow> int \<Rightarrow> task_row option" where
  "find_task d ws task_id = find (\<lambda>t. t_key t = (ws, task_id)) (tasks d)"

definition find_attempt :: "db \<Rightarrow> uuid \<Rightarrow> attempt_row option" where
  "find_attempt d i = find (\<lambda>a. a_id a = i) (attempts d)"

definition find_report :: "db \<Rightarrow> uuid \<Rightarrow> report_row option" where
  "find_report d i = find (\<lambda>r. r_id r = i) (reports d)"

definition attempt_of_row :: "attempt_row \<Rightarrow> task_attempt" where
  "attempt_of_row a =
     \<lparr>ta_id = a_id a, ta_task_id = a_task_id a, ta_agent_id = a_agent_id a,
      ta_session_id = a_session_id a, ta_work_request_id = a_work_request_id a,
      ta_resumed_from_checkpoint_id = a_resumed_from_checkpoint_id a, ta_status = a_status a,
      ta_stop_evidence = a_stop_evidence a, ta_reason = a_reason a,
      ta_started_at = a_started_at a, ta_ended_at = a_ended_at a, ta_stopped_at = a_stopped_at a\<rparr>"

definition load_attempt :: "db \<Rightarrow> uuid \<Rightarrow> store_error + task_attempt" where
  "load_attempt d i =
     ok_or (map_option attempt_of_row (find_attempt d i)) (SSqlite QueryReturnedNoRows)"

definition report_of_row :: "report_row \<Rightarrow> task_report_record" where
  "report_of_row r =
     \<lparr>tr_id = r_id r, tr_task_id = r_task_id r, tr_attempt_id = r_attempt_id r,
      tr_actor_id = r_actor_id r, tr_kind = r_kind r, tr_body = r_body r,
      tr_created_at = r_created_at r\<rparr>"

text \<open>The stored kind says how the body is parsed; a body of the other form does not parse.\<close>

fun body_matches :: "report_kind \<Rightarrow> report_body \<Rightarrow> bool" where
  "body_matches RNote (BodyText _) = True"
| "body_matches RCheckpoint (BodyCheckpoint _) = True"
| "body_matches RResult (BodyCheckpoint _) = True"
| "body_matches _ _ = False"

definition load_report :: "db \<Rightarrow> uuid \<Rightarrow> store_error + task_report_record" where
  "load_report d i =
     bindR (ok_or (find_report d i) (SSqlite QueryReturnedNoRows)) (\<lambda>r.
     bindR (guardR (body_matches (r_kind r) (r_body r)) (SSqlite InvalidQuery)) (\<lambda>_.
     Inr (report_of_row r)))"

definition load_links :: "db \<Rightarrow> workspace_name \<Rightarrow> int \<Rightarrow> external_link list" where
  "load_links d ws task_id =
     (let rows = map l_link (filter (\<lambda>l. l_workspace l = ws \<and> l_task_id l = task_id) (links d))
      in filter (\<lambda>l. el_provider l = Github) rows @ filter (\<lambda>l. el_provider l = Linear) rows)"

text \<open>\<^verbatim>\<open>ORDER BY updated_at DESC LIMIT 1\<close>; of two rows with the same time SQLite may return
  either, and the model returns the earlier inserted.\<close>

fun latest_updated :: "external_operation_row list \<Rightarrow> external_operation_row option" where
  "latest_updated [] = None"
| "latest_updated (x # xs) =
     (case latest_updated xs of None \<Rightarrow> Some x
      | Some y \<Rightarrow> if x_updated_at x \<ge> x_updated_at y then Some x else Some y)"

definition operation_summary :: "external_operation_row \<Rightarrow> external_operation_summary" where
  "operation_summary x =
     \<lparr>eo_id = x_operation_id x, eo_task_id = x_task_id x, eo_provider = x_provider x,
      eo_kind = x_kind x, eo_status = x_status x, eo_source_version = x_source_version x,
      eo_external_id = x_external_id x, eo_url = x_url x, eo_error = x_error x,
      eo_created_at = x_created_at x, eo_updated_at = x_updated_at x\<rparr>"

definition load_external_operations ::
  "db \<Rightarrow> workspace_name \<Rightarrow> int \<Rightarrow> external_operation_summary list" where
  "load_external_operations d ws task_id =
     List.map_filter (\<lambda>provider. map_option operation_summary
        (latest_updated (filter (\<lambda>x. x_workspace x = ws \<and> x_task_id x = Some task_id \<and>
                                      x_provider x = provider) (external_operations d))))
       [Github, Linear]"

text \<open>\<^verbatim>\<open>current_attempt.as_ref().or(last_attempt.as_ref())\<close>\<close>

definition or_else :: "'a option \<Rightarrow> 'a option \<Rightarrow> 'a option" where
  "or_else x y = (case x of None \<Rightarrow> y | Some v \<Rightarrow> Some v)"

definition summary_of ::
  "task_row \<Rightarrow> task_attempt option \<Rightarrow> task_report_record option \<Rightarrow> task_summary" where
  "summary_of t shown checkpoint =
     \<lparr>ts_id = t_id t, ts_workspace = t_workspace t, ts_title = t_title t, ts_state = t_state t,
      ts_version = t_version t, ts_assigned_agent_id = t_assigned_agent_id t,
      ts_current_attempt_id = t_current_attempt_id t,
      ts_last_executor_id = map_option ta_agent_id shown,
      ts_execution_session_id = map_option ta_session_id shown,
      ts_last_checkpoint_at = map_option tr_created_at checkpoint,
      ts_pause_reason = t_pause_reason t, ts_stop_evidence = map_option ta_stop_evidence shown,
      ts_created_at = t_created_at t, ts_updated_at = t_updated_at t\<rparr>"

definition get_task_detail_connection ::
  "db \<Rightarrow> workspace_name \<Rightarrow> int \<Rightarrow> store_error + task_detail option" where
  "get_task_detail_connection d ws task_id =
     (case find_task d ws task_id of
        None \<Rightarrow> Inr None
      | Some t \<Rightarrow>
          bindR (transposeR (load_attempt d) (t_current_attempt_id t)) (\<lambda>current_attempt.
          bindR (transposeR (load_attempt d) (t_last_attempt_id t)) (\<lambda>last_attempt.
          bindR (transposeR (load_report d) (t_last_checkpoint_id t)) (\<lambda>checkpoint.
          bindR (transposeR (load_report d) (t_result_report_id t)) (\<lambda>result.
          Inr (Some
            \<lparr>td_summary = summary_of t (or_else current_attempt last_attempt) checkpoint,
             td_description = t_description t, td_created_by = t_created_by t,
             td_updated_by = t_updated_by t, td_current_attempt = current_attempt,
             td_last_attempt = last_attempt, td_checkpoint = checkpoint, td_result = result,
             td_links = load_links d ws task_id,
             td_external_operations = load_external_operations d ws task_id\<rparr>))))))"

definition get_task :: "db \<Rightarrow> workspace_name \<Rightarrow> int \<Rightarrow> store_error + task_detail option" where
  "get_task d ws task_id = get_task_detail_connection d ws task_id"

fun store_to_sql :: "store_error \<Rightarrow> sql_error" where
  "store_to_sql (SSqlite e) = e"
| "store_to_sql _ = InvalidQuery"

definition task_summary_from_row :: "db \<Rightarrow> task_row \<Rightarrow> sql_error + task_summary" where
  "task_summary_from_row d t =
     bindR (map_err store_to_sql
              (transposeR (load_attempt d)
                 (or_else (t_current_attempt_id t) (t_last_attempt_id t)))) (\<lambda>attempt.
     bindR (map_err store_to_sql (transposeR (load_report d) (t_last_checkpoint_id t))) (\<lambda>checkpoint.
     Inr (summary_of t attempt checkpoint)))"

definition task_matches ::
  "workspace_name \<Rightarrow> task_state list \<Rightarrow> string option \<Rightarrow> task_row \<Rightarrow> bool" where
  "task_matches ws states assigned t =
     (t_workspace t = ws \<and> t_state t \<in> set states \<and>
      (case assigned of None \<Rightarrow> True | Some a \<Rightarrow> t_assigned_agent_id t = Some a))"

definition list_tasks ::
  "db \<Rightarrow> workspace_name \<Rightarrow> task_state list \<Rightarrow> string option \<Rightarrow> int \<Rightarrow> nat \<Rightarrow>
     store_error + task_summary list \<times> int \<times> bool" where
  "list_tasks d ws states assigned after limit =
     bindR (guardR (states \<noteq> []) SInvalidData) (\<lambda>_.
     bindR (map_err SSqlite (mapR (task_summary_from_row d)
              (take (limit + 1) (sort_key t_id
                 (filter (\<lambda>t. task_matches ws states assigned t \<and> after < t_id t) (tasks d))))))
       (\<lambda>fetched.
         let (page, has_more) = pop_page limit fetched
         in Inr (page, next_cursor ts_id after page, has_more)))"

definition attempt_agent_id :: "db \<Rightarrow> uuid \<Rightarrow> string option" where
  "attempt_agent_id d i = map_option a_agent_id (find_attempt d i)"

definition execution_attempt ::
  "db \<Rightarrow> uuid \<Rightarrow> store_error + (workspace_name \<times> task_attempt) option" where
  "execution_attempt d i =
     (case map_option a_workspace (find_attempt d i) of
        None \<Rightarrow> Inr None
      | Some workspace \<Rightarrow> bindR (load_attempt d i) (\<lambda>attempt. Inr (Some (workspace, attempt))))"

text \<open>The execution fences of an agent. \<^verbatim>\<open>ORDER BY started_at DESC\<close> is the descending sort; a
  slot that is filled twice is \<^verbatim>\<open>InvalidData\<close>.\<close>

type_synonym task_fence = "int \<times> uuid"

definition fence_rows :: "db \<Rightarrow> string \<Rightarrow> attempt_row list" where
  "fence_rows d agent_id =
     rev (sort_key a_started_at (filter (\<lambda>a. a_agent_id a = agent_id \<and> is_barrier a) (attempts d)))"

definition fill_fence ::
  "attempt_row \<Rightarrow> task_fence option \<times> task_fence option \<Rightarrow>
     store_error + task_fence option \<times> task_fence option" where
  "fill_fence a slots =
     (case slots of (current, stop_pending) \<Rightarrow>
        if a_status a = Running
        then if current \<noteq> None then Inl SInvalidData
             else Inr (Some (a_task_id a, a_id a), stop_pending)
        else if stop_pending \<noteq> None then Inl SInvalidData
             else Inr (current, Some (a_task_id a, a_id a)))"

definition agent_execution_fences ::
  "db \<Rightarrow> string \<Rightarrow> store_error + task_fence option \<times> task_fence option" where
  "agent_execution_fences d agent_id = foldR fill_fence (fence_rows d agent_id) (None, None)"

definition agent_execution_barriers :: "db \<Rightarrow> string \<Rightarrow> store_error + bool \<times> bool" where
  "agent_execution_barriers d agent_id =
     bindR (agent_execution_fences d agent_id) (\<lambda>(current, stop_pending).
       Inr (current \<noteq> None, stop_pending \<noteq> None))"

definition agent_has_execution_barrier :: "db \<Rightarrow> string \<Rightarrow> store_error + bool" where
  "agent_has_execution_barrier d agent_id =
     bindR (agent_execution_barriers d agent_id) (\<lambda>(running, unconfirmed).
       Inr (running \<or> unconfirmed))"

end
