(* ===== verification/Task_Ops.thy ===== *)
theory Task_Ops
  imports Task_Read
begin

text \<open>
  The task commands of \<^verbatim>\<open>src/tasks.rs\<close>: \<^verbatim>\<open>apply_task\<close> with its receipt replay and one
  function per command, \<^verbatim>\<open>finish_mutation\<close>, and the router's own transitions
  \<^verbatim>\<open>interrupt_attempt\<close>, \<^verbatim>\<open>interrupt_session_attempts\<close> and
  \<^verbatim>\<open>record_execution_stopped\<close>. Every function maps the database to an error or to the
  new database and a result; an error leaves the transaction, which is then rolled back.
\<close>

section \<open>Errors inside a transaction\<close>

definition task_error_of_store :: "store_error \<Rightarrow> task_error" where
  "task_error_of_store e = task_error_code (store_error_code e) None"

definition tx_store :: "store_error + 'a \<Rightarrow> task_error + 'a" where
  "tx_store m = map_err task_error_of_store m"

definition tx_sql :: "sql_error + 'a \<Rightarrow> task_error + 'a" where
  "tx_sql m = map_err (\<lambda>e. task_error_of_store (SSqlite e)) m"

section \<open>Receipts\<close>

definition mutation_receipt :: "db \<Rightarrow> workspace_name \<Rightarrow> uuid \<Rightarrow> mutation_row option" where
  "mutation_receipt d ws op = find (\<lambda>m. m_key m = (ws, op)) (mutations d)"

definition insert_receipt ::
  "caller_context \<Rightarrow> uuid \<Rightarrow> digest \<Rightarrow> int \<Rightarrow> int \<Rightarrow> uuid option \<Rightarrow> uuid option \<Rightarrow> int \<Rightarrow>
     db \<Rightarrow> task_error + db" where
  "insert_receipt caller op hash task_id applied_version attempt_id report_id created_at d =
     tx_sql (insert_mutation
       \<lparr>m_workspace = cc_workspace caller, m_operation_id = op, m_actor_id = cc_actor_id caller,
        m_request_hash = hash, m_task_id = task_id, m_applied_version = applied_version,
        m_attempt_id = attempt_id, m_report_id = report_id, m_created_at = created_at\<rparr> d)"

record task_apply_result =
  ar_mutation :: task_mutation_result
  ar_event :: workspace_event
  ar_closed_attempt_id :: "uuid option"

definition task_event_insert ::
  "workspace_name \<Rightarrow> string \<Rightarrow> int \<Rightarrow> task_event \<Rightarrow> event_insert" where
  "task_event_insert ws actor_id task_id content =
     \<lparr>ei_workspace = ws, ei_kind = KTask, ei_actor_id = actor_id, ei_request_id = None,
      ei_target_id = None, ei_task_id = Some task_id, ei_content = Some (ContentTask content),
      ei_ok = None, ei_error = None\<rparr>"

definition finish_mutation ::
  "env \<Rightarrow> caller_context \<Rightarrow> uuid \<Rightarrow> digest \<Rightarrow> int \<Rightarrow> int \<Rightarrow> task_change \<Rightarrow> uuid option \<Rightarrow>
     uuid option \<Rightarrow> uuid option \<Rightarrow> int \<Rightarrow> db \<Rightarrow> task_error + db \<times> task_apply_result" where
  "finish_mutation ev caller op hash task_id applied_version change attempt_id report_id
     closed_attempt_id created_at d =
     bindR (tx_store (get_task_detail_connection d (cc_workspace caller) task_id)) (\<lambda>found.
     bindR (ok_or found (task_error_code TaskNotFound (Some op))) (\<lambda>task.
     bindR (tx_store (append_event_in_transaction (event_clock ev)
              (task_event_insert (cc_workspace caller) (cc_actor_id caller) task_id
                 \<lparr>te_change = change, te_task = td_summary task, te_attempt_id = attempt_id,
                  te_report_id = report_id, te_external_operation_id = None\<rparr>) d)) (\<lambda>(d1, event).
     bindR (insert_receipt caller op hash task_id applied_version attempt_id report_id
              created_at d1) (\<lambda>d2.
     Inr (d2,
       \<lparr>ar_mutation = \<lparr>tm_operation_id = op, tm_applied_version = applied_version,
                        tm_report_id = report_id, tm_task = task\<rparr>,
        ar_event = event, ar_closed_attempt_id = closed_attempt_id\<rparr>)))))"

section \<open>Guards\<close>

definition task_state_version ::
  "db \<Rightarrow> workspace_name \<Rightarrow> int \<Rightarrow> uuid \<Rightarrow> task_error + task_state \<times> int" where
  "task_state_version d ws task_id op =
     ok_or (map_option (\<lambda>t. (t_state t, t_version t)) (find_task d ws task_id))
       (task_error_code TaskNotFound (Some op))"

definition check_version :: "int \<Rightarrow> int \<Rightarrow> uuid \<Rightarrow> task_error + unit" where
  "check_version current expected op =
     (if current = expected then Inr () else Inl (task_error_conflict current op))"

definition owner_attempt_matches ::
  "db \<Rightarrow> caller_context \<Rightarrow> int \<Rightarrow> uuid \<Rightarrow> string \<Rightarrow> uuid \<Rightarrow> bool" where
  "owner_attempt_matches d caller task_id attempt_id agent_id session_id =
     exists_row (\<lambda>a. a_id a = attempt_id \<and> a_workspace a = cc_workspace caller \<and>
         a_task_id a = task_id \<and> a_agent_id a = agent_id \<and>
         a_credential_id a = cc_credential_id caller \<and> a_session_id a = session_id \<and>
         a_connection_generation a = cc_connection_generation caller \<and> a_status a = Running \<and>
         exists_row (\<lambda>t. t_key t = a_key a \<and> t_current_attempt_id t = Some (a_id a)) (tasks d))
       (attempts d)"

definition require_attempt_owner ::
  "db \<Rightarrow> caller_context \<Rightarrow> int \<Rightarrow> uuid \<Rightarrow> int \<Rightarrow> uuid \<Rightarrow> task_error + unit" where
  "require_attempt_owner d caller task_id attempt_id expected_version op =
     bindR (task_state_version d (cc_workspace caller) task_id op) (\<lambda>(_, version).
     bindR (check_version version expected_version op) (\<lambda>_.
     bindR (ok_or (cc_agent_id caller) (task_error_code PermissionDenied (Some op))) (\<lambda>agent_id.
     bindR (ok_or (cc_session_id caller) (task_error_code PermissionDenied (Some op))) (\<lambda>session_id.
     guardR (owner_attempt_matches d caller task_id attempt_id agent_id session_id)
       (task_error_code TaskStaleAttempt (Some op))))))"

definition exact_active_owner_attempt :: "db \<Rightarrow> caller_context \<Rightarrow> uuid \<Rightarrow> bool" where
  "exact_active_owner_attempt d caller attempt_id =
     (case (cc_agent_id caller, cc_session_id caller) of
        (Some agent_id, Some session_id) \<Rightarrow>
          exists_row (\<lambda>a. a_id a = attempt_id \<and> a_agent_id a = agent_id \<and>
              a_credential_id a = cc_credential_id caller \<and> a_session_id a = session_id \<and>
              a_connection_generation a = cc_connection_generation caller \<and>
              a_status a = Running) (attempts d)
      | _ \<Rightarrow> False)"

section \<open>Reports\<close>

definition insert_text_report ::
  "env \<Rightarrow> caller_context \<Rightarrow> int \<Rightarrow> uuid option \<Rightarrow> report_kind \<Rightarrow> string \<Rightarrow> int \<Rightarrow> db \<Rightarrow>
     task_error + db \<times> uuid" where
  "insert_text_report ev caller task_id attempt_id kind text created_at d =
     bindR (tx_sql (insert_report (body_json_len ev)
       \<lparr>r_id = new_report_id ev, r_workspace = cc_workspace caller, r_task_id = task_id,
        r_attempt_id = attempt_id, r_actor_id = cc_actor_id caller, r_kind = kind,
        r_body = BodyText text, r_created_at = created_at\<rparr> d)) (\<lambda>d1.
     Inr (d1, new_report_id ev))"

definition insert_checkpoint_report ::
  "env \<Rightarrow> caller_context \<Rightarrow> int \<Rightarrow> uuid \<Rightarrow> report_kind \<Rightarrow> task_checkpoint \<Rightarrow> int \<Rightarrow> db \<Rightarrow>
     task_error + db \<times> uuid" where
  "insert_checkpoint_report ev caller task_id attempt_id kind checkpoint created_at d =
     bindR (tx_sql (insert_report (body_json_len ev)
       \<lparr>r_id = new_report_id ev, r_workspace = cc_workspace caller, r_task_id = task_id,
        r_attempt_id = Some attempt_id, r_actor_id = cc_actor_id caller, r_kind = kind,
        r_body = BodyCheckpoint checkpoint, r_created_at = created_at\<rparr> d)) (\<lambda>d1.
     Inr (d1, new_report_id ev))"

text \<open>\<^verbatim>\<open>UPDATE tasks SET .. WHERE workspace=?1 AND id=?2\<close>\<close>

definition update_task_row ::
  "workspace_name \<Rightarrow> int \<Rightarrow> (task_row \<Rightarrow> task_row) \<Rightarrow> db \<Rightarrow> task_error + db" where
  "update_task_row ws task_id f d =
     bindR (tx_sql (update_tasks (\<lambda>t. t_key t = (ws, task_id)) f d)) (\<lambda>(d1, _). Inr d1)"

definition task_current_attempt_id :: "db \<Rightarrow> workspace_name \<Rightarrow> int \<Rightarrow> uuid option" where
  "task_current_attempt_id d ws task_id = Option.bind (find_task d ws task_id) t_current_attempt_id"

definition task_last_attempt_id :: "db \<Rightarrow> workspace_name \<Rightarrow> int \<Rightarrow> uuid option" where
  "task_last_attempt_id d ws task_id = Option.bind (find_task d ws task_id) t_last_attempt_id"

section \<open>The commands\<close>

definition can_bump_task :: "workspace_name \<Rightarrow> workspace_row \<Rightarrow> bool" where
  "can_bump_task ws w = (w_name w = ws \<and> w_next_task_id w \<le> MAX_SAFE_INTEGER)"

definition bump_task :: "workspace_row \<Rightarrow> workspace_row" where
  "bump_task w = w\<lparr>w_next_task_id := w_next_task_id w + 1\<rparr>"

definition apply_create ::
  "env \<Rightarrow> caller_context \<Rightarrow> uuid \<Rightarrow> string \<Rightarrow> string \<Rightarrow> digest \<Rightarrow> db \<Rightarrow>
     task_error + db \<times> task_apply_result" where
  "apply_create ev caller op title description hash d =
     bindR (tx_sql (update_workspaces (can_bump_task (cc_workspace caller)) bump_task d)) (\<lambda>(d1, _).
     bindR (ok_or (map_option (\<lambda>w. w_next_task_id (bump_task w) - 1)
                     (find (can_bump_task (cc_workspace caller)) (workspaces d)))
              (task_error_code StorageError (Some op))) (\<lambda>task_id.
     bindR (tx_store (now_millis (op_clock ev))) (\<lambda>now.
     bindR (tx_sql (insert_task
       \<lparr>t_workspace = cc_workspace caller, t_id = task_id, t_version = 1, t_title = title,
        t_description = description, t_state = Todo, t_assigned_agent_id = None,
        t_current_attempt_id = None, t_last_attempt_id = None, t_last_checkpoint_id = None,
        t_result_report_id = None, t_pause_reason = None, t_created_by = cc_actor_id caller,
        t_updated_by = cc_actor_id caller, t_created_at = now, t_updated_at = now\<rparr> d1)) (\<lambda>d2.
     finish_mutation ev caller op hash task_id 1 ChgCreated None None None now d2))))"

definition apply_edit ::
  "env \<Rightarrow> caller_context \<Rightarrow> uuid \<Rightarrow> int \<Rightarrow> int \<Rightarrow> string option \<Rightarrow> string option \<Rightarrow> digest \<Rightarrow> db \<Rightarrow>
     task_error + db \<times> task_apply_result" where
  "apply_edit ev caller op task_id expected_version title description hash d =
     bindR (task_state_version d (cc_workspace caller) task_id op) (\<lambda>(state, current).
     bindR (check_version current expected_version op) (\<lambda>_.
     bindR (guardR (\<not> (is_terminal state \<or> state = InProgress))
              (task_error_code TaskInvalidTransition (Some op))) (\<lambda>_.
     bindR (tx_store (now_millis (op_clock ev))) (\<lambda>now.
     bindR (update_task_row (cc_workspace caller) task_id
       (\<lambda>t. t\<lparr>t_title := (case title of None \<Rightarrow> t_title t | Some v \<Rightarrow> v),
              t_description := (case description of None \<Rightarrow> t_description t | Some v \<Rightarrow> v),
              t_version := expected_version + 1, t_updated_by := cc_actor_id caller,
              t_updated_at := now\<rparr>) d) (\<lambda>d1.
     finish_mutation ev caller op hash task_id (expected_version + 1) ChgEdited None None None
       now d1)))))"

definition assignable :: "db \<Rightarrow> string \<Rightarrow> workspace_name \<Rightarrow> bool" where
  "assignable d agent_id ws =
     exists_row (\<lambda>c. c_role c = RoleAgent \<and> c_subject c = agent_id \<and> c_revoked_at c = None \<and>
                      ws \<in> set (c_workspaces c)) (credentials d)"

definition apply_assign ::
  "env \<Rightarrow> caller_context \<Rightarrow> uuid \<Rightarrow> int \<Rightarrow> int \<Rightarrow> string option \<Rightarrow> digest \<Rightarrow> db \<Rightarrow>
     task_error + db \<times> task_apply_result" where
  "apply_assign ev caller op task_id expected_version agent_id hash d =
     bindR (task_state_version d (cc_workspace caller) task_id op) (\<lambda>(state, version).
     bindR (check_version version expected_version op) (\<lambda>_.
     bindR (guardR (\<not> is_terminal state) (task_error_code TaskInvalidTransition (Some op))) (\<lambda>_.
     bindR (guardR (case agent_id of None \<Rightarrow> True | Some a \<Rightarrow> assignable d a (cc_workspace caller))
              (task_error_code PermissionDenied (Some op))) (\<lambda>_.
     bindR (tx_store (now_millis (op_clock ev))) (\<lambda>now.
     bindR (update_task_row (cc_workspace caller) task_id
       (\<lambda>t. t\<lparr>t_assigned_agent_id := agent_id, t_version := expected_version + 1,
              t_updated_by := cc_actor_id caller, t_updated_at := now\<rparr>) d) (\<lambda>d1.
     finish_mutation ev caller op hash task_id (expected_version + 1) ChgAssigned None None None
       now d1))))))"

definition apply_note ::
  "env \<Rightarrow> caller_context \<Rightarrow> uuid \<Rightarrow> int \<Rightarrow> string \<Rightarrow> digest \<Rightarrow> db \<Rightarrow>
     task_error + db \<times> task_apply_result" where
  "apply_note ev caller op task_id text hash d =
     bindR (task_state_version d (cc_workspace caller) task_id op) (\<lambda>(_, version).
     let attempt_id = task_last_attempt_id d (cc_workspace caller) task_id in
     bindR (tx_store (now_millis (op_clock ev))) (\<lambda>now.
     bindR (insert_text_report ev caller task_id attempt_id RNote text now d) (\<lambda>(d1, report_id).
     finish_mutation ev caller op hash task_id version ChgNoted attempt_id (Some report_id) None
       now d1)))"

definition begin_attempt_row ::
  "env \<Rightarrow> caller_context \<Rightarrow> int \<Rightarrow> string \<Rightarrow> uuid \<Rightarrow> string \<Rightarrow> uuid option \<Rightarrow> int \<Rightarrow> attempt_row" where
  "begin_attempt_row ev caller task_id agent_id session_id work_request_id last_checkpoint_id now =
     \<lparr>a_id = new_attempt_id ev, a_workspace = cc_workspace caller, a_task_id = task_id,
      a_agent_id = agent_id, a_credential_id = cc_credential_id caller, a_session_id = session_id,
      a_connection_generation = cc_connection_generation caller,
      a_work_request_id = work_request_id,
      a_resumed_from_checkpoint_id = last_checkpoint_id, a_status = Running,
      a_stop_evidence = EvUnknown, a_reason = None, a_started_at = now, a_ended_at = None,
      a_stopped_at = None\<rparr>"

definition apply_begin ::
  "env \<Rightarrow> caller_context \<Rightarrow> uuid \<Rightarrow> int \<Rightarrow> string \<Rightarrow> int \<Rightarrow> uuid option \<Rightarrow> string \<Rightarrow> digest \<Rightarrow> db \<Rightarrow>
     task_error + db \<times> task_apply_result" where
  "apply_begin ev caller op task_id work_request_id expected_version last_checkpoint_id
     resume_note hash d =
     bindR (ok_or (cc_agent_id caller) (task_error_code PermissionDenied (Some op))) (\<lambda>agent_id.
     bindR (ok_or (cc_session_id caller) (task_error_code PermissionDenied (Some op))) (\<lambda>session_id.
     bindR (guardR (case cc_reservation caller of None \<Rightarrow> False
                    | Some r \<Rightarrow> rf_task_id r = task_id \<and> rf_work_request_id r = work_request_id)
              (task_error_code TaskStaleAttempt (Some op))) (\<lambda>_.
     bindR (ok_or (find_task d (cc_workspace caller) task_id)
              (task_error_code TaskNotFound (Some op))) (\<lambda>row.
     bindR (check_version (t_version row) expected_version op) (\<lambda>_.
     bindR (guardR (\<not> (\<not> is_beginable (t_state row) \<or> t_current_attempt_id row \<noteq> None))
              (task_error_code TaskActive (Some op))) (\<lambda>_.
     bindR (guardR (t_assigned_agent_id row = Some agent_id)
              (task_error_code TaskNotAssigned (Some op))) (\<lambda>_.
     bindR (guardR (t_last_checkpoint_id row = last_checkpoint_id)
              (task_error_code TaskConflict (Some op))) (\<lambda>_.
     let attempt_id = new_attempt_id ev in
     bindR (tx_store (now_millis (op_clock ev))) (\<lambda>now.
     bindR (map_err (\<lambda>e. if is_constraint e then task_error_code TaskStopUnconfirmed (Some op)
                          else task_error_of_store (SSqlite e))
              (insert_attempt (begin_attempt_row ev caller task_id agent_id session_id
                 work_request_id last_checkpoint_id now) d)) (\<lambda>d1.
     bindR (insert_text_report ev caller task_id (Some attempt_id) RNote resume_note now d1)
       (\<lambda>(d2, report_id).
     bindR (update_task_row (cc_workspace caller) task_id
       (\<lambda>t. t\<lparr>t_state := InProgress, t_version := expected_version + 1,
              t_current_attempt_id := Some attempt_id, t_last_attempt_id := Some attempt_id,
              t_pause_reason := None, t_updated_by := cc_actor_id caller,
              t_updated_at := now\<rparr>) d2) (\<lambda>d3.
     finish_mutation ev caller op hash task_id (expected_version + 1) ChgBegun (Some attempt_id)
       (Some report_id) None now d3))))))))))))"

definition apply_checkpoint ::
  "env \<Rightarrow> caller_context \<Rightarrow> uuid \<Rightarrow> int \<Rightarrow> uuid \<Rightarrow> int \<Rightarrow> task_checkpoint \<Rightarrow> digest \<Rightarrow> db \<Rightarrow>
     task_error + db \<times> task_apply_result" where
  "apply_checkpoint ev caller op task_id attempt_id expected_version checkpoint hash d =
     bindR (require_attempt_owner d caller task_id attempt_id expected_version op) (\<lambda>_.
     bindR (tx_store (now_millis (op_clock ev))) (\<lambda>now.
     bindR (insert_checkpoint_report ev caller task_id attempt_id RCheckpoint checkpoint now d)
       (\<lambda>(d1, report_id).
     bindR (update_task_row (cc_workspace caller) task_id
       (\<lambda>t. t\<lparr>t_version := expected_version + 1, t_last_checkpoint_id := Some report_id,
              t_updated_by := cc_actor_id caller, t_updated_at := now\<rparr>) d1) (\<lambda>d2.
     finish_mutation ev caller op hash task_id (expected_version + 1) ChgCheckpoint
       (Some attempt_id) (Some report_id) None now d2))))"

definition apply_release ::
  "env \<Rightarrow> caller_context \<Rightarrow> uuid \<Rightarrow> int \<Rightarrow> uuid \<Rightarrow> int \<Rightarrow> task_checkpoint \<Rightarrow> task_state \<Rightarrow> bool \<Rightarrow>
     digest \<Rightarrow> db \<Rightarrow> task_error + db \<times> task_apply_result" where
  "apply_release ev caller op task_id attempt_id expected_version checkpoint next_state completed
     hash d =
     bindR (require_attempt_owner d caller task_id attempt_id expected_version op) (\<lambda>_.
     bindR (tx_store (now_millis (op_clock ev))) (\<lambda>now.
     bindR (insert_checkpoint_report ev caller task_id attempt_id
              (if completed then RResult else RCheckpoint) checkpoint now d) (\<lambda>(d1, report_id).
     bindR (tx_sql (update_attempts (\<lambda>a. a_id a = attempt_id \<and> a_status a = Running)
       (\<lambda>a. a\<lparr>a_status := (if completed then Completed else Released),
              a_stop_evidence := EvReleased,
              a_reason := (if completed then None
                           else if next_state = Blocked then Some ReasonBlocked
                           else Some ReasonPaused),
              a_ended_at := Some now, a_stopped_at := Some now\<rparr>) d1)) (\<lambda>(d2, _).
     bindR (update_task_row (cc_workspace caller) task_id
       (\<lambda>t. t\<lparr>t_state := next_state, t_version := expected_version + 1,
              t_assigned_agent_id := (if next_state = Done then None else t_assigned_agent_id t),
              t_current_attempt_id := None, t_last_attempt_id := Some attempt_id,
              t_last_checkpoint_id := Some report_id,
              t_result_report_id := (if next_state = Done then Some report_id
                                     else t_result_report_id t),
              t_pause_reason := (if next_state = Blocked then Some ReasonBlocked
                                 else if next_state = Paused then Some ReasonPaused else None),
              t_updated_by := cc_actor_id caller, t_updated_at := now\<rparr>) d2) (\<lambda>d3.
     finish_mutation ev caller op hash task_id (expected_version + 1)
       (if completed then ChgCompleted else ChgPaused) (Some attempt_id) (Some report_id)
       (Some attempt_id) now d3)))))"

definition terminal_transition_valid :: "task_state \<Rightarrow> task_state \<Rightarrow> bool" where
  "terminal_transition_valid next_state state =
     (case next_state of
        Cancelled \<Rightarrow> \<not> is_terminal state \<and> state \<noteq> InProgress
      | Todo \<Rightarrow> is_terminal state
      | _ \<Rightarrow> False)"

definition apply_terminal ::
  "env \<Rightarrow> caller_context \<Rightarrow> uuid \<Rightarrow> int \<Rightarrow> int \<Rightarrow> string \<Rightarrow> task_state \<Rightarrow> digest \<Rightarrow> db \<Rightarrow>
     task_error + db \<times> task_apply_result" where
  "apply_terminal ev caller op task_id expected_version note next_state hash d =
     bindR (task_state_version d (cc_workspace caller) task_id op) (\<lambda>(state, version).
     bindR (check_version version expected_version op) (\<lambda>_.
     bindR (guardR (terminal_transition_valid next_state state)
              (task_error_code TaskInvalidTransition (Some op))) (\<lambda>_.
     bindR (guardR (\<not> exists_row (\<lambda>a. a_key a = (cc_workspace caller, task_id) \<and>
                       a_status a = Interrupted \<and> a_stop_evidence a = EvUnknown) (attempts d))
              (task_error_code TaskStopUnconfirmed (Some op))) (\<lambda>_.
     bindR (tx_store (now_millis (op_clock ev))) (\<lambda>now.
     let attempt_id = task_last_attempt_id d (cc_workspace caller) task_id in
     bindR (insert_text_report ev caller task_id attempt_id RNote note now d) (\<lambda>(d1, report_id).
     bindR (update_task_row (cc_workspace caller) task_id
       (\<lambda>t. t\<lparr>t_state := next_state, t_version := expected_version + 1,
              t_assigned_agent_id := None, t_current_attempt_id := None,
              t_result_report_id := (if next_state = Todo then None else t_result_report_id t),
              t_pause_reason := None, t_updated_by := cc_actor_id caller,
              t_updated_at := now\<rparr>) d1) (\<lambda>d2.
     finish_mutation ev caller op hash task_id (expected_version + 1)
       (if next_state = Todo then ChgReopened else ChgCancelled) attempt_id (Some report_id) None
       now d2)))))))"

definition apply_interrupt ::
  "env \<Rightarrow> caller_context \<Rightarrow> uuid \<Rightarrow> int \<Rightarrow> int \<Rightarrow> string \<Rightarrow> digest \<Rightarrow> db \<Rightarrow>
     task_error + db \<times> task_apply_result" where
  "apply_interrupt ev caller op task_id expected_version note hash d =
     bindR (task_state_version d (cc_workspace caller) task_id op) (\<lambda>(state, version).
     bindR (check_version version expected_version op) (\<lambda>_.
     bindR (guardR (state = InProgress) (task_error_code TaskInvalidTransition (Some op))) (\<lambda>_.
     bindR (ok_or (task_current_attempt_id d (cc_workspace caller) task_id)
              (task_error_code TaskStaleAttempt (Some op))) (\<lambda>attempt_id.
     bindR (tx_store (now_millis (op_clock ev))) (\<lambda>now.
     bindR (insert_text_report ev caller task_id (Some attempt_id) RNote note now d)
       (\<lambda>(d1, report_id).
     bindR (tx_sql (update_attempts (\<lambda>a. a_id a = attempt_id \<and> a_status a = Running)
       (\<lambda>a. a\<lparr>a_status := Interrupted, a_stop_evidence := EvUnknown,
              a_reason := Some OperatorInterrupt, a_ended_at := Some now\<rparr>) d1)) (\<lambda>(d2, _).
     bindR (update_task_row (cc_workspace caller) task_id
       (\<lambda>t. t\<lparr>t_state := Paused, t_version := expected_version + 1,
              t_current_attempt_id := None, t_last_attempt_id := Some attempt_id,
              t_pause_reason := Some OperatorInterrupt, t_updated_by := cc_actor_id caller,
              t_updated_at := now\<rparr>) d2) (\<lambda>d3.
     finish_mutation ev caller op hash task_id (expected_version + 1) ChgInterrupted
       (Some attempt_id) (Some report_id) (Some attempt_id) now d3))))))))"

definition apply_confirm_stopped ::
  "env \<Rightarrow> caller_context \<Rightarrow> uuid \<Rightarrow> int \<Rightarrow> uuid \<Rightarrow> int \<Rightarrow> string \<Rightarrow> digest \<Rightarrow> db \<Rightarrow>
     task_error + db \<times> task_apply_result" where
  "apply_confirm_stopped ev caller op task_id attempt_id expected_version note hash d =
     bindR (task_state_version d (cc_workspace caller) task_id op) (\<lambda>(_, version).
     bindR (check_version version expected_version op) (\<lambda>_.
     bindR (guardR (exists_row (\<lambda>a. a_id a = attempt_id \<and> a_key a = (cc_workspace caller, task_id) \<and>
                       a_status a = Interrupted \<and> a_stop_evidence a = EvUnknown) (attempts d))
              (task_error_code TaskStaleAttempt (Some op))) (\<lambda>_.
     bindR (tx_store (now_millis (op_clock ev))) (\<lambda>now.
     bindR (insert_text_report ev caller task_id (Some attempt_id) RNote note now d)
       (\<lambda>(d1, report_id).
     bindR (tx_sql (update_attempts (\<lambda>a. a_id a = attempt_id)
       (\<lambda>a. a\<lparr>a_stop_evidence := EvConfirmed, a_stopped_at := Some now\<rparr>) d1)) (\<lambda>(d2, _).
     bindR (update_task_row (cc_workspace caller) task_id
       (\<lambda>t. t\<lparr>t_version := expected_version + 1, t_updated_by := cc_actor_id caller,
              t_updated_at := now\<rparr>) d2) (\<lambda>d3.
     finish_mutation ev caller op hash task_id (expected_version + 1) ChgStopped
       (Some attempt_id) (Some report_id) None now d3)))))))"

section \<open>The entry point\<close>

fun dispatch ::
  "env \<Rightarrow> caller_context \<Rightarrow> digest \<Rightarrow> task_command \<Rightarrow> db \<Rightarrow> task_error + db \<times> task_apply_result" where
  "dispatch ev caller hash (CmdCreate op title description) d =
     apply_create ev caller op title description hash d"
| "dispatch ev caller hash (CmdEdit op task_id expected_version title description) d =
     apply_edit ev caller op task_id expected_version title description hash d"
| "dispatch ev caller hash (CmdAssign op task_id expected_version agent_id) d =
     apply_assign ev caller op task_id expected_version agent_id hash d"
| "dispatch ev caller hash (CmdNote op task_id text) d =
     apply_note ev caller op task_id text hash d"
| "dispatch ev caller hash (CmdBegin op task_id work_request_id expected_version
       last_checkpoint_id resume_note) d =
     apply_begin ev caller op task_id work_request_id expected_version last_checkpoint_id
       resume_note hash d"
| "dispatch ev caller hash (CmdCheckpoint op task_id attempt_id expected_version checkpoint) d =
     apply_checkpoint ev caller op task_id attempt_id expected_version checkpoint hash d"
| "dispatch ev caller hash (CmdPause op task_id attempt_id expected_version checkpoint blocked) d =
     apply_release ev caller op task_id attempt_id expected_version checkpoint
       (if blocked then Blocked else Paused) False hash d"
| "dispatch ev caller hash (CmdComplete op task_id attempt_id expected_version result) d =
     apply_release ev caller op task_id attempt_id expected_version result Done True hash d"
| "dispatch ev caller hash (CmdCancel op task_id expected_version note) d =
     apply_terminal ev caller op task_id expected_version note Cancelled hash d"
| "dispatch ev caller hash (CmdReopen op task_id expected_version note) d =
     apply_terminal ev caller op task_id expected_version note Todo hash d"
| "dispatch ev caller hash (CmdInterrupt op task_id expected_version note) d =
     apply_interrupt ev caller op task_id expected_version note hash d"
| "dispatch ev caller hash (CmdConfirmStopped op task_id attempt_id expected_version note) d =
     apply_confirm_stopped ev caller op task_id attempt_id expected_version note hash d"

definition last_task_event :: "db \<Rightarrow> workspace_name \<Rightarrow> int \<Rightarrow> workspace_event option" where
  "last_task_event d ws task_id =
     (case rev (sort_key we_seq (filter (\<lambda>e. we_workspace e = ws \<and> we_task_id e = Some task_id \<and>
                                              we_kind e = KTask) (events d))) of
        [] \<Rightarrow> None | e # _ \<Rightarrow> Some e)"

fun is_begin :: "task_command \<Rightarrow> bool" where
  "is_begin (CmdBegin _ _ _ _ _ _) = True"
| "is_begin _ = False"

definition replay_receipt ::
  "caller_context \<Rightarrow> digest \<Rightarrow> task_command \<Rightarrow> mutation_row \<Rightarrow> db \<Rightarrow>
     task_error + db \<times> task_apply_result" where
  "replay_receipt caller hash command receipt d =
     (let op = operation_id command in
     bindR (guardR (\<not> (m_actor_id receipt \<noteq> cc_actor_id caller \<or> m_request_hash receipt \<noteq> hash))
              (task_error_code RequestConflict (Some op))) (\<lambda>_.
     bindR (guardR (is_begin command \<longrightarrow>
                      (case m_attempt_id receipt of None \<Rightarrow> False
                       | Some attempt_id \<Rightarrow> exact_active_owner_attempt d caller attempt_id))
              (task_error_code TaskStaleAttempt (Some op))) (\<lambda>_.
     bindR (tx_store (get_task_detail_connection d (cc_workspace caller) (m_task_id receipt)))
       (\<lambda>found.
     bindR (ok_or found (task_error_code TaskNotFound (Some op))) (\<lambda>task.
     bindR (ok_or (last_task_event d (cc_workspace caller) (m_task_id receipt))
              (task_error_code StorageError (Some op))) (\<lambda>event.
     bindR (tx_sql (commit d)) (\<lambda>d1.
     Inr (d1,
       \<lparr>ar_mutation = \<lparr>tm_operation_id = op, tm_applied_version = m_applied_version receipt,
                        tm_report_id = m_report_id receipt, tm_task = task\<rparr>,
        ar_event = event, ar_closed_attempt_id = None\<rparr>))))))))"

definition apply_task ::
  "env \<Rightarrow> caller_context \<Rightarrow> task_command \<Rightarrow> db \<Rightarrow> task_error + db \<times> task_apply_result" where
  "apply_task ev caller command d =
     bindR (validate_command ev caller command) (\<lambda>_.
     let hash = request_digest ev command in
     case mutation_receipt d (cc_workspace caller) (operation_id command) of
       Some receipt \<Rightarrow> replay_receipt caller hash command receipt d
     | None \<Rightarrow>
         bindR (dispatch ev caller hash command d) (\<lambda>(d1, applied).
         bindR (tx_sql (commit d1)) (\<lambda>d2. Inr (d2, applied))))"

section \<open>Transitions the router makes itself\<close>

definition SYSTEM_ROUTER :: string where
  "SYSTEM_ROUTER = ''system:router''"

text \<open>The two clock readings are the operation's and the event's. \<^verbatim>\<open>None\<close> means there was
  nothing to interrupt.\<close>

definition interrupt_attempt ::
  "int \<Rightarrow> int \<Rightarrow> uuid \<Rightarrow> pause_reason \<Rightarrow> db \<Rightarrow> store_error + db \<times> workspace_event option" where
  "interrupt_attempt clock eclock attempt_id reason d =
     (case find_attempt d attempt_id of
        None \<Rightarrow> Inr (d, None)
      | Some a \<Rightarrow>
          if a_status a \<noteq> Running then bindR (map_err SSqlite (commit d)) (\<lambda>d1. Inr (d1, None))
          else
            bindR (now_millis clock) (\<lambda>now.
            bindR (map_err SSqlite (update_attempts (\<lambda>b. a_id b = attempt_id \<and> a_status b = Running)
              (\<lambda>b. b\<lparr>a_status := Interrupted, a_stop_evidence := EvUnknown,
                     a_reason := Some reason, a_ended_at := Some now\<rparr>) d)) (\<lambda>(d1, _).
            bindR (map_err SSqlite (update_tasks
              (\<lambda>t. t_key t = a_key a \<and> t_current_attempt_id t = Some attempt_id)
              (\<lambda>t. t\<lparr>t_state := Paused, t_version := t_version t + 1,
                     t_current_attempt_id := None, t_last_attempt_id := Some attempt_id,
                     t_pause_reason := Some reason, t_updated_by := SYSTEM_ROUTER,
                     t_updated_at := now\<rparr>) d1)) (\<lambda>(d2, changed).
            bindR (guardR (changed = 1) SInvalidData) (\<lambda>_.
            bindR (get_task_detail_connection d2 (a_workspace a) (a_task_id a)) (\<lambda>found.
            bindR (ok_or found SInvalidData) (\<lambda>task.
            bindR (append_event_in_transaction eclock
                     (task_event_insert (a_workspace a) SYSTEM_ROUTER (a_task_id a)
                        \<lparr>te_change = ChgInterrupted, te_task = td_summary task,
                         te_attempt_id = Some attempt_id, te_report_id = None,
                         te_external_operation_id = None\<rparr>) d2) (\<lambda>(d3, event).
            bindR (map_err SSqlite (commit d3)) (\<lambda>d4.
            Inr (d4, Some event))))))))))"

text \<open>The attempts of one provider session; each is interrupted in its own transaction, with
  its own clock readings.\<close>

definition session_attempts ::
  "db \<Rightarrow> string \<Rightarrow> uuid \<Rightarrow> uuid \<Rightarrow> int \<Rightarrow> uuid list" where
  "session_attempts d agent_id credential_id session_id generation =
     map a_id (filter (\<lambda>a. a_agent_id a = agent_id \<and> a_credential_id a = credential_id \<and>
        a_session_id a = session_id \<and> a_connection_generation a = generation \<and>
        a_status a = Running) (attempts d))"

fun interrupt_each ::
  "(nat \<Rightarrow> int \<times> int) \<Rightarrow> pause_reason \<Rightarrow> uuid list \<Rightarrow> db \<Rightarrow>
     store_error + db \<times> workspace_event list" where
  "interrupt_each clocks reason [] d = Inr (d, [])"
| "interrupt_each clocks reason (i # ids) d =
     bindR (interrupt_attempt (fst (clocks 0)) (snd (clocks 0)) i reason d) (\<lambda>(d1, event).
     bindR (interrupt_each (\<lambda>n. clocks (Suc n)) reason ids d1) (\<lambda>(d2, evs).
     Inr (d2, (case event of None \<Rightarrow> evs | Some e \<Rightarrow> e # evs))))"

definition interrupt_session_attempts ::
  "(nat \<Rightarrow> int \<times> int) \<Rightarrow> string \<Rightarrow> uuid \<Rightarrow> uuid \<Rightarrow> int \<Rightarrow> pause_reason \<Rightarrow> db \<Rightarrow>
     store_error + db \<times> workspace_event list" where
  "interrupt_session_attempts clocks agent_id credential_id session_id generation reason d =
     interrupt_each clocks reason
       (session_attempts d agent_id credential_id session_id generation) d"

definition record_execution_stopped ::
  "int \<Rightarrow> int \<Rightarrow> workspace_name \<Rightarrow> int \<Rightarrow> uuid \<Rightarrow> uuid \<Rightarrow> string \<Rightarrow> uuid \<Rightarrow> pause_reason \<Rightarrow> db \<Rightarrow>
     task_error + db \<times> workspace_event option" where
  "record_execution_stopped clock eclock ws task_id attempt_id ended_session_id agent_id
     credential_id reason d =
     bindR (ok_or (find (\<lambda>a. a_id a = attempt_id \<and> a_key a = (ws, task_id)) (attempts d))
              (task_error_code TaskStaleAttempt None)) (\<lambda>a.
     bindR (guardR (a_agent_id a = agent_id \<and> a_credential_id a = credential_id \<and>
                    a_session_id a = ended_session_id) (task_error_code TaskStaleAttempt None)) (\<lambda>_.
     if a_status a = Released \<or> a_status a = Completed \<or> a_stop_evidence a = EvConfirmed
     then bindR (tx_sql (commit d)) (\<lambda>d1. Inr (d1, None))
     else
       bindR (guardR (a_status a = Running \<or> a_status a = Interrupted \<and> a_stop_evidence a = EvUnknown)
                (task_error_code TaskStaleAttempt None)) (\<lambda>_.
       bindR (tx_store (now_millis clock)) (\<lambda>now.
       bindR (if a_status a = Running
              then
                bindR (tx_sql (update_attempts (\<lambda>b. a_id b = attempt_id \<and> a_status b = Running)
                  (\<lambda>b. b\<lparr>a_status := Interrupted, a_stop_evidence := EvConfirmed,
                         a_reason := Some reason, a_ended_at := Some now,
                         a_stopped_at := Some now\<rparr>) d)) (\<lambda>(d1, _).
                tx_sql (update_tasks
                  (\<lambda>t. t_key t = (ws, task_id) \<and> t_current_attempt_id t = Some attempt_id)
                  (\<lambda>t. t\<lparr>t_state := Paused, t_version := t_version t + 1,
                         t_current_attempt_id := None, t_last_attempt_id := Some attempt_id,
                         t_pause_reason := Some reason, t_updated_by := agent_id,
                         t_updated_at := now\<rparr>) d1))
              else
                bindR (tx_sql (update_attempts (\<lambda>b. a_id b = attempt_id \<and> a_status b = Interrupted \<and>
                                                   a_stop_evidence b = EvUnknown)
                  (\<lambda>b. b\<lparr>a_stop_evidence := EvConfirmed, a_stopped_at := Some now\<rparr>) d)) (\<lambda>(d1, _).
                tx_sql (update_tasks
                  (\<lambda>t. t_key t = (ws, task_id) \<and> t_current_attempt_id t = None \<and>
                       t_last_attempt_id t = Some attempt_id)
                  (\<lambda>t. t\<lparr>t_version := t_version t + 1, t_updated_by := agent_id,
                         t_updated_at := now\<rparr>) d1))) (\<lambda>(d2, changed).
       bindR (guardR (changed = 1) (task_error_of_store SInvalidData)) (\<lambda>_.
       bindR (tx_store (get_task_detail_connection d2 ws task_id)) (\<lambda>found.
       bindR (ok_or found (task_error_code TaskNotFound None)) (\<lambda>task.
       bindR (tx_store (append_event_in_transaction eclock
                (task_event_insert ws agent_id task_id
                   \<lparr>te_change = ChgStopped, te_task = td_summary task,
                    te_attempt_id = Some attempt_id, te_report_id = None,
                    te_external_operation_id = None\<rparr>) d2)) (\<lambda>(d3, event).
       bindR (tx_sql (commit d3)) (\<lambda>d4.
       Inr (d4, Some event)))))))))))"

end
