(* ===== verification/Task_Inv.thy ===== *)
theory Task_Inv
  imports Task_Ops
begin

text \<open>
  The invariant of the task tables and what every statement of the task commands does to it.
  \<open>exec_ok\<close> couples tasks and attempts: a task is in progress exactly when its current attempt
  is running, and no task or agent has two. \<open>ref_ok\<close> is the reports a task names,
  \<open>ids_ok\<close> the density of task numbers, \<open>receipts_ok\<close> what a stored receipt guarantees.
\<close>

section \<open>The invariant\<close>

text \<open>Evidence agrees with status: a released or completed attempt stopped by releasing, an
  interrupted one is unknown until confirmed.\<close>

fun evidence_ok :: "attempt_status \<Rightarrow> stop_evidence \<Rightarrow> bool" where
  "evidence_ok Running e = (e = EvUnknown)"
| "evidence_ok Released e = (e = EvReleased)"
| "evidence_ok Completed e = (e = EvReleased)"
| "evidence_ok Interrupted e = (e = EvUnknown \<or> e = EvConfirmed)"

definition exec_ok :: "task_row list \<Rightarrow> attempt_row list \<Rightarrow> bool" where
  "exec_ok ts as \<longleftrightarrow>
     distinct (map t_key ts) \<and> distinct (map a_id as) \<and>
     (\<forall>t\<in>set ts. task_check t) \<and>
     (\<forall>a\<in>set as. attempt_check a \<and> evidence_ok (a_status a) (a_stop_evidence a) \<and>
        (\<exists>t\<in>set ts. t_key t = a_key a)) \<and>
     attempts_unique as \<and>
     (\<forall>a\<in>set as. is_running a \<longrightarrow>
        (\<exists>t\<in>set ts. t_key t = a_key a \<and> t_current_attempt_id t = Some (a_id a))) \<and>
     (\<forall>t\<in>set ts. \<forall>i. t_current_attempt_id t = Some i \<longrightarrow>
        t_last_attempt_id t = Some i \<and> (\<exists>a\<in>set as. a_id a = i \<and> is_running a)) \<and>
     (\<forall>t\<in>set ts. \<forall>i. t_last_attempt_id t = Some i \<longrightarrow>
        (\<exists>a\<in>set as. a_id a = i \<and> a_key a = t_key t))"

definition ref_ok :: "task_row list \<Rightarrow> attempt_row list \<Rightarrow> report_row list \<Rightarrow> bool" where
  "ref_ok ts as rs \<longleftrightarrow>
     distinct (map r_id rs) \<and>
     (\<forall>r\<in>set rs. body_matches (r_kind r) (r_body r) \<and> (\<exists>t\<in>set ts. t_key t = r_key r) \<and>
        (\<forall>i. r_attempt_id r = Some i \<longrightarrow> i \<in> a_id ` set as)) \<and>
     (\<forall>t\<in>set ts. \<forall>i. t_last_checkpoint_id t = Some i \<or> t_result_report_id t = Some i \<longrightarrow>
        (\<exists>r\<in>set rs. r_id r = i \<and> r_key r = t_key t \<and> r_kind r \<noteq> RNote)) \<and>
     (\<forall>a\<in>set as. \<forall>i. a_resumed_from_checkpoint_id a = Some i \<longrightarrow> i \<in> r_id ` set rs)"

definition ids_ok :: "workspace_row list \<Rightarrow> task_row list \<Rightarrow> bool" where
  "ids_ok ws ts \<longleftrightarrow>
     (\<forall>t\<in>set ts. t_workspace t \<in> w_name ` set ws) \<and>
     (\<forall>w\<in>set ws. map t_id (filter (\<lambda>t. t_workspace t = w_name w) ts) = [1..w_next_task_id w - 1])"

definition receipts_ok :: "db \<Rightarrow> bool" where
  "receipts_ok d \<longleftrightarrow>
     distinct (map m_key (mutations d)) \<and>
     (\<forall>m\<in>set (mutations d).
        (\<exists>t\<in>set (tasks d). t_key t = (m_workspace m, m_task_id m)) \<and>
        (\<exists>e\<in>set (events d). we_workspace e = m_workspace m \<and> we_task_id e = Some (m_task_id m) \<and>
           we_kind e = KTask))"

definition creds_ok :: "db \<Rightarrow> bool" where
  "creds_ok d \<longleftrightarrow> distinct (map c_id (credentials d)) \<and>
     (\<forall>a\<in>set (attempts d). a_credential_id a \<in> c_id ` set (credentials d))"

definition store_inv :: "db \<Rightarrow> bool" where
  "store_inv d \<longleftrightarrow>
     log_inv d \<and> exec_ok (tasks d) (attempts d) \<and> ref_ok (tasks d) (attempts d) (reports d) \<and>
     ids_ok (workspaces d) (tasks d) \<and> receipts_ok d \<and> creds_ok d"

section \<open>Reading the invariant\<close>

lemma exec_okD:
  assumes "exec_ok ts as"
  shows "distinct (map t_key ts)" "distinct (map a_id as)"
    "t \<in> set ts \<Longrightarrow> task_check t"
    "a \<in> set as \<Longrightarrow> attempt_check a"
    "a \<in> set as \<Longrightarrow> evidence_ok (a_status a) (a_stop_evidence a)"
    "a \<in> set as \<Longrightarrow> \<exists>t\<in>set ts. t_key t = a_key a"
    "attempts_unique as"
    "a \<in> set as \<Longrightarrow> is_running a \<Longrightarrow>
       \<exists>t\<in>set ts. t_key t = a_key a \<and> t_current_attempt_id t = Some (a_id a)"
    "t \<in> set ts \<Longrightarrow> t_current_attempt_id t = Some i \<Longrightarrow>
       t_last_attempt_id t = Some i \<and> (\<exists>a\<in>set as. a_id a = i \<and> is_running a)"
    "t \<in> set ts \<Longrightarrow> t_last_attempt_id t = Some i \<Longrightarrow>
       \<exists>a\<in>set as. a_id a = i \<and> a_key a = t_key t"
  using assms unfolding exec_ok_def by simp_all

lemma store_invD:
  assumes "store_inv d"
  shows "log_inv d" "exec_ok (tasks d) (attempts d)" "ref_ok (tasks d) (attempts d) (reports d)"
    "ids_ok (workspaces d) (tasks d)" "receipts_ok d" "creds_ok d"
  using assms by (simp_all add: store_inv_def)

lemma exec_ok_same_task:
  "exec_ok ts as \<Longrightarrow> t \<in> set ts \<Longrightarrow> u \<in> set ts \<Longrightarrow> t_key t = t_key u \<Longrightarrow> t = u"
  by (blast dest: exec_okD(1) distinct_key_eq)

lemma exec_ok_same_attempt:
  "exec_ok ts as \<Longrightarrow> a \<in> set as \<Longrightarrow> b \<in> set as \<Longrightarrow> a_id a = a_id b \<Longrightarrow> a = b"
  by (blast dest: exec_okD(2) distinct_key_eq)

text \<open>The running attempt of a task is the one its row names.\<close>

lemma exec_ok_current:
  assumes "exec_ok ts as" and "t \<in> set ts" and "t_current_attempt_id t = Some i"
  shows "\<exists>a\<in>set as. a_id a = i \<and> is_running a \<and> a_key a = t_key t"
  using exec_okD(9) [OF assms] exec_okD(10) [OF assms(1,2)] exec_ok_same_attempt [OF assms(1)]
  by metis

lemma exec_ok_running:
  assumes "exec_ok ts as" and "a \<in> set as" and "is_running a" and "t \<in> set ts"
    and "t_key t = a_key a"
  shows "t_current_attempt_id t = Some (a_id a)"
  using exec_okD(8) [OF assms(1-3)] exec_ok_same_task [OF assms(1,4)] assms(5) by metis

lemma exec_ok_in_progress:
  "exec_ok ts as \<Longrightarrow> t \<in> set ts \<Longrightarrow> t_state t = InProgress \<longleftrightarrow> t_current_attempt_id t \<noteq> None"
  using exec_okD(3) [of ts as t] by (auto simp: task_check_def)

section \<open>Unique indexes under an update\<close>

lemma distinct_filter_update:
  assumes "\<And>r. P r \<Longrightarrow> k (f r) = k r" and "\<And>r. P r \<Longrightarrow> Q (f r) \<Longrightarrow> Q r"
    and "distinct (map k (filter Q rows))"
  shows "distinct (map k (filter Q (update_where P f rows)))"
  using assms(3)
proof (induction rows)
  case Nil
  then show ?case by (simp add: update_where_def)
next
  case (Cons r rows)
  have sub: "k ` {x \<in> set (update_where P f rows). Q x} \<subseteq> k ` {x \<in> set rows. Q x}"
    using assms(1,2) by (force simp: update_where_def)
  define x where "x = (if P r then f r else r)"
  have x: "k x = k r" "Q x \<Longrightarrow> Q r" using assms(1,2) by (auto simp: x_def split: if_splits)
  have upd: "update_where P f (r # rows) = x # update_where P f rows"
    by (simp add: update_where_def x_def)
  have new: "k x \<notin> k ` {y \<in> set (update_where P f rows). Q y}" if "Q x"
  proof -
    from Cons.prems x(2) [OF that] have "k r \<notin> k ` {y \<in> set rows. Q y}" by auto
    then show ?thesis using sub x(1) by (metis subsetD)
  qed
  have "distinct (map k (filter Q rows))"
    using Cons.prems by (cases "Q r") auto
  then show ?case
    using Cons.IH new unfolding upd by (cases "Q x") simp_all
qed

lemma attempts_unique_update:
  assumes "attempts_unique as"
    and "\<And>a. P a \<Longrightarrow> a_key (f a) = a_key a \<and> a_agent_id (f a) = a_agent_id a"
    and "\<And>a. P a \<Longrightarrow> is_running (f a) \<Longrightarrow> is_running a"
    and "\<And>a. P a \<Longrightarrow> is_barrier (f a) \<Longrightarrow> is_barrier a"
  shows "attempts_unique (update_where P f as)"
  using assms unfolding attempts_unique_def
  by (intro conjI distinct_filter_update) auto

section \<open>The four changes to tasks and attempts\<close>

text \<open>(1) A task row changes, but not which attempts it names.\<close>

lemma exec_ok_task_update:
  assumes "exec_ok ts as"
    and "\<And>t. t \<in> set ts \<Longrightarrow> P t \<Longrightarrow> task_check (f t)"
    and "\<And>t. t_key (f t) = t_key t"
    and "\<And>t. t \<in> set ts \<Longrightarrow> P t \<Longrightarrow> t_current_attempt_id (f t) = t_current_attempt_id t"
    and "\<And>t. t \<in> set ts \<Longrightarrow> P t \<Longrightarrow> t_last_attempt_id (f t) = t_last_attempt_id t"
  shows "exec_ok (update_where P f ts) as"
  unfolding exec_ok_def
proof (intro conjI ballI allI impI)
  let ?ts = "update_where P f ts"
  have img: "\<exists>u\<in>set ?ts. t_key u = t_key t \<and> t_current_attempt_id u = t_current_attempt_id t"
    if "t \<in> set ts" for t
    using that assms(3,4) by (cases "P t") (auto simp: table_simps intro: exI)
  show "distinct (map t_key ?ts)"
    using exec_okD(1) [OF assms(1)] by (simp add: map_update_where assms(3))
  show "distinct (map a_id as)" "attempts_unique as"
    by (rule exec_okD [OF assms(1)])+
  show "task_check t" if "t \<in> set ?ts" for t
    using that assms(2) exec_okD(3) [OF assms(1)] by (auto simp: table_simps)
  show "attempt_check a" "evidence_ok (a_status a) (a_stop_evidence a)" if "a \<in> set as" for a
    using exec_okD(4,5) [OF assms(1) that] by auto
  show "\<exists>t\<in>set ?ts. t_key t = a_key a" if "a \<in> set as" for a
    using exec_okD(6) [OF assms(1) that] img by metis
  show "\<exists>t\<in>set ?ts. t_key t = a_key a \<and> t_current_attempt_id t = Some (a_id a)"
    if "a \<in> set as" "is_running a" for a
    using exec_okD(8) [OF assms(1) that] img by metis
  show "t_last_attempt_id t = Some i" "\<exists>a\<in>set as. a_id a = i \<and> is_running a"
    if "t \<in> set ?ts" "t_current_attempt_id t = Some i" for t i
    using that exec_okD(9) [OF assms(1)] assms(4,5) by (fastforce simp: table_simps)+
  show "\<exists>a\<in>set as. a_id a = i \<and> a_key a = t_key t"
    if "t \<in> set ?ts" "t_last_attempt_id t = Some i" for t i
    using that exec_okD(10) [OF assms(1)] assms(3,5) by (fastforce simp: table_simps)
qed

text \<open>(2) A new running attempt is inserted and its task points to it.\<close>

lemma exec_ok_begin:
  assumes ok: "exec_ok ts as" and t: "t \<in> set ts" "t_current_attempt_id t = None"
    and a: "a_key a = t_key t" "is_running a" "attempt_check a" "a_id a \<notin> a_id ` set as"
    and uniq: "attempts_unique (as @ [a])"
    and f: "task_check (f t)" "\<And>u. t_key (f u) = t_key u"
      "t_current_attempt_id (f t) = Some (a_id a)" "t_last_attempt_id (f t) = Some (a_id a)"
  shows "exec_ok (update_where (\<lambda>u. t_key u = t_key t) f ts) (as @ [a])"
  unfolding exec_ok_def
proof (intro conjI ballI allI impI)
  let ?ts = "update_where (\<lambda>u. t_key u = t_key t) f ts" and ?as = "as @ [a]"
  note rows = in_set_update_where_key [OF exec_okD(1) [OF ok] t(1), of _ f]
  have keys: "\<exists>u\<in>set ?ts. t_key u = t_key v" if "v \<in> set ts" for v
    using key_update_where_ex [OF _ that] f(2) by metis
  have ev: "a_stop_evidence a = EvUnknown"
    using a(2,3) by (auto simp: attempt_check_def is_running_def)
  show "distinct (map t_key ?ts)"
    using exec_okD(1) [OF ok] by (simp add: map_update_where f(2))
  show "distinct (map a_id ?as)"
    using exec_okD(2) [OF ok] a(4) by simp
  show "attempts_unique ?as" by (rule uniq)
  show "task_check u" if "u \<in> set ?ts" for u
    using that f(1) exec_okD(3) [OF ok] by (auto simp: rows)
  show "attempt_check b" if "b \<in> set ?as" for b
    using that a(3) exec_okD(4) [OF ok] by auto
  show "evidence_ok (a_status b) (a_stop_evidence b)" if "b \<in> set ?as" for b
    using that a(2) ev exec_okD(5) [OF ok] by (auto simp: is_running_def)
  show "\<exists>u\<in>set ?ts. t_key u = a_key b" if "b \<in> set ?as" for b
    using that keys exec_okD(6) [OF ok] a(1) t(1) by (auto, metis+)
  show "\<exists>u\<in>set ?ts. t_key u = a_key b \<and> t_current_attempt_id u = Some (a_id b)"
    if b: "b \<in> set ?as" "is_running b" for b
  proof (cases "b = a")
    case True
    then show ?thesis using f(2,3) a(1) rows [of "f t"] by auto
  next
    case False
    with b have "b \<in> set as" by auto
    then obtain u where "u \<in> set ts" "t_key u = a_key b" "t_current_attempt_id u = Some (a_id b)"
      using exec_okD(8) [OF ok] b(2) by blast
    then show ?thesis
      using t(2) exec_ok_same_task [OF ok t(1)] by (metis option.distinct(1) rows)
  qed
  show "t_last_attempt_id u = Some i" "\<exists>b\<in>set ?as. a_id b = i \<and> is_running b"
    if "u \<in> set ?ts" "t_current_attempt_id u = Some i" for u i
    using that a(2) f(3,4) exec_okD(9) [OF ok, of u i] by (auto simp: rows)
  show "\<exists>b\<in>set ?as. a_id b = i \<and> a_key b = t_key u"
    if "u \<in> set ?ts" "t_last_attempt_id u = Some i" for u i
    using that a(1) f(2,4) exec_okD(10) [OF ok, of u i] by (auto simp: rows)
qed

text \<open>(3) The running attempt of a task ends and the task stops naming it.\<close>

lemma exec_ok_close:
  assumes ok: "exec_ok ts as" and t: "t \<in> set ts" "t_current_attempt_id t = Some i"
    and a: "a \<in> set as" "a_id a = i" "is_running a"
    and h: "\<And>b. a_id (h b) = a_id b" "\<And>b. a_key (h b) = a_key b" "\<not> is_running (h a)"
      "attempt_check (h a)" "evidence_ok (a_status (h a)) (a_stop_evidence (h a))"
    and uniq: "attempts_unique (update_where (\<lambda>b. a_id b = i) h as)"
    and f: "task_check (f t)" "\<And>u. t_key (f u) = t_key u"
      "t_current_attempt_id (f t) = None" "t_last_attempt_id (f t) = Some i"
  shows "exec_ok (update_where (\<lambda>u. t_key u = t_key t) f ts) (update_where (\<lambda>b. a_id b = i) h as)"
  unfolding exec_ok_def
proof (intro conjI ballI allI impI)
  let ?ts = "update_where (\<lambda>u. t_key u = t_key t) f ts"
    and ?as = "update_where (\<lambda>b. a_id b = i) h as"
  note trows = in_set_update_where_key [OF exec_okD(1) [OF ok] t(1), of _ f]
  note arows = in_set_update_where_key [OF exec_okD(2) [OF ok] a(1), of _ h, unfolded a(2)]
  have akey: "a_key a = t_key t"
    using exec_ok_current [OF ok t] exec_ok_same_attempt [OF ok a(1)] a(2) by metis
  have keys: "\<exists>u\<in>set ?ts. t_key u = t_key v" if "v \<in> set ts" for v
    using key_update_where_ex [OF _ that] f(2) by metis
  show "distinct (map t_key ?ts)" "distinct (map a_id ?as)"
    using exec_okD(1,2) [OF ok] by (simp_all add: map_update_where f(2) h(1))
  show "attempts_unique ?as" by (rule uniq)
  show "task_check u" if "u \<in> set ?ts" for u
    using that f(1) exec_okD(3) [OF ok] by (auto simp: trows)
  show "attempt_check b" "evidence_ok (a_status b) (a_stop_evidence b)" if "b \<in> set ?as" for b
    using that h(4,5) exec_okD(4,5) [OF ok] by (auto simp: arows)
  show "\<exists>u\<in>set ?ts. t_key u = a_key b" if "b \<in> set ?as" for b
    using that keys exec_okD(6) [OF ok] h(2) a(1) by (metis arows)
  show "\<exists>u\<in>set ?ts. t_key u = a_key b \<and> t_current_attempt_id u = Some (a_id b)"
    if b: "b \<in> set ?as" "is_running b" for b
  proof -
    from b h(3) have b': "b \<in> set as" "a_id b \<noteq> i" by (auto simp: arows)
    then obtain u where u: "u \<in> set ts" "t_key u = a_key b" "t_current_attempt_id u = Some (a_id b)"
      using exec_okD(8) [OF ok] b(2) by blast
    then have "t_key u \<noteq> t_key t"
      using t(2) b'(2) exec_ok_same_task [OF ok t(1)] by (metis option.inject)
    with u show ?thesis by (auto simp: trows)
  qed
  show "t_last_attempt_id u = Some j" "\<exists>b\<in>set ?as. a_id b = j \<and> is_running b"
    if u: "u \<in> set ?ts" "t_current_attempt_id u = Some j" for u j
  proof -
    from u f(3) have u': "u \<in> set ts" "t_key u \<noteq> t_key t" by (auto simp: trows)
    from exec_ok_current [OF ok u'(1) u(2)] obtain b where
      b: "b \<in> set as" "a_id b = j" "is_running b" "a_key b = t_key u" by blast
    then have "j \<noteq> i" using u'(2) akey exec_ok_same_attempt [OF ok a(1)] a(2) by metis
    with b show "\<exists>b\<in>set ?as. a_id b = j \<and> is_running b" by (auto simp: arows)
    show "t_last_attempt_id u = Some j" using exec_okD(9) [OF ok u'(1) u(2)] by simp
  qed
  show "\<exists>b\<in>set ?as. a_id b = j \<and> a_key b = t_key u"
    if u: "u \<in> set ?ts" "t_last_attempt_id u = Some j" for u j
  proof (cases "u = f t")
    case True
    have "h a \<in> set ?as" by (simp add: arows)
    then show ?thesis using True u(2) f(2,4) h(1,2) a(2) akey by (metis option.inject)
  next
    case False
    with u have "u \<in> set ts" by (auto simp: trows)
    from exec_okD(10) [OF ok this u(2)] obtain b where
      b: "b \<in> set as" "a_id b = j" "a_key b = t_key u" by blast
    show ?thesis
    proof (cases "j = i")
      case True
      with b have "b = a" using exec_ok_same_attempt [OF ok _ a(1)] a(2) by auto
      moreover have "h a \<in> set ?as" by (simp add: arows)
      ultimately show ?thesis using b h(1,2) by metis
    next
      case False
      with b show ?thesis by (auto simp: arows)
    qed
  qed
qed

text \<open>(4) An attempt that is not running changes its evidence.\<close>

lemma exec_ok_attempt_update:
  assumes ok: "exec_ok ts as"
    and h: "\<And>b. a_id (h b) = a_id b" "\<And>b. a_key (h b) = a_key b"
      "\<And>b. b \<in> set as \<Longrightarrow> P b \<Longrightarrow> is_running (h b) = is_running b"
      "\<And>b. b \<in> set as \<Longrightarrow> P b \<Longrightarrow> attempt_check (h b)"
      "\<And>b. b \<in> set as \<Longrightarrow> P b \<Longrightarrow> evidence_ok (a_status (h b)) (a_stop_evidence (h b))"
    and uniq: "attempts_unique (update_where P h as)"
  shows "exec_ok ts (update_where P h as)"
proof -
  let ?as = "update_where P h as"
  have img: "\<exists>c\<in>set ?as. a_id c = a_id b \<and> a_key c = a_key b \<and> is_running c = is_running b"
    if "b \<in> set as" for b
    using that h(1,2,3) [of b] by (cases "P b") (auto simp: table_simps intro: exI)
  have pre: "\<exists>b\<in>set as. a_id c = a_id b \<and> a_key c = a_key b \<and> is_running c = is_running b"
    if "c \<in> set ?as" for c
    using that h(1,2,3) by (auto simp: table_simps)
  show ?thesis
    unfolding exec_ok_def
  proof (intro conjI ballI allI impI)
    show "distinct (map t_key ts)" "distinct (map a_id ?as)" "attempts_unique ?as"
      using exec_okD(1,2) [OF ok] uniq by (simp_all add: map_update_where h(1))
    show "task_check t" if "t \<in> set ts" for t
      using exec_okD(3) [OF ok that] .
    show "attempt_check b" "evidence_ok (a_status b) (a_stop_evidence b)" if "b \<in> set ?as" for b
      using that h(4,5) exec_okD(4,5) [OF ok] by (auto simp: table_simps)
    show "\<exists>t\<in>set ts. t_key t = a_key b" if "b \<in> set ?as" for b
      using pre [OF that] exec_okD(6) [OF ok] by metis
    show "\<exists>t\<in>set ts. t_key t = a_key b \<and> t_current_attempt_id t = Some (a_id b)"
      if "b \<in> set ?as" "is_running b" for b
      using pre [OF that(1)] that(2) exec_okD(8) [OF ok] by metis
    show "t_last_attempt_id t = Some i" if "t \<in> set ts" "t_current_attempt_id t = Some i" for t i
      using exec_okD(9) [OF ok that] by simp
    show "\<exists>b\<in>set ?as. a_id b = i \<and> is_running b"
      if "t \<in> set ts" "t_current_attempt_id t = Some i" for t i
      using exec_okD(9) [OF ok that] img by metis
    show "\<exists>b\<in>set ?as. a_id b = i \<and> a_key b = t_key t"
      if "t \<in> set ts" "t_last_attempt_id t = Some i" for t i
      using exec_okD(10) [OF ok that] img by metis
  qed
qed

section \<open>Reports and task numbers under the same changes\<close>

lemma ref_okD:
  assumes "ref_ok ts as rs"
  shows "distinct (map r_id rs)"
    "r \<in> set rs \<Longrightarrow> body_matches (r_kind r) (r_body r)"
    "r \<in> set rs \<Longrightarrow> \<exists>t\<in>set ts. t_key t = r_key r"
    "r \<in> set rs \<Longrightarrow> r_attempt_id r = Some i \<Longrightarrow> i \<in> a_id ` set as"
    "t \<in> set ts \<Longrightarrow> t_last_checkpoint_id t = Some i \<or> t_result_report_id t = Some i \<Longrightarrow>
       \<exists>r\<in>set rs. r_id r = i \<and> r_key r = t_key t \<and> r_kind r \<noteq> RNote"
    "a \<in> set as \<Longrightarrow> a_resumed_from_checkpoint_id a = Some i \<Longrightarrow> i \<in> r_id ` set rs"
  using assms unfolding ref_ok_def by blast+

lemma ref_ok_report:
  assumes "ref_ok ts as rs" and "r_id r \<notin> r_id ` set rs" and "body_matches (r_kind r) (r_body r)"
    and "\<exists>t\<in>set ts. t_key t = r_key r" and "\<And>i. r_attempt_id r = Some i \<Longrightarrow> i \<in> a_id ` set as"
  shows "ref_ok ts as (rs @ [r])"
  using assms unfolding ref_ok_def by (auto simp: image_iff)

text \<open>A task row changes; a report it newly names must exist.\<close>

lemma ref_ok_task_update:
  assumes ok: "ref_ok ts as rs" and key: "\<And>t. t_key (f t) = t_key t"
    and new: "\<And>t i. t \<in> set ts \<Longrightarrow> P t \<Longrightarrow>
      t_last_checkpoint_id (f t) = Some i \<or> t_result_report_id (f t) = Some i \<Longrightarrow>
      t_last_checkpoint_id t = Some i \<or> t_result_report_id t = Some i \<or>
      (\<exists>r\<in>set rs. r_id r = i \<and> r_key r = t_key t \<and> r_kind r \<noteq> RNote)"
  shows "ref_ok (update_where P f ts) as rs"
proof -
  have keys: "\<exists>u\<in>set (update_where P f ts). t_key u = t_key v" if "v \<in> set ts" for v
    using key_update_where_ex [OF _ that] key by metis
  show ?thesis
    unfolding ref_ok_def
  proof (intro conjI ballI allI impI)
    show "distinct (map r_id rs)" by (rule ref_okD(1) [OF ok])
    show "body_matches (r_kind r) (r_body r)" if "r \<in> set rs" for r
      using ref_okD(2) [OF ok that] .
    show "\<exists>t\<in>set (update_where P f ts). t_key t = r_key r" if "r \<in> set rs" for r
      using ref_okD(3) [OF ok that] keys by metis
    show "i \<in> a_id ` set as" if "r \<in> set rs" "r_attempt_id r = Some i" for r i
      using ref_okD(4) [OF ok that] .
    show "i \<in> r_id ` set rs" if "a \<in> set as" "a_resumed_from_checkpoint_id a = Some i" for a i
      using ref_okD(6) [OF ok that] .
    show "\<exists>r\<in>set rs. r_id r = i \<and> r_key r = t_key t \<and> r_kind r \<noteq> RNote"
      if "t \<in> set (update_where P f ts)"
        "t_last_checkpoint_id t = Some i \<or> t_result_report_id t = Some i" for t i
    proof (cases "\<exists>u\<in>set ts. P u \<and> t = f u")
      case True
      then obtain u where "u \<in> set ts" "P u" "t = f u" by blast
      then show ?thesis using new [of u i] that(2) ref_okD(5) [OF ok, of u i] key by auto
    next
      case False
      with that(1) have "t \<in> set ts" by (auto simp: table_simps)
      then show ?thesis using ref_okD(5) [OF ok _ that(2)] by blast
    qed
  qed
qed

text \<open>Attempts may change or grow as long as their ids stay and what they resume from exists.\<close>

lemma ref_ok_attempts:
  assumes ok: "ref_ok ts as rs" and ids: "a_id ` set as \<subseteq> a_id ` set as'"
    and res: "\<And>a i. a \<in> set as' \<Longrightarrow> a_resumed_from_checkpoint_id a = Some i \<Longrightarrow> i \<in> r_id ` set rs"
  shows "ref_ok ts as' rs"
  using ok ids res unfolding ref_ok_def by blast

lemma ref_ok_attempt_update:
  assumes "ref_ok ts as rs" and "\<And>b. a_id (h b) = a_id b"
    and "\<And>b. a_resumed_from_checkpoint_id (h b) = a_resumed_from_checkpoint_id b"
  shows "ref_ok ts (update_where P h as) rs"
proof (rule ref_ok_attempts [OF assms(1)])
  show "a_id ` set as \<subseteq> a_id ` set (update_where P h as)"
    using keys_update_where [of P a_id h as] assms(2) by simp
  show "i \<in> r_id ` set rs"
    if "a \<in> set (update_where P h as)" "a_resumed_from_checkpoint_id a = Some i" for a i
    using that ref_okD(6) [OF assms(1)] assms(3) by (auto simp: table_simps)
qed

lemma ids_ok_task_update:
  assumes "ids_ok ws ts" and "\<And>t. t_key (f t) = t_key t"
  shows "ids_ok ws (update_where P f ts)"
proof -
  have wk: "t_workspace (f t) = t_workspace t" "t_id (f t) = t_id t" for t
    using assms(2) [of t] by (simp_all add: t_key_def)
  have "map t_id (filter (\<lambda>t. t_workspace t = n) (update_where P f ts)) =
          map t_id (filter (\<lambda>t. t_workspace t = n) ts)" for n
    by (induction ts) (auto simp: update_where_def wk)
  moreover have "t_workspace t \<in> w_name ` set ws" if "t \<in> set (update_where P f ts)" for t
    using that assms(1) wk(1) by (auto simp: ids_ok_def table_simps)
  ultimately show ?thesis
    using assms(1) unfolding ids_ok_def by simp
qed

end
