(* ===== verification/Task_Steps.thy ===== *)
theory Task_Steps
  imports Task_Inv
begin

text \<open>
  Every statement and every command of \<open>Task_Ops\<close> keeps \<open>store_inv\<close>. A command is a few
  statements followed by \<^verbatim>\<open>finish_mutation\<close>; the lemmas on statements carry the proofs.
\<close>

section \<open>Effects of the statements\<close>

lemma tx_store_eq_Inr [simp, result_simps]: "tx_store m = Inr x \<longleftrightarrow> m = Inr x"
  by (simp add: tx_store_def)

lemma tx_sql_eq_Inr [simp, result_simps]: "tx_sql m = Inr x \<longleftrightarrow> m = Inr x"
  by (simp add: tx_sql_def)

lemma now_millis_eq_Inr [simp, result_simps]: "now_millis t = Inr n \<longleftrightarrow> n = t \<and> 0 \<le> t \<and> t \<le> I64_MAX"
  by (auto simp: now_millis_def)

lemma check_version_eq_Inr [simp, result_simps]: "check_version c e op = Inr u \<longleftrightarrow> c = e"
  by (auto simp: check_version_def)

lemma task_exists_iff: "task_exists d k \<longleftrightarrow> (\<exists>t\<in>set (tasks d). t_key t = k)"
  by (simp add: task_exists_def)

lemma find_task_SomeD: "find_task d ws i = Some t \<Longrightarrow> t \<in> set (tasks d) \<and> t_key t = (ws, i)"
  unfolding find_task_def by (rule find_key_SomeD)

lemma find_attempt_SomeD: "find_attempt d i = Some a \<Longrightarrow> a \<in> set (attempts d) \<and> a_id a = i"
  unfolding find_attempt_def by (rule find_key_SomeD)

lemma insert_report_effect:
  assumes "insert_report jl r d = Inr d1"
  shows "d1 = d\<lparr>reports := reports d @ [r]\<rparr>" "r_id r \<notin> r_id ` set (reports d)"
    "\<And>i. r_attempt_id r = Some i \<Longrightarrow> i \<in> a_id ` set (attempts d)"
    "\<exists>t\<in>set (tasks d). t_key t = r_key r" "report_check jl r"
  using assms
  by (auto simp: insert_report_def task_exists_iff opt_all_def image_iff split: if_splits option.splits)

lemma insert_attempt_effect:
  assumes "insert_attempt a d = Inr d1"
  shows "d1 = d\<lparr>attempts := attempts d @ [a]\<rparr>" "attempt_check a" "a_id a \<notin> a_id ` set (attempts d)"
    "a_credential_id a \<in> c_id ` set (credentials d)" "\<exists>t\<in>set (tasks d). t_key t = a_key a"
    "is_running a \<Longrightarrow> b \<in> set (attempts d) \<Longrightarrow> is_running b \<Longrightarrow> a_key b \<noteq> a_key a"
    "is_barrier a \<Longrightarrow> b \<in> set (attempts d) \<Longrightarrow> is_barrier b \<Longrightarrow> a_agent_id b \<noteq> a_agent_id a"
proof -
  from assms show "d1 = d\<lparr>attempts := attempts d @ [a]\<rparr>" "attempt_check a"
    "a_id a \<notin> a_id ` set (attempts d)" "\<exists>t\<in>set (tasks d). t_key t = a_key a"
    by (auto simp: insert_attempt_def task_exists_iff split: if_splits)
  from assms have "\<exists>c\<in>set (credentials d). c_id c = a_credential_id a"
    by (auto simp: insert_attempt_def split: if_splits)
  then show "a_credential_id a \<in> c_id ` set (credentials d)" by force
  from assms show "is_running a \<Longrightarrow> b \<in> set (attempts d) \<Longrightarrow> is_running b \<Longrightarrow> a_key b \<noteq> a_key a"
    "is_barrier a \<Longrightarrow> b \<in> set (attempts d) \<Longrightarrow> is_barrier b \<Longrightarrow> a_agent_id b \<noteq> a_agent_id a"
    by (auto simp: insert_attempt_def split: if_splits)
qed

lemma attempts_unique_insert:
  assumes "insert_attempt a d = Inr d1" and "attempts_unique (attempts d)"
  shows "attempts_unique (attempts d @ [a])"
proof -
  have "a_key a \<notin> a_key ` {b \<in> set (attempts d). is_running b}" if "is_running a"
    using insert_attempt_effect(6) [OF assms(1) that] by force
  moreover have "a_agent_id a \<notin> a_agent_id ` {b \<in> set (attempts d). is_barrier b}" if "is_barrier a"
    using insert_attempt_effect(7) [OF assms(1) that] by force
  ultimately show ?thesis
    using assms(2) by (simp add: attempts_unique_def)
qed

lemma update_attempts_effect:
  assumes "update_attempts P f d = Inr (d1, n)"
  shows "d1 = d\<lparr>attempts := update_where P f (attempts d)\<rparr>"
    "attempts_unique (update_where P f (attempts d))"
    "a \<in> set (attempts d) \<Longrightarrow> P a \<Longrightarrow> attempt_check (f a)"
    "n = count_where P (attempts d)"
  using assms by (auto simp: update_attempts_def split: if_splits)

lemma update_tasks_effect:
  assumes "update_tasks P f d = Inr (d1, n)"
  shows "d1 = d\<lparr>tasks := update_where P f (tasks d)\<rparr>"
    "t \<in> set (tasks d) \<Longrightarrow> P t \<Longrightarrow> task_check (f t)"
    "n = count_where P (tasks d)"
  using assms by (auto simp: update_tasks_def split: if_splits)

lemma update_task_row_effect:
  assumes "update_task_row ws i f d = Inr d1"
  shows "d1 = d\<lparr>tasks := update_where (\<lambda>t. t_key t = (ws, i)) f (tasks d)\<rparr>"
    "t \<in> set (tasks d) \<Longrightarrow> t_key t = (ws, i) \<Longrightarrow> task_check (f t)"
  using assms by (auto simp: update_task_row_def bindR_eq_Inr dest: update_tasks_effect)

section \<open>Statements that keep the invariant\<close>

lemma store_inv_report:
  assumes "store_inv d" and ins: "insert_report jl r d = Inr d1"
    and "body_matches (r_kind r) (r_body r)"
  shows "store_inv d1"
proof -
  note eff = insert_report_effect [OF ins]
  have "ref_ok (tasks d) (attempts d) (reports d @ [r])"
    using store_invD(3) [OF assms(1)] eff(2-4) assms(3) by (intro ref_ok_report) auto
  then show ?thesis
    using store_invD [OF assms(1)] log_inv_frame [of d1 d]
    by (simp add: eff(1) store_inv_def receipts_ok_def creds_ok_def)
qed

text \<open>The general form of a change to tasks, attempts and reports.\<close>

lemma store_inv_exec:
  assumes inv: "store_inv d"
    and ex: "exec_ok (update_where P f (tasks d)) as'"
    and ref: "ref_ok (update_where P f (tasks d)) as' rs'"
    and key: "\<And>t. t_key (f t) = t_key t"
    and cred: "a_credential_id ` set as' \<subseteq> c_id ` set (credentials d)"
  shows "store_inv (d\<lparr>tasks := update_where P f (tasks d), attempts := as', reports := rs'\<rparr>)"
proof -
  have keys: "\<exists>u\<in>set (update_where P f (tasks d)). t_key u = t_key v" if "v \<in> set (tasks d)" for v
    using key_update_where_ex [OF _ that] key by metis
  have "receipts_ok (d\<lparr>tasks := update_where P f (tasks d), attempts := as', reports := rs'\<rparr>)"
    using store_invD(5) [OF inv] keys unfolding receipts_ok_def by (simp, metis)
  then show ?thesis
    using store_invD [OF inv] ex ref cred ids_ok_task_update [OF store_invD(4) [OF inv] key]
    by (auto simp: store_inv_def creds_ok_def log_inv_def workspace_log_def)
qed

lemma creds_okD: "store_inv d \<Longrightarrow> a_credential_id ` set (attempts d) \<subseteq> c_id ` set (credentials d)"
  by (auto dest: store_invD(6) simp: creds_ok_def)

lemma store_inv_tasks:
  assumes inv: "store_inv d" and upd: "update_tasks P f d = Inr (d1, n)"
    and key: "\<And>t. t_key (f t) = t_key t"
    and cur: "\<And>t. t \<in> set (tasks d) \<Longrightarrow> P t \<Longrightarrow>
      t_current_attempt_id (f t) = t_current_attempt_id t \<and> t_last_attempt_id (f t) = t_last_attempt_id t"
    and ref: "\<And>t j. t \<in> set (tasks d) \<Longrightarrow> P t \<Longrightarrow>
      t_last_checkpoint_id (f t) = Some j \<or> t_result_report_id (f t) = Some j \<Longrightarrow>
      t_last_checkpoint_id t = Some j \<or> t_result_report_id t = Some j \<or>
      (\<exists>r\<in>set (reports d). r_id r = j \<and> r_key r = t_key t \<and> r_kind r \<noteq> RNote)"
  shows "store_inv d1"
proof -
  note eff = update_tasks_effect [OF upd]
  have "exec_ok (update_where P f (tasks d)) (attempts d)"
    using store_invD(2) [OF inv] eff(2) key cur by (intro exec_ok_task_update) auto
  moreover have "ref_ok (update_where P f (tasks d)) (attempts d) (reports d)"
    using store_invD(3) [OF inv] key ref by (rule ref_ok_task_update) auto
  ultimately have "store_inv (d\<lparr>tasks := update_where P f (tasks d),
      attempts := attempts d, reports := reports d\<rparr>)"
    using store_inv_exec [OF inv] key creds_okD [OF inv] by blast
  then show ?thesis by (simp add: eff(1))
qed

lemma update_task_row_tasks:
  "update_task_row ws k f d = Inr d1 \<Longrightarrow> \<exists>n. update_tasks (\<lambda>t. t_key t = (ws, k)) f d = Inr (d1, n)"
  by (auto simp: update_task_row_def result_simps)

lemma store_inv_task_row:
  assumes inv: "store_inv d" and upd: "update_task_row ws i f d = Inr d1"
    and key: "\<And>t. t_key (f t) = t_key t"
    and cur: "\<And>t. t \<in> set (tasks d) \<Longrightarrow> t_key t = (ws, i) \<Longrightarrow>
      t_current_attempt_id (f t) = t_current_attempt_id t \<and> t_last_attempt_id (f t) = t_last_attempt_id t"
    and ref: "\<And>t j. t \<in> set (tasks d) \<Longrightarrow> t_key t = (ws, i) \<Longrightarrow>
      t_last_checkpoint_id (f t) = Some j \<or> t_result_report_id (f t) = Some j \<Longrightarrow>
      t_last_checkpoint_id t = Some j \<or> t_result_report_id t = Some j \<or>
      (\<exists>r\<in>set (reports d). r_id r = j \<and> r_key r = t_key t \<and> r_kind r \<noteq> RNote)"
  shows "store_inv d1"
proof -
  from update_task_row_tasks [OF upd] obtain n where
    upt: "update_tasks (\<lambda>t. t_key t = (ws, i)) f d = Inr (d1, n)" by blast
  show ?thesis by (rule store_inv_tasks [OF inv upt key cur ref])
qed

text \<open>An attempt ends and its task lets go of it, in the two statements the commands use.\<close>

lemma store_inv_close:
  assumes inv: "store_inv d" and t: "t \<in> set (tasks d)" "t_key t = (ws, k)"
      "t_current_attempt_id t = Some i"
    and upa: "update_attempts (\<lambda>b. a_id b = i \<and> a_status b = Running) h d = Inr (d1, n)"
    and h: "\<And>b. a_id (h b) = a_id b" "\<And>b. a_key (h b) = a_key b" "\<And>b. \<not> is_running (h b)"
      "\<And>b. evidence_ok (a_status (h b)) (a_stop_evidence (h b))"
      "\<And>b. a_resumed_from_checkpoint_id (h b) = a_resumed_from_checkpoint_id b"
      "\<And>b. a_credential_id (h b) = a_credential_id b"
    and upt: "update_tasks P f d1 = Inr (d2, m)"
    and P: "\<And>u. u \<in> set (tasks d) \<Longrightarrow> P u \<longleftrightarrow> t_key u = (ws, k)"
    and f: "\<And>u. t_key (f u) = t_key u" "t_current_attempt_id (f t) = None"
      "t_last_attempt_id (f t) = Some i"
      "\<And>j. t_last_checkpoint_id (f t) = Some j \<or> t_result_report_id (f t) = Some j \<Longrightarrow>
      t_last_checkpoint_id t = Some j \<or> t_result_report_id t = Some j \<or>
      (\<exists>r\<in>set (reports d). r_id r = j \<and> r_key r = t_key t \<and> r_kind r \<noteq> RNote)"
  shows "store_inv d2"
    and "d2 = d\<lparr>tasks := update_where (\<lambda>u. t_key u = t_key t) f (tasks d),
                 attempts := update_where (\<lambda>b. a_id b = i) h (attempts d)\<rparr>"
proof -
  note ok = store_invD(2) [OF inv]
  note ea = update_attempts_effect [OF upa] and et = update_tasks_effect [OF upt]
  from exec_ok_current [OF ok t(1,3)] obtain a where
    a: "a \<in> set (attempts d)" "a_id a = i" "is_running a" "a_key a = t_key t" by blast
  have Pa: "(a_id b = i \<and> a_status b = Running) = (a_id b = i)" if "b \<in> set (attempts d)" for b
    using that a exec_ok_same_attempt [OF ok] by (auto simp: is_running_def)
  have ua: "update_where (\<lambda>b. a_id b = i \<and> a_status b = Running) h (attempts d) =
      update_where (\<lambda>b. a_id b = i) h (attempts d)"
    using Pa by (simp add: update_where_def)
  have ut: "update_where P f (tasks d) = update_where (\<lambda>u. t_key u = t_key t) f (tasks d)"
    using P t(2) by (simp add: update_where_def)
  have d2: "d2 = d\<lparr>tasks := update_where (\<lambda>u. t_key u = t_key t) f (tasks d),
                 attempts := update_where (\<lambda>b. a_id b = i) h (attempts d)\<rparr>"
    by (simp add: et(1) ea(1) ua ut)
  then show "d2 = d\<lparr>tasks := update_where (\<lambda>u. t_key u = t_key t) f (tasks d),
                 attempts := update_where (\<lambda>b. a_id b = i) h (attempts d)\<rparr>" .
  have chk: "task_check (f t)" using et(2) [of t] P t by (simp add: ea(1))
  have chka: "attempt_check (h a)" using ea(3) [OF a(1)] a by (simp add: is_running_def)
  have ex: "exec_ok (update_where (\<lambda>u. t_key u = t_key t) f (tasks d))
      (update_where (\<lambda>b. a_id b = i) h (attempts d))"
    by (rule exec_ok_close [OF ok t(1,3) a(1-3) h(1,2,3) chka h(4) ea(2) [unfolded ua] chk f(1-3)])
  have "ref_ok (update_where (\<lambda>u. t_key u = t_key t) f (tasks d)) (attempts d) (reports d)"
  proof (rule ref_ok_task_update [OF store_invD(3) [OF inv] f(1)])
    fix u j
    assume u: "u \<in> set (tasks d)" "t_key u = t_key t"
      "t_last_checkpoint_id (f u) = Some j \<or> t_result_report_id (f u) = Some j"
    then have "u = t" using exec_ok_same_task [OF ok _ t(1)] by blast
    with u f(4) show "t_last_checkpoint_id u = Some j \<or> t_result_report_id u = Some j \<or>
      (\<exists>r\<in>set (reports d). r_id r = j \<and> r_key r = t_key u \<and> r_kind r \<noteq> RNote)" by blast
  qed
  then have ref: "ref_ok (update_where (\<lambda>u. t_key u = t_key t) f (tasks d))
      (update_where (\<lambda>b. a_id b = i) h (attempts d)) (reports d)"
    by (rule ref_ok_attempt_update [OF _ h(1,5)])
  have cred: "a_credential_id ` set (update_where (\<lambda>b. a_id b = i) h (attempts d)) \<subseteq>
      c_id ` set (credentials d)"
    using creds_okD [OF inv] h(6) by (simp add: keys_update_where)
  from store_inv_exec [OF inv ex ref f(1) cred] show "store_inv d2" by (simp add: d2)
qed

text \<open>The evidence of an attempt that does not run is settled.\<close>

lemma store_inv_evidence:
  assumes inv: "store_inv d" and upa: "update_attempts P h d = Inr (d1, n)"
    and P: "\<And>b. b \<in> set (attempts d) \<Longrightarrow> P b \<Longrightarrow> a_status b = Interrupted"
    and h: "\<And>b. a_id (h b) = a_id b" "\<And>b. a_key (h b) = a_key b" "\<And>b. a_status (h b) = a_status b"
      "\<And>b. a_stop_evidence (h b) = EvConfirmed"
      "\<And>b. a_resumed_from_checkpoint_id (h b) = a_resumed_from_checkpoint_id b"
      "\<And>b. a_credential_id (h b) = a_credential_id b"
  shows "store_inv d1"
proof -
  note ea = update_attempts_effect [OF upa]
  have ex: "exec_ok (tasks d) (update_where P h (attempts d))"
    using store_invD(2) [OF inv] h ea(2,3) P
    by (intro exec_ok_attempt_update) (auto simp: is_running_def)
  have ref: "ref_ok (tasks d) (update_where P h (attempts d)) (reports d)"
    by (rule ref_ok_attempt_update [OF store_invD(3) [OF inv] h(1,5)])
  have cred: "a_credential_id ` set (update_where P h (attempts d)) \<subseteq> c_id ` set (credentials d)"
    using creds_okD [OF inv] h(6) by (simp add: keys_update_where)
  have none: "update_where (\<lambda>_. False) id (tasks d) = tasks d" by (rule update_where_none) simp
  have "store_inv (d\<lparr>tasks := tasks d, attempts := update_where P h (attempts d), reports := reports d\<rparr>)"
    using store_inv_exec [OF inv, of "\<lambda>_. False" id, unfolded none, OF ex ref _ cred] by simp
  then show ?thesis by (simp add: ea(1))
qed

section \<open>Appending an event and a receipt\<close>

lemma append_event_task_ids:
  assumes "append_event_in_transaction clock i d = Inr (d', e)" and "w \<in> set (workspaces d')"
  shows "\<exists>v\<in>set (workspaces d). w_name v = w_name w \<and> w_next_task_id v = w_next_task_id w"
proof -
  from append_event_effect [OF assms(1)]
  have "workspaces d' = update_where (can_bump_seq (ei_workspace i)) bump_seq (workspaces d)" by auto
  with assms(2) obtain v where "v \<in> set (workspaces d)" "w = v \<or> w = bump_seq v"
    by (auto simp: table_simps)
  then show ?thesis by (intro bexI [of _ v]) auto
qed

lemma store_inv_append:
  assumes inv: "store_inv d" and app: "append_event_in_transaction clock i d = Inr (d', e)"
  shows "store_inv d'"
proof -
  have "ids_ok (workspaces d') (tasks d')"
    using store_invD(4) [OF inv] append_event_task_ids [OF app]
    unfolding ids_ok_def append_event_fields(2) [OF app] append_event_names [OF app] by metis
  moreover have "receipts_ok d'"
    using store_invD(5) [OF inv] by (auto simp: receipts_ok_def append_event_fields [OF app])
  ultimately show ?thesis
    using store_invD [OF inv] append_log_inv [OF _ app]
    by (simp add: store_inv_def creds_ok_def append_event_fields [OF app])
qed

text \<open>What the tail of every command did: one event, one receipt, and nothing else.\<close>

lemma finish_mutation_effect:
  assumes "finish_mutation ev caller op hash k v chg aid rid cid now d = Inr (d', res)"
  shows "\<exists>d1 e detail m. get_task_detail_connection d (cc_workspace caller) k = Inr (Some detail) \<and>
     append_event_in_transaction (event_clock ev)
       (task_event_insert (cc_workspace caller) (cc_actor_id caller) k
          \<lparr>te_change = chg, te_task = td_summary detail, te_attempt_id = aid,
           te_report_id = rid, te_external_operation_id = None\<rparr>) d = Inr (d1, e) \<and>
     m = \<lparr>m_workspace = cc_workspace caller, m_operation_id = op, m_actor_id = cc_actor_id caller,
          m_request_hash = hash, m_task_id = k, m_applied_version = v, m_attempt_id = aid,
          m_report_id = rid, m_created_at = now\<rparr> \<and>
     m_key m \<notin> m_key ` set (mutations d) \<and>
     d' = d1\<lparr>mutations := mutations d @ [m]\<rparr> \<and>
     res = \<lparr>ar_mutation = \<lparr>tm_operation_id = op, tm_applied_version = v, tm_report_id = rid,
                             tm_task = detail\<rparr>,
            ar_event = e, ar_closed_attempt_id = cid\<rparr>"
  using assms
  by (auto simp: finish_mutation_def insert_receipt_def insert_mutation_def bindR_eq_Inr
      append_event_fields split: if_splits) metis

lemma finish_mutation_fields:
  assumes "finish_mutation ev caller op hash k v chg aid rid cid now d = Inr (d', res)"
  shows "tasks d' = tasks d" "attempts d' = attempts d" "reports d' = reports d"
    "credentials d' = credentials d" "links d' = links d" "invites d' = invites d"
    "external_operations d' = external_operations d" "events d' = events d @ [ar_event res]"
    "\<exists>m. mutations d' = mutations d @ [m] \<and> m_key m = (cc_workspace caller, op)"
    "resolutions d' = resolutions d" "bindings d' = bindings d"
  using finish_mutation_effect [OF assms]
  by (auto simp: append_event_fields m_key_def)

lemma store_inv_finish:
  assumes inv: "store_inv d" and fin: "finish_mutation ev caller op hash k v chg aid rid cid now d = Inr (d', res)"
  shows "store_inv d'"
proof -
  from finish_mutation_effect [OF fin] obtain d1 e detail m where
    det: "get_task_detail_connection d (cc_workspace caller) k = Inr (Some detail)"
    and app: "append_event_in_transaction (event_clock ev)
       (task_event_insert (cc_workspace caller) (cc_actor_id caller) k
          \<lparr>te_change = chg, te_task = td_summary detail, te_attempt_id = aid,
           te_report_id = rid, te_external_operation_id = None\<rparr>) d = Inr (d1, e)"
    and meq: "m = \<lparr>m_workspace = cc_workspace caller, m_operation_id = op, m_actor_id = cc_actor_id caller,
          m_request_hash = hash, m_task_id = k, m_applied_version = v, m_attempt_id = aid,
          m_report_id = rid, m_created_at = now\<rparr>"
    and fresh: "m_key m \<notin> m_key ` set (mutations d)"
    and d': "d' = d1\<lparr>mutations := mutations d @ [m]\<rparr>"
    by blast
  have m: "m_workspace m = cc_workspace caller" "m_task_id m = k" by (simp_all add: meq)
  note inv1 = store_inv_append [OF inv app]
  have "\<exists>t\<in>set (tasks d). t_key t = (cc_workspace caller, k)"
    using det by (auto simp: get_task_detail_connection_def dest: find_task_SomeD split: option.splits)
  moreover have "e \<in> set (events d1) \<and> we_workspace e = cc_workspace caller \<and> we_task_id e = Some k \<and>
      we_kind e = KTask"
    by (simp add: append_event_fields(1) [OF app] append_event_event [OF app] task_event_insert_def)
  ultimately have "receipts_ok d'"
    using store_invD(5) [OF inv1] m fresh
    by (auto simp: d' receipts_ok_def append_event_fields [OF app])
  then show ?thesis
    using store_invD [OF inv1] log_inv_frame [of d' d1]
    by (simp add: d' store_inv_def creds_ok_def)
qed

text \<open>The deferred foreign keys hold, so a commit cannot fail.\<close>

lemma store_inv_deferred_ok:
  assumes "store_inv d"
  shows "deferred_ok d"
proof -
  note ok = store_invD(2) [OF assms] and ref = store_invD(3) [OF assms]
  have "\<exists>a\<in>set (attempts d). a_id a = i"
    if "t \<in> set (tasks d)" "t_current_attempt_id t = Some i \<or> t_last_attempt_id t = Some i" for t i
    using that exec_okD(9,10) [OF ok that(1)] by blast
  moreover have "\<exists>r\<in>set (reports d). r_id r = i"
    if "t \<in> set (tasks d)" "t_last_checkpoint_id t = Some i \<or> t_result_report_id t = Some i" for t i
    using ref_okD(5) [OF ref that] by blast
  moreover have "\<exists>r\<in>set (reports d). r_id r = i"
    if "a \<in> set (attempts d)" "a_resumed_from_checkpoint_id a = Some i" for a i
    using ref_okD(6) [OF ref that] by (auto simp: image_iff)
  ultimately show ?thesis
    unfolding deferred_ok_def list_all_iff opt_all_def exists_row_iff
    by (simp split: option.split)
qed

end
