(* ===== verification/Task_Keep.thy ===== *)
theory Task_Keep
  imports Task_Steps
begin

text \<open>
  Every command of \<^verbatim>\<open>apply_task\<close> keeps \<open>store_inv\<close> and advances the version of the one task it
  names; so do the router's own transitions. Each lemma takes the statements a command issued
  apart and composes the lemmas of \<open>Task_Steps\<close>.
\<close>

section \<open>Versioned changes\<close>

text \<open>The task existed at version \<open>v\<close>, its row is now at \<open>v + 1\<close>, and no other row changed.\<close>

definition versioned :: "db \<Rightarrow> db \<Rightarrow> workspace_name \<Rightarrow> int \<Rightarrow> int \<Rightarrow> bool" where
  "versioned d d' ws k v \<longleftrightarrow>
     (\<exists>t. find_task d ws k = Some t \<and> t_version t = v) \<and>
     (\<exists>f. (\<forall>t. t_key (f t) = t_key t \<and> t_version (f t) = v + 1) \<and>
          tasks d' = update_where (\<lambda>t. t_key t = (ws, k)) f (tasks d))"

lemma versionedI:
  assumes "find_task d ws k = Some t" and "t_version t = v"
    and "update_task_row ws k f d1 = Inr d2" and "tasks d1 = tasks d" and "tasks d' = tasks d2"
    and "\<And>t. t_key (f t) = t_key t \<and> t_version (f t) = v + 1"
  shows "versioned d d' ws k v"
  using assms update_task_row_effect(1) [OF assms(3)] unfolding versioned_def by auto

lemma versioned_find:
  assumes "versioned d d' ws k v"
  shows "\<exists>t. find_task d' ws k = Some t \<and> t_version t = v + 1"
    and "(ws', k') \<noteq> (ws, k) \<Longrightarrow> find_task d' ws' k' = find_task d ws' k'"
proof -
  from assms obtain t f where t: "find_task d ws k = Some t"
    and f: "\<And>t. t_key (f t) = t_key t \<and> t_version (f t) = v + 1"
    and eq: "tasks d' = update_where (\<lambda>t. t_key t = (ws, k)) f (tasks d)"
    unfolding versioned_def by blast
  have "find_task d' ws k = map_option f (find_task d ws k)"
    unfolding find_task_def eq by (rule find_update_where_key) (simp add: f)
  with t f show "\<exists>t. find_task d' ws k = Some t \<and> t_version t = v + 1" by simp
  show "find_task d' ws' k' = find_task d ws' k'" if "(ws', k') \<noteq> (ws, k)"
    unfolding find_task_def eq using that f by (intro find_update_where_other) auto
qed

lemma task_state_version_eq_Inr [result_simps]:
  "task_state_version d ws k op = Inr (s, v) \<longleftrightarrow>
     (\<exists>t. find_task d ws k = Some t \<and> s = t_state t \<and> v = t_version t)"
  by (auto simp: task_state_version_def)

section \<open>Commands that change only the task row\<close>

lemma apply_edit_step:
  assumes inv: "store_inv d"
    and ap: "apply_edit ev caller op k v title description hash d = Inr (d', res)"
  shows "store_inv d' \<and> versioned d d' (cc_workspace caller) k v"
proof -
  from ap obtain t now d1 where t: "find_task d (cc_workspace caller) k = Some t" "t_version t = v"
    and upd: "update_task_row (cc_workspace caller) k
       (\<lambda>t. t\<lparr>t_title := (case title of None \<Rightarrow> t_title t | Some v \<Rightarrow> v),
              t_description := (case description of None \<Rightarrow> t_description t | Some v \<Rightarrow> v),
              t_version := v + 1, t_updated_by := cc_actor_id caller,
              t_updated_at := now\<rparr>) d = Inr d1"
    and fin: "finish_mutation ev caller op hash k (v + 1) ChgEdited None None None now d1 = Inr (d', res)"
    by (auto simp: apply_edit_def result_simps)
  have "store_inv d1"
    by (rule store_inv_task_row [OF inv upd]) (auto simp: t_key_def)
  moreover have "versioned d d' (cc_workspace caller) k v"
    by (rule versionedI [OF t upd]) (simp_all add: finish_mutation_fields [OF fin] t_key_def)
  ultimately show ?thesis using store_inv_finish [OF _ fin] by blast
qed

lemma apply_assign_step:
  assumes inv: "store_inv d"
    and ap: "apply_assign ev caller op k v agent_id hash d = Inr (d', res)"
  shows "store_inv d' \<and> versioned d d' (cc_workspace caller) k v"
proof -
  from ap obtain t now d1 where t: "find_task d (cc_workspace caller) k = Some t" "t_version t = v"
    and upd: "update_task_row (cc_workspace caller) k
       (\<lambda>t. t\<lparr>t_assigned_agent_id := agent_id, t_version := v + 1,
              t_updated_by := cc_actor_id caller, t_updated_at := now\<rparr>) d = Inr d1"
    and fin: "finish_mutation ev caller op hash k (v + 1) ChgAssigned None None None now d1 = Inr (d', res)"
    by (auto simp: apply_assign_def result_simps)
  have "store_inv d1"
    by (rule store_inv_task_row [OF inv upd]) (auto simp: t_key_def)
  moreover have "versioned d d' (cc_workspace caller) k v"
    by (rule versionedI [OF t upd]) (simp_all add: finish_mutation_fields [OF fin] t_key_def)
  ultimately show ?thesis using store_inv_finish [OF _ fin] by blast
qed

section \<open>Commands that also write a report\<close>

lemma insert_text_report_effect:
  assumes inv: "store_inv d"
    and ins: "insert_text_report ev caller k aid RNote text now d = Inr (d1, rid)"
  shows "store_inv d1" "rid = new_report_id ev" "tasks d1 = tasks d" "attempts d1 = attempts d"
proof -
  from ins obtain r where ir: "insert_report (body_json_len ev) r d = Inr d1"
    "r_kind r = RNote" "r_body r = BodyText text" "rid = new_report_id ev"
    by (auto simp: insert_text_report_def result_simps)
  show "store_inv d1" using store_inv_report [OF inv ir(1)] ir by simp
  show "rid = new_report_id ev" by (rule ir(4))
  show "tasks d1 = tasks d" "attempts d1 = attempts d"
    using insert_report_effect(1) [OF ir(1)] by simp_all
qed

lemma insert_checkpoint_report_effect:
  assumes inv: "store_inv d" and kind: "kind \<noteq> RNote"
    and ins: "insert_checkpoint_report ev caller k aid kind ck now d = Inr (d1, rid)"
  shows "store_inv d1" "tasks d1 = tasks d" "attempts d1 = attempts d"
    "\<exists>r\<in>set (reports d1). r_id r = rid \<and> r_key r = (cc_workspace caller, k) \<and> r_kind r \<noteq> RNote"
proof -
  from ins obtain r where ir: "insert_report (body_json_len ev) r d = Inr d1"
    "r_kind r = kind" "r_body r = BodyCheckpoint ck" "rid = r_id r"
    "r_key r = (cc_workspace caller, k)"
    by (auto simp: insert_checkpoint_report_def result_simps r_key_def)
  show "store_inv d1"
    using store_inv_report [OF inv ir(1)] ir kind by (cases kind) simp_all
  show "tasks d1 = tasks d" "attempts d1 = attempts d"
    "\<exists>r\<in>set (reports d1). r_id r = rid \<and> r_key r = (cc_workspace caller, k) \<and> r_kind r \<noteq> RNote"
    using insert_report_effect(1) [OF ir(1)] ir kind by auto
qed

lemma apply_note_step:
  assumes inv: "store_inv d"
    and ap: "apply_note ev caller op k text hash d = Inr (d', res)"
  shows "store_inv d' \<and> tasks d' = tasks d \<and> attempts d' = attempts d"
proof -
  from ap obtain v now d1 rid aid where
    ins: "insert_text_report ev caller k aid RNote text now d = Inr (d1, rid)"
    and fin: "finish_mutation ev caller op hash k v ChgNoted aid (Some rid) None now d1 =
        Inr (d', res)"
    by (auto simp: apply_note_def result_simps Let_def)
  note eff = insert_text_report_effect [OF inv ins]
  show ?thesis
    using store_inv_finish [OF eff(1) fin] by (simp add: finish_mutation_fields [OF fin] eff)
qed

lemma apply_terminal_step:
  assumes inv: "store_inv d"
    and ap: "apply_terminal ev caller op k v note next_state hash d = Inr (d', res)"
  shows "store_inv d' \<and> versioned d d' (cc_workspace caller) k v"
proof -
  define f where "f now t = t\<lparr>t_state := next_state, t_version := v + 1,
              t_assigned_agent_id := None, t_current_attempt_id := None,
              t_result_report_id := (if next_state = Todo then None else t_result_report_id t),
              t_pause_reason := None, t_updated_by := cc_actor_id caller,
              t_updated_at := now\<rparr>" for now :: int and t :: task_row
  from ap obtain t now d1 d2 rid where t: "find_task d (cc_workspace caller) k = Some t" "t_version t = v"
    and valid: "terminal_transition_valid next_state (t_state t)"
    and ins: "insert_text_report ev caller k (task_last_attempt_id d (cc_workspace caller) k) RNote
        note now d = Inr (d1, rid)"
    and upd: "update_task_row (cc_workspace caller) k (f now) d1 = Inr d2"
    and fin: "finish_mutation ev caller op hash k (v + 1)
       (if next_state = Todo then ChgReopened else ChgCancelled)
       (task_last_attempt_id d (cc_workspace caller) k) (Some rid) None now d2 = Inr (d', res)"
    unfolding apply_terminal_def f_def by (auto simp: result_simps Let_def)
  note eff = insert_text_report_effect [OF inv ins]
  have "t_state t \<noteq> InProgress"
    using valid by (auto simp: terminal_transition_valid_def is_terminal_def split: task_state.splits)
  then have none: "t_current_attempt_id t = None"
    using exec_ok_in_progress [OF store_invD(2) [OF inv]] find_task_SomeD [OF t(1)] by auto
  have same: "u = t" if "u \<in> set (tasks d1)" "t_key u = (cc_workspace caller, k)" for u
    using that find_task_SomeD [OF t(1)] exec_ok_same_task [OF store_invD(2) [OF inv]] eff(3) by auto
  have "store_inv d2"
    by (rule store_inv_task_row [OF eff(1) upd])
       (auto simp: f_def t_key_def none dest: same split: if_splits)
  moreover have "versioned d d' (cc_workspace caller) k v"
    by (rule versionedI [OF t upd eff(3)]) (simp_all add: finish_mutation_fields [OF fin] t_key_def f_def)
  ultimately show ?thesis using store_inv_finish [OF _ fin] by blast
qed

section \<open>Commands that end or check an attempt\<close>

lemma owner_matches_current:
  assumes "require_attempt_owner d caller k aid v op = Inr u"
  shows "\<exists>t. find_task d (cc_workspace caller) k = Some t \<and> t_version t = v"
    and "\<exists>t\<in>set (tasks d). t_key t = (cc_workspace caller, k) \<and> t_current_attempt_id t = Some aid"
  using assms
  by (auto simp: require_attempt_owner_def result_simps owner_attempt_matches_def a_key_def)

lemma apply_checkpoint_step:
  assumes inv: "store_inv d"
    and ap: "apply_checkpoint ev caller op k aid v ck hash d = Inr (d', res)"
  shows "store_inv d' \<and> versioned d d' (cc_workspace caller) k v"
proof -
  from ap obtain now d1 d2 rid where
    own: "require_attempt_owner d caller k aid v op = Inr ()"
    and ins: "insert_checkpoint_report ev caller k aid RCheckpoint ck now d = Inr (d1, rid)"
    and upd: "update_task_row (cc_workspace caller) k
       (\<lambda>t. t\<lparr>t_version := v + 1, t_last_checkpoint_id := Some rid,
              t_updated_by := cc_actor_id caller, t_updated_at := now\<rparr>) d1 = Inr d2"
    and fin: "finish_mutation ev caller op hash k (v + 1) ChgCheckpoint (Some aid) (Some rid) None
        now d2 = Inr (d', res)"
    by (auto simp: apply_checkpoint_def result_simps)
  from owner_matches_current(1) [OF own] obtain t where
    t: "find_task d (cc_workspace caller) k = Some t" "t_version t = v" by blast
  note eff = insert_checkpoint_report_effect [OF inv _ ins, simplified]
  have "store_inv d2"
    by (rule store_inv_task_row [OF eff(1) upd]) (use eff(4) in \<open>auto simp: t_key_def\<close>)
  moreover have "versioned d d' (cc_workspace caller) k v"
    by (rule versionedI [OF t upd eff(2)]) (simp_all add: finish_mutation_fields [OF fin] t_key_def)
  ultimately show ?thesis using store_inv_finish [OF _ fin] by blast
qed

text \<open>Two statements close an attempt: its row gets an end, its task lets go of it.\<close>

lemma close_step:
  assumes inv: "store_inv d"
    and t: "t \<in> set (tasks d)" "t_key t = (ws, k)" "t_current_attempt_id t = Some aid"
    and upa: "update_attempts (\<lambda>b. a_id b = aid \<and> a_status b = Running) h d = Inr (d1, n)"
    and h: "\<And>b. a_id (h b) = a_id b" "\<And>b. a_key (h b) = a_key b" "\<And>b. \<not> is_running (h b)"
      "\<And>b. evidence_ok (a_status (h b)) (a_stop_evidence (h b))"
      "\<And>b. a_resumed_from_checkpoint_id (h b) = a_resumed_from_checkpoint_id b"
      "\<And>b. a_credential_id (h b) = a_credential_id b"
    and upd: "update_task_row ws k f d1 = Inr d2"
    and f: "\<And>u. t_key (f u) = t_key u" "t_current_attempt_id (f t) = None"
      "t_last_attempt_id (f t) = Some aid"
      "\<And>j. t_last_checkpoint_id (f t) = Some j \<or> t_result_report_id (f t) = Some j \<Longrightarrow>
      t_last_checkpoint_id t = Some j \<or> t_result_report_id t = Some j \<or>
      (\<exists>r\<in>set (reports d). r_id r = j \<and> r_key r = t_key t \<and> r_kind r \<noteq> RNote)"
  shows "store_inv d2"
proof -
  from update_task_row_tasks [OF upd] obtain m where
    upt: "update_tasks (\<lambda>u. t_key u = (ws, k)) f d1 = Inr (d2, m)" by blast
  show ?thesis by (rule store_inv_close(1) [OF inv t upa h upt refl f])
qed

lemma apply_release_step:
  assumes inv: "store_inv d"
    and ap: "apply_release ev caller op k aid v ck ns completed hash d = Inr (d', res)"
  shows "store_inv d' \<and> versioned d d' (cc_workspace caller) k v"
proof -
  define h where "h now a = a\<lparr>a_status := (if completed then Completed else Released),
              a_stop_evidence := EvReleased,
              a_reason := (if completed then None
                           else if ns = Blocked then Some ReasonBlocked
                           else Some ReasonPaused),
              a_ended_at := Some now, a_stopped_at := Some now\<rparr>" for now :: int and a :: attempt_row
  define f where "f now rid t = t\<lparr>t_state := ns, t_version := v + 1,
              t_assigned_agent_id := (if ns = Done then None else t_assigned_agent_id t),
              t_current_attempt_id := None, t_last_attempt_id := Some aid,
              t_last_checkpoint_id := Some rid,
              t_result_report_id := (if ns = Done then Some rid
                                     else t_result_report_id t),
              t_pause_reason := (if ns = Blocked then Some ReasonBlocked
                                 else if ns = Paused then Some ReasonPaused else None),
              t_updated_by := cc_actor_id caller, t_updated_at := now\<rparr>"
    for now :: int and rid :: uuid and t :: task_row
  from ap obtain now d1 d2 d3 rid n where
    own: "require_attempt_owner d caller k aid v op = Inr ()"
    and ins: "insert_checkpoint_report ev caller k aid (if completed then RResult else RCheckpoint)
        ck now d = Inr (d1, rid)"
    and upa: "update_attempts (\<lambda>a. a_id a = aid \<and> a_status a = Running) (h now) d1 = Inr (d2, n)"
    and upd: "update_task_row (cc_workspace caller) k (f now rid) d2 = Inr d3"
    and fin: "finish_mutation ev caller op hash k (v + 1) (if completed then ChgCompleted else ChgPaused)
        (Some aid) (Some rid) (Some aid) now d3 = Inr (d', res)"
    unfolding apply_release_def h_def f_def by (auto simp: result_simps)
  from owner_matches_current(1) [OF own] obtain t0 where
    t0: "find_task d (cc_workspace caller) k = Some t0" "t_version t0 = v" by blast
  have kind: "(if completed then RResult else RCheckpoint) \<noteq> RNote" by simp
  note eff = insert_checkpoint_report_effect [OF inv kind ins]
  from owner_matches_current(2) [OF own] obtain t where
    t: "t \<in> set (tasks d1)" "t_key t = (cc_workspace caller, k)" "t_current_attempt_id t = Some aid"
    using eff(2) by auto
  have "store_inv d3"
    by (rule close_step [OF eff(1) t upa _ _ _ _ _ _ upd])
       (use t(2) eff(4) in \<open>auto simp: h_def f_def a_key_def t_key_def is_running_def split: if_splits\<close>)
  moreover have "versioned d d' (cc_workspace caller) k v"
    by (rule versionedI [OF t0 upd])
       (simp_all add: finish_mutation_fields [OF fin] update_attempts_effect(1) [OF upa] eff t_key_def f_def)
  ultimately show ?thesis using store_inv_finish [OF _ fin] by blast
qed

lemma apply_interrupt_step:
  assumes inv: "store_inv d"
    and ap: "apply_interrupt ev caller op k v note hash d = Inr (d', res)"
  shows "store_inv d' \<and> versioned d d' (cc_workspace caller) k v"
proof -
  from ap obtain t0 aid now d1 d2 d3 rid n where
    t0: "find_task d (cc_workspace caller) k = Some t0" "t_version t0 = v"
    and cur: "task_current_attempt_id d (cc_workspace caller) k = Some aid"
    and ins: "insert_text_report ev caller k (Some aid) RNote note now d = Inr (d1, rid)"
    and upa: "update_attempts (\<lambda>a. a_id a = aid \<and> a_status a = Running)
       (\<lambda>a. a\<lparr>a_status := Interrupted, a_stop_evidence := EvUnknown,
              a_reason := Some OperatorInterrupt, a_ended_at := Some now\<rparr>) d1 = Inr (d2, n)"
    and upd: "update_task_row (cc_workspace caller) k
       (\<lambda>t. t\<lparr>t_state := Paused, t_version := v + 1,
              t_current_attempt_id := None, t_last_attempt_id := Some aid,
              t_pause_reason := Some OperatorInterrupt, t_updated_by := cc_actor_id caller,
              t_updated_at := now\<rparr>) d2 = Inr d3"
    and fin: "finish_mutation ev caller op hash k (v + 1) ChgInterrupted
       (Some aid) (Some rid) (Some aid) now d3 = Inr (d', res)"
    by (auto simp: apply_interrupt_def result_simps)
  note eff = insert_text_report_effect [OF inv ins]
  have t: "t0 \<in> set (tasks d1)" "t_key t0 = (cc_workspace caller, k)" "t_current_attempt_id t0 = Some aid"
    using cur find_task_SomeD [OF t0(1)] by (simp_all add: task_current_attempt_id_def t0 eff(3))
  have "store_inv d3"
    by (rule close_step [OF eff(1) t upa _ _ _ _ _ _ upd])
       (auto simp: a_key_def t_key_def is_running_def)
  moreover have "versioned d d' (cc_workspace caller) k v"
    by (rule versionedI [OF t0 upd])
       (simp_all add: finish_mutation_fields [OF fin] update_attempts_effect(1) [OF upa] eff t_key_def)
  ultimately show ?thesis using store_inv_finish [OF _ fin] by blast
qed

lemma apply_confirm_stopped_step:
  assumes inv: "store_inv d"
    and ap: "apply_confirm_stopped ev caller op k aid v note hash d = Inr (d', res)"
  shows "store_inv d' \<and> versioned d d' (cc_workspace caller) k v"
proof -
  from ap obtain t a now d1 d2 d3 rid n where
    t: "find_task d (cc_workspace caller) k = Some t" "t_version t = v"
    and a: "a \<in> set (attempts d)" "a_id a = aid" "a_status a = Interrupted"
    and ins: "insert_text_report ev caller k (Some aid) RNote note now d = Inr (d1, rid)"
    and upa: "update_attempts (\<lambda>a. a_id a = aid)
       (\<lambda>a. a\<lparr>a_stop_evidence := EvConfirmed, a_stopped_at := Some now\<rparr>) d1 = Inr (d2, n)"
    and upd: "update_task_row (cc_workspace caller) k
       (\<lambda>t. t\<lparr>t_version := v + 1, t_updated_by := cc_actor_id caller,
              t_updated_at := now\<rparr>) d2 = Inr d3"
    and fin: "finish_mutation ev caller op hash k (v + 1) ChgStopped
       (Some aid) (Some rid) None now d3 = Inr (d', res)"
    by (auto simp: apply_confirm_stopped_def result_simps)
  note eff = insert_text_report_effect [OF inv ins]
  have stopped: "a_status b = Interrupted" if "b \<in> set (attempts d1)" "a_id b = aid" for b
    using that a exec_ok_same_attempt [OF store_invD(2) [OF inv] that(1) [unfolded eff(4)] a(1)] by auto
  then have "store_inv d2"
    by (intro store_inv_evidence [OF eff(1) upa]) (auto simp: a_key_def)
  then have "store_inv d3"
    by (rule store_inv_task_row [OF _ upd]) (auto simp: t_key_def)
  moreover have "versioned d d' (cc_workspace caller) k v"
    by (rule versionedI [OF t upd])
       (simp_all add: finish_mutation_fields [OF fin] update_attempts_effect(1) [OF upa] eff t_key_def)
  ultimately show ?thesis using store_inv_finish [OF _ fin] by blast
qed

section \<open>Beginning an attempt\<close>

lemma store_inv_begin:
  assumes inv: "store_inv d"
    and t: "t \<in> set (tasks d)" "t_key t = (ws, k)" "t_current_attempt_id t = None"
    and ia: "insert_attempt a d = Inr d1"
    and a: "a_key a = (ws, k)" "is_running a" "a_resumed_from_checkpoint_id a = t_last_checkpoint_id t"
    and ir: "insert_report jl r d1 = Inr d2" "body_matches (r_kind r) (r_body r)"
    and upd: "update_task_row ws k f d2 = Inr d3"
    and f: "\<And>u. t_key (f u) = t_key u" "t_current_attempt_id (f t) = Some (a_id a)"
      "t_last_attempt_id (f t) = Some (a_id a)" "\<And>u. t_last_checkpoint_id (f u) = t_last_checkpoint_id u"
      "\<And>u. t_result_report_id (f u) = t_result_report_id u"
  shows "store_inv d3"
proof -
  note ok = store_invD(2) [OF inv]
  note ea = insert_attempt_effect [OF ia] and er = insert_report_effect [OF ir(1)]
    and et = update_task_row_effect [OF upd]
  let ?ts = "update_where (\<lambda>u. t_key u = t_key t) f (tasks d)"
  have uniq: "attempts_unique (attempts d @ [a])"
    by (rule attempts_unique_insert [OF ia exec_okD(7) [OF ok]])
  have chk: "task_check (f t)" using et(2) [of t] t by (simp add: ea(1) er(1))
  have ak: "a_key a = t_key t" using a(1) t(2) by simp
  have ex: "exec_ok ?ts (attempts d @ [a])"
    by (rule exec_ok_begin [OF ok t(1,3) ak a(2) ea(2,3) uniq chk f(1-3)])
  have "ref_ok (tasks d) (attempts d @ [a]) (reports d)"
  proof (rule ref_ok_attempts [OF store_invD(3) [OF inv]])
    fix b i assume b: "b \<in> set (attempts d @ [a])" "a_resumed_from_checkpoint_id b = Some i"
    show "i \<in> r_id ` set (reports d)"
      using b a(3) ref_okD(6) [OF store_invD(3) [OF inv], of b i]
        ref_okD(5) [OF store_invD(3) [OF inv] t(1), of i] by auto
  qed auto
  then have "ref_ok (tasks d) (attempts d @ [a]) (reports d @ [r])"
    using er(2-4) ir(2) by (intro ref_ok_report) (auto simp: ea(1))
  then have ref: "ref_ok ?ts (attempts d @ [a]) (reports d @ [r])"
    by (rule ref_ok_task_update [OF _ f(1)]) (auto simp: f(4,5))
  have "a_credential_id ` set (attempts d @ [a]) \<subseteq> c_id ` set (credentials d)"
    using creds_okD [OF inv] ea(4) by auto
  moreover have "d3 = d\<lparr>tasks := ?ts, attempts := attempts d @ [a], reports := reports d @ [r]\<rparr>"
    by (rule db.equality) (simp_all add: et(1) er(1) ea(1) t(2))
  ultimately show ?thesis using store_inv_exec [OF inv ex ref f(1)] by simp
qed

lemma apply_begin_step:
  assumes inv: "store_inv d"
    and ap: "apply_begin ev caller op k wr v ck note hash d = Inr (d', res)"
  shows "store_inv d' \<and> versioned d d' (cc_workspace caller) k v"
proof -
  define f where "f now t = t\<lparr>t_state := InProgress, t_version := v + 1,
              t_current_attempt_id := Some (new_attempt_id ev), t_last_attempt_id := Some (new_attempt_id ev),
              t_pause_reason := None, t_updated_by := cc_actor_id caller,
              t_updated_at := now\<rparr>" for now :: int and t :: task_row
  from ap obtain ag ses t now d1 d2 d3 rid where
    t: "find_task d (cc_workspace caller) k = Some t" "t_version t = v"
      "t_current_attempt_id t = None" "t_last_checkpoint_id t = ck"
    and ia: "insert_attempt (begin_attempt_row ev caller k ag ses wr ck now) d = Inr d1"
    and ins: "insert_text_report ev caller k (Some (new_attempt_id ev)) RNote note now d1 = Inr (d2, rid)"
    and upd: "update_task_row (cc_workspace caller) k (f now) d2 = Inr d3"
    and fin: "finish_mutation ev caller op hash k (v + 1) ChgBegun (Some (new_attempt_id ev)) (Some rid)
        None now d3 = Inr (d', res)"
    unfolding apply_begin_def f_def by (auto simp: result_simps Let_def)
  from ins obtain r where ir: "insert_report (body_json_len ev) r d1 = Inr d2"
    "body_matches (r_kind r) (r_body r)"
    by (auto simp: insert_text_report_def result_simps)
  have "store_inv d3"
    by (rule store_inv_begin [OF inv _ _ t(3) ia _ _ _ ir upd])
       (use find_task_SomeD [OF t(1)] t(4) in \<open>auto simp: begin_attempt_row_def a_key_def is_running_def
          f_def t_key_def\<close>)
  moreover have "versioned d d' (cc_workspace caller) k v"
    by (rule versionedI [OF t(1,2) upd])
       (simp_all add: finish_mutation_fields [OF fin] insert_attempt_effect(1) [OF ia]
          insert_report_effect(1) [OF ir(1)] t_key_def f_def)
  ultimately show ?thesis using store_inv_finish [OF _ fin] by blast
qed

section \<open>Creating a task\<close>

lemma bump_task_simps [simp]:
  "w_name (bump_task w) = w_name w" "w_next_seq (bump_task w) = w_next_seq w"
  "w_next_task_id (bump_task w) = w_next_task_id w + 1" "w_created_at (bump_task w) = w_created_at w"
  by (simp_all add: bump_task_def)

lemma can_bump_task_checked:
  "workspace_check w \<Longrightarrow> can_bump_task ws w \<longleftrightarrow> w_name w = ws"
  by (auto simp: can_bump_task_def workspace_check_def safe_id_def)

text \<open>Task numbers stay dense when a workspace hands out its next one.\<close>

lemma ids_ok_create:
  assumes ids: "ids_ok ws ts" and dist: "distinct (map w_name ws)"
    and w: "w \<in> set ws" "1 \<le> w_next_task_id w"
    and t: "t_workspace t = w_name w" "t_id t = w_next_task_id w"
  shows "ids_ok (update_where (\<lambda>v. w_name v = w_name w) bump_task ws) (ts @ [t])"
proof -
  let ?ws = "update_where (\<lambda>v. w_name v = w_name w) bump_task ws"
  have names: "w_name ` set ?ws = w_name ` set ws" by (rule keys_update_where) simp
  note rows = in_set_update_where_key [OF dist w(1), of _ bump_task]
  have "map t_id (filter (\<lambda>u. t_workspace u = w_name v) (ts @ [t])) = [1..w_next_task_id v - 1]"
    if v: "v \<in> set ?ws" for v
  proof (cases "w_name v = w_name w")
    case True
    with v have "v = bump_task w" by (auto simp: rows)
    then show ?thesis
      using ids w t by (simp add: ids_ok_def upto_rec2)
  next
    case False
    with v have "v \<in> set ws" by (auto simp: rows)
    with False ids t show ?thesis by (auto simp: ids_ok_def)
  qed
  moreover have "t_workspace u \<in> w_name ` set ?ws" if "u \<in> set (ts @ [t])" for u
    using that ids w(1) t(1) unfolding names by (auto simp: ids_ok_def)
  ultimately show ?thesis unfolding ids_ok_def by blast
qed

lemma store_inv_create:
  assumes inv: "store_inv d"
    and upw: "update_workspaces (can_bump_task ws) bump_task d = Inr (d1, n)"
    and w: "find (can_bump_task ws) (workspaces d) = Some w"
    and ins: "insert_task t d1 = Inr d2"
    and t: "t_workspace t = ws" "t_id t = w_next_task_id w" "t_current_attempt_id t = None"
      "t_last_attempt_id t = None" "t_last_checkpoint_id t = None" "t_result_report_id t = None"
  shows "store_inv d2" and "tasks d2 = tasks d @ [t]" and "attempts d2 = attempts d"
    and "find_task d (t_workspace t) (t_id t) = None"
proof -
  note log = store_invD(1) [OF inv]
  have win: "w \<in> set (workspaces d)" "w_name w = ws"
    using w by (auto simp: find_Some_iff can_bump_task_def)
  have upd: "update_where (can_bump_task ws) bump_task (workspaces d) =
      update_where (\<lambda>v. w_name v = w_name w) bump_task (workspaces d)"
    using log_invD(2) [OF log] win(2) by (simp add: update_where_def can_bump_task_checked)
  let ?ws = "update_where (\<lambda>v. w_name v = w_name w) bump_task (workspaces d)"
  from upw ins have d2: "d2 = d\<lparr>workspaces := ?ws, tasks := tasks d @ [t]\<rparr>"
    and chk: "task_check t" and fresh: "t_key t \<notin> t_key ` set (tasks d)"
    and wchk: "\<And>v. v \<in> set (workspaces d) \<Longrightarrow> can_bump_task ws v \<Longrightarrow> workspace_check (bump_task v)"
    by (auto simp: update_workspaces_def insert_task_def task_exists_iff upd split: if_splits)
  then show "tasks d2 = tasks d @ [t]" "attempts d2 = attempts d" by simp_all
  show "find_task d (t_workspace t) (t_id t) = None"
  proof (rule ccontr)
    assume "\<not> ?thesis"
    then obtain u where "u \<in> set (tasks d)" "t_key u = t_key t"
      using find_task_SomeD [of d "t_workspace t" "t_id t"] by (auto simp: t_key_def [of t])
    with fresh show False by (metis imageI)
  qed
  have logs: "log_inv d2"
  proof -
    have "w_name ` set ?ws = w_name ` set (workspaces d)" by (rule keys_update_where) simp
    moreover have "map w_name ?ws = map w_name (workspaces d)" by (rule map_update_where) simp
    moreover have "workspace_check v" if "v \<in> set ?ws" for v
      using that wchk log_invD(2) [OF log] win(2) can_bump_task_checked by (auto simp: table_simps)
    moreover have "\<exists>u\<in>set (workspaces d). w_name u = w_name v \<and> w_next_seq u = w_next_seq v"
      if "v \<in> set ?ws" for v
      using that by (auto simp: table_simps intro: bexI)
    ultimately show ?thesis
      using log_invD [OF log] by (auto simp: log_inv_def d2 workspace_log_def) metis
  qed
  have ids: "ids_ok ?ws (tasks d @ [t])"
    using log_invD(2) [OF log win(1)] win t
    by (intro ids_ok_create [OF store_invD(4) [OF inv] log_invD(1) [OF log]])
       (auto simp: workspace_check_def safe_id_def)
  have "exec_ok (tasks d @ [t]) (attempts d)"
    using store_invD(2) [OF inv] chk fresh t unfolding exec_ok_def by (auto simp: image_iff)
  moreover have "ref_ok (tasks d @ [t]) (attempts d) (reports d)"
    using store_invD(3) [OF inv] t unfolding ref_ok_def by auto
  moreover have "receipts_ok d2" "creds_ok d2"
    using store_invD(5,6) [OF inv] by (auto simp: receipts_ok_def creds_ok_def d2)
  ultimately show "store_inv d2"
    using logs ids by (simp add: store_inv_def d2)
qed

lemma apply_create_step:
  assumes inv: "store_inv d"
    and ap: "apply_create ev caller op title description hash d = Inr (d', res)"
  shows "store_inv d' \<and> (\<exists>t. tasks d' = tasks d @ [t] \<and> find_task d (t_workspace t) (t_id t) = None \<and>
      t_workspace t = cc_workspace caller \<and> t_version t = 1 \<and> t_state t = Todo \<and> t_title t = title \<and>
      t_description t = description)"
proof -
  define row where "row tid now = \<lparr>t_workspace = cc_workspace caller, t_id = tid, t_version = 1, t_title = title,
        t_description = description, t_state = Todo, t_assigned_agent_id = None,
        t_current_attempt_id = None, t_last_attempt_id = None, t_last_checkpoint_id = None,
        t_result_report_id = None, t_pause_reason = None, t_created_by = cc_actor_id caller,
        t_updated_by = cc_actor_id caller, t_created_at = now, t_updated_at = now\<rparr>" for tid now :: int
  from ap obtain d1 n w now d2 where
    upw: "update_workspaces (can_bump_task (cc_workspace caller)) bump_task d = Inr (d1, n)"
    and w: "find (can_bump_task (cc_workspace caller)) (workspaces d) = Some w"
    and ins: "insert_task (row (w_next_task_id w) now) d1 = Inr d2"
    and fin: "finish_mutation ev caller op hash (w_next_task_id w) 1 ChgCreated None None None now d2 =
        Inr (d', res)"
    unfolding apply_create_def row_def by (auto simp: result_simps)
  note eff = store_inv_create [OF inv upw w ins]
  show ?thesis
    using store_inv_finish [OF eff(1) fin] eff(2,4)
    by (simp add: finish_mutation_fields [OF fin] row_def)
qed

section \<open>The entry point\<close>

fun command_task :: "task_command \<Rightarrow> (int \<times> int) option" where
  "command_task (CmdEdit _ k v _ _) = Some (k, v)"
| "command_task (CmdAssign _ k v _) = Some (k, v)"
| "command_task (CmdBegin _ k _ v _ _) = Some (k, v)"
| "command_task (CmdCheckpoint _ k _ v _) = Some (k, v)"
| "command_task (CmdPause _ k _ v _ _) = Some (k, v)"
| "command_task (CmdComplete _ k _ v _) = Some (k, v)"
| "command_task (CmdCancel _ k v _) = Some (k, v)"
| "command_task (CmdReopen _ k v _) = Some (k, v)"
| "command_task (CmdInterrupt _ k v _) = Some (k, v)"
| "command_task (CmdConfirmStopped _ k _ v _) = Some (k, v)"
| "command_task (CmdCreate _ _ _) = None"
| "command_task (CmdNote _ _ _) = None"

lemma dispatch_step:
  assumes "store_inv d" and "dispatch ev caller hash c d = Inr (d', res)"
  shows "store_inv d'"
    and "command_task c = Some (k, v) \<Longrightarrow> versioned d d' (cc_workspace caller) k v"
  using assms
  by (cases c; force dest: apply_create_step apply_edit_step apply_assign_step apply_note_step
      apply_begin_step apply_checkpoint_step apply_release_step apply_terminal_step
      apply_interrupt_step apply_confirm_stopped_step)+

lemma replay_receipt_same: "replay_receipt caller hash c m d = Inr (d', res) \<Longrightarrow> d' = d"
  by (auto simp: replay_receipt_def result_simps Let_def)

lemma apply_task_fresh:
  assumes "mutation_receipt d (cc_workspace caller) (operation_id c) = None"
  shows "apply_task ev caller c d = Inr (d', res) \<longleftrightarrow>
     validate_command ev caller c = Inr () \<and> deferred_ok d' \<and>
     dispatch ev caller (request_digest ev c) c d = Inr (d', res)"
  using assms by (auto simp: apply_task_def result_simps Let_def)

lemma apply_task_inv:
  assumes "store_inv d" and "apply_task ev caller c d = Inr (d', res)"
  shows "store_inv d'"
proof (cases "mutation_receipt d (cc_workspace caller) (operation_id c)")
  case None
  from assms(2) apply_task_fresh [OF None]
  have "dispatch ev caller (request_digest ev c) c d = Inr (d', res)" by blast
  with assms(1) show ?thesis by (rule dispatch_step(1))
next
  case (Some m)
  with assms have "d' = d"
    by (auto simp: apply_task_def result_simps Let_def dest: replay_receipt_same)
  with assms(1) show ?thesis by simp
qed

section \<open>The router's own transitions\<close>

lemma interrupt_attempt_effect:
  assumes inv: "store_inv d" and run: "interrupt_attempt clock eclock aid reason d = Inr (d', r)"
  shows "store_inv d'"
    and "(\<forall>a. find_attempt d aid = Some a \<longrightarrow> a_status a \<noteq> Running) \<Longrightarrow> d' = d \<and> r = None"
    and "find_attempt d aid = Some a \<Longrightarrow> a_status a = Running \<Longrightarrow>
      attempts d' = update_where (\<lambda>b. a_id b = aid)
        (\<lambda>b. b\<lparr>a_status := Interrupted, a_stop_evidence := EvUnknown,
               a_reason := Some reason, a_ended_at := Some clock\<rparr>) (attempts d) \<and>
      tasks d' = update_where (\<lambda>t. t_key t = a_key a)
        (\<lambda>t. t\<lparr>t_state := Paused, t_version := t_version t + 1,
               t_current_attempt_id := None, t_last_attempt_id := Some aid,
               t_pause_reason := Some reason, t_updated_by := SYSTEM_ROUTER,
               t_updated_at := clock\<rparr>) (tasks d) \<and>
      (\<exists>e. r = Some e \<and> events d' = events d @ [e])"
proof -
  note ok = store_invD(2) [OF inv]
  show idle: "d' = d \<and> r = None" if "\<forall>a. find_attempt d aid = Some a \<longrightarrow> a_status a \<noteq> Running"
    using that run by (auto simp: interrupt_attempt_def result_simps split: option.splits if_splits)
  let ?h = "\<lambda>b. b\<lparr>a_status := Interrupted, a_stop_evidence := EvUnknown,
      a_reason := Some reason, a_ended_at := Some clock\<rparr>"
  let ?f = "\<lambda>t. t\<lparr>t_state := Paused, t_version := t_version t + 1, t_current_attempt_id := None,
      t_last_attempt_id := Some aid, t_pause_reason := Some reason, t_updated_by := SYSTEM_ROUTER,
      t_updated_at := clock\<rparr>"
  have main: "store_inv d' \<and> attempts d' = update_where (\<lambda>b. a_id b = aid) ?h (attempts d) \<and>
      tasks d' = update_where (\<lambda>t. t_key t = a_key a) ?f (tasks d) \<and>
      (\<exists>e. r = Some e \<and> events d' = events d @ [e])"
    if a: "find_attempt d aid = Some a" "a_status a = Running" for a
  proof -
    from run a obtain d1 n d2 m i e where
      upa: "update_attempts (\<lambda>b. a_id b = aid \<and> a_status b = Running) ?h d = Inr (d1, n)"
      and upt: "update_tasks (\<lambda>t. t_key t = a_key a \<and> t_current_attempt_id t = Some aid) ?f d1 = Inr (d2, m)"
      and app: "append_event_in_transaction eclock i d2 = Inr (d', e)" and r: "r = Some e"
      by (auto simp: interrupt_attempt_def result_simps)
    from find_attempt_SomeD [OF a(1)] have ain: "a \<in> set (attempts d)" "a_id a = aid" by auto
    from exec_okD(8) [OF ok ain(1)] a(2) obtain t where
      t: "t \<in> set (tasks d)" "t_key t = (a_workspace a, a_task_id a)" "t_current_attempt_id t = Some aid"
      by (auto simp: is_running_def a_key_def ain)
    have P: "t_key u = a_key a \<and> t_current_attempt_id u = Some aid \<longleftrightarrow>
        t_key u = (a_workspace a, a_task_id a)" if "u \<in> set (tasks d)" for u
      using exec_ok_same_task [OF ok that t(1)] t(2,3) by (auto simp: a_key_def)
    have d2: "store_inv d2 \<and> d2 = d\<lparr>tasks := update_where (\<lambda>u. t_key u = t_key t) ?f (tasks d),
        attempts := update_where (\<lambda>b. a_id b = aid) ?h (attempts d)\<rparr>"
      by (rule conjI; rule store_inv_close [OF inv t upa _ _ _ _ _ _ upt P])
         (auto simp: a_key_def t_key_def is_running_def)
    have "store_inv d'" using d2 store_inv_append [OF _ app] by blast
    with d2 r t(2) show ?thesis by (simp add: append_event_fields [OF app] a_key_def)
  qed
  from main show "find_attempt d aid = Some a \<Longrightarrow> a_status a = Running \<Longrightarrow>
      attempts d' = update_where (\<lambda>b. a_id b = aid) ?h (attempts d) \<and>
      tasks d' = update_where (\<lambda>t. t_key t = a_key a) ?f (tasks d) \<and>
      (\<exists>e. r = Some e \<and> events d' = events d @ [e])" by blast
  from main idle inv show "store_inv d'" by metis
qed

lemma interrupt_each_inv:
  "interrupt_each clocks reason ids d = Inr (d', evs) \<Longrightarrow> store_inv d \<Longrightarrow> store_inv d'"
  by (induction ids arbitrary: clocks d evs)
     (auto simp: result_simps dest: interrupt_attempt_effect(1))

lemma interrupt_session_attempts_inv:
  "interrupt_session_attempts clocks ag cr ses gen reason d = Inr (d', evs) \<Longrightarrow> store_inv d \<Longrightarrow> store_inv d'"
  unfolding interrupt_session_attempts_def by (rule interrupt_each_inv)

lemma record_execution_stopped_inv:
  assumes inv: "store_inv d"
    and run: "record_execution_stopped clock eclock ws k aid ses ag cr reason d = Inr (d', r)"
  shows "store_inv d'"
proof (cases "d' = d")
  case False
  note ok = store_invD(2) [OF inv]
  from run obtain a where a0: "find (\<lambda>a. a_id a = aid \<and> a_key a = (ws, k)) (attempts d) = Some a"
    by (auto simp: record_execution_stopped_def result_simps)
  then have a: "a \<in> set (attempts d)" "a_id a = aid" "a_key a = (ws, k)"
    by (auto simp: find_Some_iff)
  let ?h = "\<lambda>b. b\<lparr>a_status := Interrupted, a_stop_evidence := EvConfirmed,
      a_reason := Some reason, a_ended_at := Some clock, a_stopped_at := Some clock\<rparr>"
  let ?h' = "\<lambda>b. b\<lparr>a_stop_evidence := EvConfirmed, a_stopped_at := Some clock\<rparr>"
  let ?f = "\<lambda>t. t\<lparr>t_state := Paused, t_version := t_version t + 1, t_current_attempt_id := None,
      t_last_attempt_id := Some aid, t_pause_reason := Some reason, t_updated_by := ag,
      t_updated_at := clock\<rparr>"
  let ?f' = "\<lambda>t. t\<lparr>t_version := t_version t + 1, t_updated_by := ag, t_updated_at := clock\<rparr>"
  from run a0 False obtain d2 m i e where
    stm: "(if a_status a = Running
           then bindR (tx_sql (update_attempts (\<lambda>b. a_id b = aid \<and> a_status b = Running) ?h d)) (\<lambda>(d1, _).
             tx_sql (update_tasks (\<lambda>t. t_key t = (ws, k) \<and> t_current_attempt_id t = Some aid) ?f d1))
           else bindR (tx_sql (update_attempts (\<lambda>b. a_id b = aid \<and> a_status b = Interrupted \<and>
                                  a_stop_evidence b = EvUnknown) ?h' d)) (\<lambda>(d1, _).
             tx_sql (update_tasks (\<lambda>t. t_key t = (ws, k) \<and> t_current_attempt_id t = None \<and>
                       t_last_attempt_id t = Some aid) ?f' d1))) = Inr (d2, m)"
    and app: "append_event_in_transaction eclock i d2 = Inr (d', e)"
    unfolding record_execution_stopped_def by (auto simp: result_simps split: if_splits)
  have "store_inv d2"
  proof (cases "a_status a = Running")
    case True
    with stm obtain d1 n where
      upa: "update_attempts (\<lambda>b. a_id b = aid \<and> a_status b = Running) ?h d = Inr (d1, n)"
      and upt: "update_tasks (\<lambda>t. t_key t = (ws, k) \<and> t_current_attempt_id t = Some aid) ?f d1 = Inr (d2, m)"
      by (auto simp: result_simps)
    from exec_okD(8) [OF ok a(1)] True obtain t where
      t: "t \<in> set (tasks d)" "t_key t = (ws, k)" "t_current_attempt_id t = Some aid"
      by (auto simp: is_running_def a)
    have P: "t_key u = (ws, k) \<and> t_current_attempt_id u = Some aid \<longleftrightarrow> t_key u = (ws, k)"
      if "u \<in> set (tasks d)" for u
      using exec_ok_same_task [OF ok that t(1)] t(2,3) by auto
    show ?thesis
      by (rule store_inv_close(1) [OF inv t upa _ _ _ _ _ _ upt P])
         (auto simp: a_key_def t_key_def is_running_def)
  next
    case False
    with stm obtain d1 n where
      upa: "update_attempts (\<lambda>b. a_id b = aid \<and> a_status b = Interrupted \<and> a_stop_evidence b = EvUnknown)
          ?h' d = Inr (d1, n)"
      and upt: "update_tasks (\<lambda>t. t_key t = (ws, k) \<and> t_current_attempt_id t = None \<and>
                       t_last_attempt_id t = Some aid) ?f' d1 = Inr (d2, m)"
      by (auto simp: result_simps)
    have "store_inv d1"
      by (rule store_inv_evidence [OF inv upa]) (auto simp: a_key_def)
    then show ?thesis
      by (rule store_inv_tasks [OF _ upt]) (auto simp: t_key_def)
  qed
  then show ?thesis by (rule store_inv_append [OF _ app])
qed (simp add: inv)

end
