(* ===== verification/Recovery.thy ===== *)
theory Recovery
  imports Task_Keep "HOL-Library.List_Lexorder" "HOL-Library.Char_ord"
begin

text \<open>
  What \<^verbatim>\<open>RouterStore::recover\<close> does when the store is opened (\<^verbatim>\<open>src/store.rs\<close>): every request
  without a result is answered with \<^verbatim>\<open>router_restarted\<close>, every running attempt is interrupted
  and its task paused, every external operation in flight is settled. All three run in one
  transaction. A loop that reads the clock once per turn takes the readings as a function of the
  turn.
\<close>

section \<open>Operations\<close>

fun loopR :: "(nat \<Rightarrow> 'c) \<Rightarrow> ('c \<Rightarrow> 'x \<Rightarrow> 's \<Rightarrow> 'e + 's) \<Rightarrow> 'x list \<Rightarrow> 's \<Rightarrow> 'e + 's" where
  "loopR c f [] s = Inr s"
| "loopR c f (x # xs) s = bindR (f (c 0) x s) (\<lambda>s1. loopR (\<lambda>n. c (Suc n)) f xs s1)"

subsection \<open>Requests\<close>

definition answered :: "db \<Rightarrow> workspace_event \<Rightarrow> bool" where
  "answered d r =
     exists_row (\<lambda>x. we_workspace x = we_workspace r \<and> we_kind x = KResult \<and>
       we_request_id x = we_request_id r \<and> we_request_id r \<noteq> None) (events d)"

text \<open>\<^verbatim>\<open>ORDER BY r.workspace, r.seq\<close>: the sorts are stable.\<close>

definition unfinished_requests :: "db \<Rightarrow> workspace_event list" where
  "unfinished_requests d =
     sort_key we_workspace (sort_key we_seq
       (filter (\<lambda>r. we_kind r = KRequest \<and> \<not> answered d r) (events d)))"

definition restarted_result ::
  "workspace_name \<times> string \<times> string \<times> int option \<Rightarrow> event_insert" where
  "restarted_result row =
     (case row of (ws, request_id, requester, task_id) \<Rightarrow>
        \<lparr>ei_workspace = ws, ei_kind = KResult, ei_actor_id = SYSTEM_ROUTER,
         ei_request_id = Some request_id, ei_target_id = Some requester, ei_task_id = task_id,
         ei_content = None, ei_ok = Some False, ei_error = Some RouterRestarted\<rparr>)"

definition recover_unfinished_requests :: "(nat \<Rightarrow> int) \<Rightarrow> db \<Rightarrow> store_error + db" where
  "recover_unfinished_requests clocks d =
     bindR (mapR (\<lambda>r. bindR (ok_or (we_request_id r) (SSqlite InvalidQuery)) (\<lambda>request_id.
                        Inr (we_workspace r, request_id, we_actor_id r, we_task_id r)))
              (unfinished_requests d)) (\<lambda>requests.
     loopR clocks (\<lambda>clock row s.
       bindR (append_event_in_transaction clock (restarted_result row) s) (\<lambda>(s1, _). Inr s1))
       requests d)"

subsection \<open>Attempts\<close>

definition recover_attempt :: "int \<Rightarrow> int \<Rightarrow> attempt_row \<Rightarrow> db \<Rightarrow> store_error + db" where
  "recover_attempt now clock a d =
     bindR (map_err SSqlite (update_attempts (\<lambda>b. a_id b = a_id a \<and> a_status b = Running)
       (\<lambda>b. b\<lparr>a_status := Interrupted, a_stop_evidence := EvUnknown,
              a_reason := Some ReasonRouterRestarted, a_ended_at := Some now\<rparr>) d)) (\<lambda>(d1, _).
     bindR (map_err SSqlite (update_tasks
       (\<lambda>t. t_key t = a_key a \<and> t_current_attempt_id t = Some (a_id a))
       (\<lambda>t. t\<lparr>t_state := Paused, t_current_attempt_id := None,
              t_pause_reason := Some ReasonRouterRestarted, t_version := t_version t + 1,
              t_updated_by := SYSTEM_ROUTER, t_updated_at := now\<rparr>) d1)) (\<lambda>(d2, _).
     bindR (get_task_detail_connection d2 (a_workspace a) (a_task_id a)) (\<lambda>found.
     bindR (ok_or found SInvalidData) (\<lambda>task.
     bindR (append_event_in_transaction clock
              (task_event_insert (a_workspace a) SYSTEM_ROUTER (a_task_id a)
                 \<lparr>te_change = ChgInterrupted, te_task = td_summary task,
                  te_attempt_id = Some (a_id a), te_report_id = None,
                  te_external_operation_id = None\<rparr>) d2) (\<lambda>(d3, _).
     Inr d3)))))"

definition recover_running_attempts :: "int \<Rightarrow> (nat \<Rightarrow> int) \<Rightarrow> db \<Rightarrow> store_error + db" where
  "recover_running_attempts clock clocks d =
     bindR (now_millis clock) (\<lambda>now.
     loopR clocks (recover_attempt now) (filter is_running (attempts d)) d)"

subsection \<open>External operations\<close>

definition inflight :: "external_operation_row \<Rightarrow> bool" where
  "inflight x = (x_status x = OpRunning \<and> (x_phase x = Prepared \<or> x_phase x = Dispatched))"

definition inflight_operations :: "db \<Rightarrow> external_operation_row list" where
  "inflight_operations d =
     sort_key x_workspace (sort_key x_created_at (sort_key x_operation_id
       (filter inflight (external_operations d))))"

definition settled_outcome ::
  "operation_phase \<Rightarrow> external_operation_kind \<Rightarrow> external_operation_status \<times> string" where
  "settled_outcome phase kind =
     (if phase = Dispatched then (OpUnconfirmed, ''external_unconfirmed'')
      else (OpFailed, if kind = OpPublishIssue \<or> kind = OpPublishReport then ''not_dispatched''
                      else ''not_applied''))"

definition recover_operation :: "int \<Rightarrow> int \<Rightarrow> external_operation_row \<Rightarrow> db \<Rightarrow> store_error + db" where
  "recover_operation now clock x d =
     (let (status, err) = settled_outcome (x_phase x) (x_kind x) in
     bindR (map_err SSqlite (update_external_operations
       (\<lambda>y. x_workspace y = x_workspace x \<and> x_operation_id y = x_operation_id x \<and>
            x_status y = OpRunning)
       (\<lambda>y. y\<lparr>x_phase := Terminal, x_status := status, x_error := Some err,
              x_updated_at := now\<rparr>) d)) (\<lambda>(d1, _).
     bindR (append_event_in_transaction clock
       \<lparr>ei_workspace = x_workspace x, ei_kind = KIntegration, ei_actor_id = SYSTEM_ROUTER,
        ei_request_id = None, ei_target_id = None, ei_task_id = x_task_id x,
        ei_content = Some (ContentIntegration
          \<lparr>ie_change = Operation, ie_integration = None,
           ie_operation = Some
             \<lparr>eo_id = x_operation_id x, eo_task_id = x_task_id x, eo_provider = x_provider x,
              eo_kind = x_kind x, eo_status = status, eo_source_version = x_source_version x,
              eo_external_id = x_external_id x, eo_url = x_url x, eo_error = Some err,
              eo_created_at = x_created_at x, eo_updated_at = now\<rparr>,
           ie_resolution = None\<rparr>),
        ei_ok = None, ei_error = None\<rparr> d1) (\<lambda>(d2, _).
     Inr d2)))"

definition recover_external_operations :: "int \<Rightarrow> (nat \<Rightarrow> int) \<Rightarrow> db \<Rightarrow> store_error + db" where
  "recover_external_operations clock clocks d =
     bindR (now_millis clock) (\<lambda>now.
     loopR clocks (recover_operation now) (inflight_operations d) d)"

definition recover_external_inflight :: "int \<Rightarrow> (nat \<Rightarrow> int) \<Rightarrow> db \<Rightarrow> store_error + db" where
  "recover_external_inflight clock clocks d =
     bindR (recover_external_operations clock clocks d) (\<lambda>d1. map_err SSqlite (commit d1))"

subsection \<open>Opening the store\<close>

record recovery_clocks =
  rc_requests :: "nat \<Rightarrow> int"
  rc_attempts_now :: int
  rc_attempts :: "nat \<Rightarrow> int"
  rc_operations_now :: int
  rc_operations :: "nat \<Rightarrow> int"

definition recover :: "recovery_clocks \<Rightarrow> db \<Rightarrow> store_error + db" where
  "recover rc d =
     bindR (recover_unfinished_requests (rc_requests rc) d) (\<lambda>d1.
     bindR (recover_running_attempts (rc_attempts_now rc) (rc_attempts rc) d1) (\<lambda>d2.
     bindR (recover_external_operations (rc_operations_now rc) (rc_operations rc) d2) (\<lambda>d3.
     map_err SSqlite (commit d3))))"

section \<open>Loops\<close>

lemma loopR_preserves:
  assumes "loopR c f xs s = Inr s'" and "P s"
    and "\<And>n x s s'. x \<in> set xs \<Longrightarrow> P s \<Longrightarrow> f n x s = Inr s' \<Longrightarrow> P s'"
  shows "P s'"
  using assms
proof (induction xs arbitrary: c s)
  case (Cons x xs)
  from Cons.prems(1) obtain s1 where s1: "f (c 0) x s = Inr s1" "loopR (\<lambda>n. c (Suc n)) f xs s1 = Inr s'"
    by (auto simp: bindR_eq_Inr)
  have "P s1" using Cons.prems(2,3) s1(1) by (meson list.set_intros(1))
  then show ?case using Cons.IH [OF s1(2)] Cons.prems(3) by (meson list.set_intros(2))
qed simp

text \<open>Each turn establishes a fact about its element that later turns keep.\<close>

lemma loopR_establishes:
  assumes "loopR c f xs s = Inr s'" and "P s"
    and "\<And>n x s s'. x \<in> set xs \<Longrightarrow> P s \<Longrightarrow> f n x s = Inr s' \<Longrightarrow> P s' \<and> Q x s'"
    and "\<And>n x y s s'. x \<in> set xs \<Longrightarrow> P s \<Longrightarrow> Q y s \<Longrightarrow> f n x s = Inr s' \<Longrightarrow> Q y s'"
  shows "\<forall>x\<in>set xs. Q x s'"
  using assms
proof (induction xs arbitrary: c s)
  case Nil
  show ?case by simp
next
  case (Cons x xs)
  from Cons.prems(1) obtain s1 where s1: "f (c 0) x s = Inr s1" "loopR (\<lambda>n. c (Suc n)) f xs s1 = Inr s'"
    by (auto simp: bindR_eq_Inr)
  have 1: "P s1" "Q x s1"
    using Cons.prems(3) [OF list.set_intros(1) Cons.prems(2) s1(1)] by auto
  have rest: "\<forall>y\<in>set xs. Q y s'"
    by (rule Cons.IH [OF s1(2) 1(1) Cons.prems(3) [OF list.set_intros(2)]
          Cons.prems(4) [OF list.set_intros(2)]])
  have "P s' \<and> Q x s'"
  proof (rule loopR_preserves [OF s1(2), of "\<lambda>s. P s \<and> Q x s"])
    show "P s1 \<and> Q x s1" using 1 by simp
    fix n y s s2
    assume y: "y \<in> set xs" "P s \<and> Q x s" "f n y s = Inr s2"
    then have "y \<in> set (x # xs)" by simp
    from Cons.prems(3) [OF this _ y(3)] Cons.prems(4) [OF this _ _ y(3)] y(2)
    show "P s2 \<and> Q x s2" by simp
  qed
  with rest show ?case by simp
qed

section \<open>Requests\<close>

text \<open>The events only grow, and no new request appears.\<close>

definition log_grows :: "db \<Rightarrow> db \<Rightarrow> bool" where
  "log_grows d d' \<longleftrightarrow> (\<exists>es. events d' = events d @ es \<and> (\<forall>e\<in>set es. we_kind e \<noteq> KRequest))"

lemma log_grows_refl [simp]: "log_grows d d"
  by (simp add: log_grows_def)

lemma log_grows_trans: "log_grows d d1 \<Longrightarrow> log_grows d1 d2 \<Longrightarrow> log_grows d d2"
  by (auto simp: log_grows_def)

lemma answered_mono: "log_grows d d' \<Longrightarrow> answered d r \<Longrightarrow> answered d' r"
  by (auto simp: log_grows_def answered_def)

lemma append_log_grows:
  "append_event_in_transaction clock i d = Inr (d', e) \<Longrightarrow> ei_kind i \<noteq> KRequest \<Longrightarrow> log_grows d d'"
  by (auto simp: log_grows_def append_event_fields append_event_event)

definition all_answered :: "db \<Rightarrow> bool" where
  "all_answered d \<longleftrightarrow> (\<forall>r\<in>set (events d). we_kind r = KRequest \<longrightarrow> answered d r)"

lemma all_answered_grows: "log_grows d d' \<Longrightarrow> all_answered d \<Longrightarrow> all_answered d'"
  using answered_mono by (fastforce simp: all_answered_def log_grows_def)

lemma recover_unfinished_requests_effect:
  assumes inv: "store_inv d" and run: "recover_unfinished_requests clocks d = Inr d'"
  shows "store_inv d'" "all_answered d'" "attempts d' = attempts d" "tasks d' = tasks d"
    "external_operations d' = external_operations d" "log_grows d d'"
proof -
  from run obtain rows where
    rows: "list_all2 (\<lambda>r row. \<exists>q. we_request_id r = Some q \<and>
        (we_workspace r, q, we_actor_id r, we_task_id r) = row) (unfinished_requests d) rows"
    and loop: "loopR clocks (\<lambda>clock row s.
       bindR (append_event_in_transaction clock (restarted_result row) s) (\<lambda>(s1, _). Inr s1))
       rows d = Inr d'"
    by (auto simp: recover_unfinished_requests_def bindR_eq_Inr mapR_eq_Inr)
  let ?P = "\<lambda>s. store_inv s \<and> attempts s = attempts d \<and> tasks s = tasks d \<and>
      external_operations s = external_operations d \<and> log_grows d s"
  define Q where "Q row s \<longleftrightarrow> (\<exists>x\<in>set (events s). we_workspace x = fst row \<and> we_kind x = KResult \<and>
        we_request_id x = Some (fst (snd row)))"
    for row :: "workspace_name \<times> string \<times> string \<times> int option" and s :: db
  have step: "?P s1 \<and> Q row s1"
    if "?P s" "bindR (append_event_in_transaction clock (restarted_result row) s) (\<lambda>(s1, _). Inr s1) = Inr s1"
    for clock row s s1
  proof -
    from that(2) obtain e where
      app: "append_event_in_transaction clock (restarted_result row) s = Inr (s1, e)"
      by (auto simp: bindR_eq_Inr)
    have kind: "ei_kind (restarted_result row) = KResult" "ei_workspace (restarted_result row) = fst row"
      "ei_request_id (restarted_result row) = Some (fst (snd row))"
      by (auto simp: restarted_result_def split: prod.splits)
    have "log_grows d s1"
      using that(1) append_log_grows [OF app] kind(1) by (auto intro: log_grows_trans)
    with that(1) kind show ?thesis
      by (auto simp: Q_def append_event_fields [OF app] append_event_event [OF app]
          intro: store_inv_append [OF _ app])
  qed
  have keep: "Q y s1"
    if "Q y s"
      "bindR (append_event_in_transaction clock (restarted_result row) s) (\<lambda>(s1, _). Inr s1) = Inr s1"
    for clock row s s1 y
    using that by (auto simp: Q_def bindR_eq_Inr append_event_fields)
  have P: "?P d'"
  proof (rule loopR_preserves [OF loop, of ?P])
    show "?P d" using inv by simp
  qed (erule (1) step [THEN conjunct1])
  then show "store_inv d'" "attempts d' = attempts d" "tasks d' = tasks d"
    "external_operations d' = external_operations d" "log_grows d d'" by auto
  have new: "\<forall>row\<in>set rows. Q row d'"
  proof (rule loopR_establishes [OF loop, of ?P Q])
    show "?P d" using inv by simp
  qed (erule (1) step, erule (1) keep)
  have "answered d' r" if "r \<in> set (unfinished_requests d)" for r
  proof -
    from that obtain i where i: "i < length (unfinished_requests d)" "r = unfinished_requests d ! i"
      by (auto simp: in_set_conv_nth)
    from list_all2_nthD [OF rows i(1)] list_all2_lengthD [OF rows] i obtain q where
      "we_request_id r = Some q" "(we_workspace r, q, we_actor_id r, we_task_id r) \<in> set rows"
      by (metis nth_mem)
    with new show ?thesis by (fastforce simp: answered_def Q_def)
  qed
  then show "all_answered d'"
    using P answered_mono [of d d']
    by (fastforce simp: all_answered_def log_grows_def unfinished_requests_def)
qed

section \<open>Attempts\<close>

lemma recover_attempt_effect:
  assumes inv: "store_inv d" and a: "a \<in> set (attempts d)" "is_running a"
    and run: "recover_attempt now clock a d = Inr d'"
  shows "store_inv d'"
    "attempts d' = update_where (\<lambda>b. a_id b = a_id a)
       (\<lambda>b. b\<lparr>a_status := Interrupted, a_stop_evidence := EvUnknown,
              a_reason := Some ReasonRouterRestarted, a_ended_at := Some now\<rparr>) (attempts d)"
    "log_grows d d'" "external_operations d' = external_operations d"
proof -
  note ok = store_invD(2) [OF inv]
  let ?h = "\<lambda>b. b\<lparr>a_status := Interrupted, a_stop_evidence := EvUnknown,
      a_reason := Some ReasonRouterRestarted, a_ended_at := Some now\<rparr>"
  let ?f = "\<lambda>t. t\<lparr>t_state := Paused, t_current_attempt_id := None,
      t_pause_reason := Some ReasonRouterRestarted, t_version := t_version t + 1,
      t_updated_by := SYSTEM_ROUTER, t_updated_at := now\<rparr>"
  from run obtain d1 n d2 m sm e where
    upa: "update_attempts (\<lambda>b. a_id b = a_id a \<and> a_status b = Running) ?h d = Inr (d1, n)"
    and upt: "update_tasks (\<lambda>t. t_key t = a_key a \<and> t_current_attempt_id t = Some (a_id a)) ?f d1 =
        Inr (d2, m)"
    and app: "append_event_in_transaction clock
       (task_event_insert (a_workspace a) SYSTEM_ROUTER (a_task_id a)
          \<lparr>te_change = ChgInterrupted, te_task = sm,
           te_attempt_id = Some (a_id a), te_report_id = None,
           te_external_operation_id = None\<rparr>) d2 = Inr (d', e)"
    by (auto simp: recover_attempt_def result_simps)
  from exec_okD(8) [OF ok a] obtain t where
    t: "t \<in> set (tasks d)" "t_key t = (a_workspace a, a_task_id a)"
      "t_current_attempt_id t = Some (a_id a)"
    by (auto simp: a_key_def)
  have last: "t_last_attempt_id t = Some (a_id a)" using exec_okD(9) [OF ok t(1,3)] by simp
  have P: "t_key u = a_key a \<and> t_current_attempt_id u = Some (a_id a) \<longleftrightarrow>
      t_key u = (a_workspace a, a_task_id a)" if "u \<in> set (tasks d)" for u
    using exec_ok_same_task [OF ok that t(1)] t(2,3) by (auto simp: a_key_def)
  have d2: "store_inv d2 \<and> d2 = d\<lparr>tasks := update_where (\<lambda>u. t_key u = t_key t) ?f (tasks d),
      attempts := update_where (\<lambda>b. a_id b = a_id a) ?h (attempts d)\<rparr>"
    by (rule conjI; rule store_inv_close [OF inv t upa _ _ _ _ _ _ upt P])
       (auto simp: a_key_def t_key_def is_running_def last)
  show "store_inv d'" using d2 store_inv_append [OF _ app] by blast
  have "log_grows d2 d'"
    by (rule append_log_grows [OF app]) (simp add: task_event_insert_def)
  moreover have "events d2 = events d" using d2 by simp
  ultimately show "log_grows d d'" by (simp add: log_grows_def)
  show "attempts d' = update_where (\<lambda>b. a_id b = a_id a) ?h (attempts d)"
    "external_operations d' = external_operations d"
    using d2 by (simp_all add: append_event_fields [OF app])
qed

lemma recover_attempts_loop:
  assumes "loopR clocks (recover_attempt now) xs d = Inr d'" and "store_inv d"
    and "set xs \<subseteq> {a \<in> set (attempts d). is_running a}" and "distinct (map a_id xs)"
  shows "store_inv d' \<and> log_grows d d' \<and> external_operations d' = external_operations d \<and>
    {b \<in> set (attempts d'). is_running b} = {b \<in> set (attempts d). is_running b} - set xs"
  using assms
proof (induction xs arbitrary: clocks d)
  case Nil
  then show ?case by simp
next
  case (Cons a xs)
  from Cons.prems(1) obtain d1 where d1: "recover_attempt now (clocks 0) a d = Inr d1"
    "loopR (\<lambda>n. clocks (Suc n)) (recover_attempt now) xs d1 = Inr d'"
    by (auto simp: bindR_eq_Inr)
  from Cons.prems(3) have a: "a \<in> set (attempts d)" "is_running a" by auto
  note eff = recover_attempt_effect [OF Cons.prems(2) a d1(1)]
  note ids = exec_okD(2) [OF store_invD(2) [OF Cons.prems(2)]]
  have run: "{b \<in> set (attempts d1). is_running b} = {b \<in> set (attempts d). is_running b} - {a}"
  proof -
    obtain h where h: "attempts d1 = update_where (\<lambda>b. a_id b = a_id a) h (attempts d)"
      "\<not> is_running (h a)"
      using eff(2) by (auto simp: is_running_def)
    have "b = a" if "b \<in> set (attempts d)" "a_id b = a_id a" for b
      using distinct_key_eq [OF ids that(1) a(1)] that(2) by simp
    with h(2) a(2) show ?thesis
      by (auto simp: h(1) in_set_update_where_key [OF ids a(1)])
  qed
  have "set xs \<subseteq> {b \<in> set (attempts d1). is_running b}"
    using Cons.prems(3,4) unfolding run by auto
  from Cons.IH [OF d1(2) eff(1) this] Cons.prems(4)
  show ?case using run eff(3,4) by (auto intro: log_grows_trans)
qed

lemma recover_running_attempts_effect:
  assumes inv: "store_inv d" and run: "recover_running_attempts clock clocks d = Inr d'"
  shows "store_inv d'" "log_grows d d'" "external_operations d' = external_operations d"
    "\<forall>b\<in>set (attempts d'). \<not> is_running b"
proof -
  from run obtain now where
    loop: "loopR clocks (recover_attempt now) (filter is_running (attempts d)) d = Inr d'"
    by (auto simp: recover_running_attempts_def bindR_eq_Inr)
  have "distinct (map a_id (filter is_running (attempts d)))"
    using exec_okD(2) [OF store_invD(2) [OF inv]] by (rule distinct_map_filter)
  from recover_attempts_loop [OF loop inv _ this] show "store_inv d'" "log_grows d d'"
    "external_operations d' = external_operations d" "\<forall>b\<in>set (attempts d'). \<not> is_running b"
    by auto
qed

section \<open>External operations\<close>

lemma recover_operation_effect:
  assumes "store_inv d" and run: "recover_operation now clock x d = Inr d'"
  shows "store_inv d'" "log_grows d d'" "attempts d' = attempts d"
    "external_operations d' = update_where
       (\<lambda>y. x_workspace y = x_workspace x \<and> x_operation_id y = x_operation_id x \<and> x_status y = OpRunning)
       (\<lambda>y. y\<lparr>x_phase := Terminal, x_status := fst (settled_outcome (x_phase x) (x_kind x)),
              x_error := Some (snd (settled_outcome (x_phase x) (x_kind x))), x_updated_at := now\<rparr>)
       (external_operations d)"
proof -
  from run obtain d1 i e where
    d1: "d1 = d\<lparr>external_operations := update_where
       (\<lambda>y. x_workspace y = x_workspace x \<and> x_operation_id y = x_operation_id x \<and> x_status y = OpRunning)
       (\<lambda>y. y\<lparr>x_phase := Terminal, x_status := fst (settled_outcome (x_phase x) (x_kind x)),
              x_error := Some (snd (settled_outcome (x_phase x) (x_kind x))), x_updated_at := now\<rparr>)
       (external_operations d)\<rparr>"
    and app: "append_event_in_transaction clock i d1 = Inr (d', e)" and i: "ei_kind i = KIntegration"
    by (auto simp: recover_operation_def bindR_eq_Inr update_external_operations_def
        split: prod.splits)
  have "store_inv d1"
    using assms(1) log_inv_frame [of d1 d] by (simp add: d1 store_inv_def receipts_ok_def creds_ok_def)
  then show "store_inv d'" by (rule store_inv_append [OF _ app])
  show "log_grows d d'" using append_log_grows [OF app] i by (simp add: log_grows_def d1)
  show "attempts d' = attempts d" "external_operations d' = update_where
       (\<lambda>y. x_workspace y = x_workspace x \<and> x_operation_id y = x_operation_id x \<and> x_status y = OpRunning)
       (\<lambda>y. y\<lparr>x_phase := Terminal, x_status := fst (settled_outcome (x_phase x) (x_kind x)),
              x_error := Some (snd (settled_outcome (x_phase x) (x_kind x))), x_updated_at := now\<rparr>)
       (external_operations d)"
    by (simp_all add: append_event_fields [OF app] d1)
qed

text \<open>An operation is settled when no row with its key is in flight.\<close>

definition settled :: "external_operation_row \<Rightarrow> db \<Rightarrow> bool" where
  "settled x d \<longleftrightarrow> (\<forall>y\<in>set (external_operations d).
     x_workspace y = x_workspace x \<and> x_operation_id y = x_operation_id x \<longrightarrow> \<not> inflight y)"

lemma recover_operation_settles:
  assumes "store_inv d" and "recover_operation now clock x d = Inr d'"
  shows "settled x d'" and "settled y d \<Longrightarrow> settled y d'"
    and "z \<in> set (external_operations d') \<Longrightarrow> inflight z \<Longrightarrow> z \<in> set (external_operations d)"
  by (auto simp: settled_def recover_operation_effect(4) [OF assms] table_simps inflight_def)

lemma recover_external_operations_effect:
  assumes inv: "store_inv d" and run: "recover_external_operations clock clocks d = Inr d'"
  shows "store_inv d'" "log_grows d d'" "attempts d' = attempts d"
    "\<forall>x\<in>set (external_operations d'). \<not> inflight x"
proof -
  from run obtain now where
    loop: "loopR clocks (recover_operation now) (inflight_operations d) d = Inr d'"
    by (auto simp: recover_external_operations_def bindR_eq_Inr)
  let ?P = "\<lambda>s. store_inv s \<and> log_grows d s \<and> attempts s = attempts d \<and>
      (\<forall>z\<in>set (external_operations s). inflight z \<longrightarrow> z \<in> set (external_operations d))"
  have step: "?P s' \<and> settled x s'" if "?P s" "recover_operation now c x s = Inr s'" for c x s s'
  proof -
    from that(1) have "store_inv s" by simp
    note eff = recover_operation_effect [OF this that(2)]
      and set = recover_operation_settles [OF this that(2)]
    show ?thesis using that(1) eff(1-3) set(1,3) by (auto intro: log_grows_trans)
  qed
  have P: "?P d'"
  proof (rule loopR_preserves [OF loop, of ?P])
    show "?P d" using inv by simp
  qed (erule (1) step [THEN conjunct1])
  have all: "\<forall>x\<in>set (inflight_operations d). settled x d'"
  proof (rule loopR_establishes [OF loop, of ?P settled])
    show "?P d" using inv by simp
  qed (erule (1) step, use recover_operation_settles(2) in blast)
  show "store_inv d'" "log_grows d d'" "attempts d' = attempts d" using P by auto
  show "\<forall>x\<in>set (external_operations d'). \<not> inflight x"
  proof (intro ballI notI)
    fix x assume x: "x \<in> set (external_operations d')" "inflight x"
    with P have "x \<in> set (inflight_operations d)" by (auto simp: inflight_operations_def)
    with all x show False by (auto simp: settled_def)
  qed
qed

section \<open>The whole recovery\<close>

lemma recover_effect:
  assumes inv: "store_inv d" and run: "recover rc d = Inr d'"
  shows "store_inv d'" "all_answered d'" "\<forall>a\<in>set (attempts d'). \<not> is_running a"
    "\<forall>x\<in>set (external_operations d'). \<not> inflight x" "log_grows d d'"
proof -
  from run obtain d1 d2 where
    d1: "recover_unfinished_requests (rc_requests rc) d = Inr d1"
    and d2: "recover_running_attempts (rc_attempts_now rc) (rc_attempts rc) d1 = Inr d2"
    and d3: "recover_external_operations (rc_operations_now rc) (rc_operations rc) d2 = Inr d'"
    by (auto simp: recover_def bindR_eq_Inr)
  note e1 = recover_unfinished_requests_effect [OF inv d1]
  note e2 = recover_running_attempts_effect [OF e1(1) d2]
  note e3 = recover_external_operations_effect [OF e2(1) d3]
  show "store_inv d'" "\<forall>x\<in>set (external_operations d'). \<not> inflight x" by (fact e3)+
  show "\<forall>a\<in>set (attempts d'). \<not> is_running a" using e2(4) e3(3) by simp
  show "all_answered d'" using e1(2) e2(2) e3(2) by (blast intro: all_answered_grows)
  show "log_grows d d'" using e1(6) e2(2) e3(2) by (blast intro: log_grows_trans)
qed

end
