(* ===== verification/Credentials.thy ===== *)
theory Credentials
  imports Recovery "HOL-Library.Option_ord"
begin

text \<open>
  Credentials and onboarding: \<^verbatim>\<open>CredentialFile\<close> and its validation (\<^verbatim>\<open>src/credentials.rs\<close>), the
  credential and invite operations of \<^verbatim>\<open>RouterStore\<close> (\<^verbatim>\<open>src/store.rs\<close>) and the identities of
  \<^verbatim>\<open>src/onboarding.rs\<close>. Base64, SHA-256 and the text form of a UUID come from other crates: they
  are the fields of \<open>codec\<close>, an argument of every definition that uses them.
\<close>

section \<open>Data\<close>

record codec =
  b64_decode :: "string \<Rightarrow> string option"
  b64_encode :: "string \<Rightarrow> string"
  sha256 :: "string \<Rightarrow> digest"
  uuid_simple :: "uuid \<Rightarrow> string"

definition CREDENTIAL_VERSION :: nat where "CREDENTIAL_VERSION = 1"
definition TOKEN_BYTES :: nat where "TOKEN_BYTES = 32"
definition TOKEN_LENGTH :: nat where "TOKEN_LENGTH = 43"
definition MAX_GRANTS :: nat where "MAX_GRANTS = 64"
definition ONBOARDING_VERSION :: nat where "ONBOARDING_VERSION = 1"
definition INVITE_LIFETIME_MS :: int where "INVITE_LIFETIME_MS = 600000"

record public_claims =
  pc_version :: nat
  pc_id :: uuid
  pc_role :: credential_role
  pc_subject :: string
  pc_agent_side :: "agent_side option"
  pc_agent_client :: "agent_client option"
  pc_workspaces :: "workspace_name list"

record credential_file =
  cf_version :: nat
  cf_id :: uuid
  cf_token :: string
  cf_role :: credential_role
  cf_subject :: string
  cf_agent_side :: "agent_side option"
  cf_agent_client :: "agent_client option"
  cf_workspaces :: "workspace_name list"

datatype credential_error = CredInvalid | CredPermissions | CredIo | CredRandom | CredExists

fun credential_error_code :: "credential_error \<Rightarrow> router_error_code" where
  "credential_error_code CredInvalid = ConfigurationRequired"
| "credential_error_code CredPermissions = ConfigurationRequired"
| "credential_error_code CredIo = StorageError"
| "credential_error_code CredRandom = StorageError"
| "credential_error_code CredExists = StorageError"

fun map_credential_error :: "credential_error \<Rightarrow> store_error" where
  "map_credential_error CredIo = SIo"
| "map_credential_error CredInvalid = SInvalidData"
| "map_credential_error CredPermissions = SInvalidData"
| "map_credential_error CredRandom = SInvalidData"
| "map_credential_error CredExists = SInvalidData"

definition valid_agent_claims :: "agent_side option \<Rightarrow> agent_client option \<Rightarrow> bool" where
  "valid_agent_claims side client =
     (case (side, client) of
        (Some SideGeneric, Some ClientOmp) \<Rightarrow> True
      | (Some SideGeneric, Some ClientGeneric) \<Rightarrow> True
      | (Some SideClaude, Some ClientClaudeCode) \<Rightarrow> True
      | (Some SideClaude, Some ClientClaudeSdk) \<Rightarrow> True
      | (Some SideCodex, Some ClientCodexCli) \<Rightarrow> True
      | (Some SideCodex, Some ClientCodexAppServer) \<Rightarrow> True
      | _ \<Rightarrow> False)"

text \<open>\<^verbatim>\<open>sort_unstable\<close> and \<^verbatim>\<open>dedup\<close>; on ASCII a control character is a byte below 32 or 127.\<close>

definition has_duplicate_grant :: "workspace_name list \<Rightarrow> bool" where
  "has_duplicate_grant ws = (length (remdups_adj (sort ws)) \<noteq> length ws)"

definition credential_validate :: "codec \<Rightarrow> credential_file \<Rightarrow> credential_error + unit" where
  "credential_validate cx c =
     bindR (guardR (\<not> (cf_version c \<noteq> CREDENTIAL_VERSION \<or> length (cf_token c) \<noteq> TOKEN_LENGTH))
              CredInvalid) (\<lambda>_.
     bindR (ok_or (b64_decode cx (cf_token c)) CredInvalid) (\<lambda>decoded.
     bindR (guardR (\<not> (length decoded \<noteq> TOKEN_BYTES \<or> b64_encode cx decoded \<noteq> cf_token c \<or>
                       length (cf_workspaces c) > MAX_GRANTS)) CredInvalid) (\<lambda>_.
     bindR (guardR (\<not> has_duplicate_grant (cf_workspaces c)) CredInvalid) (\<lambda>_.
     case cf_role c of
       RoleAgent \<Rightarrow>
         guardR (\<not> (\<not> is_agent_id (cf_subject c) \<or>
                    \<not> valid_agent_claims (cf_agent_side c) (cf_agent_client c))) CredInvalid
     | RoleOperator \<Rightarrow>
         guardR (\<not> (cf_subject c = [] \<or> length (cf_subject c) > 119 \<or>
                    \<not> is_ascii (cf_subject c) \<or>
                    \<not> list_all (\<lambda>ch. \<not> (byte ch < 32 \<or> byte ch = 127)) (cf_subject c) \<or>
                    starts_with (cf_subject c) ''system:'' \<or>
                    cf_agent_side c \<noteq> None \<or> cf_agent_client c \<noteq> None)) CredInvalid))))"

definition public_claims_of :: "credential_file \<Rightarrow> public_claims" where
  "public_claims_of c =
     \<lparr>pc_version = cf_version c, pc_id = cf_id c, pc_role = cf_role c, pc_subject = cf_subject c,
      pc_agent_side = cf_agent_side c, pc_agent_client = cf_agent_client c,
      pc_workspaces = cf_workspaces c\<rparr>"

definition token_hash :: "codec \<Rightarrow> credential_file \<Rightarrow> digest" where
  "token_hash cx c = sha256 cx (cf_token c)"

definition parse_token :: "codec \<Rightarrow> string \<Rightarrow> credential_error + string" where
  "parse_token cx value =
     bindR (guardR (\<not> (length value \<noteq> TOKEN_LENGTH \<or>
                       (case b64_decode cx value of None \<Rightarrow> True
                        | Some decoded \<Rightarrow> length decoded \<noteq> TOKEN_BYTES))) CredInvalid) (\<lambda>_.
     Inr value)"

definition generate_credential ::
  "codec \<Rightarrow> uuid \<Rightarrow> string option \<Rightarrow> credential_role \<Rightarrow> string \<Rightarrow> agent_side option \<Rightarrow>
     agent_client option \<Rightarrow> workspace_name list \<Rightarrow> credential_error + credential_file" where
  "generate_credential cx new_id random role subject side client ws =
     bindR (ok_or random CredRandom) (\<lambda>bytes.
     let credential =
       \<lparr>cf_version = CREDENTIAL_VERSION, cf_id = new_id, cf_token = b64_encode cx bytes,
        cf_role = role, cf_subject = subject, cf_agent_side = side, cf_agent_client = client,
        cf_workspaces = ws\<rparr> in
     bindR (credential_validate cx credential) (\<lambda>_. Inr credential))"

section \<open>The credential table\<close>

record stored_credential =
  sc_claims :: public_claims
  sc_token_hash :: digest
  sc_created_at :: int
  sc_revoked_at :: "int option"

definition credential_from_row :: "credential_row \<Rightarrow> stored_credential" where
  "credential_from_row r =
     \<lparr>sc_claims = \<lparr>pc_version = 1, pc_id = c_id r, pc_role = c_role r, pc_subject = c_subject r,
                    pc_agent_side = c_agent_side r, pc_agent_client = c_agent_client r,
                    pc_workspaces = c_workspaces r\<rparr>,
      sc_token_hash = c_token_hash r, sc_created_at = c_created_at r,
      sc_revoked_at = c_revoked_at r\<rparr>"

definition credential_count :: "db \<Rightarrow> nat" where
  "credential_count d = length (credentials d)"

definition insert_credential_connection ::
  "codec \<Rightarrow> credential_file \<Rightarrow> int \<Rightarrow> db \<Rightarrow> store_error + db" where
  "insert_credential_connection cx c now d =
     bindR (map_err map_credential_error (credential_validate cx c)) (\<lambda>_.
     bindR (guardR (\<not> (cf_id c = nil_uuid \<or> \<not> (0 \<le> now \<and> now \<le> MAX_SAFE_INTEGER))) SInvalidData) (\<lambda>_.
     map_err SSqlite (insert_credential_row
       \<lparr>c_id = cf_id c, c_token_hash = token_hash cx c, c_role = cf_role c,
        c_subject = cf_subject c, c_agent_side = cf_agent_side c,
        c_agent_client = cf_agent_client c, c_workspaces = cf_workspaces c,
        c_created_at = now, c_revoked_at = None\<rparr> d)))"

definition insert_credential :: "codec \<Rightarrow> int \<Rightarrow> credential_file \<Rightarrow> db \<Rightarrow> store_error + db" where
  "insert_credential cx clock c d =
     bindR (now_millis clock) (\<lambda>now. insert_credential_connection cx c now d)"

definition credential_by_hash :: "db \<Rightarrow> digest \<Rightarrow> stored_credential option" where
  "credential_by_hash d h =
     map_option credential_from_row (find (\<lambda>r. c_token_hash r = h) (credentials d))"

definition credential_by_id :: "db \<Rightarrow> uuid \<Rightarrow> stored_credential option" where
  "credential_by_id d i =
     map_option credential_from_row (find (\<lambda>r. c_id r = i) (credentials d))"

definition revoke_credential :: "int \<Rightarrow> uuid \<Rightarrow> db \<Rightarrow> store_error + db \<times> bool" where
  "revoke_credential clock i d =
     bindR (now_millis clock) (\<lambda>now.
     bindR (map_err SSqlite (update_credentials
       (\<lambda>r. c_id r = i \<and> c_revoked_at r = None \<and>
            \<not> (c_role r = RoleOperator \<and> c_subject r = ''admin''))
       (\<lambda>r. r\<lparr>c_revoked_at := Some now\<rparr>) d)) (\<lambda>(d1, changed).
     Inr (d1, changed = 1)))"

text \<open>A UUID's text is lower-case hexadecimal of fixed length, so text order is the order of the
  128-bit value, and the empty string that stands for no cursor is below every id.\<close>

definition list_credentials ::
  "db \<Rightarrow> uuid option \<Rightarrow> nat \<Rightarrow> store_error + stored_credential list \<times> uuid option \<times> bool" where
  "list_credentials d after limit =
     (let fetched = map credential_from_row (take (limit + 1) (sort_key c_id
            (filter (\<lambda>r. case after of None \<Rightarrow> True | Some a \<Rightarrow> a < c_id r) (credentials d))));
          (page, has_more) = pop_page limit fetched
      in Inr (page, (if page = [] then None else Some (pc_id (sc_claims (last page)))), has_more))"

section \<open>Onboarding\<close>

fun onboarding_as_str :: "onboarding_provider \<Rightarrow> string" where
  "onboarding_as_str ProvClaudeCode = ''claude-code''"
| "onboarding_as_str ProvCodexCli = ''codex-cli''"
| "onboarding_as_str ProvOmp = ''omp''"

fun provider_identity :: "onboarding_provider \<Rightarrow> agent_side \<times> agent_client" where
  "provider_identity ProvClaudeCode = (SideClaude, ClientClaudeCode)"
| "provider_identity ProvCodexCli = (SideCodex, ClientCodexCli)"
| "provider_identity ProvOmp = (SideGeneric, ClientOmp)"

definition invite_subject :: "codec \<Rightarrow> uuid \<Rightarrow> string" where
  "invite_subject cx invite_id = ''asr-'' @ uuid_simple cx invite_id"

record issued_invite =
  ii_server_id :: uuid
  ii_invite_id :: uuid
  ii_invite_token :: string
  ii_expires_at :: int
  ii_workspace :: workspace_name
  ii_provider :: "onboarding_provider option"

record enrollment_request =
  er_version :: nat
  er_server_id :: uuid
  er_invite_id :: uuid
  er_invite_token :: string
  er_enrollment_id :: uuid
  er_provider :: onboarding_provider
  er_credential_id :: uuid
  er_credential_token :: string

datatype enrollment_error = EnrMalformed | EnrInviteUnavailable | EnrUnavailable

definition server_id_connection :: "db \<Rightarrow> store_error + uuid" where
  "server_id_connection d = (if server_id d = nil_uuid then Inl SInvalidData else Inr (server_id d))"

text \<open>\<open>new_id\<close> and \<open>random\<close> are what \<^verbatim>\<open>Uuid::new_v4\<close> and \<^verbatim>\<open>getrandom::fill\<close> return.\<close>

definition issue_onboarding_invite ::
  "codec \<Rightarrow> uuid \<Rightarrow> string option \<Rightarrow> workspace_name \<Rightarrow> bool \<Rightarrow> onboarding_provider option \<Rightarrow> int \<Rightarrow>
     db \<Rightarrow> store_error + db \<times> issued_invite" where
  "issue_onboarding_invite cx new_id random ws create provider now d =
     bindR (guardR (0 \<le> now \<and> now \<le> MAX_SAFE_INTEGER - INVITE_LIFETIME_MS) SInvalidData) (\<lambda>_.
     bindR (ok_or random SInvalidData) (\<lambda>bytes.
     bindR (map_err map_credential_error (parse_token cx (b64_encode cx bytes))) (\<lambda>invite_token.
     let expires_at = now + INVITE_LIFETIME_MS in
     bindR (server_id_connection d) (\<lambda>server.
     bindR (if create
            then bindR (map_err SSqlite (insert_workspace
                   \<lparr>w_name = ws, w_created_at = now, w_next_seq = 1, w_next_task_id = 1\<rparr> d))
                   (\<lambda>(d1, _). Inr d1)
            else bindR (guardR (workspace_exists d ws) SWorkspaceNotFound) (\<lambda>_. Inr d)) (\<lambda>d1.
     bindR (map_err SSqlite (insert_invite
       \<lparr>i_id = new_id, i_token_hash = sha256 cx invite_token, i_provider = provider,
        i_workspace = ws, i_subject = invite_subject cx new_id, i_created_at = now,
        i_expires_at = expires_at, i_revoked_at = None, i_enrollment_id = None,
        i_credential_id = None, i_redeemed_at = None\<rparr> d1)) (\<lambda>d2.
     bindR (map_err SSqlite (commit d2)) (\<lambda>d3.
     Inr (d3,
       \<lparr>ii_server_id = server, ii_invite_id = new_id, ii_invite_token = invite_token,
        ii_expires_at = expires_at, ii_workspace = ws, ii_provider = provider\<rparr>))))))))"

definition revoke_onboarding_invite :: "uuid \<Rightarrow> int \<Rightarrow> db \<Rightarrow> store_error + db" where
  "revoke_onboarding_invite invite_id now d =
     bindR (guardR (\<not> (invite_id = nil_uuid \<or> \<not> (0 \<le> now \<and> now \<le> MAX_SAFE_INTEGER))) SInvalidData) (\<lambda>_.
     bindR (map_err SSqlite (update_invites (\<lambda>i. i_id i = invite_id)
       (\<lambda>i. i\<lparr>i_revoked_at := (case i_revoked_at i of None \<Rightarrow> Some now | Some t \<Rightarrow> Some t)\<rparr>) d))
       (\<lambda>(d1, changed).
     bindR (guardR (changed \<noteq> 0) SRequestNotFound) (\<lambda>_. Inr d1)))"

definition valid_invite_token :: "codec \<Rightarrow> string \<Rightarrow> bool" where
  "valid_invite_token cx token =
     (length token = TOKEN_LENGTH \<and>
      (case b64_decode cx token of None \<Rightarrow> False | Some decoded \<Rightarrow> length decoded = TOKEN_BYTES))"

fun enrollment_insert_error :: "store_error \<Rightarrow> enrollment_error" where
  "enrollment_insert_error (SSqlite ConstraintUnique) = EnrInviteUnavailable"
| "enrollment_insert_error (SSqlite ConstraintPrimaryKey) = EnrInviteUnavailable"
| "enrollment_insert_error SInvalidData = EnrMalformed"
| "enrollment_insert_error _ = EnrUnavailable"

definition enrollment_credential :: "codec \<Rightarrow> enrollment_request \<Rightarrow> credential_file" where
  "enrollment_credential cx r =
     \<lparr>cf_version = CREDENTIAL_VERSION, cf_id = er_credential_id r,
      cf_token = er_credential_token r, cf_role = RoleAgent,
      cf_subject = invite_subject cx (er_invite_id r),
      cf_agent_side = Some (fst (provider_identity (er_provider r))),
      cf_agent_client = Some (snd (provider_identity (er_provider r))), cf_workspaces = []\<rparr>"

definition find_invite :: "db \<Rightarrow> uuid \<Rightarrow> invite_row option" where
  "find_invite d i = find (\<lambda>r. i_id r = i) (invites d)"

text \<open>The branch for an invite that was already redeemed.\<close>

definition replay_enrollment ::
  "codec \<Rightarrow> enrollment_request \<Rightarrow> credential_file \<Rightarrow> invite_row \<Rightarrow> db \<Rightarrow>
     enrollment_error + db \<times> public_claims" where
  "replay_enrollment cx r credential invite d =
     bindR (guardR (\<not> (i_enrollment_id invite \<noteq> Some (er_enrollment_id r) \<or>
                       i_credential_id invite \<noteq> Some (er_credential_id r))) EnrInviteUnavailable) (\<lambda>_.
     bindR (ok_or (credential_by_id d (er_credential_id r)) EnrInviteUnavailable) (\<lambda>stored.
     bindR (guardR (\<not> (sc_token_hash stored \<noteq> token_hash cx credential \<or>
                       sc_revoked_at stored \<noteq> None \<or>
                       sc_claims stored \<noteq> public_claims_of credential)) EnrInviteUnavailable) (\<lambda>_.
     bindR (map_err (\<lambda>_. EnrUnavailable) (commit d)) (\<lambda>d1.
     Inr (d1, sc_claims stored)))))"

text \<open>The branch for an invite that nobody redeemed yet.\<close>

definition first_enrollment ::
  "codec \<Rightarrow> enrollment_request \<Rightarrow> credential_file \<Rightarrow> invite_row \<Rightarrow> int \<Rightarrow> db \<Rightarrow>
     enrollment_error + db \<times> public_claims" where
  "first_enrollment cx r credential invite now d =
     bindR (guardR (now < i_expires_at invite) EnrInviteUnavailable) (\<lambda>_.
     bindR (map_err enrollment_insert_error
              (insert_credential_connection cx credential now d)) (\<lambda>d1.
     bindR (map_err (\<lambda>_. EnrUnavailable) (update_invites
       (\<lambda>i. i_id i = er_invite_id r \<and> i_enrollment_id i = None \<and> i_revoked_at i = None)
       (\<lambda>i. i\<lparr>i_enrollment_id := Some (er_enrollment_id r),
              i_credential_id := Some (er_credential_id r), i_redeemed_at := Some now\<rparr>) d1))
       (\<lambda>(d2, changed).
     bindR (guardR (changed = 1) EnrInviteUnavailable) (\<lambda>_.
     bindR (map_err (\<lambda>_. EnrUnavailable) (commit d2)) (\<lambda>d3.
     Inr (d3, public_claims_of credential))))))"

definition redeem_onboarding ::
  "codec \<Rightarrow> enrollment_request \<Rightarrow> int \<Rightarrow> db \<Rightarrow> enrollment_error + db \<times> public_claims" where
  "redeem_onboarding cx r now d =
     bindR (guardR (\<not> (er_version r \<noteq> ONBOARDING_VERSION \<or> er_server_id r = nil_uuid \<or>
                       er_invite_id r = nil_uuid \<or> er_enrollment_id r = nil_uuid \<or>
                       er_credential_id r = nil_uuid \<or> \<not> valid_invite_token cx (er_invite_token r)))
              EnrMalformed) (\<lambda>_.
     bindR (guardR (0 \<le> now \<and> now \<le> MAX_SAFE_INTEGER) EnrUnavailable) (\<lambda>_.
     let credential = enrollment_credential cx r in
     bindR (map_err (\<lambda>_. EnrMalformed) (credential_validate cx credential)) (\<lambda>_.
     bindR (map_err (\<lambda>_. EnrUnavailable) (server_id_connection d)) (\<lambda>server.
     bindR (guardR (server = er_server_id r) EnrInviteUnavailable) (\<lambda>_.
     bindR (ok_or (find_invite d (er_invite_id r)) EnrInviteUnavailable) (\<lambda>invite.
     bindR (guardR (\<not> (i_token_hash invite \<noteq> sha256 cx (er_invite_token r) \<or>
                       i_revoked_at invite \<noteq> None \<or>
                       (case i_provider invite of None \<Rightarrow> False
                        | Some p \<Rightarrow> onboarding_as_str p \<noteq> onboarding_as_str (er_provider r))))
              EnrInviteUnavailable) (\<lambda>_.
     bindR (guardR (i_subject invite = cf_subject credential) EnrUnavailable) (\<lambda>_.
     let credential = credential\<lparr>cf_workspaces := cf_workspaces credential @ [i_workspace invite]\<rparr> in
     if i_enrollment_id invite \<noteq> None then replay_enrollment cx r credential invite d
     else first_enrollment cx r credential invite now d))))))))"

section \<open>Validation\<close>

lemma length_remdups_adj_sorted:
  fixes xs :: "'a::linorder list"
  shows "sorted xs \<Longrightarrow> length (remdups_adj xs) = length xs \<longleftrightarrow> distinct xs"
proof (induction xs rule: remdups_adj.induct)
  case (3 x y xs)
  have "length (remdups_adj (y # xs)) \<le> length (y # xs)" by (rule remdups_adj_length)
  with 3 show ?case by (cases "x = y") auto
qed simp_all

lemma has_duplicate_grant_iff: "has_duplicate_grant ws \<longleftrightarrow> \<not> distinct ws"
  using length_remdups_adj_sorted [OF sorted_sort, of ws] by (simp add: has_duplicate_grant_def)

lemma valid_agent_claims_side:
  "valid_agent_claims side client \<Longrightarrow> side \<noteq> None \<and> client \<noteq> None"
  by (auto simp: valid_agent_claims_def split: option.splits agent_side.splits)

lemma provider_identity_valid:
  "valid_agent_claims (Some (fst (provider_identity p))) (Some (snd (provider_identity p)))"
  by (cases p) (simp_all add: valid_agent_claims_def)

lemma onboarding_as_str_inject [simp]: "onboarding_as_str p = onboarding_as_str q \<longleftrightarrow> p = q"
  by (cases p; cases q) simp_all

lemma credential_validate_agent:
  "credential_validate cx (c\<lparr>cf_workspaces := []\<rparr>) = Inr u \<Longrightarrow>
     credential_validate cx (c\<lparr>cf_workspaces := [w]\<rparr>) = Inr u"
  by (auto simp: credential_validate_def result_simps has_duplicate_grant_iff MAX_GRANTS_def
      split: credential_role.splits)

section \<open>What the operations keep\<close>

text \<open>Changing only credentials by inserting, or only invites, leaves the task store alone.\<close>

lemma store_inv_credentials:
  assumes "store_inv d" and "c_id ` set (credentials d) \<subseteq> c_id ` set cs" and "distinct (map c_id cs)"
  shows "store_inv (d\<lparr>credentials := cs, invites := is\<rparr>)"
  using assms log_inv_frame [of "d\<lparr>credentials := cs, invites := is\<rparr>" d]
  by (fastforce simp: store_inv_def receipts_ok_def creds_ok_def)

definition enroll_inv :: "db \<Rightarrow> bool" where
  "enroll_inv d \<longleftrightarrow>
     distinct (map i_id (invites d)) \<and> distinct (map i_token_hash (invites d)) \<and>
     distinct (map c_token_hash (credentials d)) \<and>
     (\<forall>i\<in>set (invites d). invite_check i \<and>
        (\<forall>c. i_credential_id i = Some c \<longrightarrow> c \<in> c_id ` set (credentials d)))"

lemma insert_credential_row_effect:
  assumes "insert_credential_row c d = Inr d1"
  shows "d1 = d\<lparr>credentials := credentials d @ [c]\<rparr>" "c_id c \<notin> c_id ` set (credentials d)"
    "c_token_hash c \<notin> c_token_hash ` set (credentials d)" "credential_check c"
  using assms by (auto simp: insert_credential_row_def split: if_splits)

lemma insert_credential_inv:
  assumes "store_inv d" and "insert_credential_connection cx c now d = Inr d1"
  shows "store_inv d1"
proof -
  from assms(2) obtain row where row: "insert_credential_row row d = Inr d1"
    by (auto simp: insert_credential_connection_def result_simps)
  have "store_inv (d\<lparr>credentials := credentials d @ [row], invites := invites d\<rparr>)"
    using store_invD(6) [OF assms(1)] insert_credential_row_effect(2) [OF row]
    by (intro store_inv_credentials [OF assms(1)]) (auto simp: creds_ok_def)
  then show ?thesis using insert_credential_row_effect(1) [OF row] by simp
qed

lemma revoke_credential_inv:
  assumes "store_inv d" and "revoke_credential clock i d = Inr (d1, r)"
  shows "store_inv d1"
proof -
  from assms(2) obtain P now where d1: "d1 = d\<lparr>credentials :=
      update_where P (\<lambda>r. r\<lparr>c_revoked_at := Some now\<rparr>) (credentials d)\<rparr>"
    by (auto simp: revoke_credential_def result_simps update_credentials_def split: if_splits)
  let ?cs = "update_where P (\<lambda>r. r\<lparr>c_revoked_at := Some now\<rparr>) (credentials d)"
  have "store_inv (d\<lparr>credentials := ?cs, invites := invites d\<rparr>)"
    using store_invD(6) [OF assms(1)]
    by (intro store_inv_credentials [OF assms(1)])
       (simp_all add: keys_update_where map_update_where creds_ok_def)
  then show ?thesis by (simp add: d1)
qed

section \<open>Redemption\<close>

definition granted :: "codec \<Rightarrow> enrollment_request \<Rightarrow> invite_row \<Rightarrow> credential_file" where
  "granted cx r invite = (enrollment_credential cx r)\<lparr>cf_workspaces := [i_workspace invite]\<rparr>"

definition redeem_mark :: "enrollment_request \<Rightarrow> int \<Rightarrow> invite_row \<Rightarrow> invite_row" where
  "redeem_mark r now i =
     i\<lparr>i_enrollment_id := Some (er_enrollment_id r), i_credential_id := Some (er_credential_id r),
       i_redeemed_at := Some now\<rparr>"

text \<open>Whether the request itself is acceptable to this invite, whatever became of it.\<close>

definition admissible :: "codec \<Rightarrow> enrollment_request \<Rightarrow> db \<Rightarrow> invite_row \<Rightarrow> bool" where
  "admissible cx r d invite \<longleftrightarrow>
     er_version r = ONBOARDING_VERSION \<and> er_server_id r \<noteq> nil_uuid \<and> er_invite_id r \<noteq> nil_uuid \<and>
     er_enrollment_id r \<noteq> nil_uuid \<and> er_credential_id r \<noteq> nil_uuid \<and>
     valid_invite_token cx (er_invite_token r) \<and>
     credential_validate cx (enrollment_credential cx r) = Inr () \<and>
     server_id d \<noteq> nil_uuid \<and> server_id d = er_server_id r \<and>
     find_invite d (er_invite_id r) = Some invite \<and>
     i_token_hash invite = sha256 cx (er_invite_token r) \<and> i_revoked_at invite = None \<and>
     (\<forall>p. i_provider invite = Some p \<longrightarrow> p = er_provider r) \<and>
     i_subject invite = invite_subject cx (er_invite_id r)"

lemma redeem_eq_Inr:
  "redeem_onboarding cx r now d = Inr (d', claims) \<longleftrightarrow>
     0 \<le> now \<and> now \<le> MAX_SAFE_INTEGER \<and>
     (\<exists>invite. admissible cx r d invite \<and>
        (if i_enrollment_id invite \<noteq> None
         then replay_enrollment cx r (granted cx r invite) invite d = Inr (d', claims)
         else first_enrollment cx r (granted cx r invite) invite now d = Inr (d', claims)))"
proof (cases "find_invite d (er_invite_id r)")
  case None
  then show ?thesis
    by (simp add: redeem_onboarding_def admissible_def result_simps Let_def)
next
  case (Some invite)
  have eqs: "(enrollment_credential cx r)\<lparr>cf_workspaces := cf_workspaces (enrollment_credential cx r) @
      [i_workspace invite]\<rparr> = granted cx r invite"
    "cf_subject (enrollment_credential cx r) = invite_subject cx (er_invite_id r)"
    by (simp_all add: granted_def enrollment_credential_def)
  have prov: "(case i_provider invite of None \<Rightarrow> False
      | Some p \<Rightarrow> onboarding_as_str p \<noteq> onboarding_as_str (er_provider r)) \<longleftrightarrow>
      \<not> (\<forall>p. i_provider invite = Some p \<longrightarrow> p = er_provider r)"
    by (cases "i_provider invite") auto
  show ?thesis
    by (simp add: redeem_onboarding_def Let_def admissible_def server_id_connection_def bindR_eq_Inr
        Some eqs prov del: not_all) blast
qed

lemma first_enrollment_eq_Inr:
  "first_enrollment cx r c invite now d = Inr (d', claims) \<longleftrightarrow>
     now < i_expires_at invite \<and> claims = public_claims_of c \<and> deferred_ok d' \<and>
     (\<exists>d1. insert_credential_connection cx c now d = Inr d1 \<and>
        update_invites (\<lambda>i. i_id i = er_invite_id r \<and> i_enrollment_id i = None \<and>
            i_revoked_at i = None) (redeem_mark r now) d1 = Inr (d', 1))"
  unfolding first_enrollment_def redeem_mark_def [abs_def] by (auto simp: result_simps)

lemma replay_enrollment_eq_Inr:
  "replay_enrollment cx r c invite d = Inr (d', claims) \<longleftrightarrow>
     i_enrollment_id invite = Some (er_enrollment_id r) \<and>
     i_credential_id invite = Some (er_credential_id r) \<and> d' = d \<and> deferred_ok d \<and>
     claims = public_claims_of c \<and>
     (\<exists>stored. credential_by_id d (er_credential_id r) = Some stored \<and>
        sc_token_hash stored = token_hash cx c \<and> sc_revoked_at stored = None \<and>
        sc_claims stored = public_claims_of c)"
  by (auto simp: replay_enrollment_def result_simps)

text \<open>What a first redemption changed: one credential, one invite.\<close>

lemma redeem_first:
  assumes inv: "enroll_inv d" and run: "redeem_onboarding cx r now d = Inr (d', claims)"
    and found: "find_invite d (er_invite_id r) = Some invite" and new: "i_enrollment_id invite = None"
  shows "admissible cx r d invite" "now < i_expires_at invite"
    "claims = public_claims_of (granted cx r invite)"
    "\<exists>row. credentials d' = credentials d @ [row] \<and>
       credential_from_row row = \<lparr>sc_claims = claims, sc_token_hash = token_hash cx (granted cx r invite),
         sc_created_at = now, sc_revoked_at = None\<rparr> \<and>
       c_id row = er_credential_id r \<and> c_id row \<notin> c_id ` set (credentials d) \<and>
       c_token_hash row \<notin> c_token_hash ` set (credentials d)"
    "invites d' = update_where (\<lambda>i. i_id i = er_invite_id r) (redeem_mark r now) (invites d)"
    "find_invite d' (er_invite_id r) = Some (redeem_mark r now invite)"
    "invite_check (redeem_mark r now invite)" "deferred_ok d'" "server_id d' = server_id d"
    "workspaces d' = workspaces d"
proof -
  from run found new show adm: "admissible cx r d invite" and "now < i_expires_at invite"
    and cl: "claims = public_claims_of (granted cx r invite)" and "deferred_ok d'"
    by (auto simp: redeem_eq_Inr first_enrollment_eq_Inr admissible_def)
  from run found new obtain d1 where
    ins: "insert_credential_connection cx (granted cx r invite) now d = Inr d1"
    and upd: "update_invites (\<lambda>i. i_id i = er_invite_id r \<and> i_enrollment_id i = None \<and>
                i_revoked_at i = None) (redeem_mark r now) d1 = Inr (d', 1)"
    by (auto simp: redeem_eq_Inr first_enrollment_eq_Inr admissible_def)
  define row where "row = \<lparr>c_id = cf_id (granted cx r invite), c_token_hash = token_hash cx (granted cx r invite),
        c_role = cf_role (granted cx r invite), c_subject = cf_subject (granted cx r invite),
        c_agent_side = cf_agent_side (granted cx r invite),
        c_agent_client = cf_agent_client (granted cx r invite),
        c_workspaces = cf_workspaces (granted cx r invite), c_created_at = now, c_revoked_at = None\<rparr>"
  from ins have ir: "insert_credential_row row d = Inr d1"
    by (auto simp: insert_credential_connection_def result_simps row_def)
  note er = insert_credential_row_effect [OF ir]
  have in_d: "invite \<in> set (invites d)" "i_id invite = er_invite_id r"
    using found by (auto simp: find_invite_def dest: find_key_SomeD)
  have same: "i = invite" if "i \<in> set (invites d)" "i_id i = er_invite_id r" for i
    using inv that in_d distinct_key_eq [of i_id "invites d" i invite] by (simp add: enroll_inv_def)
  have P: "(i_id i = er_invite_id r \<and> i_enrollment_id i = None \<and> i_revoked_at i = None) =
      (i_id i = er_invite_id r)" if "i \<in> set (invites d)" for i
    using same [OF that] adm new by (auto simp: admissible_def)
  from upd have d': "d' = d1\<lparr>invites := update_where (\<lambda>i. i_id i = er_invite_id r \<and> i_enrollment_id i = None \<and>
      i_revoked_at i = None) (redeem_mark r now) (invites d)\<rparr>"
    by (auto simp: update_invites_def er(1) split: if_splits)
  show inv': "invites d' = update_where (\<lambda>i. i_id i = er_invite_id r) (redeem_mark r now) (invites d)"
    using P by (simp add: d' update_where_def)
  show "find_invite d' (er_invite_id r) = Some (redeem_mark r now invite)"
    unfolding find_invite_def inv'
    by (subst find_update_where_key) (use found in \<open>simp_all add: redeem_mark_def find_invite_def\<close>)
  show "invite_check (redeem_mark r now invite)"
    using upd in_d new adm by (auto simp: update_invites_def er(1) admissible_def split: if_splits)
  show "server_id d' = server_id d" "workspaces d' = workspaces d" by (simp_all add: d' er(1))
  show "\<exists>row. credentials d' = credentials d @ [row] \<and>
       credential_from_row row = \<lparr>sc_claims = claims, sc_token_hash = token_hash cx (granted cx r invite),
         sc_created_at = now, sc_revoked_at = None\<rparr> \<and>
       c_id row = er_credential_id r \<and> c_id row \<notin> c_id ` set (credentials d) \<and>
       c_token_hash row \<notin> c_token_hash ` set (credentials d)"
    using er(2,3)
    by (intro exI [of _ row])
       (simp add: d' er(1) row_def credential_from_row_def cl public_claims_of_def granted_def
          enrollment_credential_def CREDENTIAL_VERSION_def)
qed

lemma admissible_frame:
  assumes "admissible cx r d i" and "server_id d' = server_id d"
    and "find_invite d' (er_invite_id r) = Some j" and "i_token_hash j = i_token_hash i"
    and "i_revoked_at j = None" and "i_provider j = i_provider i" and "i_subject j = i_subject i"
  shows "admissible cx r d' j"
  using assms by (simp add: admissible_def)

text \<open>Redeeming again with the same request succeeds with the same claims and changes nothing,
  at any later time, even past the expiry of the invite.\<close>

lemma redeem_again:
  assumes inv: "enroll_inv d" and run: "redeem_onboarding cx r now d = Inr (d', claims)"
    and time: "0 \<le> now'" "now' \<le> MAX_SAFE_INTEGER"
  shows "redeem_onboarding cx r now' d' = Inr (d', claims)"
proof -
  from run obtain invite where adm: "admissible cx r d invite" by (auto simp: redeem_eq_Inr)
  then have found: "find_invite d (er_invite_id r) = Some invite" by (simp add: admissible_def)
  show ?thesis
  proof (cases "i_enrollment_id invite")
    case None
    note eff = redeem_first [OF inv run found None]
    let ?j = "redeem_mark r now invite"
    have adm': "admissible cx r d' ?j"
      by (rule admissible_frame [OF eff(1,9,6)])
         (use eff(1) in \<open>simp_all add: redeem_mark_def admissible_def\<close>)
    have same: "granted cx r ?j = granted cx r invite" by (simp add: granted_def redeem_mark_def)
    from eff(4) obtain row where row: "credentials d' = credentials d @ [row]"
      "credential_from_row row = \<lparr>sc_claims = claims, sc_token_hash = token_hash cx (granted cx r invite),
         sc_created_at = now, sc_revoked_at = None\<rparr>"
      "c_id row = er_credential_id r" "c_id row \<notin> c_id ` set (credentials d)" by blast
    have "find (\<lambda>x. c_id x = er_credential_id r) (credentials d) = None"
      using row(3,4) by (auto simp: find_None_iff image_iff)
    then have "credential_by_id d' (er_credential_id r) = Some (credential_from_row row)"
      by (simp add: credential_by_id_def row(1,3) find_append)
    with row(2) eff(3,8)
    have "replay_enrollment cx r (granted cx r ?j) ?j d' = Inr (d', claims)"
      unfolding replay_enrollment_eq_Inr same by (simp add: redeem_mark_def)
    with adm' time show ?thesis
      by (auto simp: redeem_eq_Inr redeem_mark_def)
  next
    case (Some e)
    with run found have "d' = d"
      by (auto simp: redeem_eq_Inr replay_enrollment_eq_Inr admissible_def)
    with run found Some time show ?thesis by (auto simp: redeem_eq_Inr admissible_def)
  qed
qed

text \<open>After a redemption no other enrollment or credential id gets anything from the invite.\<close>

lemma redeem_marks:
  assumes inv: "enroll_inv d" and run: "redeem_onboarding cx r now d = Inr (d', claims)"
  shows "\<exists>j. find_invite d' (er_invite_id r) = Some j \<and> i_enrollment_id j = Some (er_enrollment_id r) \<and>
    i_credential_id j = Some (er_credential_id r)"
proof -
  from redeem_again [OF inv run, of 0] have "redeem_onboarding cx r 0 d' = Inr (d', claims)"
    by (simp add: MAX_SAFE_INTEGER_def)
  then obtain j where j: "find_invite d' (er_invite_id r) = Some j"
    "if i_enrollment_id j \<noteq> None then replay_enrollment cx r (granted cx r j) j d' = Inr (d', claims)
     else first_enrollment cx r (granted cx r j) j 0 d' = Inr (d', claims)"
    by (auto simp: redeem_eq_Inr admissible_def split: if_splits)
  show ?thesis
  proof (cases "i_enrollment_id j")
    case (Some e)
    with j show ?thesis by (auto simp: replay_enrollment_eq_Inr)
  next
    case None
    from run obtain invite where adm: "admissible cx r d invite" by (auto simp: redeem_eq_Inr)
    then have found: "find_invite d (er_invite_id r) = Some invite" by (simp add: admissible_def)
    show ?thesis
    proof (cases "i_enrollment_id invite")
      case None
      from redeem_first(6) [OF inv run found None] show ?thesis by (simp add: redeem_mark_def)
    next
      case (Some e)
      with run found show ?thesis
        by (auto simp: redeem_eq_Inr replay_enrollment_eq_Inr admissible_def)
    qed
  qed
qed

section \<open>The invariant of enrollment\<close>

lemma redeem_inv:
  assumes sinv: "store_inv d" and inv: "enroll_inv d"
    and run: "redeem_onboarding cx r now d = Inr (d', claims)"
  shows "store_inv d'" "enroll_inv d'"
proof -
  from run obtain invite where adm: "admissible cx r d invite" by (auto simp: redeem_eq_Inr)
  then have found: "find_invite d (er_invite_id r) = Some invite" by (simp add: admissible_def)
  have "store_inv d' \<and> enroll_inv d'"
  proof (cases "i_enrollment_id invite")
    case (Some e)
    with run found have "d' = d"
      by (auto simp: redeem_eq_Inr replay_enrollment_eq_Inr admissible_def)
    with sinv inv show ?thesis by simp
  next
    case None
    note eff = redeem_first [OF inv run found None]
    from run found None obtain d1 where
      ins: "insert_credential_connection cx (granted cx r invite) now d = Inr d1"
      and d': "\<exists>is. d' = d1\<lparr>invites := is\<rparr>"
      by (auto simp: redeem_eq_Inr first_enrollment_eq_Inr admissible_def update_invites_def
          split: if_splits)
    from insert_credential_inv [OF sinv ins] have "store_inv d1" .
    with d' have st: "store_inv d'"
      using store_inv_credentials [of d1 "credentials d1"] store_invD(6) [of d1]
      by (auto simp: creds_ok_def)
    from eff(4) obtain row where row: "credentials d' = credentials d @ [row]"
      "c_id row = er_credential_id r" "c_token_hash row \<notin> c_token_hash ` set (credentials d)" by blast
    have in_d: "invite \<in> set (invites d)" "i_id invite = er_invite_id r"
      using found by (auto simp: find_invite_def dest: find_key_SomeD)
    note ids = inv [unfolded enroll_inv_def, THEN conjunct1]
    note rows = in_set_update_where_key [OF ids in_d(1), of _ "redeem_mark r now", unfolded in_d(2)]
    have mark: "i_id (redeem_mark r now i) = i_id i" "i_token_hash (redeem_mark r now i) = i_token_hash i"
      "i_credential_id (redeem_mark r now i) = Some (er_credential_id r)" for i
      by (simp_all add: redeem_mark_def)
    have "enroll_inv d'"
      using inv eff(7) row
      by (auto simp: enroll_inv_def eff(5) map_update_where mark rows)
    with st show ?thesis by simp
  qed
  then show "store_inv d'" "enroll_inv d'" by auto
qed

lemma update_invites_inv:
  assumes "store_inv d" and "enroll_inv d" and "update_invites P f d = Inr (d1, n)"
    and "\<And>i. i_id (f i) = i_id i" and "\<And>i. i_token_hash (f i) = i_token_hash i"
  shows "store_inv d1" "enroll_inv d1"
proof -
  from assms(3) have d1: "d1 = d\<lparr>invites := update_where P f (invites d)\<rparr>"
    and chk: "\<And>i. i \<in> set (invites d) \<Longrightarrow> P i \<Longrightarrow> invite_check (f i)"
    and fk: "\<And>i c. i \<in> set (invites d) \<Longrightarrow> P i \<Longrightarrow> i_credential_id (f i) = Some c \<Longrightarrow>
        c \<in> c_id ` set (credentials d)"
    by (auto simp: update_invites_def opt_all_def split: if_splits option.splits)
  show "store_inv d1"
    using store_inv_credentials [OF assms(1), of "credentials d"] store_invD(6) [OF assms(1)]
    by (simp add: d1 creds_ok_def)
  show "enroll_inv d1"
    using assms(2,4,5) chk fk by (auto simp: enroll_inv_def d1 map_update_where table_simps)
qed

lemma revoke_onboarding_invite_inv:
  assumes "store_inv d" and "enroll_inv d" and "revoke_onboarding_invite i now d = Inr d'"
  shows "store_inv d'" "enroll_inv d'"
proof -
  from assms(3) obtain n where upd: "update_invites (\<lambda>j. i_id j = i)
      (\<lambda>j. j\<lparr>i_revoked_at := (case i_revoked_at j of None \<Rightarrow> Some now | Some t \<Rightarrow> Some t)\<rparr>) d = Inr (d', n)"
    by (auto simp: revoke_onboarding_invite_def result_simps)
  show "store_inv d'" "enroll_inv d'"
    by (rule update_invites_inv [OF assms(1,2) upd]; simp)+
qed

lemma store_inv_workspace:
  assumes inv: "store_inv d" and ins: "insert_workspace w d = Inr (d1, n)"
    and w: "w_next_seq w = 1" "w_next_task_id w = 1"
  shows "store_inv d1"
proof (cases "w_name w \<in> w_name ` set (workspaces d)")
  case True
  with ins have "d1 = d" by (auto simp: insert_workspace_def split: if_splits)
  with inv show ?thesis by simp
next
  case False
  note log = store_invD(1) [OF inv]
  from False have "\<not> (\<exists>v\<in>set (workspaces d). w_name v = w_name w)" by (metis imageI)
  with ins have d1: "d1 = d\<lparr>workspaces := workspaces d @ [w]\<rparr>" and chk: "workspace_check w"
    by (auto simp: insert_workspace_def split: if_splits)
  have "log_inv d1"
    using log_invD [OF log] False chk w(1) workspace_log_unknown [OF log False]
    by (auto simp: log_inv_def d1 workspace_log_def)
  moreover have "ids_ok (workspaces d1) (tasks d1)"
    using store_invD(4) [OF inv] False w(2)
    by (auto simp: ids_ok_def d1 filter_empty_conv) (metis)
  ultimately show ?thesis
    using store_invD [OF inv] by (simp add: store_inv_def d1 receipts_ok_def creds_ok_def)
qed

lemma issue_onboarding_invite_inv:
  assumes "store_inv d" and "enroll_inv d"
    and "issue_onboarding_invite cx new_id random ws create provider now d = Inr (d', issued)"
  shows "store_inv d'" "enroll_inv d'"
proof -
  define w where "w = \<lparr>w_name = ws, w_created_at = now, w_next_seq = 1, w_next_task_id = 1\<rparr>"
  define row where "row token = \<lparr>i_id = new_id, i_token_hash = sha256 cx token, i_provider = provider,
        i_workspace = ws, i_subject = invite_subject cx new_id, i_created_at = now,
        i_expires_at = now + INVITE_LIFETIME_MS, i_revoked_at = None, i_enrollment_id = None,
        i_credential_id = None, i_redeemed_at = None\<rparr>" for token
  from assms(3) obtain d1 token where
    "(\<exists>n. insert_workspace w d = Inr (d1, n)) \<or> d1 = d" "insert_invite (row token) d1 = Inr d'"
    by (cases create)
       (auto simp: issue_onboarding_invite_def result_simps Let_def w_def [symmetric]
          row_def [symmetric])
  moreover define i where "i = row token"
  ultimately have d1: "(\<exists>n. insert_workspace w d = Inr (d1, n)) \<or> d1 = d"
    and ins: "insert_invite i d1 = Inr d'" and cred: "i_credential_id i = None"
    by (simp_all add: row_def)
  have "w_next_seq w = 1" "w_next_task_id w = 1" by (simp_all add: w_def)
  then have st: "store_inv d1" using d1 assms(1) store_inv_workspace by blast
  have same: "invites d1 = invites d" "credentials d1 = credentials d"
    using d1 by (auto simp: insert_workspace_def split: if_splits)
  from ins have d': "d' = d1\<lparr>invites := invites d1 @ [i]\<rparr>" "invite_check i"
    "i_id i \<notin> i_id ` set (invites d1)" "i_token_hash i \<notin> i_token_hash ` set (invites d1)"
    by (auto simp: insert_invite_def split: if_splits)
  show "store_inv d'"
    using store_inv_credentials [OF st, of "credentials d1"] store_invD(6) [OF st]
    by (simp add: d' creds_ok_def)
  show "enroll_inv d'" using assms(2) d' cred by (auto simp: enroll_inv_def same)
qed

end
