(* ===== verification/Integrations.thy ===== *)
theory Integrations
  imports Credentials "HOL-Library.AList"
begin

text \<open>
  Integration bindings (\<^verbatim>\<open>src/integrations/mod.rs\<close>): the configuration file and its validation, the
  connections it describes with their targets (\<^verbatim>\<open>github::Repository\<close>, \<^verbatim>\<open>linear::Target\<close>), the registry of
  active bindings, and \<^verbatim>\<open>apply_catalog\<close>, which brings the table \<^verbatim>\<open>integration_bindings\<close> in line with
  the file. Reading a file, parsing JSON, the text form of a UUID and SHA-256 come from outside and are
  the fields of \<open>xcodec\<close>.
\<close>

section \<open>Data\<close>

datatype integration_configuration_error = IntegrationConfigurationError

text \<open>What \<^verbatim>\<open>open_private_file\<close> and reading the file gives.\<close>

datatype file_read = FileMissing | FileRefused | FileBytes string

record repository =
  gr_owner :: string
  gr_name :: string
  gr_namespace :: string

record linear_target =
  lt_team_id :: uuid
  lt_project_id :: uuid

datatype integration_target = TargetGithub repository | TargetLinear linear_target

record integration_connection =
  ic_workspace :: workspace_name
  ic_access :: integration_access
  ic_target :: integration_target
  ic_token :: string

datatype raw_connection =
    RawGithub workspace_name string integration_access string
  | RawLinear workspace_name string string integration_access string

record raw_configuration =
  rw_version :: nat
  rw_connections :: "raw_connection list"

datatype external_command =
    XImport uuid external_provider string
  | XLink uuid int int external_provider string bool
  | XPublish uuid int int external_provider external_publish_kind "uuid option"

record resolution_request =
  rq_resolution_id :: uuid
  rq_outcome :: external_resolution_outcome
  rq_external_id :: "string option"
  rq_note :: string

record xcodec =
  xc_parse_uuid :: "string \<Rightarrow> uuid option"
  xc_show_uuid :: "uuid \<Rightarrow> string"
  xc_sha256 :: "string \<Rightarrow> digest"
  xc_read_file :: "string \<Rightarrow> file_read"
  xc_parse_config :: "string \<Rightarrow> raw_configuration option"
  xc_command_json :: "external_command \<Rightarrow> string"
  xc_resolution_json :: "resolution_request \<Rightarrow> string"
  xc_report_json :: "report_body \<Rightarrow> string"
  xc_payload_len :: "operation_payload \<Rightarrow> nat"

definition CONFIG_VERSION :: nat where "CONFIG_VERSION = 1"
definition MAX_CONFIG_BYTES :: nat where "MAX_CONFIG_BYTES = 256 * 1024"
definition MAX_CONNECTIONS :: nat where "MAX_CONNECTIONS = 128"
definition MAX_TOKEN_BYTES :: nat where "MAX_TOKEN_BYTES = 8 * 1024"

section \<open>Targets\<close>

definition is_ascii_uppercase :: "char \<Rightarrow> bool" where
  "is_ascii_uppercase c = (65 \<le> byte c \<and> byte c \<le> 90)"

text \<open>\<^verbatim>\<open>value != value.to_ascii_lowercase()\<close> says that some byte is an upper-case letter.\<close>

definition valid_segment :: "string \<Rightarrow> nat \<Rightarrow> (char \<Rightarrow> bool) \<Rightarrow> bool" where
  "valid_segment value maximum allowed =
     (value \<noteq> [] \<and> length value \<le> maximum \<and> is_ascii value \<and> list_all allowed value)"

text \<open>\<^verbatim>\<open>str::split\<close> on one character.\<close>

fun split_on :: "char \<Rightarrow> string \<Rightarrow> string list" where
  "split_on c [] = [[]]"
| "split_on c (x # xs) =
     (if x = c then [] # split_on c xs
      else case split_on c xs of [] \<Rightarrow> [[x]] | s # ss \<Rightarrow> (x # s) # ss)"

definition owner_char :: "char \<Rightarrow> bool" where
  "owner_char c = (is_ascii_alphanumeric c \<or> c = CHR ''-'')"

definition name_char :: "char \<Rightarrow> bool" where
  "name_char c = (is_ascii_alphanumeric c \<or> c \<in> {CHR ''.'', CHR ''_'', CHR ''-''})"

definition repository_parse :: "string \<Rightarrow> integration_configuration_error + repository" where
  "repository_parse value =
     (if list_ex is_ascii_uppercase value then Inl IntegrationConfigurationError
      else
        let segments = split_on CHR ''/'' value;
            owner = (case segments of [] \<Rightarrow> [] | s # _ \<Rightarrow> s);
            name = (case segments of _ # s # _ \<Rightarrow> s | _ \<Rightarrow> []) in
        if length segments > 2 \<or> \<not> valid_segment owner 39 owner_char \<or>
           \<not> valid_segment name 100 name_char \<or> name = ''.'' \<or> name = ''..''
        then Inl IntegrationConfigurationError
        else Inr \<lparr>gr_owner = owner, gr_name = name, gr_namespace = value\<rparr>)"

definition parse_canonical_uuid ::
  "xcodec \<Rightarrow> string \<Rightarrow> integration_configuration_error + uuid" where
  "parse_canonical_uuid cx value =
     (case xc_parse_uuid cx value of
        Some i \<Rightarrow> if xc_show_uuid cx i = value then Inr i else Inl IntegrationConfigurationError
      | None \<Rightarrow> Inl IntegrationConfigurationError)"

definition target_parse ::
  "xcodec \<Rightarrow> string \<Rightarrow> string \<Rightarrow> integration_configuration_error + linear_target" where
  "target_parse cx team_id project_id =
     bindR (parse_canonical_uuid cx team_id) (\<lambda>team.
     bindR (parse_canonical_uuid cx project_id) (\<lambda>project.
     Inr \<lparr>lt_team_id = team, lt_project_id = project\<rparr>))"

definition target_public_name :: "xcodec \<Rightarrow> integration_target \<Rightarrow> string" where
  "target_public_name cx t =
     (case t of TargetGithub r \<Rightarrow> gr_namespace r
      | TargetLinear l \<Rightarrow> xc_show_uuid cx (lt_team_id l) @ ''/'' @ xc_show_uuid cx (lt_project_id l))"

section \<open>Connections\<close>

definition ic_provider :: "integration_connection \<Rightarrow> external_provider" where
  "ic_provider c = (case ic_target c of TargetGithub _ \<Rightarrow> Github | TargetLinear _ \<Rightarrow> Linear)"

definition ic_namespace :: "xcodec \<Rightarrow> integration_connection \<Rightarrow> string" where
  "ic_namespace cx c = target_public_name cx (ic_target c)"

definition ic_public :: "xcodec \<Rightarrow> integration_connection \<Rightarrow> integration_public" where
  "ic_public cx c =
     \<lparr>ip_provider = ic_provider c, ip_workspace = ic_workspace c,
      ip_target = target_public_name cx (ic_target c), ip_access = ic_access c,
      ip_available = True, ip_error = None\<rparr>"

definition target_key :: "xcodec \<Rightarrow> integration_connection \<Rightarrow> string" where
  "target_key cx c = provider_as_str (ic_provider c) @ '':'' @ ic_namespace cx c"

fun access_as_str :: "integration_access \<Rightarrow> string" where
  "access_as_str AccessRead = ''read''"
| "access_as_str AccessWrite = ''write''"

text \<open>\<^verbatim>\<open>(value.len() as u64).to_be_bytes()\<close>, then the bytes of the value.\<close>

fun be_bytes :: "nat \<Rightarrow> nat \<Rightarrow> string" where
  "be_bytes 0 n = []"
| "be_bytes (Suc k) n = be_bytes k (n div 256) @ [char_of (n mod 256)]"

definition hash_field :: "string \<Rightarrow> string" where
  "hash_field value = be_bytes 8 (length value) @ value"

definition config_preimage :: "xcodec \<Rightarrow> integration_connection \<Rightarrow> string" where
  "config_preimage cx c =
     concat (map hash_field
       [ic_workspace c, provider_as_str (ic_provider c), ic_namespace cx c,
        access_as_str (ic_access c), ic_token c])"

definition config_hash :: "xcodec \<Rightarrow> integration_connection \<Rightarrow> digest" where
  "config_hash cx c = xc_sha256 cx (config_preimage cx c)"

section \<open>The configuration file\<close>

definition read_bounded :: "string \<Rightarrow> nat \<Rightarrow> integration_configuration_error + string" where
  "read_bounded bytes maximum =
     (if length bytes > maximum then Inl IntegrationConfigurationError else Inr bytes)"

definition strip_line_end :: "string \<Rightarrow> string" where
  "strip_line_end bytes =
     (if suffix [CHR 0x0D, CHR 0x0A] bytes then take (length bytes - 2) bytes
      else if suffix [CHR 0x0A] bytes then take (length bytes - 1) bytes else bytes)"

definition token_char :: "char \<Rightarrow> bool" where
  "token_char c = (0x21 \<le> byte c \<and> byte c \<le> 0x7e)"

definition load_token :: "xcodec \<Rightarrow> string \<Rightarrow> integration_configuration_error + string" where
  "load_token cx path =
     (case xc_read_file cx path of
        FileBytes content \<Rightarrow>
          bindR (read_bounded content (MAX_TOKEN_BYTES + 2)) (\<lambda>raw.
            let bytes = strip_line_end raw in
            if bytes = [] \<or> length bytes > MAX_TOKEN_BYTES \<or> \<not> list_all token_char bytes
            then Inl IntegrationConfigurationError else Inr bytes)
      | _ \<Rightarrow> Inl IntegrationConfigurationError)"

fun raw_target ::
  "xcodec \<Rightarrow> raw_connection \<Rightarrow> integration_configuration_error + integration_target" where
  "raw_target cx (RawGithub _ repository _ _) =
     bindR (repository_parse repository) (\<lambda>r. Inr (TargetGithub r))"
| "raw_target cx (RawLinear _ team_id project_id _ _) =
     bindR (target_parse cx team_id project_id) (\<lambda>t. Inr (TargetLinear t))"

fun raw_rest :: "raw_connection \<Rightarrow> workspace_name \<times> integration_access \<times> string" where
  "raw_rest (RawGithub workspace _ access token_file) = (workspace, access, token_file)"
| "raw_rest (RawLinear workspace _ _ access token_file) = (workspace, access, token_file)"

definition connection_from_raw ::
  "xcodec \<Rightarrow> raw_connection \<Rightarrow> integration_configuration_error + integration_connection" where
  "connection_from_raw cx raw =
     bindR (raw_target cx raw) (\<lambda>target.
       case raw_rest raw of (workspace, access, token_file) \<Rightarrow>
       bindR (guardR (starts_with token_file ''/'') IntegrationConfigurationError) (\<lambda>_.
       bindR (load_token cx token_file) (\<lambda>token.
       Inr \<lparr>ic_workspace = workspace, ic_access = access, ic_target = target, ic_token = token\<rparr>)))"

fun load_connections ::
  "xcodec \<Rightarrow> (workspace_name \<times> string) list \<Rightarrow> string list \<Rightarrow> raw_connection list \<Rightarrow>
     integration_configuration_error + integration_connection list" where
  "load_connections cx workspace_providers targets [] = Inr []"
| "load_connections cx workspace_providers targets (raw # raws) =
     bindR (connection_from_raw cx raw) (\<lambda>parsed.
       let wp = (ic_workspace parsed, provider_as_str (ic_provider parsed));
           t = target_key cx parsed in
       bindR (guardR (wp \<notin> set workspace_providers \<and> t \<notin> set targets) IntegrationConfigurationError) (\<lambda>_.
       bindR (load_connections cx (wp # workspace_providers) (t # targets) raws) (\<lambda>rest.
       Inr (parsed # rest))))"

type_synonym catalog = "integration_connection list"

definition catalog_load :: "xcodec \<Rightarrow> string \<Rightarrow> bool \<Rightarrow> integration_configuration_error + catalog" where
  "catalog_load cx path missing_is_empty =
     (case xc_read_file cx path of
        FileMissing \<Rightarrow> if missing_is_empty then Inr [] else Inl IntegrationConfigurationError
      | FileRefused \<Rightarrow> Inl IntegrationConfigurationError
      | FileBytes content \<Rightarrow>
          bindR (read_bounded content MAX_CONFIG_BYTES) (\<lambda>bytes.
          bindR (ok_or (xc_parse_config cx bytes) IntegrationConfigurationError) (\<lambda>raw.
          bindR (guardR (rw_version raw = CONFIG_VERSION \<and> length (rw_connections raw) \<le> MAX_CONNECTIONS)
                   IntegrationConfigurationError) (\<lambda>_.
          load_connections cx [] [] (rw_connections raw)))))"

section \<open>Applying a catalog to the store\<close>

definition sqlR :: "sql_error + 'a \<Rightarrow> router_error_code + 'a" where
  "sqlR m = map_err (\<lambda>e. store_error_code (SSqlite e)) m"

definition storeR :: "store_error + 'a \<Rightarrow> router_error_code + 'a" where
  "storeR m = map_err store_error_code m"

record active_integration =
  ai_connection :: integration_connection
  ai_revision :: int

type_synonym active_map = "((workspace_name \<times> external_provider) \<times> active_integration) list"

definition load_stored_bindings :: "db \<Rightarrow> binding_row list" where
  "load_stored_bindings d =
     sort_key b_workspace (sort_key (\<lambda>b. provider_as_str (b_provider b)) (bindings d))"

definition blocking :: "external_operation_row \<Rightarrow> bool" where
  "blocking x = (x_status x = OpRunning \<or> x_status x = OpUnconfirmed)"

definition binding_has_blocking_operation :: "db \<Rightarrow> binding_row \<Rightarrow> bool" where
  "binding_has_blocking_operation d b =
     exists_row (\<lambda>x. x_workspace x = b_workspace b \<and> x_provider x = b_provider b \<and>
       x_namespace x = b_target b \<and> blocking x) (external_operations d)"

definition binding_has_links :: "db \<Rightarrow> binding_row \<Rightarrow> bool" where
  "binding_has_links d b =
     exists_row (\<lambda>l. l_workspace l = b_workspace b \<and> el_provider (l_link l) = b_provider b \<and>
       el_namespace (l_link l) = b_target b) (links d)"

definition ic_key :: "integration_connection \<Rightarrow> workspace_name \<times> external_provider" where
  "ic_key c = (ic_workspace c, ic_provider c)"

definition check_existing ::
  "xcodec \<Rightarrow> catalog \<Rightarrow> db \<Rightarrow> binding_row \<Rightarrow> router_error_code + unit" where
  "check_existing cx connections d existing =
     (let replacement = find (\<lambda>c. ic_key c = b_key existing) connections;
          configuration_changed = (case replacement of None \<Rightarrow> True
            | Some c \<Rightarrow> config_hash cx c \<noteq> b_config_hash existing);
          target_changed = (case replacement of None \<Rightarrow> True
            | Some c \<Rightarrow> ic_namespace cx c \<noteq> b_target existing) in
      bindR (guardR (\<not> (configuration_changed \<and> binding_has_blocking_operation d existing))
               IntegrationBusy) (\<lambda>_.
      guardR (\<not> (target_changed \<and> binding_has_links d existing)) ExternalConflict))"

text \<open>\<^verbatim>\<open>previous.is_none_or(..)\<close> and \<^verbatim>\<open>previous.map_or(1, ..)\<close>.\<close>

definition binding_changed :: "binding_row option \<Rightarrow> digest \<Rightarrow> bool" where
  "binding_changed previous hash =
     (case previous of None \<Rightarrow> True | Some b \<Rightarrow> \<not> b_enabled b \<or> b_config_hash b \<noteq> hash)"

definition binding_revision :: "binding_row option \<Rightarrow> digest \<Rightarrow> int" where
  "binding_revision previous hash =
     (case previous of None \<Rightarrow> 1
      | Some b \<Rightarrow> if binding_changed previous hash then b_revision b + 1 else b_revision b)"

definition binding_insert :: "workspace_name \<Rightarrow> integration_change \<Rightarrow> integration_public \<Rightarrow> event_insert" where
  "binding_insert workspace change public =
     \<lparr>ei_workspace = workspace, ei_kind = KIntegration, ei_actor_id = SYSTEM_ROUTER,
      ei_request_id = None, ei_target_id = None, ei_task_id = None,
      ei_content = Some (ContentIntegration \<lparr>ie_change = change, ie_integration = Some public,
        ie_operation = None, ie_resolution = None\<rparr>),
      ei_ok = None, ei_error = None\<rparr>"

type_synonym apply_state = "db \<times> active_map \<times> workspace_event list"

definition apply_connection ::
  "xcodec \<Rightarrow> int \<Rightarrow> binding_row list \<Rightarrow> int \<Rightarrow> integration_connection \<Rightarrow> apply_state \<Rightarrow>
     router_error_code + apply_state" where
  "apply_connection cx now stored clock c = (\<lambda>(d, active, evs).
     let previous = find (\<lambda>b. b_key b = ic_key c) stored;
         hash = config_hash cx c;
         revision = binding_revision previous hash in
     bindR (sqlR (upsert_binding
       \<lparr>b_workspace = ic_workspace c, b_provider = ic_provider c, b_target = ic_namespace cx c,
        b_access = ic_access c, b_enabled = True, b_config_hash = hash, b_revision = revision,
        b_updated_at = now\<rparr> d)) (\<lambda>d1.
     bindR (if binding_changed previous hash
            then bindR (storeR (append_event_in_transaction clock
                   (binding_insert (ic_workspace c) Configured (ic_public cx c)) d1)) (\<lambda>(d2, e).
                 Inr (d2, evs @ [e]))
            else Inr (d1, evs)) (\<lambda>(d2, evs2).
     Inr (d2, AList.update (ic_key c) \<lparr>ai_connection = c, ai_revision = revision\<rparr> active, evs2))))"

definition disabled_public :: "binding_row \<Rightarrow> integration_public" where
  "disabled_public b =
     \<lparr>ip_provider = b_provider b, ip_workspace = b_workspace b, ip_target = b_target b,
      ip_access = b_access b, ip_available = False, ip_error = None\<rparr>"

definition disable_existing ::
  "active_map \<Rightarrow> int \<Rightarrow> binding_row \<Rightarrow> db \<times> workspace_event list \<Rightarrow>
     router_error_code + db \<times> workspace_event list" where
  "disable_existing active clock existing = (\<lambda>(d, evs).
     if map_of active (b_key existing) \<noteq> None then Inr (d, evs)
     else bindR (storeR (append_event_in_transaction clock
            (binding_insert (b_workspace existing) Disabled (disabled_public existing)) d)) (\<lambda>(d1, e).
          Inr (d1, evs @ [e])))"

text \<open>The clock readings: the call's own, and those of the events of the two loops by their turn.\<close>

record catalog_clocks =
  kc_now :: int
  kc_configured :: "nat \<Rightarrow> int"
  kc_disabled :: "nat \<Rightarrow> int"

definition apply_catalog ::
  "xcodec \<Rightarrow> catalog_clocks \<Rightarrow> catalog \<Rightarrow> db \<Rightarrow> router_error_code + db \<times> active_map \<times> workspace_event list" where
  "apply_catalog cx k connections d =
     (let stored = load_stored_bindings d in
     bindR (foldR (\<lambda>c _. guardR (workspace_exists d (ic_workspace c)) IntegrationConfigurationInvalid)
              connections ()) (\<lambda>_.
     bindR (foldR (\<lambda>b _. check_existing cx connections d b) (filter b_enabled stored) ()) (\<lambda>_.
     bindR (storeR (now_millis (kc_now k))) (\<lambda>now.
     bindR (sqlR (update_bindings (\<lambda>_. True) (\<lambda>b. b\<lparr>b_enabled := False, b_updated_at := now\<rparr>) d)) (\<lambda>(d1, _).
     bindR (loopR (kc_configured k) (apply_connection cx now stored) connections (d1, [], [])) (\<lambda>(d2, active, evs).
     bindR (loopR (kc_disabled k) (disable_existing active) (filter b_enabled stored) (d2, evs)) (\<lambda>(d3, evs2).
     bindR (sqlR (commit d3)) (\<lambda>d4.
     Inr (d4, active, evs2)))))))))"

section \<open>The registry\<close>

record integration_registry =
  ir_path :: string
  ir_explicit :: bool
  ir_invalid :: bool
  ir_active :: active_map

definition disable_bindings :: "db \<Rightarrow> db" where
  "disable_bindings d =
     (case update_bindings (\<lambda>_. True) (\<lambda>b. b\<lparr>b_enabled := False\<rparr>) d of Inl _ \<Rightarrow> d | Inr (d1, _) \<Rightarrow> d1)"

text \<open>\<open>explicit\<close> is the variable \<^verbatim>\<open>ASR_INTEGRATIONS_FILE\<close>.\<close>

definition registry_load ::
  "xcodec \<Rightarrow> catalog_clocks \<Rightarrow> string option \<Rightarrow> string \<Rightarrow> db \<Rightarrow> integration_registry \<times> db" where
  "registry_load cx k explicit data_dir d =
     (let (path, is_explicit) = (case explicit of
            None \<Rightarrow> (data_dir @ ''/integrations.json'', False) | Some p \<Rightarrow> (p, True)) in
      case bindR (map_err (\<lambda>_. IntegrationConfigurationInvalid) (catalog_load cx path (\<not> is_explicit)))
             (\<lambda>catalog. apply_catalog cx k catalog d) of
        Inr (d1, active, _) \<Rightarrow>
          (\<lparr>ir_path = path, ir_explicit = is_explicit, ir_invalid = False, ir_active = active\<rparr>, d1)
      | Inl _ \<Rightarrow>
          (\<lparr>ir_path = path, ir_explicit = is_explicit, ir_invalid = True, ir_active = []\<rparr>,
           disable_bindings d))"

definition registry_public_all :: "xcodec \<Rightarrow> integration_registry \<Rightarrow> integration_public list" where
  "registry_public_all cx r =
     sort_key ip_workspace (sort_key (\<lambda>p. provider_as_str (ip_provider p))
       (map (\<lambda>(_, a). ic_public cx (ai_connection a)) (ir_active r)))"

definition registry_reload ::
  "xcodec \<Rightarrow> catalog_clocks \<Rightarrow> integration_registry \<Rightarrow> db \<Rightarrow>
     router_error_code + db \<times> integration_registry \<times> integration_public list \<times> workspace_event list" where
  "registry_reload cx k r d =
     bindR (map_err (\<lambda>_. IntegrationConfigurationInvalid)
              (catalog_load cx (ir_path r) (\<not> ir_explicit r))) (\<lambda>catalog.
     bindR (apply_catalog cx k catalog d) (\<lambda>(d1, active, evs).
       let r1 = r\<lparr>ir_active := active, ir_invalid := False\<rparr> in
       Inr (d1, r1, registry_public_all cx r1, evs)))"

definition registry_binding ::
  "integration_registry \<Rightarrow> workspace_name \<Rightarrow> external_provider \<Rightarrow> router_error_code + active_integration" where
  "registry_binding r workspace provider =
     bindR (guardR (\<not> ir_invalid r) IntegrationConfigurationInvalid) (\<lambda>_.
     ok_or (map_of (ir_active r) (workspace, provider)) IntegrationNotConfigured)"

definition registry_list ::
  "xcodec \<Rightarrow> integration_registry \<Rightarrow> workspace_name \<Rightarrow> router_error_code + integration_public list" where
  "registry_list cx r workspace =
     bindR (guardR (\<not> ir_invalid r) IntegrationConfigurationInvalid) (\<lambda>_.
     Inr (sort_key (\<lambda>p. provider_as_str (ip_provider p))
       (map (\<lambda>(_, a). ic_public cx (ai_connection a)) (filter (\<lambda>((w, _), _). w = workspace) (ir_active r)))))"

definition registry_has_active :: "integration_registry \<Rightarrow> bool" where
  "registry_has_active r = (ir_active r \<noteq> [])"

end
