(* ===== verification/External_Ops.thy ===== *)
theory External_Ops
  imports Integrations
begin

text \<open>
  External operations (\<^verbatim>\<open>src/integrations/mod.rs\<close>): an import, a link or a publication is prepared and
  stored before a worker talks to the provider, marked as dispatched before a write is sent, and completed
  with the worker's result. A write whose outcome is unknown stays unconfirmed until an operator resolves
  it. What the provider answered is an argument of the completions.
\<close>

section \<open>Data\<close>

datatype external_error_code =
    AuthRequired | XPermissionDenied | XNotFound | XRateLimited | InvalidRequest | ScopeMismatch
  | RebindRequired | ResponseTooLarge | ApiError | XTimeout | ConfigurationInvalid | NotDispatched
  | XNotApplied | OperatorConfirmedNotApplied

fun external_error_as_str :: "external_error_code \<Rightarrow> string" where
  "external_error_as_str AuthRequired = ''auth_required''"
| "external_error_as_str XPermissionDenied = ''permission_denied''"
| "external_error_as_str XNotFound = ''not_found''"
| "external_error_as_str XRateLimited = ''rate_limited''"
| "external_error_as_str InvalidRequest = ''invalid_request''"
| "external_error_as_str ScopeMismatch = ''scope_mismatch''"
| "external_error_as_str RebindRequired = ''rebind_required''"
| "external_error_as_str ResponseTooLarge = ''response_too_large''"
| "external_error_as_str ApiError = ''api_error''"
| "external_error_as_str XTimeout = ''timeout''"
| "external_error_as_str ConfigurationInvalid = ''configuration_invalid''"
| "external_error_as_str NotDispatched = ''not_dispatched''"
| "external_error_as_str XNotApplied = ''not_applied''"
| "external_error_as_str OperatorConfirmedNotApplied = ''operator_confirmed_not_applied''"

datatype integration_client_error =
    CeBusy | CeFailed external_error_code | CeUnconfirmed external_error_code

record external_issue =
  is_external_id :: string
  is_url :: string
  is_title :: string
  is_description :: string
  is_state :: string

record external_mutation =
  mu_external_id :: string
  mu_url :: string

fun xc_operation_id :: "external_command \<Rightarrow> uuid" where
  "xc_operation_id (XImport op _ _) = op"
| "xc_operation_id (XLink op _ _ _ _ _) = op"
| "xc_operation_id (XPublish op _ _ _ _ _) = op"

fun xc_provider :: "external_command \<Rightarrow> external_provider" where
  "xc_provider (XImport _ p _) = p"
| "xc_provider (XLink _ _ _ p _ _) = p"
| "xc_provider (XPublish _ _ _ p _ _) = p"

fun xc_task_id :: "external_command \<Rightarrow> int option" where
  "xc_task_id (XImport _ _ _) = None"
| "xc_task_id (XLink _ t _ _ _ _) = Some t"
| "xc_task_id (XPublish _ t _ _ _ _) = Some t"

record prepared_operation =
  po_workspace :: workspace_name
  po_actor_id :: string
  po_namespace :: string
  po_summary :: external_operation_summary
  po_payload :: "operation_payload option"
  po_event :: "workspace_event option"
  po_credential_id :: uuid
  po_binding_revision :: int
  po_deadline :: nat

text \<open>What one call reads from outside: its clock and those of the events it appends, \<^verbatim>\<open>Instant::now\<close> in
  nanoseconds, and the identifiers of \<^verbatim>\<open>Uuid::new_v4\<close>.\<close>

record xenv =
  xv_codec :: xcodec
  xv_clock :: int
  xv_event_clock :: int
  xv_task_clock :: int
  xv_instant :: nat
  xv_creation_id :: uuid
  xv_note_id :: uuid
  xv_body_len :: "report_body \<Rightarrow> nat"

definition INTEGRATION_REQUEST_TIMEOUT :: nat where
  "INTEGRATION_REQUEST_TIMEOUT = 30 * 1000000000"

section \<open>Text\<close>

fun decimal_nat :: "nat \<Rightarrow> string" where
  "decimal_nat n =
     (if n < 10 then [char_of (48 + n)] else decimal_nat (n div 10) @ [char_of (48 + n mod 10)])"

declare decimal_nat.simps [simp del]

definition decimal :: "int \<Rightarrow> string" where
  "decimal i = (if i < 0 then CHR ''-'' # decimal_nat (nat (- i)) else decimal_nat (nat i))"

definition newline :: string where
  "newline = [CHR 0x0A]"

definition operation_marker ::
  "xcodec \<Rightarrow> workspace_name \<Rightarrow> int \<Rightarrow> int \<Rightarrow> string \<Rightarrow> uuid \<Rightarrow> string" where
  "operation_marker cx workspace task_id version actor op =
     ''[asr workspace:'' @ workspace @ '' task:'' @ decimal task_id @ '' version:'' @ decimal version @
     '' actor:'' @ actor @ '' operation:'' @ xc_show_uuid cx op @ '']''"

definition issue_body :: "string \<Rightarrow> task_state \<Rightarrow> string \<Rightarrow> string" where
  "issue_body marker state description =
     marker @ newline @ newline @ ''Native state: '' @ state_as_str state @ newline @ newline @ description"

definition report_text :: "string \<Rightarrow> task_state \<Rightarrow> string \<Rightarrow> string" where
  "report_text marker state report =
     marker @ newline @ newline @ ''Native state: '' @ state_as_str state @ newline @ newline @
     ''Selected report:'' @ newline @ newline @ report"

definition import_note :: "external_provider \<Rightarrow> external_issue \<Rightarrow> string" where
  "import_note provider issue =
     ''Imported from '' @ provider_as_str provider @ '' '' @ is_external_id issue @
     '' in external state '' @ is_state issue @ ''.''"

section \<open>Reading operations and resolutions\<close>

definition find_operation :: "db \<Rightarrow> workspace_name \<Rightarrow> uuid \<Rightarrow> external_operation_row option" where
  "find_operation d ws op = find (\<lambda>x. x_key x = (ws, op)) (external_operations d)"

definition load_operation_summary ::
  "db \<Rightarrow> workspace_name \<Rightarrow> uuid \<Rightarrow> external_operation_summary option" where
  "load_operation_summary d ws op = map_option operation_summary (find_operation d ws op)"

definition operation_receipt ::
  "db \<Rightarrow> workspace_name \<Rightarrow> uuid \<Rightarrow>
     router_error_code + (external_operation_summary \<times> string \<times> digest) option" where
  "operation_receipt d ws op =
     (case find_operation d ws op of
        None \<Rightarrow> Inr None
      | Some x \<Rightarrow>
          bindR (ok_or (load_operation_summary d ws op) StorageError) (\<lambda>summary.
          Inr (Some (summary, x_actor_id x, x_request_hash x))))"

definition find_resolution :: "db \<Rightarrow> workspace_name \<Rightarrow> uuid \<Rightarrow> resolution_row option" where
  "find_resolution d ws op = find (\<lambda>v. v_operation v = (ws, op)) (resolutions d)"

definition load_resolution :: "db \<Rightarrow> workspace_name \<Rightarrow> uuid \<Rightarrow> external_resolution option" where
  "load_resolution d ws op = map_option v_resolution (find_resolution d ws op)"

definition resolution_receipt ::
  "db \<Rightarrow> workspace_name \<Rightarrow> uuid \<Rightarrow>
     router_error_code + (external_resolution \<times> string \<times> digest) option" where
  "resolution_receipt d ws op =
     (case find_resolution d ws op of
        None \<Rightarrow> Inr None
      | Some v \<Rightarrow>
          (case load_resolution d ws op of
             None \<Rightarrow> Inl StorageError
           | Some r \<Rightarrow> if er_id r = er_id (v_resolution v)
                       then Inr (Some (r, er_actor_id (v_resolution v), v_request_hash v))
                       else Inl StorageError))"

definition external_status ::
  "db \<Rightarrow> workspace_name \<Rightarrow> uuid \<Rightarrow>
     (external_operation_summary \<times> external_resolution option) option" where
  "external_status d ws op =
     map_option (\<lambda>summary. (summary, load_resolution d ws op)) (load_operation_summary d ws op)"

section \<open>Guards\<close>

definition require_task_version ::
  "db \<Rightarrow> workspace_name \<Rightarrow> int \<Rightarrow> int \<Rightarrow> router_error_code + task_detail" where
  "require_task_version d ws task_id expected_version =
     bindR (storeR (get_task d ws task_id)) (\<lambda>found.
     bindR (ok_or found TaskNotFound) (\<lambda>task.
     bindR (guardR (ts_version (td_summary task) = expected_version) TaskConflict) (\<lambda>_.
     Inr task)))"

definition require_no_blocking_operation ::
  "db \<Rightarrow> workspace_name \<Rightarrow> int \<Rightarrow> external_provider \<Rightarrow> router_error_code + unit" where
  "require_no_blocking_operation d ws task_id provider =
     (case latest_updated (filter (\<lambda>x. x_workspace x = ws \<and> x_task_id x = Some task_id \<and>
             x_provider x = provider \<and> blocking x) (external_operations d)) of
        None \<Rightarrow> Inr ()
      | Some x \<Rightarrow> if x_status x = OpRunning then Inl IntegrationBusy
                  else if x_status x = OpUnconfirmed then Inl ExternalUnconfirmed
                  else Inl StorageError)"

definition load_report_snapshot ::
  "xcodec \<Rightarrow> db \<Rightarrow> workspace_name \<Rightarrow> int \<Rightarrow> uuid \<Rightarrow> router_error_code + string" where
  "load_report_snapshot cx d ws task_id report_id =
     ok_or (map_option (\<lambda>r. xc_report_json cx (r_body r))
       (find (\<lambda>r. r_key r = (ws, task_id) \<and> r_id r = report_id) (reports d))) TaskNotFound"

definition validate_external_body :: "string \<Rightarrow> router_error_code + unit" where
  "validate_external_body body = guardR (\<not> length body > 64 * 1024) MessageTooLarge"

text \<open>The \<^verbatim>\<open>admin\<close> test of the three places that check the stored credential again, and the test itself.
  \<open>operator\<close> says whether the role must be that of an operator.\<close>

definition credential_allows :: "bool \<Rightarrow> workspace_name \<Rightarrow> stored_credential \<Rightarrow> bool" where
  "credential_allows operator ws c =
     (let claims = sc_claims c;
          admin = (pc_role claims = RoleOperator \<and> pc_subject claims = ''admin'' \<and>
                   pc_workspaces claims = []) in
      \<not> (sc_revoked_at c \<noteq> None \<or> (operator \<and> pc_role claims \<noteq> RoleOperator) \<or>
         (\<not> admin \<and> ws \<notin> set (pc_workspaces claims))))"

definition require_credential ::
  "bool \<Rightarrow> db \<Rightarrow> uuid \<Rightarrow> workspace_name \<Rightarrow> router_error_code + unit" where
  "require_credential operator d i ws =
     bindR (ok_or (credential_by_id d i) PermissionDenied) (\<lambda>c.
     guardR (credential_allows operator ws c) PermissionDenied)"

section \<open>Events\<close>

definition operation_insert ::
  "workspace_name \<Rightarrow> string \<Rightarrow> external_operation_summary \<Rightarrow> event_insert" where
  "operation_insert ws actor_id operation =
     \<lparr>ei_workspace = ws, ei_kind = KIntegration, ei_actor_id = actor_id, ei_request_id = None,
      ei_target_id = None, ei_task_id = eo_task_id operation,
      ei_content = Some (ContentIntegration \<lparr>ie_change = Operation, ie_integration = None,
        ie_operation = Some operation, ie_resolution = None\<rparr>),
      ei_ok = None, ei_error = None\<rparr>"

definition append_operation_event ::
  "int \<Rightarrow> workspace_name \<Rightarrow> string \<Rightarrow> external_operation_summary \<Rightarrow> db \<Rightarrow>
     router_error_code + db \<times> workspace_event" where
  "append_operation_event clock ws actor_id operation d =
     storeR (append_event_in_transaction clock (operation_insert ws actor_id operation) d)"

definition append_resolution_event ::
  "int \<Rightarrow> workspace_name \<Rightarrow> string \<Rightarrow> external_operation_summary \<Rightarrow> external_resolution \<Rightarrow> db \<Rightarrow>
     router_error_code + db \<times> workspace_event" where
  "append_resolution_event clock ws actor_id operation resolution d =
     storeR (append_event_in_transaction clock
       \<lparr>ei_workspace = ws, ei_kind = KIntegration, ei_actor_id = actor_id, ei_request_id = None,
        ei_target_id = None, ei_task_id = eo_task_id operation,
        ei_content = Some (ContentIntegration \<lparr>ie_change = Resolved, ie_integration = None,
          ie_operation = Some operation, ie_resolution = Some resolution\<rparr>),
        ei_ok = None, ei_error = None\<rparr> d)"

definition append_external_task_event ::
  "int \<Rightarrow> workspace_name \<Rightarrow> string \<Rightarrow> int \<Rightarrow> uuid \<Rightarrow> db \<Rightarrow> router_error_code + db \<times> workspace_event" where
  "append_external_task_event clock ws actor_id task_id op d =
     bindR (storeR (get_task_detail_connection d ws task_id)) (\<lambda>found.
     bindR (ok_or found TaskNotFound) (\<lambda>task.
     storeR (append_event_in_transaction clock
       (task_event_insert ws actor_id task_id
          \<lparr>te_change = ChgExternal, te_task = td_summary task, te_attempt_id = None,
           te_report_id = None, te_external_operation_id = Some op\<rparr>) d)))"

section \<open>Preparing an operation\<close>

definition command_hash :: "xcodec \<Rightarrow> external_command \<Rightarrow> digest" where
  "command_hash cx command = xc_sha256 cx (xc_command_json cx command)"

definition replay_external_operation ::
  "xcodec \<Rightarrow> db \<Rightarrow> caller_context \<Rightarrow> external_command \<Rightarrow>
     router_error_code + external_operation_summary option" where
  "replay_external_operation cx d caller command =
     bindR (operation_receipt d (cc_workspace caller) (xc_operation_id command)) (\<lambda>receipt.
       case receipt of
         None \<Rightarrow> Inr None
       | Some (summary, actor_id, stored_hash) \<Rightarrow>
           if actor_id \<noteq> cc_actor_id caller \<or> stored_hash \<noteq> command_hash cx command
           then Inl RequestConflict else Inr (Some summary))"

type_synonym operation_plan =
  "external_operation_kind \<times> int option \<times> int option \<times> operation_payload"

definition plan_publish ::
  "xenv \<Rightarrow> caller_context \<Rightarrow> uuid \<Rightarrow> int \<Rightarrow> int \<Rightarrow> external_provider \<Rightarrow> external_publish_kind \<Rightarrow>
     uuid option \<Rightarrow> task_detail \<Rightarrow> db \<Rightarrow> router_error_code + operation_plan" where
  "plan_publish v caller op task_id expected_version provider kind report_id task d =
     (let marker = operation_marker (xv_codec v) (cc_workspace caller) task_id expected_version
                     (cc_actor_id caller) op;
          version = ts_version (td_summary task);
          state = ts_state (td_summary task) in
      case kind of
        PkIssue \<Rightarrow>
          bindR (guardR (\<not> list_ex (\<lambda>l. el_provider l = provider) (td_links task)) ExternalConflict) (\<lambda>_.
            let body = issue_body marker state (td_description task) in
            bindR (validate_external_body body) (\<lambda>_.
            Inr (OpPublishIssue, Some task_id, Some version,
                 PayPublishIssue (xv_creation_id v) (ts_title (td_summary task)) body marker)))
      | PkReport \<Rightarrow>
          bindR (ok_or report_id InvalidMessage) (\<lambda>rid.
          bindR (ok_or (find (\<lambda>l. el_provider l = provider) (td_links task)) ExternalConflict) (\<lambda>link.
          bindR (load_report_snapshot (xv_codec v) d (cc_workspace caller) task_id rid) (\<lambda>report.
            let body = report_text marker state report in
            bindR (validate_external_body body) (\<lambda>_.
            Inr (OpPublishReport, Some task_id, Some version,
                 PayPublishReport (xv_creation_id v) (el_external_id link) rid body marker))))))"

fun plan_command ::
  "xenv \<Rightarrow> caller_context \<Rightarrow> active_integration \<Rightarrow> external_command \<Rightarrow> db \<Rightarrow>
     router_error_code + operation_plan" where
  "plan_command v caller active (XImport op provider external_id) d =
     Inr (OpImport, None, None, PayImport external_id)"
| "plan_command v caller active (XLink op task_id expected_version provider external_id replace) d =
     bindR (require_task_version d (cc_workspace caller) task_id expected_version) (\<lambda>task.
     bindR (require_no_blocking_operation d (cc_workspace caller) task_id provider) (\<lambda>_.
     Inr (OpLink, Some task_id, Some (ts_version (td_summary task)),
          PayLink external_id expected_version replace)))"
| "plan_command v caller active (XPublish op task_id expected_version provider kind report_id) d =
     bindR (guardR (ic_access (ai_connection active) = AccessWrite) PermissionDenied) (\<lambda>_.
     bindR (require_task_version d (cc_workspace caller) task_id expected_version) (\<lambda>task.
     bindR (require_no_blocking_operation d (cc_workspace caller) task_id provider) (\<lambda>_.
     plan_publish v caller op task_id expected_version provider kind report_id task d)))"

definition new_summary ::
  "uuid \<Rightarrow> external_provider \<Rightarrow> external_operation_kind \<Rightarrow> int option \<Rightarrow> int option \<Rightarrow> int \<Rightarrow>
     external_operation_summary" where
  "new_summary op provider kind task_id source_version now =
     \<lparr>eo_id = op, eo_task_id = task_id, eo_provider = provider, eo_kind = kind, eo_status = OpRunning,
      eo_source_version = source_version, eo_external_id = None, eo_url = None, eo_error = None,
      eo_created_at = now, eo_updated_at = now\<rparr>"

definition new_operation_row ::
  "caller_context \<Rightarrow> string \<Rightarrow> digest \<Rightarrow> operation_payload \<Rightarrow> external_operation_summary \<Rightarrow>
     external_operation_row" where
  "new_operation_row caller namespace hash payload s =
     \<lparr>x_workspace = cc_workspace caller, x_operation_id = eo_id s, x_actor_id = cc_actor_id caller,
      x_provider = eo_provider s, x_namespace = namespace, x_kind = eo_kind s,
      x_task_id = eo_task_id s, x_source_version = eo_source_version s, x_request_hash = hash,
      x_payload = payload, x_phase = Prepared, x_status = OpRunning, x_external_id = None,
      x_url = None, x_error = None, x_created_at = eo_created_at s, x_updated_at = eo_created_at s\<rparr>"

definition prepared_as ::
  "xenv \<Rightarrow> caller_context \<Rightarrow> active_integration \<Rightarrow> external_operation_summary \<Rightarrow>
     operation_payload option \<Rightarrow> workspace_event option \<Rightarrow> prepared_operation" where
  "prepared_as v caller active summary payload event =
     \<lparr>po_workspace = cc_workspace caller, po_actor_id = cc_actor_id caller,
      po_namespace = ic_namespace (xv_codec v) (ai_connection active), po_summary = summary,
      po_payload = payload, po_event = event, po_credential_id = cc_credential_id caller,
      po_binding_revision = ai_revision active,
      po_deadline = xv_instant v + INTEGRATION_REQUEST_TIMEOUT\<rparr>"

definition insert_prepared ::
  "xenv \<Rightarrow> caller_context \<Rightarrow> active_integration \<Rightarrow> external_command \<Rightarrow> operation_plan \<Rightarrow> db \<Rightarrow>
     router_error_code + db \<times> prepared_operation" where
  "insert_prepared v caller active command plan d =
     (case plan of (kind, task_id, source_version, payload) \<Rightarrow>
     bindR (guardR (\<not> xc_payload_len (xv_codec v) payload > 128 * 1024) MessageTooLarge) (\<lambda>_.
     bindR (storeR (now_millis (xv_clock v))) (\<lambda>now.
       let summary = new_summary (xc_operation_id command) (xc_provider command) kind task_id
                       source_version now in
     bindR (sqlR (insert_operation (xc_payload_len (xv_codec v))
              (new_operation_row caller (ic_namespace (xv_codec v) (ai_connection active))
                 (command_hash (xv_codec v) command) payload summary) d)) (\<lambda>d1.
     bindR (append_operation_event (xv_event_clock v) (cc_workspace caller) (cc_actor_id caller)
              summary d1) (\<lambda>(d2, event).
     bindR (sqlR (commit d2)) (\<lambda>d3.
     Inr (d3, prepared_as v caller active summary (Some payload) (Some event))))))))"

definition prepare_external_operation ::
  "xenv \<Rightarrow> caller_context \<Rightarrow> active_integration \<Rightarrow> external_command \<Rightarrow> db \<Rightarrow>
     router_error_code + db \<times> prepared_operation" where
  "prepare_external_operation v caller active command d =
     bindR (replay_external_operation (xv_codec v) d caller command) (\<lambda>receipt.
       case receipt of
         Some summary \<Rightarrow> Inr (d, prepared_as v caller active summary None None)
       | None \<Rightarrow>
           bindR (guardR (ic_provider (ai_connection active) = xc_provider command \<and>
                          ic_workspace (ai_connection active) = cc_workspace caller)
                    IntegrationNotConfigured) (\<lambda>_.
           bindR (plan_command v caller active command d) (\<lambda>plan.
           insert_prepared v caller active command plan d)))"

end
