(* ===== verification/External_Finish.thy ===== *)
theory External_Finish
  imports External_Ops
begin

text \<open>
  The end of an external operation (\<^verbatim>\<open>src/integrations/mod.rs\<close>): marking a write as dispatched, recording
  what the worker brought back, and an operator's resolution of a write that stayed unconfirmed.
\<close>

section \<open>Marking as dispatched\<close>

definition mark_external_dispatched ::
  "xenv \<Rightarrow> prepared_operation \<Rightarrow> db \<Rightarrow> router_error_code + db \<times> workspace_event" where
  "mark_external_dispatched v p d =
     bindR (storeR (now_millis (xv_clock v))) (\<lambda>now.
     bindR (sqlR (update_external_operations
       (\<lambda>x. x_key x = (po_workspace p, eo_id (po_summary p)) \<and> x_phase x = Prepared \<and>
            x_status x = OpRunning)
       (\<lambda>x. x\<lparr>x_phase := Dispatched, x_updated_at := now\<rparr>) d)) (\<lambda>(d1, changed).
     bindR (guardR (changed = 1) ExternalConflict) (\<lambda>_.
     bindR (ok_or (load_operation_summary d1 (po_workspace p) (eo_id (po_summary p))) StorageError) (\<lambda>operation.
     bindR (append_operation_event (xv_event_clock v) (po_workspace p) (po_actor_id p) operation d1)
       (\<lambda>(d2, event).
     bindR (sqlR (commit d2)) (\<lambda>d3. Inr (d3, event)))))))"

section \<open>Recording the result\<close>

record external_completion =
  xo_event :: workspace_event
  xo_task_event :: "workspace_event option"

definition update_terminal_operation ::
  "prepared_operation \<Rightarrow> external_operation_status \<Rightarrow> string option \<Rightarrow> string option \<Rightarrow> string option \<Rightarrow>
     int \<Rightarrow> db \<Rightarrow> router_error_code + db \<times> external_operation_summary" where
  "update_terminal_operation p status external_id url err now d =
     bindR (sqlR (update_operation_tasks
       (\<lambda>x. x_key x = (po_workspace p, eo_id (po_summary p)) \<and> x_status x = OpRunning)
       (\<lambda>x. x\<lparr>x_task_id := eo_task_id (po_summary p), x_phase := Terminal, x_status := status,
              x_external_id := external_id, x_url := url, x_error := err, x_updated_at := now\<rparr>) d))
       (\<lambda>(d1, changed).
     bindR (guardR (changed = 1) ExternalConflict) (\<lambda>_.
     Inr (d1, (po_summary p)\<lparr>eo_status := status, eo_external_id := external_id, eo_url := url,
                eo_error := err, eo_updated_at := now\<rparr>)))"

text \<open>The end every completion shares: settle the row, log it, commit.\<close>

definition settle_operation ::
  "xenv \<Rightarrow> prepared_operation \<Rightarrow> external_operation_status \<Rightarrow> string option \<Rightarrow> string option \<Rightarrow>
     string option \<Rightarrow> int \<Rightarrow> workspace_event option \<Rightarrow> db \<Rightarrow> router_error_code + db \<times> external_completion" where
  "settle_operation v p status external_id url err now task_event d =
     bindR (update_terminal_operation p status external_id url err now d) (\<lambda>(d1, operation).
     bindR (append_operation_event (xv_event_clock v) (po_workspace p) (po_actor_id p) operation d1)
       (\<lambda>(d2, event).
     bindR (sqlR (commit d2)) (\<lambda>d3.
     Inr (d3, \<lparr>xo_event = event, xo_task_event = task_event\<rparr>))))"

definition terminal_external_error ::
  "xenv \<Rightarrow> prepared_operation \<Rightarrow> external_operation_status \<Rightarrow> string \<Rightarrow> db \<Rightarrow>
     router_error_code + db \<times> external_completion" where
  "terminal_external_error v p status err d =
     bindR (storeR (now_millis (xv_clock v))) (\<lambda>now.
     settle_operation v p status None None (Some err) now None d)"

fun client_error_outcome :: "integration_client_error \<Rightarrow> external_operation_status \<times> string" where
  "client_error_outcome CeBusy = (OpFailed, ''integration_busy'')"
| "client_error_outcome (CeFailed code) = (OpFailed, external_error_as_str code)"
| "client_error_outcome (CeUnconfirmed _) = (OpUnconfirmed, ''external_unconfirmed'')"

definition complete_external_error ::
  "xenv \<Rightarrow> prepared_operation \<Rightarrow> integration_client_error \<Rightarrow> db \<Rightarrow>
     router_error_code + db \<times> external_completion" where
  "complete_external_error v p e d =
     (case client_error_outcome e of (status, code) \<Rightarrow> terminal_external_error v p status code d)"

definition terminal_semantic_conflict ::
  "xenv \<Rightarrow> prepared_operation \<Rightarrow> router_error_code \<Rightarrow> int \<Rightarrow> db \<Rightarrow>
     router_error_code + db \<times> external_completion" where
  "terminal_semantic_conflict v p code now d =
     settle_operation v p OpFailed None None (Some (error_as_str code)) now None d"

definition new_link ::
  "workspace_name \<Rightarrow> int \<Rightarrow> external_provider \<Rightarrow> string \<Rightarrow> string \<Rightarrow> string \<Rightarrow> int \<Rightarrow> link_row" where
  "new_link ws task_id provider namespace external_id url now =
     \<lparr>l_workspace = ws, l_task_id = task_id,
      l_link = \<lparr>el_provider = provider, el_namespace = namespace, el_external_id = external_id,
                el_url = url, el_linked_at = now\<rparr>\<rparr>"

text \<open>\<^verbatim>\<open>UPDATE tasks SET version=version+1,updated_by=..,updated_at=.. WHERE workspace=.. AND id=..\<close>\<close>

definition touch_task ::
  "workspace_name \<Rightarrow> int \<Rightarrow> string \<Rightarrow> int \<Rightarrow> db \<Rightarrow> sql_error + db \<times> nat" where
  "touch_task ws task_id actor now d =
     update_tasks (\<lambda>t. t_key t = (ws, task_id))
       (\<lambda>t. t\<lparr>t_version := t_version t + 1, t_updated_by := actor, t_updated_at := now\<rparr>) d"

definition complete_external_mutation ::
  "xenv \<Rightarrow> prepared_operation \<Rightarrow> external_mutation \<Rightarrow> db \<Rightarrow>
     router_error_code + db \<times> external_completion" where
  "complete_external_mutation v p m d =
     bindR (storeR (now_millis (xv_clock v))) (\<lambda>now.
     bindR (case po_payload p of
         Some (PayPublishIssue _ _ _ _) \<Rightarrow>
           bindR (ok_or (eo_task_id (po_summary p)) StorageError) (\<lambda>task_id.
           bindR (sqlR (insert_link (new_link (po_workspace p) task_id (eo_provider (po_summary p))
                    (po_namespace p) (mu_external_id m) (mu_url m) now) d)) (\<lambda>d1.
           bindR (sqlR (touch_task (po_workspace p) task_id (po_actor_id p) now d1)) (\<lambda>(d2, _).
           bindR (append_external_task_event (xv_task_clock v) (po_workspace p) (po_actor_id p) task_id
                    (eo_id (po_summary p)) d2) (\<lambda>(d3, task_event).
           Inr (d3, Some task_event)))))
       | Some (PayPublishReport _ _ _ _ _) \<Rightarrow> Inr (d, None)
       | _ \<Rightarrow> Inl StorageError) (\<lambda>(d1, task_event).
     settle_operation v p OpSucceeded (Some (mu_external_id m)) (Some (mu_url m)) None now task_event d1))"

subsection \<open>Imports\<close>

definition find_external_link ::
  "db \<Rightarrow> external_provider \<Rightarrow> string \<Rightarrow> string \<Rightarrow> link_row option" where
  "find_external_link d provider namespace external_id =
     find (\<lambda>l. l_external l = (provider, namespace, external_id)) (links d)"

definition imported_task ::
  "prepared_operation \<Rightarrow> external_issue \<Rightarrow> int \<Rightarrow> int \<Rightarrow> task_row" where
  "imported_task p issue task_id now =
     \<lparr>t_workspace = po_workspace p, t_id = task_id, t_version = 1, t_title = is_title issue,
      t_description = is_description issue, t_state = Todo, t_assigned_agent_id = None,
      t_current_attempt_id = None, t_last_attempt_id = None, t_last_checkpoint_id = None,
      t_result_report_id = None, t_pause_reason = None, t_created_by = po_actor_id p,
      t_updated_by = po_actor_id p, t_created_at = now, t_updated_at = now\<rparr>"

definition import_new_task ::
  "xenv \<Rightarrow> prepared_operation \<Rightarrow> external_issue \<Rightarrow> int \<Rightarrow> db \<Rightarrow>
     router_error_code + db \<times> int \<times> workspace_event option" where
  "import_new_task v p issue now d =
     bindR (sqlR (update_workspaces (can_bump_task (po_workspace p)) bump_task d)) (\<lambda>(d1, _).
     bindR (ok_or (map_option (\<lambda>w. w_next_task_id (bump_task w) - 1)
                     (find (can_bump_task (po_workspace p)) (workspaces d))) StorageError) (\<lambda>task_id.
     bindR (sqlR (insert_task (imported_task p issue task_id now) d1)) (\<lambda>d2.
     bindR (sqlR (insert_report (xv_body_len v)
       \<lparr>r_id = xv_note_id v, r_workspace = po_workspace p, r_task_id = task_id, r_attempt_id = None,
        r_actor_id = po_actor_id p, r_kind = RNote,
        r_body = BodyText (import_note (eo_provider (po_summary p)) issue), r_created_at = now\<rparr> d2)) (\<lambda>d3.
     bindR (sqlR (insert_link (new_link (po_workspace p) task_id (eo_provider (po_summary p))
              (po_namespace p) (is_external_id issue) (is_url issue) now) d3)) (\<lambda>d4.
     bindR (append_external_task_event (xv_task_clock v) (po_workspace p) (po_actor_id p) task_id
              (eo_id (po_summary p)) d4) (\<lambda>(d5, task_event).
     Inr (d5, task_id, Some task_event)))))))"

definition complete_import ::
  "xenv \<Rightarrow> prepared_operation \<Rightarrow> external_issue \<Rightarrow> db \<Rightarrow> router_error_code + db \<times> external_completion" where
  "complete_import v p issue d =
     bindR (map_err (\<lambda>_. InvalidMessage) (validate_title (is_title issue))) (\<lambda>_.
     bindR (map_err (\<lambda>_. InvalidMessage) (validate_description (is_description issue))) (\<lambda>_.
     bindR (storeR (now_millis (xv_clock v))) (\<lambda>now.
       let adjusted = (\<lambda>task_id. p\<lparr>po_summary := (po_summary p)\<lparr>eo_task_id := Some task_id\<rparr>\<rparr>);
           done_with = (\<lambda>d1 task_id task_event. settle_operation v (adjusted task_id) OpSucceeded
              (Some (is_external_id issue)) (Some (is_url issue)) None now task_event d1) in
       case find_external_link d (eo_provider (po_summary p)) (po_namespace p) (is_external_id issue) of
         Some l \<Rightarrow>
           if l_workspace l \<noteq> po_workspace p then terminal_semantic_conflict v p ExternalConflict now d
           else done_with d (l_task_id l) None
       | None \<Rightarrow>
           bindR (import_new_task v p issue now d) (\<lambda>(d1, task_id, task_event).
           done_with d1 task_id task_event))))"

subsection \<open>Links\<close>

definition find_task_link ::
  "db \<Rightarrow> workspace_name \<Rightarrow> int \<Rightarrow> external_provider \<Rightarrow> link_row option" where
  "find_task_link d ws task_id provider = find (\<lambda>l. l_key l = (ws, task_id, provider)) (links d)"

definition write_link ::
  "xenv \<Rightarrow> prepared_operation \<Rightarrow> int \<Rightarrow> external_issue \<Rightarrow> int \<Rightarrow> db \<Rightarrow>
     router_error_code + db \<times> workspace_event option" where
  "write_link v p task_id issue now d =
     bindR (sqlR (upsert_link (new_link (po_workspace p) task_id (eo_provider (po_summary p))
              (po_namespace p) (is_external_id issue) (is_url issue) now) d)) (\<lambda>d1.
     bindR (sqlR (touch_task (po_workspace p) task_id (po_actor_id p) now d1)) (\<lambda>(d2, _).
     bindR (append_external_task_event (xv_task_clock v) (po_workspace p) (po_actor_id p) task_id
              (eo_id (po_summary p)) d2) (\<lambda>(d3, task_event).
     Inr (d3, Some task_event))))"

definition complete_link ::
  "xenv \<Rightarrow> prepared_operation \<Rightarrow> external_issue \<Rightarrow> db \<Rightarrow> router_error_code + db \<times> external_completion" where
  "complete_link v p issue d =
     (case po_payload p of
        Some (PayLink _ expected_version replace) \<Rightarrow>
          bindR (ok_or (eo_task_id (po_summary p)) StorageError) (\<lambda>task_id.
          bindR (storeR (now_millis (xv_clock v))) (\<lambda>now.
          bindR (ok_or (map_option t_version (find_task d (po_workspace p) task_id)) TaskNotFound) (\<lambda>version.
          if version \<noteq> expected_version then terminal_semantic_conflict v p TaskConflict now d
          else if case find_external_link d (eo_provider (po_summary p)) (po_namespace p) (is_external_id issue) of
                    None \<Rightarrow> False
                  | Some l \<Rightarrow> l_workspace l \<noteq> po_workspace p \<or> l_task_id l \<noteq> task_id
            then terminal_semantic_conflict v p ExternalConflict now d
          else
            let existing = find_task_link d (po_workspace p) task_id (eo_provider (po_summary p));
                unchanged = (case existing of None \<Rightarrow> False
                  | Some l \<Rightarrow> el_namespace (l_link l) = po_namespace p \<and>
                             el_external_id (l_link l) = is_external_id issue) in
            if existing \<noteq> None \<and> \<not> unchanged \<and> \<not> replace
            then terminal_semantic_conflict v p ExternalConflict now d
            else
              bindR (if unchanged then Inr (d, None) else write_link v p task_id issue now d)
                (\<lambda>(d1, task_event).
              settle_operation v p OpSucceeded (Some (is_external_id issue)) (Some (is_url issue)) None
                now task_event d1))))
      | _ \<Rightarrow> Inl StorageError)"

definition complete_external_read ::
  "xenv \<Rightarrow> prepared_operation \<Rightarrow> external_issue \<Rightarrow> db \<Rightarrow> router_error_code + db \<times> external_completion" where
  "complete_external_read v p issue d =
     (case po_payload p of
        Some (PayImport _) \<Rightarrow> complete_import v p issue d
      | Some (PayLink _ _ _) \<Rightarrow> complete_link v p issue d
      | _ \<Rightarrow> Inl StorageError)"

section \<open>Checking that nothing changed since the operation was prepared\<close>

definition binding_unchanged ::
  "xcodec \<Rightarrow> active_integration \<Rightarrow> int \<Rightarrow> string \<Rightarrow> external_provider \<Rightarrow> workspace_name \<Rightarrow> bool" where
  "binding_unchanged cx active revision namespace provider ws =
     (ai_revision active = revision \<and> ic_namespace cx (ai_connection active) = namespace \<and>
      ic_provider (ai_connection active) = provider \<and> ic_workspace (ai_connection active) = ws)"

text \<open>An issue may be published only while the task has no link; a report only to the issue it was
  prepared for.\<close>

definition publish_target_ok ::
  "db \<Rightarrow> workspace_name \<Rightarrow> int option \<Rightarrow> external_provider \<Rightarrow> string \<Rightarrow> operation_payload \<Rightarrow>
     router_error_code + unit" where
  "publish_target_ok d ws task_id provider namespace payload =
     (case payload of
        PayPublishIssue _ _ _ _ \<Rightarrow>
          bindR (ok_or task_id StorageError) (\<lambda>t.
          guardR (find_task_link d ws t provider = None) ExternalConflict)
      | PayPublishReport _ issue_id _ _ _ \<Rightarrow>
          bindR (ok_or task_id StorageError) (\<lambda>t.
          guardR (map_option (\<lambda>l. (el_namespace (l_link l), el_external_id (l_link l)))
                    (find_task_link d ws t provider) = Some (namespace, issue_id)) ExternalConflict)
      | _ \<Rightarrow> Inr ())"

definition validate_external_snapshot ::
  "xenv \<Rightarrow> active_integration \<Rightarrow> prepared_operation \<Rightarrow> bool \<Rightarrow> db \<Rightarrow> router_error_code + db" where
  "validate_external_snapshot v active p dispatch_mutation d =
     bindR (guardR (binding_unchanged (xv_codec v) active (po_binding_revision p) (po_namespace p)
              (eo_provider (po_summary p)) (po_workspace p)) IntegrationNotConfigured) (\<lambda>_.
     bindR (require_credential False d (po_credential_id p) (po_workspace p)) (\<lambda>_.
     bindR (ok_or (po_payload p) ExternalConflict) (\<lambda>payload.
     bindR (publish_target_ok d (po_workspace p) (eo_task_id (po_summary p)) (eo_provider (po_summary p))
              (po_namespace p) payload) (\<lambda>_.
     if dispatch_mutation then bindR (mark_external_dispatched v p d) (\<lambda>(d1, _). Inr d1) else Inr d))))"

section \<open>Resolutions\<close>

record prepared_resolution =
  pr_workspace :: workspace_name
  pr_operation_id :: uuid
  pr_resolution_id :: uuid
  pr_actor_id :: string
  pr_credential_id :: uuid
  pr_provider :: external_provider
  pr_namespace :: string
  pr_binding_revision :: int
  pr_task_id :: "int option"
  pr_payload :: operation_payload
  pr_external_id :: string
  pr_note :: string
  pr_request_hash :: digest
  pr_deadline :: nat

record resolution_completion =
  vc_operation :: external_operation_summary
  vc_resolution :: external_resolution
  vc_event :: workspace_event
  vc_task_event :: "workspace_event option"

datatype resolution_preparation =
    ReplayResolution external_operation_summary external_resolution
  | ResolutionCompleted resolution_completion
  | ResolutionVerify prepared_resolution

definition insert_resolution ::
  "workspace_name \<Rightarrow> digest \<Rightarrow> external_resolution \<Rightarrow> db \<Rightarrow> router_error_code + db" where
  "insert_resolution ws hash r d =
     sqlR (insert_resolution_row \<lparr>v_workspace = ws, v_request_hash = hash, v_resolution = r\<rparr> d)"

definition resolve_row ::
  "workspace_name \<Rightarrow> uuid \<Rightarrow> (external_operation_row \<Rightarrow> external_operation_row) \<Rightarrow> db \<Rightarrow>
     router_error_code + db" where
  "resolve_row ws op f d =
     bindR (sqlR (update_external_operations
       (\<lambda>x. x_key x = (ws, op) \<and> x_status x = OpUnconfirmed) f d)) (\<lambda>(d1, changed).
     bindR (guardR (changed = 1) ExternalConflict) (\<lambda>_. Inr d1))"

definition complete_not_applied_resolution ::
  "xenv \<Rightarrow> caller_context \<Rightarrow> external_operation_summary \<Rightarrow> uuid \<Rightarrow> string \<Rightarrow> digest \<Rightarrow> db \<Rightarrow>
     router_error_code + db \<times> resolution_completion" where
  "complete_not_applied_resolution v caller operation resolution_id note hash d =
     bindR (storeR (now_millis (xv_clock v))) (\<lambda>now.
       let err = external_error_as_str OperatorConfirmedNotApplied;
           resolution = \<lparr>er_id = resolution_id, er_operation_id = eo_id operation,
             er_actor_id = cc_actor_id caller, er_outcome = NotApplied, er_external_id = None,
             er_note = note, er_created_at = now\<rparr>;
           resolved = operation\<lparr>eo_status := OpFailed, eo_error := Some err, eo_updated_at := now\<rparr> in
     bindR (insert_resolution (cc_workspace caller) hash resolution d) (\<lambda>d1.
     bindR (resolve_row (cc_workspace caller) (eo_id operation)
              (\<lambda>x. x\<lparr>x_status := OpFailed, x_error := Some err, x_updated_at := now\<rparr>) d1) (\<lambda>d2.
     bindR (append_resolution_event (xv_event_clock v) (cc_workspace caller) (cc_actor_id caller)
              resolved resolution d2) (\<lambda>(d3, event).
     bindR (sqlR (commit d3)) (\<lambda>d4.
     Inr (d4, \<lparr>vc_operation = resolved, vc_resolution = resolution, vc_event = event,
               vc_task_event = None\<rparr>))))))"

definition resolution_hash ::
  "xcodec \<Rightarrow> uuid \<Rightarrow> external_resolution_outcome \<Rightarrow> string option \<Rightarrow> string \<Rightarrow> digest" where
  "resolution_hash cx resolution_id outcome external_id note =
     xc_sha256 cx (xc_resolution_json cx
       \<lparr>rq_resolution_id = resolution_id, rq_outcome = outcome, rq_external_id = external_id,
        rq_note = note\<rparr>)"

definition is_publish :: "external_operation_kind \<Rightarrow> bool" where
  "is_publish k = (k = OpPublishIssue \<or> k = OpPublishReport)"

fun payload_marker :: "operation_payload \<Rightarrow> string option" where
  "payload_marker (PayPublishIssue _ _ _ marker) = Some marker"
| "payload_marker (PayPublishReport _ _ _ _ marker) = Some marker"
| "payload_marker _ = None"

text \<open>What happens once the request is known to be new and the operation to be an unconfirmed write of the
  active binding.\<close>

definition start_resolution ::
  "xenv \<Rightarrow> caller_context \<Rightarrow> active_integration \<Rightarrow> external_operation_row \<Rightarrow> uuid \<Rightarrow>
     external_resolution_outcome \<Rightarrow> string option \<Rightarrow> string \<Rightarrow> digest \<Rightarrow> db \<Rightarrow>
     router_error_code + db \<times> resolution_preparation" where
  "start_resolution v caller active x resolution_id outcome external_id note hash d =
     (case outcome of
        NotApplied \<Rightarrow>
          bindR (guardR (external_id = None) InvalidMessage) (\<lambda>_.
          bindR (complete_not_applied_resolution v caller (operation_summary x) resolution_id note hash d)
            (\<lambda>(d1, completion). Inr (d1, ResolutionCompleted completion)))
      | Applied \<Rightarrow>
          bindR (ok_or (case external_id of None \<Rightarrow> None
                   | Some e \<Rightarrow> if e \<noteq> [] \<and> length e \<le> 4 * 1024 then Some e else None)
                   InvalidMessage) (\<lambda>eid.
          bindR (ok_or (payload_marker (x_payload x)) ExternalConflict) (\<lambda>marker.
          bindR (guardR (marker \<noteq> []) StorageError) (\<lambda>_.
          Inr (d, ResolutionVerify
            \<lparr>pr_workspace = cc_workspace caller, pr_operation_id = x_operation_id x,
             pr_resolution_id = resolution_id, pr_actor_id = cc_actor_id caller,
             pr_credential_id = cc_credential_id caller, pr_provider = x_provider x,
             pr_namespace = x_namespace x, pr_binding_revision = ai_revision active,
             pr_task_id = x_task_id x, pr_payload = x_payload x, pr_external_id = eid,
             pr_note = note, pr_request_hash = hash,
             pr_deadline = xv_instant v + INTEGRATION_REQUEST_TIMEOUT\<rparr>)))))"

definition prepare_external_resolution ::
  "xenv \<Rightarrow> caller_context \<Rightarrow> active_integration \<Rightarrow> uuid \<Rightarrow> uuid \<Rightarrow> external_resolution_outcome \<Rightarrow>
     string option \<Rightarrow> string \<Rightarrow> db \<Rightarrow> router_error_code + db \<times> resolution_preparation" where
  "prepare_external_resolution v caller active op resolution_id outcome external_id note d =
     bindR (guardR (note \<noteq> [] \<and> length note \<le> 4 * 1024) InvalidMessage) (\<lambda>_.
     bindR (require_credential True d (cc_credential_id caller) (cc_workspace caller)) (\<lambda>_.
       let hash = resolution_hash (xv_codec v) resolution_id outcome external_id note in
     bindR (resolution_receipt d (cc_workspace caller) op) (\<lambda>receipt.
       case receipt of
         Some (resolution, resolver, stored_hash) \<Rightarrow>
           bindR (guardR (er_id resolution = resolution_id \<and> resolver = cc_actor_id caller \<and>
                          stored_hash = hash) RequestConflict) (\<lambda>_.
           bindR (ok_or (load_operation_summary d (cc_workspace caller) op) StorageError) (\<lambda>operation.
           Inr (d, ReplayResolution operation resolution)))
       | None \<Rightarrow>
           bindR (guardR (\<not> exists_row (\<lambda>v. v_key v = (cc_workspace caller, resolution_id)) (resolutions d))
                    RequestConflict) (\<lambda>_.
           bindR (ok_or (find_operation d (cc_workspace caller) op) IntegrationError) (\<lambda>x.
           bindR (guardR (x_status x = OpUnconfirmed \<and> is_publish (x_kind x)) ExternalConflict) (\<lambda>_.
           bindR (guardR (x_phase x = Terminal \<and>
                          ic_workspace (ai_connection active) = cc_workspace caller \<and>
                          ic_provider (ai_connection active) = x_provider x \<and>
                          ic_namespace (xv_codec v) (ai_connection active) = x_namespace x)
                    ExternalConflict) (\<lambda>_.
           start_resolution v caller active x resolution_id outcome external_id note hash d)))))))"

definition unresolved :: "db \<Rightarrow> workspace_name \<Rightarrow> uuid \<Rightarrow> bool" where
  "unresolved d ws op =
     (case find_operation d ws op of
        None \<Rightarrow> False
      | Some x \<Rightarrow> x_status x = OpUnconfirmed \<and> \<not> exists_row (\<lambda>v. v_operation v = (ws, op)) (resolutions d))"

text \<open>\<open>now\<close> is \<^verbatim>\<open>Instant::now()\<close>.\<close>

definition validate_resolution_snapshot ::
  "xcodec \<Rightarrow> nat \<Rightarrow> active_integration \<Rightarrow> prepared_resolution \<Rightarrow> db \<Rightarrow> router_error_code + unit" where
  "validate_resolution_snapshot cx now active p d =
     bindR (guardR (now < pr_deadline p) RequestTimeout) (\<lambda>_.
     bindR (guardR (binding_unchanged cx active (pr_binding_revision p) (pr_namespace p)
              (pr_provider p) (pr_workspace p)) IntegrationNotConfigured) (\<lambda>_.
     bindR (require_credential True d (pr_credential_id p) (pr_workspace p)) (\<lambda>_.
     bindR (guardR (unresolved d (pr_workspace p) (pr_operation_id p)) ExternalConflict) (\<lambda>_.
     bindR (guardR (payload_marker (pr_payload p) \<noteq> None) ExternalConflict) (\<lambda>_.
     publish_target_ok d (pr_workspace p) (pr_task_id p) (pr_provider p) (pr_namespace p)
       (pr_payload p))))))"

definition link_resolved ::
  "xenv \<Rightarrow> prepared_resolution \<Rightarrow> external_mutation \<Rightarrow> int \<Rightarrow> db \<Rightarrow>
     router_error_code + db \<times> workspace_event option" where
  "link_resolved v p m now d =
     (case pr_payload p of
        PayPublishIssue _ _ _ _ \<Rightarrow>
          bindR (ok_or (pr_task_id p) StorageError) (\<lambda>task_id.
          bindR (sqlR (insert_link (new_link (pr_workspace p) task_id (pr_provider p) (pr_namespace p)
                   (mu_external_id m) (mu_url m) now) d)) (\<lambda>d1.
          bindR (sqlR (touch_task (pr_workspace p) task_id (pr_actor_id p) now d1)) (\<lambda>(d2, changed).
          bindR (guardR (changed = 1) TaskNotFound) (\<lambda>_.
          bindR (append_external_task_event (xv_task_clock v) (pr_workspace p) (pr_actor_id p) task_id
                   (pr_operation_id p) d2) (\<lambda>(d3, task_event).
          Inr (d3, Some task_event))))))
      | PayPublishReport _ _ _ _ _ \<Rightarrow> Inr (d, None)
      | _ \<Rightarrow> Inl ExternalConflict)"

definition complete_applied_resolution ::
  "xenv \<Rightarrow> prepared_resolution \<Rightarrow> external_mutation \<Rightarrow> db \<Rightarrow>
     router_error_code + db \<times> resolution_completion" where
  "complete_applied_resolution v p m d =
     bindR (guardR (mu_external_id m = pr_external_id p) ExternalConflict) (\<lambda>_.
     bindR (storeR (now_millis (xv_clock v))) (\<lambda>now.
     bindR (link_resolved v p m now d) (\<lambda>(d1, task_event).
     bindR (resolve_row (pr_workspace p) (pr_operation_id p)
              (\<lambda>x. x\<lparr>x_status := OpSucceeded, x_external_id := Some (mu_external_id m),
                     x_url := Some (mu_url m), x_error := None, x_updated_at := now\<rparr>) d1) (\<lambda>d2.
       let resolution = \<lparr>er_id = pr_resolution_id p, er_operation_id = pr_operation_id p,
             er_actor_id = pr_actor_id p, er_outcome = Applied,
             er_external_id = Some (mu_external_id m), er_note = pr_note p, er_created_at = now\<rparr> in
     bindR (insert_resolution (pr_workspace p) (pr_request_hash p) resolution d2) (\<lambda>d3.
     bindR (ok_or (load_operation_summary d3 (pr_workspace p) (pr_operation_id p)) StorageError) (\<lambda>operation.
     bindR (append_resolution_event (xv_event_clock v) (pr_workspace p) (pr_actor_id p) operation
              resolution d3) (\<lambda>(d4, event).
     bindR (sqlR (commit d4)) (\<lambda>d5.
     Inr (d5, \<lparr>vc_operation = operation, vc_resolution = resolution, vc_event = event,
               vc_task_event = task_event\<rparr>)))))))))"

end
