(* ===== verification/Task_Replay.thy ===== *)
theory Task_Replay
  imports Task_Keep
begin

text \<open>
  Receipts: a command that succeeded leaves a receipt, and running it again replays the receipt.
  The lemmas here compare the store right after a command with what the replay reads from it.
\<close>

section \<open>Every command ends in \<open>finish_mutation\<close>\<close>

text \<open>The statements before it touch neither receipts nor events nor credentials nor the tables of the
  integrations.\<close>

definition log_same :: "db \<Rightarrow> db \<Rightarrow> bool" where
  "log_same d d1 \<longleftrightarrow>
     mutations d1 = mutations d \<and> events d1 = events d \<and> credentials d1 = credentials d \<and>
     invites d1 = invites d \<and> server_id d1 = server_id d \<and> links d1 = links d \<and>
     external_operations d1 = external_operations d \<and> resolutions d1 = resolutions d \<and>
     bindings d1 = bindings d"

named_theorems log_same_intros

lemma log_same_refl [log_same_intros]: "log_same d d"
  by (simp add: log_same_def)

lemma log_same_text [log_same_intros]:
  "insert_text_report e cl k a kind s now d1 = Inr (d2, rid) \<Longrightarrow> log_same d d1 \<Longrightarrow> log_same d d2"
  by (auto simp: log_same_def insert_text_report_def result_simps dest!: insert_report_effect(1))

lemma log_same_checkpoint [log_same_intros]:
  "insert_checkpoint_report e cl k a kind s now d1 = Inr (d2, rid) \<Longrightarrow> log_same d d1 \<Longrightarrow> log_same d d2"
  by (auto simp: log_same_def insert_checkpoint_report_def result_simps dest!: insert_report_effect(1))

lemma log_same_attempts [log_same_intros]:
  "update_attempts P h d1 = Inr (d2, n) \<Longrightarrow> log_same d d1 \<Longrightarrow> log_same d d2"
  using update_attempts_effect(1) by (fastforce simp: log_same_def)

lemma log_same_task_row [log_same_intros]:
  "update_task_row ws k f d1 = Inr d2 \<Longrightarrow> log_same d d1 \<Longrightarrow> log_same d d2"
  using update_task_row_effect(1) by (fastforce simp: log_same_def)

lemma log_same_attempt [log_same_intros]:
  "insert_attempt a d1 = Inr d2 \<Longrightarrow> log_same d d1 \<Longrightarrow> log_same d d2"
  using insert_attempt_effect(1) by (fastforce simp: log_same_def)

lemma log_same_workspaces [log_same_intros]:
  "update_workspaces P f d1 = Inr (d2, n) \<Longrightarrow> log_same d d1 \<Longrightarrow> log_same d d2"
  by (auto simp: log_same_def update_workspaces_def split: if_splits)

lemma log_same_task [log_same_intros]:
  "insert_task t d1 = Inr d2 \<Longrightarrow> log_same d d1 \<Longrightarrow> log_same d d2"
  by (auto simp: log_same_def insert_task_def split: if_splits)

definition finishes ::
  "env \<Rightarrow> caller_context \<Rightarrow> digest \<Rightarrow> uuid \<Rightarrow> db \<Rightarrow> uuid option \<Rightarrow> db \<times> task_apply_result \<Rightarrow> bool" where
  "finishes ev caller hash op d aid out \<longleftrightarrow>
     (\<exists>d1 k v chg rid cid now. log_same d d1 \<and>
        finish_mutation ev caller op hash k v chg aid rid cid now d1 = Inr out)"

lemma finishesI:
  "finish_mutation ev caller op hash k v chg aid rid cid now d1 = Inr out \<Longrightarrow> log_same d d1 \<Longrightarrow>
     finishes ev caller hash op d aid out"
  unfolding finishes_def by blast

lemma dispatch_finishes:
  assumes "dispatch ev caller hash c d = Inr out"
  shows "\<exists>aid. finishes ev caller hash (operation_id c) d aid out"
proof (cases c)
  case CmdCreate
  with assms show ?thesis
    by (auto simp: apply_create_def result_simps)
       (blast intro: finishesI log_same_intros)
next
  case CmdEdit
  with assms show ?thesis
    by (auto simp: apply_edit_def result_simps) (blast intro: finishesI log_same_intros)
next
  case CmdAssign
  with assms show ?thesis
    by (auto simp: apply_assign_def result_simps) (blast intro: finishesI log_same_intros)
next
  case CmdNote
  with assms show ?thesis
    by (auto simp: apply_note_def result_simps Let_def) (blast intro: finishesI log_same_intros)
next
  case CmdBegin
  with assms show ?thesis
    by (auto simp: apply_begin_def result_simps Let_def) (blast intro: finishesI log_same_intros)
next
  case CmdCheckpoint
  with assms show ?thesis
    by (auto simp: apply_checkpoint_def result_simps) (blast intro: finishesI log_same_intros)
next
  case CmdPause
  with assms show ?thesis
    by (auto simp: apply_release_def result_simps) (blast intro: finishesI log_same_intros)
next
  case CmdComplete
  with assms show ?thesis
    by (auto simp: apply_release_def result_simps) (blast intro: finishesI log_same_intros)
next
  case CmdCancel
  with assms show ?thesis
    by (auto simp: apply_terminal_def result_simps Let_def) (blast intro: finishesI log_same_intros)
next
  case CmdReopen
  with assms show ?thesis
    by (auto simp: apply_terminal_def result_simps Let_def) (blast intro: finishesI log_same_intros)
next
  case CmdInterrupt
  with assms show ?thesis
    by (auto simp: apply_interrupt_def result_simps) (blast intro: finishesI log_same_intros)
next
  case CmdConfirmStopped
  with assms show ?thesis
    by (auto simp: apply_confirm_stopped_def result_simps) (blast intro: finishesI log_same_intros)
qed

section \<open>Reading back\<close>

lemma find_none_key: "key \<notin> k ` set rows \<Longrightarrow> find (\<lambda>r. k r = key) rows = None"
  by (force simp: find_None_iff)

lemma get_task_detail_frame:
  assumes "tasks d' = tasks d" and "attempts d' = attempts d" and "reports d' = reports d"
    and "links d' = links d" and "external_operations d' = external_operations d"
  shows "get_task_detail_connection d' ws k = get_task_detail_connection d ws k"
proof -
  have "load_attempt d' = load_attempt d" "load_report d' = load_report d"
    by (simp_all add: fun_eq_iff load_attempt_def load_report_def find_attempt_def find_report_def assms)
  moreover have "find_task d' ws k = find_task d ws k" by (simp add: find_task_def assms)
  moreover have "load_links d' ws k = load_links d ws k"
    "load_external_operations d' ws k = load_external_operations d ws k"
    by (simp_all add: load_links_def load_external_operations_def assms)
  ultimately show ?thesis
    by (cases "find_task d ws k") (simp_all add: get_task_detail_connection_def)
qed

text \<open>The event just appended is the last one of its task.\<close>

lemma last_task_event_append:
  assumes inv: "log_inv d'" and app: "append_event_in_transaction clock i d = Inr (d', e)"
    and i: "ei_workspace i = ws" "ei_task_id i = Some k" "ei_kind i = KTask"
  shows "last_task_event d' ws k = Some e"
proof -
  have "filter (\<lambda>e. we_workspace e = ws \<and> we_task_id e = Some k \<and> we_kind e = KTask) (events d') =
      filter (\<lambda>e. we_task_id e = Some k \<and> we_kind e = KTask) (workspace_log d' ws)"
    by (simp add: workspace_log_def conj_commute conj_left_commute)
  also have "\<dots> = filter (\<lambda>e. we_task_id e = Some k \<and> we_kind e = KTask) (workspace_log d ws) @ [e]"
    by (simp add: append_workspace_log [OF app] append_event_event [OF app] i)
  finally have eq: "filter (\<lambda>e. we_workspace e = ws \<and> we_task_id e = Some k \<and> we_kind e = KTask) (events d') =
      filter (\<lambda>e. we_task_id e = Some k \<and> we_kind e = KTask) (workspace_log d ws) @ [e]" .
  have "sort_key we_seq (filter (\<lambda>e. we_workspace e = ws \<and> we_task_id e = Some k \<and> we_kind e = KTask)
      (events d')) = filter (\<lambda>e. we_task_id e = Some k \<and> we_kind e = KTask) (workspace_log d ws) @ [e]"
    using sort_log_id [OF inv, of "\<lambda>e. we_task_id e = Some k \<and> we_kind e = KTask" ws]
    by (simp add: eq append_workspace_log [OF app] append_event_event [OF app] i)
  then show ?thesis by (simp add: last_task_event_def)
qed

lemma finishes_replay:
  assumes inv: "log_inv d'" and fin: "finishes ev caller hash op d aid (d', res)"
  shows "\<exists>m. mutation_receipt d' (cc_workspace caller) op = Some m \<and>
     m_actor_id m = cc_actor_id caller \<and> m_request_hash m = hash \<and> m_attempt_id m = aid \<and>
     m_applied_version m = tm_applied_version (ar_mutation res) \<and>
     m_report_id m = tm_report_id (ar_mutation res) \<and> tm_operation_id (ar_mutation res) = op \<and>
     get_task_detail_connection d' (cc_workspace caller) (m_task_id m) =
       Inr (Some (tm_task (ar_mutation res))) \<and>
     last_task_event d' (cc_workspace caller) (m_task_id m) = Some (ar_event res)"
proof -
  from fin obtain d1 k v chg rid cid now where
    "finish_mutation ev caller op hash k v chg aid rid cid now d1 = Inr (d', res)"
    by (auto simp: finishes_def)
  from finish_mutation_effect [OF this] obtain d2 e detail m where
    det: "get_task_detail_connection d1 (cc_workspace caller) k = Inr (Some detail)"
    and app: "append_event_in_transaction (event_clock ev)
       (task_event_insert (cc_workspace caller) (cc_actor_id caller) k
          \<lparr>te_change = chg, te_task = td_summary detail, te_attempt_id = aid,
           te_report_id = rid, te_external_operation_id = None\<rparr>) d1 = Inr (d2, e)"
    and m: "m = \<lparr>m_workspace = cc_workspace caller, m_operation_id = op,
       m_actor_id = cc_actor_id caller, m_request_hash = hash, m_task_id = k,
       m_applied_version = v, m_attempt_id = aid, m_report_id = rid, m_created_at = now\<rparr>"
    and fresh: "m_key m \<notin> m_key ` set (mutations d1)"
    and d': "d' = d2\<lparr>mutations := mutations d1 @ [m]\<rparr>"
    and res: "res = \<lparr>ar_mutation = \<lparr>tm_operation_id = op, tm_applied_version = v, tm_report_id = rid,
        tm_task = detail\<rparr>, ar_event = e, ar_closed_attempt_id = cid\<rparr>"
    by blast
  have key: "m_key m = (cc_workspace caller, op)" by (simp add: m m_key_def)
  have "mutation_receipt d' (cc_workspace caller) op = Some m"
    using find_none_key [OF fresh] by (simp add: mutation_receipt_def d' key find_append)
  moreover have "get_task_detail_connection d' (cc_workspace caller) k = Inr (Some detail)"
    using det get_task_detail_frame [of d' d1] by (simp add: d' append_event_fields [OF app])
  moreover have "last_task_event d2 (cc_workspace caller) k = Some e"
    using inv log_inv_frame [of d' d2]
    by (intro last_task_event_append [OF _ app]) (simp_all add: d' task_event_insert_def)
  moreover have "last_task_event d' (cc_workspace caller) k = last_task_event d2 (cc_workspace caller) k"
    by (simp add: last_task_event_def d')
  ultimately show ?thesis by (intro exI [of _ m]) (simp add: m res)
qed

text \<open>The attempt a begin created belongs to its caller.\<close>

lemma begin_owner:
  assumes "apply_begin ev caller op k wr v ck note hash d = Inr (d', res)"
  shows "finishes ev caller hash op d (Some (new_attempt_id ev)) (d', res) \<and>
    exact_active_owner_attempt d' caller (new_attempt_id ev)"
proof -
  from assms obtain ag ses t now d1 d2 d3 rid f where
    who: "cc_agent_id caller = Some ag" "cc_session_id caller = Some ses"
    and ia: "insert_attempt (begin_attempt_row ev caller k ag ses wr ck now) d = Inr d1"
    and ins: "insert_text_report ev caller k (Some (new_attempt_id ev)) RNote note now d1 = Inr (d2, rid)"
    and upd: "update_task_row (cc_workspace caller) k f d2 = Inr d3"
    and fin: "finish_mutation ev caller op hash k (v + 1) ChgBegun (Some (new_attempt_id ev)) (Some rid)
        None now d3 = Inr (d', res)"
    unfolding apply_begin_def by (auto simp: result_simps Let_def)
  have "attempts d' = attempts d @ [begin_attempt_row ev caller k ag ses wr ck now]"
    using insert_attempt_effect(1) [OF ia] ins
    by (auto simp: finish_mutation_fields [OF fin] update_task_row_effect(1) [OF upd]
        insert_text_report_def result_simps dest!: insert_report_effect(1))
  then have "exact_active_owner_attempt d' caller (new_attempt_id ev)"
    by (simp add: exact_active_owner_attempt_def who begin_attempt_row_def)
  moreover have "finishes ev caller hash op d (Some (new_attempt_id ev)) (d', res)"
    using fin ia ins upd by (blast intro: finishesI log_same_intros)
  ultimately show ?thesis by blast
qed

lemma finishes_attempt_unique:
  assumes "finishes ev caller hash op d aid (d', res)" and "finishes ev caller hash op d aid' (d', res)"
    and "log_inv d'"
  shows "aid = aid'"
  using finishes_replay [OF assms(3,1)] finishes_replay [OF assms(3,2)] by auto

lemma validate_command_env:
  "body_json_len ev' = body_json_len ev \<Longrightarrow> validate_command ev' caller c = validate_command ev caller c"
  by (cases c) (simp_all add: validate_command_def)

lemma apply_task_replay:
  assumes inv: "store_inv d" and fresh: "mutation_receipt d (cc_workspace caller) (operation_id c) = None"
    and run: "apply_task ev caller c d = Inr (d', res)"
    and ev': "request_digest ev' c = request_digest ev c" "body_json_len ev' = body_json_len ev"
  shows "apply_task ev' caller c d' = Inr (d', res\<lparr>ar_closed_attempt_id := None\<rparr>)"
proof -
  from run apply_task_fresh [OF fresh] have val: "validate_command ev caller c = Inr ()"
    and dis: "dispatch ev caller (request_digest ev c) c d = Inr (d', res)" and ok: "deferred_ok d'"
    by auto
  note log = store_invD(1) [OF dispatch_step(1) [OF inv dis]]
  obtain aid where fin: "finishes ev caller (request_digest ev c) (operation_id c) d aid (d', res)"
    using dispatch_finishes [OF dis] by blast
  from finishes_replay [OF log fin] obtain m where
    m: "mutation_receipt d' (cc_workspace caller) (operation_id c) = Some m"
      "m_actor_id m = cc_actor_id caller" "m_request_hash m = request_digest ev c" "m_attempt_id m = aid"
      "m_applied_version m = tm_applied_version (ar_mutation res)"
      "m_report_id m = tm_report_id (ar_mutation res)" "tm_operation_id (ar_mutation res) = operation_id c"
      "get_task_detail_connection d' (cc_workspace caller) (m_task_id m) =
         Inr (Some (tm_task (ar_mutation res)))"
      "last_task_event d' (cc_workspace caller) (m_task_id m) = Some (ar_event res)" by blast
  have owner: "is_begin c \<Longrightarrow> \<exists>i. aid = Some i \<and> exact_active_owner_attempt d' caller i"
  proof (cases c)
    case (CmdBegin op k wr v ck nt)
    with dis begin_owner [of ev caller op k wr v ck nt "request_digest ev c" d d' res]
      finishes_attempt_unique [OF fin _ log]
    show ?thesis by (metis dispatch.simps(5) operation_id.simps(5))
  qed simp_all
  have "res\<lparr>ar_closed_attempt_id := None\<rparr> =
     \<lparr>ar_mutation = \<lparr>tm_operation_id = operation_id c, tm_applied_version = m_applied_version m,
        tm_report_id = m_report_id m, tm_task = tm_task (ar_mutation res)\<rparr>,
      ar_event = ar_event res, ar_closed_attempt_id = None\<rparr>"
    by (rule task_apply_result.equality) (simp_all add: m)
  then show ?thesis
    using owner
    by (auto simp: apply_task_def validate_command_env [OF ev'(2)] val ev'(1) m(1) replay_receipt_def
        m(2-4,8,9) ok result_simps Let_def tx_store_def tx_sql_def commit_def)
qed

end
