(* ===== verification/Task_Effects.thy ===== *)
theory Task_Effects
  imports Task_Replay
begin

text \<open>
  The functional behaviour of the commands on the row they change: the guards that held and the
  exact row afterwards, for every command, and the state machine of a task that follows from them.
\<close>

section \<open>The row after an update\<close>

lemma find_task_update:
  assumes "update_task_row ws k f d1 = Inr d2" and "tasks d1 = tasks d" and "tasks d' = tasks d2"
    and "find_task d ws k = Some t" and "\<And>t. t_key (f t) = t_key t"
  shows "find_task d' ws k = Some (f t)"
  using find_update_where_key [of t_key f "(ws, k)" "tasks d"] assms(2-5) update_task_row_effect(1) [OF assms(1)]
  by (simp add: find_task_def)

lemma text_report_tasks:
  "insert_text_report ev caller k aid kind s now d = Inr (d1, rid) \<Longrightarrow>
     tasks d1 = tasks d \<and> attempts d1 = attempts d \<and> rid = new_report_id ev"
  by (auto simp: insert_text_report_def result_simps dest!: insert_report_effect(1))

lemma checkpoint_report_tasks:
  "insert_checkpoint_report ev caller k aid kind s now d = Inr (d1, rid) \<Longrightarrow>
     tasks d1 = tasks d \<and> attempts d1 = attempts d \<and> rid = new_report_id ev"
  by (auto simp: insert_checkpoint_report_def result_simps dest!: insert_report_effect(1))

lemma owner_row:
  assumes "require_attempt_owner d caller k aid v op = Inr u"
  shows "\<exists>t ag ses. find_task d (cc_workspace caller) k = Some t \<and> t_version t = v \<and>
    cc_agent_id caller = Some ag \<and> cc_session_id caller = Some ses \<and>
    owner_attempt_matches d caller k aid ag ses"
  using assms by (auto simp: require_attempt_owner_def result_simps)

section \<open>The commands\<close>

lemma apply_edit_effect:
  assumes "apply_edit ev caller op k v title description hash d = Inr (d', res)"
  shows "\<exists>t. find_task d (cc_workspace caller) k = Some t \<and> t_version t = v \<and>
    \<not> is_terminal (t_state t) \<and> t_state t \<noteq> InProgress \<and>
    find_task d' (cc_workspace caller) k = Some (t\<lparr>
      t_title := (case title of None \<Rightarrow> t_title t | Some s \<Rightarrow> s),
      t_description := (case description of None \<Rightarrow> t_description t | Some s \<Rightarrow> s),
      t_version := v + 1, t_updated_by := cc_actor_id caller, t_updated_at := op_clock ev\<rparr>) \<and>
    attempts d' = attempts d"
proof -
  let ?f = "\<lambda>t. t\<lparr>t_title := (case title of None \<Rightarrow> t_title t | Some s \<Rightarrow> s),
      t_description := (case description of None \<Rightarrow> t_description t | Some s \<Rightarrow> s),
      t_version := v + 1, t_updated_by := cc_actor_id caller, t_updated_at := op_clock ev\<rparr>"
  from assms obtain t d1 where t: "find_task d (cc_workspace caller) k = Some t" "t_version t = v"
      "\<not> is_terminal (t_state t)" "t_state t \<noteq> InProgress"
    and upd: "update_task_row (cc_workspace caller) k ?f d = Inr d1"
    and fin: "finish_mutation ev caller op hash k (v + 1) ChgEdited None None None (op_clock ev) d1 =
        Inr (d', res)"
    by (auto simp: apply_edit_def result_simps)
  have "find_task d' (cc_workspace caller) k = Some (?f t)"
    by (rule find_task_update [OF upd refl _ t(1)]) (simp_all add: finish_mutation_fields [OF fin] t_key_def)
  with t show ?thesis
    by (simp add: finish_mutation_fields [OF fin] update_task_row_effect(1) [OF upd])
qed

lemma apply_assign_effect:
  assumes "apply_assign ev caller op k v agent_id hash d = Inr (d', res)"
  shows "\<exists>t. find_task d (cc_workspace caller) k = Some t \<and> t_version t = v \<and>
    \<not> is_terminal (t_state t) \<and> (\<forall>a. agent_id = Some a \<longrightarrow> assignable d a (cc_workspace caller)) \<and>
    find_task d' (cc_workspace caller) k = Some (t\<lparr>t_assigned_agent_id := agent_id,
      t_version := v + 1, t_updated_by := cc_actor_id caller, t_updated_at := op_clock ev\<rparr>) \<and>
    attempts d' = attempts d"
proof -
  let ?f = "\<lambda>t. t\<lparr>t_assigned_agent_id := agent_id, t_version := v + 1,
      t_updated_by := cc_actor_id caller, t_updated_at := op_clock ev\<rparr>"
  from assms obtain t d1 where t: "find_task d (cc_workspace caller) k = Some t" "t_version t = v"
      "\<not> is_terminal (t_state t)" "\<forall>a. agent_id = Some a \<longrightarrow> assignable d a (cc_workspace caller)"
    and upd: "update_task_row (cc_workspace caller) k ?f d = Inr d1"
    and fin: "finish_mutation ev caller op hash k (v + 1) ChgAssigned None None None (op_clock ev) d1 =
        Inr (d', res)"
    by (auto simp: apply_assign_def result_simps split: option.splits)
  have "find_task d' (cc_workspace caller) k = Some (?f t)"
    by (rule find_task_update [OF upd refl _ t(1)]) (simp_all add: finish_mutation_fields [OF fin] t_key_def)
  with t show ?thesis
    by (simp add: finish_mutation_fields [OF fin] update_task_row_effect(1) [OF upd])
qed

lemma apply_begin_effect:
  assumes "apply_begin ev caller op k wr v ck note hash d = Inr (d', res)"
  shows "\<exists>t ag ses. find_task d (cc_workspace caller) k = Some t \<and> t_version t = v \<and>
    cc_agent_id caller = Some ag \<and> cc_session_id caller = Some ses \<and>
    (\<exists>r. cc_reservation caller = Some r \<and> rf_task_id r = k \<and> rf_work_request_id r = wr) \<and>
    is_beginable (t_state t) \<and> t_current_attempt_id t = None \<and> t_assigned_agent_id t = Some ag \<and>
    t_last_checkpoint_id t = ck \<and>
    find_task d' (cc_workspace caller) k = Some (t\<lparr>t_state := InProgress, t_version := v + 1,
      t_current_attempt_id := Some (new_attempt_id ev), t_last_attempt_id := Some (new_attempt_id ev),
      t_pause_reason := None, t_updated_by := cc_actor_id caller, t_updated_at := op_clock ev\<rparr>) \<and>
    attempts d' = attempts d @ [begin_attempt_row ev caller k ag ses wr ck (op_clock ev)] \<and>
    (\<forall>b\<in>set (attempts d). is_barrier b \<longrightarrow> a_agent_id b \<noteq> ag)"
proof -
  let ?f = "\<lambda>t. t\<lparr>t_state := InProgress, t_version := v + 1,
      t_current_attempt_id := Some (new_attempt_id ev), t_last_attempt_id := Some (new_attempt_id ev),
      t_pause_reason := None, t_updated_by := cc_actor_id caller, t_updated_at := op_clock ev\<rparr>"
  from assms obtain ag ses t d1 d2 d3 rid where
    t: "find_task d (cc_workspace caller) k = Some t" "t_version t = v"
      "is_beginable (t_state t)" "t_current_attempt_id t = None" "t_assigned_agent_id t = Some ag"
      "t_last_checkpoint_id t = ck"
    and who: "cc_agent_id caller = Some ag" "cc_session_id caller = Some ses"
      "\<exists>r. cc_reservation caller = Some r \<and> rf_task_id r = k \<and> rf_work_request_id r = wr"
    and ia: "insert_attempt (begin_attempt_row ev caller k ag ses wr ck (op_clock ev)) d = Inr d1"
    and ins: "insert_text_report ev caller k (Some (new_attempt_id ev)) RNote note (op_clock ev) d1 =
        Inr (d2, rid)"
    and upd: "update_task_row (cc_workspace caller) k ?f d2 = Inr d3"
    and fin: "finish_mutation ev caller op hash k (v + 1) ChgBegun (Some (new_attempt_id ev)) (Some rid)
        None (op_clock ev) d3 = Inr (d', res)"
    unfolding apply_begin_def by (auto simp: result_simps Let_def split: option.splits)
  note ea = insert_attempt_effect [OF ia] and er = text_report_tasks [OF ins]
  have "find_task d' (cc_workspace caller) k = Some (?f t)"
    by (rule find_task_update [OF upd _ _ t(1)])
       (simp_all add: finish_mutation_fields [OF fin] t_key_def er ea(1))
  moreover have "attempts d' = attempts d @ [begin_attempt_row ev caller k ag ses wr ck (op_clock ev)]"
    by (simp add: finish_mutation_fields [OF fin] update_task_row_effect(1) [OF upd] er ea(1))
  moreover have "\<forall>b\<in>set (attempts d). is_barrier b \<longrightarrow> a_agent_id b \<noteq> ag"
    using ea(7) by (auto simp: begin_attempt_row_def is_barrier_def)
  ultimately show ?thesis using t who by blast
qed

lemma apply_checkpoint_effect:
  assumes "apply_checkpoint ev caller op k aid v ck hash d = Inr (d', res)"
  shows "\<exists>t ag ses. find_task d (cc_workspace caller) k = Some t \<and> t_version t = v \<and>
    cc_agent_id caller = Some ag \<and> cc_session_id caller = Some ses \<and>
    owner_attempt_matches d caller k aid ag ses \<and>
    find_task d' (cc_workspace caller) k = Some (t\<lparr>t_version := v + 1,
      t_last_checkpoint_id := Some (new_report_id ev), t_updated_by := cc_actor_id caller,
      t_updated_at := op_clock ev\<rparr>) \<and>
    attempts d' = attempts d"
proof -
  let ?f = "\<lambda>t. t\<lparr>t_version := v + 1, t_last_checkpoint_id := Some (new_report_id ev),
      t_updated_by := cc_actor_id caller, t_updated_at := op_clock ev\<rparr>"
  from assms obtain d1 d2 rid where
    own: "require_attempt_owner d caller k aid v op = Inr ()"
    and ins: "insert_checkpoint_report ev caller k aid RCheckpoint ck (op_clock ev) d = Inr (d1, rid)"
    and upd: "update_task_row (cc_workspace caller) k (\<lambda>t. t\<lparr>t_version := v + 1,
        t_last_checkpoint_id := Some rid, t_updated_by := cc_actor_id caller,
        t_updated_at := op_clock ev\<rparr>) d1 = Inr d2"
    and fin: "finish_mutation ev caller op hash k (v + 1) ChgCheckpoint (Some aid) (Some rid) None
        (op_clock ev) d2 = Inr (d', res)"
    by (auto simp: apply_checkpoint_def result_simps)
  note er = checkpoint_report_tasks [OF ins]
  from owner_row [OF own] obtain t ag ses where
    t: "find_task d (cc_workspace caller) k = Some t" "t_version t = v" "cc_agent_id caller = Some ag"
      "cc_session_id caller = Some ses" "owner_attempt_matches d caller k aid ag ses" by blast
  have "find_task d' (cc_workspace caller) k = Some (?f t)"
    using find_task_update [OF upd _ _ t(1), of d'] er
    by (simp add: finish_mutation_fields [OF fin] t_key_def)
  with t show ?thesis
    by (simp add: finish_mutation_fields [OF fin] update_task_row_effect(1) [OF upd] er)
qed

lemma apply_release_effect:
  assumes ap: "apply_release ev caller op k aid v ck ns completed hash d = Inr (d', res)"
  shows "\<exists>t ag ses. find_task d (cc_workspace caller) k = Some t \<and> t_version t = v \<and>
    cc_agent_id caller = Some ag \<and> cc_session_id caller = Some ses \<and>
    owner_attempt_matches d caller k aid ag ses \<and>
    find_task d' (cc_workspace caller) k = Some (t\<lparr>t_state := ns, t_version := v + 1,
      t_assigned_agent_id := (if ns = Done then None else t_assigned_agent_id t),
      t_current_attempt_id := None, t_last_attempt_id := Some aid,
      t_last_checkpoint_id := Some (new_report_id ev),
      t_result_report_id := (if ns = Done then Some (new_report_id ev) else t_result_report_id t),
      t_pause_reason := (if ns = Blocked then Some ReasonBlocked
                         else if ns = Paused then Some ReasonPaused else None),
      t_updated_by := cc_actor_id caller, t_updated_at := op_clock ev\<rparr>) \<and>
    attempts d' = update_where (\<lambda>a. a_id a = aid \<and> a_status a = Running)
      (\<lambda>a. a\<lparr>a_status := (if completed then Completed else Released), a_stop_evidence := EvReleased,
             a_reason := (if completed then None else if ns = Blocked then Some ReasonBlocked
                          else Some ReasonPaused),
             a_ended_at := Some (op_clock ev), a_stopped_at := Some (op_clock ev)\<rparr>) (attempts d) \<and>
    ar_closed_attempt_id res = Some aid"
proof -
  let ?h = "\<lambda>a. a\<lparr>a_status := (if completed then Completed else Released), a_stop_evidence := EvReleased,
             a_reason := (if completed then None else if ns = Blocked then Some ReasonBlocked
                          else Some ReasonPaused),
             a_ended_at := Some (op_clock ev), a_stopped_at := Some (op_clock ev)\<rparr>"
  let ?f = "\<lambda>rid t. t\<lparr>t_state := ns, t_version := v + 1,
      t_assigned_agent_id := (if ns = Done then None else t_assigned_agent_id t),
      t_current_attempt_id := None, t_last_attempt_id := Some aid, t_last_checkpoint_id := Some rid,
      t_result_report_id := (if ns = Done then Some rid else t_result_report_id t),
      t_pause_reason := (if ns = Blocked then Some ReasonBlocked
                         else if ns = Paused then Some ReasonPaused else None),
      t_updated_by := cc_actor_id caller, t_updated_at := op_clock ev\<rparr>"
  from ap obtain d1 d2 d3 rid n where
    own: "require_attempt_owner d caller k aid v op = Inr ()"
    and ins: "insert_checkpoint_report ev caller k aid (if completed then RResult else RCheckpoint)
        ck (op_clock ev) d = Inr (d1, rid)"
    and upa: "update_attempts (\<lambda>a. a_id a = aid \<and> a_status a = Running) ?h d1 = Inr (d2, n)"
    and upd: "update_task_row (cc_workspace caller) k (?f rid) d2 = Inr d3"
    and fin: "finish_mutation ev caller op hash k (v + 1) (if completed then ChgCompleted else ChgPaused)
        (Some aid) (Some rid) (Some aid) (op_clock ev) d3 = Inr (d', res)"
    unfolding apply_release_def by (auto simp: result_simps)
  note er = checkpoint_report_tasks [OF ins] and ea = update_attempts_effect(1) [OF upa]
  from owner_row [OF own] obtain t ag ses where
    t: "find_task d (cc_workspace caller) k = Some t" "t_version t = v" "cc_agent_id caller = Some ag"
      "cc_session_id caller = Some ses" "owner_attempt_matches d caller k aid ag ses" by blast
  have "find_task d' (cc_workspace caller) k = Some (?f rid t)"
    by (rule find_task_update [OF upd _ _ t(1)])
       (simp_all add: finish_mutation_fields [OF fin] t_key_def er ea)
  moreover have "ar_closed_attempt_id res = Some aid" using finish_mutation_effect [OF fin] by auto
  ultimately show ?thesis
    using t er by (simp add: finish_mutation_fields [OF fin] update_task_row_effect(1) [OF upd] ea)
qed

lemma apply_terminal_effect:
  assumes "apply_terminal ev caller op k v note next_state hash d = Inr (d', res)"
  shows "\<exists>t. find_task d (cc_workspace caller) k = Some t \<and> t_version t = v \<and>
    terminal_transition_valid next_state (t_state t) \<and>
    (\<forall>a\<in>set (attempts d). a_key a = (cc_workspace caller, k) \<longrightarrow>
       \<not> (a_status a = Interrupted \<and> a_stop_evidence a = EvUnknown)) \<and>
    find_task d' (cc_workspace caller) k = Some (t\<lparr>t_state := next_state, t_version := v + 1,
      t_assigned_agent_id := None, t_current_attempt_id := None,
      t_result_report_id := (if next_state = Todo then None else t_result_report_id t),
      t_pause_reason := None, t_updated_by := cc_actor_id caller, t_updated_at := op_clock ev\<rparr>) \<and>
    attempts d' = attempts d"
proof -
  let ?f = "\<lambda>t. t\<lparr>t_state := next_state, t_version := v + 1,
      t_assigned_agent_id := None, t_current_attempt_id := None,
      t_result_report_id := (if next_state = Todo then None else t_result_report_id t),
      t_pause_reason := None, t_updated_by := cc_actor_id caller, t_updated_at := op_clock ev\<rparr>"
  let ?aid = "task_last_attempt_id d (cc_workspace caller) k"
  from assms obtain t d1 d2 rid where
    t: "find_task d (cc_workspace caller) k = Some t" "t_version t = v"
      "terminal_transition_valid next_state (t_state t)"
      "\<forall>a\<in>set (attempts d). a_key a = (cc_workspace caller, k) \<longrightarrow>
         \<not> (a_status a = Interrupted \<and> a_stop_evidence a = EvUnknown)"
    and ins: "insert_text_report ev caller k ?aid RNote note (op_clock ev) d = Inr (d1, rid)"
    and upd: "update_task_row (cc_workspace caller) k ?f d1 = Inr d2"
    and fin: "finish_mutation ev caller op hash k (v + 1)
       (if next_state = Todo then ChgReopened else ChgCancelled) ?aid (Some rid) None (op_clock ev) d2 =
       Inr (d', res)"
    unfolding apply_terminal_def by (auto simp: result_simps Let_def)
  note er = text_report_tasks [OF ins]
  have "find_task d' (cc_workspace caller) k = Some (?f t)"
    by (rule find_task_update [OF upd _ _ t(1)])
       (simp_all add: finish_mutation_fields [OF fin] t_key_def er)
  with t show ?thesis
    by (simp add: finish_mutation_fields [OF fin] update_task_row_effect(1) [OF upd] er)
qed

lemma apply_interrupt_effect:
  assumes "apply_interrupt ev caller op k v note hash d = Inr (d', res)"
  shows "\<exists>t aid. find_task d (cc_workspace caller) k = Some t \<and> t_version t = v \<and>
    t_state t = InProgress \<and> t_current_attempt_id t = Some aid \<and>
    find_task d' (cc_workspace caller) k = Some (t\<lparr>t_state := Paused, t_version := v + 1,
      t_current_attempt_id := None, t_last_attempt_id := Some aid,
      t_pause_reason := Some OperatorInterrupt, t_updated_by := cc_actor_id caller,
      t_updated_at := op_clock ev\<rparr>) \<and>
    attempts d' = update_where (\<lambda>a. a_id a = aid \<and> a_status a = Running)
      (\<lambda>a. a\<lparr>a_status := Interrupted, a_stop_evidence := EvUnknown,
             a_reason := Some OperatorInterrupt, a_ended_at := Some (op_clock ev)\<rparr>) (attempts d) \<and>
    ar_closed_attempt_id res = Some aid"
proof -
  let ?h = "\<lambda>a. a\<lparr>a_status := Interrupted, a_stop_evidence := EvUnknown,
      a_reason := Some OperatorInterrupt, a_ended_at := Some (op_clock ev)\<rparr>"
  let ?f = "\<lambda>aid t. t\<lparr>t_state := Paused, t_version := v + 1, t_current_attempt_id := None,
      t_last_attempt_id := Some aid, t_pause_reason := Some OperatorInterrupt,
      t_updated_by := cc_actor_id caller, t_updated_at := op_clock ev\<rparr>"
  from assms obtain t aid d1 d2 d3 rid n where
    t: "find_task d (cc_workspace caller) k = Some t" "t_version t = v" "t_state t = InProgress"
    and cur: "task_current_attempt_id d (cc_workspace caller) k = Some aid"
    and ins: "insert_text_report ev caller k (Some aid) RNote note (op_clock ev) d = Inr (d1, rid)"
    and upa: "update_attempts (\<lambda>a. a_id a = aid \<and> a_status a = Running) ?h d1 = Inr (d2, n)"
    and upd: "update_task_row (cc_workspace caller) k (?f aid) d2 = Inr d3"
    and fin: "finish_mutation ev caller op hash k (v + 1) ChgInterrupted
       (Some aid) (Some rid) (Some aid) (op_clock ev) d3 = Inr (d', res)"
    by (auto simp: apply_interrupt_def result_simps)
  note er = text_report_tasks [OF ins] and ea = update_attempts_effect(1) [OF upa]
  have "find_task d' (cc_workspace caller) k = Some (?f aid t)"
    by (rule find_task_update [OF upd _ _ t(1)])
       (simp_all add: finish_mutation_fields [OF fin] t_key_def er ea)
  moreover have "ar_closed_attempt_id res = Some aid" using finish_mutation_effect [OF fin] by auto
  moreover have "t_current_attempt_id t = Some aid"
    using cur by (simp add: task_current_attempt_id_def t)
  ultimately show ?thesis
    using t er by (simp add: finish_mutation_fields [OF fin] update_task_row_effect(1) [OF upd] ea)
qed

lemma apply_confirm_stopped_effect:
  assumes "apply_confirm_stopped ev caller op k aid v note hash d = Inr (d', res)"
  shows "\<exists>t. find_task d (cc_workspace caller) k = Some t \<and> t_version t = v \<and>
    (\<exists>a\<in>set (attempts d). a_id a = aid \<and> a_key a = (cc_workspace caller, k) \<and>
       a_status a = Interrupted \<and> a_stop_evidence a = EvUnknown) \<and>
    find_task d' (cc_workspace caller) k = Some (t\<lparr>t_version := v + 1,
      t_updated_by := cc_actor_id caller, t_updated_at := op_clock ev\<rparr>) \<and>
    attempts d' = update_where (\<lambda>a. a_id a = aid)
      (\<lambda>a. a\<lparr>a_stop_evidence := EvConfirmed, a_stopped_at := Some (op_clock ev)\<rparr>) (attempts d)"
proof -
  let ?h = "\<lambda>a. a\<lparr>a_stop_evidence := EvConfirmed, a_stopped_at := Some (op_clock ev)\<rparr>"
  let ?f = "\<lambda>t. t\<lparr>t_version := v + 1, t_updated_by := cc_actor_id caller, t_updated_at := op_clock ev\<rparr>"
  from assms obtain t a d1 d2 d3 rid n where
    t: "find_task d (cc_workspace caller) k = Some t" "t_version t = v"
    and a: "a \<in> set (attempts d)" "a_id a = aid" "a_key a = (cc_workspace caller, k)"
      "a_status a = Interrupted" "a_stop_evidence a = EvUnknown"
    and ins: "insert_text_report ev caller k (Some aid) RNote note (op_clock ev) d = Inr (d1, rid)"
    and upa: "update_attempts (\<lambda>a. a_id a = aid) ?h d1 = Inr (d2, n)"
    and upd: "update_task_row (cc_workspace caller) k ?f d2 = Inr d3"
    and fin: "finish_mutation ev caller op hash k (v + 1) ChgStopped
       (Some aid) (Some rid) None (op_clock ev) d3 = Inr (d', res)"
    by (auto simp: apply_confirm_stopped_def result_simps)
  note er = text_report_tasks [OF ins] and ea = update_attempts_effect(1) [OF upa]
  have "find_task d' (cc_workspace caller) k = Some (?f t)"
    by (rule find_task_update [OF upd _ _ t(1)])
       (simp_all add: finish_mutation_fields [OF fin] t_key_def er ea)
  with t a er show ?thesis
    by (auto simp: finish_mutation_fields [OF fin] update_task_row_effect(1) [OF upd] ea)
qed

section \<open>The state machine of a task\<close>

text \<open>The transitions the code makes, by command. They are those of the table in the design notes,
  except that the code reopens only finished tasks.\<close>

inductive task_step :: "task_command \<Rightarrow> task_state \<Rightarrow> task_state \<Rightarrow> bool" where
  edit: "s \<in> {Todo, Blocked, Paused} \<Longrightarrow> task_step (CmdEdit op k v title desc) s s"
| assign: "s \<in> {Todo, InProgress, Blocked, Paused} \<Longrightarrow> task_step (CmdAssign op k v ag) s s"
| begin_work: "s \<in> {Todo, Blocked, Paused} \<Longrightarrow> task_step (CmdBegin op k wr v ck nt) s InProgress"
| checkpoint: "task_step (CmdCheckpoint op k aid v c) InProgress InProgress"
| pause: "task_step (CmdPause op k aid v c False) InProgress Paused"
| block: "task_step (CmdPause op k aid v c True) InProgress Blocked"
| complete: "task_step (CmdComplete op k aid v c) InProgress Done"
| cancel: "s \<in> {Todo, Blocked, Paused} \<Longrightarrow> task_step (CmdCancel op k v nt) s Cancelled"
| reopen: "s \<in> {Done, Cancelled} \<Longrightarrow> task_step (CmdReopen op k v nt) s Todo"
| interrupt: "task_step (CmdInterrupt op k v nt) InProgress Paused"
| confirm: "task_step (CmdConfirmStopped op k aid v nt) s s"

inductive_cases task_step_from_done: "task_step c Done s"
inductive_cases task_step_to_progress: "task_step c s InProgress"

lemma owner_in_progress:
  assumes "store_inv d" and "owner_attempt_matches d caller k aid ag ses"
    and "find_task d (cc_workspace caller) k = Some t"
  shows "t_state t = InProgress \<and> t_current_attempt_id t = Some aid"
proof -
  note ok = store_invD(2) [OF assms(1)]
  from find_task_SomeD [OF assms(3)] have t: "t \<in> set (tasks d)" "t_key t = (cc_workspace caller, k)"
    by auto
  from assms(2) obtain u where "u \<in> set (tasks d)" "t_key u = (cc_workspace caller, k)"
    "t_current_attempt_id u = Some aid"
    by (auto simp: owner_attempt_matches_def a_key_def)
  with exec_ok_same_task [OF ok _ t(1)] t(2) have "t_current_attempt_id t = Some aid" by auto
  with exec_ok_in_progress [OF ok t(1)] show ?thesis by simp
qed

lemma not_terminal_cases: "\<not> is_terminal s \<longleftrightarrow> s \<in> {Todo, InProgress, Blocked, Paused}"
  by (cases s) (simp_all add: is_terminal_def)

lemma beginable_cases: "is_beginable s \<longleftrightarrow> s \<in> {Todo, Blocked, Paused}"
  by (cases s) (simp_all add: is_beginable_def)

lemma terminal_valid_cases:
  "terminal_transition_valid Cancelled s \<longleftrightarrow> s \<in> {Todo, Blocked, Paused}"
  "terminal_transition_valid Todo s \<longleftrightarrow> s \<in> {Done, Cancelled}"
  by (cases s; simp add: terminal_transition_valid_def is_terminal_def)+

lemma dispatch_task_step:
  assumes inv: "store_inv d" and run: "dispatch ev caller hash c d = Inr (d', res)"
    and ct: "command_task c = Some (k, v)"
  shows "\<exists>t t'. find_task d (cc_workspace caller) k = Some t \<and>
    find_task d' (cc_workspace caller) k = Some t' \<and> task_step c (t_state t) (t_state t')"
proof -
  have progress: "t_state t = InProgress" if "owner_attempt_matches d caller k aid ag ses"
    "find_task d (cc_workspace caller) k = Some t" for aid ag ses t
    using owner_in_progress [OF inv that] by simp
  show ?thesis
  proof (cases c)
    case CmdEdit
    with run ct show ?thesis
      by (force dest!: apply_edit_effect simp: not_terminal_cases intro: task_step.edit)
  next
    case CmdAssign
    with run ct show ?thesis
      by (force dest!: apply_assign_effect simp: not_terminal_cases intro: task_step.assign)
  next
    case CmdBegin
    with run ct show ?thesis
      by (force dest!: apply_begin_effect simp: beginable_cases intro: task_step.begin_work)
  next
    case CmdCheckpoint
    with run ct show ?thesis
      by (force dest!: apply_checkpoint_effect dest: progress intro: task_step.checkpoint)
  next
    case (CmdPause op k' aid v' ck blocked)
    with run ct show ?thesis
      by (cases blocked)
         (force dest!: apply_release_effect dest: progress intro: task_step.pause task_step.block)+
  next
    case CmdComplete
    with run ct show ?thesis
      by (force dest!: apply_release_effect dest: progress intro: task_step.complete)
  next
    case CmdCancel
    with run ct show ?thesis
      by (force dest!: apply_terminal_effect simp: terminal_valid_cases intro: task_step.cancel)
  next
    case CmdReopen
    with run ct show ?thesis
      by (force dest!: apply_terminal_effect simp: terminal_valid_cases intro: task_step.reopen)
  next
    case CmdInterrupt
    with run ct show ?thesis
      by (force dest!: apply_interrupt_effect intro: task_step.interrupt)
  next
    case CmdConfirmStopped
    with run ct show ?thesis
      by (force dest!: apply_confirm_stopped_effect intro: task_step.confirm)
  qed (use ct in simp_all)
qed

end
