(* ===== verification/Store_Aside.thy ===== *)
theory Store_Aside
  imports Task_Effects Credentials
begin

text \<open>
  What an operation of the store leaves alone, and the interface of a state machine: a locale states what
  an invariant and a monotone relation of a machine need.
\<close>

section \<open>Machines\<close>

locale machine =
  fixes step :: "'s \<Rightarrow> 's \<Rightarrow> bool" and inv :: "'s \<Rightarrow> bool" and ext :: "'s \<Rightarrow> 's \<Rightarrow> bool"
  assumes step_inv: "inv s \<Longrightarrow> step s s' \<Longrightarrow> inv s'"
    and step_ext: "inv s \<Longrightarrow> step s s' \<Longrightarrow> ext s s'"
    and ext_refl: "ext s s"
    and ext_trans: "ext s s1 \<Longrightarrow> ext s1 s2 \<Longrightarrow> ext s s2"
begin

lemma run_inv: "step\<^sup>*\<^sup>* s s' \<Longrightarrow> inv s \<Longrightarrow> inv s'"
  by (induction rule: rtranclp_induct) (auto intro: step_inv)

lemma run_ext: "step\<^sup>*\<^sup>* s s' \<Longrightarrow> inv s \<Longrightarrow> ext s s'"
proof (induction rule: rtranclp_induct)
  case base
  show ?case by (rule ext_refl)
next
  case (step s1 s2)
  then show ?case by (blast intro: ext_trans step_ext run_inv)
qed

end

section \<open>What a step leaves alone\<close>

text \<open>Events are only added; \<open>aside\<close> also says credentials and invites are untouched.\<close>

definition appends :: "db \<Rightarrow> db \<Rightarrow> bool" where
  "appends d d' \<longleftrightarrow> prefix (events d) (events d')"

definition aside :: "db \<Rightarrow> db \<Rightarrow> bool" where
  "aside d d' \<longleftrightarrow> appends d d' \<and> credentials d' = credentials d \<and> invites d' = invites d"

lemma appends_refl [simp]: "appends d d"
  by (simp add: appends_def)

lemma appends_trans: "appends d d1 \<Longrightarrow> appends d1 d2 \<Longrightarrow> appends d d2"
  unfolding appends_def by (rule prefix_order.trans)

lemma aside_refl [simp]: "aside d d"
  by (simp add: aside_def)

lemma aside_trans: "aside d d1 \<Longrightarrow> aside d1 d2 \<Longrightarrow> aside d d2"
  by (auto simp: aside_def intro: appends_trans)

lemma aside_same_events:
  "events d1 = events d \<Longrightarrow> credentials d1 = credentials d \<Longrightarrow> invites d1 = invites d \<Longrightarrow>
     aside d1 d2 \<Longrightarrow> aside d d2"
  by (simp add: aside_def appends_def)

lemma append_aside: "append_event_in_transaction clock i d = Inr (d', e) \<Longrightarrow> aside d d'"
  by (simp add: aside_def appends_def append_event_fields)

lemma enroll_inv_aside: "aside d d' \<Longrightarrow> enroll_inv d \<Longrightarrow> enroll_inv d'"
  by (simp add: aside_def enroll_inv_def)

lemma dispatch_aside:
  assumes "dispatch ev caller hash c d = Inr (d', res)"
  shows "aside d d'"
  using dispatch_finishes [OF assms] finish_mutation_fields
  by (fastforce simp: finishes_def log_same_def aside_def appends_def)

lemma apply_task_aside:
  assumes "apply_task ev caller c d = Inr (d', res)"
  shows "aside d d'"
proof (cases "mutation_receipt d (cc_workspace caller) (operation_id c)")
  case None
  with assms show ?thesis by (auto simp: apply_task_fresh intro: dispatch_aside)
next
  case (Some m)
  with assms show ?thesis
    by (auto simp: apply_task_def result_simps Let_def dest: replay_receipt_same)
qed

lemma interrupt_attempt_aside:
  assumes "interrupt_attempt clock eclock aid reason d = Inr (d', r)"
  shows "aside d d'"
  using assms
  by (auto simp: interrupt_attempt_def result_simps split: option.splits if_splits
      dest!: update_attempts_effect(1) update_tasks_effect(1) append_aside
      intro: aside_same_events [rotated 3])

lemma record_execution_stopped_aside:
  assumes "record_execution_stopped clock eclock ws k aid ses ag cr reason d = Inr (d', r)"
  shows "aside d d'"
  using assms
  by (auto simp: record_execution_stopped_def result_simps split: option.splits if_splits
      dest!: update_attempts_effect(1) update_tasks_effect(1) append_aside
      intro: aside_same_events [rotated 3])

lemma recover_attempt_aside: "recover_attempt now clock a d = Inr d' \<Longrightarrow> aside d d'"
  by (auto simp: recover_attempt_def result_simps
      dest!: update_attempts_effect(1) update_tasks_effect(1) append_aside
      intro: aside_same_events [rotated 3])

lemma recover_operation_aside: "recover_operation now clock x d = Inr d' \<Longrightarrow> aside d d'"
  by (auto simp: recover_operation_def result_simps update_external_operations_def
      dest!: append_aside split: prod.splits intro: aside_same_events [rotated 3])

lemma loopR_aside:
  assumes "loopR c f xs d = Inr d'" and "\<And>n x d d'. f n x d = Inr d' \<Longrightarrow> aside d d'"
  shows "aside d d'"
  using loopR_preserves [OF assms(1), of "aside d"] assms(2) aside_trans by (metis aside_refl)

lemma recover_external_operations_aside:
  "recover_external_operations clock clocks d = Inr d' \<Longrightarrow> aside d d'"
  by (auto simp: recover_external_operations_def result_simps
      intro: loopR_aside recover_operation_aside)

lemma recover_unfinished_requests_aside:
  "recover_unfinished_requests clocks d = Inr d' \<Longrightarrow> aside d d'"
  by (auto simp: recover_unfinished_requests_def result_simps elim!: loopR_aside intro: append_aside)

lemma recover_running_attempts_aside:
  "recover_running_attempts clock clocks d = Inr d' \<Longrightarrow> aside d d'"
  by (auto simp: recover_running_attempts_def result_simps elim!: loopR_aside intro: recover_attempt_aside)

lemma recover_aside: "recover rc d = Inr d' \<Longrightarrow> aside d d'"
  by (auto simp: recover_def result_simps dest!: recover_unfinished_requests_aside
      recover_running_attempts_aside recover_external_operations_aside intro: aside_trans)

end
