(* ===== verification/External_Inv.thy ===== *)
theory External_Inv
  imports External_Finish Store_Aside
begin

text \<open>
  The invariant of links, external operations and resolutions, and how an operation moves: prepared,
  dispatched, unconfirmed, settled, never back. Each statement of the external operations keeps the
  invariant of the tasks and this one.
\<close>

section \<open>The invariant\<close>

definition task_keys :: "db \<Rightarrow> (workspace_name \<times> int) set" where
  "task_keys d = t_key ` set (tasks d)"

fun kind_matches :: "external_operation_kind \<Rightarrow> operation_payload \<Rightarrow> bool" where
  "kind_matches OpImport (PayImport _) = True"
| "kind_matches OpLink (PayLink _ _ _) = True"
| "kind_matches OpPublishIssue (PayPublishIssue _ _ _ _) = True"
| "kind_matches OpPublishReport (PayPublishReport _ _ _ _ _) = True"
| "kind_matches _ _ = False"

text \<open>A row is terminal when its operation no longer runs; only an import has no task, and gets one when
  it succeeds.\<close>

definition operation_ok :: "(workspace_name \<times> int) set \<Rightarrow> external_operation_row \<Rightarrow> bool" where
  "operation_ok ts x \<longleftrightarrow>
     (x_phase x = Terminal \<longleftrightarrow> x_status x \<noteq> OpRunning) \<and> kind_matches (x_kind x) (x_payload x) \<and>
     (\<forall>i. x_task_id x = Some i \<longrightarrow> (x_workspace x, i) \<in> ts) \<and>
     (x_task_id x = None \<longleftrightarrow> x_kind x = OpImport \<and> x_status x \<noteq> OpSucceeded)"

text \<open>A task's slot at a provider is held by an operation on it that runs or is unconfirmed.\<close>

definition holds_slot :: "external_operation_row \<Rightarrow> bool" where
  "holds_slot x \<longleftrightarrow> blocking x \<and> x_task_id x \<noteq> None"

definition x_slot :: "external_operation_row \<Rightarrow> workspace_name \<times> int option \<times> external_provider" where
  "x_slot x = (x_workspace x, x_task_id x, x_provider x)"

definition operations_ok :: "(workspace_name \<times> int) set \<Rightarrow> external_operation_row list \<Rightarrow> bool" where
  "operations_ok ts xs \<longleftrightarrow>
     distinct (map x_key xs) \<and> (\<forall>x\<in>set xs. operation_ok ts x) \<and>
     distinct (map x_slot (filter holds_slot xs))"

definition links_ok :: "(workspace_name \<times> int) set \<Rightarrow> link_row list \<Rightarrow> bool" where
  "links_ok ts ls \<longleftrightarrow>
     distinct (map l_key ls) \<and> distinct (map l_external ls) \<and>
     (\<forall>l\<in>set ls. (l_workspace l, l_task_id l) \<in> ts)"

definition resolved_as :: "external_resolution \<Rightarrow> external_operation_row \<Rightarrow> bool" where
  "resolved_as r x \<longleftrightarrow>
     is_publish (x_kind x) \<and>
     (case er_outcome r of NotApplied \<Rightarrow> x_status x = OpFailed
      | Applied \<Rightarrow> x_status x = OpSucceeded \<and> x_external_id x = er_external_id r)"

definition resolutions_ok :: "external_operation_row list \<Rightarrow> resolution_row list \<Rightarrow> bool" where
  "resolutions_ok xs vs \<longleftrightarrow>
     distinct (map v_key vs) \<and> distinct (map v_operation vs) \<and>
     (\<forall>v\<in>set vs. \<exists>x\<in>set xs. x_key x = v_operation v \<and> resolved_as (v_resolution v) x)"

definition ext_inv :: "db \<Rightarrow> bool" where
  "ext_inv d \<longleftrightarrow>
     operations_ok (task_keys d) (external_operations d) \<and> links_ok (task_keys d) (links d) \<and>
     resolutions_ok (external_operations d) (resolutions d) \<and> distinct (map b_key (bindings d))"

lemma ext_invD:
  assumes "ext_inv d"
  shows "operations_ok (task_keys d) (external_operations d)" "links_ok (task_keys d) (links d)"
    "resolutions_ok (external_operations d) (resolutions d)" "distinct (map b_key (bindings d))"
  using assms by (simp_all add: ext_inv_def)

section \<open>How an operation moves\<close>

definition same_operation :: "external_operation_row \<Rightarrow> external_operation_row \<Rightarrow> bool" where
  "same_operation x y \<longleftrightarrow>
     x_key y = x_key x \<and> x_actor_id y = x_actor_id x \<and> x_provider y = x_provider x \<and>
     x_namespace y = x_namespace x \<and> x_kind y = x_kind x \<and> x_request_hash y = x_request_hash x \<and>
     x_payload y = x_payload x \<and> x_created_at y = x_created_at x"

definition stage :: "external_operation_row \<Rightarrow> nat" where
  "stage x =
     (case x_status x of
        OpRunning \<Rightarrow> (if x_phase x = Prepared then 0 else 1)
      | OpUnconfirmed \<Rightarrow> 2 | _ \<Rightarrow> 3)"

definition op_le :: "external_operation_row \<Rightarrow> external_operation_row \<Rightarrow> bool" where
  "op_le x y \<longleftrightarrow>
     same_operation x y \<and> stage x \<le> stage y \<and> (stage x = 3 \<longrightarrow> y = x) \<and>
     (x_task_id y = x_task_id x \<or> x_kind x = OpImport \<and> x_status y = OpSucceeded)"

definition ops_grow :: "external_operation_row list \<Rightarrow> external_operation_row list \<Rightarrow> bool" where
  "ops_grow xs ys \<longleftrightarrow> (\<forall>x\<in>set xs. \<exists>y\<in>set ys. op_le x y)"

lemma op_le_refl [simp]: "op_le x x"
  by (simp add: op_le_def same_operation_def)

lemma stage_le_3: "stage x \<le> 3"
  by (simp add: stage_def split: external_operation_status.splits)

lemma op_le_trans:
  assumes "op_le x y" and "op_le y z"
  shows "op_le x z"
  using assms stage_le_3 [of y] stage_le_3 [of z]
  by (auto simp: op_le_def same_operation_def stage_def split: external_operation_status.splits)

lemma ops_grow_refl [simp]: "ops_grow xs xs"
  by (auto simp: ops_grow_def intro: op_le_refl)

lemma ops_grow_trans: "ops_grow xs ys \<Longrightarrow> ops_grow ys zs \<Longrightarrow> ops_grow xs zs"
  unfolding ops_grow_def by (meson op_le_trans)

lemma ops_grow_append: "ops_grow xs (xs @ ys)"
  by (auto simp: ops_grow_def intro: op_le_refl)

lemma ops_grow_update:
  assumes "\<And>x. x \<in> set xs \<Longrightarrow> P x \<Longrightarrow> op_le x (f x)"
  shows "ops_grow xs (update_where P f xs)"
  unfolding ops_grow_def
proof
  fix x assume x: "x \<in> set xs"
  then show "\<exists>y\<in>set (update_where P f xs). op_le x y"
    using assms by (cases "P x") (auto simp: set_update_where intro: op_le_refl)
qed

lemma stage_simps:
  "stage x = 0 \<longleftrightarrow> x_status x = OpRunning \<and> x_phase x = Prepared"
  "stage x \<le> Suc 0 \<longleftrightarrow> x_status x = OpRunning"
  "stage x = 3 \<longleftrightarrow> x_status x = OpSucceeded \<or> x_status x = OpFailed"
  "stage x = 2 \<longleftrightarrow> x_status x = OpUnconfirmed"
  by (cases "x_status x"; simp add: stage_def)+

section \<open>Keeping the tables well formed\<close>

lemma operation_ok_mono: "operation_ok ts x \<Longrightarrow> ts \<subseteq> ts' \<Longrightarrow> operation_ok ts' x"
  by (auto simp: operation_ok_def)

lemma operations_okD:
  assumes "operations_ok ts xs"
  shows "distinct (map x_key xs)" "x \<in> set xs \<Longrightarrow> operation_ok ts x"
    "distinct (map x_slot (filter holds_slot xs))"
  using assms by (simp_all add: operations_ok_def)

lemma operations_ok_mono: "operations_ok ts xs \<Longrightarrow> ts \<subseteq> ts' \<Longrightarrow> operations_ok ts' xs"
  by (auto simp: operations_ok_def intro: operation_ok_mono)

lemma links_ok_mono: "links_ok ts ls \<Longrightarrow> ts \<subseteq> ts' \<Longrightarrow> links_ok ts' ls"
  by (auto simp: links_ok_def)

lemma operations_ok_update:
  assumes ok: "operations_ok ts xs"
    and key: "\<And>x. P x \<Longrightarrow> x_key (f x) = x_key x"
    and new: "\<And>x. x \<in> set xs \<Longrightarrow> P x \<Longrightarrow> operation_ok ts (f x)"
    and slot: "\<And>x. x \<in> set xs \<Longrightarrow> P x \<Longrightarrow> holds_slot (f x) \<Longrightarrow> holds_slot x \<and> x_slot (f x) = x_slot x"
  shows "operations_ok ts (update_where P f xs)"
  unfolding operations_ok_def
proof (intro conjI ballI)
  show "distinct (map x_key (update_where P f xs))"
    using operations_okD(1) [OF ok] by (simp add: map_update_where key)
  show "operation_ok ts x" if "x \<in> set (update_where P f xs)" for x
    using that new operations_okD(2) [OF ok] by (auto simp: set_update_where)
  have sub: "distinct (map x_slot (filter holds_slot ys)) \<Longrightarrow> set ys \<subseteq> set xs \<Longrightarrow>
      distinct (map x_slot (filter holds_slot (update_where P f ys)))" for ys
  proof (induction ys)
    case Nil
    then show ?case by (simp add: update_where_def)
  next
    case (Cons y ys)
    have img: "x_slot ` {x \<in> set (update_where P f ys). holds_slot x} \<subseteq> x_slot ` {x \<in> set ys. holds_slot x}"
      using slot Cons.prems(2) by (force simp: update_where_def)
    define z where "z = (if P y then f y else y)"
    have z: "holds_slot z \<Longrightarrow> holds_slot y \<and> x_slot z = x_slot y"
      using slot Cons.prems(2) by (auto simp: z_def)
    have upd: "update_where P f (y # ys) = z # update_where P f ys"
      by (simp add: update_where_def z_def)
    have rest: "distinct (map x_slot (filter holds_slot (update_where P f ys)))"
      using Cons by (cases "holds_slot y") auto
    show ?case
    proof (cases "holds_slot z")
      case True
      then have "x_slot y \<notin> x_slot ` {x \<in> set ys. holds_slot x}" using z Cons.prems(1) by auto
      then have "x_slot z \<notin> x_slot ` {x \<in> set (update_where P f ys). holds_slot x}"
        using img z [OF True] by (metis subsetD)
      with True rest show ?thesis by (simp add: upd)
    qed (simp add: upd rest)
  qed
  show "distinct (map x_slot (filter holds_slot (update_where P f xs)))"
    using sub [OF operations_okD(3) [OF ok]] by simp
qed

lemma operations_ok_insert:
  assumes ok: "operations_ok ts xs" and "x_key x \<notin> x_key ` set xs" and "operation_ok ts x"
    and "\<And>y. y \<in> set xs \<Longrightarrow> holds_slot y \<Longrightarrow> holds_slot x \<Longrightarrow> x_slot y \<noteq> x_slot x"
  shows "operations_ok ts (xs @ [x])"
  using assms by (force simp: operations_ok_def)

text \<open>Resolved operations are settled, so a change to operations in flight does not touch them.\<close>

lemma resolutions_ok_update:
  assumes ok: "resolutions_ok xs vs" and P: "\<And>x. P x \<Longrightarrow> blocking x"
  shows "resolutions_ok (update_where P f xs) vs"
proof -
  have "\<exists>y\<in>set (update_where P f xs). x_key y = v_operation v \<and> resolved_as (v_resolution v) y"
    if v: "v \<in> set vs" for v
  proof -
    from ok v obtain x where x: "x \<in> set xs" "x_key x = v_operation v" "resolved_as (v_resolution v) x"
      unfolding resolutions_ok_def by blast
    then have "\<not> P x"
      using P [of x] by (auto simp: resolved_as_def blocking_def split: external_resolution_outcome.splits)
    with x show ?thesis by (auto simp: set_update_where)
  qed
  with ok show ?thesis by (auto simp: resolutions_ok_def)
qed

lemma resolutions_ok_grow: "resolutions_ok xs vs \<Longrightarrow> resolutions_ok (xs @ ys) vs"
  by (auto simp: resolutions_ok_def)

section \<open>Operations that leave the integrations alone\<close>

definition apart :: "db \<Rightarrow> db \<Rightarrow> bool" where
  "apart d d' \<longleftrightarrow>
     links d' = links d \<and> external_operations d' = external_operations d \<and>
     resolutions d' = resolutions d \<and> bindings d' = bindings d \<and> task_keys d \<subseteq> task_keys d'"

lemma apart_refl [simp]: "apart d d"
  by (simp add: apart_def)

lemma apart_trans: "apart d d1 \<Longrightarrow> apart d1 d2 \<Longrightarrow> apart d d2"
  by (auto simp: apart_def)

lemma ext_inv_apart: "apart d d' \<Longrightarrow> ext_inv d \<Longrightarrow> ext_inv d'"
  by (auto simp: apart_def ext_inv_def intro: operations_ok_mono links_ok_mono)

lemma task_keys_update: "(\<And>t. t_key (f t) = t_key t) \<Longrightarrow> t_key ` set (update_where P f ts) = t_key ` set ts"
  by (rule keys_update_where) simp

end
