(* ===== verification/External_Keep.thy ===== *)
theory External_Keep
  imports External_Inv
begin

text \<open>
  Every statement and every step of an external operation keeps both invariants and only moves
  operations forward. \<open>tracks\<close> says that what a worker carries agrees with the stored operation while it
  runs.
\<close>

section \<open>Sound states and steps onward\<close>

definition sound :: "db \<Rightarrow> bool" where
  "sound d \<longleftrightarrow> store_inv d \<and> ext_inv d"

definition onward :: "db \<Rightarrow> db \<Rightarrow> bool" where
  "onward d d' \<longleftrightarrow> aside d d' \<and> ops_grow (external_operations d) (external_operations d')"

lemma onward_refl [simp]: "onward d d"
  by (simp add: onward_def)

lemma onward_trans: "onward d d1 \<Longrightarrow> onward d1 d2 \<Longrightarrow> onward d d2"
  by (auto simp: onward_def intro: aside_trans ops_grow_trans)

definition tracks :: "prepared_operation \<Rightarrow> db \<Rightarrow> bool" where
  "tracks p d \<longleftrightarrow>
     (\<exists>x\<in>set (external_operations d). x_key x = (po_workspace p, eo_id (po_summary p)) \<and>
        x_provider x = eo_provider (po_summary p) \<and> x_namespace x = po_namespace p \<and>
        x_actor_id x = po_actor_id p \<and> x_kind x = eo_kind (po_summary p) \<and>
        po_payload p = Some (x_payload x) \<and>
        (x_status x = OpRunning \<longrightarrow> x_task_id x = eo_task_id (po_summary p)))"

lemma tracks_onward:
  assumes "tracks p d" and "ops_grow (external_operations d) (external_operations d')"
  shows "tracks p d'"
proof -
  from assms(1) obtain x where x: "x \<in> set (external_operations d)"
    "x_key x = (po_workspace p, eo_id (po_summary p))" "x_provider x = eo_provider (po_summary p)"
    "x_namespace x = po_namespace p" "x_actor_id x = po_actor_id p" "x_kind x = eo_kind (po_summary p)"
    "po_payload p = Some (x_payload x)"
    "x_status x = OpRunning \<longrightarrow> x_task_id x = eo_task_id (po_summary p)"
    unfolding tracks_def by blast
  from assms(2) x(1) obtain y where y: "y \<in> set (external_operations d')" "op_le x y"
    unfolding ops_grow_def by blast
  have "x_task_id y = eo_task_id (po_summary p)" if "x_status y = OpRunning"
  proof -
    from that y(2) have "stage x \<le> Suc 0" by (auto simp: op_le_def stage_def split: if_splits)
    then have "x_status x = OpRunning" by (simp add: stage_simps)
    with x(8) y(2) that show ?thesis by (auto simp: op_le_def)
  qed
  with x(2-7) y show ?thesis
    unfolding tracks_def op_le_def same_operation_def by (intro bexI [of _ y]) auto
qed

lemma tracks_same: "external_operations d' = external_operations d \<Longrightarrow> tracks p d' = tracks p d"
  by (simp add: tracks_def)

section \<open>Statements\<close>

lemma sqlR_eq_Inr [simp, result_simps]: "sqlR m = Inr x \<longleftrightarrow> m = Inr x"
  by (simp add: sqlR_def)

lemma storeR_eq_Inr [simp, result_simps]: "storeR m = Inr x \<longleftrightarrow> m = Inr x"
  by (simp add: storeR_def)

lemma commit_eq_Inr [result_simps]: "commit d = Inr d' \<longleftrightarrow> d' = d \<and> deferred_ok d"
  by (auto simp: commit_def)

lemma store_inv_ext [simp]:
  "store_inv (d\<lparr>links := ls\<rparr>) = store_inv d"
  "store_inv (d\<lparr>external_operations := xs\<rparr>) = store_inv d"
  "store_inv (d\<lparr>resolutions := vs\<rparr>) = store_inv d"
  "store_inv (d\<lparr>bindings := bs\<rparr>) = store_inv d"
  by (simp_all add: store_inv_def log_inv_def workspace_log_def receipts_ok_def creds_ok_def)

lemma task_keys_ext [simp]:
  "task_keys (d\<lparr>links := ls\<rparr>) = task_keys d" "task_keys (d\<lparr>external_operations := xs\<rparr>) = task_keys d"
  "task_keys (d\<lparr>resolutions := vs\<rparr>) = task_keys d" "task_keys (d\<lparr>bindings := bs\<rparr>) = task_keys d"
  by (simp_all add: task_keys_def)

lemma aside_ext [simp]:
  "aside d (d\<lparr>links := ls\<rparr>)" "aside d (d\<lparr>external_operations := xs\<rparr>)" "aside d (d\<lparr>resolutions := vs\<rparr>)"
  "aside d (d\<lparr>bindings := bs\<rparr>)" "aside d (d\<lparr>tasks := ts\<rparr>)"
  by (simp_all add: aside_def appends_def)

lemma task_exists_keys: "task_exists d k \<longleftrightarrow> k \<in> task_keys d"
  by (auto simp: task_exists_iff task_keys_def)

text \<open>A step that leaves the integrations alone.\<close>

lemma sound_apart:
  "sound d \<Longrightarrow> store_inv d' \<Longrightarrow> apart d d' \<Longrightarrow> aside d d' \<Longrightarrow> sound d' \<and> onward d d'"
  by (simp add: sound_def onward_def ext_inv_apart) (simp add: apart_def)

lemma append_apart: "append_event_in_transaction clock i d = Inr (d', e) \<Longrightarrow> apart d d'"
  by (simp add: apart_def task_keys_def append_event_fields)

lemma append_sound:
  assumes "sound d" and app: "append_event_in_transaction clock i d = Inr (d', e)"
  shows "sound d' \<and> onward d d' \<and> external_operations d' = external_operations d"
proof -
  from assms(1) have "store_inv d" by (simp add: sound_def)
  from sound_apart [OF assms(1) store_inv_append [OF this app] append_apart [OF app] append_aside [OF app]]
  show ?thesis using append_event_fields [OF app] by simp
qed

lemma append_task_event_sound:
  assumes "sound d" and "append_external_task_event clock ws actor task_id op d = Inr (d', e)"
  shows "sound d' \<and> onward d d' \<and> external_operations d' = external_operations d"
  using assms by (auto simp: append_external_task_event_def result_simps dest!: append_sound [rotated])

lemma touch_task_sound:
  assumes "sound d" and run: "touch_task ws task_id actor now d = Inr (d', n)"
  shows "sound d' \<and> onward d d' \<and> external_operations d' = external_operations d"
proof -
  from assms(1) have inv: "store_inv d" by (simp add: sound_def)
  note upd = run [unfolded touch_task_def]
  have bumped: "t_key (t\<lparr>t_version := v, t_updated_by := actor, t_updated_at := now\<rparr>) = t_key t" for t v
    by (simp add: t_key_def)
  have "store_inv d'"
    by (rule store_inv_tasks [OF inv upd]) (auto simp: t_key_def)
  moreover have "apart d d'" "aside d d'"
    using update_tasks_effect(1) [OF upd] bumped
    by (simp_all add: apart_def task_keys_def task_keys_update)
  ultimately show ?thesis
    using sound_apart [OF assms(1)] by (simp add: apart_def)
qed

lemma links_ok_insert:
  assumes "links_ok ts ls" and "l_key l \<notin> l_key ` set ls" and "l_external l \<notin> l_external ` set ls"
    and "(l_workspace l, l_task_id l) \<in> ts"
  shows "links_ok ts (ls @ [l])"
  using assms by (auto simp: links_ok_def)

lemma insert_link_sound:
  assumes "sound d" and ins: "insert_link l d = Inr d'"
  shows "sound d' \<and> onward d d' \<and> external_operations d' = external_operations d"
proof -
  from ins have d': "d' = d\<lparr>links := links d @ [l]\<rparr>" and new: "l_key l \<notin> l_key ` set (links d)"
    "l_external l \<notin> l_external ` set (links d)" "(l_workspace l, l_task_id l) \<in> task_keys d"
    by (auto simp: insert_link_def task_exists_keys split: if_splits)
  from links_ok_insert [OF _ new] assms(1) show ?thesis
    by (simp add: d' sound_def onward_def ext_inv_def)
qed

lemma upsert_link_sound:
  assumes "sound d" and ups: "upsert_link l d = Inr d'"
  shows "sound d' \<and> onward d d' \<and> external_operations d' = external_operations d"
proof (cases "l_key l \<in> l_key ` set (links d)")
  case False
  with ups have "insert_link l d = Inr d'" by (auto simp: upsert_link_def image_iff split: if_splits)
  with assms(1) show ?thesis by (rule insert_link_sound)
next
  case True
  then obtain k where k: "k \<in> set (links d)" "l_key k = l_key l" by auto
  from assms(1) have ok: "links_ok (task_keys d) (links d)" by (simp add: sound_def ext_inv_def)
  then have dk: "distinct (map l_key (links d))" and de: "distinct (map l_external (links d))"
    and tk: "\<And>x. x \<in> set (links d) \<Longrightarrow> (l_workspace x, l_task_id x) \<in> task_keys d"
    by (auto simp: links_ok_def)
  let ?ls = "update_where (\<lambda>x. l_key x = l_key l) (\<lambda>_. l) (links d)"
  from ups True have d': "d' = d\<lparr>links := ?ls\<rparr>"
    and other: "\<And>x. x \<in> set (links d) \<Longrightarrow> l_key x \<noteq> l_key l \<Longrightarrow> l_external x \<noteq> l_external l"
    by (auto simp: upsert_link_def image_iff split: if_splits)
  have keys: "map l_key ?ls = map l_key (links d)" by (rule map_update_where) simp
  have mem: "x \<in> set ?ls \<longleftrightarrow> x = l \<or> x \<in> set (links d) \<and> l_key x \<noteq> l_key l" for x
    using in_set_update_where_key [OF dk k(1), of x "\<lambda>_. l"] k(2) by simp
  have "inj_on l_external (set ?ls)"
  proof (rule inj_onI)
    fix x y assume xy: "x \<in> set ?ls" "y \<in> set ?ls" "l_external x = l_external y"
    from xy other [of x] other [of y] show "x = y"
      using distinct_key_eq [OF de, of x y] by (auto simp: mem)
  qed
  moreover have "distinct ?ls" using keys dk by (metis distinct_map)
  ultimately have "distinct (map l_external ?ls)" by (simp add: distinct_map)
  moreover have "(l_workspace l, l_task_id l) \<in> task_keys d"
    using tk [OF k(1)] k(2) by (simp add: l_key_def)
  ultimately have "links_ok (task_keys d) ?ls"
    using keys dk tk by (auto simp: links_ok_def mem)
  with assms(1) show ?thesis by (simp add: d' sound_def onward_def ext_inv_def)
qed

section \<open>Operations\<close>

lemma sound_operations:
  assumes "sound d" and "operations_ok (task_keys d) xs" and "resolutions_ok xs (resolutions d)"
    and "ops_grow (external_operations d) xs"
  shows "sound (d\<lparr>external_operations := xs\<rparr>) \<and> onward d (d\<lparr>external_operations := xs\<rparr>)"
  using assms by (simp add: sound_def onward_def ext_inv_def)

lemma sound_operationD:
  assumes "sound d" and "x \<in> set (external_operations d)"
  shows "operation_ok (task_keys d) x"
  using assms operations_okD(2) by (auto simp: sound_def ext_inv_def)

lemma sound_keys: "sound d \<Longrightarrow> distinct (map x_key (external_operations d))"
  by (simp add: sound_def ext_inv_def operations_ok_def)

lemma update_operations_sound:
  assumes "sound d"
    and key: "\<And>x. P x \<Longrightarrow> x_key (f x) = x_key x"
    and flight: "\<And>x. P x \<Longrightarrow> blocking x"
    and new: "\<And>x. x \<in> set (external_operations d) \<Longrightarrow> P x \<Longrightarrow> operation_ok (task_keys d) (f x)"
    and slot: "\<And>x. x \<in> set (external_operations d) \<Longrightarrow> P x \<Longrightarrow> holds_slot (f x) \<Longrightarrow>
      holds_slot x \<and> x_slot (f x) = x_slot x"
    and move: "\<And>x. x \<in> set (external_operations d) \<Longrightarrow> P x \<Longrightarrow> op_le x (f x)"
    and d': "d' = d\<lparr>external_operations := update_where P f (external_operations d)\<rparr>"
  shows "sound d' \<and> onward d d'"
proof -
  from assms(1) have ops: "operations_ok (task_keys d) (external_operations d)"
    and res: "resolutions_ok (external_operations d) (resolutions d)"
    by (simp_all add: sound_def ext_inv_def)
  show ?thesis
    unfolding d' using assms(1)
  proof (rule sound_operations)
    show "operations_ok (task_keys d) (update_where P f (external_operations d))"
      using ops key new slot by (rule operations_ok_update)
    show "resolutions_ok (update_where P f (external_operations d)) (resolutions d)"
      using res flight by (rule resolutions_ok_update)
    show "ops_grow (external_operations d) (update_where P f (external_operations d))"
      using move by (rule ops_grow_update)
  qed
qed

lemma load_summary_row:
  assumes "load_operation_summary d ws op = Some s"
  shows "\<exists>x\<in>set (external_operations d). x_key x = (ws, op) \<and> s = operation_summary x"
  using assms by (auto simp: load_operation_summary_def find_operation_def dest: find_key_SomeD)

lemma update_keyed_ops [simp]: "x_key (x\<lparr>x_phase := ph\<rparr>) = x_key x" "x_key (x\<lparr>x_status := st\<rparr>) = x_key x"
  "x_key (x\<lparr>x_task_id := t\<rparr>) = x_key x" "x_key (x\<lparr>x_error := e\<rparr>) = x_key x"
  "x_key (x\<lparr>x_external_id := i\<rparr>) = x_key x" "x_key (x\<lparr>x_url := u\<rparr>) = x_key x"
  "x_key (x\<lparr>x_updated_at := n\<rparr>) = x_key x"
  by (simp_all add: x_key_def)

lemmas row_simps = op_le_def same_operation_def stage_def operation_ok_def holds_slot_def x_slot_def
  blocking_def x_key_def

lemma mark_dispatched_effect:
  assumes "mark_external_dispatched v p d = Inr (d', e)"
  shows "\<exists>d1. d1 = d\<lparr>external_operations := update_where
       (\<lambda>x. x_key x = (po_workspace p, eo_id (po_summary p)) \<and> x_phase x = Prepared \<and>
            x_status x = OpRunning)
       (\<lambda>x. x\<lparr>x_phase := Dispatched, x_updated_at := xv_clock v\<rparr>) (external_operations d)\<rparr> \<and>
     count_where (\<lambda>x. x_key x = (po_workspace p, eo_id (po_summary p)) \<and> x_phase x = Prepared \<and>
            x_status x = OpRunning) (external_operations d) = 1 \<and>
     (\<exists>i. append_event_in_transaction (xv_event_clock v) i d1 = Inr (d', e))"
  using assms
  by (auto simp: mark_external_dispatched_def append_operation_event_def result_simps
      update_external_operations_def)

lemma mark_dispatched_sound:
  assumes "sound d" and "mark_external_dispatched v p d = Inr (d', e)"
  shows "sound d' \<and> onward d d'"
proof -
  from mark_dispatched_effect [OF assms(2)] obtain d1 i where
    d1: "d1 = d\<lparr>external_operations := update_where
       (\<lambda>x. x_key x = (po_workspace p, eo_id (po_summary p)) \<and> x_phase x = Prepared \<and>
            x_status x = OpRunning)
       (\<lambda>x. x\<lparr>x_phase := Dispatched, x_updated_at := xv_clock v\<rparr>) (external_operations d)\<rparr>"
    and app: "append_event_in_transaction (xv_event_clock v) i d1 = Inr (d', e)" by blast
  have "sound d1 \<and> onward d d1"
    by (rule update_operations_sound [OF assms(1) _ _ _ _ _ d1])
      (auto simp: row_simps dest: sound_operationD [OF assms(1)])
  with append_sound [OF _ app] show ?thesis by (blast intro: onward_trans)
qed

text \<open>What the new status and task must be for the row that is settled.\<close>

definition settles :: "prepared_operation \<Rightarrow> external_operation_status \<Rightarrow> db \<Rightarrow> bool" where
  "settles p status d \<longleftrightarrow> status \<noteq> OpRunning \<and>
     (\<forall>x\<in>set (external_operations d). x_key x = (po_workspace p, eo_id (po_summary p)) \<longrightarrow>
        x_status x = OpRunning \<longrightarrow>
        x_task_id x = eo_task_id (po_summary p) \<and> (x_kind x = OpImport \<longrightarrow> status \<noteq> OpSucceeded) \<or>
        x_kind x = OpImport \<and> status = OpSucceeded \<and> eo_task_id (po_summary p) \<noteq> None)"

lemma settles_same: "external_operations d' = external_operations d \<Longrightarrow> settles p st d' = settles p st d"
  by (simp add: settles_def)

lemma settle_effect:
  assumes "settle_operation v p status eid url err now te d = Inr (d', c)"
  shows "\<exists>d1. d1 = d\<lparr>external_operations := update_where
       (\<lambda>x. x_key x = (po_workspace p, eo_id (po_summary p)) \<and> x_status x = OpRunning)
       (\<lambda>x. x\<lparr>x_task_id := eo_task_id (po_summary p), x_phase := Terminal, x_status := status,
              x_external_id := eid, x_url := url, x_error := err, x_updated_at := now\<rparr>)
       (external_operations d)\<rparr> \<and>
     count_where (\<lambda>x. x_key x = (po_workspace p, eo_id (po_summary p)) \<and> x_status x = OpRunning)
       (external_operations d) = 1 \<and>
     (\<forall>x\<in>set (external_operations d). x_key x = (po_workspace p, eo_id (po_summary p)) \<longrightarrow>
        x_status x = OpRunning \<longrightarrow>
        (\<forall>i. eo_task_id (po_summary p) = Some i \<longrightarrow> (x_workspace x, i) \<in> task_keys d)) \<and>
     append_event_in_transaction (xv_event_clock v) (operation_insert (po_workspace p) (po_actor_id p)
       ((po_summary p)\<lparr>eo_status := status, eo_external_id := eid, eo_url := url, eo_error := err,
          eo_updated_at := now\<rparr>)) d1 = Inr (d', xo_event c) \<and>
     xo_task_event c = te"
  using assms
  by (auto simp: settle_operation_def update_terminal_operation_def append_operation_event_def result_simps
      update_operation_tasks_def update_external_operations_def opt_all_def task_exists_keys
      split: if_splits option.splits)

lemma settle_sound:
  assumes "sound d" and st: "settles p status d"
    and run: "settle_operation v p status eid url err now te d = Inr (d', c)"
  shows "sound d' \<and> onward d d'"
proof -
  from settle_effect [OF run] obtain d1 i where
    d1: "d1 = d\<lparr>external_operations := update_where
       (\<lambda>x. x_key x = (po_workspace p, eo_id (po_summary p)) \<and> x_status x = OpRunning)
       (\<lambda>x. x\<lparr>x_task_id := eo_task_id (po_summary p), x_phase := Terminal, x_status := status,
              x_external_id := eid, x_url := url, x_error := err, x_updated_at := now\<rparr>)
       (external_operations d)\<rparr>"
    and fk: "\<And>x i. x \<in> set (external_operations d) \<Longrightarrow>
      x_key x = (po_workspace p, eo_id (po_summary p)) \<Longrightarrow> x_status x = OpRunning \<Longrightarrow>
      eo_task_id (po_summary p) = Some i \<Longrightarrow> (x_workspace x, i) \<in> task_keys d"
    and app: "append_event_in_transaction (xv_event_clock v) i d1 = Inr (d', xo_event c)" by blast
  have "sound d1 \<and> onward d d1"
  proof (rule update_operations_sound [OF assms(1) _ _ _ _ _ d1])
    fix x assume x: "x \<in> set (external_operations d)"
      "x_key x = (po_workspace p, eo_id (po_summary p)) \<and> x_status x = OpRunning"
    let ?y = "x\<lparr>x_task_id := eo_task_id (po_summary p), x_phase := Terminal, x_status := status,
              x_external_id := eid, x_url := url, x_error := err, x_updated_at := now\<rparr>"
    from st x have run: "status \<noteq> OpRunning" and
      cases: "x_task_id x = eo_task_id (po_summary p) \<and> (x_kind x = OpImport \<longrightarrow> status \<noteq> OpSucceeded) \<or>
        x_kind x = OpImport \<and> status = OpSucceeded \<and> eo_task_id (po_summary p) \<noteq> None"
      by (auto simp: settles_def)
    have ok: "operation_ok (task_keys d) x" by (rule sound_operationD [OF assms(1) x(1)])
    show "operation_ok (task_keys d) ?y"
      using ok cases run x fk by (auto simp: operation_ok_def)
    show "holds_slot x \<and> x_slot ?y = x_slot x" if "holds_slot ?y"
      using that cases x(2) by (auto simp: holds_slot_def x_slot_def blocking_def)
    show "op_le x ?y"
      using run cases x(2) by (cases status) (auto simp: row_simps)
  qed (auto simp: blocking_def x_key_def)
  with append_sound [OF _ app] show ?thesis by (blast intro: onward_trans)
qed

lemma tracks_settles:
  assumes "sound d" and "tracks p d" and "status \<noteq> OpRunning"
    and "eo_kind (po_summary p) = OpImport \<longrightarrow> status \<noteq> OpSucceeded"
  shows "settles p status d"
proof -
  note dist = sound_keys [OF assms(1)]
  from assms(2) obtain x where x: "x \<in> set (external_operations d)"
    "x_key x = (po_workspace p, eo_id (po_summary p))" "x_kind x = eo_kind (po_summary p)"
    "x_status x = OpRunning \<longrightarrow> x_task_id x = eo_task_id (po_summary p)"
    unfolding tracks_def by blast
  show ?thesis
    unfolding settles_def
  proof (intro conjI ballI impI)
    show "status \<noteq> OpRunning" by (rule assms(3))
    fix y assume y: "y \<in> set (external_operations d)"
      "x_key y = (po_workspace p, eo_id (po_summary p))" "x_status y = OpRunning"
    have "y = x" using distinct_key_eq [OF dist y(1) x(1)] y(2) x(2) by simp
    with y(3) x(3,4) assms(4)
    show "x_task_id y = eo_task_id (po_summary p) \<and> (x_kind y = OpImport \<longrightarrow> status \<noteq> OpSucceeded) \<or>
        x_kind y = OpImport \<and> status = OpSucceeded \<and> eo_task_id (po_summary p) \<noteq> None"
      by simp
  qed
qed

end
