(* ===== verification/External_Steps.thy ===== *)
theory External_Steps
  imports External_Keep
begin

text \<open>
  Every step of an external operation, from its preparation to an operator's resolution, and the
  application of a configuration keep both invariants and move operations only forward.
\<close>

section \<open>Preparing\<close>

lemma latest_updated_None: "latest_updated xs = None \<longleftrightarrow> xs = []"
  by (cases xs) (auto split: option.splits)

lemma latest_updated_Some: "latest_updated xs = Some x \<Longrightarrow> x \<in> set xs"
  by (induction xs) (auto split: option.splits if_splits)

lemma no_blocking_iff:
  "require_no_blocking_operation d ws task_id provider = Inr u \<longleftrightarrow>
     (\<forall>x\<in>set (external_operations d). \<not> (x_workspace x = ws \<and> x_task_id x = Some task_id \<and>
        x_provider x = provider \<and> blocking x))"
  by (auto simp: require_no_blocking_operation_def latest_updated_None filter_empty_conv
      split: option.splits if_splits dest!: latest_updated_Some)

lemma plan_publish_effect:
  assumes "plan_publish v caller op t ev prov kind rid task d = Inr (k, tid, sv, payload)"
  shows "kind_matches k payload \<and> tid = Some t \<and> is_publish k"
  using assms
  by (auto simp: plan_publish_def result_simps Let_def is_publish_def split: external_publish_kind.splits)

lemma plan_command_effect:
  assumes "plan_command v caller active c d = Inr (k, tid, sv, payload)"
  shows "kind_matches k payload" "tid = xc_task_id c" "k = OpImport \<longleftrightarrow> tid = None"
    "tid = Some t \<Longrightarrow> require_no_blocking_operation d (cc_workspace caller) t (xc_provider c) = Inr ()"
    "is_publish k \<Longrightarrow> ic_access (ai_connection active) = AccessWrite"
  using assms
  by (cases c; auto simp: result_simps is_publish_def dest!: plan_publish_effect)+

lemma insert_operation_effect:
  assumes "insert_operation plen x d = Inr d'"
  shows "d' = d\<lparr>external_operations := external_operations d @ [x]\<rparr>"
    "x_key x \<notin> x_key ` set (external_operations d)"
    "x_task_id x = Some i \<Longrightarrow> (x_workspace x, i) \<in> task_keys d"
  using assms
  by (auto simp: insert_operation_def task_exists_keys opt_all_def split: if_splits option.splits)

lemma insert_prepared_effect:
  assumes "insert_prepared v caller active c (k, tid, sv, payload) d = Inr (d', p)"
  shows "\<exists>x d1 i e. x = new_operation_row caller (ic_namespace (xv_codec v) (ai_connection active))
       (command_hash (xv_codec v) c) payload
       (new_summary (xc_operation_id c) (xc_provider c) k tid sv (xv_clock v)) \<and>
     insert_operation (xc_payload_len (xv_codec v)) x d = Inr d1 \<and>
     append_event_in_transaction (xv_event_clock v) i d1 = Inr (d', e) \<and>
     p = prepared_as v caller active
       (new_summary (xc_operation_id c) (xc_provider c) k tid sv (xv_clock v)) (Some payload) (Some e)"
  using assms
  by (auto simp: insert_prepared_def append_operation_event_def result_simps Let_def)

lemma insert_prepared_sound:
  assumes "sound d" and plan: "plan_command v caller active c d = Inr (k, tid, sv, payload)"
    and ins: "insert_prepared v caller active c (k, tid, sv, payload) d = Inr (d', p)"
  shows "sound d' \<and> onward d d' \<and> tracks p d'"
proof -
  note eff = plan_command_effect [OF plan]
  from insert_prepared_effect [OF ins] obtain x d1 i e where
    x: "x = new_operation_row caller (ic_namespace (xv_codec v) (ai_connection active))
       (command_hash (xv_codec v) c) payload
       (new_summary (xc_operation_id c) (xc_provider c) k tid sv (xv_clock v))"
    and op: "insert_operation (xc_payload_len (xv_codec v)) x d = Inr d1"
    and app: "append_event_in_transaction (xv_event_clock v) i d1 = Inr (d', e)"
    and p: "p = prepared_as v caller active
       (new_summary (xc_operation_id c) (xc_provider c) k tid sv (xv_clock v)) (Some payload) (Some e)"
    by blast
  note oe = insert_operation_effect [OF op]
  have "operation_ok (task_keys d) x"
    using oe(3) eff(1,3) by (auto simp: x operation_ok_def new_operation_row_def new_summary_def)
  moreover have "x_slot y \<noteq> x_slot x"
    if "y \<in> set (external_operations d)" "holds_slot y" "holds_slot x" for y
    using that eff(4) [unfolded no_blocking_iff]
    by (auto simp: x holds_slot_def x_slot_def new_operation_row_def new_summary_def)
  ultimately have "operations_ok (task_keys d) (external_operations d @ [x])"
    using assms(1) oe(2) by (intro operations_ok_insert) (auto simp: sound_def ext_inv_def)
  then have "sound d1 \<and> onward d d1"
    unfolding oe(1) using assms(1)
    by (intro sound_operations) (auto simp: sound_def ext_inv_def intro: resolutions_ok_grow ops_grow_append)
  moreover have "tracks p d'"
    using append_event_fields(8) [OF app]
    by (simp add: tracks_def oe(1) p x prepared_as_def new_operation_row_def new_summary_def x_key_def)
  ultimately show ?thesis using append_sound [OF _ app] by (blast intro: onward_trans)
qed

lemma prepare_external_sound:
  assumes "sound d" and "prepare_external_operation v caller active c d = Inr (d', p)"
  shows "sound d' \<and> onward d d' \<and> (if po_payload p = None then d' = d else tracks p d')"
proof -
  from assms(2) consider s where "d' = d" "p = prepared_as v caller active s None None"
    | k tid sv payload where "plan_command v caller active c d = Inr (k, tid, sv, payload)"
      "insert_prepared v caller active c (k, tid, sv, payload) d = Inr (d', p)"
    by (auto simp: prepare_external_operation_def result_simps split: option.splits)
  then show ?thesis
  proof cases
    case 1
    with assms(1) show ?thesis by (simp add: prepared_as_def)
  next
    case 2
    have "po_payload p \<noteq> None"
      using insert_prepared_effect [OF 2(2)] by (auto simp: prepared_as_def)
    with insert_prepared_sound [OF assms(1) 2] show ?thesis by auto
  qed
qed

section \<open>Completing\<close>

lemma terminal_error_sound:
  assumes "sound d" and "tracks p d" and "status = OpFailed \<or> status = OpUnconfirmed"
    and "terminal_external_error v p status err d = Inr (d', c)"
  shows "sound d' \<and> onward d d'"
proof -
  have "settles p status d" using assms(3) by (intro tracks_settles [OF assms(1,2)]) auto
  from settle_sound [OF assms(1) this] assms(4) show ?thesis
    by (auto simp: terminal_external_error_def result_simps)
qed

lemma semantic_conflict_sound:
  assumes "sound d" and "tracks p d" and "terminal_semantic_conflict v p code now d = Inr (d', c)"
  shows "sound d' \<and> onward d d'"
proof -
  have "settles p OpFailed d" by (intro tracks_settles [OF assms(1,2)]) auto
  from settle_sound [OF assms(1) this] assms(3) show ?thesis
    by (auto simp: terminal_semantic_conflict_def)
qed

lemma complete_error_sound:
  assumes "sound d" and "tracks p d" and "complete_external_error v p e d = Inr (d', c)"
  shows "sound d' \<and> onward d d'"
  using assms
  by (cases e) (auto simp: complete_external_error_def dest: terminal_error_sound)

lemma tracks_kind:
  assumes "sound d" and "tracks p d"
  shows "\<exists>payload. po_payload p = Some payload \<and> kind_matches (eo_kind (po_summary p)) payload"
proof -
  from assms(2) obtain x where "x \<in> set (external_operations d)" "x_kind x = eo_kind (po_summary p)"
    "po_payload p = Some (x_payload x)"
    unfolding tracks_def by blast
  with sound_operationD [OF assms(1), of x] show ?thesis by (auto simp: operation_ok_def)
qed

lemma complete_mutation_sound:
  assumes snd: "sound d" and tr: "tracks p d"
    and run: "complete_external_mutation v p m d = Inr (d', c)"
  shows "sound d' \<and> onward d d'"
proof -
  from tracks_kind [OF snd tr] obtain payload where
    pay: "po_payload p = Some payload" "kind_matches (eo_kind (po_summary p)) payload" by blast
  from run obtain d1 te where
    mid: "sound d1 \<and> onward d d1 \<and> external_operations d1 = external_operations d"
    and pub: "is_publish (eo_kind (po_summary p))"
    and fin: "settle_operation v p OpSucceeded (Some (mu_external_id m)) (Some (mu_url m)) None
       (xv_clock v) te d1 = Inr (d', c)"
  proof (cases payload)
    case (PayPublishIssue cid title body marker)
    with run pay(1) obtain t da db n dc te where
      a: "insert_link (new_link (po_workspace p) t (eo_provider (po_summary p)) (po_namespace p)
           (mu_external_id m) (mu_url m) (xv_clock v)) d = Inr da"
      and b: "touch_task (po_workspace p) t (po_actor_id p) (xv_clock v) da = Inr (db, n)"
      and c: "append_external_task_event (xv_task_clock v) (po_workspace p) (po_actor_id p) t
           (eo_id (po_summary p)) db = Inr (dc, te)"
      and fin: "settle_operation v p OpSucceeded (Some (mu_external_id m)) (Some (mu_url m)) None
           (xv_clock v) (Some te) dc = Inr (d', c)"
      by (auto simp: complete_external_mutation_def result_simps)
    have "is_publish (eo_kind (po_summary p))"
      using pay(2) PayPublishIssue by (cases "eo_kind (po_summary p)") (auto simp: is_publish_def)
    with insert_link_sound [OF snd a] touch_task_sound [OF _ b] append_task_event_sound [OF _ c] fin
    show ?thesis by (intro that [of dc "Some te"]) (auto intro: onward_trans)
  next
    case (PayPublishReport cid issue rid body marker)
    then have "is_publish (eo_kind (po_summary p))"
      using pay(2) by (cases "eo_kind (po_summary p)") (auto simp: is_publish_def)
    with run pay(1) PayPublishReport snd that [of d None] show ?thesis
      by (auto simp: complete_external_mutation_def result_simps)
  qed (use run pay(1) in \<open>auto simp: complete_external_mutation_def result_simps\<close>)
  have "settles p OpSucceeded d1"
    using mid pub tracks_same [of d1 d p] tr by (intro tracks_settles) (auto simp: is_publish_def)
  from settle_sound [OF _ this fin] mid show ?thesis by (blast intro: onward_trans)
qed

lemma import_new_task_sound:
  assumes snd: "sound d" and run: "import_new_task v p issue now d = Inr (d', t, te)"
  shows "sound d' \<and> onward d d' \<and> external_operations d' = external_operations d"
proof -
  from run obtain d1 n w d2 r d3 d4 e where
    upw: "update_workspaces (can_bump_task (po_workspace p)) bump_task d = Inr (d1, n)"
    and w: "find (can_bump_task (po_workspace p)) (workspaces d) = Some w" "t = w_next_task_id w"
    and ins: "insert_task (imported_task p issue t now) d1 = Inr d2"
    and rep: "insert_report (xv_body_len v) r d2 = Inr d3" "body_matches (r_kind r) (r_body r)"
    and lnk: "insert_link (new_link (po_workspace p) t (eo_provider (po_summary p))
              (po_namespace p) (is_external_id issue) (is_url issue) now) d3 = Inr d4"
    and tev: "append_external_task_event (xv_task_clock v) (po_workspace p) (po_actor_id p) t
              (eo_id (po_summary p)) d4 = Inr (d', e)"
    by (auto simp: import_new_task_def result_simps)
  from snd have inv: "store_inv d" by (simp add: sound_def)
  have t2: "store_inv d2" "tasks d2 = tasks d @ [imported_task p issue t now]"
    by (rule store_inv_create [OF inv upw w(1) ins]; simp add: imported_task_def w(2))+
  have "store_inv d3" by (rule store_inv_report [OF t2(1) rep])
  moreover have "apart d d3" "aside d d3"
    using upw ins t2(2) insert_report_effect(1) [OF rep(1)]
    by (auto simp: apart_def aside_def appends_def task_keys_def update_workspaces_def insert_task_def
        split: if_splits)
  ultimately have s3: "sound d3 \<and> onward d d3" using sound_apart [OF snd] by blast
  have "external_operations d3 = external_operations d" using \<open>apart d d3\<close> by (simp add: apart_def)
  with s3 insert_link_sound [OF _ lnk] append_task_event_sound [OF _ tev] show ?thesis
    by (auto intro: onward_trans)
qed

lemma complete_import_sound:
  assumes snd: "sound d" and tr: "tracks p d" and kind: "eo_kind (po_summary p) = OpImport"
    and run: "complete_import v p issue d = Inr (d', c)"
  shows "sound d' \<and> onward d d'"
proof -
  let ?adj = "\<lambda>t. p\<lparr>po_summary := (po_summary p)\<lparr>eo_task_id := Some t\<rparr>\<rparr>"
  note dist = sound_keys [OF snd]
  from tr kind obtain x where x: "x \<in> set (external_operations d)"
    "x_key x = (po_workspace p, eo_id (po_summary p))" "x_kind x = OpImport"
    unfolding tracks_def by metis
  have st: "settles (?adj t) OpSucceeded d" for t
    unfolding settles_def
  proof (intro conjI ballI impI)
    fix y assume y: "y \<in> set (external_operations d)"
      "x_key y = (po_workspace (?adj t), eo_id (po_summary (?adj t)))" "x_status y = OpRunning"
    have "y = x" using distinct_key_eq [OF dist y(1) x(1)] y(2) x(2) by simp
    then show "x_task_id y = eo_task_id (po_summary (?adj t)) \<and>
        (x_kind y = OpImport \<longrightarrow> OpSucceeded \<noteq> OpSucceeded) \<or>
        x_kind y = OpImport \<and> OpSucceeded = OpSucceeded \<and> eo_task_id (po_summary (?adj t)) \<noteq> None"
      using x(3) by simp
  qed simp
  from run consider
    "terminal_semantic_conflict v p ExternalConflict (xv_clock v) d = Inr (d', c)"
    | t te where "settle_operation v (?adj t) OpSucceeded (Some (is_external_id issue)) (Some (is_url issue))
        None (xv_clock v) te d = Inr (d', c)"
    | t te d1 where "import_new_task v p issue (xv_clock v) d = Inr (d1, t, te)"
      "settle_operation v (?adj t) OpSucceeded (Some (is_external_id issue)) (Some (is_url issue))
        None (xv_clock v) te d1 = Inr (d', c)"
    by (auto simp: complete_import_def result_simps Let_def split: option.splits if_splits)
  then show ?thesis
  proof cases
    case 1
    then show ?thesis by (rule semantic_conflict_sound [OF snd tr])
  next
    case 2
    then show ?thesis by (rule settle_sound [OF snd st])
  next
    case 3
    note mid = import_new_task_sound [OF snd 3(1)]
    with st have "settles (?adj t) OpSucceeded d1" using settles_same by metis
    from settle_sound [OF _ this 3(2)] mid show ?thesis by (blast intro: onward_trans)
  qed
qed

lemma write_link_sound:
  assumes "sound d" and "write_link v p t issue now d = Inr (d', te)"
  shows "sound d' \<and> onward d d' \<and> external_operations d' = external_operations d"
proof -
  from assms(2) obtain d1 d2 n e where
    a: "upsert_link (new_link (po_workspace p) t (eo_provider (po_summary p)) (po_namespace p)
      (is_external_id issue) (is_url issue) now) d = Inr d1"
    and b: "touch_task (po_workspace p) t (po_actor_id p) now d1 = Inr (d2, n)"
    and c: "append_external_task_event (xv_task_clock v) (po_workspace p) (po_actor_id p) t
              (eo_id (po_summary p)) d2 = Inr (d', e)"
    by (auto simp: write_link_def result_simps)
  from upsert_link_sound [OF assms(1) a] touch_task_sound [OF _ b] append_task_event_sound [OF _ c]
  show ?thesis by (auto intro: onward_trans)
qed

lemma complete_link_sound:
  assumes snd: "sound d" and tr: "tracks p d" and kind: "eo_kind (po_summary p) \<noteq> OpImport"
    and run: "complete_link v p issue d = Inr (d', c)"
  shows "sound d' \<and> onward d d'"
proof -
  from run consider code where "terminal_semantic_conflict v p code (xv_clock v) d = Inr (d', c)"
    | te where "settle_operation v p OpSucceeded (Some (is_external_id issue)) (Some (is_url issue))
        None (xv_clock v) te d = Inr (d', c)"
    | t te d1 where "write_link v p t issue (xv_clock v) d = Inr (d1, te)"
      "settle_operation v p OpSucceeded (Some (is_external_id issue)) (Some (is_url issue))
        None (xv_clock v) te d1 = Inr (d', c)"
    by (auto simp: complete_link_def result_simps Let_def
        split: option.splits operation_payload.splits if_splits)
  then show ?thesis
  proof cases
    case 1
    then show ?thesis by (rule semantic_conflict_sound [OF snd tr])
  next
    case 2
    have "settles p OpSucceeded d" using kind by (intro tracks_settles [OF snd tr]) auto
    from settle_sound [OF snd this 2] show ?thesis .
  next
    case 3
    note mid = write_link_sound [OF snd 3(1)]
    have "settles p OpSucceeded d1"
      using mid kind tr tracks_same [of d1 d p] by (intro tracks_settles) auto
    from settle_sound [OF _ this 3(2)] mid show ?thesis by (blast intro: onward_trans)
  qed
qed

lemma complete_read_sound:
  assumes "sound d" and "tracks p d" and "complete_external_read v p issue d = Inr (d', c)"
  shows "sound d' \<and> onward d d'"
proof -
  from tracks_kind [OF assms(1,2)] obtain payload where
    pay: "po_payload p = Some payload" "kind_matches (eo_kind (po_summary p)) payload" by blast
  show ?thesis
  proof (cases payload)
    case (PayImport e)
    with pay(2) have "eo_kind (po_summary p) = OpImport" by (cases "eo_kind (po_summary p)") auto
    from complete_import_sound [OF assms(1,2) this] assms(3) pay(1) PayImport show ?thesis
      by (simp add: complete_external_read_def)
  next
    case (PayLink e ver rep)
    with pay(2) have "eo_kind (po_summary p) \<noteq> OpImport" by (cases "eo_kind (po_summary p)") auto
    from complete_link_sound [OF assms(1,2) this] assms(3) pay(1) PayLink show ?thesis
      by (simp add: complete_external_read_def)
  qed (use assms(3) pay(1) in \<open>auto simp: complete_external_read_def\<close>)
qed

lemma validate_snapshot_sound:
  assumes "sound d" and "validate_external_snapshot v active p b d = Inr d'"
  shows "sound d' \<and> onward d d'" and "\<not> b \<Longrightarrow> d' = d"
  using assms mark_dispatched_sound [OF assms(1)]
  by (auto simp: validate_external_snapshot_def result_simps split: if_splits)

section \<open>Resolving\<close>

lemma resolve_row_effect:
  assumes "resolve_row ws op f d = Inr d'"
  shows "d' = d\<lparr>external_operations := update_where
       (\<lambda>x. x_key x = (ws, op) \<and> x_status x = OpUnconfirmed) f (external_operations d)\<rparr>"
    "\<exists>x\<in>set (external_operations d). x_key x = (ws, op) \<and> x_status x = OpUnconfirmed"
proof -
  from assms show "d' = d\<lparr>external_operations := update_where
       (\<lambda>x. x_key x = (ws, op) \<and> x_status x = OpUnconfirmed) f (external_operations d)\<rparr>"
    by (auto simp: resolve_row_def result_simps update_external_operations_def)
  from assms have "count_where (\<lambda>x. x_key x = (ws, op) \<and> x_status x = OpUnconfirmed)
      (external_operations d) = 1"
    by (auto simp: resolve_row_def result_simps update_external_operations_def)
  then show "\<exists>x\<in>set (external_operations d). x_key x = (ws, op) \<and> x_status x = OpUnconfirmed"
    by (auto simp: count_where_def length_Suc_conv filter_eq_Cons_iff)
qed

lemma insert_resolution_effect:
  assumes "insert_resolution ws hash r d = Inr d'"
  shows "d' = d\<lparr>resolutions := resolutions d @ [\<lparr>v_workspace = ws, v_request_hash = hash, v_resolution = r\<rparr>]\<rparr>"
    "(ws, er_id r) \<notin> v_key ` set (resolutions d)"
    "(ws, er_operation_id r) \<notin> v_operation ` set (resolutions d)"
  using assms
  by (auto simp: insert_resolution_def insert_resolution_row_def result_simps v_key_def v_operation_def
      split: if_splits)

text \<open>The two statements of a resolution, in either order, leave an unconfirmed write resolved.\<close>

lemma resolved_sound:
  assumes snd: "sound d"
    and x: "x \<in> set (external_operations d)" "x_key x = (ws, er_operation_id r)" "x_status x = OpUnconfirmed"
    and pub: "is_publish (x_kind x)"
    and f: "\<And>y. x_key (f y) = x_key y \<and> x_kind (f y) = x_kind y \<and> x_task_id (f y) = x_task_id y \<and>
        x_phase (f y) = x_phase y \<and> x_payload (f y) = x_payload y"
      "op_le x (f x)" "resolved_as r (f x)"
    and new: "(ws, er_id r) \<notin> v_key ` set (resolutions d)"
      "(ws, er_operation_id r) \<notin> v_operation ` set (resolutions d)"
    and d': "d' = d\<lparr>external_operations := update_where
        (\<lambda>y. x_key y = (ws, er_operation_id r) \<and> x_status y = OpUnconfirmed) f (external_operations d),
      resolutions := resolutions d @ [\<lparr>v_workspace = ws, v_request_hash = hash, v_resolution = r\<rparr>]\<rparr>"
  shows "sound d' \<and> onward d d'"
proof -
  let ?P = "\<lambda>y. x_key y = (ws, er_operation_id r) \<and> x_status y = OpUnconfirmed"
  let ?d1 = "d\<lparr>external_operations := update_where ?P f (external_operations d)\<rparr>"
  note dist = sound_keys [OF snd]
  have one: "y = x" if "y \<in> set (external_operations d)" "?P y" for y
    using distinct_key_eq [OF dist that(1) x(1)] that(2) x(2) by simp
  have ok: "operation_ok (task_keys d) x" by (rule sound_operationD [OF snd x(1)])
  have fx: "x_status (f x) \<noteq> OpRunning" "x_status (f x) \<noteq> OpUnconfirmed" "x_workspace (f x) = x_workspace x"
    using f(3) f(1) [of x]
    by (auto simp: resolved_as_def x_key_def split: external_resolution_outcome.splits)
  have s1: "sound ?d1 \<and> onward d ?d1"
  proof (rule update_operations_sound [OF snd, of ?P f])
    show "x_key (f y) = x_key y" for y using f(1) by simp
    show "blocking y" if "?P y" for y using that by (simp add: blocking_def)
    fix y assume y: "y \<in> set (external_operations d)" "?P y"
    note [simp] = one [OF y]
    show "operation_ok (task_keys d) (f y)"
      using ok f(1) [of x] fx x(3) pub by (auto simp: operation_ok_def is_publish_def)
    show "holds_slot y \<and> x_slot (f y) = x_slot y" if "holds_slot (f y)"
      using that fx by (simp add: holds_slot_def blocking_def)
    show "op_le y (f y)" using f(2) by simp
  qed simp
  have "f x \<in> set (external_operations ?d1)" using x by (auto simp: set_update_where)
  then have "resolutions_ok (external_operations ?d1) (resolutions d')"
    using s1 new f(1,3) x(2)
    by (auto simp: sound_def ext_inv_def resolutions_ok_def d' v_key_def v_operation_def)
  then have "ext_inv d'" using s1 by (simp add: sound_def ext_inv_def d' task_keys_def)
  moreover have "store_inv d'" using s1 by (simp add: sound_def d')
  ultimately show ?thesis using s1 by (simp add: sound_def onward_def d' aside_def appends_def)
qed

lemma not_applied_sound:
  assumes snd: "sound d"
    and x: "find_operation d (cc_workspace caller) (eo_id s) = Some x" "is_publish (x_kind x)"
    and run: "complete_not_applied_resolution v caller s rid note hash d = Inr (d', c)"
  shows "sound d' \<and> onward d d'"
proof -
  let ?r = "\<lparr>er_id = rid, er_operation_id = eo_id s, er_actor_id = cc_actor_id caller,
      er_outcome = NotApplied, er_external_id = None, er_note = note, er_created_at = xv_clock v\<rparr>"
  let ?f = "\<lambda>x. x\<lparr>x_status := OpFailed, x_error := Some (external_error_as_str OperatorConfirmedNotApplied),
      x_updated_at := xv_clock v\<rparr>"
  from run obtain d1 d2 i e where
    ins: "insert_resolution (cc_workspace caller) hash ?r d = Inr d1"
    and res: "resolve_row (cc_workspace caller) (eo_id s) ?f d1 = Inr d2"
    and app: "append_event_in_transaction (xv_event_clock v) i d2 = Inr (d', e)"
    by (auto simp: complete_not_applied_resolution_def append_resolution_event_def result_simps Let_def)
  note ie = insert_resolution_effect [OF ins] and re = resolve_row_effect [OF res]
  from x(1) have fx: "x \<in> set (external_operations d)" "x_key x = (cc_workspace caller, eo_id s)"
    by (auto simp: find_operation_def dest: find_key_SomeD)
  note dist = sound_keys [OF snd]
  from re(2) ie(1) obtain y where "y \<in> set (external_operations d)"
    "x_key y = (cc_workspace caller, eo_id s)" "x_status y = OpUnconfirmed" by auto
  then have un: "x_status x = OpUnconfirmed" using distinct_key_eq [OF dist _ fx(1)] fx(2) by metis
  have "sound d2 \<and> onward d d2"
  proof (rule resolved_sound [OF snd fx(1), of "cc_workspace caller" ?r ?f])
    show "op_le x (?f x)" using un by (simp add: row_simps)
    show "resolved_as ?r (?f x)" using x(2) by (simp add: resolved_as_def)
    show "d2 = d\<lparr>external_operations := update_where (\<lambda>y. x_key y = (cc_workspace caller, er_operation_id ?r) \<and>
        x_status y = OpUnconfirmed) ?f (external_operations d),
      resolutions := resolutions d @ [\<lparr>v_workspace = cc_workspace caller, v_request_hash = hash, v_resolution = ?r\<rparr>]\<rparr>"
      using ie(1) re(1) by simp
  qed (use fx(2) un x(2) ie(2,3) in \<open>simp_all add: x_key_def\<close>)
  with append_sound [OF _ app] show ?thesis by (blast intro: onward_trans)
qed

lemma start_resolution_effect:
  assumes "start_resolution v caller active x rid outcome eid note hash d = Inr (d', prep)"
  shows "d' = d \<or> (\<exists>c. complete_not_applied_resolution v caller (operation_summary x) rid note hash d =
      Inr (d', c) \<and> prep = ResolutionCompleted c)"
  using assms by (cases outcome) (auto simp: start_resolution_def result_simps)

lemma prepare_resolution_effect:
  assumes "prepare_external_resolution v caller active op rid outcome eid note d = Inr (d', prep)"
  shows "d' = d \<or>
     (\<exists>x hash. find_operation d (cc_workspace caller) op = Some x \<and> x_status x = OpUnconfirmed \<and>
        is_publish (x_kind x) \<and>
        start_resolution v caller active x rid outcome eid note hash d = Inr (d', prep))"
proof -
  from assms obtain receipt where r: "resolution_receipt d (cc_workspace caller) op = Inr receipt"
    by (auto simp: prepare_external_resolution_def result_simps Let_def)
  show ?thesis
  proof (cases receipt)
    case None
    with assms r show ?thesis by (auto simp: prepare_external_resolution_def result_simps Let_def)
  next
    case (Some q)
    with assms r show ?thesis
      by (cases q) (auto simp: prepare_external_resolution_def result_simps Let_def)
  qed
qed

lemma find_operation_id: "find_operation d ws op = Some x \<Longrightarrow> eo_id (operation_summary x) = op"
  unfolding find_operation_def by (drule find_key_SomeD) (simp add: operation_summary_def x_key_def)

lemma prepare_resolution_sound:
  assumes snd: "sound d"
    and run: "prepare_external_resolution v caller active op rid outcome eid note d = Inr (d', prep)"
  shows "sound d' \<and> onward d d'"
  using prepare_resolution_effect [OF run]
proof (elim disjE exE conjE)
  fix x hash assume x: "find_operation d (cc_workspace caller) op = Some x" "is_publish (x_kind x)"
    and st: "start_resolution v caller active x rid outcome eid note hash d = Inr (d', prep)"
  from start_resolution_effect [OF st] show ?thesis
  proof (elim disjE exE conjE)
    fix c assume na: "complete_not_applied_resolution v caller (operation_summary x) rid note hash d = Inr (d', c)"
    from x(1) have "find_operation d (cc_workspace caller) (eo_id (operation_summary x)) = Some x"
      by (simp add: find_operation_id)
    from not_applied_sound [OF snd this x(2) na] show ?thesis .
  qed (simp add: snd)
qed (simp add: snd)

text \<open>A verified resolution; what it carries agrees with the stored operation.\<close>

definition resolves :: "prepared_resolution \<Rightarrow> db \<Rightarrow> bool" where
  "resolves p d \<longleftrightarrow>
     (\<exists>x\<in>set (external_operations d). x_key x = (pr_workspace p, pr_operation_id p) \<and>
        is_publish (x_kind x) \<and> x_provider x = pr_provider p \<and> x_namespace x = pr_namespace p \<and>
        x_payload x = pr_payload p \<and> x_task_id x = pr_task_id p)"

lemma resolves_onward:
  assumes "resolves p d" and "ops_grow (external_operations d) (external_operations d')"
  shows "resolves p d'"
proof -
  from assms(1) obtain x where x: "x \<in> set (external_operations d)"
    "x_key x = (pr_workspace p, pr_operation_id p)" "is_publish (x_kind x)" "x_provider x = pr_provider p"
    "x_namespace x = pr_namespace p" "x_payload x = pr_payload p" "x_task_id x = pr_task_id p"
    unfolding resolves_def by blast
  from assms(2) x(1) obtain y where y: "y \<in> set (external_operations d')" "op_le x y"
    unfolding ops_grow_def by blast
  with x have "x_task_id y = pr_task_id p" by (auto simp: op_le_def is_publish_def)
  with x(2-6) y show ?thesis
    unfolding resolves_def op_le_def same_operation_def by (intro bexI [of _ y]) auto
qed

lemma prepare_resolution_resolves:
  assumes "prepare_external_resolution v caller active op rid outcome eid note d =
     Inr (d', ResolutionVerify p)"
  shows "resolves p d' \<and> d' = d"
proof -
  from prepare_resolution_effect [OF assms] assms
  obtain x hash where x: "find_operation d (cc_workspace caller) op = Some x" "is_publish (x_kind x)"
    and st: "start_resolution v caller active x rid outcome eid note hash d = Inr (d', ResolutionVerify p)"
    by (auto simp: prepare_external_resolution_def result_simps Let_def split: option.splits)
  from x(1) have "x \<in> set (external_operations d)" "x_key x = (cc_workspace caller, op)"
    by (auto simp: find_operation_def dest: find_key_SomeD)
  with x(2) st show ?thesis
    by (cases outcome) (auto simp: start_resolution_def result_simps resolves_def x_key_def)
qed

lemma link_resolved_sound:
  assumes "sound d" and "link_resolved v p m now d = Inr (d', te)"
  shows "sound d' \<and> onward d d' \<and> external_operations d' = external_operations d \<and>
    resolutions d' = resolutions d"
proof (cases "pr_payload p")
  case (PayPublishIssue c t b k)
  with assms(2) obtain i da db dc e where
    a: "insert_link (new_link (pr_workspace p) i (pr_provider p) (pr_namespace p)
                   (mu_external_id m) (mu_url m) now) d = Inr da"
    and b: "touch_task (pr_workspace p) i (pr_actor_id p) now da = Inr (db, 1)"
    and c: "append_external_task_event (xv_task_clock v) (pr_workspace p) (pr_actor_id p) i
                   (pr_operation_id p) db = Inr (dc, e)" "d' = dc"
    by (auto simp: link_resolved_def result_simps)
  have "resolutions da = resolutions d" "resolutions db = resolutions da" "resolutions dc = resolutions db"
    using a b c
    by (auto simp: insert_link_def touch_task_def append_external_task_event_def result_simps
        append_event_fields dest!: update_tasks_effect(1) split: if_splits)
  with insert_link_sound [OF assms(1) a] touch_task_sound [OF _ b] append_task_event_sound [OF _ c(1)] c(2)
  show ?thesis by (auto intro: onward_trans)
qed (use assms in \<open>auto simp: link_resolved_def\<close>)

lemma applied_sound:
  assumes snd: "sound d" and rs: "resolves p d"
    and run: "complete_applied_resolution v p m d = Inr (d', c)"
  shows "sound d' \<and> onward d d'"
proof -
  let ?r = "\<lparr>er_id = pr_resolution_id p, er_operation_id = pr_operation_id p, er_actor_id = pr_actor_id p,
      er_outcome = Applied, er_external_id = Some (mu_external_id m), er_note = pr_note p,
      er_created_at = xv_clock v\<rparr>"
  let ?f = "\<lambda>x. x\<lparr>x_status := OpSucceeded, x_external_id := Some (mu_external_id m),
      x_url := Some (mu_url m), x_error := None, x_updated_at := xv_clock v\<rparr>"
  from run obtain d1 te d2 d3 i e where
    lnk: "link_resolved v p m (xv_clock v) d = Inr (d1, te)"
    and res: "resolve_row (pr_workspace p) (pr_operation_id p) ?f d1 = Inr d2"
    and ins: "insert_resolution (pr_workspace p) (pr_request_hash p) ?r d2 = Inr d3"
    and app: "append_event_in_transaction (xv_event_clock v) i d3 = Inr (d', e)"
    by (auto simp: complete_applied_resolution_def append_resolution_event_def result_simps Let_def)
  note mid = link_resolved_sound [OF snd lnk]
  note ie = insert_resolution_effect [OF ins] and re = resolve_row_effect [OF res]
  from re(2) obtain x where x: "x \<in> set (external_operations d1)"
    "x_key x = (pr_workspace p, pr_operation_id p)" "x_status x = OpUnconfirmed" by blast
  from mid have dist: "distinct (map x_key (external_operations d1))" by (blast intro: sound_keys)
  from rs mid obtain y where "y \<in> set (external_operations d1)"
    "x_key y = (pr_workspace p, pr_operation_id p)" "is_publish (x_kind y)"
    unfolding resolves_def by auto
  then have pub: "is_publish (x_kind x)" using distinct_key_eq [OF dist _ x(1)] x(2) by metis
  have "sound d3 \<and> onward d1 d3"
  proof (rule resolved_sound [of d1 x "pr_workspace p" ?r ?f])
    show "op_le x (?f x)" using x(3) by (simp add: row_simps)
    show "resolved_as ?r (?f x)" using pub by (simp add: resolved_as_def)
    show "d3 = d1\<lparr>external_operations := update_where (\<lambda>y. x_key y = (pr_workspace p, er_operation_id ?r) \<and>
        x_status y = OpUnconfirmed) ?f (external_operations d1),
      resolutions := resolutions d1 @ [\<lparr>v_workspace = pr_workspace p, v_request_hash = pr_request_hash p,
        v_resolution = ?r\<rparr>]\<rparr>"
      using ie(1) re(1) by simp
  qed (use mid x pub ie(2,3) re(1) in \<open>simp_all add: x_key_def\<close>)
  with mid append_sound [OF _ app] show ?thesis by (blast intro: onward_trans)
qed

section \<open>Applying a configuration\<close>

definition only_bindings :: "db \<Rightarrow> db \<Rightarrow> bool" where
  "only_bindings d d' \<longleftrightarrow>
     links d' = links d \<and> external_operations d' = external_operations d \<and>
     resolutions d' = resolutions d \<and> task_keys d' = task_keys d \<and> aside d d'"

lemma only_bindings_trans: "only_bindings d d1 \<Longrightarrow> only_bindings d1 d2 \<Longrightarrow> only_bindings d d2"
  by (auto simp: only_bindings_def intro: aside_trans)

lemma only_bindings_sound:
  assumes "sound d" and "only_bindings d d'" and "store_inv d'" and "distinct (map b_key (bindings d'))"
  shows "sound d' \<and> onward d d'"
  using assms by (simp add: sound_def onward_def ext_inv_def only_bindings_def)

lemma append_only_bindings:
  "append_event_in_transaction clock i d = Inr (d', e) \<Longrightarrow> only_bindings d d' \<and> bindings d' = bindings d"
  by (simp add: only_bindings_def append_event_fields append_aside task_keys_def)

lemma upsert_binding_step:
  assumes "upsert_binding b d = Inr d'" and "distinct (map b_key (bindings d))"
  shows "only_bindings d d' \<and> store_inv d' = store_inv d \<and> distinct (map b_key (bindings d'))"
proof -
  have "map b_key (update_where (\<lambda>k. b_key k = b_key b) (\<lambda>_. b) (bindings d)) = map b_key (bindings d)"
    by (rule map_update_where) simp
  moreover from assms(1) have "d' = d\<lparr>bindings := update_where (\<lambda>k. b_key k = b_key b) (\<lambda>_. b) (bindings d)\<rparr> \<or>
      d' = d\<lparr>bindings := bindings d @ [b]\<rparr> \<and> b_key b \<notin> b_key ` set (bindings d)"
    by (auto simp: upsert_binding_def image_iff split: if_splits)
  ultimately show ?thesis using assms(2) by (auto simp: only_bindings_def)
qed

definition keeps_catalog :: "db \<Rightarrow> db \<Rightarrow> bool" where
  "keeps_catalog d d' \<longleftrightarrow> only_bindings d d' \<and> store_inv d' \<and> distinct (map b_key (bindings d'))"

lemma apply_connection_keeps:
  assumes "keeps_catalog d d1" and "apply_connection cx now stored clock c (d1, active, evs) = Inr (d2, active2, evs2)"
  shows "keeps_catalog d d2"
proof -
  from assms(2) obtain da where up: "upsert_binding
       \<lparr>b_workspace = ic_workspace c, b_provider = ic_provider c, b_target = ic_namespace cx c,
        b_access = ic_access c, b_enabled = True, b_config_hash = config_hash cx c,
        b_revision = binding_revision (find (\<lambda>b. b_key b = ic_key c) stored) (config_hash cx c),
        b_updated_at = now\<rparr> d1 = Inr da"
    and rest: "d2 = da \<or> (\<exists>i e. append_event_in_transaction clock i da = Inr (d2, e))"
    by (auto simp: apply_connection_def result_simps Let_def split: if_splits)
  from upsert_binding_step [OF up] assms(1) have k: "keeps_catalog d da"
    by (auto simp: keeps_catalog_def intro: only_bindings_trans)
  from rest show ?thesis
  proof (elim disjE exE)
    fix i e assume app: "append_event_in_transaction clock i da = Inr (d2, e)"
    with k append_only_bindings [OF app] show ?thesis
      by (auto simp: keeps_catalog_def intro: only_bindings_trans store_inv_append)
  qed (simp add: k)
qed

lemma disable_existing_keeps:
  assumes "keeps_catalog d d1" and "disable_existing active clock b (d1, evs) = Inr (d2, evs2)"
  shows "keeps_catalog d d2"
proof -
  from assms(2) have "d2 = d1 \<or> (\<exists>i e. append_event_in_transaction clock i d1 = Inr (d2, e))"
    by (auto simp: disable_existing_def result_simps split: if_splits)
  then show ?thesis
  proof (elim disjE exE)
    fix i e assume app: "append_event_in_transaction clock i d1 = Inr (d2, e)"
    with assms(1) append_only_bindings [OF app] show ?thesis
      by (auto simp: keeps_catalog_def intro: only_bindings_trans store_inv_append)
  qed (simp add: assms(1))
qed

lemma apply_catalog_sound:
  assumes snd: "sound d" and run: "apply_catalog cx k cs d = Inr (d', active, evs)"
  shows "sound d' \<and> onward d d'"
proof -
  let ?f = "\<lambda>b. b\<lparr>b_enabled := False, b_updated_at := kc_now k\<rparr>"
  from run obtain d1 n d2 evs1 where
    dis: "update_bindings (\<lambda>_. True) ?f d = Inr (d1, n)"
    and l1: "loopR (kc_configured k) (apply_connection cx (kc_now k) (load_stored_bindings d)) cs
        (d1, [], []) = Inr (d2, active, evs1)"
    and l2: "loopR (kc_disabled k) (disable_existing active) (filter b_enabled (load_stored_bindings d))
        (d2, evs1) = Inr (d', evs)"
    by (auto simp: apply_catalog_def result_simps Let_def)
  from snd have d: "store_inv d" "distinct (map b_key (bindings d))" by (simp_all add: sound_def ext_inv_def)
  have "keeps_catalog d d1"
    using dis d by (auto simp: update_bindings_def keeps_catalog_def only_bindings_def map_update_where b_key_def
        split: if_splits)
  then have "keeps_catalog d (fst (d2, active, evs1))"
    using loopR_preserves [OF l1, of "\<lambda>s. keeps_catalog d (fst s)"] apply_connection_keeps by force
  then have "keeps_catalog d (fst (d', evs))"
    using loopR_preserves [OF l2, of "\<lambda>s. keeps_catalog d (fst s)"] disable_existing_keeps by force
  then show ?thesis using only_bindings_sound [OF snd, of d'] by (simp add: keeps_catalog_def)
qed

lemma disable_bindings_sound:
  assumes "sound d"
  shows "sound (disable_bindings d) \<and> onward d (disable_bindings d)"
proof -
  have keys: "map b_key (update_where (\<lambda>_. True) (\<lambda>b. b\<lparr>b_enabled := False\<rparr>) bs) = map b_key bs" for bs
    by (rule map_update_where) (simp add: b_key_def)
  have "disable_bindings d = d \<or>
      disable_bindings d = d\<lparr>bindings := update_where (\<lambda>_. True) (\<lambda>b. b\<lparr>b_enabled := False\<rparr>) (bindings d)\<rparr>"
    by (auto simp: disable_bindings_def update_bindings_def)
  with assms keys show ?thesis by (auto simp: sound_def onward_def ext_inv_def)
qed

lemma registry_load_sound:
  assumes "sound d" and "registry_load cx k explicit dir d = (r, d')"
  shows "sound d' \<and> onward d d'"
  using assms(2) apply_catalog_sound [OF assms(1)] disable_bindings_sound [OF assms(1)]
  by (auto simp: registry_load_def Let_def result_simps split: prod.splits sum.splits)

lemma registry_reload_sound:
  assumes "sound d" and "registry_reload cx k r d = Inr (d', r', ps, evs)"
  shows "sound d' \<and> onward d d'"
  using assms(2) apply_catalog_sound [OF assms(1)]
  by (auto simp: registry_reload_def Let_def result_simps)

end
