(* ===== verification/External_Frame.thy ===== *)
theory External_Frame
  imports External_Steps
begin

text \<open>
  The operations of tasks, requests, credentials and onboarding leave the integrations alone; recovery
  settles the operations that were in flight.
\<close>

lemma apart_same:
  "links d' = links d \<Longrightarrow> external_operations d' = external_operations d \<Longrightarrow>
   resolutions d' = resolutions d \<Longrightarrow> bindings d' = bindings d \<Longrightarrow> tasks d' = tasks d \<Longrightarrow> apart d d'"
  by (simp add: apart_def task_keys_def)

lemma versioned_keys: "versioned d d' ws k v \<Longrightarrow> task_keys d' = task_keys d"
  unfolding versioned_def task_keys_def by (metis task_keys_update)

lemma dispatch_apart:
  assumes inv: "store_inv d" and run: "dispatch ev caller hash c d = Inr (d', res)"
  shows "apart d d'"
proof -
  have "task_keys d \<subseteq> task_keys d'"
  proof (cases "command_task c")
    case (Some kv)
    obtain k v where "kv = (k, v)" by (cases kv)
    with Some dispatch_step(2) [OF inv run] have "versioned d d' (cc_workspace caller) k v" by simp
    from versioned_keys [OF this] show ?thesis by simp
  next
    case None
    with run consider ti de where "apply_create ev caller (operation_id c) ti de hash d = Inr (d', res)"
      | k nt where "apply_note ev caller (operation_id c) k nt hash d = Inr (d', res)"
      by (cases c) auto
    then show ?thesis
    proof cases
      case 1
      from apply_create_step [OF inv this] show ?thesis by (auto simp: task_keys_def)
    next
      case 2
      from apply_note_step [OF inv this] show ?thesis by (auto simp: task_keys_def)
    qed
  qed
  then show ?thesis
    using dispatch_finishes [OF run] finish_mutation_fields
    by (fastforce simp: finishes_def log_same_def apart_def)
qed

lemma apply_task_apart:
  assumes "store_inv d" and "apply_task ev caller c d = Inr (d', res)"
  shows "apart d d'"
proof (cases "mutation_receipt d (cc_workspace caller) (operation_id c)")
  case None
  with assms show ?thesis by (auto simp: apply_task_fresh intro: dispatch_apart)
next
  case (Some m)
  with assms(2) show ?thesis
    by (auto simp: apply_task_def result_simps Let_def dest: replay_receipt_same)
qed

text \<open>Statements that change attempts, then the row of their task, then the log.\<close>

lemma closing_apart:
  assumes "update_attempts P h d = Inr (d1, n)" and "update_tasks Q f d1 = Inr (d2, m)"
    and "\<And>t. t_key (f t) = t_key t" and "append_event_in_transaction clock i d2 = Inr (d', e)"
  shows "apart d d'"
  using append_apart [OF assms(4)] update_attempts_effect(1) [OF assms(1)] update_tasks_effect(1) [OF assms(2)]
    task_keys_update [of f] assms(3)
  by (simp add: apart_def task_keys_def)

lemma interrupt_attempt_apart:
  assumes "interrupt_attempt clock eclock aid reason d = Inr (d', r)"
  shows "apart d d'"
  using assms
  by (auto simp: interrupt_attempt_def result_simps split: option.splits if_splits
      elim!: closing_apart simp: t_key_def)

lemma record_execution_stopped_apart:
  assumes "record_execution_stopped clock eclock ws k aid ses ag cr reason d = Inr (d', r)"
  shows "apart d d'"
  using assms
  by (auto simp: record_execution_stopped_def result_simps t_key_def split: option.splits if_splits
      elim!: closing_apart)

lemma recover_attempt_apart: "recover_attempt now clock a d = Inr d' \<Longrightarrow> apart d d'"
  by (auto simp: recover_attempt_def result_simps t_key_def elim!: closing_apart)

lemma loopR_apart:
  assumes "loopR c f xs d = Inr d'" and "\<And>n x d d'. f n x d = Inr d' \<Longrightarrow> apart d d'"
  shows "apart d d'"
  using loopR_preserves [OF assms(1), of "apart d"] assms(2) apart_trans by (metis apart_refl)

lemma append_event_apart: "append_event clock i d = Inr (d', e) \<Longrightarrow> apart d d'"
  by (auto simp: append_event_def result_simps intro: append_apart)

lemma append_chat_apart:
  "append_chat_idempotent clock ws actor req content d = Inr (d', r) \<Longrightarrow> apart d d'"
  by (auto simp: append_chat_idempotent_def result_simps split: option.splits intro: append_apart)

lemma append_request_apart: "append_request clock i d = Inr (d', e) \<Longrightarrow> apart d d'"
  by (auto simp: append_request_def result_simps intro: append_apart)

lemma create_workspace_apart: "create_workspace clock name d = Inr (d', r) \<Longrightarrow> apart d d'"
  by (auto simp: create_workspace_def result_simps insert_workspace_def intro: apart_same split: if_splits)

lemma insert_credential_apart: "insert_credential cx clock c d = Inr d' \<Longrightarrow> apart d d'"
  by (auto simp: insert_credential_def insert_credential_connection_def insert_credential_row_def result_simps
      intro: apart_same split: if_splits)

lemma revoke_credential_apart: "revoke_credential clock i d = Inr (d', r) \<Longrightarrow> apart d d'"
  by (auto simp: revoke_credential_def update_credentials_def result_simps intro: apart_same split: if_splits)

lemma issue_invite_apart:
  "issue_onboarding_invite cx new_id random ws create provider now d = Inr (d', issued) \<Longrightarrow> apart d d'"
  by (auto simp: issue_onboarding_invite_def result_simps Let_def insert_workspace_def insert_invite_def
      intro: apart_same split: if_splits)

lemma revoke_invite_apart: "revoke_onboarding_invite i now d = Inr d' \<Longrightarrow> apart d d'"
  by (auto simp: revoke_onboarding_invite_def result_simps update_invites_def intro: apart_same split: if_splits)

lemma redeem_apart: "redeem_onboarding cx r now d = Inr (d', claims) \<Longrightarrow> apart d d'"
  by (auto simp: redeem_eq_Inr replay_enrollment_eq_Inr first_enrollment_eq_Inr update_invites_def
      insert_credential_connection_def insert_credential_row_def result_simps intro: apart_same split: if_splits)

section \<open>Recovery\<close>

lemma recover_operation_sound:
  assumes snd: "sound d" and run: "recover_operation now clock x d = Inr d'"
  shows "sound d' \<and> onward d d'"
proof -
  obtain status err where so: "settled_outcome (x_phase x) (x_kind x) = (status, err)"
    by (cases "settled_outcome (x_phase x) (x_kind x)")
  let ?P = "\<lambda>y. x_workspace y = x_workspace x \<and> x_operation_id y = x_operation_id x \<and> x_status y = OpRunning"
  let ?f = "\<lambda>y. y\<lparr>x_phase := Terminal, x_status := status, x_error := Some err, x_updated_at := now\<rparr>"
  from run so obtain d1 i e where
    d1: "d1 = d\<lparr>external_operations := update_where ?P ?f (external_operations d)\<rparr>"
    and app: "append_event_in_transaction clock i d1 = Inr (d', e)"
    by (auto simp: recover_operation_def result_simps update_external_operations_def)
  have st: "status = OpUnconfirmed \<or> status = OpFailed"
    using so by (auto simp: settled_outcome_def split: if_splits)
  have "sound d1 \<and> onward d d1"
  proof (rule update_operations_sound [OF snd _ _ _ _ _ d1])
    fix y assume y: "y \<in> set (external_operations d)" "?P y"
    have ok: "operation_ok (task_keys d) y" by (rule sound_operationD [OF snd y(1)])
    show "operation_ok (task_keys d) (?f y)" using ok st y(2) by (auto simp: operation_ok_def)
    show "holds_slot y \<and> x_slot (?f y) = x_slot y" if "holds_slot (?f y)"
      using that y(2) by (simp add: holds_slot_def x_slot_def blocking_def)
    show "op_le y (?f y)" using st y(2) by (auto simp: row_simps)
  qed (auto simp: blocking_def x_key_def)
  with append_sound [OF _ app] show ?thesis by (blast intro: onward_trans)
qed

lemma recover_external_operations_sound:
  assumes snd: "sound d" and run: "recover_external_operations clock clocks d = Inr d'"
  shows "sound d' \<and> onward d d'"
proof -
  from run have l: "loopR clocks (recover_operation clock) (inflight_operations d) d = Inr d'"
    by (auto simp: recover_external_operations_def result_simps)
  have step: "sound s' \<and> onward d s'"
    if "sound s \<and> onward d s" "recover_operation clock n x s = Inr s'" for n x s s'
  proof -
    from that(1) have s: "sound s" "onward d s" by simp_all
    from recover_operation_sound [OF s(1) that(2)] s(2) show ?thesis by (auto intro: onward_trans)
  qed
  show ?thesis
  proof (rule loopR_preserves [where P = "\<lambda>s. sound s \<and> onward d s", OF l])
    show "sound d \<and> onward d d" by (simp add: snd)
  qed (rule step)
qed

lemma recover_external_inflight_sound:
  "sound d \<Longrightarrow> recover_external_inflight clock clocks d = Inr d' \<Longrightarrow> sound d' \<and> onward d d'"
  by (auto simp: recover_external_inflight_def result_simps dest: recover_external_operations_sound)

lemma recover_unfinished_requests_apart:
  "recover_unfinished_requests clocks d = Inr d' \<Longrightarrow> apart d d'"
  by (auto simp: recover_unfinished_requests_def result_simps elim!: loopR_apart intro: append_apart)

lemma recover_running_attempts_apart:
  "recover_running_attempts clock clocks d = Inr d' \<Longrightarrow> apart d d'"
  by (auto simp: recover_running_attempts_def result_simps elim!: loopR_apart intro: recover_attempt_apart)

lemma recover_sound:
  assumes snd: "sound d" and run: "recover rc d = Inr d'"
  shows "sound d' \<and> onward d d'"
proof -
  from run obtain d1 d2 where
    d1: "recover_unfinished_requests (rc_requests rc) d = Inr d1"
    and d2: "recover_running_attempts (rc_attempts_now rc) (rc_attempts rc) d1 = Inr d2"
    and d3: "recover_external_operations (rc_operations_now rc) (rc_operations rc) d2 = Inr d'"
    by (auto simp: recover_def result_simps)
  from snd have inv: "store_inv d" by (simp add: sound_def)
  note e1 = recover_unfinished_requests_effect(1) [OF inv d1]
  have s1: "sound d1 \<and> onward d d1"
    by (rule sound_apart [OF snd e1 recover_unfinished_requests_apart [OF d1]
          recover_unfinished_requests_aside [OF d1]])
  note e2 = recover_running_attempts_effect(1) [OF e1 d2]
  have s2: "sound d2 \<and> onward d1 d2"
    using s1 sound_apart [OF _ e2 recover_running_attempts_apart [OF d2] recover_running_attempts_aside [OF d2]]
    by blast
  from s1 s2 recover_external_operations_sound [OF _ d3] show ?thesis by (blast intro: onward_trans)
qed

end
