(* ===== verification/Store_Machine.thy ===== *)
theory Store_Machine
  imports External_Frame
begin

text \<open>
  The store as a state machine: one rule per operation that changes it, in any order. The locale of
  machines is interpreted on it twice, which gives the invariant on every reachable store, the append-only
  log along every run, and external operations that only move forward.
\<close>

section \<open>The steps of the store\<close>

definition empty_db :: "uuid \<Rightarrow> db" where
  "empty_db server =
     \<lparr>workspaces = [], events = [], credentials = [], tasks = [], attempts = [], reports = [],
      mutations = [], links = [], external_operations = [], resolutions = [], bindings = [],
      server_id = server, invites = []\<rparr>"

inductive store_step :: "db \<Rightarrow> db \<Rightarrow> bool" where
  task: "apply_task ev caller c d = Inr (d', res) \<Longrightarrow> store_step d d'"
| interrupt: "interrupt_attempt clock eclock aid reason d = Inr (d', r) \<Longrightarrow> store_step d d'"
| stopped: "record_execution_stopped clock eclock ws k aid ses ag cr reason d = Inr (d', r) \<Longrightarrow>
    store_step d d'"
| event: "append_event clock i d = Inr (d', e) \<Longrightarrow> store_step d d'"
| chat: "append_chat_idempotent clock ws actor req content d = Inr (d', ca) \<Longrightarrow> store_step d d'"
| request: "append_request clock i d = Inr (d', e) \<Longrightarrow> store_step d d'"
| workspace: "create_workspace clock name d = Inr (d', w) \<Longrightarrow> store_step d d'"
| credential: "insert_credential cx clock c d = Inr d' \<Longrightarrow> store_step d d'"
| revoke: "revoke_credential clock i d = Inr (d', r) \<Longrightarrow> store_step d d'"
| issue: "issue_onboarding_invite cx new_id random ws create provider now d = Inr (d', issued) \<Longrightarrow>
    store_step d d'"
| revoke_invite: "revoke_onboarding_invite i now d = Inr d' \<Longrightarrow> store_step d d'"
| redeem: "redeem_onboarding cx r now d = Inr (d', claims) \<Longrightarrow> store_step d d'"
| recovery: "recover rc d = Inr d' \<Longrightarrow> store_step d d'"
| inflight: "recover_external_inflight clock clocks d = Inr d' \<Longrightarrow> store_step d d'"
| prepare: "prepare_external_operation v caller active c d = Inr (d', p) \<Longrightarrow> store_step d d'"
| dispatched: "mark_external_dispatched v p d = Inr (d', e) \<Longrightarrow> store_step d d'"
| read: "tracks p d \<Longrightarrow> complete_external_read v p issue d = Inr (d', xo) \<Longrightarrow> store_step d d'"
| mutation: "tracks p d \<Longrightarrow> complete_external_mutation v p m d = Inr (d', xo) \<Longrightarrow> store_step d d'"
| failure: "tracks p d \<Longrightarrow> complete_external_error v p err d = Inr (d', xo) \<Longrightarrow> store_step d d'"
| denied: "tracks p d \<Longrightarrow> terminal_external_error v p OpFailed code d = Inr (d', xo) \<Longrightarrow> store_step d d'"
| resolution: "prepare_external_resolution v caller active op rid outcome eid note d = Inr (d', prep) \<Longrightarrow>
    store_step d d'"
| resolved: "resolves q d \<Longrightarrow> complete_applied_resolution v q m d = Inr (d', vc) \<Longrightarrow> store_step d d'"
| catalog: "apply_catalog xc k cs d = Inr (d', am, evs) \<Longrightarrow> store_step d d'"
| disabled: "store_step d (disable_bindings d)"

text \<open>The rules for the end of an external operation ask that what the worker carries agrees with the stored
  operation, which holds of everything \<open>prepare\<close> and \<open>resolution\<close> hand out.\<close>

definition reachable :: "db \<Rightarrow> bool" where
  "reachable d \<longleftrightarrow> (\<exists>server. store_step\<^sup>*\<^sup>* (empty_db server) d)"

section \<open>The invariant of every step\<close>

lemma store_inv_commit_append:
  "store_inv d \<Longrightarrow> append_event clock i d = Inr (d', e) \<Longrightarrow> store_inv d' \<and> aside d d'"
  by (auto simp: append_event_def result_simps intro: store_inv_append append_aside)

lemma append_chat_inv:
  "store_inv d \<Longrightarrow> append_chat_idempotent clock ws actor req content d = Inr (d', r) \<Longrightarrow>
     store_inv d' \<and> aside d d'"
  by (auto simp: append_chat_idempotent_def result_simps split: option.splits
      intro: store_inv_append append_aside)

lemma append_request_inv:
  "store_inv d \<Longrightarrow> append_request clock i d = Inr (d', e) \<Longrightarrow> store_inv d' \<and> aside d d'"
  by (auto simp: append_request_def result_simps intro: store_inv_append append_aside)

lemma create_workspace_inv:
  assumes "store_inv d" and "create_workspace clock name d = Inr (d', r)"
  shows "store_inv d' \<and> aside d d'"
proof -
  from assms(2) obtain n where
    ins: "insert_workspace \<lparr>w_name = name, w_created_at = clock, w_next_seq = 1, w_next_task_id = 1\<rparr> d =
      Inr (d', n)"
    by (auto simp: create_workspace_def result_simps)
  then have "aside d d'" by (auto simp: insert_workspace_def aside_def appends_def split: if_splits)
  with store_inv_workspace [OF assms(1) ins] show ?thesis by simp
qed

lemma recover_external_inflight_inv:
  "store_inv d \<Longrightarrow> recover_external_inflight clock clocks d = Inr d' \<Longrightarrow> store_inv d' \<and> aside d d'"
  by (auto simp: recover_external_inflight_def result_simps
      intro: recover_external_operations_effect(1) recover_external_operations_aside)

lemma insert_credential_enroll:
  assumes "store_inv d" and "enroll_inv d" and "insert_credential cx clock c d = Inr d'"
  shows "store_inv d' \<and> enroll_inv d' \<and> appends d d'"
proof -
  from assms(3) obtain row where row: "insert_credential_row row d = Inr d'"
    by (auto simp: insert_credential_def insert_credential_connection_def result_simps)
  note eff = insert_credential_row_effect [OF row]
  from assms(3) have "store_inv d'"
    by (auto simp: insert_credential_def result_simps intro: insert_credential_inv [OF assms(1)])
  with eff assms(2) show ?thesis by (auto simp: enroll_inv_def appends_def)
qed

lemma revoke_credential_enroll:
  assumes "store_inv d" and "enroll_inv d" and "revoke_credential clock i d = Inr (d', r)"
  shows "store_inv d' \<and> enroll_inv d' \<and> appends d d'"
proof -
  from assms(3) obtain P now where d': "d' = d\<lparr>credentials :=
      update_where P (\<lambda>r. r\<lparr>c_revoked_at := Some now\<rparr>) (credentials d)\<rparr>"
    by (auto simp: revoke_credential_def result_simps update_credentials_def split: if_splits)
  have "enroll_inv d'"
    using assms(2) by (simp add: enroll_inv_def d' map_update_where keys_update_where)
  with revoke_credential_inv [OF assms(1,3)] show ?thesis by (simp add: d' appends_def)
qed

lemma redeem_appends:
  assumes "enroll_inv d" and "redeem_onboarding cx r now d = Inr (d', claims)"
  shows "appends d d'"
  using assms(2)
  by (auto simp: redeem_eq_Inr replay_enrollment_eq_Inr first_enrollment_eq_Inr update_invites_def
      insert_credential_connection_def result_simps appends_def split: if_splits
      dest!: insert_credential_row_effect(1))

lemma issue_appends:
  "issue_onboarding_invite cx new_id random ws create provider now d = Inr (d', issued) \<Longrightarrow> appends d d'"
  by (auto simp: issue_onboarding_invite_def result_simps Let_def insert_workspace_def insert_invite_def
      appends_def split: if_splits)

lemma revoke_invite_appends: "revoke_onboarding_invite i now d = Inr d' \<Longrightarrow> appends d d'"
  by (auto simp: revoke_onboarding_invite_def result_simps update_invites_def appends_def split: if_splits)

lemma issue_enroll:
  assumes "store_inv d" and "enroll_inv d"
    and "issue_onboarding_invite cx new_id random ws create provider now d = Inr (d', issued)"
  shows "store_inv d' \<and> enroll_inv d' \<and> appends d d'"
  using issue_onboarding_invite_inv [OF assms] issue_appends [OF assms(3)] by simp

lemma revoke_invite_enroll:
  assumes "store_inv d" and "enroll_inv d" and "revoke_onboarding_invite i now d = Inr d'"
  shows "store_inv d' \<and> enroll_inv d' \<and> appends d d'"
  using revoke_onboarding_invite_inv [OF assms] revoke_invite_appends [OF assms(3)] by simp

lemma redeem_enroll:
  assumes "store_inv d" and "enroll_inv d" and "redeem_onboarding cx r now d = Inr (d', claims)"
  shows "store_inv d' \<and> enroll_inv d' \<and> appends d d'"
  using redeem_inv [OF assms] redeem_appends [OF assms(2,3)] by simp

definition full_inv :: "db \<Rightarrow> bool" where
  "full_inv d \<longleftrightarrow> store_inv d \<and> enroll_inv d \<and> ext_inv d"

text \<open>A step of the machine: the log grows and operations move forward.\<close>

definition grows :: "db \<Rightarrow> db \<Rightarrow> bool" where
  "grows d d' \<longleftrightarrow> appends d d' \<and> ops_grow (external_operations d) (external_operations d')"

lemma full_inv_aside:
  "full_inv d \<Longrightarrow> store_inv d' \<and> aside d d' \<Longrightarrow> apart d d' \<Longrightarrow> full_inv d' \<and> grows d d'"
  by (auto simp: full_inv_def grows_def aside_def enroll_inv_def apart_def ext_inv_apart [unfolded apart_def])

lemma full_inv_enroll:
  "full_inv d \<Longrightarrow> store_inv d' \<and> enroll_inv d' \<and> appends d d' \<Longrightarrow> apart d d' \<Longrightarrow> full_inv d' \<and> grows d d'"
  by (auto simp: full_inv_def grows_def ext_inv_apart) (simp add: apart_def)

lemma full_inv_sound:
  "full_inv d \<Longrightarrow> sound d' \<and> onward d d' \<Longrightarrow> full_inv d' \<and> grows d d'"
  by (auto simp: full_inv_def grows_def sound_def onward_def aside_def enroll_inv_def)

lemma store_step_inv:
  assumes "store_step d d'" and "full_inv d"
  shows "full_inv d' \<and> grows d d'"
proof -
  from assms(2) have inv: "store_inv d" and en: "enroll_inv d" and snd: "sound d"
    by (simp_all add: full_inv_def sound_def)
  from assms(1) show ?thesis
  proof cases
    case task
    then show ?thesis
      by (intro full_inv_aside [OF assms(2)])
         (blast intro: apply_task_inv [OF inv] apply_task_aside apply_task_apart [OF inv])+
  next
    case interrupt
    then show ?thesis
      by (intro full_inv_aside [OF assms(2)])
         (blast intro: interrupt_attempt_effect(1) [OF inv] interrupt_attempt_aside interrupt_attempt_apart)+
  next
    case stopped
    then show ?thesis
      by (intro full_inv_aside [OF assms(2)])
         (blast intro: record_execution_stopped_inv [OF inv] record_execution_stopped_aside
            record_execution_stopped_apart)+
  next
    case event
    then show ?thesis
      by (intro full_inv_aside [OF assms(2)] store_inv_commit_append [OF inv] append_event_apart)
  next
    case chat
    then show ?thesis by (intro full_inv_aside [OF assms(2)] append_chat_inv [OF inv] append_chat_apart)
  next
    case request
    then show ?thesis by (intro full_inv_aside [OF assms(2)] append_request_inv [OF inv] append_request_apart)
  next
    case workspace
    then show ?thesis
      by (intro full_inv_aside [OF assms(2)] create_workspace_inv [OF inv] create_workspace_apart)
  next
    case credential
    then show ?thesis
      by (intro full_inv_enroll [OF assms(2)] insert_credential_enroll [OF inv en] insert_credential_apart)
  next
    case revoke
    then show ?thesis
      by (intro full_inv_enroll [OF assms(2)] revoke_credential_enroll [OF inv en] revoke_credential_apart)
  next
    case issue
    then show ?thesis
      by (intro full_inv_enroll [OF assms(2)] issue_enroll [OF inv en] issue_invite_apart)
  next
    case revoke_invite
    then show ?thesis
      by (intro full_inv_enroll [OF assms(2)] revoke_invite_enroll [OF inv en] revoke_invite_apart)
  next
    case redeem
    then show ?thesis
      by (intro full_inv_enroll [OF assms(2)] redeem_enroll [OF inv en] redeem_apart)
  next
    case recovery
    then show ?thesis by (intro full_inv_sound [OF assms(2)] recover_sound [OF snd])
  next
    case inflight
    then show ?thesis by (intro full_inv_sound [OF assms(2)] recover_external_inflight_sound [OF snd])
  next
    case prepare
    then show ?thesis
      by (intro full_inv_sound [OF assms(2)]) (use prepare_external_sound [OF snd] in blast)
  next
    case dispatched
    then show ?thesis by (intro full_inv_sound [OF assms(2)] mark_dispatched_sound [OF snd])
  next
    case read
    then show ?thesis by (intro full_inv_sound [OF assms(2)] complete_read_sound [OF snd])
  next
    case mutation
    then show ?thesis by (intro full_inv_sound [OF assms(2)] complete_mutation_sound [OF snd])
  next
    case failure
    then show ?thesis by (intro full_inv_sound [OF assms(2)] complete_error_sound [OF snd])
  next
    case denied
    then show ?thesis by (intro full_inv_sound [OF assms(2)] terminal_error_sound [OF snd]) auto
  next
    case resolution
    then show ?thesis by (intro full_inv_sound [OF assms(2)] prepare_resolution_sound [OF snd])
  next
    case resolved
    then show ?thesis by (intro full_inv_sound [OF assms(2)] applied_sound [OF snd])
  next
    case catalog
    then show ?thesis by (intro full_inv_sound [OF assms(2)] apply_catalog_sound [OF snd])
  next
    case disabled
    with disable_bindings_sound [OF snd] full_inv_sound [OF assms(2)] show ?thesis by simp
  qed
qed

interpretation store: machine store_step full_inv appends
  by unfold_locales (auto simp: grows_def dest: store_step_inv intro: appends_trans)

text \<open>The operations of a store, as a machine of their own.\<close>

interpretation operations: machine store_step full_inv
  "\<lambda>d d'. ops_grow (external_operations d) (external_operations d')"
  by unfold_locales (auto simp: grows_def dest: store_step_inv intro: ops_grow_trans)

lemma empty_db_inv: "full_inv (empty_db server)"
  by (simp add: full_inv_def empty_db_def store_inv_def log_inv_def exec_ok_def ref_ok_def ids_ok_def
      receipts_ok_def creds_ok_def enroll_inv_def attempts_unique_def ext_inv_def operations_ok_def
      links_ok_def resolutions_ok_def)

lemma reachable_inv: "reachable d \<Longrightarrow> full_inv d"
  using store.run_inv empty_db_inv by (auto simp: reachable_def)

end
