(* ===== verification/Queries.thy ===== *)
theory Queries
  imports Store_Machine
begin

text \<open>
  The read side under the invariant: reading a task never fails, the summaries of a listing are
  those of the details, the listings are complete when their cursors are followed, and the fences of
  an agent are exactly its barriers.
\<close>

section \<open>Reading one task\<close>

lemma load_attempt_ok:
  assumes "exec_ok (tasks d) (attempts d)" and "a \<in> set (attempts d)"
  shows "load_attempt d (a_id a) = Inr (attempt_of_row a)"
  using find_key_distinct [OF exec_okD(2) [OF assms(1)] assms(2)]
  by (simp add: load_attempt_def find_attempt_def)

lemma load_report_ok:
  assumes "ref_ok (tasks d) (attempts d) (reports d)" and "r \<in> set (reports d)"
  shows "load_report d (r_id r) = Inr (report_of_row r)"
  using find_key_distinct [OF ref_okD(1) [OF assms(1)] assms(2)] ref_okD(2) [OF assms]
  by (simp add: load_report_def find_report_def)

lemma read_task_parts:
  assumes inv: "store_inv d" and t: "t \<in> set (tasks d)"
  shows "\<exists>ca. transposeR (load_attempt d) (t_current_attempt_id t) = Inr ca"
    "\<exists>la. transposeR (load_attempt d) (t_last_attempt_id t) = Inr la"
    "\<exists>ck. transposeR (load_report d) (t_last_checkpoint_id t) = Inr ck"
    "\<exists>rr. transposeR (load_report d) (t_result_report_id t) = Inr rr"
proof -
  note ok = store_invD(2) [OF inv] and ref = store_invD(3) [OF inv]
  have la: "\<exists>x. load_attempt d i = Inr x"
    if "t_current_attempt_id t = Some i \<or> t_last_attempt_id t = Some i" for i
    using that exec_okD(9,10) [OF ok t, of i] load_attempt_ok [OF ok] by blast
  have lr: "\<exists>x. load_report d i = Inr x"
    if "t_last_checkpoint_id t = Some i \<or> t_result_report_id t = Some i" for i
    using ref_okD(5) [OF ref t that] load_report_ok [OF ref] by blast
  show "\<exists>ca. transposeR (load_attempt d) (t_current_attempt_id t) = Inr ca"
    using la by (cases "t_current_attempt_id t") (auto simp: transposeR_eq_Inr)
  show "\<exists>la. transposeR (load_attempt d) (t_last_attempt_id t) = Inr la"
    using la by (cases "t_last_attempt_id t") (auto simp: transposeR_eq_Inr)
  show "\<exists>ck. transposeR (load_report d) (t_last_checkpoint_id t) = Inr ck"
    using lr by (cases "t_last_checkpoint_id t") (auto simp: transposeR_eq_Inr)
  show "\<exists>rr. transposeR (load_report d) (t_result_report_id t) = Inr rr"
    using lr by (cases "t_result_report_id t") (auto simp: transposeR_eq_Inr)
qed

lemma or_else_transpose:
  assumes "transposeR f x = Inr a" and "transposeR f y = Inr b"
  shows "transposeR f (or_else x y) = Inr (or_else a b)"
  using assms by (cases x) (auto simp: or_else_def transposeR_eq_Inr split: option.splits)

lemma get_task_ok:
  assumes inv: "store_inv d" and t: "find_task d ws k = Some t"
  shows "\<exists>td. get_task_detail_connection d ws k = Inr (Some td) \<and>
    task_summary_from_row d t = Inr (td_summary td) \<and> ts_id (td_summary td) = t_id t \<and>
    td_description td = t_description t"
proof -
  from find_task_SomeD [OF t] have tin: "t \<in> set (tasks d)" by simp
  from read_task_parts [OF inv tin] obtain ca la ck rr where
    p: "transposeR (load_attempt d) (t_current_attempt_id t) = Inr ca"
      "transposeR (load_attempt d) (t_last_attempt_id t) = Inr la"
      "transposeR (load_report d) (t_last_checkpoint_id t) = Inr ck"
      "transposeR (load_report d) (t_result_report_id t) = Inr rr" by blast
  show ?thesis
    by (simp add: get_task_detail_connection_def task_summary_from_row_def t p
        or_else_transpose [OF p(1,2)] summary_of_def)
qed

definition summary_row :: "db \<Rightarrow> task_row \<Rightarrow> task_summary" where
  "summary_row d t = projr (task_summary_from_row d t)"

lemma task_summary_ok:
  assumes "store_inv d" and "t \<in> set (tasks d)"
  shows "task_summary_from_row d t = Inr (summary_row d t)" "ts_id (summary_row d t) = t_id t"
proof -
  have "find_task d (t_workspace t) (t_id t) = Some t"
    using find_key_distinct [OF exec_okD(1) [OF store_invD(2) [OF assms(1)]] assms(2)]
    by (simp add: find_task_def t_key_def)
  from get_task_ok [OF assms(1) this]
  show "task_summary_from_row d t = Inr (summary_row d t)" "ts_id (summary_row d t) = t_id t"
    by (auto simp: summary_row_def)
qed

section \<open>Listing tasks\<close>

lemma mapR_all:
  "(\<And>x. x \<in> set xs \<Longrightarrow> f x = Inr (g x)) \<Longrightarrow> mapR f xs = Inr (map g xs)"
  by (induction xs) auto

definition task_rows ::
  "db \<Rightarrow> workspace_name \<times> task_state list \<times> string option \<Rightarrow> task_row list" where
  "task_rows d q = (case q of (ws, states, assigned) \<Rightarrow> filter (task_matches ws states assigned) (tasks d))"

lemma task_rows_sorted:
  assumes "store_inv d"
  shows "sorted_wrt (<) (map t_id (filter (\<lambda>t. t_workspace t = ws) (tasks d)))"
proof (cases "ws \<in> w_name ` set (workspaces d)")
  case True
  then show ?thesis using store_invD(4) [OF assms] by (auto simp: ids_ok_def)
next
  case False
  then have "filter (\<lambda>t. t_workspace t = ws) (tasks d) = []"
    using store_invD(4) [OF assms] by (auto simp: ids_ok_def filter_empty_conv)
  then show ?thesis by simp
qed

lemma task_rows_query_sorted:
  assumes "store_inv d"
  shows "sorted_wrt (<) (map t_id (task_rows d q))"
proof -
  obtain ws states assigned where q: "q = (ws, states, assigned)" by (cases q) auto
  have "task_rows d q = filter (task_matches ws states assigned) (filter (\<lambda>t. t_workspace t = ws) (tasks d))"
    by (auto simp: task_rows_def q task_matches_def intro!: filter_cong)
  then show ?thesis
    using task_rows_sorted [OF assms, of ws] unfolding sorted_wrt_map by (metis sorted_wrt_filter)
qed

definition list_page ::
  "db \<Rightarrow> workspace_name \<times> task_state list \<times> string option \<Rightarrow> int \<Rightarrow> nat \<Rightarrow>
     store_error + task_summary list \<times> int \<times> bool" where
  "list_page d q after limit = (case q of (ws, states, assigned) \<Rightarrow> list_tasks d ws states assigned after limit)"

definition list_ready ::
  "db \<Rightarrow> workspace_name \<times> task_state list \<times> string option \<Rightarrow> int \<Rightarrow> bool" where
  "list_ready d q after = (fst (snd q) \<noteq> [])"

interpretation listing: paged_query store_inv list_ready "\<lambda>d q. map (summary_row d) (task_rows d q)"
  ts_id id list_page
proof (unfold_locales, goal_cases)
  case (1 d q)
  have "map ts_id (map (summary_row d) (task_rows d q)) = map t_id (task_rows d q)"
    using task_summary_ok(2) [OF 1] by (cases q) (simp add: task_rows_def)
  then show ?case using task_rows_query_sorted [OF 1, of q] by (simp only:)
next
  case (2 d q after limit)
  obtain ws states assigned where q: "q = (ws, states, assigned)" by (cases q) auto
  let ?rows = "filter (\<lambda>t. after < t_id t) (task_rows d q)"
  have sel: "filter (\<lambda>t. task_matches ws states assigned t \<and> after < t_id t) (tasks d) = ?rows"
    by (simp add: task_rows_def q conj_commute)
  have "sorted_wrt (<) (map t_id ?rows)"
    using task_rows_query_sorted [OF 2(1), of q] by (simp add: sorted_wrt_map sorted_wrt_filter)
  then have srt: "sort_key t_id ?rows = ?rows"
    by (simp add: sort_key_id_if_sorted strict_sorted_imp_sorted)
  have in_tasks: "t \<in> set (tasks d)" if "t \<in> set (task_rows d q)" for t
    using that by (simp add: task_rows_def q)
  have sums: "mapR (task_summary_from_row d) (take (limit + 1) ?rows) =
      Inr (take (limit + 1) (map (summary_row d) ?rows))"
    unfolding take_map
    by (rule mapR_all) (use task_summary_ok(1) [OF 2(1)] in_tasks in \<open>auto dest!: in_set_takeD\<close>)
  have later: "map (summary_row d) ?rows = filter (\<lambda>r. after < ts_id r) (map (summary_row d) (task_rows d q))"
    using task_summary_ok(2) [OF 2(1)] in_tasks by (auto simp: filter_map intro!: arg_cong [where f = "map (summary_row d)"] filter_cong)
  show ?case
    using 2(2)
    by (simp add: list_page_def q list_tasks_def list_ready_def sel [unfolded q] srt [unfolded q]
        sums [unfolded q, simplified] pop_page_take_Suc [simplified] Let_def later [unfolded q])
next
  case (3 d q after r)
  then show ?case by (simp add: list_ready_def)
qed

section \<open>Recent history\<close>

lemma recent_history_spec:
  assumes inv: "log_inv d" and latest: "latest_seq d ws = Some n"
  shows "recent_history d ws limit =
    Inr (drop (length (workspace_log d ws) - limit) (workspace_log d ws),
         if limit = 0 then 0 else n, False)"
proof -
  let ?log = "workspace_log d ws"
  have srt: "sort_key we_seq ?log = ?log" using sort_log_id [OF inv, of "\<lambda>_. True" ws] by simp
  have len: "n = int (length ?log)" by (rule latest_seq_length [OF inv latest])
  have evs: "rev (take limit (rev ?log)) = drop (length ?log - limit) ?log"
    by (simp add: take_rev)
  have "next_cursor we_seq 0 (drop (length ?log - limit) ?log) = (if limit = 0 then 0 else n)"
  proof (cases "?log = [] \<or> limit = 0")
    case True
    then show ?thesis by (auto simp: next_cursor_def len)
  next
    case False
    then have "drop (length ?log - limit) ?log \<noteq> []" by (cases ?log) auto
    moreover from this have "last (drop (length ?log - limit) ?log) = last ?log" by (simp add: last_drop)
    moreover have "we_seq (last ?log) = n"
      using log_dense [OF inv, of ws] False len
      by (metis last_map upto_rec2 last_snoc of_nat_0_less_iff length_greater_0_conv zless_iff_Suc_zadd
          linorder_not_less int_one_le_iff_zero_less)
    ultimately show ?thesis using False by (simp add: next_cursor_def)
  qed
  then show ?thesis by (simp add: recent_history_def latest srt evs Let_def)
qed

section \<open>Fences\<close>

lemma barrier_unique:
  assumes "exec_ok ts as" and "a \<in> set as" and "b \<in> set as" and "is_barrier a" and "is_barrier b"
    and "a_agent_id a = a_agent_id b"
  shows "a = b"
  using distinct_key_eq [of a_agent_id "filter is_barrier as" a b] exec_okD(7) [OF assms(1)] assms(2-6)
  by (simp add: attempts_unique_def)

lemma running_unique:
  assumes "exec_ok ts as" and "a \<in> set as" and "b \<in> set as" and "is_running a" and "is_running b"
    and "a_key a = a_key b"
  shows "a = b"
  using distinct_key_eq [of a_key "filter is_running as" a b] exec_okD(7) [OF assms(1)] assms(2-6)
  by (simp add: attempts_unique_def)

lemma in_progress_running:
  assumes ok: "exec_ok ts as" and t: "t \<in> set ts"
  shows "t_state t = InProgress \<longleftrightarrow> (\<exists>c\<in>set as. a_status c = Running \<and> a_key c = t_key t)"
proof
  assume "t_state t = InProgress"
  then obtain i where "t_current_attempt_id t = Some i" using exec_ok_in_progress [OF ok t] by blast
  from exec_ok_current [OF ok t this] show "\<exists>c\<in>set as. a_status c = Running \<and> a_key c = t_key t"
    by (auto simp: is_running_def)
next
  assume "\<exists>c\<in>set as. a_status c = Running \<and> a_key c = t_key t"
  then obtain c where "c \<in> set as" "is_running c" "t_key t = a_key c" by (auto simp: is_running_def)
  from exec_ok_running [OF ok this(1,2) t this(3)] show "t_state t = InProgress"
    using exec_ok_in_progress [OF ok t] by simp
qed

lemma fence_rows_at_most_one:
  assumes inv: "store_inv d"
  shows "fence_rows d ag = [] \<and> (\<forall>a\<in>set (attempts d). a_agent_id a = ag \<longrightarrow> \<not> is_barrier a) \<or>
    (\<exists>a\<in>set (attempts d). a_agent_id a = ag \<and> is_barrier a \<and> fence_rows d ag = [a])"
proof -
  note ok = store_invD(2) [OF inv]
  let ?xs = "filter (\<lambda>a. a_agent_id a = ag \<and> is_barrier a) (attempts d)"
  have dist: "distinct ?xs" using exec_okD(2) [OF ok] by (simp add: distinct_map)
  show ?thesis
  proof (cases ?xs)
    case Nil
    then show ?thesis by (auto simp: fence_rows_def filter_empty_conv)
  next
    case (Cons a ys)
    have ain: "a \<in> set (attempts d)" "a_agent_id a = ag" "is_barrier a"
      using arg_cong [OF Cons, of set] by auto
    have "b = a" if "b \<in> set ys" for b
    proof -
      have "b \<in> set (attempts d)" "a_agent_id b = ag" "is_barrier b"
        using arg_cong [OF Cons, of set] that by auto
      then show ?thesis using barrier_unique [OF ok _ ain(1)] ain by auto
    qed
    with dist Cons have "ys = []" by (cases ys) auto
    with Cons ain show ?thesis by (auto simp: fence_rows_def)
  qed
qed

lemma fences_spec:
  assumes inv: "store_inv d"
  shows "\<exists>current pending. agent_execution_fences d ag = Inr (current, pending) \<and>
    (current \<noteq> None \<longleftrightarrow> (\<exists>a\<in>set (attempts d). a_agent_id a = ag \<and> a_status a = Running)) \<and>
    (pending \<noteq> None \<longleftrightarrow> (\<exists>a\<in>set (attempts d). a_agent_id a = ag \<and> a_status a = Interrupted \<and>
       a_stop_evidence a = EvUnknown)) \<and>
    (current = None \<or> pending = None)"
proof (cases "fence_rows d ag = []")
  case True
  with fence_rows_at_most_one [OF inv, of ag] show ?thesis
    by (auto simp: agent_execution_fences_def is_barrier_def)
next
  case False
  with fence_rows_at_most_one [OF inv, of ag] obtain a where
    a: "a \<in> set (attempts d)" "a_agent_id a = ag" "is_barrier a" "fence_rows d ag = [a]" by auto
  have only: "b = a" if "b \<in> set (attempts d)" "a_agent_id b = ag" "is_barrier b" for b
    using barrier_unique [OF store_invD(2) [OF inv] that(1) a(1) that(3) a(3)] that(2) a(2) by simp
  have run: "(\<exists>b\<in>set (attempts d). a_agent_id b = ag \<and> a_status b = Running) \<longleftrightarrow> a_status a = Running"
    using a(1,2) only by (metis is_barrier_def)
  have pend: "(\<exists>b\<in>set (attempts d). a_agent_id b = ag \<and> a_status b = Interrupted \<and>
      a_stop_evidence b = EvUnknown) \<longleftrightarrow> a_status a = Interrupted \<and> a_stop_evidence a = EvUnknown"
    using a(1,2) only by (metis is_barrier_def)
  show ?thesis
    unfolding run pend using a(3)
    by (auto simp: agent_execution_fences_def fill_fence_def a(4) is_barrier_def)
qed

lemma has_barrier_spec:
  assumes "store_inv d"
  shows "agent_has_execution_barrier d ag =
    Inr (\<exists>a\<in>set (attempts d). a_agent_id a = ag \<and> is_barrier a)"
  using fences_spec [OF assms, of ag]
  by (auto simp: agent_has_execution_barrier_def agent_execution_barriers_def is_barrier_def)

end
