(* ===== verification/Progress.thy ===== *)
theory Progress
  imports Queries
begin

text \<open>
  Progress: under the invariant, with the clock in range and room left below the safe-integer limit,
  an append succeeds, and so does every transition the router makes on its own.
\<close>

section \<open>Appending succeeds\<close>

definition has_room :: "db \<Rightarrow> workspace_name \<Rightarrow> bool" where
  "has_room d ws \<longleftrightarrow> (\<exists>w\<in>set (workspaces d). w_name w = ws \<and> w_next_seq w < MAX_SAFE_INTEGER)"

lemma append_event_total:
  assumes inv: "log_inv d" and room: "has_room d (ei_workspace i)" and clock: "safe_time clock"
    and shape: "\<And>n. safe_id n \<Longrightarrow> event_check (event_of_insert i n clock)"
    and fresh: "\<And>n e. e \<in> set (events d) \<Longrightarrow> \<not> event_conflict (event_of_insert i n clock) e"
  shows "\<exists>d' e. append_event_in_transaction clock i d = Inr (d', e)"
proof -
  from room obtain w where w: "w \<in> set (workspaces d)" "w_name w = ei_workspace i"
    "w_next_seq w < MAX_SAFE_INTEGER" by (auto simp: has_room_def)
  have chk: "workspace_check w" by (rule log_invD(2) [OF inv w(1)])
  have only: "can_bump_seq (ei_workspace i) v \<longleftrightarrow> v = w" if "v \<in> set (workspaces d)" for v
    using that w can_bump_seq_checked [OF log_invD(2) [OF inv that]]
      distinct_key_eq [OF log_invD(1) [OF inv] that w(1)] by auto
  have find: "find (can_bump_seq (ei_workspace i)) (workspaces d) = Some w"
  proof -
    have "find (can_bump_seq (ei_workspace i)) (workspaces d) \<noteq> None"
      using only w(1) by (auto simp: find_None_iff)
    then obtain v where "find (can_bump_seq (ei_workspace i)) (workspaces d) = Some v" by blast
    moreover from this have "v \<in> set (workspaces d)" "can_bump_seq (ei_workspace i) v"
      by (auto simp: find_Some_iff)
    ultimately show ?thesis using only by simp
  qed
  have bump: "\<not> (\<exists>v\<in>set (workspaces d). can_bump_seq (ei_workspace i) v \<and> \<not> workspace_check (bump_seq v))"
    using only chk w(3) by (auto simp: workspace_check_def safe_id_def)
  have seq: "safe_id (w_next_seq w)" using chk by (simp add: workspace_check_def)
  have nokey: "\<not> (\<exists>f\<in>set (events d). e_key f = e_key (event_of_insert i (w_next_seq w) clock))"
  proof
    assume "\<exists>f\<in>set (events d). e_key f = e_key (event_of_insert i (w_next_seq w) clock)"
    then obtain f where f: "f \<in> set (workspace_log d (w_name w))" "we_seq f = w_next_seq w"
      using w(2) by (auto simp: e_key_def workspace_log_def)
    then have "w_next_seq w \<in> set [1..w_next_seq w - 1]"
      using log_invD(4) [OF inv w(1)] by (metis image_eqI set_map)
    then show False by simp
  qed
  have ws: "\<exists>v\<in>set (update_where (can_bump_seq (ei_workspace i)) bump_seq (workspaces d)).
      w_name v = ei_workspace i"
    using key_update_where_ex [of "can_bump_seq (ei_workspace i)" w_name bump_seq, OF _ w(1)] w(2) by simp
  have now: "now_millis clock = Inr clock"
    using clock by (simp add: now_millis_def safe_time_def I64_MAX_def MAX_SAFE_INTEGER_def)
  show ?thesis
    using bump shape [OF seq] nokey fresh ws
    by (auto simp: append_event_in_transaction_def update_workspaces_def find now insert_event_def)
qed

lemma task_event_shape:
  assumes "safe_id k" and "safe_time clock" and "1 \<le> sql_length actor" and "sql_length actor \<le> 128"
    and "safe_id n"
  shows "event_check (event_of_insert (task_event_insert ws actor k te) n clock)"
  using assms by (simp add: event_check_def task_event_insert_def opt_all_def)

lemma task_event_fresh: "\<not> event_conflict (event_of_insert (task_event_insert ws actor k te) n clock) e"
  by (simp add: event_conflict_def task_event_insert_def)

lemma append_task_event_total:
  assumes "log_inv d" and "has_room d ws" and "safe_time clock" and "safe_id k"
    and "1 \<le> sql_length actor" and "sql_length actor \<le> 128"
  shows "\<exists>d' e. append_event_in_transaction clock (task_event_insert ws actor k te) d = Inr (d', e)"
  using assms task_event_shape [OF assms(4,3,5,6)] task_event_fresh
  by (intro append_event_total) (simp_all add: task_event_insert_def)

section \<open>Closing an attempt succeeds\<close>

lemma close_attempts_total:
  assumes ok: "exec_ok (tasks d) (attempts d)" and a: "a \<in> set (attempts d)" "is_running a"
    and h: "\<And>b. a_key (h b) = a_key b" "\<And>b. a_agent_id (h b) = a_agent_id b" "\<And>b. \<not> is_running (h b)"
      "attempt_check (h a)"
  shows "update_attempts (\<lambda>b. a_id b = a_id a \<and> a_status b = Running) h d =
    Inr (d\<lparr>attempts := update_where (\<lambda>b. a_id b = a_id a \<and> a_status b = Running) h (attempts d)\<rparr>, 1)"
proof -
  let ?P = "\<lambda>b. a_id b = a_id a \<and> a_status b = Running"
  have same: "b = a" if "b \<in> set (attempts d)" "?P b" for b
    using exec_ok_same_attempt [OF ok that(1) a(1)] that(2) by simp
  have "attempts_unique (update_where ?P h (attempts d))"
    using exec_okD(7) [OF ok] h(1-3) by (intro attempts_unique_update) (auto simp: is_barrier_def)
  moreover have "count_where ?P (attempts d) = 1"
    using a by (intro count_where_key_one [OF exec_okD(2) [OF ok] a(1)]) (auto simp: is_running_def)
  moreover have "\<not> (\<exists>b\<in>set (attempts d). ?P b \<and> \<not> attempt_check (h b))" using same h(4) by auto
  ultimately show ?thesis by (simp add: update_attempts_def)
qed

lemma update_task_total:
  assumes ok: "exec_ok ts as" and t: "t \<in> set (tasks d)" "P t" and ts: "tasks d = ts"
    and P: "\<And>u. u \<in> set (tasks d) \<Longrightarrow> P u \<Longrightarrow> t_key u = t_key t" and chk: "task_check (f t)"
  shows "update_tasks P f d = Inr (d\<lparr>tasks := update_where P f (tasks d)\<rparr>, 1)"
proof -
  have same: "u = t" if "u \<in> set (tasks d)" "P u" for u
    using exec_ok_same_task [OF ok] that t(1) P [OF that] ts by auto
  have "distinct (map t_key (tasks d))" using exec_okD(1) [OF ok] by (simp add: ts)
  then have "count_where P (tasks d) = 1" using t P by (rule count_where_key_one)
  moreover have "\<not> (\<exists>u\<in>set (tasks d). P u \<and> \<not> task_check (f u))" using same chk by blast
  ultimately show ?thesis by (simp add: update_tasks_def)
qed

lemma system_router_length: "1 \<le> sql_length SYSTEM_ROUTER" "sql_length SYSTEM_ROUTER \<le> 128"
  by (simp_all add: SYSTEM_ROUTER_def sql_length_def scalar_count_def byte_def)

lemma safe_time_millis: "safe_time t \<Longrightarrow> now_millis t = Inr t"
  by (simp add: now_millis_def safe_time_def I64_MAX_def MAX_SAFE_INTEGER_def)

text \<open>Interrupting a running attempt succeeds, whatever it is doing.\<close>

lemma interrupt_attempt_total:
  assumes inv: "store_inv d" and a: "find_attempt d aid = Some a" "a_status a = Running"
    and clock: "safe_time clock" "safe_time eclock" and room: "has_room d (a_workspace a)"
    and ver: "\<And>t. find_task d (a_workspace a) (a_task_id a) = Some t \<Longrightarrow> t_version t < MAX_SAFE_INTEGER"
  shows "\<exists>d' e. interrupt_attempt clock eclock aid reason d = Inr (d', Some e)"
proof -
  note ok = store_invD(2) [OF inv]
  from find_attempt_SomeD [OF a(1)] have ain: "a \<in> set (attempts d)" "a_id a = aid" by auto
  have run: "is_running a" using a(2) by (simp add: is_running_def)
  from exec_okD(8) [OF ok ain(1) run] obtain t where
    t: "t \<in> set (tasks d)" "t_key t = a_key a" "t_current_attempt_id t = Some aid"
    by (auto simp: ain)
  have tf: "find_task d (a_workspace a) (a_task_id a) = Some t"
    using find_key_distinct [OF exec_okD(1) [OF ok] t(1)] t(2) by (simp add: find_task_def a_key_def)
  let ?h = "\<lambda>b. b\<lparr>a_status := Interrupted, a_stop_evidence := EvUnknown,
      a_reason := Some reason, a_ended_at := Some clock\<rparr>"
  let ?f = "\<lambda>t. t\<lparr>t_state := Paused, t_version := t_version t + 1, t_current_attempt_id := None,
      t_last_attempt_id := Some aid, t_pause_reason := Some reason, t_updated_by := SYSTEM_ROUTER,
      t_updated_at := clock\<rparr>"
  let ?PA = "\<lambda>b. a_id b = aid \<and> a_status b = Running"
  let ?PT = "\<lambda>u. t_key u = a_key a \<and> t_current_attempt_id u = Some aid"
  have "attempt_check (?h a)"
    using exec_okD(4) [OF ok ain(1)] clock(1) by (auto simp: attempt_check_def opt_all_def)
  then have upa: "update_attempts ?PA ?h d = Inr (d\<lparr>attempts := update_where ?PA ?h (attempts d)\<rparr>, 1)"
    using close_attempts_total [OF ok ain(1) run, of ?h] by (simp add: ain(2) a_key_def is_running_def)
  let ?d1 = "d\<lparr>attempts := update_where ?PA ?h (attempts d)\<rparr>"
  have chk: "task_check (?f t)"
    using exec_okD(3) [OF ok t(1)] clock(1) ver [OF tf]
    by (auto simp: task_check_def safe_id_def)
  have upt: "update_tasks ?PT ?f ?d1 = Inr (?d1\<lparr>tasks := update_where ?PT ?f (tasks d)\<rparr>, 1)"
    using update_task_total [OF ok, of t ?d1 ?PT ?f] t chk by simp
  let ?d2 = "?d1\<lparr>tasks := update_where ?PT ?f (tasks d)\<rparr>"
  have P: "?PT u \<longleftrightarrow> t_key u = (a_workspace a, a_task_id a)" if "u \<in> set (tasks d)" for u
    using exec_ok_same_task [OF ok that t(1)] t(2,3) by (auto simp: a_key_def)
  have key: "t_key t = (a_workspace a, a_task_id a)" using t(2) by (simp add: a_key_def)
  have inv2: "store_inv ?d2"
    by (rule store_inv_close(1) [OF inv t(1) key t(3) upa _ _ _ _ _ _ upt P])
       (auto simp: a_key_def t_key_def is_running_def)
  have "\<exists>u\<in>set (update_where ?PT ?f (tasks d)). t_key u = t_key t"
    by (rule key_update_where_ex [OF _ t(1)]) (simp add: t_key_def)
  then have "find_task ?d2 (a_workspace a) (a_task_id a) \<noteq> None"
    by (auto simp: find_task_def find_None_iff key)
  then obtain td where td: "get_task_detail_connection ?d2 (a_workspace a) (a_task_id a) = Inr (Some td)"
    using get_task_ok [OF inv2] by blast
  have "safe_id (a_task_id a)"
    using exec_okD(3) [OF ok t(1)] t(2) by (simp add: task_check_def t_key_def a_key_def)
  moreover have "has_room ?d2 (a_workspace a)" using room by (simp add: has_room_def)
  ultimately obtain d3 e where
    app: "append_event_in_transaction eclock (task_event_insert (a_workspace a) SYSTEM_ROUTER (a_task_id a)
       \<lparr>te_change = ChgInterrupted, te_task = td_summary td, te_attempt_id = Some aid,
        te_report_id = None, te_external_operation_id = None\<rparr>) ?d2 = Inr (d3, e)"
    using append_task_event_total [OF store_invD(1) [OF inv2] _ clock(2) _ system_router_length] by blast
  have "deferred_ok d3" by (rule store_inv_deferred_ok [OF store_inv_append [OF inv2 app]])
  then show ?thesis
    by (simp add: interrupt_attempt_def a safe_time_millis [OF clock(1)] upa upt td app commit_def)
qed

end
