(* ===== verification/Scenario.thy ===== *)
theory Scenario
  imports Progress
begin

text \<open>
  Concrete stores and callers for the witnesses: a workspace with one agent credential and one task,
  waiting (\<open>db0\<close>), being worked on (\<open>dbR\<close>) or interrupted without evidence that it stopped
  (\<open>dbI\<close>), or edited once (\<open>dbM\<close>). The bundles evaluate the operations on them.
\<close>

definition ws0 :: workspace_name where "ws0 = ''w''"

definition task0 :: task_row where
  "task0 = \<lparr>t_workspace = ws0, t_id = 1, t_version = 2, t_title = ''t'', t_description = [],
     t_state = Todo, t_assigned_agent_id = Some ''a'', t_current_attempt_id = None,
     t_last_attempt_id = None, t_last_checkpoint_id = None, t_result_report_id = None,
     t_pause_reason = None, t_created_by = ''o'', t_updated_by = ''o'', t_created_at = 5,
     t_updated_at = 6\<rparr>"

definition taskR :: task_row where
  "taskR = task0\<lparr>t_version := 3, t_state := InProgress, t_current_attempt_id := Some 503,
     t_last_attempt_id := Some 503\<rparr>"

definition attemptR :: attempt_row where
  "attemptR = \<lparr>a_id = 503, a_workspace = ws0, a_task_id = 1, a_agent_id = ''a'',
     a_credential_id = 11, a_session_id = 21, a_connection_generation = 7,
     a_work_request_id = ''r'', a_resumed_from_checkpoint_id = None, a_status = Running,
     a_stop_evidence = EvUnknown, a_reason = None, a_started_at = 7, a_ended_at = None,
     a_stopped_at = None\<rparr>"

definition db0 :: db where
  "db0 = \<lparr>workspaces = [\<lparr>w_name = ws0, w_created_at = 5, w_next_seq = 1, w_next_task_id = 2\<rparr>],
     events = [],
     credentials = [\<lparr>c_id = 11, c_token_hash = 101, c_role = RoleAgent, c_subject = ''a'',
        c_agent_side = Some SideGeneric, c_agent_client = Some ClientOmp, c_workspaces = [ws0],
        c_created_at = 5, c_revoked_at = None\<rparr>],
     tasks = [task0], attempts = [], reports = [], mutations = [], links = [],
     external_operations = [], resolutions = [], bindings = [], server_id = 7, invites = []\<rparr>"

definition dbR :: db where "dbR = db0\<lparr>tasks := [taskR], attempts := [attemptR]\<rparr>"

definition dbI :: db where
  "dbI = db0\<lparr>tasks := [taskR\<lparr>t_version := 4, t_state := Paused, t_current_attempt_id := None,
       t_pause_reason := Some TransportLost\<rparr>],
     attempts := [attemptR\<lparr>a_status := Interrupted, a_reason := Some TransportLost,
       a_ended_at := Some 8\<rparr>]\<rparr>"

definition event0 :: workspace_event where
  "event0 = \<lparr>we_workspace = ws0, we_seq = 1, we_kind = KTask, we_actor_id = ''o'', we_created_at = 6,
     we_request_id = None, we_target_id = None, we_task_id = Some 1,
     we_content = Some (ContentText []), we_ok = None, we_error = None\<rparr>"

definition receipt0 :: mutation_row where
  "receipt0 = \<lparr>m_workspace = ws0, m_operation_id = 8, m_actor_id = ''o'', m_request_hash = 9,
     m_task_id = 1, m_applied_version = 2, m_attempt_id = None, m_report_id = None, m_created_at = 6\<rparr>"

definition dbM :: db where
  "dbM = db0\<lparr>workspaces := [\<lparr>w_name = ws0, w_created_at = 5, w_next_seq = 2, w_next_task_id = 2\<rparr>],
     events := [event0], mutations := [receipt0]\<rparr>"

definition admin0 :: caller_context where
  "admin0 = \<lparr>cc_actor_id = ''o'', cc_role = Admin, cc_workspace = ws0,
     cc_agent_id = None, cc_credential_id = 10, cc_session_id = None,
     cc_connection_generation = 1, cc_reservation = None\<rparr>"

definition agent0 :: caller_context where
  "agent0 = \<lparr>cc_actor_id = ''a'', cc_role = Agent, cc_workspace = ws0,
     cc_agent_id = Some ''a'', cc_credential_id = 11, cc_session_id = Some 21,
     cc_connection_generation = 7,
     cc_reservation = Some \<lparr>rf_work_request_id = ''r'', rf_task_id = 1\<rparr>\<rparr>"

definition env0 :: env where
  "env0 = \<lparr>op_clock = 1000, event_clock = 1001, new_attempt_id = 503,
     new_report_id = 603, request_digest = (\<lambda>c. 9), body_json_len = (\<lambda>_. 100)\<rparr>"

definition ck0 :: task_checkpoint where
  "ck0 = \<lparr>ck_summary = ''s'', ck_next_steps = [], ck_artifacts = [''x''], ck_risks = []\<rparr>"

definition clocks0 :: recovery_clocks where
  "clocks0 = \<lparr>rc_requests = (\<lambda>_. 2000), rc_attempts_now = 2000, rc_attempts = (\<lambda>_. 2001),
     rc_operations_now = 2002, rc_operations = (\<lambda>_. 2003)\<rparr>"

definition joined0 :: event_insert where
  "joined0 = \<lparr>ei_workspace = ws0, ei_kind = KMemberJoined, ei_actor_id = ''a'', ei_request_id = None,
     ei_target_id = None, ei_task_id = None, ei_content = None, ei_ok = None, ei_error = None\<rparr>"

definition request0 :: event_insert where
  "request0 = \<lparr>ei_workspace = ws0, ei_kind = KRequest, ei_actor_id = ''o'', ei_request_id = Some ''q'',
     ei_target_id = Some ''a'', ei_task_id = None, ei_content = Some (ContentText ''hi''),
     ei_ok = None, ei_error = None\<rparr>"

definition create0 :: task_command where "create0 = CmdCreate 1 ''t'' []"
definition begin0 :: task_command where "begin0 = CmdBegin 3 1 ''r'' 2 None ''s''"
definition edit0 :: task_command where "edit0 = CmdEdit 8 1 2 (Some ''u'') None"
definition complete0 :: task_command where "complete0 = CmdComplete 4 1 503 3 ck0"
definition interrupt0 :: task_command where "interrupt0 = CmdInterrupt 5 1 3 ''n''"
definition cancel0 :: task_command where "cancel0 = CmdCancel 6 1 2 ''n''"
definition confirm0 :: task_command where "confirm0 = CmdConfirmStopped 7 1 503 4 ''n''"

lemmas scenario = ws0_def task0_def taskR_def attemptR_def db0_def dbR_def dbI_def event0_def receipt0_def
  dbM_def admin0_def agent0_def
  env0_def ck0_def create0_def begin0_def edit0_def complete0_def interrupt0_def cancel0_def confirm0_def

lemmas check_simps = safe_id_def safe_time_def MAX_SAFE_INTEGER_def I64_MAX_def opt_all_def
  workspace_check_def event_check_def credential_check_def task_check_def attempt_check_def
  report_check_def is_running_def is_barrier_def attempts_unique_def sql_length_def scalar_count_def
  byte_def t_key_def a_key_def r_key_def m_key_def e_key_def is_terminal_def is_beginable_def

lemmas statement_simps = update_where_def count_where_def insert_event_def insert_task_def insert_attempt_def insert_report_def
  insert_mutation_def update_workspaces_def update_tasks_def update_attempts_def task_exists_def
  update_task_row_def commit_def deferred_ok_def find_task_def find_attempt_def find_report_def
  tx_store_def tx_sql_def now_millis_def check_version_def task_state_version_def
  insert_text_report_def insert_checkpoint_report_def begin_attempt_row_def
  task_current_attempt_id_def task_last_attempt_id_def event_conflict_def
  append_event_in_transaction_def can_bump_seq_def bump_seq_def event_of_insert_def
  task_event_insert_def finish_mutation_def insert_receipt_def get_task_detail_connection_def
  load_attempt_def attempt_of_row_def load_report_def report_of_row_def transposeR_def Let_def

lemmas command_simps = apply_task_def mutation_receipt_def validate_command_def
  apply_create_def can_bump_task_def bump_task_def
  apply_edit_def apply_begin_def apply_release_def apply_interrupt_def apply_terminal_def
  apply_confirm_stopped_def require_executor_def require_attempt_owner_def owner_attempt_matches_def
  terminal_transition_valid_def checkpoint_validate_def validate_title_def validate_description_def
  validate_handoff_note_def validate_nonempty_text_def validate_text_def MAX_TITLE_BYTES_def
  MAX_TITLE_SCALARS_def MAX_DESCRIPTION_BYTES_def MAX_HANDOFF_NOTE_BYTES_def
  MAX_CHECKPOINT_TEXT_BYTES_def MAX_CHECKPOINT_BYTES_def MAX_ARTIFACTS_def MAX_ARTIFACT_BYTES_def
  is_request_id_def MAX_AGENT_ID_BYTES_def is_ascii_def is_ascii_alphanumeric_def

lemmas inv_simps = store_inv_def log_inv_def exec_ok_def ref_ok_def ids_ok_def receipts_ok_def
  creds_ok_def workspace_log_def

lemma store_inv_db0: "store_inv db0"
  by (simp add: inv_simps scenario check_simps)

lemma store_inv_dbR: "store_inv dbR"
  by (simp add: inv_simps scenario check_simps)

lemma store_inv_dbI: "store_inv dbI"
  by (simp add: inv_simps scenario check_simps)

lemma store_inv_dbM: "store_inv dbM"
  by (simp add: inv_simps scenario check_simps)

text \<open>A run that does not fail, split into store and result.\<close>

lemma ran: "\<not> isl m \<Longrightarrow> m = Inr (fst (projr m), snd (projr m))"
  by (cases m) simp_all

lemma create_runs: "\<not> isl (apply_task env0 admin0 create0 db0)"
  by (simp add: scenario check_simps statement_simps command_simps)

lemma edit_runs: "\<not> isl (apply_task env0 admin0 edit0 db0)"
  by (simp add: scenario check_simps statement_simps command_simps)

lemma begin_runs: "\<not> isl (apply_task env0 agent0 begin0 db0)"
  by (simp add: scenario check_simps statement_simps command_simps)

lemma complete_runs: "\<not> isl (apply_task env0 agent0 complete0 dbR)"
  by (simp add: scenario check_simps statement_simps command_simps)

lemma interrupt_runs: "\<not> isl (apply_task env0 admin0 interrupt0 dbR)"
  by (simp add: scenario check_simps statement_simps command_simps)

lemma replay_runs: "\<not> isl (apply_task env0 admin0 edit0 dbM)"
  by (simp add: scenario check_simps statement_simps command_simps replay_receipt_def
      last_task_event_def load_links_def load_external_operations_def)

lemma cancel_runs: "\<not> isl (apply_task env0 admin0 cancel0 db0)"
  by (simp add: scenario check_simps statement_simps command_simps)

lemma confirm_runs: "\<not> isl (apply_task env0 admin0 confirm0 dbI)"
  by (simp add: scenario check_simps statement_simps command_simps)

end
