(* ===== verification/Store_Records.thy ===== *)
theory Store_Records
  imports Store_Machine Queries
begin

text \<open>
  Receipts of task commands and resolutions of external operations are records: along every run of the
  store they are only added, so that what was answered from one stays answered from it.
\<close>

definition records_kept :: "db \<Rightarrow> db \<Rightarrow> bool" where
  "records_kept d d' \<longleftrightarrow> prefix (mutations d) (mutations d') \<and> prefix (resolutions d) (resolutions d')"

definition records_same :: "db \<Rightarrow> db \<Rightarrow> bool" where
  "records_same d d' \<longleftrightarrow> mutations d' = mutations d \<and> resolutions d' = resolutions d"

lemma records_same_refl [simp]: "records_same d d"
  by (simp add: records_same_def)

lemma records_same_trans: "records_same d d1 \<Longrightarrow> records_same d1 d2 \<Longrightarrow> records_same d d2"
  by (simp add: records_same_def)

lemma records_same_kept: "records_same d d' \<Longrightarrow> records_kept d d'"
  by (simp add: records_same_def records_kept_def)

lemma records_kept_trans: "records_kept d d1 \<Longrightarrow> records_kept d1 d2 \<Longrightarrow> records_kept d d2"
  unfolding records_kept_def by (blast intro: prefix_order.trans)

named_theorems same_records

lemma append_same [same_records]: "append_event_in_transaction clock i d = Inr (d', e) \<Longrightarrow> records_same d d'"
  by (simp add: records_same_def append_event_fields)

lemma attempts_same [same_records]: "update_attempts P f d = Inr (d', n) \<Longrightarrow> records_same d d'"
  by (auto simp: update_attempts_def records_same_def split: if_splits)

lemma tasks_same [same_records]: "update_tasks P f d = Inr (d', n) \<Longrightarrow> records_same d d'"
  by (auto simp: update_tasks_def records_same_def split: if_splits)

lemma workspaces_same [same_records]: "update_workspaces P f d = Inr (d', n) \<Longrightarrow> records_same d d'"
  by (auto simp: update_workspaces_def records_same_def split: if_splits)

lemma operations_same [same_records]: "update_external_operations P f d = Inr (d', n) \<Longrightarrow> records_same d d'"
  by (auto simp: update_external_operations_def records_same_def split: if_splits)

lemma operation_tasks_same [same_records]: "update_operation_tasks P f d = Inr (d', n) \<Longrightarrow> records_same d d'"
  by (auto simp: update_operation_tasks_def split: if_splits intro: operations_same)

lemma bindings_same [same_records]: "update_bindings P f d = Inr (d', n) \<Longrightarrow> records_same d d'"
  by (auto simp: update_bindings_def records_same_def split: if_splits)

lemma binding_same [same_records]: "upsert_binding b d = Inr d' \<Longrightarrow> records_same d d'"
  by (auto simp: upsert_binding_def records_same_def Let_def split: if_splits)

lemma task_same [same_records]: "insert_task t d = Inr d' \<Longrightarrow> records_same d d'"
  by (auto simp: insert_task_def records_same_def split: if_splits)

lemma report_same [same_records]: "insert_report n r d = Inr d' \<Longrightarrow> records_same d d'"
  by (auto simp: insert_report_def records_same_def split: if_splits)

lemma link_same [same_records]: "insert_link l d = Inr d' \<Longrightarrow> records_same d d'"
  by (auto simp: insert_link_def records_same_def split: if_splits)

lemma upsert_link_same [same_records]: "upsert_link l d = Inr d' \<Longrightarrow> records_same d d'"
  using link_same [of l d d'] by (auto simp: upsert_link_def records_same_def split: if_splits)

lemma operation_same [same_records]: "insert_operation n x d = Inr d' \<Longrightarrow> records_same d d'"
  by (auto simp: insert_operation_def records_same_def split: if_splits)

section \<open>Task commands\<close>

lemma dispatch_kept:
  assumes "dispatch ev caller hash c d = Inr (d', res)"
  shows "records_kept d d'"
proof -
  from dispatch_finishes [OF assms] obtain aid d1 k v chg rid cid now where
    same: "log_same d d1"
    and fin: "finish_mutation ev caller (operation_id c) hash k v chg aid rid cid now d1 = Inr (d', res)"
    by (auto simp: finishes_def)
  from finish_mutation_effect [OF fin] same show ?thesis
    by (auto simp: records_kept_def log_same_def append_event_fields)
qed

lemma apply_task_kept:
  assumes "apply_task ev caller c d = Inr (d', res)"
  shows "records_kept d d'"
proof (cases "mutation_receipt d (cc_workspace caller) (operation_id c)")
  case None
  with assms show ?thesis by (auto simp: apply_task_fresh intro: dispatch_kept)
next
  case (Some m)
  with assms show ?thesis
    by (auto simp: apply_task_def result_simps Let_def records_kept_def dest: replay_receipt_same)
qed

section \<open>Attempts, log, workspaces, credentials\<close>

lemma closing_same:
  "update_attempts P h d = Inr (d1, n) \<Longrightarrow> update_tasks Q f d1 = Inr (d2, m) \<Longrightarrow>
   append_event_in_transaction clock i d2 = Inr (d', e) \<Longrightarrow> records_same d d'"
  by (blast intro: records_same_trans same_records)

lemma interrupt_attempt_same:
  "interrupt_attempt clock eclock aid reason d = Inr (d', r) \<Longrightarrow> records_same d d'"
  by (auto simp: interrupt_attempt_def result_simps split: option.splits if_splits elim!: closing_same)

lemma record_execution_stopped_same:
  "record_execution_stopped clock eclock ws k aid ses ag cr reason d = Inr (d', r) \<Longrightarrow> records_same d d'"
  by (auto simp: record_execution_stopped_def result_simps split: option.splits if_splits elim!: closing_same)

lemma recover_attempt_same: "recover_attempt now clock a d = Inr d' \<Longrightarrow> records_same d d'"
  by (auto simp: recover_attempt_def result_simps elim!: closing_same)

lemma recover_operation_same: "recover_operation now clock x d = Inr d' \<Longrightarrow> records_same d d'"
  by (auto simp: recover_operation_def result_simps split: prod.splits intro: records_same_trans same_records)

lemma loopR_same:
  assumes "loopR c f xs d = Inr d'" and "\<And>n x d d'. f n x d = Inr d' \<Longrightarrow> records_same d d'"
  shows "records_same d d'"
  using loopR_preserves [OF assms(1), of "records_same d"] assms(2) records_same_trans by (metis records_same_refl)

lemma recover_external_operations_same:
  "recover_external_operations clock clocks d = Inr d' \<Longrightarrow> records_same d d'"
  by (auto simp: recover_external_operations_def result_simps elim!: loopR_same intro: recover_operation_same)

lemma recover_same:
  assumes "recover rc d = Inr d'"
  shows "records_same d d'"
proof -
  from assms obtain d1 d2 where
    d1: "recover_unfinished_requests (rc_requests rc) d = Inr d1"
    and d2: "recover_running_attempts (rc_attempts_now rc) (rc_attempts rc) d1 = Inr d2"
    and d3: "recover_external_operations (rc_operations_now rc) (rc_operations rc) d2 = Inr d'"
    by (auto simp: recover_def result_simps)
  have "records_same d d1"
    using d1 by (auto simp: recover_unfinished_requests_def result_simps elim!: loopR_same intro: append_same)
  moreover have "records_same d1 d2"
    using d2 by (auto simp: recover_running_attempts_def result_simps elim!: loopR_same intro: recover_attempt_same)
  ultimately show ?thesis using recover_external_operations_same [OF d3] by (blast intro: records_same_trans)
qed

lemma append_operations_same:
  "append_event clock i d = Inr (d', e) \<Longrightarrow> records_same d d'"
  "append_chat_idempotent clock ws actor req content d = Inr (d', ca) \<Longrightarrow> records_same d d'"
  "append_request clock i d = Inr (d', e) \<Longrightarrow> records_same d d'"
  by (auto simp: append_event_def append_chat_idempotent_def append_request_def result_simps split: option.splits
      intro: append_same)

lemma create_workspace_same: "create_workspace clock name d = Inr (d', r) \<Longrightarrow> records_same d d'"
  by (auto simp: create_workspace_def result_simps insert_workspace_def records_same_def split: if_splits)

lemma insert_credential_same: "insert_credential cx clock c d = Inr d' \<Longrightarrow> records_same d d'"
  by (auto simp: insert_credential_def insert_credential_connection_def insert_credential_row_def result_simps
      records_same_def split: if_splits)

lemma revoke_credential_same: "revoke_credential clock i d = Inr (d', r) \<Longrightarrow> records_same d d'"
  by (auto simp: revoke_credential_def update_credentials_def result_simps records_same_def split: if_splits)

lemma issue_invite_same:
  "issue_onboarding_invite cx new_id random ws create provider now d = Inr (d', issued) \<Longrightarrow> records_same d d'"
  by (auto simp: issue_onboarding_invite_def result_simps Let_def insert_workspace_def insert_invite_def
      records_same_def split: if_splits)

lemma revoke_invite_same: "revoke_onboarding_invite i now d = Inr d' \<Longrightarrow> records_same d d'"
  by (auto simp: revoke_onboarding_invite_def result_simps update_invites_def records_same_def split: if_splits)

lemma redeem_same: "redeem_onboarding cx r now d = Inr (d', claims) \<Longrightarrow> records_same d d'"
  by (auto simp: redeem_eq_Inr replay_enrollment_eq_Inr first_enrollment_eq_Inr update_invites_def
      insert_credential_connection_def insert_credential_row_def result_simps records_same_def split: if_splits)

section \<open>External operations\<close>

lemma operation_event_same [same_records]:
  "append_operation_event clock ws actor op d = Inr (d', e) \<Longrightarrow> records_same d d'"
  by (auto simp: append_operation_event_def result_simps intro: append_same)

lemma task_event_same [same_records]:
  "append_external_task_event clock ws actor k op d = Inr (d', e) \<Longrightarrow> records_same d d'"
  by (auto simp: append_external_task_event_def result_simps intro: append_same)

lemma touch_same [same_records]: "touch_task ws k actor now d = Inr (d', n) \<Longrightarrow> records_same d d'"
  by (auto simp: touch_task_def intro: tasks_same)

lemma settle_same [same_records]:
  "settle_operation v p status eid url err now te d = Inr (d', c) \<Longrightarrow> records_same d d'"
  by (auto simp: settle_operation_def update_terminal_operation_def result_simps
      intro: records_same_trans same_records)

lemma prepare_same: "prepare_external_operation v caller active c d = Inr (d', p) \<Longrightarrow> records_same d d'"
  by (auto simp: prepare_external_operation_def insert_prepared_def result_simps Let_def split: option.splits
      intro: records_same_trans same_records)

lemma dispatched_same: "mark_external_dispatched v p d = Inr (d', e) \<Longrightarrow> records_same d d'"
  by (auto simp: mark_external_dispatched_def result_simps intro: records_same_trans same_records)

lemma import_new_task_same: "import_new_task v p issue now d = Inr (d', t, te) \<Longrightarrow> records_same d d'"
  by (auto simp: import_new_task_def result_simps) (meson records_same_trans same_records)

lemma write_link_same: "write_link v p t issue now d = Inr (d', te) \<Longrightarrow> records_same d d'"
  by (auto simp: write_link_def result_simps) (meson records_same_trans same_records)

lemma import_same: "complete_import v p issue d = Inr (d', c) \<Longrightarrow> records_same d d'"
  by (auto simp: complete_import_def terminal_semantic_conflict_def result_simps Let_def split: option.splits if_splits
      intro: settle_same records_same_trans [OF import_new_task_same])

lemma complete_link_same:
  assumes "complete_link v p issue d = Inr (d', c)"
  shows "records_same d d'"
proof -
  from assms consider code where "terminal_semantic_conflict v p code (xv_clock v) d = Inr (d', c)"
    | te where "settle_operation v p OpSucceeded (Some (is_external_id issue)) (Some (is_url issue))
        None (xv_clock v) te d = Inr (d', c)"
    | t d1 te where "write_link v p t issue (xv_clock v) d = Inr (d1, te)"
      "settle_operation v p OpSucceeded (Some (is_external_id issue)) (Some (is_url issue))
        None (xv_clock v) te d1 = Inr (d', c)"
    by (auto simp: complete_link_def result_simps Let_def split: option.splits operation_payload.splits if_splits)
  then show ?thesis
    by cases (auto simp: terminal_semantic_conflict_def intro: settle_same records_same_trans [OF write_link_same])
qed

lemma read_same: "complete_external_read v p issue d = Inr (d', xo) \<Longrightarrow> records_same d d'"
  by (auto simp: complete_external_read_def split: option.splits operation_payload.splits
      intro: import_same complete_link_same)

lemma mutation_same: "complete_external_mutation v p m d = Inr (d', xo) \<Longrightarrow> records_same d d'"
  by (auto simp: complete_external_mutation_def result_simps split: option.splits operation_payload.splits)
    (meson records_same_trans same_records)+

lemma failure_same:
  "complete_external_error v p err d = Inr (d', xo) \<Longrightarrow> records_same d d'"
  "terminal_external_error v p status code d = Inr (d', xo) \<Longrightarrow> records_same d d'"
  by (auto simp: complete_external_error_def terminal_external_error_def result_simps split: prod.splits
      intro: settle_same)

section \<open>Resolutions\<close>

lemma insert_resolution_kept: "insert_resolution ws hash r d = Inr d' \<Longrightarrow> records_kept d d'"
  using insert_resolution_effect(1) [of ws hash r d d'] by (auto simp: records_kept_def)

lemma resolve_row_same [same_records]: "resolve_row ws op f d = Inr d' \<Longrightarrow> records_same d d'"
  by (auto simp: resolve_row_def result_simps intro: operations_same)

lemma resolution_event_same [same_records]:
  "append_resolution_event clock ws actor op r d = Inr (d', e) \<Longrightarrow> records_same d d'"
  by (auto simp: append_resolution_event_def result_simps intro: append_same)

lemma link_resolved_same [same_records]: "link_resolved v p m now d = Inr (d', te) \<Longrightarrow> records_same d d'"
  by (auto simp: link_resolved_def result_simps split: operation_payload.splits)
    (meson records_same_trans same_records)

lemma not_applied_kept:
  "complete_not_applied_resolution v caller s rid note hash d = Inr (d', c) \<Longrightarrow> records_kept d d'"
  by (auto simp: complete_not_applied_resolution_def result_simps Let_def)
    (meson records_kept_trans records_same_kept insert_resolution_kept same_records)

lemma prepare_resolution_kept:
  "prepare_external_resolution v caller active op rid outcome eid note d = Inr (d', prep) \<Longrightarrow> records_kept d d'"
  by (cases outcome)
    (auto simp: prepare_external_resolution_def start_resolution_def result_simps Let_def split: option.splits if_splits
      intro: not_applied_kept records_same_kept)

lemma applied_kept: "complete_applied_resolution v q m d = Inr (d', vc) \<Longrightarrow> records_kept d d'"
  by (auto simp: complete_applied_resolution_def result_simps Let_def)
    (meson records_kept_trans records_same_kept insert_resolution_kept same_records)

section \<open>Bindings\<close>

lemma apply_connection_same:
  "records_same d (fst st) \<Longrightarrow> apply_connection cx now stored clock c st = Inr st' \<Longrightarrow> records_same d (fst st')"
  by (cases st) (auto simp: apply_connection_def result_simps Let_def split: if_splits
      dest!: binding_same append_same intro: records_same_trans)

lemma disable_existing_same:
  "records_same d (fst st) \<Longrightarrow> disable_existing active clock b st = Inr st' \<Longrightarrow> records_same d (fst st')"
  by (cases st) (auto simp: disable_existing_def result_simps split: if_splits dest!: append_same
      intro: records_same_trans)

lemma apply_catalog_same:
  assumes "apply_catalog cx k cs d = Inr (d', am, evs)"
  shows "records_same d d'"
proof -
  from assms obtain now d1 n d2 am1 ev1 ev2 stored where
    u: "update_bindings (\<lambda>_. True) (\<lambda>b. b\<lparr>b_enabled := False, b_updated_at := now\<rparr>) d = Inr (d1, n)"
    and c: "loopR (kc_configured k) (apply_connection cx now stored) cs (d1, [], []) = Inr (d2, am1, ev1)"
    and x: "loopR (kc_disabled k) (disable_existing am1) (filter b_enabled stored) (d2, ev1) = Inr (d', ev2)"
    by (auto simp: apply_catalog_def result_simps Let_def)
  have "records_same d (fst (d2, am1, ev1))"
    by (rule loopR_preserves [OF c, of "\<lambda>st. records_same d (fst st)"])
      (use bindings_same [OF u] apply_connection_same in auto)
  then have "records_same d (fst (d', ev2))"
    by (intro loopR_preserves [OF x, of "\<lambda>st. records_same d (fst st)"]) (use disable_existing_same in auto)
  then show ?thesis by simp
qed

lemma disable_bindings_same: "records_same d (disable_bindings d)"
  by (auto simp: disable_bindings_def split: sum.split intro: bindings_same)

section \<open>Runs\<close>

lemmas step_records = apply_task_kept interrupt_attempt_same record_execution_stopped_same append_operations_same
  create_workspace_same insert_credential_same revoke_credential_same issue_invite_same revoke_invite_same redeem_same
  recover_same prepare_same dispatched_same read_same mutation_same failure_same prepare_resolution_kept applied_kept
  apply_catalog_same disable_bindings_same

lemma store_step_records:
  assumes "store_step d d'"
  shows "records_kept d d'"
  using assms
proof cases
  case (inflight clock clocks)
  then show ?thesis
    by (auto simp: recover_external_inflight_def result_simps
        intro: records_same_kept recover_external_operations_same)
qed (blast intro: step_records records_same_kept)+

interpretation records: machine store_step full_inv records_kept
  by unfold_locales
    (auto simp: records_kept_def dest: store_step_inv store_step_records [unfolded records_kept_def]
      intro: prefix_order.trans)

lemma find_prefix: "prefix xs ys \<Longrightarrow> find P xs = Some x \<Longrightarrow> find P ys = Some x"
  by (auto simp: prefix_def find_append)

text \<open>What a receipt or a resolution says, it says in every later store.\<close>

lemma receipt_stays:
  assumes "full_inv d" and "store_step\<^sup>*\<^sup>* d d'" and "mutation_receipt d ws op = Some m"
  shows "mutation_receipt d' ws op = Some m"
  using records.run_ext [OF assms(2,1)] assms(3) find_prefix
  by (auto simp: records_kept_def mutation_receipt_def)

lemma resolution_stays:
  assumes "full_inv d" and "store_step\<^sup>*\<^sup>* d d'" and "find_resolution d ws op = Some r"
  shows "find_resolution d' ws op = Some r"
  using records.run_ext [OF assms(2,1)] assms(3) find_prefix
  by (auto simp: records_kept_def find_resolution_def)

section \<open>Answers from a receipt\<close>

lemma receipt_read:
  assumes "store_inv d" and "mutation_receipt d ws op = Some m"
  shows "\<exists>e. last_task_event d ws (m_task_id m) = Some e"
    "\<exists>td. get_task_detail_connection d ws (m_task_id m) = Inr (Some td)"
proof -
  from find_key_SomeD [OF assms(2) [unfolded mutation_receipt_def]]
  have m: "m \<in> set (mutations d)" "m_workspace m = ws" by (simp_all add: m_key_def)
  with store_invD(5) [OF assms(1)] obtain t e where t: "t \<in> set (tasks d)" "t_key t = (ws, m_task_id m)"
    and e: "e \<in> set (events d)" "we_workspace e = ws" "we_task_id e = Some (m_task_id m)" "we_kind e = KTask"
    unfolding receipts_ok_def by blast
  show "\<exists>e. last_task_event d ws (m_task_id m) = Some e"
  proof (cases "last_task_event d ws (m_task_id m)")
    case None
    let ?es = "filter (\<lambda>e. we_workspace e = ws \<and> we_task_id e = Some (m_task_id m) \<and> we_kind e = KTask) (events d)"
    from None have "sort_key we_seq ?es = []" by (simp add: last_task_event_def split: list.splits)
    from arg_cong [OF this, of set] have "set ?es = {}" by (simp only: set_sort list.set)
    moreover from e have "e \<in> set ?es" by simp
    ultimately show ?thesis by simp
  qed simp
  from t have "find_task d ws (m_task_id m) \<noteq> None"
    by (auto simp: find_task_def find_None_iff)
  with get_task_ok [OF assms(1)] show "\<exists>td. get_task_detail_connection d ws (m_task_id m) = Inr (Some td)"
    by blast
qed

lemma is_begin_iff: "is_begin c \<longleftrightarrow> (\<exists>op k wr v ck nt. c = CmdBegin op k wr v ck nt)"
  by (cases c) simp_all

text \<open>The answer to a command from its receipt, in any consistent store.\<close>

definition answered_from :: "mutation_row \<Rightarrow> task_command \<Rightarrow> db \<Rightarrow> task_error + db \<times> task_apply_result \<Rightarrow> bool" where
  "answered_from m c d out \<longleftrightarrow>
     (case out of
        Inr (d', res) \<Rightarrow> d' = d \<and> tm_operation_id (ar_mutation res) = operation_id c \<and>
          tm_applied_version (ar_mutation res) = m_applied_version m \<and> tm_report_id (ar_mutation res) = m_report_id m
      | Inl e \<Rightarrow> is_begin c \<and> e = task_error_code TaskStaleAttempt (Some (operation_id c)))"

lemma receipt_answers:
  assumes "store_inv d" and "mutation_receipt d (cc_workspace caller) (operation_id c) = Some m"
    and "m_actor_id m = cc_actor_id caller" and "m_request_hash m = request_digest ev c"
    and "validate_command ev caller c = Inr ()"
  shows "answered_from m c d (apply_task ev caller c d)"
proof -
  from receipt_read [OF assms(1,2)] obtain e td where
    "last_task_event d (cc_workspace caller) (m_task_id m) = Some e"
    "get_task_detail_connection d (cc_workspace caller) (m_task_id m) = Inr (Some td)" by blast
  with assms store_inv_deferred_ok [OF assms(1)] show ?thesis
    by (auto simp: answered_from_def apply_task_def replay_receipt_def Let_def tx_store_def tx_sql_def
        commit_def guardR_def)
qed

lemma apply_task_receipt:
  assumes "store_inv d" and "mutation_receipt d (cc_workspace caller) (operation_id c) = None"
    and "apply_task ev caller c d = Inr (d', res)"
  shows "\<exists>m. mutation_receipt d' (cc_workspace caller) (operation_id c) = Some m \<and>
    m_actor_id m = cc_actor_id caller \<and> m_request_hash m = request_digest ev c \<and>
    m_applied_version m = tm_applied_version (ar_mutation res) \<and>
    m_report_id m = tm_report_id (ar_mutation res)"
proof -
  from assms(3) apply_task_fresh [OF assms(2)]
  have dis: "dispatch ev caller (request_digest ev c) c d = Inr (d', res)" by auto
  obtain aid where fin: "finishes ev caller (request_digest ev c) (operation_id c) d aid (d', res)"
    using dispatch_finishes [OF dis] by blast
  from finishes_replay [OF store_invD(1) [OF dispatch_step(1) [OF assms(1) dis]] fin] show ?thesis by blast
qed

end
