(* ===== verification/Task_Props.thy ===== *)
theory Task_Props
  imports Scenario Store_Records
begin

text \<open>
  The properties of the task commands: what \<^verbatim>\<open>apply_task\<close> guarantees of versions, receipts,
  ownership, the state machine and the store, on every input.
\<close>

section \<open>The invariant\<close>

text \<open>C1. A task command that succeeds keeps the store consistent: gap-free logs, dense task
  numbers, one running attempt per task, one barrier per agent, every reference resolvable, a
  receipt and an event for every mutation.\<close>

theorem apply_task_keeps_store:
  assumes "store_inv d" and "apply_task ev caller c d = Inr (d', res)"
  shows "store_inv d'"
  using assms by (rule apply_task_inv)

theorem apply_task_keeps_store_witness:
  "store_inv (fst (projr (apply_task env0 agent0 begin0 db0)))"
  by (rule apply_task_keeps_store [OF store_inv_db0 ran [OF begin_runs]])

text \<open>C2. Every store reachable from an empty one by any sequence of the store's operations, task
  commands, router transitions, appends, credential and invite operations and restarts included, is
  consistent, and its log extends the log of every store it came from.\<close>

theorem reachable_consistent:
  assumes "store_step\<^sup>*\<^sup>* (empty_db server) d" and "store_step\<^sup>*\<^sup>* d d'"
  shows "store_inv d' \<and> enroll_inv d' \<and> prefix (events d) (events d')"
proof -
  have "full_inv d" using store.run_inv [OF assms(1)] empty_db_inv by blast
  with store.run_inv [OF assms(2)] store.run_ext [OF assms(2)] show ?thesis
    by (simp add: full_inv_def appends_def)
qed

theorem reachable_consistent_witness:
  "store_inv (fst (projr (create_workspace 5 ws0 (empty_db 7))))"
proof -
  have "create_workspace 5 ws0 (empty_db 7) =
      Inr (fst (projr (create_workspace 5 ws0 (empty_db 7))), snd (projr (create_workspace 5 ws0 (empty_db 7))))"
    by (rule ran) (simp add: create_workspace_def empty_db_def insert_workspace_def now_millis_def check_simps)
  then have "store_step\<^sup>*\<^sup>* (empty_db 7) (fst (projr (create_workspace 5 ws0 (empty_db 7))))"
    by (blast intro: store_step.workspace)
  from reachable_consistent [OF rtranclp.rtrancl_refl this] show ?thesis by blast
qed

text \<open>A run of the store for the witness: a workspace, an agent's credential, a task that is created,
  assigned and begun.\<close>

definition codecR :: codec where
  "codecR = \<lparr>b64_decode = (\<lambda>s. Some (take 32 s)), b64_encode = (\<lambda>s. s @ replicate 11 CHR ''A''),
     sha256 = (\<lambda>s. of_char (hd s)), uuid_simple = (\<lambda>_. ''0'')\<rparr>"

definition credR :: credential_file where
  "credR = \<lparr>cf_version = 1, cf_id = 11, cf_token = replicate 32 CHR ''c'' @ replicate 11 CHR ''A'',
     cf_role = RoleAgent, cf_subject = ''a'', cf_agent_side = Some SideGeneric,
     cf_agent_client = Some ClientOmp, cf_workspaces = [ws0]\<rparr>"

definition assignR :: task_command where "assignR = CmdAssign 2 1 1 (Some ''a'')"

definition run1 :: db where "run1 = fst (projr (create_workspace 5 ws0 (empty_db 7)))"
definition run2 :: db where "run2 = projr (insert_credential codecR 5 credR run1)"
definition run3 :: db where "run3 = fst (projr (apply_task env0 admin0 create0 run2))"
definition run4 :: db where "run4 = fst (projr (apply_task env0 admin0 assignR run3))"
definition run5 :: db where "run5 = fst (projr (apply_task env0 agent0 begin0 run4))"

lemmas credential_simps = insert_credential_def insert_credential_connection_def codecR_def credR_def
  credential_validate_def CREDENTIAL_VERSION_def TOKEN_LENGTH_def TOKEN_BYTES_def MAX_GRANTS_def
  has_duplicate_grant_def is_agent_id_def valid_agent_claims_def nil_uuid_def token_hash_def
  insert_credential_row_def starts_with_def assignable_def

lemma run1_eq:
  "run1 = (empty_db 7)\<lparr>workspaces := [\<lparr>w_name = ws0, w_created_at = 5, w_next_seq = 1, w_next_task_id = 1\<rparr>]\<rparr>"
  "\<not> isl (create_workspace 5 ws0 (empty_db 7))"
  by (simp_all add: run1_def create_workspace_def empty_db_def insert_workspace_def now_millis_def check_simps)

lemma run2_runs:
  "insert_credential codecR 5 credR run1 =
    Inr (run1\<lparr>credentials := [(hd (credentials db0))\<lparr>c_token_hash := 99\<rparr>]\<rparr>)"
  by (simp add: run1_eq credential_simps MAX_AGENT_ID_BYTES_def is_ascii_def
      is_ascii_alphanumeric_def scenario check_simps statement_simps empty_db_def)

lemma run2_eq: "run2 = run1\<lparr>credentials := [(hd (credentials db0))\<lparr>c_token_hash := 99\<rparr>]\<rparr>"
  by (simp add: run2_def run2_runs)

lemma run3_runs: "\<not> isl (apply_task env0 admin0 create0 run2)"
  by (simp add: run2_eq run1_eq empty_db_def scenario check_simps statement_simps command_simps)

lemma run4_runs: "\<not> isl (apply_task env0 admin0 assignR run3)"
  by (simp add: run3_def run2_eq run1_eq assignR_def apply_assign_def credential_simps empty_db_def
      scenario check_simps statement_simps command_simps)

lemma run5_runs: "\<not> isl (apply_task env0 agent0 begin0 run4)"
  by (simp add: run4_def run3_def run2_eq run1_eq assignR_def apply_assign_def credential_simps empty_db_def
      scenario check_simps statement_simps command_simps)

lemma run_reached: "store_step\<^sup>*\<^sup>* (empty_db 7) run5"
proof -
  have "store_step (empty_db 7) run1"
    unfolding run1_def by (rule store_step.workspace [OF ran [OF run1_eq(2)]])
  moreover have "store_step run1 run2"
    using run2_runs run2_eq by (metis store_step.credential)
  moreover have "store_step run2 run3" unfolding run3_def by (rule store_step.task [OF ran [OF run3_runs]])
  moreover have "store_step run3 run4" unfolding run4_def by (rule store_step.task [OF ran [OF run4_runs]])
  moreover have "store_step run4 run5" unfolding run5_def by (rule store_step.task [OF ran [OF run5_runs]])
  ultimately show ?thesis by (meson rtranclp.rtrancl_refl rtranclp.rtrancl_into_rtrancl)
qed

lemma run5_rows:
  "tasks run5 = [task0\<lparr>t_version := 3, t_state := InProgress, t_current_attempt_id := Some 503,
     t_last_attempt_id := Some 503, t_updated_by := ''a'', t_created_at := 1000, t_updated_at := 1000\<rparr>]"
  by (simp add: run5_def run4_def run3_def run2_eq run1_eq assignR_def apply_assign_def credential_simps empty_db_def
      scenario check_simps statement_simps command_simps)

definition may_execute :: "attempt_row \<Rightarrow> bool" where
  "may_execute a \<longleftrightarrow> a_status a = Running \<or> a_status a = Interrupted \<and> a_stop_evidence a = EvUnknown"

text \<open>C3. Mutual exclusion: in every store reachable from an empty one, whatever operations led there,
  no task has two running attempts, no agent has two attempts that may still execute (running, or
  interrupted without evidence that it stopped), and a task is in progress exactly when it has a
  running attempt.\<close>

theorem one_executor:
  assumes "store_step\<^sup>*\<^sup>* (empty_db server) d"
  shows "(\<forall>a\<in>set (attempts d). \<forall>b\<in>set (attempts d).
      a_status a = Running \<and> a_status b = Running \<and> a_key a = a_key b \<longrightarrow> a = b) \<and>
    (\<forall>a\<in>set (attempts d). \<forall>b\<in>set (attempts d).
      may_execute a \<and> may_execute b \<and> a_agent_id a = a_agent_id b \<longrightarrow> a = b) \<and>
    (\<forall>t\<in>set (tasks d). t_state t = InProgress \<longleftrightarrow>
      (\<exists>c\<in>set (attempts d). a_status c = Running \<and> a_key c = t_key t))"
proof (intro conjI ballI impI)
  have "store_inv d" using store.run_inv [OF assms empty_db_inv] by (simp add: full_inv_def)
  then have ok: "exec_ok (tasks d) (attempts d)" by (simp add: store_inv_def)
  show "a = b" if "a \<in> set (attempts d)" "b \<in> set (attempts d)"
    "a_status a = Running \<and> a_status b = Running \<and> a_key a = a_key b" for a b
    by (rule running_unique [OF ok that(1,2)]) (use that in \<open>simp_all add: is_running_def\<close>)
  show "a = b" if "a \<in> set (attempts d)" "b \<in> set (attempts d)"
    "may_execute a \<and> may_execute b \<and> a_agent_id a = a_agent_id b" for a b
    by (rule barrier_unique [OF ok that(1,2)]) (use that in \<open>simp_all add: may_execute_def is_barrier_def\<close>)
  show "t_state t = InProgress \<longleftrightarrow> (\<exists>c\<in>set (attempts d). a_status c = Running \<and> a_key c = t_key t)"
    if "t \<in> set (tasks d)" for t
    by (rule in_progress_running [OF ok that])
qed

theorem one_executor_witness:
  "\<exists>c\<in>set (attempts run5). a_status c = Running \<and> a_key c = (ws0, 1)"
  using one_executor [OF run_reached] by (simp add: run5_rows task0_def t_key_def)

section \<open>Versions\<close>

text \<open>C23. Optimistic concurrency: a command on a task that is carried out found the task at exactly
  the version the caller expected, leaves it at the next one, and changes no other task.\<close>

theorem command_advances_version:
  assumes "store_inv d" and "mutation_receipt d (cc_workspace caller) (operation_id c) = None"
    and "apply_task ev caller c d = Inr (d', res)" and "command_task c = Some (k, v)"
  shows "(\<exists>t. find_task d (cc_workspace caller) k = Some t \<and> t_version t = v) \<and>
    (\<exists>t. find_task d' (cc_workspace caller) k = Some t \<and> t_version t = v + 1) \<and>
    (\<forall>ws i. (ws, i) \<noteq> (cc_workspace caller, k) \<longrightarrow> find_task d' ws i = find_task d ws i)"
proof -
  from assms have "dispatch ev caller (request_digest ev c) c d = Inr (d', res)"
    by (simp add: apply_task_fresh)
  from dispatch_step(2) [OF assms(1) this assms(4)]
  have v: "versioned d d' (cc_workspace caller) k v" .
  show ?thesis
    using versioned_find [OF v] v unfolding versioned_def by blast
qed

theorem command_advances_version_witness:
  "\<exists>t. find_task (fst (projr (apply_task env0 agent0 complete0 dbR))) ws0 1 = Some t \<and> t_version t = 4"
  using command_advances_version [OF store_inv_dbR _ ran [OF complete_runs], of 1 3]
  by (simp add: scenario mutation_receipt_def)

text \<open>A command that expects another version than the stored one is refused with
  \<^verbatim>\<open>task_conflict\<close>, and the error carries the version the task really has; a begin is refused this
  way once its caller holds the reservation the code checks first.\<close>

theorem stale_version_conflict:
  assumes "mutation_receipt d (cc_workspace caller) (operation_id c) = None"
    and "validate_command ev caller c = Inr ()"
    and "command_task c = Some (k, v)" and "find_task d (cc_workspace caller) k = Some t"
    and "t_version t \<noteq> v"
    and "\<And>op wr ck nt. c = CmdBegin op k wr v ck nt \<Longrightarrow>
      cc_session_id caller \<noteq> None \<and>
      cc_reservation caller = Some \<lparr>rf_work_request_id = wr, rf_task_id = k\<rparr>"
  shows "apply_task ev caller c d = Inl (task_error_conflict (t_version t) (operation_id c))"
proof -
  have "dispatch ev caller h c d = Inl (task_error_conflict (t_version t) (operation_id c))" for h
    using assms(2-6)
    by (cases c) (auto simp: validate_command_def require_executor_def apply_edit_def apply_assign_def
      apply_begin_def apply_checkpoint_def apply_release_def apply_terminal_def apply_interrupt_def
      apply_confirm_stopped_def require_attempt_owner_def task_state_version_def check_version_def
      bindR_eq_Inr split: if_splits)
  with assms(1,2) show ?thesis by (simp add: apply_task_def Let_def)
qed

theorem stale_version_conflict_witness:
  "apply_task env0 admin0 (CmdEdit 8 1 9 (Some ''u'') None) db0 = Inl (task_error_conflict 2 8)"
  using stale_version_conflict [of db0 admin0 "CmdEdit 8 1 9 (Some ''u'') None" env0 1 9 task0]
  by (simp add: scenario mutation_receipt_def command_simps check_simps find_task_def)

section \<open>Receipts\<close>

lemma full_inv_dbR: "full_inv dbR"
  using store_inv_dbR by (simp add: full_inv_def enroll_inv_def ext_inv_def operations_ok_def links_ok_def
      resolutions_ok_def dbR_def db0_def)

text \<open>A store after the completed task's: another workspace has been created.\<close>

definition later0 :: db where
  "later0 = fst (projr (create_workspace 9 ''x'' (fst (projr (apply_task env0 agent0 complete0 dbR)))))"

lemma later_step: "store_step\<^sup>*\<^sup>* (fst (projr (apply_task env0 agent0 complete0 dbR))) later0"
proof -
  have "\<not> isl (create_workspace 9 ''x'' (fst (projr (apply_task env0 agent0 complete0 dbR))))"
    by (simp add: create_workspace_def insert_workspace_def scenario check_simps statement_simps command_simps)
  from store_step.workspace [OF ran [OF this]] show ?thesis unfolding later0_def by blast
qed

text \<open>C24. Idempotence: a command that succeeded, sent again at once with the same body by the same
  caller, returns the same mutation and event and leaves the store as it is, whatever the clock and
  the identifier generator say the second time. Sent again in any later store it changes nothing and
  returns the operation id, the applied version and the report id of its receipt, next to what the
  task is by then; only a begin may be refused, as stale, when its attempt is no longer the caller's.\<close>

theorem replay_same_result:
  assumes "full_inv d" and "mutation_receipt d (cc_workspace caller) (operation_id c) = None"
    and "apply_task ev caller c d = Inr (d', res)" and "store_step\<^sup>*\<^sup>* d' d2"
    and "request_digest ev' c = request_digest ev c" and "body_json_len ev' = body_json_len ev"
  shows "apply_task ev' caller c d' = Inr (d', res\<lparr>ar_closed_attempt_id := None\<rparr>) \<and>
    (case apply_task ev' caller c d2 of
       Inr (d3, later) \<Rightarrow> d3 = d2 \<and> tm_operation_id (ar_mutation later) = operation_id c \<and>
         tm_applied_version (ar_mutation later) = tm_applied_version (ar_mutation res) \<and>
         tm_report_id (ar_mutation later) = tm_report_id (ar_mutation res)
     | Inl e \<Rightarrow> (\<exists>op k wr v ck nt. c = CmdBegin op k wr v ck nt) \<and>
         e = task_error_code TaskStaleAttempt (Some (operation_id c)))"
proof
  have inv: "store_inv d" using assms(1) by (simp add: full_inv_def)
  show "apply_task ev' caller c d' = Inr (d', res\<lparr>ar_closed_attempt_id := None\<rparr>)"
    by (rule apply_task_replay [OF inv assms(2,3,5,6)])
  have inv': "full_inv d'" using store_step_inv [OF store_step.task [OF assms(3)] assms(1)] by simp
  from apply_task_receipt [OF inv assms(2,3)] obtain m where
    m: "mutation_receipt d' (cc_workspace caller) (operation_id c) = Some m" "m_actor_id m = cc_actor_id caller"
      "m_request_hash m = request_digest ev' c" "m_applied_version m = tm_applied_version (ar_mutation res)"
      "m_report_id m = tm_report_id (ar_mutation res)" by (auto simp: assms(5))
  have val: "validate_command ev' caller c = Inr ()"
    using assms(3) validate_command_env [OF assms(6)] by (auto simp: apply_task_def bindR_eq_Inr)
  have inv2: "store_inv d2" using store.run_inv [OF assms(4) inv'] by (simp add: full_inv_def)
  have "answered_from m c d2 (apply_task ev' caller c d2)"
    by (rule receipt_answers [OF inv2 receipt_stays [OF inv' assms(4) m(1)] m(2,3) val])
  then show "case apply_task ev' caller c d2 of
       Inr (d3, later) \<Rightarrow> d3 = d2 \<and> tm_operation_id (ar_mutation later) = operation_id c \<and>
         tm_applied_version (ar_mutation later) = tm_applied_version (ar_mutation res) \<and>
         tm_report_id (ar_mutation later) = tm_report_id (ar_mutation res)
     | Inl e \<Rightarrow> (\<exists>op k wr v ck nt. c = CmdBegin op k wr v ck nt) \<and>
         e = task_error_code TaskStaleAttempt (Some (operation_id c))"
    by (auto simp: answered_from_def m(4,5) is_begin_iff split: sum.splits)
qed

theorem replay_same_result_witness:
  "let out = projr (apply_task env0 agent0 complete0 dbR); ev = env0\<lparr>op_clock := 5, new_report_id := 0\<rparr> in
   apply_task ev agent0 complete0 (fst out) = Inr (fst out, (snd out)\<lparr>ar_closed_attempt_id := None\<rparr>) \<and>
   (\<exists>later. apply_task ev agent0 complete0 later0 = Inr (later0, later) \<and>
     tm_report_id (ar_mutation later) = tm_report_id (ar_mutation (snd out)))"
proof -
  have "mutation_receipt dbR (cc_workspace agent0) (operation_id complete0) = None" "\<nexists>op k wr v ck nt. complete0 = CmdBegin op k wr v ck nt"
    by (simp_all add: mutation_receipt_def scenario)
  with replay_same_result [OF full_inv_dbR _ ran [OF complete_runs] later_step,
      of "env0\<lparr>op_clock := 5, new_report_id := 0\<rparr>"]
  show ?thesis by (auto simp: Let_def env0_def split: sum.splits)
qed

text \<open>An operation id is bound to its first actor and body: once a receipt is stored, the same id
  with another actor or another body is refused with \<^verbatim>\<open>request_conflict\<close>.\<close>

theorem operation_id_bound:
  assumes "mutation_receipt d (cc_workspace caller) (operation_id c) = Some m"
    and "validate_command ev caller c = Inr ()"
    and "m_actor_id m \<noteq> cc_actor_id caller \<or> m_request_hash m \<noteq> request_digest ev c"
  shows "apply_task ev caller c d = Inl (task_error_code RequestConflict (Some (operation_id c)))"
  using assms by (auto simp: apply_task_def Let_def replay_receipt_def)

theorem operation_id_bound_witness:
  "apply_task (env0\<lparr>request_digest := \<lambda>_. 10\<rparr>) admin0 edit0 dbM =
     Inl (task_error_code RequestConflict (Some 8))"
  using operation_id_bound [of dbM admin0 edit0 receipt0 "env0\<lparr>request_digest := \<lambda>_. 10\<rparr>"]
  by (simp add: scenario mutation_receipt_def m_key_def command_simps check_simps)

text \<open>At most once: a command whose operation id has a receipt changes nothing, whether it is
  answered or refused; so an operation id mutates the store at most once.\<close>

theorem receipt_means_no_change:
  assumes "mutation_receipt d (cc_workspace caller) (operation_id c) = Some m"
    and "apply_task ev caller c d = Inr (d', res)"
  shows "d' = d \<and> tm_applied_version (ar_mutation res) = m_applied_version m \<and>
    tm_report_id (ar_mutation res) = m_report_id m \<and> ar_closed_attempt_id res = None"
  using assms
  by (auto simp: apply_task_def Let_def replay_receipt_def bindR_eq_Inr)

theorem receipt_means_no_change_witness:
  "fst (projr (apply_task env0 admin0 edit0 dbM)) = dbM"
  using receipt_means_no_change [OF _ ran [OF replay_runs], of receipt0]
  by (simp add: scenario mutation_receipt_def m_key_def)

end
