(* ===== verification/Execution.thy ===== *)
theory Execution
  imports Scenario
begin

text \<open>
  What ends an execution and what that does to the agent's barrier: a release, a confirmed stop and a
  host's stop report lift it, an interruption does not. A session's attempts are all closed by
  \<^verbatim>\<open>interrupt_session_attempts\<close>.
\<close>

lemma barrier_lifted:
  assumes inv: "store_inv d" and inv': "store_inv d'"
    and a: "a \<in> set (attempts d)" "is_barrier a" "P a" "\<not> is_barrier (h a)"
    and d': "attempts d' = update_where P h (attempts d)"
    and h: "\<And>b. a_agent_id (h b) = a_agent_id b" "\<And>b. P b \<Longrightarrow> is_barrier (h b) \<Longrightarrow> is_barrier b"
  shows "agent_has_execution_barrier d' (a_agent_id a) = Inr False"
proof -
  have "\<not> is_barrier b" if b: "b \<in> set (attempts d')" "a_agent_id b = a_agent_id a" for b
  proof
    assume bar: "is_barrier b"
    from b(1) consider c where "c \<in> set (attempts d)" "P c" "b = h c"
      | "b \<in> set (attempts d)" "\<not> P b" by (auto simp: d' set_update_where)
    then show False
    proof cases
      case 1
      then have "c = a"
        using barrier_unique [OF store_invD(2) [OF inv], of c a] a b(2) bar h by simp
      with 1 a bar show False by simp
    next
      case 2
      then have "b = a" using barrier_unique [OF store_invD(2) [OF inv], of b a] a b(2) bar by simp
      with 2 a show False by simp
    qed
  qed
  then show ?thesis using has_barrier_spec [OF inv', of "a_agent_id a"] by auto
qed

section \<open>The stop report of a host\<close>

lemma record_execution_stopped_effect:
  assumes inv: "store_inv d"
    and run: "record_execution_stopped clock eclock ws k aid ses ag cr reason d = Inr (d', r)"
  obtains a where "a \<in> set (attempts d)" "a_id a = aid" "a_key a = (ws, k)" "a_agent_id a = ag"
    "a_credential_id a = cr" "a_session_id a = ses"
    "is_barrier a \<longrightarrow> r \<noteq> None \<and> agent_has_execution_barrier d' ag = Inr False"
    "\<not> is_barrier a \<longrightarrow> d' = d \<and> r = None"
proof -
  from run obtain a where a0: "find (\<lambda>a. a_id a = aid \<and> a_key a = (ws, k)) (attempts d) = Some a"
    and own: "a_agent_id a = ag" "a_credential_id a = cr" "a_session_id a = ses"
    by (auto simp: record_execution_stopped_def result_simps)
  then have a: "a \<in> set (attempts d)" "a_id a = aid" "a_key a = (ws, k)"
    by (auto simp: find_Some_iff)
  have inv': "store_inv d'" by (rule record_execution_stopped_inv [OF inv run])
  from exec_okD(5) [OF store_invD(2) [OF inv] a(1)]
  have ev: "evidence_ok (a_status a) (a_stop_evidence a)" .
  have "d' = d \<and> r = None" if "\<not> is_barrier a"
    using that run a0 ev own
    by (cases "a_status a") (auto simp: record_execution_stopped_def result_simps is_barrier_def)
  moreover have "r \<noteq> None \<and> agent_has_execution_barrier d' ag = Inr False" if bar: "is_barrier a"
  proof (cases "a_status a = Running")
    case True
    with run a0 own ev obtain d1 n d2 m i e P h f where
      upa: "update_attempts (\<lambda>b. a_id b = aid \<and> a_status b = Running)
        (\<lambda>b. b\<lparr>a_status := Interrupted, a_stop_evidence := EvConfirmed,
           a_reason := Some reason, a_ended_at := Some clock, a_stopped_at := Some clock\<rparr>) d = Inr (d1, n)"
      and upt: "update_tasks P f d1 = Inr (d2, m)"
      and app: "append_event_in_transaction eclock i d2 = Inr (d', e)" and r: "r = Some e"
      unfolding record_execution_stopped_def by (auto simp: result_simps)
    have at: "attempts d' = update_where (\<lambda>b. a_id b = aid \<and> a_status b = Running)
        (\<lambda>b. b\<lparr>a_status := Interrupted, a_stop_evidence := EvConfirmed, a_reason := Some reason,
           a_ended_at := Some clock, a_stopped_at := Some clock\<rparr>) (attempts d)"
      by (simp add: append_event_fields [OF app] update_tasks_effect(1) [OF upt]
        update_attempts_effect(1) [OF upa])
    have "agent_has_execution_barrier d' (a_agent_id a) = Inr False"
      by (rule barrier_lifted [OF inv inv' a(1) bar _ _ at]) (simp_all add: True a is_barrier_def)
    with r own show ?thesis by simp
  next
    case False
    with bar have st: "a_status a = Interrupted" "a_stop_evidence a = EvUnknown"
      by (auto simp: is_barrier_def)
    with run a0 own obtain d1 n d2 m i e P h f where
      upa: "update_attempts (\<lambda>b. a_id b = aid \<and> a_status b = Interrupted \<and> a_stop_evidence b = EvUnknown)
        (\<lambda>b. b\<lparr>a_stop_evidence := EvConfirmed, a_stopped_at := Some clock\<rparr>) d = Inr (d1, n)"
      and upt: "update_tasks P f d1 = Inr (d2, m)"
      and app: "append_event_in_transaction eclock i d2 = Inr (d', e)" and r: "r = Some e"
      unfolding record_execution_stopped_def by (auto simp: result_simps)
    have at: "attempts d' = update_where
        (\<lambda>b. a_id b = aid \<and> a_status b = Interrupted \<and> a_stop_evidence b = EvUnknown)
        (\<lambda>b. b\<lparr>a_stop_evidence := EvConfirmed, a_stopped_at := Some clock\<rparr>) (attempts d)"
      by (simp add: append_event_fields [OF app] update_tasks_effect(1) [OF upt]
        update_attempts_effect(1) [OF upa])
    have "agent_has_execution_barrier d' (a_agent_id a) = Inr False"
      by (rule barrier_lifted [OF inv inv' a(1) bar _ _ at]) (simp_all add: st a is_barrier_def)
    with r own show ?thesis by simp
  qed
  ultimately show ?thesis using that a own by blast
qed

section \<open>All attempts of a session\<close>

text \<open>An interruption never makes an attempt run, and keeps which attempt is whose.\<close>

definition quieter :: "db \<Rightarrow> db \<Rightarrow> bool" where
  "quieter d d' \<longleftrightarrow> map a_id (attempts d') = map a_id (attempts d) \<and>
     (\<forall>b\<in>set (attempts d'). is_running b \<longrightarrow> b \<in> set (attempts d))"

lemma interrupt_attempt_quieter:
  assumes inv: "store_inv d" and run: "interrupt_attempt clock eclock aid reason d = Inr (d', r)"
  shows "quieter d d'" and "b \<in> set (attempts d') \<Longrightarrow> a_id b = aid \<Longrightarrow> \<not> is_running b"
proof -
  note eff = interrupt_attempt_effect [OF inv run]
  have same: "find_attempt d aid = Some b" if "b \<in> set (attempts d)" "a_id b = aid" for b
    using find_key_distinct [OF exec_okD(2) [OF store_invD(2) [OF inv]] that(1)] that(2)
    by (simp add: find_attempt_def)
  have "quieter d d' \<and> (\<forall>b\<in>set (attempts d'). a_id b = aid \<longrightarrow> \<not> is_running b)"
  proof (cases "\<exists>a. find_attempt d aid = Some a \<and> a_status a = Running")
    case True
    then obtain a where "find_attempt d aid = Some a" "a_status a = Running" by blast
    note at = conjunct1 [OF eff(3) [OF this]]
    have "map a_id (attempts d') = map a_id (attempts d)"
      unfolding at by (rule map_update_where) simp
    moreover have "b \<in> set (attempts d) \<and> a_id b \<noteq> aid" if "b \<in> set (attempts d')" "is_running b" for b
      using that unfolding at set_update_where is_running_def by fastforce
    ultimately show ?thesis unfolding quieter_def by blast
  next
    case False
    with eff(2) have "d' = d" by blast
    with False same show ?thesis by (auto simp: quieter_def is_running_def)
  qed
  then show "quieter d d'" "b \<in> set (attempts d') \<Longrightarrow> a_id b = aid \<Longrightarrow> \<not> is_running b" by blast+
qed

lemma interrupt_each_quiet:
  assumes "interrupt_each clocks reason ids d = Inr (d', evs)" and "store_inv d"
  shows "quieter d d' \<and> (\<forall>b\<in>set (attempts d'). a_id b \<in> set ids \<longrightarrow> \<not> is_running b)"
  using assms
proof (induction ids arbitrary: clocks d evs)
  case Nil
  then show ?case by (simp add: quieter_def)
next
  case (Cons i ids)
  from Cons.prems(1) obtain d1 ev1 evs1 where
    one: "interrupt_attempt (fst (clocks 0)) (snd (clocks 0)) i reason d = Inr (d1, ev1)"
    and rest: "interrupt_each (\<lambda>n. clocks (Suc n)) reason ids d1 = Inr (d', evs1)"
    by (auto simp: result_simps)
  note first = interrupt_attempt_quieter [OF Cons.prems(2) one]
  have later: "quieter d1 d' \<and> (\<forall>b\<in>set (attempts d'). a_id b \<in> set ids \<longrightarrow> \<not> is_running b)"
    by (rule Cons.IH [OF rest interrupt_attempt_effect(1) [OF Cons.prems(2) one]])
  then show ?case using first by (auto simp: quieter_def)
qed

lemma interrupt_session_quiet:
  assumes run: "interrupt_session_attempts clocks ag cr ses gen reason d = Inr (d', evs)"
    and inv: "store_inv d" and b: "b \<in> set (attempts d')" "a_agent_id b = ag" "a_credential_id b = cr"
      "a_session_id b = ses" "a_connection_generation b = gen"
  shows "\<not> is_running b"
proof
  assume rn: "is_running b"
  note q = interrupt_each_quiet [OF run [unfolded interrupt_session_attempts_def] inv]
  from q b rn have "b \<in> set (attempts d)" by (auto simp: quieter_def)
  with b rn have "a_id b \<in> set (session_attempts d ag cr ses gen)"
    by (force simp: session_attempts_def is_running_def)
  with q b(1) rn show False by blast
qed

end
