(* ===== verification/Exec_Props.thy ===== *)
theory Exec_Props
  imports Execution
begin

text \<open>
  The properties of execution: who may begin, checkpoint, release and stop an attempt, what each
  transition leaves behind, and when an agent is free again.
\<close>

lemma fresh_dispatch:
  assumes "mutation_receipt d (cc_workspace caller) (operation_id c) = None"
    and "apply_task ev caller c d = Inr (d', res)"
  shows "dispatch ev caller (request_digest ev c) c d = Inr (d', res)"
  using assms by (simp add: apply_task_fresh)

section \<open>Beginning\<close>

text \<open>C25. A begin that is carried out found the task waiting, assigned to the caller's agent, at the
  caller's version and last checkpoint, reserved by the named work request, and the agent without
  any attempt that may still execute. It adds one running attempt, bound to the caller's agent,
  credential, session and connection, and makes it the task's current one.\<close>

theorem begin_takes_ownership:
  assumes "mutation_receipt d (cc_workspace caller) op = None"
    and "apply_task ev caller (CmdBegin op k wr v ck nt) d = Inr (d', res)"
  shows "\<exists>t ag ses. find_task d (cc_workspace caller) k = Some t \<and> t_version t = v \<and>
    cc_agent_id caller = Some ag \<and> cc_session_id caller = Some ses \<and>
    (\<exists>r. cc_reservation caller = Some r \<and> rf_task_id r = k \<and> rf_work_request_id r = wr) \<and>
    t_state t \<in> {Todo, Blocked, Paused} \<and> t_assigned_agent_id t = Some ag \<and> t_last_checkpoint_id t = ck \<and>
    (\<forall>b\<in>set (attempts d). is_barrier b \<longrightarrow> a_agent_id b \<noteq> ag) \<and>
    attempts d' = attempts d @ [begin_attempt_row ev caller k ag ses wr ck (op_clock ev)] \<and>
    find_task d' (cc_workspace caller) k = Some (t\<lparr>t_state := InProgress, t_version := v + 1,
      t_current_attempt_id := Some (new_attempt_id ev), t_last_attempt_id := Some (new_attempt_id ev),
      t_pause_reason := None, t_updated_by := cc_actor_id caller, t_updated_at := op_clock ev\<rparr>)"
proof -
  have "apply_begin ev caller op k wr v ck nt (request_digest ev (CmdBegin op k wr v ck nt)) d = Inr (d', res)"
    using fresh_dispatch [OF _ assms(2)] assms(1) by simp
  from apply_begin_effect [OF this] show ?thesis unfolding beginable_cases by blast
qed

theorem begin_takes_ownership_witness:
  "attempts (fst (projr (apply_task env0 agent0 begin0 db0))) = [attemptR\<lparr>a_started_at := 1000\<rparr>]"
  using begin_takes_ownership [OF _ ran [OF begin_runs [unfolded begin0_def]]]
  by (simp add: scenario mutation_receipt_def begin_attempt_row_def find_task_def t_key_def)

text \<open>C26. The execution barrier: while the agent has an attempt that runs, or that was interrupted
  without evidence that it stopped, a begin that passes every other check is refused with
  \<^verbatim>\<open>task_stop_unconfirmed\<close>, in whatever workspace that attempt is.\<close>

theorem barrier_blocks_begin:
  assumes "mutation_receipt d (cc_workspace caller) op = None"
    and "validate_command ev caller (CmdBegin op k wr v ck nt) = Inr ()"
    and "cc_agent_id caller = Some ag" and "cc_session_id caller \<noteq> None"
    and "cc_reservation caller = Some \<lparr>rf_work_request_id = wr, rf_task_id = k\<rparr>"
    and "find_task d (cc_workspace caller) k = Some t" and "t_version t = v"
    and "t_state t \<in> {Todo, Blocked, Paused}" and "t_current_attempt_id t = None"
    and "t_assigned_agent_id t = Some ag" and "t_last_checkpoint_id t = ck"
    and "0 \<le> op_clock ev" and "op_clock ev \<le> I64_MAX"
    and "b \<in> set (attempts d)" and "is_barrier b" and "a_agent_id b = ag"
  shows "apply_task ev caller (CmdBegin op k wr v ck nt) d =
    Inl (task_error_code TaskStopUnconfirmed (Some op))"
proof -
  obtain ses where ses: "cc_session_id caller = Some ses" using assms(4) by blast
  let ?row = "begin_attempt_row ev caller k ag ses wr ck (op_clock ev)"
  have "\<exists>e. insert_attempt ?row d = Inl e \<and> is_constraint e"
    using assms(14-16)
    by (auto simp: insert_attempt_def begin_attempt_row_def is_barrier_def is_constraint_def)
  then obtain e where "insert_attempt ?row d = Inl e" "is_constraint e" by blast
  then have "apply_begin ev caller op k wr v ck nt h d = Inl (task_error_code TaskStopUnconfirmed (Some op))" for h
    using assms(3,5-13) ses
    by (auto simp: apply_begin_def check_version_def is_beginable_def tx_store_def now_millis_def)
  with assms(1,2) show ?thesis by (simp add: apply_task_def Let_def)
qed

theorem barrier_blocks_begin_witness:
  "apply_task env0 agent0 (CmdBegin 3 1 ''r'' 4 None ''s'') dbI =
     Inl (task_error_code TaskStopUnconfirmed (Some 3))"
proof (rule barrier_blocks_begin [where b = "hd (attempts dbI)" and t = "hd (tasks dbI)"])
qed (simp_all add: scenario mutation_receipt_def command_simps check_simps find_task_def now_millis_def)

section \<open>Owning\<close>

text \<open>C27. Only the owner of the running attempt may checkpoint, pause or complete: when no running
  attempt of the task with that id belongs to the caller's agent, credential, session and
  connection generation, the command is refused with \<^verbatim>\<open>task_stale_attempt\<close>.\<close>

theorem only_owner_reports:
  assumes "mutation_receipt d (cc_workspace caller) (operation_id c) = None"
    and "validate_command ev caller c = Inr ()"
    and "c \<in> {CmdCheckpoint op k aid v ck, CmdPause op k aid v ck blocked, CmdComplete op k aid v ck}"
    and "find_task d (cc_workspace caller) k = Some t" and "t_version t = v"
    and "cc_agent_id caller = Some ag" and "cc_session_id caller = Some ses"
    and "\<forall>a\<in>set (attempts d). \<not> (a_id a = aid \<and> a_key a = (cc_workspace caller, k) \<and> a_agent_id a = ag \<and>
      a_credential_id a = cc_credential_id caller \<and> a_session_id a = ses \<and>
      a_connection_generation a = cc_connection_generation caller \<and> a_status a = Running)"
  shows "apply_task ev caller c d = Inl (task_error_code TaskStaleAttempt (Some op))"
proof -
  have "require_attempt_owner d caller k aid v op = Inl (task_error_code TaskStaleAttempt (Some op))"
    using assms(4-8) by (auto simp: require_attempt_owner_def task_state_version_def check_version_def
      owner_attempt_matches_def a_key_def)
  then have "dispatch ev caller h c d = Inl (task_error_code TaskStaleAttempt (Some op))" for h
    using assms(3) by (auto simp: apply_checkpoint_def apply_release_def)
  with assms(1,2) show ?thesis by (simp add: apply_task_def Let_def)
qed

theorem only_owner_reports_witness:
  "apply_task env0 (agent0\<lparr>cc_connection_generation := 8\<rparr>) complete0 dbR =
     Inl (task_error_code TaskStaleAttempt (Some 4))"
proof (rule only_owner_reports [where t = taskR and k = 1 and aid = 503 and v = 3 and ck = ck0
      and ag = "''a''" and ses = 21])
qed (simp_all add: scenario mutation_receipt_def command_simps check_simps find_task_def)

text \<open>Completion: the task is done and unassigned, its result and last checkpoint are the report
  just written with the caller's body, the attempt is completed with evidence, and the agent is free
  to begin elsewhere.\<close>

theorem complete_finishes:
  assumes inv: "store_inv d" and "mutation_receipt d (cc_workspace caller) op = None"
    and "apply_task ev caller (CmdComplete op k aid v ck) d = Inr (d', res)"
  shows "\<exists>t ag. cc_agent_id caller = Some ag \<and> find_task d' (cc_workspace caller) k = Some t \<and>
    t_state t = Done \<and> t_version t = v + 1 \<and> t_assigned_agent_id t = None \<and>
    t_current_attempt_id t = None \<and> t_last_attempt_id t = Some aid \<and>
    t_result_report_id t = Some (new_report_id ev) \<and> t_last_checkpoint_id t = Some (new_report_id ev) \<and>
    ar_closed_attempt_id res = Some aid \<and>
    (\<forall>a\<in>set (attempts d'). a_id a = aid \<longrightarrow> a_status a = Completed \<and> a_stop_evidence a = EvReleased) \<and>
    agent_has_execution_barrier d' ag = Inr False"
proof -
  let ?hash = "request_digest ev (CmdComplete op k aid v ck)"
  have "apply_release ev caller op k aid v ck Done True ?hash d = Inr (d', res)"
    using fresh_dispatch [OF _ assms(3)] assms(2) by simp
  from apply_release_effect [OF this] obtain t ag ses where
    t: "find_task d' (cc_workspace caller) k = Some (t\<lparr>t_state := Done, t_version := v + 1,
      t_assigned_agent_id := None, t_current_attempt_id := None, t_last_attempt_id := Some aid,
      t_last_checkpoint_id := Some (new_report_id ev), t_result_report_id := Some (new_report_id ev),
      t_pause_reason := None, t_updated_by := cc_actor_id caller, t_updated_at := op_clock ev\<rparr>)"
    and ag: "cc_agent_id caller = Some ag" and own: "owner_attempt_matches d caller k aid ag ses"
    and at: "attempts d' = update_where (\<lambda>a. a_id a = aid \<and> a_status a = Running)
      (\<lambda>a. a\<lparr>a_status := Completed, a_stop_evidence := EvReleased, a_reason := None,
             a_ended_at := Some (op_clock ev), a_stopped_at := Some (op_clock ev)\<rparr>) (attempts d)"
    and cl: "ar_closed_attempt_id res = Some aid" by auto
  have inv': "store_inv d'" by (rule apply_task_inv [OF inv assms(3)])
  from own obtain a where a: "a \<in> set (attempts d)" "a_id a = aid" "a_agent_id a = ag" "a_status a = Running"
    by (auto simp: owner_attempt_matches_def)
  have free: "agent_has_execution_barrier d' (a_agent_id a) = Inr False"
    by (rule barrier_lifted [OF inv inv' a(1) _ _ _ at]) (simp_all add: a is_barrier_def)
  have run: "a_status b = Running" if "b \<in> set (attempts d)" "a_id b = aid" for b
    using exec_ok_same_attempt [OF store_invD(2) [OF inv] that(1) a(1)] that a by simp
  have "a_status b = Completed \<and> a_stop_evidence b = EvReleased"
    if "b \<in> set (attempts d')" "a_id b = aid" for b
  proof -
    from that(1) [unfolded at] obtain c where c: "c \<in> set (attempts d)"
      "b = (if a_id c = aid \<and> a_status c = Running
        then c\<lparr>a_status := Completed, a_stop_evidence := EvReleased, a_reason := None,
          a_ended_at := Some (op_clock ev), a_stopped_at := Some (op_clock ev)\<rparr> else c)"
      by (rule update_whereE)
    from c(2) that(2) have "a_id c = aid" by (simp split: if_splits)
    with c run [OF c(1)] show ?thesis by simp
  qed
  with t ag cl free a(3) show ?thesis by simp
qed

theorem complete_finishes_witness:
  "agent_has_execution_barrier (fst (projr (apply_task env0 agent0 complete0 dbR))) ''a'' = Inr False"
proof -
  have "cc_agent_id agent0 = Some ''a''" and m: "mutation_receipt dbR (cc_workspace agent0) 4 = None"
    by (simp_all add: scenario mutation_receipt_def)
  with complete_finishes [OF store_inv_dbR m ran [OF complete_runs [unfolded complete0_def]]]
  show ?thesis by (auto simp: complete0_def)
qed

section \<open>Stopping\<close>

text \<open>A task is cancelled or reopened only when every interrupted attempt of it has evidence that
  it stopped: otherwise the command is refused with \<^verbatim>\<open>task_stop_unconfirmed\<close>, once version and state
  allow the transition.\<close>

theorem terminal_needs_evidence:
  assumes "mutation_receipt d (cc_workspace caller) (operation_id c) = None"
    and "validate_command ev caller c = Inr ()"
    and "c = CmdCancel op k v nt \<and> t_state t \<in> {Todo, Blocked, Paused} \<or>
         c = CmdReopen op k v nt \<and> t_state t \<in> {Done, Cancelled}"
    and "find_task d (cc_workspace caller) k = Some t" and "t_version t = v"
    and "a \<in> set (attempts d)" and "a_key a = (cc_workspace caller, k)"
    and "a_status a = Interrupted" and "a_stop_evidence a = EvUnknown"
  shows "apply_task ev caller c d = Inl (task_error_code TaskStopUnconfirmed (Some op))"
proof -
  have "dispatch ev caller h c d = Inl (task_error_code TaskStopUnconfirmed (Some op))" for h
    using assms(3-9)
    by (auto simp: apply_terminal_def task_state_version_def check_version_def
      terminal_transition_valid_def is_terminal_def bindR_eq_Inl)
  with assms(1,2) show ?thesis by (simp add: apply_task_def Let_def)
qed

theorem terminal_needs_evidence_witness:
  "apply_task env0 admin0 (CmdCancel 6 1 4 ''n'') dbI = Inl (task_error_code TaskStopUnconfirmed (Some 6))"
proof (rule terminal_needs_evidence [where t = "hd (tasks dbI)" and a = "hd (attempts dbI)" and k = 1
      and v = 4 and nt = "''n''"])
qed (simp_all add: scenario mutation_receipt_def command_simps check_simps find_task_def)

text \<open>C28. Refinement: whatever a command other than a reopening does to its task is a step of the
  task state machine \<open>task_step\<close>: a task that is done or cancelled stays so, and nothing brings a task
  to \<open>InProgress\<close> but a begin. Reopening is left out: the code reopens done and cancelled tasks
  (\<open>dispatch_task_step\<close>), where the diagram of the design notes names paused, blocked and cancelled
  ones.\<close>

theorem command_follows_machine:
  assumes "store_inv d" and "mutation_receipt d (cc_workspace caller) (operation_id c) = None"
    and "apply_task ev caller c d = Inr (d', res)" and "command_task c = Some (k, v)"
    and "\<nexists>op nt. c = CmdReopen op k v nt"
  shows "\<exists>t t'. find_task d (cc_workspace caller) k = Some t \<and>
    find_task d' (cc_workspace caller) k = Some t' \<and> task_step c (t_state t) (t_state t') \<and>
    (t_state t \<in> {Done, Cancelled} \<longrightarrow> t_state t' = t_state t) \<and>
    (t_state t' = InProgress \<longrightarrow> t_state t = InProgress \<or> (\<exists>op wr ck nt. c = CmdBegin op k wr v ck nt))"
proof -
  from dispatch_task_step [OF assms(1) fresh_dispatch [OF assms(2,3)] assms(4)] obtain t t' where
    t: "find_task d (cc_workspace caller) k = Some t" "find_task d' (cc_workspace caller) k = Some t'"
    and step: "task_step c (t_state t) (t_state t')" by blast
  have "t_state t \<in> {Done, Cancelled} \<longrightarrow> t_state t' = t_state t"
    using step assms(4,5) by cases auto
  moreover have "t_state t' = InProgress \<longrightarrow> t_state t = InProgress \<or> (\<exists>op wr ck nt. c = CmdBegin op k wr v ck nt)"
    using step assms(4) by cases auto
  ultimately show ?thesis using t step by blast
qed

theorem command_follows_machine_witness:
  "\<exists>t'. find_task (fst (projr (apply_task env0 agent0 begin0 db0))) ws0 1 = Some t' \<and>
     task_step begin0 Todo (t_state t')"
proof -
  have w: "cc_workspace agent0 = ws0" and m: "mutation_receipt db0 (cc_workspace agent0) (operation_id begin0) = None"
    and c: "command_task begin0 = Some (1, 2)" and t: "find_task db0 ws0 1 = Some task0" "t_state task0 = Todo"
    and n: "\<nexists>op nt. begin0 = CmdReopen op 1 2 nt"
    by (simp_all add: scenario mutation_receipt_def find_task_def t_key_def)
  from command_follows_machine [OF store_inv_db0 m ran [OF begin_runs] c n] t w show ?thesis by auto
qed

section \<open>Roles\<close>

text \<open>C29. Roles: interrupting and confirming a stop are carried out only for an operator or
  administrator; beginning, checkpointing, pausing and completing only for an agent or its delegate
  with an agent identity.\<close>

theorem roles_enforced:
  assumes "apply_task ev caller c d = Inr (d', res)"
  shows "case c of
      CmdInterrupt _ _ _ _ \<Rightarrow> cc_role caller \<in> {Operator, Admin}
    | CmdConfirmStopped _ _ _ _ _ \<Rightarrow> cc_role caller \<in> {Operator, Admin}
    | CmdBegin _ _ _ _ _ _ \<Rightarrow> cc_role caller \<in> {Agent, Delegate} \<and> cc_agent_id caller \<noteq> None
    | CmdCheckpoint _ _ _ _ _ \<Rightarrow> cc_role caller \<in> {Agent, Delegate} \<and> cc_agent_id caller \<noteq> None
    | CmdPause _ _ _ _ _ _ \<Rightarrow> cc_role caller \<in> {Agent, Delegate} \<and> cc_agent_id caller \<noteq> None
    | CmdComplete _ _ _ _ _ \<Rightarrow> cc_role caller \<in> {Agent, Delegate} \<and> cc_agent_id caller \<noteq> None
    | _ \<Rightarrow> True"
proof -
  from assms have "validate_command ev caller c = Inr ()" by (auto simp: apply_task_def bindR_eq_Inr)
  then show ?thesis
    by (cases c) (auto simp: validate_command_def require_executor_def bindR_eq_Inr split: if_splits)
qed

theorem roles_enforced_witness:
  "cc_role admin0 \<in> {Operator, Admin} \<and> cc_role agent0 \<in> {Agent, Delegate} \<and> cc_agent_id agent0 \<noteq> None \<and>
     \<not> isl (apply_task env0 admin0 confirm0 dbI) \<and> \<not> isl (apply_task env0 agent0 begin0 db0)"
  using roles_enforced [OF ran [OF confirm_runs]] roles_enforced [OF ran [OF begin_runs]]
    confirm_runs begin_runs by (simp add: confirm0_def begin0_def)

end
