(* ===== verification/Stop_Props.thy ===== *)
theory Stop_Props
  imports Execution
begin

text \<open>
  The properties of stopping an execution: the router's interruptions, which always go through and
  leave the agent fenced, and the two ways of lifting the fence.
\<close>

text \<open>Interrupting a running attempt ends it without evidence that it stopped, pauses its task
  with the reason at the next version, appends one event, and leaves the agent fenced: it has no
  running attempt any more, but still counts as possibly executing.\<close>

theorem interrupt_pauses_and_fences:
  assumes inv: "store_inv d" and run: "interrupt_attempt clock eclock aid reason d = Inr (d', r)"
    and a: "find_attempt d aid = Some a" "a_status a = Running"
  shows "(\<exists>b. find_attempt d' aid = Some b \<and> a_status b = Interrupted \<and> a_stop_evidence b = EvUnknown \<and>
       a_reason b = Some reason \<and> a_ended_at b = Some clock) \<and>
    (\<exists>t t'. find_task d (a_workspace a) (a_task_id a) = Some t \<and> t_state t = InProgress \<and>
       find_task d' (a_workspace a) (a_task_id a) = Some t' \<and> t_state t' = Paused \<and>
       t_version t' = t_version t + 1 \<and> t_current_attempt_id t' = None \<and>
       t_pause_reason t' = Some reason) \<and>
    (\<exists>e. r = Some e \<and> events d' = events d @ [e]) \<and>
    agent_has_execution_barrier d' (a_agent_id a) = Inr True"
proof -
  note eff = interrupt_attempt_effect [OF inv run] and ok = store_invD(2) [OF inv]
  note at = conjunct1 [OF eff(3) [OF a]] and tk = conjunct1 [OF conjunct2 [OF eff(3) [OF a]]]
    and evs = conjunct2 [OF conjunct2 [OF eff(3) [OF a]]]
  from find_attempt_SomeD [OF a(1)] have ain: "a \<in> set (attempts d)" "a_id a = aid" by auto
  from exec_okD(8) [OF ok ain(1)] a(2) obtain t where
    t: "t \<in> set (tasks d)" "t_key t = a_key a" "t_current_attempt_id t = Some (a_id a)"
    by (auto simp: is_running_def)
  have ft: "find_task d (a_workspace a) (a_task_id a) = Some t"
    using find_key_distinct [OF exec_okD(1) [OF ok] t(1)] t(2) by (simp add: find_task_def a_key_def)
  have st: "t_state t = InProgress" using exec_ok_in_progress [OF ok t(1)] t(3) by simp
  have fb: "find_attempt d' aid = Some (a\<lparr>a_status := Interrupted, a_stop_evidence := EvUnknown,
      a_reason := Some reason, a_ended_at := Some clock\<rparr>)"
    using find_update_where_key [of a_id, where key = aid and rows = "attempts d"] a(1)
    by (simp add: find_attempt_def at)
  have ft': "find_task d' (a_workspace a) (a_task_id a) = Some (t\<lparr>t_state := Paused,
      t_version := t_version t + 1, t_current_attempt_id := None, t_last_attempt_id := Some aid,
      t_pause_reason := Some reason, t_updated_by := SYSTEM_ROUTER, t_updated_at := clock\<rparr>)"
    using find_update_where_key [of t_key, where key = "a_key a" and rows = "tasks d"] ft
    by (simp add: find_task_def tk a_key_def t_key_def)
  have "\<exists>b\<in>set (attempts d'). a_agent_id b = a_agent_id a \<and> is_barrier b"
    by (rule bexI [OF _ conjunct1 [OF find_attempt_SomeD [OF fb]]]) (simp add: is_barrier_def)
  then have "agent_has_execution_barrier d' (a_agent_id a) = Inr True"
    by (simp add: has_barrier_spec [OF eff(1)])
  with fb ft ft' st evs show ?thesis by auto
qed

lemma router_interrupt_runs: "\<not> isl (interrupt_attempt 1000 1001 503 TransportLost dbR)"
  by (simp add: scenario check_simps statement_simps interrupt_attempt_def SYSTEM_ROUTER_def)

theorem interrupt_pauses_and_fences_witness:
  "agent_has_execution_barrier (fst (projr (interrupt_attempt 1000 1001 503 TransportLost dbR))) ''a'' = Inr True"
proof -
  have a: "find_attempt dbR 503 = Some attemptR" "a_status attemptR = Running" "a_agent_id attemptR = ''a''"
    by (simp_all add: scenario find_attempt_def)
  from interrupt_pauses_and_fences [OF store_inv_dbR ran [OF router_interrupt_runs] a(1,2)] a(3)
  show ?thesis by simp
qed

text \<open>Interrupting cannot be refused: in a consistent store, with both clock readings in range
  and neither the log nor the task's version at the safe-integer limit, the interruption of a running
  attempt succeeds.\<close>

theorem interrupt_succeeds:
  assumes "store_inv d" and "find_attempt d aid = Some a" and "a_status a = Running"
    and "safe_time clock" and "safe_time eclock" and "has_room d (a_workspace a)"
    and "\<And>t. find_task d (a_workspace a) (a_task_id a) = Some t \<Longrightarrow> t_version t < MAX_SAFE_INTEGER"
  shows "\<exists>d' e. interrupt_attempt clock eclock aid reason d = Inr (d', Some e)"
  by (rule interrupt_attempt_total [OF assms(1-6)]) (rule assms(7))

theorem interrupt_succeeds_witness:
  "\<exists>d' e. interrupt_attempt 1000 1001 503 TransportLost dbR = Inr (d', Some e)"
  by (rule interrupt_succeeds [OF store_inv_dbR, of 503 attemptR])
     (simp_all add: scenario find_attempt_def find_task_def check_simps has_room_def)

text \<open>C30. When a provider session is gone, interrupting its attempts leaves none of them running: no
  attempt of that agent, credential, session and connection generation runs afterwards.\<close>

theorem session_interrupt_complete:
  assumes "interrupt_session_attempts clocks ag cr ses gen reason d = Inr (d', evs)" and "store_inv d"
  shows "store_inv d' \<and> (\<forall>b\<in>set (attempts d'). a_agent_id b = ag \<and> a_credential_id b = cr \<and>
    a_session_id b = ses \<and> a_connection_generation b = gen \<longrightarrow> a_status b \<noteq> Running)"
  using interrupt_session_quiet [OF assms] interrupt_session_attempts_inv [OF assms]
  by (auto simp: is_running_def)

theorem session_interrupt_complete_witness:
  "filter (\<lambda>b. a_agent_id b = ''a'' \<and> a_credential_id b = 11 \<and> a_session_id b = 21 \<and>
       a_connection_generation b = 7 \<and> a_status b = Running)
     (attempts (fst (projr (interrupt_session_attempts (\<lambda>_. (1000, 1001)) ''a'' 11 21 7 TransportLost dbR)))) = []"
proof -
  have "\<not> isl (interrupt_session_attempts (\<lambda>_. (1000, 1001)) ''a'' 11 21 7 TransportLost dbR)"
    by (simp add: interrupt_session_attempts_def session_attempts_def scenario check_simps statement_simps
      interrupt_attempt_def SYSTEM_ROUTER_def)
  from session_interrupt_complete [OF ran [OF this] store_inv_dbR] show ?thesis by (auto simp: filter_empty_conv)
qed

text \<open>A host's report that an execution stopped is accepted only from the agent, credential and
  session of the attempt; it frees the agent when the attempt was fenced, and changes nothing when the
  stop was already known.\<close>

theorem stop_report_lifts_fence:
  assumes "store_inv d"
    and "record_execution_stopped clock eclock ws k aid ses ag cr reason d = Inr (d', r)"
  shows "\<exists>a\<in>set (attempts d). a_id a = aid \<and> a_key a = (ws, k) \<and> a_agent_id a = ag \<and>
    a_credential_id a = cr \<and> a_session_id a = ses \<and>
    (if is_barrier a then r \<noteq> None \<and> agent_has_execution_barrier d' ag = Inr False
     else d' = d \<and> r = None)"
  by (rule record_execution_stopped_effect [OF assms]) auto

lemma stop_report_runs:
  "\<not> isl (record_execution_stopped 1000 1001 ws0 1 503 21 ''a'' 11 TurnEnded dbI)"
  by (simp add: scenario check_simps statement_simps record_execution_stopped_def)

theorem stop_report_lifts_fence_witness:
  "agent_has_execution_barrier
     (fst (projr (record_execution_stopped 1000 1001 ws0 1 503 21 ''a'' 11 TurnEnded dbI))) ''a'' = Inr False"
proof -
  have "\<forall>a\<in>set (attempts dbI). is_barrier a" by (simp add: scenario is_barrier_def)
  with stop_report_lifts_fence [OF store_inv_dbI ran [OF stop_report_runs]] show ?thesis by auto
qed

text \<open>An operator's confirmation that an interrupted attempt stopped frees its agent and keeps the
  task where it is, one version later.\<close>

theorem confirm_lifts_fence:
  assumes inv: "store_inv d" and "mutation_receipt d (cc_workspace caller) op = None"
    and run: "apply_task ev caller (CmdConfirmStopped op k aid v nt) d = Inr (d', res)"
  shows "\<exists>a\<in>set (attempts d). a_id a = aid \<and> a_key a = (cc_workspace caller, k) \<and>
    a_status a = Interrupted \<and> a_stop_evidence a = EvUnknown \<and>
    agent_has_execution_barrier d' (a_agent_id a) = Inr False \<and>
    (\<exists>t. find_task d (cc_workspace caller) k = Some t \<and>
      find_task d' (cc_workspace caller) k = Some (t\<lparr>t_version := v + 1,
        t_updated_by := cc_actor_id caller, t_updated_at := op_clock ev\<rparr>))"
proof -
  let ?hash = "request_digest ev (CmdConfirmStopped op k aid v nt)"
  have "apply_confirm_stopped ev caller op k aid v nt ?hash d = Inr (d', res)"
    using run assms(2) by (simp add: apply_task_fresh)
  from apply_confirm_stopped_effect [OF this] obtain t a where
    a: "a \<in> set (attempts d)" "a_id a = aid" "a_key a = (cc_workspace caller, k)"
      "a_status a = Interrupted" "a_stop_evidence a = EvUnknown"
    and t: "find_task d (cc_workspace caller) k = Some t"
      "find_task d' (cc_workspace caller) k = Some (t\<lparr>t_version := v + 1,
        t_updated_by := cc_actor_id caller, t_updated_at := op_clock ev\<rparr>)"
    and at: "attempts d' = update_where (\<lambda>a. a_id a = aid)
      (\<lambda>a. a\<lparr>a_stop_evidence := EvConfirmed, a_stopped_at := Some (op_clock ev)\<rparr>) (attempts d)"
    by blast
  have "agent_has_execution_barrier d' (a_agent_id a) = Inr False"
    by (rule barrier_lifted [OF inv apply_task_inv [OF inv run] a(1) _ _ _ at])
       (auto simp: a is_barrier_def)
  with a t show ?thesis by blast
qed

theorem confirm_lifts_fence_witness:
  "agent_has_execution_barrier (fst (projr (apply_task env0 admin0 confirm0 dbI))) ''a'' = Inr False"
proof -
  have m: "mutation_receipt dbI (cc_workspace admin0) 7 = None" and "\<forall>a\<in>set (attempts dbI). a_agent_id a = ''a''"
    by (simp_all add: scenario mutation_receipt_def)
  with confirm_lifts_fence [OF store_inv_dbI m ran [OF confirm_runs [unfolded confirm0_def]]]
  show ?thesis unfolding confirm0_def by auto
qed

end
