(* ===== verification/Store_Props.thy ===== *)
theory Store_Props
  imports Scenario
begin

text \<open>
  The properties of the store: recovery after a restart, the event logs, the listings and the
  fences of an agent.
\<close>

section \<open>Recovery\<close>

text \<open>C38. After a restart nothing is left half done: the recovered store is consistent, every request
  in the log has a result, no attempt runs, no external operation is in flight, and the log only grew,
  by no new request.\<close>

theorem recovery_settles:
  assumes "store_inv d" and "recover rc d = Inr d'"
  shows "store_inv d' \<and>
    (\<forall>r\<in>set (events d'). we_kind r = KRequest \<longrightarrow> (\<exists>x\<in>set (events d'). we_kind x = KResult \<and>
       we_workspace x = we_workspace r \<and> we_request_id x = we_request_id r)) \<and>
    (\<forall>a\<in>set (attempts d'). a_status a \<noteq> Running) \<and>
    (\<forall>x\<in>set (external_operations d'). \<not> (x_status x = OpRunning \<and> x_phase x \<in> {Prepared, Dispatched})) \<and>
    (\<exists>es. events d' = events d @ es \<and> (\<forall>e\<in>set es. we_kind e \<noteq> KRequest))"
proof -
  note eff = recover_effect [OF assms]
  have "\<exists>x\<in>set (events d'). we_kind x = KResult \<and> we_workspace x = we_workspace r \<and>
      we_request_id x = we_request_id r" if "r \<in> set (events d')" "we_kind r = KRequest" for r
    using eff(2) that by (fastforce simp: all_answered_def answered_def)
  with eff show ?thesis by (auto simp: is_running_def inflight_def log_grows_def)
qed

lemma recover_runs: "\<not> isl (recover clocks0 dbR)"
  by (simp add: recover_def clocks0_def recover_unfinished_requests_def unfinished_requests_def
    recover_running_attempts_def recover_attempt_def recover_external_operations_def
    inflight_operations_def scenario check_simps statement_simps SYSTEM_ROUTER_def)

lemma recover_ran: "recover clocks0 dbR = Inr (projr (recover clocks0 dbR))"
  using recover_runs by (cases "recover clocks0 dbR") simp_all

theorem recovery_settles_witness:
  "filter (\<lambda>a. a_status a = Running) (attempts (projr (recover clocks0 dbR))) = []"
  using recovery_settles [OF store_inv_dbR recover_ran] by (simp add: filter_empty_conv)

text \<open>Recovery is idempotent: recovering a recovered store changes nothing, so a router that
  crashes again during start-up does no harm.\<close>

theorem recovery_idempotent:
  assumes inv: "store_inv d" and run: "recover rc d = Inr d'"
    and clock: "now_millis (rc_attempts_now rc') = Inr n" "now_millis (rc_operations_now rc') = Inr m"
  shows "recover rc' d' = Inr d'"
proof -
  note eff = recover_effect [OF inv run]
  from run have "deferred_ok d'" by (auto simp: recover_def result_simps)
  moreover have "unfinished_requests d' = []"
    using eff(2) by (auto simp: unfinished_requests_def all_answered_def filter_empty_conv)
  moreover have "filter is_running (attempts d') = []" using eff(3) by (simp add: filter_empty_conv)
  moreover have "inflight_operations d' = []"
    using eff(4) by (auto simp: inflight_operations_def filter_empty_conv)
  ultimately show ?thesis
    using clock by (simp add: recover_def recover_unfinished_requests_def recover_running_attempts_def
      recover_external_operations_def now_millis_def split: if_splits)
qed

theorem recovery_idempotent_witness:
  "recover clocks0 (projr (recover clocks0 dbR)) = Inr (projr (recover clocks0 dbR))"
  by (rule recovery_idempotent [OF store_inv_dbR recover_ran])
     (simp_all add: clocks0_def now_millis_def I64_MAX_def)

section \<open>Event logs\<close>

text \<open>An append gives the event the next number of its workspace's log and touches no other log;
  the numbers of a log are \<open>1, 2, 3, \<dots>\<close> without a gap before and after.\<close>

theorem append_next_number:
  assumes "log_inv d" and "append_event clock i d = Inr (d', e)"
  shows "we_seq e = int (length (workspace_log d (ei_workspace i))) + 1 \<and>
    workspace_log d' (ei_workspace i) = workspace_log d (ei_workspace i) @ [e] \<and>
    (\<forall>ws. ws \<noteq> ei_workspace i \<longrightarrow> workspace_log d' ws = workspace_log d ws) \<and>
    (\<forall>ws. map we_seq (workspace_log d' ws) = [1..int (length (workspace_log d' ws))])"
proof -
  from assms(2) have app: "append_event_in_transaction clock i d = Inr (d', e)"
    by (auto simp: append_event_def result_simps)
  from wlog.append_seq [OF assms(1) app] wlog.append_extends [OF app]
    wlog.dense [OF wlog.append_invar [OF assms(1) app]]
  show ?thesis by simp
qed

lemma append_runs: "\<not> isl (append_event 1000 joined0 dbM)"
  by (simp add: append_event_def joined0_def scenario check_simps statement_simps)

theorem append_next_number_witness:
  "we_seq (snd (projr (append_event 1000 joined0 dbM))) = 2"
  using append_next_number [OF store_invD(1) [OF store_inv_dbM] ran [OF append_runs]]
  by (simp add: joined0_def scenario workspace_log_def)

text \<open>Paging through the history is complete: following the cursors from any acceptable one, with
  any positive page size, returns every later event of the log exactly once and in order, and stops
  after at most as many pages as there are events.\<close>

theorem history_paging_complete:
  assumes "log_inv d" and "latest_seq d ws = Some n" and "after \<le> n" and "1 \<le> limit"
    and "length (filter (\<lambda>e. after < we_seq e) (workspace_log d ws)) < fuel"
  shows "collect_pages fuel (\<lambda>c. history d ws c limit) after =
    Some (Inr (filter (\<lambda>e. after < we_seq e) (workspace_log d ws)))"
  by (rule hist.collect_complete) (use assms in \<open>simp_all add: history_ready_def\<close>)

theorem history_paging_complete_witness:
  "collect_pages 2 (\<lambda>c. history dbM ws0 c 1) 0 = Some (Inr [event0])"
  using history_paging_complete [OF store_invD(1) [OF store_inv_dbM], of ws0 1 0 1 2]
  by (simp add: scenario latest_seq_def workspace_log_def)

text \<open>The recent history is the tail of the log: the last \<open>limit\<close> events in order, with the
  latest number as the cursor to subscribe from.\<close>

theorem recent_history_is_tail:
  assumes "log_inv d" and "latest_seq d ws = Some n"
  shows "recent_history d ws limit =
    Inr (drop (length (workspace_log d ws) - limit) (workspace_log d ws),
         if limit = 0 then 0 else n, False)"
  using assms by (rule recent_history_spec)

theorem recent_history_is_tail_witness: "recent_history dbM ws0 5 = Inr ([event0], 1, False)"
  using recent_history_is_tail [OF store_invD(1) [OF store_inv_dbM], of ws0 1 5]
  by (simp add: scenario latest_seq_def workspace_log_def)

text \<open>Chat messages are idempotent: a message that was stored, sent again with the same id by the
  same actor, is answered with the stored event and not appended again; with another text it is
  refused as a conflict.\<close>

theorem chat_idempotent:
  assumes "append_chat_idempotent clock ws actor req content d = Inr (d', ca)"
  shows "append_chat_idempotent clock' ws actor req content d' =
      Inr (d', \<lparr>ca_event = ca_event ca, ca_inserted = False\<rparr>) \<and>
    (\<forall>other. other \<noteq> content \<longrightarrow>
      append_chat_idempotent clock' ws actor req other d' = Inl SConflict)"
proof -
  let ?is = "\<lambda>e. we_workspace e = ws \<and> we_actor_id e = actor \<and> we_request_id e = Some req \<and> we_kind e = KChat"
  have "find ?is (events d') = Some (ca_event ca) \<and> we_content (ca_event ca) = Some (ContentText content) \<and>
      deferred_ok d'"
  proof (cases "find ?is (events d)")
    case None
    with assms obtain e where
      app: "append_event_in_transaction clock (chat_insert ws actor req content) d = Inr (d', e)"
      and "ca_event ca = e" "deferred_ok d'"
      by (auto simp: append_chat_idempotent_def result_simps)
    with None append_event_event [OF app] show ?thesis
      by (simp add: append_event_fields [OF app] find_append chat_insert_def)
  next
    case (Some e)
    with assms show ?thesis by (auto simp: append_chat_idempotent_def result_simps)
  qed
  then show ?thesis by (simp add: append_chat_idempotent_def commit_def)
qed

lemma chat_runs: "\<not> isl (append_chat_idempotent 1000 ws0 ''a'' ''q'' ''hi'' dbM)"
  by (simp add: append_chat_idempotent_def chat_insert_def scenario check_simps statement_simps)

theorem chat_idempotent_witness:
  "append_chat_idempotent 3000 ws0 ''a'' ''q'' ''ho''
     (fst (projr (append_chat_idempotent 1000 ws0 ''a'' ''q'' ''hi'' dbM))) = Inl SConflict"
  using chat_idempotent [OF ran [OF chat_runs]] by simp

text \<open>A request id is used once per workspace: after a request was appended, no request with that
  id is accepted in that workspace again.\<close>

theorem request_id_once:
  assumes "append_request clock i d = Inr (d', e)"
    and "ei_workspace j = ei_workspace i" and "ei_kind j = KRequest" and "ei_request_id j = ei_request_id i"
  shows "append_request clock' j d' = Inl SConflict"
proof -
  from assms(1) obtain rid where app: "append_event_in_transaction clock i d = Inr (d', e)"
    and i: "ei_kind i = KRequest" "ei_request_id i = Some rid"
    by (auto simp: append_request_def result_simps)
  have "e \<in> set (events d')" by (simp add: append_event_fields [OF app])
  with append_event_event [OF app] i assms(2-4) show ?thesis
    by (auto simp: append_request_def bindR_eq_Inl)
qed

lemma request_runs: "\<not> isl (append_request 1000 request0 dbM)"
  by (simp add: append_request_def request0_def scenario check_simps statement_simps)

theorem request_id_once_witness:
  "append_request 2000 (request0\<lparr>ei_actor_id := ''a''\<rparr>) (fst (projr (append_request 1000 request0 dbM))) =
     Inl SConflict"
  by (rule request_id_once [OF ran [OF request_runs]]) (simp_all add: request0_def)

section \<open>Reading tasks\<close>

text \<open>Reading a task of a consistent store cannot fail, and the summary in a listing is the
  summary of the detail.\<close>

theorem task_reads_agree:
  assumes "store_inv d" and "find_task d ws k = Some t"
  shows "\<exists>td. get_task d ws k = Inr (Some td) \<and> task_summary_from_row d t = Inr (td_summary td) \<and>
    ts_id (td_summary td) = k \<and> td_description td = t_description t"
  using get_task_ok [OF assms] find_task_SomeD [OF assms(2)] by (auto simp: get_task_def t_key_def)

theorem task_reads_agree_witness: "\<exists>td. get_task dbR ws0 1 = Inr (Some td) \<and> ts_id (td_summary td) = 1"
  using task_reads_agree [OF store_inv_dbR, of ws0 1 taskR] by (auto simp: scenario find_task_def t_key_def)

text \<open>Paging through the tasks of a workspace is complete: following the cursors returns the
  summary of every task with an asked state and assignee after the cursor, once and in the order of
  the task numbers.\<close>

theorem task_paging_complete:
  assumes "store_inv d" and "states \<noteq> []" and "1 \<le> limit" and "length (tasks d) < fuel"
  shows "collect_pages fuel (\<lambda>c. list_tasks d ws states assigned c limit) after =
    Some (Inr (map (summary_row d) (filter (\<lambda>t. task_matches ws states assigned t \<and> after < t_id t) (tasks d))))"
proof -
  let ?q = "(ws, states, assigned)"
  have ids: "ts_id (summary_row d t) = t_id t" if "t \<in> set (tasks d)" for t
    using task_summary_ok [OF assms(1) that] by simp
  have rows: "filter (\<lambda>r. after < ts_id r) (map (summary_row d) (task_rows d ?q)) =
      map (summary_row d) (filter (\<lambda>t. task_matches ws states assigned t \<and> after < t_id t) (tasks d))"
    unfolding task_rows_def filter_map prod.case filter_filter o_def
    by (intro arg_cong [where f = "map (summary_row d)"] filter_cong) (auto simp: ids)
  have "length (map (summary_row d) (filter P (tasks d))) < fuel" for P
    unfolding length_map by (rule le_less_trans [OF length_filter_le assms(4)])
  with listing.collect_complete [OF assms(1), of ?q after limit fuel] assms(2,3)
  show ?thesis by (simp add: rows list_ready_def list_page_def)
qed

theorem task_paging_complete_witness:
  "collect_pages 2 (\<lambda>c. list_tasks dbR ws0 [InProgress] None c 1) 0 = Some (Inr [summary_row dbR taskR])"
  using task_paging_complete [OF store_inv_dbR, of "[InProgress]" 1 2 ws0 None 0]
  by (simp add: dbR_def task_matches_def taskR_def task0_def)

text \<open>The fences reported for an agent are exact: reading them never fails, the current slot is
  filled exactly when the agent has a running attempt, the pending slot exactly when it has an
  interrupted attempt without evidence, and never both.\<close>

theorem fences_exact:
  assumes "store_inv d"
  shows "\<exists>current pending. agent_execution_fences d ag = Inr (current, pending) \<and>
    (current \<noteq> None \<longleftrightarrow> (\<exists>a\<in>set (attempts d). a_agent_id a = ag \<and> a_status a = Running)) \<and>
    (pending \<noteq> None \<longleftrightarrow> (\<exists>a\<in>set (attempts d). a_agent_id a = ag \<and> a_status a = Interrupted \<and>
       a_stop_evidence a = EvUnknown)) \<and>
    (current = None \<or> pending = None)"
  using assms by (rule fences_spec)

theorem fences_exact_witness: "\<exists>f. agent_execution_fences dbR ''a'' = Inr (Some f, None)"
proof -
  have "\<exists>a\<in>set (attempts dbR). a_agent_id a = ''a'' \<and> a_status a = Running" by (simp add: scenario)
  with fences_exact [OF store_inv_dbR, of "''a''"] show ?thesis by fastforce
qed

end
