(* ===== verification/Credential_Props.thy ===== *)
theory Credential_Props
  imports Scenario
begin

text \<open>
  The properties of credentials and onboarding, and the round trips of the stored text.
\<close>

text \<open>A concrete codec, an invite and a request for it.\<close>

definition codec0 :: codec where
  "codec0 = \<lparr>b64_decode = (\<lambda>s. Some (take 32 s)), b64_encode = (\<lambda>s. s @ replicate 11 CHR ''A''),
     sha256 = (\<lambda>s. of_char (hd s)), uuid_simple = (\<lambda>_. ''0'')\<rparr>"

definition invite0 :: invite_row where
  "invite0 = \<lparr>i_id = 31, i_token_hash = of_char (CHR ''i''), i_provider = None, i_workspace = ws0,
     i_subject = ''asr-0'', i_created_at = 100, i_expires_at = 600100, i_revoked_at = None,
     i_enrollment_id = None, i_credential_id = None, i_redeemed_at = None\<rparr>"

definition dbV :: db where "dbV = db0\<lparr>invites := [invite0]\<rparr>"

definition enroll0 :: enrollment_request where
  "enroll0 = \<lparr>er_version = 1, er_server_id = 7, er_invite_id = 31,
     er_invite_token = replicate 32 CHR ''i'' @ replicate 11 CHR ''A'', er_enrollment_id = 41,
     er_provider = ProvOmp, er_credential_id = 51,
     er_credential_token = replicate 32 CHR ''c'' @ replicate 11 CHR ''A''\<rparr>"

lemmas enroll_simps = codec0_def invite0_def dbV_def enroll0_def redeem_onboarding_def nil_uuid_def
  ONBOARDING_VERSION_def valid_invite_token_def TOKEN_LENGTH_def TOKEN_BYTES_def enrollment_credential_def
  invite_subject_def credential_validate_def CREDENTIAL_VERSION_def MAX_GRANTS_def has_duplicate_grant_iff
  is_agent_id_def MAX_AGENT_ID_BYTES_def is_ascii_def starts_with_def is_ascii_alphanumeric_def byte_def
  valid_agent_claims_def server_id_connection_def find_invite_def first_enrollment_def
  insert_credential_connection_def token_hash_def insert_credential_row_def update_invites_def
  invite_check_def update_credentials_def

lemma redeem_runs: "\<not> isl (redeem_onboarding codec0 enroll0 200 dbV)"
  by (simp add: enroll_simps scenario check_simps statement_simps)

lemma enroll_inv_dbV: "enroll_inv dbV"
  by (simp add: enroll_inv_def enroll_simps scenario check_simps)

section \<open>Onboarding\<close>

text \<open>C39. The first redemption of an invite is accepted only with its token, from this server, for the
  provider it names if it names one, before it expires and while it is not revoked. It creates exactly
  one credential, an agent's, with the invite's subject and no grant but the invite's workspace, and
  binds the invite to it.\<close>

theorem redeem_grants_invite_only:
  assumes inv: "enroll_inv d" and run: "redeem_onboarding cx r now d = Inr (d', claims)"
    and found: "find_invite d (er_invite_id r) = Some invite" and new: "i_enrollment_id invite = None"
  shows "i_token_hash invite = sha256 cx (er_invite_token r) \<and> server_id d = er_server_id r \<and>
    now < i_expires_at invite \<and> i_revoked_at invite = None \<and>
    (\<forall>p. i_provider invite = Some p \<longrightarrow> p = er_provider r) \<and>
    pc_role claims = RoleAgent \<and> pc_subject claims = i_subject invite \<and>
    pc_workspaces claims = [i_workspace invite] \<and> pc_id claims = er_credential_id r \<and>
    (\<exists>row. credentials d' = credentials d @ [row] \<and> sc_claims (credential_from_row row) = claims \<and>
       c_token_hash row = sha256 cx (er_credential_token r) \<and> c_revoked_at row = None) \<and>
    (\<exists>j. find_invite d' (er_invite_id r) = Some j \<and> i_enrollment_id j = Some (er_enrollment_id r) \<and>
       i_credential_id j = Some (er_credential_id r))"
proof -
  note first = redeem_first [OF inv run found new]
  from first(4) obtain row where row: "credentials d' = credentials d @ [row]"
    "credential_from_row row = \<lparr>sc_claims = claims, sc_token_hash = token_hash cx (granted cx r invite),
       sc_created_at = now, sc_revoked_at = None\<rparr>" by blast
  then have "sc_claims (credential_from_row row) = claims \<and>
      c_token_hash row = sha256 cx (er_credential_token r) \<and> c_revoked_at row = None"
    by (simp add: credential_from_row_def token_hash_def granted_def enrollment_credential_def)
  with row(1) first(1-3,6) show ?thesis
    by (simp add: admissible_def granted_def enrollment_credential_def public_claims_of_def redeem_mark_def)
qed

theorem redeem_grants_invite_only_witness:
  "pc_workspaces (snd (projr (redeem_onboarding codec0 enroll0 200 dbV))) = [ws0]"
proof -
  have "find_invite dbV (er_invite_id enroll0) = Some invite0" "i_enrollment_id invite0 = None"
      "i_workspace invite0 = ws0"
    by (simp_all add: find_invite_def dbV_def enroll0_def invite0_def)
  with redeem_grants_invite_only [OF enroll_inv_dbV ran [OF redeem_runs]] show ?thesis by simp
qed

text \<open>Redeeming is idempotent for its own request: sent again, at any later time and even after
  the invite expired, it returns the same claims and changes nothing, so a client that lost the answer
  recovers its credential.\<close>

theorem redeem_retry:
  assumes "enroll_inv d" and "redeem_onboarding cx r now d = Inr (d', claims)"
    and "0 \<le> now'" and "now' \<le> MAX_SAFE_INTEGER"
  shows "redeem_onboarding cx r now' d' = Inr (d', claims)"
  by (rule redeem_again [OF assms])

theorem redeem_retry_witness:
  "let out = projr (redeem_onboarding codec0 enroll0 200 dbV) in
   redeem_onboarding codec0 enroll0 9000000 (fst out) = Inr out"
  using redeem_retry [OF enroll_inv_dbV ran [OF redeem_runs], of 9000000]
  by (simp add: Let_def MAX_SAFE_INTEGER_def)

text \<open>C40. An invite is good for one enrollment: after a redemption no request with another enrollment
  or credential id gets anything from it, and after a revocation no request at all does.\<close>

theorem invite_single_use:
  assumes "enroll_inv d"
  shows "(redeem_onboarding cx r now d = Inr (d', claims) \<longrightarrow> er_invite_id s = er_invite_id r \<longrightarrow>
      er_enrollment_id s \<noteq> er_enrollment_id r \<or> er_credential_id s \<noteq> er_credential_id r \<longrightarrow>
      isl (redeem_onboarding cx' s now' d')) \<and>
    (revoke_onboarding_invite (er_invite_id r) now d = Inr d' \<longrightarrow> isl (redeem_onboarding cx' r now' d'))"
proof (intro conjI impI)
  assume run: "redeem_onboarding cx r now d = Inr (d', claims)" and same: "er_invite_id s = er_invite_id r"
    and other: "er_enrollment_id s \<noteq> er_enrollment_id r \<or> er_credential_id s \<noteq> er_credential_id r"
  from redeem_marks [OF assms run] obtain j where "find_invite d' (er_invite_id s) = Some j"
    "i_enrollment_id j = Some (er_enrollment_id r)" "i_credential_id j = Some (er_credential_id r)"
    unfolding same by blast
  with other have "redeem_onboarding cx' s now' d' \<noteq> Inr out" for out
    by (cases out) (auto simp: redeem_eq_Inr admissible_def replay_enrollment_eq_Inr)
  then show "isl (redeem_onboarding cx' s now' d')" by (cases "redeem_onboarding cx' s now' d'") auto
next
  assume run: "revoke_onboarding_invite (er_invite_id r) now d = Inr d'"
  have "i_revoked_at j \<noteq> None" if "find_invite d' (er_invite_id r) = Some j" for j
    using run find_key_SomeD [of i_id "er_invite_id r" "invites d'" j] that
    by (auto simp: revoke_onboarding_invite_def update_invites_def result_simps find_invite_def
      set_update_where split: if_splits option.splits)
  then have "redeem_onboarding cx' r now' d' \<noteq> Inr out" for out
    by (cases out) (auto simp: redeem_eq_Inr admissible_def)
  then show "isl (redeem_onboarding cx' r now' d')" by (cases "redeem_onboarding cx' r now' d'") auto
qed

theorem invite_single_use_witness:
  "isl (redeem_onboarding codec0 (enroll0\<lparr>er_enrollment_id := 42\<rparr>) 300
     (fst (projr (redeem_onboarding codec0 enroll0 200 dbV))))"
  using invite_single_use [OF enroll_inv_dbV, of codec0 enroll0 200
      "fst (projr (redeem_onboarding codec0 enroll0 200 dbV))"
      "snd (projr (redeem_onboarding codec0 enroll0 200 dbV))" "enroll0\<lparr>er_enrollment_id := 42\<rparr>" codec0 300]
    ran [OF redeem_runs] by (simp add: enroll0_def)

section \<open>Revocation\<close>

definition stored_row :: "codec \<Rightarrow> credential_file \<Rightarrow> int \<Rightarrow> credential_row" where
  "stored_row cx c now = \<lparr>c_id = cf_id c, c_token_hash = sha256 cx (cf_token c), c_role = cf_role c,
     c_subject = cf_subject c, c_agent_side = cf_agent_side c, c_agent_client = cf_agent_client c,
     c_workspaces = cf_workspaces c, c_created_at = now, c_revoked_at = None\<rparr>"

lemma insert_credential_effect:
  assumes "insert_credential cx clock c d = Inr d'"
  shows "d' = d\<lparr>credentials := credentials d @ [stored_row cx c clock]\<rparr>" "cf_version c = 1"
    "cf_id c \<notin> c_id ` set (credentials d)" "sha256 cx (cf_token c) \<notin> c_token_hash ` set (credentials d)"
proof -
  from assms have ins: "insert_credential_row (stored_row cx c clock) d = Inr d'" and "cf_version c = 1"
    by (auto simp: insert_credential_def insert_credential_connection_def result_simps stored_row_def
      token_hash_def credential_validate_def CREDENTIAL_VERSION_def)
  with insert_credential_row_effect [OF ins]
  show "d' = d\<lparr>credentials := credentials d @ [stored_row cx c clock]\<rparr>" "cf_version c = 1"
    "cf_id c \<notin> c_id ` set (credentials d)" "sha256 cx (cf_token c) \<notin> c_token_hash ` set (credentials d)"
    by (simp_all add: stored_row_def)
qed

lemma insert_credential_taken:
  assumes "\<exists>r\<in>set (credentials d). c_id r = cf_id c \<or> c_token_hash r = sha256 cx (cf_token c)"
  shows "isl (insert_credential cx clock c d)"
  using insert_credential_effect(3,4) [of cx clock c d] assms
  by (cases "insert_credential cx clock c d") (auto simp: image_iff)

lemma find_key_last: "key \<notin> k ` set rows \<Longrightarrow> k x = key \<Longrightarrow> find (\<lambda>r. k r = key) (rows @ [x]) = Some x"
  by (induction rows) auto

lemma find_key_skip: "k x \<noteq> key \<Longrightarrow> find (\<lambda>r. k r = key) (rows @ [x]) = find (\<lambda>r. k r = key) rows"
  by (induction rows) auto

text \<open>Revoking a credential that was stored last.\<close>

lemma revoke_stored:
  assumes "credentials d = rows @ [x]" and "c_id x \<notin> c_id ` set rows" and "c_revoked_at x = None"
    and "revoke_credential now (c_id x) d = Inr (d2, changed)"
  shows "changed \<longleftrightarrow> \<not> (c_role x = RoleOperator \<and> c_subject x = ''admin'')"
    "credentials d2 = rows @ [if changed then x\<lparr>c_revoked_at := Some now\<rparr> else x]"
proof -
  let ?P = "\<lambda>r. c_id r = c_id x \<and> c_revoked_at r = None \<and> \<not> (c_role r = RoleOperator \<and> c_subject r = ''admin'')"
  have none: "\<not> ?P r" if "r \<in> set rows" for r using that assms(2) by (metis image_eqI)
  have rows: "update_where ?P f rows = rows" for f by (rule update_where_none) (use none in blast)
  have "count_where ?P rows = 0" using none by (simp add: count_where_def)
  with rows assms(1,3,4)
  show "changed \<longleftrightarrow> \<not> (c_role x = RoleOperator \<and> c_subject x = ''admin'')"
    "credentials d2 = rows @ [if changed then x\<lparr>c_revoked_at := Some now\<rparr> else x]"
    by (auto simp: revoke_credential_def update_credentials_def result_simps update_where_def count_where_def
        split: if_splits)
qed

text \<open>C10. Round trip of a credential: once a credential file is inserted, looking it up by the hash of its
  token or by its id gives its claims, the hash and the time, not revoked; every other token hash and
  id is looked up as before, and another file with its id or its token is refused. A revocation that
  runs is answered with yes unless the credential is the administrator's, and afterwards both look-ups
  give the same credential, revoked at that time if the answer was yes.\<close>

theorem credential_round_trip:
  assumes "insert_credential cx clock c d = Inr d'"
  shows "let stored = \<lparr>sc_claims = public_claims_of c, sc_token_hash = sha256 cx (cf_token c),
        sc_created_at = clock, sc_revoked_at = None\<rparr> in
      credential_by_hash d' (sha256 cx (cf_token c)) = Some stored \<and>
      credential_by_id d' (cf_id c) = Some stored \<and>
      (\<forall>h. h \<noteq> sha256 cx (cf_token c) \<longrightarrow> credential_by_hash d' h = credential_by_hash d h) \<and>
      (\<forall>i. i \<noteq> cf_id c \<longrightarrow> credential_by_id d' i = credential_by_id d i) \<and>
      (\<forall>c2 clock2. cf_id c2 = cf_id c \<or> cf_token c2 = cf_token c \<longrightarrow>
        isl (insert_credential cx clock2 c2 d')) \<and>
      (\<forall>now d2 changed. revoke_credential now (cf_id c) d' = Inr (d2, changed) \<longrightarrow>
        (changed \<longleftrightarrow> \<not> (cf_role c = RoleOperator \<and> cf_subject c = ''admin'')) \<and>
        (let shown = (if changed then stored\<lparr>sc_revoked_at := Some now\<rparr> else stored) in
          credential_by_hash d2 (sha256 cx (cf_token c)) = Some shown \<and>
          credential_by_id d2 (cf_id c) = Some shown))"
proof -
  define x where "x = stored_row cx c clock"
  note eff = insert_credential_effect [OF assms, folded x_def]
  have x: "c_id x = cf_id c" "c_token_hash x = sha256 cx (cf_token c)" "c_revoked_at x = None"
    "c_role x = cf_role c" "c_subject x = cf_subject c" by (simp_all add: x_def stored_row_def)
  have shown: "credential_from_row x = \<lparr>sc_claims = public_claims_of c, sc_token_hash = sha256 cx (cf_token c),
      sc_created_at = clock, sc_revoked_at = None\<rparr>"
    by (simp add: x_def stored_row_def credential_from_row_def public_claims_of_def eff(2))
  have found: "find (\<lambda>r. c_id r = cf_id c) (credentials d @ [y]) = Some y"
      "find (\<lambda>r. c_token_hash r = sha256 cx (cf_token c)) (credentials d @ [y]) = Some y"
    if "c_id y = cf_id c" "c_token_hash y = sha256 cx (cf_token c)" for y
    by (rule find_key_last [OF eff(3) that(1)], rule find_key_last [OF eff(4) that(2)])
  have rev: "(changed \<longleftrightarrow> \<not> (cf_role c = RoleOperator \<and> cf_subject c = ''admin'')) \<and>
      credentials d2 = credentials d @ [if changed then x\<lparr>c_revoked_at := Some now\<rparr> else x]"
    if "revoke_credential now (cf_id c) d' = Inr (d2, changed)" for now d2 changed
    using revoke_stored [of d' "credentials d" x now d2 changed] that x eff(1,3) by simp
  show ?thesis
    unfolding Let_def shown [symmetric]
  proof (intro conjI allI impI)
    fix now d2 changed
    assume "revoke_credential now (cf_id c) d' = Inr (d2, changed)"
    from rev [OF this] show "changed \<longleftrightarrow> \<not> (cf_role c = RoleOperator \<and> cf_subject c = ''admin'')"
      "credential_by_hash d2 (sha256 cx (cf_token c)) =
        Some (if changed then (credential_from_row x)\<lparr>sc_revoked_at := Some now\<rparr> else credential_from_row x)"
      "credential_by_id d2 (cf_id c) =
        Some (if changed then (credential_from_row x)\<lparr>sc_revoked_at := Some now\<rparr> else credential_from_row x)"
      using x by (auto simp: credential_by_hash_def credential_by_id_def found credential_from_row_def)
  next
    fix c2 :: credential_file and clock2
    assume "cf_id c2 = cf_id c \<or> cf_token c2 = cf_token c"
    then show "isl (insert_credential cx clock2 c2 d')"
      by (intro insert_credential_taken) (use eff(1) x in auto)
  qed (use x in \<open>simp_all add: eff(1) credential_by_hash_def credential_by_id_def found find_key_skip\<close>)
qed

definition cred0 :: credential_file where
  "cred0 = \<lparr>cf_version = 1, cf_id = 51, cf_token = replicate 32 CHR ''c'' @ replicate 11 CHR ''A'',
     cf_role = RoleOperator, cf_subject = ''o'', cf_agent_side = None, cf_agent_client = None,
     cf_workspaces = [ws0]\<rparr>"

lemma insert_runs: "\<not> isl (insert_credential codec0 300 cred0 db0)"
  by (simp add: cred0_def insert_credential_def enroll_simps scenario check_simps statement_simps)

theorem credential_round_trip_witness:
  "let d = projr (insert_credential codec0 300 cred0 db0) in
   credential_by_id d 51 = Some \<lparr>sc_claims = public_claims_of cred0, sc_token_hash = of_char (CHR ''c''),
     sc_created_at = 300, sc_revoked_at = None\<rparr> \<and>
   credential_by_id d 11 = credential_by_id db0 11 \<and>
   isl (insert_credential codec0 400 (cred0\<lparr>cf_id := 52\<rparr>) d)"
proof -
  have run: "insert_credential codec0 300 cred0 db0 = Inr (projr (insert_credential codec0 300 cred0 db0))"
    using insert_runs by (cases "insert_credential codec0 300 cred0 db0") simp_all
  have "cf_id cred0 = 51" "sha256 codec0 (cf_token cred0) = of_char (CHR ''c'')"
    "cf_token (cred0\<lparr>cf_id := 52\<rparr>) = cf_token cred0"
    by (simp_all add: cred0_def codec0_def)
  with credential_round_trip [OF run] show ?thesis by (simp add: Let_def)
qed

text \<open>Revoking a credential marks exactly the active credential with that id, never the
  administrator's; the answer says whether there was one, and revoking again answers no and changes
  nothing.\<close>

theorem revoke_spares_admin:
  assumes inv: "creds_ok d" and run: "revoke_credential clock i d = Inr (d', changed)"
  shows "(\<forall>r\<in>set (credentials d). c_role r = RoleOperator \<and> c_subject r = ''admin'' \<longrightarrow> r \<in> set (credentials d')) \<and>
    (changed \<longleftrightarrow> (\<exists>r\<in>set (credentials d). c_id r = i \<and> c_revoked_at r = None \<and>
       \<not> (c_role r = RoleOperator \<and> c_subject r = ''admin''))) \<and>
    revoke_credential clock i d' = Inr (d', False)"
proof -
  define P :: "credential_row \<Rightarrow> bool" where
    "P r \<longleftrightarrow> c_id r = i \<and> c_revoked_at r = None \<and> \<not> (c_role r = RoleOperator \<and> c_subject r = ''admin'')" for r
  let ?f = "\<lambda>r. r\<lparr>c_revoked_at := Some clock\<rparr>"
  have rev: "revoke_credential clock i x =
      bindR (now_millis clock) (\<lambda>now. bindR (map_err SSqlite (update_credentials P
        (\<lambda>r. r\<lparr>c_revoked_at := Some now\<rparr>) x)) (\<lambda>(d1, changed). Inr (d1, changed = 1)))" for x
    by (simp add: revoke_credential_def P_def [abs_def])
  from run have d': "d' = d\<lparr>credentials := update_where P ?f (credentials d)\<rparr>"
    and ch: "changed = (count_where P (credentials d) = 1)" and clk: "now_millis clock = Inr clock"
    by (auto simp: rev update_credentials_def result_simps split: if_splits)
  have none: "\<not> P r" if "r \<in> set (credentials d')" for r
  proof -
    from that have "r \<in> set (update_where P ?f (credentials d))" by (simp add: d')
    then show ?thesis by (rule update_whereE) (simp add: P_def)
  qed
  have one: "count_where P (credentials d) = 1" if "r \<in> set (credentials d)" "P r" for r
    by (rule count_where_key_one [where k = c_id and r = r]) (use inv that in \<open>auto simp: creds_ok_def P_def\<close>)
  have "count_where P (credentials d) = 0" if "\<forall>r\<in>set (credentials d). \<not> P r"
    using that by (simp add: count_where_def)
  then have "changed \<longleftrightarrow> (\<exists>r\<in>set (credentials d). P r)" unfolding ch using one by force
  moreover have "revoke_credential clock i d' = Inr (d', False)"
    using none clk by (simp add: rev now_millis_def update_credentials_def update_where_none count_where_def)
  moreover have "r \<in> set (credentials d')"
    if "r \<in> set (credentials d)" "c_role r = RoleOperator \<and> c_subject r = ''admin''" for r
    using that by (simp add: d' P_def set_update_where)
  ultimately show ?thesis unfolding P_def by blast
qed

theorem revoke_spares_admin_witness:
  "revoke_credential 900 11 (fst (projr (revoke_credential 900 11 db0))) =
     Inr (fst (projr (revoke_credential 900 11 db0)), False)"
proof -
  have "\<not> isl (revoke_credential 900 11 db0)"
    by (simp add: revoke_credential_def update_credentials_def scenario check_simps statement_simps)
  from revoke_spares_admin [OF store_invD(6) [OF store_inv_db0] ran [OF this]] show ?thesis by blast
qed

section \<open>Stored text\<close>

text \<open>Every enumeration the store keeps as text is read back as it was written: task states,
  attempt states, stop evidence, pause reasons, report kinds, providers, event kinds, agent sides and
  clients, roles and error codes; and no two error codes share a name.\<close>

theorem stored_text_round_trips:
  "parse_task_state (state_as_str st) = Some st \<and> parse_attempt_status (attempt_status_as_str status) = Some status \<and>
   parse_stop_evidence (stop_evidence_as_str ev) = Some ev \<and> parse_pause_reason (pause_reason_as_str r) = Some r \<and>
   parse_report_kind (report_kind_as_str k) = Some k \<and> parse_external_provider (provider_as_str p) = Some p \<and>
   parse_event_kind (event_kind_str ek) = Some ek \<and> parse_agent_side (agent_side_str side) = Inr side \<and>
   parse_agent_client (agent_client_str cl) = Inr cl \<and> parse_role (role_as_str role) = Some role \<and>
   parse_error_code (error_as_str code) = Some code \<and> (error_as_str code = error_as_str code' \<longleftrightarrow> code = code')"
  by (auto dest: error_as_str_inject)

end
