(* ===== verification/External_Runs.thy ===== *)
theory External_Runs
  imports Store_Machine
begin

text \<open>
  What the life of an external operation looks like along a run of the store: its row stays, moves
  forward, and once it is dispatched or settled the calls that would do so again are refused.
\<close>

section \<open>The row of an operation along a run\<close>

definition row_in :: "db \<Rightarrow> workspace_name \<Rightarrow> uuid \<Rightarrow> external_operation_row \<Rightarrow> bool" where
  "row_in d ws op x \<longleftrightarrow> x \<in> set (external_operations d) \<and> x_key x = (ws, op)"

lemma full_inv_operations: "full_inv d \<Longrightarrow> distinct (map x_key (external_operations d))"
  by (simp add: full_inv_def ext_inv_def operations_ok_def)

lemma full_inv_sound_db: "full_inv d \<Longrightarrow> sound d"
  by (simp add: full_inv_def sound_def)

lemma row_in_unique: "full_inv d \<Longrightarrow> row_in d ws op x \<Longrightarrow> row_in d ws op y \<Longrightarrow> y = x"
  using distinct_key_eq [OF full_inv_operations] unfolding row_in_def by metis

lemma row_in_find: "full_inv d \<Longrightarrow> row_in d ws op x \<longleftrightarrow> find_operation d ws op = Some x"
  using find_key_distinct [OF full_inv_operations]
  unfolding row_in_def find_operation_def by (metis find_key_SomeD)

lemma row_in_run:
  assumes "full_inv d" and "store_step\<^sup>*\<^sup>* d d'" and "row_in d ws op x"
  shows "\<exists>y. row_in d' ws op y \<and> op_le x y"
proof -
  from operations.run_ext [OF assms(2,1)] assms(3)
  obtain y where "y \<in> set (external_operations d')" "op_le x y" by (auto simp: ops_grow_def row_in_def)
  with assms(3) show ?thesis by (auto simp: row_in_def op_le_def same_operation_def)
qed

text \<open>A statement whose condition the only row of the operation does not meet changes nothing.\<close>

lemma no_row_meets:
  assumes "full_inv d" and "row_in d ws op x" and "\<not> P x"
  shows "count_where (\<lambda>y. x_key y = (ws, op) \<and> P y) (external_operations d) = 0"
  using row_in_unique [OF assms(1,2)] assms(3) by (auto simp: count_where_def filter_empty_conv row_in_def)

lemma one_row_meets:
  assumes "count_where (\<lambda>y. x_key y = (ws, op) \<and> P y) (external_operations d) = 1"
  shows "\<exists>x. row_in d ws op x \<and> P x"
  using assms by (auto simp: count_where_def length_Suc_conv filter_eq_Cons_iff row_in_def)

section \<open>Dispatching\<close>

lemma dispatched_row:
  assumes "mark_external_dispatched v p d = Inr (d', e)"
  shows "\<exists>x. row_in d (po_workspace p) (eo_id (po_summary p)) x \<and> stage x = 0 \<and>
     row_in d' (po_workspace p) (eo_id (po_summary p)) (x\<lparr>x_phase := Dispatched, x_updated_at := xv_clock v\<rparr>)"
proof -
  let ?P = "\<lambda>x. x_key x = (po_workspace p, eo_id (po_summary p)) \<and> x_phase x = Prepared \<and> x_status x = OpRunning"
  from mark_dispatched_effect [OF assms] obtain d1 i where
    d1: "d1 = d\<lparr>external_operations := update_where ?P
       (\<lambda>x. x\<lparr>x_phase := Dispatched, x_updated_at := xv_clock v\<rparr>) (external_operations d)\<rparr>"
    and c: "count_where ?P (external_operations d) = 1"
    and app: "append_event_in_transaction (xv_event_clock v) i d1 = Inr (d', e)" by blast
  from one_row_meets [OF c] obtain x where x: "row_in d (po_workspace p) (eo_id (po_summary p)) x"
    "x_phase x = Prepared" "x_status x = OpRunning" by blast
  then have "x\<lparr>x_phase := Dispatched, x_updated_at := xv_clock v\<rparr> \<in> set (external_operations d1)"
    by (auto simp: d1 set_update_where row_in_def)
  with x append_event_fields(8) [OF app] show ?thesis
    by (intro exI [of _ x]) (simp add: row_in_def stage_def x_key_def)
qed

lemma dispatch_refused:
  assumes "full_inv d" and "row_in d (po_workspace p) (eo_id (po_summary p)) x" and "stage x > 0"
    and "0 \<le> xv_clock v" and "xv_clock v \<le> I64_MAX"
  shows "mark_external_dispatched v p d = Inl ExternalConflict"
proof -
  from assms(3) have "\<not> (x_phase x = Prepared \<and> x_status x = OpRunning)" by (auto simp: stage_def)
  from no_row_meets [OF assms(1,2), of "\<lambda>x. x_phase x = Prepared \<and> x_status x = OpRunning"] this assms(4,5) show ?thesis
    by (simp add: mark_external_dispatched_def update_external_operations_def storeR_def now_millis_def
        sqlR_def)
qed

section \<open>Completing\<close>

text \<open>The four ways in which the router records what a worker brought back.\<close>

inductive completes :: "prepared_operation \<Rightarrow> db \<Rightarrow> db \<Rightarrow> bool" where
  by_read: "complete_external_read v p issue d = Inr (d', c) \<Longrightarrow> completes p d d'"
| by_mutation: "complete_external_mutation v p m d = Inr (d', c) \<Longrightarrow> completes p d d'"
| by_error: "complete_external_error v p e d = Inr (d', c) \<Longrightarrow> completes p d d'"
| by_denial: "terminal_external_error v p OpFailed code d = Inr (d', c) \<Longrightarrow> completes p d d'"

inductive_cases completesE: "completes p d d'"

text \<open>Every completion ends by settling the row; before that it touches other tables only.\<close>

inductive settled_via :: "prepared_operation \<Rightarrow> db \<Rightarrow> db \<Rightarrow> bool" where
  settled_viaI: "settle_operation v q status eid url err (xv_clock v) te d1 = Inr (d', c) \<Longrightarrow>
     status \<noteq> OpRunning \<Longrightarrow> external_operations d1 = external_operations d \<Longrightarrow>
     po_workspace q = po_workspace p \<Longrightarrow> eo_id (po_summary q) = eo_id (po_summary p) \<Longrightarrow>
     settled_via p d d'"

lemma import_settles:
  assumes snd: "sound d" and run: "complete_import v p issue d = Inr (d', c)"
  shows "settled_via p d d'"
proof (cases "find_external_link d (eo_provider (po_summary p)) (po_namespace p) (is_external_id issue)")
  case None
  with run obtain d1 t te where n: "import_new_task v p issue (xv_clock v) d = Inr (d1, t, te)"
    and s: "settle_operation v (p\<lparr>po_summary := (po_summary p)\<lparr>eo_task_id := Some t\<rparr>\<rparr>) OpSucceeded
      (Some (is_external_id issue)) (Some (is_url issue)) None (xv_clock v) te d1 = Inr (d', c)"
    by (auto simp: complete_import_def result_simps Let_def)
  show ?thesis by (rule settled_viaI [OF s]) (use import_new_task_sound [OF snd n] in simp_all)
next
  case (Some l)
  with run show ?thesis
    by (auto simp: complete_import_def terminal_semantic_conflict_def result_simps Let_def split: if_splits
        intro: settled_viaI)
qed

lemma link_settles:
  assumes snd: "sound d" and run: "complete_link v p issue d = Inr (d', c)"
  shows "settled_via p d d'"
proof -
  from run consider code where "terminal_semantic_conflict v p code (xv_clock v) d = Inr (d', c)"
    | te where "settle_operation v p OpSucceeded (Some (is_external_id issue)) (Some (is_url issue))
        None (xv_clock v) te d = Inr (d', c)"
    | t d1 te where "write_link v p t issue (xv_clock v) d = Inr (d1, te)"
      "settle_operation v p OpSucceeded (Some (is_external_id issue)) (Some (is_url issue))
        None (xv_clock v) te d1 = Inr (d', c)"
    by (auto simp: complete_link_def result_simps Let_def split: option.splits operation_payload.splits if_splits)
  then show ?thesis
  proof cases
    case (1 code)
    then show ?thesis by (auto simp: terminal_semantic_conflict_def intro: settled_viaI)
  next
    case (2 te)
    then show ?thesis by (auto intro: settled_viaI)
  next
    case (3 t d1 te)
    show ?thesis by (rule settled_viaI [OF 3(2)]) (use write_link_sound [OF snd 3(1)] in simp_all)
  qed
qed

lemma mutation_settles:
  assumes snd: "sound d" and run: "complete_external_mutation v p m d = Inr (d', c)"
  shows "settled_via p d d'"
proof -
  from run obtain te d1 where
    s: "settle_operation v p OpSucceeded (Some (mu_external_id m)) (Some (mu_url m)) None (xv_clock v) te d1 = Inr (d', c)"
    and w: "d1 = d \<or> (\<exists>t l d2 d3 n e. insert_link l d = Inr d2 \<and>
       touch_task (po_workspace p) t (po_actor_id p) (xv_clock v) d2 = Inr (d3, n) \<and>
       append_external_task_event (xv_task_clock v) (po_workspace p) (po_actor_id p) t (eo_id (po_summary p)) d3 =
         Inr (d1, e))"
    by (fastforce simp: complete_external_mutation_def result_simps split: option.splits operation_payload.splits)
  from w have "external_operations d1 = external_operations d"
  proof (elim disjE exE conjE)
    fix t l d2 d3 n e assume a: "insert_link l d = Inr d2"
      "touch_task (po_workspace p) t (po_actor_id p) (xv_clock v) d2 = Inr (d3, n)"
      "append_external_task_event (xv_task_clock v) (po_workspace p) (po_actor_id p) t (eo_id (po_summary p)) d3 =
         Inr (d1, e)"
    from insert_link_sound [OF snd a(1)] touch_task_sound [OF _ a(2)] append_task_event_sound [OF _ a(3)]
    show ?thesis by simp
  qed simp
  with s show ?thesis by (auto intro: settled_viaI)
qed

lemma completes_settles:
  assumes "sound d" and "completes p d d'"
  shows "settled_via p d d'"
  using assms(2)
proof cases
  case (by_read v issue c)
  then consider "complete_import v p issue d = Inr (d', c)" | "complete_link v p issue d = Inr (d', c)"
    by (auto simp: complete_external_read_def split: option.splits operation_payload.splits)
  then show ?thesis using import_settles [OF assms(1)] link_settles [OF assms(1)] by cases
next
  case (by_mutation v m c)
  from mutation_settles [OF assms(1) this] show ?thesis .
next
  case (by_error v e c)
  then show ?thesis
    by (cases e) (auto simp: complete_external_error_def terminal_external_error_def result_simps intro: settled_viaI)
next
  case (by_denial v code c)
  then show ?thesis by (auto simp: terminal_external_error_def result_simps intro: settled_viaI)
qed

lemma completes_row:
  assumes "sound d" and "completes p d d'"
  shows "\<exists>x y. row_in d (po_workspace p) (eo_id (po_summary p)) x \<and> x_status x = OpRunning \<and>
     row_in d' (po_workspace p) (eo_id (po_summary p)) y \<and> stage y \<ge> 2"
proof -
  from completes_settles [OF assms] obtain v q status eid url err te d1 c where
    s: "settle_operation v q status eid url err (xv_clock v) te d1 = Inr (d', c)"
    and st: "status \<noteq> OpRunning" and same: "external_operations d1 = external_operations d"
    and q: "po_workspace q = po_workspace p" "eo_id (po_summary q) = eo_id (po_summary p)"
    by (rule settled_via.cases) blast
  let ?P = "\<lambda>x. x_key x = (po_workspace q, eo_id (po_summary q)) \<and> x_status x = OpRunning"
  let ?f = "\<lambda>x. x\<lparr>x_task_id := eo_task_id (po_summary q), x_phase := Terminal, x_status := status,
              x_external_id := eid, x_url := url, x_error := err, x_updated_at := xv_clock v\<rparr>"
  from settle_effect [OF s] obtain d2 i where
    d2: "d2 = d1\<lparr>external_operations := update_where ?P ?f (external_operations d1)\<rparr>"
    and n: "count_where ?P (external_operations d1) = 1"
    and app: "append_event_in_transaction (xv_event_clock v) i d2 = Inr (d', xo_event c)" by blast
  from one_row_meets [OF n] obtain x where x: "row_in d1 (po_workspace q) (eo_id (po_summary q)) x"
    "x_status x = OpRunning" by blast
  then have "row_in d' (po_workspace p) (eo_id (po_summary p)) (?f x)"
    using append_event_fields(8) [OF app] by (auto simp: d2 set_update_where row_in_def q x_key_def)
  moreover have "stage (?f x) \<ge> 2" using st by (cases status) (simp_all add: stage_def)
  moreover have "row_in d (po_workspace p) (eo_id (po_summary p)) x" using x(1) same q by (simp add: row_in_def)
  ultimately show ?thesis using x(2) by blast
qed

section \<open>Preparing again\<close>

lemma replay_row:
  assumes "full_inv d" and "row_in d (cc_workspace caller) (xc_operation_id c) x"
  shows "replay_external_operation cx d caller c =
     (if x_actor_id x \<noteq> cc_actor_id caller \<or> x_request_hash x \<noteq> command_hash cx c
      then Inl RequestConflict else Inr (Some (operation_summary x)))"
  using assms
  by (simp add: replay_external_operation_def operation_receipt_def row_in_find load_operation_summary_def)

lemma prepare_row:
  assumes "full_inv d" and "prepare_external_operation v caller active c d = Inr (d', p)"
  shows "\<exists>x. row_in d' (cc_workspace caller) (xc_operation_id c) x \<and> x_actor_id x = cc_actor_id caller \<and>
     x_request_hash x = command_hash (xv_codec v) c"
proof (cases "find_operation d (cc_workspace caller) (xc_operation_id c)")
  case (Some x)
  with assms(1) have row: "row_in d (cc_workspace caller) (xc_operation_id c) x" by (simp add: row_in_find)
  from replay_row [OF assms(1) row, of "xv_codec v"] assms(2) row show ?thesis
    by (auto simp: prepare_external_operation_def result_simps split: if_splits)
next
  case None
  then have "replay_external_operation (xv_codec v) d caller c = Inr None"
    by (simp add: replay_external_operation_def operation_receipt_def)
  with assms(2) obtain k tid sv payload where "insert_prepared v caller active c (k, tid, sv, payload) d = Inr (d', p)"
    by (auto simp: prepare_external_operation_def result_simps)
  from insert_prepared_effect [OF this] obtain x d1 i e where
    x: "x = new_operation_row caller (ic_namespace (xv_codec v) (ai_connection active))
       (command_hash (xv_codec v) c) payload
       (new_summary (xc_operation_id c) (xc_provider c) k tid sv (xv_clock v))"
    and op: "insert_operation (xc_payload_len (xv_codec v)) x d = Inr d1"
    and app: "append_event_in_transaction (xv_event_clock v) i d1 = Inr (d', e)" by blast
  have "row_in d' (cc_workspace caller) (xc_operation_id c) x"
    using append_event_fields(8) [OF app] insert_operation_effect(1) [OF op]
    by (simp add: row_in_def x new_operation_row_def new_summary_def x_key_def)
  then show ?thesis by (auto simp: x new_operation_row_def)
qed

section \<open>Resolving again\<close>

lemma completed_start:
  assumes "prepare_external_resolution v caller active op rid outcome eid note d = Inr (d', ResolutionCompleted c)"
  shows "require_credential True d (cc_credential_id caller) (cc_workspace caller) = Inr ()"
    "\<exists>x. find_operation d (cc_workspace caller) op = Some x \<and> x_status x = OpUnconfirmed \<and> is_publish (x_kind x) \<and>
       start_resolution v caller active x rid outcome eid note
         (resolution_hash (xv_codec v) rid outcome eid note) d = Inr (d', ResolutionCompleted c)"
  using assms
  by (auto simp: prepare_external_resolution_def result_simps Let_def split: option.splits)

lemma not_applied_row:
  assumes inv: "full_inv d"
    and run: "prepare_external_resolution v caller active op rid outcome eid note d = Inr (d', ResolutionCompleted c)"
  shows "\<exists>x. row_in d (cc_workspace caller) op x \<and> x_status x = OpUnconfirmed \<and> is_publish (x_kind x) \<and>
       row_in d' (cc_workspace caller) op
         (x\<lparr>x_status := OpFailed, x_error := Some (external_error_as_str OperatorConfirmedNotApplied),
            x_updated_at := xv_clock v\<rparr>)"
    "find_resolution d' (cc_workspace caller) op =
       Some \<lparr>v_workspace = cc_workspace caller, v_request_hash = resolution_hash (xv_codec v) rid outcome eid note,
             v_resolution = vc_resolution c\<rparr>"
    "outcome = NotApplied \<and> eid = None \<and> er_id (vc_resolution c) = rid \<and>
     er_outcome (vc_resolution c) = NotApplied \<and> er_actor_id (vc_resolution c) = cc_actor_id caller"
proof -
  let ?hash = "resolution_hash (xv_codec v) rid outcome eid note"
  from completed_start(2) [OF run] obtain x where
    x: "find_operation d (cc_workspace caller) op = Some x" "x_status x = OpUnconfirmed" "is_publish (x_kind x)"
    and st: "start_resolution v caller active x rid outcome eid note ?hash d = Inr (d', ResolutionCompleted c)"
    by blast
  note id = find_operation_id [OF x(1)]
  let ?f = "\<lambda>x. x\<lparr>x_status := OpFailed, x_error := Some (external_error_as_str OperatorConfirmedNotApplied),
      x_updated_at := xv_clock v\<rparr>"
  from st have na: "complete_not_applied_resolution v caller (operation_summary x) rid note ?hash d = Inr (d', c)"
    and o: "outcome = NotApplied \<and> eid = None"
    by (cases outcome; auto simp: start_resolution_def result_simps)+
  from na id obtain d1 d2 i where
    ins: "insert_resolution (cc_workspace caller) ?hash (vc_resolution c) d = Inr d1"
    and res: "resolve_row (cc_workspace caller) op ?f d1 = Inr d2"
    and app: "append_event_in_transaction (xv_event_clock v) i d2 = Inr (d', vc_event c)"
    and c: "er_id (vc_resolution c) = rid" "er_outcome (vc_resolution c) = NotApplied"
      "er_actor_id (vc_resolution c) = cc_actor_id caller" "er_operation_id (vc_resolution c) = op"
    by (auto simp: complete_not_applied_resolution_def append_resolution_event_def result_simps Let_def)
  note ie = insert_resolution_effect [OF ins] and re = resolve_row_effect [OF res]
  from x(1) inv have row: "row_in d (cc_workspace caller) op x" by (simp add: row_in_find)
  with x(2) have "row_in d' (cc_workspace caller) op (?f x)"
    using append_event_fields(8) [OF app] by (auto simp: re(1) ie(1) set_update_where row_in_def)
  with row x show "\<exists>x. row_in d (cc_workspace caller) op x \<and> x_status x = OpUnconfirmed \<and> is_publish (x_kind x) \<and>
       row_in d' (cc_workspace caller) op (?f x)" by blast
  have "find (\<lambda>w. v_operation w = (cc_workspace caller, op)) (resolutions d) = None"
    using ie(3) c(4) by (force simp: find_None_iff)
  then show "find_resolution d' (cc_workspace caller) op =
       Some \<lparr>v_workspace = cc_workspace caller, v_request_hash = ?hash, v_resolution = vc_resolution c\<rparr>"
    using append_event_fields(13) [OF app] c(4)
    by (simp add: find_resolution_def re(1) ie(1) find_append v_operation_def)
  show "outcome = NotApplied \<and> eid = None \<and> er_id (vc_resolution c) = rid \<and>
     er_outcome (vc_resolution c) = NotApplied \<and> er_actor_id (vc_resolution c) = cc_actor_id caller"
    using o c by simp
qed

lemma settled_not_resolved_again:
  assumes "full_inv d" and "row_in d (cc_workspace caller) op x" and "x_status x \<noteq> OpUnconfirmed"
    and "prepare_external_resolution v caller active op rid outcome eid note d = Inr (d', prep)"
  shows "d' = d \<and> (\<exists>s r. prep = ReplayResolution s r)"
  using assms
  by (auto simp: prepare_external_resolution_def result_simps Let_def row_in_find split: option.splits)

end
