(* ===== verification/External_Scenario.thy ===== *)
theory External_Scenario
  imports External_Runs Scenario
begin

text \<open>
  Concrete stores for the witnesses about external operations: the workspace of \<open>db0\<close> with a GitHub
  binding and an operation that publishes the task as an issue, prepared (\<open>dbP\<close>), dispatched (\<open>dbD\<close>),
  unconfirmed (\<open>dbU\<close>); an operator may resolve it.
\<close>

definition codecX :: xcodec where
  "codecX = \<lparr>xc_parse_uuid = (\<lambda>_. Some 9), xc_show_uuid = (\<lambda>_. ''u''), xc_sha256 = (\<lambda>s. of_nat (length s)),
     xc_read_file = (\<lambda>_. FileMissing), xc_parse_config = (\<lambda>_. None), xc_command_json = (\<lambda>_. ''c''),
     xc_resolution_json = (\<lambda>r. rq_note r), xc_report_json = (\<lambda>_. ''r''), xc_payload_len = (\<lambda>_. 100)\<rparr>"

definition envX :: xenv where
  "envX = \<lparr>xv_codec = codecX, xv_clock = 1000, xv_event_clock = 1001, xv_task_clock = 1002,
     xv_instant = 5, xv_creation_id = 701, xv_note_id = 702, xv_body_len = (\<lambda>_. 100)\<rparr>"

definition connectionX :: integration_connection where
  "connectionX = \<lparr>ic_workspace = ws0, ic_access = AccessWrite,
     ic_target = TargetGithub \<lparr>gr_owner = ''o'', gr_name = ''n'', gr_namespace = ''o/n''\<rparr>, ic_token = ''k''\<rparr>"

definition activeX :: active_integration where
  "activeX = \<lparr>ai_connection = connectionX, ai_revision = 1\<rparr>"

definition bindingX :: binding_row where
  "bindingX = \<lparr>b_workspace = ws0, b_provider = Github, b_target = ''o/n'', b_access = AccessWrite,
     b_enabled = True, b_config_hash = config_hash codecX connectionX, b_revision = 1, b_updated_at = 5\<rparr>"

definition operatorX :: credential_row where
  "operatorX = \<lparr>c_id = 12, c_token_hash = 102, c_role = RoleOperator, c_subject = ''p'',
     c_agent_side = None, c_agent_client = None, c_workspaces = [ws0], c_created_at = 5, c_revoked_at = None\<rparr>"

definition callerX :: caller_context where
  "callerX = \<lparr>cc_actor_id = ''p'', cc_role = Operator, cc_workspace = ws0, cc_agent_id = None,
     cc_credential_id = 12, cc_session_id = None, cc_connection_generation = 1, cc_reservation = None\<rparr>"

definition importX :: external_command where "importX = XImport 41 Github ''5''"
definition publishX :: external_command where "publishX = XPublish 40 1 2 Github PkIssue None"

definition payloadX :: operation_payload where
  "payloadX = PayPublishIssue 701 ''t'' ''b'' ''m''"

definition summaryX :: external_operation_summary where
  "summaryX = new_summary 40 Github OpPublishIssue (Some 1) (Some 2) 900"

definition operationX :: external_operation_row where
  "operationX = new_operation_row callerX ''o/n'' (command_hash codecX publishX) payloadX summaryX"

definition dbP :: db where
  "dbP = db0\<lparr>credentials := credentials db0 @ [operatorX], external_operations := [operationX],
     bindings := [bindingX]\<rparr>"

definition dbD :: db where
  "dbD = dbP\<lparr>external_operations := [operationX\<lparr>x_phase := Dispatched\<rparr>]\<rparr>"

definition dbU :: db where
  "dbU = dbP\<lparr>external_operations := [operationX\<lparr>x_phase := Terminal, x_status := OpUnconfirmed,
     x_error := Some ''external_unconfirmed''\<rparr>]\<rparr>"

definition preparedX :: prepared_operation where
  "preparedX = \<lparr>po_workspace = ws0, po_actor_id = ''p'', po_namespace = ''o/n'', po_summary = summaryX,
     po_payload = Some payloadX, po_event = None, po_credential_id = 12, po_binding_revision = 1,
     po_deadline = 99\<rparr>"

definition mutationX :: external_mutation where
  "mutationX = \<lparr>mu_external_id = ''17'', mu_url = ''h''\<rparr>"

lemmas external_scenario = codecX_def envX_def connectionX_def activeX_def bindingX_def operatorX_def callerX_def
  importX_def publishX_def payloadX_def summaryX_def operationX_def dbP_def dbD_def dbU_def preparedX_def mutationX_def
  new_summary_def new_operation_row_def command_hash_def config_hash_def config_preimage_def

lemmas external_inv_simps = full_inv_def enroll_inv_def ext_inv_def operations_ok_def operation_ok_def
  links_ok_def resolutions_ok_def task_keys_def x_slot_def holds_slot_def blocking_def x_key_def inv_simps

lemmas external_simps = storeR_def sqlR_def update_external_operations_def load_operation_summary_def
  find_operation_def append_operation_event_def operation_insert_def operation_summary_def
  insert_operation_def operation_receipt_def opt_all_def exists_row_iff

lemma full_inv_dbP: "full_inv dbP"
  by (simp add: external_inv_simps external_scenario scenario check_simps)

lemma full_inv_dbD: "full_inv dbD"
  by (simp add: external_inv_simps external_scenario scenario check_simps)

lemma full_inv_dbU: "full_inv dbU"
  by (simp add: external_inv_simps external_scenario scenario check_simps)

lemma dispatch_runs: "\<not> isl (mark_external_dispatched envX preparedX dbP)"
  by (simp add: mark_external_dispatched_def external_simps external_scenario scenario check_simps statement_simps
      x_key_def)

lemma prepared_again_runs: "\<not> isl (prepare_external_operation envX callerX activeX publishX dbP)"
  by (simp add: prepare_external_operation_def replay_external_operation_def external_simps external_scenario scenario
      check_simps statement_simps x_key_def)

lemma completion_runs: "\<not> isl (complete_external_error envX preparedX (CeUnconfirmed XTimeout) dbD)"
  by (simp add: complete_external_error_def terminal_external_error_def settle_operation_def
      update_terminal_operation_def update_operation_tasks_def external_simps external_scenario scenario
      check_simps statement_simps x_key_def)

lemma resolution_runs:
  "\<exists>d c. prepare_external_resolution envX callerX activeX 40 50 NotApplied None ''n'' dbU =
     Inr (d, ResolutionCompleted c)"
  by (simp add: prepare_external_resolution_def require_credential_def credential_allows_def credential_by_id_def
      credential_from_row_def
      resolution_receipt_def find_resolution_def start_resolution_def complete_not_applied_resolution_def
      insert_resolution_def insert_resolution_row_def resolve_row_def append_resolution_event_def
      is_publish_def ic_provider_def ic_namespace_def target_public_name_def resolution_check_def
      external_simps external_scenario scenario check_simps statement_simps x_key_def v_key_def v_operation_def
      resolution_hash_def)

end
