(* ===== verification/Catalog_Facts.thy ===== *)
theory Catalog_Facts
  imports External_Steps
begin

text \<open>
  What applying a configuration does to the table of bindings, and why the hash of a connection depends
  on every field of it.
\<close>

section \<open>The bytes that are hashed\<close>

lemma length_be_bytes [simp]: "length (be_bytes k n) = k"
  by (induction k arbitrary: n) simp_all

lemma be_bytes_inject:
  "be_bytes k m = be_bytes k n \<Longrightarrow> m < 256 ^ k \<Longrightarrow> n < 256 ^ k \<Longrightarrow> m = n"
proof (induction k arbitrary: m n)
  case (Suc k)
  then have "be_bytes k (m div 256) = be_bytes k (n div 256)" and c: "(char_of (m mod 256) :: char) = char_of (n mod 256)"
    by simp_all
  moreover have "m div 256 < 256 ^ k" "n div 256 < 256 ^ k"
    using Suc.prems by (simp_all add: less_mult_imp_div_less mult.commute)
  ultimately have "m div 256 = n div 256" using Suc.IH by blast
  moreover have "m mod 256 = n mod 256"
    using arg_cong [OF c, of "of_char :: char \<Rightarrow> nat"] by simp
  ultimately show ?case by (metis div_mult_mod_eq)
qed simp

text \<open>A length no field can reach: \<^verbatim>\<open>usize\<close> is 64 bits wide.\<close>

definition usize_field :: "string \<Rightarrow> bool" where
  "usize_field s \<longleftrightarrow> length s < 2 ^ 64"

lemma hash_field_append:
  assumes "hash_field s @ r = hash_field t @ q" and "usize_field s" and "usize_field t"
  shows "s = t \<and> r = q"
proof -
  from assms(1) have b: "be_bytes 8 (length s) = be_bytes 8 (length t)" and r: "s @ r = t @ q"
    by (simp_all add: hash_field_def)
  have "length s = length t" using be_bytes_inject [OF b] assms(2,3) by (simp add: usize_field_def)
  with r show ?thesis by simp
qed

lemma hash_fields_inject:
  assumes "concat (map hash_field ss) = concat (map hash_field ts)" and "length ss = length ts"
    and "\<forall>s\<in>set ss \<union> set ts. usize_field s"
  shows "ss = ts"
  using assms
proof (induction ss arbitrary: ts)
  case (Cons s ss)
  then obtain t us where ts: "ts = t # us" by (cases ts) auto
  with Cons.prems have "hash_field s @ concat (map hash_field ss) = hash_field t @ concat (map hash_field us)"
    "usize_field s" "usize_field t" by simp_all
  from hash_field_append [OF this] Cons.IH [of us] Cons.prems ts show ?case by simp
qed simp

lemma access_as_str_inject: "access_as_str a = access_as_str b \<Longrightarrow> a = b"
  by (cases a; cases b) simp_all

section \<open>What a configuration may not change\<close>

lemma foldR_guards:
  assumes "foldR (\<lambda>b _. f b) bs () = Inr ()" and "b \<in> set bs"
  shows "f b = Inr ()"
  using assms by (induction bs) (auto simp: result_simps)

lemma set_stored [simp]: "set (load_stored_bindings d) = set (bindings d)"
  by (simp add: load_stored_bindings_def)

lemma catalog_checks:
  assumes "apply_catalog cx k cs d = Inr (d', active, evs)" and "b \<in> set (bindings d)" and "b_enabled b"
  shows "check_existing cx cs d b = Inr ()"
proof -
  from assms(1) have "foldR (\<lambda>b _. check_existing cx cs d b) (filter b_enabled (load_stored_bindings d)) () = Inr ()"
    by (auto simp: apply_catalog_def result_simps Let_def)
  from foldR_guards [OF this, of b] assms(2,3) show ?thesis by simp
qed

lemma existing_kept:
  assumes "check_existing cx cs d b = Inr ()"
  shows "binding_has_blocking_operation d b \<Longrightarrow>
      \<exists>c\<in>set cs. ic_key c = b_key b \<and> config_hash cx c = b_config_hash b"
    "binding_has_links d b \<Longrightarrow> \<exists>c\<in>set cs. ic_key c = b_key b \<and> ic_namespace cx c = b_target b"
  using assms
  by (auto simp: check_existing_def Let_def result_simps split: option.splits dest: find_key_SomeD)

section \<open>The bindings afterwards\<close>

text \<open>Each stored binding keeps its row; its revision only grows, and grows when it is enabled with another
  hash than before.\<close>

definition revision_of :: "binding_row \<Rightarrow> binding_row \<Rightarrow> bool" where
  "revision_of b b' \<longleftrightarrow> b_key b' = b_key b \<and> b_revision b \<le> b_revision b' \<and>
     (b_enabled b' \<and> (\<not> b_enabled b \<or> b_config_hash b' \<noteq> b_config_hash b) \<longrightarrow> b_revision b < b_revision b')"

definition revised :: "binding_row list \<Rightarrow> binding_row list \<Rightarrow> bool" where
  "revised stored bs \<longleftrightarrow> (\<forall>b\<in>set stored. \<exists>b'\<in>set bs. revision_of b b')"

definition enabled_keys :: "binding_row list \<Rightarrow> (workspace_name \<times> external_provider) set" where
  "enabled_keys bs = {k. \<exists>b\<in>set bs. b_enabled b \<and> b_key b = k}"

definition connection_row :: "xcodec \<Rightarrow> int \<Rightarrow> binding_row list \<Rightarrow> integration_connection \<Rightarrow> binding_row" where
  "connection_row cx now stored c =
     \<lparr>b_workspace = ic_workspace c, b_provider = ic_provider c, b_target = ic_namespace cx c,
      b_access = ic_access c, b_enabled = True, b_config_hash = config_hash cx c,
      b_revision = binding_revision (find (\<lambda>b. b_key b = ic_key c) stored) (config_hash cx c),
      b_updated_at = now\<rparr>"

lemma connection_row_simps [simp]:
  "b_key (connection_row cx now stored c) = ic_key c" "b_enabled (connection_row cx now stored c)"
  "b_config_hash (connection_row cx now stored c) = config_hash cx c"
  by (simp_all add: connection_row_def b_key_def ic_key_def)

lemma connection_row_revision:
  assumes "distinct (map b_key stored)" and "b \<in> set stored" and "b_key b = ic_key c"
  shows "b_revision b \<le> b_revision (connection_row cx now stored c)"
    "\<not> b_enabled b \<or> config_hash cx c \<noteq> b_config_hash b \<Longrightarrow>
     b_revision b < b_revision (connection_row cx now stored c)"
  using find_key_distinct [OF assms(1,2)] assms(3)
  by (auto simp: connection_row_def binding_revision_def binding_changed_def)

lemma upsert_set:
  assumes "upsert_binding b d = Inr d'"
  shows "set (bindings d') = insert b {x \<in> set (bindings d). b_key x \<noteq> b_key b}"
  using assms by (auto simp: upsert_binding_def set_update_where split: if_splits)

lemma upsert_connection:
  assumes dist: "distinct (map b_key stored)"
    and up: "upsert_binding (connection_row cx now stored c) d = Inr d'"
    and rev: "revised stored (bindings d)"
  shows "revised stored (bindings d')" "enabled_keys (bindings d') = insert (ic_key c) (enabled_keys (bindings d))"
proof -
  note s = upsert_set [OF up]
  show "enabled_keys (bindings d') = insert (ic_key c) (enabled_keys (bindings d))"
    unfolding enabled_keys_def s by (auto; metis connection_row_simps(1,2))
  show "revised stored (bindings d')"
    unfolding revised_def
  proof
    fix b assume b: "b \<in> set stored"
    show "\<exists>b'\<in>set (bindings d'). revision_of b b'"
    proof (cases "b_key b = ic_key c")
      case True
      with connection_row_revision [OF dist b True] show ?thesis
        by (intro bexI [of _ "connection_row cx now stored c"]) (auto simp: s revision_of_def)
    next
      case False
      from rev b obtain b' where b': "b' \<in> set (bindings d)" "revision_of b b'" unfolding revised_def by blast
      with False show ?thesis by (intro bexI [of _ b']) (simp_all add: s revision_of_def)
    qed
  qed
qed

definition catalog_state ::
  "binding_row list \<Rightarrow> (workspace_name \<times> external_provider) set \<Rightarrow> apply_state \<Rightarrow> bool" where
  "catalog_state stored keys s \<longleftrightarrow> (case s of (d, active, evs) \<Rightarrow>
     revised stored (bindings d) \<and> enabled_keys (bindings d) = keys \<and> fst ` set active = keys)"

lemma apply_connection_state:
  assumes "distinct (map b_key stored)" and "catalog_state stored keys s"
    and "apply_connection cx now stored clock c s = Inr s'"
  shows "catalog_state stored (insert (ic_key c) keys) s'"
proof -
  obtain d active evs where s: "s = (d, active, evs)" by (cases s) auto
  from assms(3) obtain d1 d2 evs2 where
    up: "upsert_binding (connection_row cx now stored c) d = Inr d1"
    and e: "d2 = d1 \<or> (\<exists>i e. append_event_in_transaction clock i d1 = Inr (d2, e))"
    and s': "s' = (d2, AList.update (ic_key c) \<lparr>ai_connection = c, ai_revision =
        binding_revision (find (\<lambda>b. b_key b = ic_key c) stored) (config_hash cx c)\<rparr> active, evs2)"
    unfolding s apply_connection_def connection_row_def
    by (auto simp: result_simps Let_def split: if_splits) blast
  from e have b: "bindings d2 = bindings d1" by (auto simp: append_event_fields)
  from assms(2) upsert_connection [OF assms(1) up] show ?thesis
    by (auto simp: catalog_state_def s s' b dom_update)
qed

lemma apply_connections_state:
  assumes "loopR clocks (apply_connection cx now stored) cs s = Inr s'" and "distinct (map b_key stored)"
    and "catalog_state stored keys s"
  shows "catalog_state stored (keys \<union> ic_key ` set cs) s'"
  using assms(1,3)
proof (induction cs arbitrary: clocks s keys)
  case (Cons c cs)
  from Cons.prems(1) obtain s1 where
    s1: "apply_connection cx now stored (clocks 0) c s = Inr s1"
      "loopR (\<lambda>n. clocks (Suc n)) (apply_connection cx now stored) cs s1 = Inr s'"
    by (auto simp: result_simps)
  from Cons.IH [OF s1(2) apply_connection_state [OF assms(2) Cons.prems(2) s1(1)]] show ?case by simp
qed simp

lemma disable_existing_bindings:
  "disable_existing active clock b (d, evs) = Inr (d', evs') \<Longrightarrow> bindings d' = bindings d"
  by (auto simp: disable_existing_def result_simps append_event_fields split: if_splits)

lemma apply_catalog_bindings:
  assumes "distinct (map b_key (bindings d))" and run: "apply_catalog cx k cs d = Inr (d', active, evs)"
  shows "revised (bindings d) (bindings d')" "enabled_keys (bindings d') = ic_key ` set cs"
    "fst ` set active = ic_key ` set cs"
proof -
  let ?f = "\<lambda>b. b\<lparr>b_enabled := False, b_updated_at := kc_now k\<rparr>"
  let ?stored = "load_stored_bindings d"
  from run obtain d1 n d2 evs1 where
    dis: "update_bindings (\<lambda>_. True) ?f d = Inr (d1, n)"
    and l1: "loopR (kc_configured k) (apply_connection cx (kc_now k) ?stored) cs (d1, [], []) = Inr (d2, active, evs1)"
    and l2: "loopR (kc_disabled k) (disable_existing active) (filter b_enabled ?stored) (d2, evs1) = Inr (d', evs)"
    by (auto simp: apply_catalog_def result_simps Let_def)
  have dist: "distinct (map b_key ?stored)"
    using assms(1) by (simp add: distinct_map load_stored_bindings_def)
  from dis have b1: "set (bindings d1) = ?f ` set (bindings d)"
    by (auto simp: update_bindings_def set_update_where split: if_splits)
  have "catalog_state ?stored {} (d1, [], [])"
    by (auto simp: catalog_state_def revised_def revision_of_def enabled_keys_def b1 b_key_def)
  from apply_connections_state [OF l1 dist this]
  have st: "revised ?stored (bindings d2)" "enabled_keys (bindings d2) = ic_key ` set cs"
    "fst ` set active = ic_key ` set cs"
    by (simp_all add: catalog_state_def)
  have "bindings (fst (d', evs)) = bindings d2"
    using loopR_preserves [OF l2, of "\<lambda>s. bindings (fst s) = bindings d2"] disable_existing_bindings by force
  with st show "revised (bindings d) (bindings d')" "enabled_keys (bindings d') = ic_key ` set cs"
    "fst ` set active = ic_key ` set cs"
    by (simp_all add: revised_def)
qed

end
