(* ===== verification/External_Resolve.thy ===== *)
theory External_Resolve
  imports External_Runs Store_Records
begin

text \<open>
  The resolution of an unconfirmed write by an operator, in its two forms: that it was not applied, which
  takes effect at once, and that it was applied, once the provider has been asked. Either is recorded for good.
\<close>

section \<open>The two resolutions\<close>

text \<open>The actor and the credential are those the resolution was asked for with.\<close>

inductive resolved_by ::
  "string \<Rightarrow> uuid \<Rightarrow> workspace_name \<Rightarrow> uuid \<Rightarrow> external_resolution \<Rightarrow> db \<Rightarrow> db \<Rightarrow> bool" where
  not_applied: "prepare_external_resolution v caller active op rid outcome eid note d = Inr (d', ResolutionCompleted c) \<Longrightarrow>
     resolved_by (cc_actor_id caller) (cc_credential_id caller) (cc_workspace caller) op (vc_resolution c) d d'"
| applied: "resolves q d \<Longrightarrow> complete_applied_resolution v q m d = Inr (d', c) \<Longrightarrow>
     resolved_by (pr_actor_id q) (pr_credential_id q) (pr_workspace q) (pr_operation_id q) (vc_resolution c) d d'"

lemma resolved_step: "resolved_by actor cred ws op r d d' \<Longrightarrow> store_step d d'"
  by (erule resolved_by.cases) (auto intro: store_step.intros)

text \<open>What both leave behind.\<close>

definition resolution_left ::
  "workspace_name \<Rightarrow> uuid \<Rightarrow> external_resolution \<Rightarrow> external_operation_status \<Rightarrow> db \<Rightarrow> db \<Rightarrow> bool" where
  "resolution_left ws op r status d d' \<longleftrightarrow>
     (\<exists>x y. row_in d ws op x \<and> x_status x = OpUnconfirmed \<and> is_publish (x_kind x) \<and>
        row_in d' ws op y \<and> x_status y = status) \<and>
     find_resolution d ws op = None \<and> map_option v_resolution (find_resolution d' ws op) = Some r"

lemma applied_left:
  assumes inv: "full_inv d" and rs: "resolves q d" and run: "complete_applied_resolution v q m d = Inr (d', c)"
  shows "resolution_left (pr_workspace q) (pr_operation_id q) (vc_resolution c) OpSucceeded d d' \<and>
    er_outcome (vc_resolution c) = Applied \<and> er_actor_id (vc_resolution c) = pr_actor_id q"
proof -
  let ?f = "\<lambda>x. x\<lparr>x_status := OpSucceeded, x_external_id := Some (mu_external_id m),
      x_url := Some (mu_url m), x_error := None, x_updated_at := xv_clock v\<rparr>"
  from run obtain d1 te d2 d3 i e where
    lnk: "link_resolved v q m (xv_clock v) d = Inr (d1, te)"
    and res: "resolve_row (pr_workspace q) (pr_operation_id q) ?f d1 = Inr d2"
    and ins: "insert_resolution (pr_workspace q) (pr_request_hash q) (vc_resolution c) d2 = Inr d3"
    and app: "append_event_in_transaction (xv_event_clock v) i d3 = Inr (d', e)"
    and c: "er_outcome (vc_resolution c) = Applied" "er_operation_id (vc_resolution c) = pr_operation_id q"
      "er_actor_id (vc_resolution c) = pr_actor_id q"
    by (auto simp: complete_applied_resolution_def append_resolution_event_def result_simps Let_def)
  note mid = link_resolved_sound [OF full_inv_sound_db [OF inv] lnk]
  note ie = insert_resolution_effect [OF ins] and re = resolve_row_effect [OF res]
  from re(2) mid obtain x where x: "row_in d (pr_workspace q) (pr_operation_id q) x" "x_status x = OpUnconfirmed"
    unfolding row_in_def by auto
  moreover from rs row_in_unique [OF inv x(1)] have "is_publish (x_kind x)"
    unfolding resolves_def row_in_def by blast
  moreover have "row_in d' (pr_workspace q) (pr_operation_id q) (?f x)"
    using x append_event_fields(8) [OF app] mid by (auto simp: ie(1) re(1) set_update_where row_in_def)
  moreover have none: "find_resolution d (pr_workspace q) (pr_operation_id q) = None"
    using ie(3) c(2) re(1) mid by (force simp: find_resolution_def find_None_iff)
  moreover have "map_option v_resolution (find_resolution d' (pr_workspace q) (pr_operation_id q)) = Some (vc_resolution c)"
    using none append_event_fields(13) [OF app] c(2) mid
    by (simp add: find_resolution_def re(1) ie(1) find_append v_operation_def)
  ultimately show ?thesis using c(1,3) unfolding resolution_left_def by fastforce
qed

lemma not_applied_left:
  assumes inv: "full_inv d"
    and run: "prepare_external_resolution v caller active op rid outcome eid note d = Inr (d', ResolutionCompleted c)"
  shows "resolution_left (cc_workspace caller) op (vc_resolution c) OpFailed d d' \<and>
    er_outcome (vc_resolution c) = NotApplied \<and> er_actor_id (vc_resolution c) = cc_actor_id caller"
proof -
  note na = not_applied_row [OF inv run]
  have none: "find_resolution d (cc_workspace caller) op = None"
    using run by (auto simp: prepare_external_resolution_def resolution_receipt_def result_simps Let_def
        split: option.splits if_splits)
  from na(1) obtain x where "row_in d (cc_workspace caller) op x" "x_status x = OpUnconfirmed" "is_publish (x_kind x)"
    "row_in d' (cc_workspace caller) op (x\<lparr>x_status := OpFailed,
       x_error := Some (external_error_as_str OperatorConfirmedNotApplied), x_updated_at := xv_clock v\<rparr>)"
    by blast
  with na(2,3) none show ?thesis unfolding resolution_left_def by fastforce
qed

lemma resolved_left:
  assumes "full_inv d" and "resolved_by actor cred ws op r d d'"
  shows "resolution_left ws op r (case er_outcome r of Applied \<Rightarrow> OpSucceeded | NotApplied \<Rightarrow> OpFailed) d d' \<and>
    er_actor_id r = actor"
  using assms(2) by cases (use applied_left [OF assms(1)] not_applied_left [OF assms(1)] in fastforce)+

lemma resolved_credential:
  assumes "full_inv d" and "resolved_by actor cred ws op r d d'"
  shows "er_outcome r = NotApplied \<longrightarrow> (\<exists>c. credential_by_id d cred = Some c \<and> sc_revoked_at c = None \<and>
    pc_role (sc_claims c) = RoleOperator \<and> (ws \<in> set (pc_workspaces (sc_claims c)) \<or>
      pc_subject (sc_claims c) = ''admin'' \<and> pc_workspaces (sc_claims c) = []))"
  using assms(2)
proof cases
  case (not_applied v caller active rid outcome eid nt c)
  from completed_start(1) [OF not_applied(5)] not_applied(1-4) show ?thesis
    by (auto simp: require_credential_def credential_allows_def result_simps Let_def)
next
  case (applied q v m c)
  with applied_left [OF assms(1)] show ?thesis by fastforce
qed

section \<open>Afterwards\<close>

lemma settled_row_stays:
  assumes "full_inv d" and "store_step\<^sup>*\<^sup>* d d'" and "row_in d ws op y" and "x_status y \<in> {OpSucceeded, OpFailed}"
  shows "row_in d' ws op y"
  using row_in_run [OF assms(1-3)] assms(4) by (auto simp: op_le_def stage_def)

lemma resolved_replays:
  assumes "full_inv d" and "row_in d (cc_workspace caller) op y" and "x_status y \<noteq> OpUnconfirmed"
    and "map_option v_resolution (find_resolution d (cc_workspace caller) op) = Some r"
    and "prepare_external_resolution v caller active op rid outcome eid note d = Inr (d', prep)"
  shows "d' = d \<and> prep = ReplayResolution (operation_summary y) r"
proof -
  from settled_not_resolved_again [OF assms(1-3,5)] obtain s t where "d' = d" "prep = ReplayResolution s t" by blast
  with assms show ?thesis
    by (auto simp: prepare_external_resolution_def resolution_receipt_def load_resolution_def result_simps Let_def
        load_operation_summary_def row_in_find split: option.splits if_splits)
qed

lemma applied_refused:
  assumes inv: "full_inv d" and "row_in d (pr_workspace q) (pr_operation_id q) y" and "x_status y \<noteq> OpUnconfirmed"
  shows "isl (complete_applied_resolution v q m d)"
proof (cases "complete_applied_resolution v q m d")
  case (Inr out)
  then obtain d1 te d2 f where lnk: "link_resolved v q m (xv_clock v) d = Inr (d1, te)"
    and res: "resolve_row (pr_workspace q) (pr_operation_id q) f d1 = Inr d2"
    by (auto simp: complete_applied_resolution_def result_simps Let_def)
  from resolve_row_effect(2) [OF res] link_resolved_sound [OF full_inv_sound_db [OF inv] lnk] obtain x where
    "row_in d (pr_workspace q) (pr_operation_id q) x" "x_status x = OpUnconfirmed" unfolding row_in_def by auto
  with row_in_unique [OF inv assms(2)] assms(3) show ?thesis by blast
qed simp

end
