(* ===== verification/External_Props.thy ===== *)
theory External_Props
  imports External_Scenario Catalog_Facts External_Resolve
begin

text \<open>
  The properties of external operations and integration bindings: what holds of their tables in every
  reachable store, that a write is sent and recorded at most once, what repeating a command or a
  resolution does, and what a new configuration may change.
\<close>

text \<open>C16. In every reachable store a task has at most one operation at a provider that runs or is
  unconfirmed, a task has one link at a provider and an external issue one task, and an operation has at
  most one resolution, which belongs to a publication that has the status the resolution says.\<close>

theorem external_tables_consistent:
  assumes "store_step\<^sup>*\<^sup>* (empty_db server) d"
  shows "(\<forall>x\<in>set (external_operations d). \<forall>y\<in>set (external_operations d).
      blocking x \<and> blocking y \<and> x_task_id x \<noteq> None \<and> x_workspace x = x_workspace y \<and>
      x_task_id x = x_task_id y \<and> x_provider x = x_provider y \<longrightarrow> x = y) \<and>
    (\<forall>l\<in>set (links d). \<forall>m\<in>set (links d). l_key l = l_key m \<or> l_external l = l_external m \<longrightarrow> l = m) \<and>
    (\<forall>w\<in>set (resolutions d). \<exists>x\<in>set (external_operations d). x_key x = v_operation w \<and>
      is_publish (x_kind x) \<and>
      x_status x = (case er_outcome (v_resolution w) of Applied \<Rightarrow> OpSucceeded | NotApplied \<Rightarrow> OpFailed)) \<and>
    distinct (map v_operation (resolutions d))"
proof -
  have inv: "ext_inv d" using store.run_inv [OF assms empty_db_inv] by (simp add: full_inv_def)
  have slots: "distinct (map x_slot (filter holds_slot (external_operations d)))"
    using inv by (simp add: ext_inv_def operations_ok_def)
  have one: "x = y" if "x \<in> set (external_operations d)" "y \<in> set (external_operations d)"
    "holds_slot x" "holds_slot y" "x_slot x = x_slot y" for x y
    using distinct_key_eq [OF slots, of x y] that by simp
  have keys: "distinct (map l_key (links d))" "distinct (map l_external (links d))"
    using inv by (simp_all add: ext_inv_def links_ok_def)
  have res: "resolutions_ok (external_operations d) (resolutions d)" by (rule ext_invD(3) [OF inv])
  show ?thesis
  proof (intro conjI)
    show "\<forall>x\<in>set (external_operations d). \<forall>y\<in>set (external_operations d).
      blocking x \<and> blocking y \<and> x_task_id x \<noteq> None \<and> x_workspace x = x_workspace y \<and>
      x_task_id x = x_task_id y \<and> x_provider x = x_provider y \<longrightarrow> x = y"
      using one by (auto simp: holds_slot_def x_slot_def)
    show "\<forall>l\<in>set (links d). \<forall>m\<in>set (links d). l_key l = l_key m \<or> l_external l = l_external m \<longrightarrow> l = m"
      using distinct_key_eq [OF keys(1)] distinct_key_eq [OF keys(2)] by blast
    show "\<forall>w\<in>set (resolutions d). \<exists>x\<in>set (external_operations d). x_key x = v_operation w \<and>
      is_publish (x_kind x) \<and>
      x_status x = (case er_outcome (v_resolution w) of Applied \<Rightarrow> OpSucceeded | NotApplied \<Rightarrow> OpFailed)"
      using res by (fastforce simp: resolutions_ok_def resolved_as_def split: external_resolution_outcome.splits)
    show "distinct (map v_operation (resolutions d))" using res by (simp add: resolutions_ok_def)
  qed
qed

theorem external_tables_consistent_witness:
  "\<exists>d. length (external_operations d) = 1 \<and> distinct (map v_operation (resolutions d)) \<and>
     store_step\<^sup>*\<^sup>* (empty_db 7) d"
proof -
  let ?w = "create_workspace 5 ws0 (empty_db 7)"
  let ?p = "prepare_external_operation envX callerX activeX importX (fst (projr ?w))"
  have "?w = Inr (fst (projr ?w), snd (projr ?w))"
    by (rule ran) (simp add: create_workspace_def empty_db_def insert_workspace_def now_millis_def check_simps)
  then have a: "store_step (empty_db 7) (fst (projr ?w))" by (rule store_step.workspace)
  have "?p = Inr (fst (projr ?p), snd (projr ?p))"
    by (rule ran) (simp add: prepare_external_operation_def replay_external_operation_def create_workspace_def
        empty_db_def insert_workspace_def insert_prepared_def ic_provider_def
        external_simps external_scenario scenario check_simps statement_simps x_key_def)
  then have b: "store_step (fst (projr ?w)) (fst (projr ?p))" by (rule store_step.prepare)
  have n: "length (external_operations (fst (projr ?p))) = 1"
    by (simp add: prepare_external_operation_def replay_external_operation_def create_workspace_def
        empty_db_def insert_workspace_def insert_prepared_def ic_provider_def
        external_simps external_scenario scenario check_simps statement_simps x_key_def)
  from r_into_rtranclp [of store_step, OF a] b have run: "store_step\<^sup>*\<^sup>* (empty_db 7) (fst (projr ?p))"
    by (rule rtranclp.rtrancl_into_rtrancl)
  from external_tables_consistent [OF run] n run show ?thesis by blast
qed

text \<open>C17. A write is sent at most once: once an operation has been marked as dispatched, which the
  router does just before the request leaves, no later state of the store lets it be marked again,
  whatever happened in between.\<close>

theorem dispatched_at_most_once:
  assumes "full_inv d" and "mark_external_dispatched v p d = Inr (d1, e)" and "store_step\<^sup>*\<^sup>* d1 d2"
    and "0 \<le> xv_clock w" and "xv_clock w \<le> I64_MAX"
  shows "mark_external_dispatched w p d2 = Inl ExternalConflict"
proof -
  have inv1: "full_inv d1" using store_step_inv [OF store_step.dispatched [OF assms(2)] assms(1)] by simp
  from dispatched_row [OF assms(2)] obtain x where
    x: "row_in d1 (po_workspace p) (eo_id (po_summary p)) (x\<lparr>x_phase := Dispatched, x_updated_at := xv_clock v\<rparr>)"
    "stage x = 0" by blast
  from row_in_run [OF inv1 assms(3) x(1)] obtain y where
    y: "row_in d2 (po_workspace p) (eo_id (po_summary p)) y"
    "op_le (x\<lparr>x_phase := Dispatched, x_updated_at := xv_clock v\<rparr>) y" by blast
  have "stage (x\<lparr>x_phase := Dispatched, x_updated_at := xv_clock v\<rparr>) = 1"
    using x(2) by (simp add: stage_def split: external_operation_status.splits if_splits)
  with y(2) have "stage y > 0" by (simp add: op_le_def)
  from dispatch_refused [OF store.run_inv [OF assms(3) inv1] y(1) this assms(4,5)] show ?thesis .
qed

theorem dispatched_at_most_once_witness:
  "mark_external_dispatched envX preparedX (fst (projr (mark_external_dispatched envX preparedX dbP))) =
     Inl ExternalConflict"
  by (rule dispatched_at_most_once [OF full_inv_dbP ran [OF dispatch_runs] rtranclp.rtrancl_refl])
     (simp_all add: envX_def I64_MAX_def)

text \<open>C18. The outcome of an operation is recorded once: a completion is accepted only while the operation
  runs, and from then on every later state refuses every further completion; once it has succeeded or
  failed the stored operation does not change at all.\<close>

theorem completed_once:
  assumes "full_inv d" and "tracks p d" and "completes p d d1" and "store_step\<^sup>*\<^sup>* d1 d2"
  shows "(\<exists>x. row_in d (po_workspace p) (eo_id (po_summary p)) x \<and> x_status x = OpRunning) \<and>
    (\<exists>y z. row_in d1 (po_workspace p) (eo_id (po_summary p)) y \<and>
       row_in d2 (po_workspace p) (eo_id (po_summary p)) z \<and> x_status z \<noteq> OpRunning \<and>
       (x_status y = OpUnconfirmed \<or> z = y)) \<and>
    (\<nexists>d3. completes p d2 d3)"
proof -
  note snd = full_inv_sound_db [OF assms(1)]
  have step: "store_step d d1"
    using assms(3,2) by cases (blast intro: store_step.intros)+
  have inv1: "full_inv d1" using store_step_inv [OF step assms(1)] by simp
  have inv2: "full_inv d2" by (rule store.run_inv [OF assms(4) inv1])
  from completes_row [OF snd assms(3)] obtain x y where
    x: "row_in d (po_workspace p) (eo_id (po_summary p)) x" "x_status x = OpRunning"
    and y: "row_in d1 (po_workspace p) (eo_id (po_summary p)) y" "stage y \<ge> 2" by blast
  from row_in_run [OF inv1 assms(4) y(1)] obtain z where
    z: "row_in d2 (po_workspace p) (eo_id (po_summary p)) z" "op_le y z" by blast
  with y(2) have st: "stage z \<ge> 2" by (auto simp: op_le_def)
  then have nr: "x_status z \<noteq> OpRunning" by (auto simp: stage_def split: if_splits)
  have "x_status y = OpUnconfirmed \<or> z = y"
    using y(2) z(2) stage_le_3 [of y] by (auto simp: op_le_def stage_simps le_Suc_eq)
      (auto simp: stage_def split: external_operation_status.splits if_splits)
  moreover have "\<not> completes p d2 d3" for d3
    using completes_row [OF full_inv_sound_db [OF inv2], of p d3] row_in_unique [OF inv2 z(1)] nr by blast
  ultimately show ?thesis using x y(1) z(1) nr by blast
qed

theorem completed_once_witness:
  "\<nexists>d. completes preparedX (fst (projr (complete_external_error envX preparedX (CeUnconfirmed XTimeout) dbD))) d"
proof -
  have "tracks preparedX dbD"
    by (simp add: tracks_def external_scenario scenario x_key_def)
  from completed_once [OF full_inv_dbD this completes.by_error [OF ran [OF completion_runs]] rtranclp.rtrancl_refl]
  show ?thesis by simp
qed

text \<open>Repeating a command is harmless: whatever happened since, preparing it again changes nothing,
  hands out nothing to send and returns the operation as it is stored now; the operation id used by another
  actor or for another command is refused with \<^verbatim>\<open>request_conflict\<close>.\<close>

theorem prepare_idempotent:
  assumes "full_inv d" and "prepare_external_operation v caller active c d = Inr (d1, p)"
    and "store_step\<^sup>*\<^sup>* d1 d2" and "cc_workspace caller2 = cc_workspace caller"
    and "xc_operation_id c2 = xc_operation_id c"
  shows "\<exists>x\<in>set (external_operations d2). x_key x = (cc_workspace caller, xc_operation_id c) \<and>
    prepare_external_operation w caller2 active2 c2 d2 =
      (if cc_actor_id caller2 = cc_actor_id caller \<and>
          command_hash (xv_codec w) c2 = command_hash (xv_codec v) c
       then Inr (d2, prepared_as w caller2 active2 (operation_summary x) None None)
       else Inl RequestConflict)"
proof -
  have inv1: "full_inv d1" using store_step_inv [OF store_step.prepare [OF assms(2)] assms(1)] by simp
  from prepare_row [OF assms(1,2)] obtain x where
    x: "row_in d1 (cc_workspace caller) (xc_operation_id c) x" "x_actor_id x = cc_actor_id caller"
    "x_request_hash x = command_hash (xv_codec v) c" by blast
  from row_in_run [OF inv1 assms(3) x(1)] obtain y where
    y: "row_in d2 (cc_workspace caller) (xc_operation_id c) y" "op_le x y" by blast
  then have "row_in d2 (cc_workspace caller2) (xc_operation_id c2) y" using assms(4,5) by simp
  from replay_row [OF store.run_inv [OF assms(3) inv1] this, of "xv_codec w"] x(2,3) y
  show ?thesis
    by (intro bexI [of _ y])
       (auto simp: prepare_external_operation_def row_in_def op_le_def same_operation_def)
qed

theorem prepare_idempotent_witness:
  "\<exists>x. prepare_external_operation envX callerX activeX publishX
      (fst (projr (prepare_external_operation envX callerX activeX publishX dbP))) =
    Inr (fst (projr (prepare_external_operation envX callerX activeX publishX dbP)),
         prepared_as envX callerX activeX (operation_summary x) None None)"
  using prepare_idempotent [OF full_inv_dbP ran [OF prepared_again_runs] rtranclp.rtrancl_refl refl refl,
      of envX activeX] by auto

text \<open>C20. The resolution of a write by an operator is final, whether it says that the write was applied or
  that it was not. It is carried out only for an unconfirmed publication that has no resolution yet, and a
  statement that it was not applied only with a credential, not revoked, of an operator for the workspace. It
  is recorded with the operator's name, and the operation succeeds or fails as it says. In every later store
  the operation and the record are still the same, a repetition changes nothing and is answered with that
  record, and no applied resolution of the operation is carried out.\<close>

theorem resolution_final:
  assumes "full_inv d" and "resolved_by actor cred ws op r d d1" and "store_step\<^sup>*\<^sup>* d1 d2"
  shows "(\<exists>x. row_in d ws op x \<and> x_status x = OpUnconfirmed \<and> is_publish (x_kind x)) \<and>
    find_resolution d ws op = None \<and> er_actor_id r = actor \<and>
    (er_outcome r = NotApplied \<longrightarrow> (\<exists>c. credential_by_id d cred = Some c \<and> sc_revoked_at c = None \<and>
       pc_role (sc_claims c) = RoleOperator \<and> (ws \<in> set (pc_workspaces (sc_claims c)) \<or>
         pc_subject (sc_claims c) = ''admin'' \<and> pc_workspaces (sc_claims c) = []))) \<and>
    (\<exists>y. row_in d1 ws op y \<and> row_in d2 ws op y \<and>
       x_status y = (case er_outcome r of Applied \<Rightarrow> OpSucceeded | NotApplied \<Rightarrow> OpFailed)) \<and>
    (\<exists>w. find_resolution d1 ws op = Some w \<and> find_resolution d2 ws op = Some w \<and> v_resolution w = r) \<and>
    (\<forall>v caller active rid outcome eid note d3 prep.
       cc_workspace caller = ws \<and>
       prepare_external_resolution v caller active op rid outcome eid note d2 = Inr (d3, prep) \<longrightarrow>
       d3 = d2 \<and> (\<exists>s. prep = ReplayResolution s r)) \<and>
    (\<forall>v q m. pr_workspace q = ws \<and> pr_operation_id q = op \<longrightarrow> isl (complete_applied_resolution v q m d2))"
proof -
  have inv1: "full_inv d1" using store_step_inv [OF resolved_step [OF assms(2)] assms(1)] by simp
  have inv2: "full_inv d2" by (rule store.run_inv [OF assms(3) inv1])
  note left = resolved_left [OF assms(1,2), unfolded resolution_left_def]
  from left obtain y w where y: "row_in d1 ws op y"
      "x_status y = (case er_outcome r of Applied \<Rightarrow> OpSucceeded | NotApplied \<Rightarrow> OpFailed)"
    and w: "find_resolution d1 ws op = Some w" "v_resolution w = r" by auto
  have st: "x_status y \<in> {OpSucceeded, OpFailed}" "x_status y \<noteq> OpUnconfirmed"
    using y(2) by (simp_all split: external_resolution_outcome.splits)
  have y2: "row_in d2 ws op y" by (rule settled_row_stays [OF inv1 assms(3) y(1) st(1)])
  have w2: "find_resolution d2 ws op = Some w" by (rule resolution_stays [OF inv1 assms(3) w(1)])
  have cred: "er_outcome r = NotApplied \<longrightarrow> (\<exists>c. credential_by_id d cred = Some c \<and> sc_revoked_at c = None \<and>
       pc_role (sc_claims c) = RoleOperator \<and> (ws \<in> set (pc_workspaces (sc_claims c)) \<or>
         pc_subject (sc_claims c) = ''admin'' \<and> pc_workspaces (sc_claims c) = []))"
    by (rule resolved_credential [OF assms(1,2)])
  have again: "\<forall>v caller active rid outcome eid note d3 prep.
       cc_workspace caller = ws \<and>
       prepare_external_resolution v caller active op rid outcome eid note d2 = Inr (d3, prep) \<longrightarrow>
       d3 = d2 \<and> (\<exists>s. prep = ReplayResolution s r)"
    using resolved_replays [OF inv2 _ st(2), of _ op r] y2 w2 w(2) by simp blast
  have "\<forall>v q m. pr_workspace q = ws \<and> pr_operation_id q = op \<longrightarrow> isl (complete_applied_resolution v q m d2)"
    using applied_refused [OF inv2 _ st(2)] y2 by blast
  with left cred y y2 w w2 again show ?thesis by blast
qed

definition verifyX :: prepared_resolution where
  "verifyX = \<lparr>pr_workspace = ws0, pr_operation_id = 40, pr_resolution_id = 50, pr_actor_id = ''p'',
     pr_credential_id = 12, pr_provider = Github, pr_namespace = ''o/n'', pr_binding_revision = 1,
     pr_task_id = Some 1, pr_payload = payloadX, pr_external_id = ''17'', pr_note = ''n'',
     pr_request_hash = 5, pr_deadline = 99\<rparr>"

lemma applied_runs: "\<not> isl (complete_applied_resolution envX verifyX mutationX dbU)"
  by (simp add: verifyX_def complete_applied_resolution_def link_resolved_def insert_link_def new_link_def
      touch_task_def append_external_task_event_def
      insert_resolution_def insert_resolution_row_def resolve_row_def append_resolution_event_def
      is_publish_def resolution_check_def load_links_def load_external_operations_def l_key_def l_external_def
      external_simps external_scenario scenario check_simps statement_simps x_key_def v_key_def v_operation_def)

lemma resolves_verifyX: "resolves verifyX dbU"
  by (simp add: resolves_def verifyX_def is_publish_def x_key_def external_scenario scenario)

theorem resolution_final_witness:
  "(\<exists>d c. prepare_external_resolution envX callerX activeX 40 50 NotApplied None ''n'' dbU =
       Inr (d, ResolutionCompleted c) \<and> er_actor_id (vc_resolution c) = ''p'') \<and>
   (\<exists>w. find_resolution (fst (projr (complete_applied_resolution envX verifyX mutationX dbU))) ws0 40 = Some w) \<and>
   isl (complete_applied_resolution envX verifyX mutationX
     (fst (projr (complete_applied_resolution envX verifyX mutationX dbU))))"
proof -
  have x: "cc_actor_id callerX = ''p''" "pr_workspace verifyX = ws0" "pr_operation_id verifyX = 40"
    by (simp_all add: callerX_def verifyX_def)
  from resolution_runs obtain d c where
    run: "prepare_external_resolution envX callerX activeX 40 50 NotApplied None ''n'' dbU = Inr (d, ResolutionCompleted c)"
    by blast
  from resolution_final [OF full_inv_dbU resolved_by.not_applied [OF run] rtranclp.rtrancl_refl]
    resolution_final [OF full_inv_dbU resolved_by.applied [OF resolves_verifyX ran [OF applied_runs]] rtranclp.rtrancl_refl]
  show ?thesis using run x by auto
qed

text \<open>C21. A gate before every write and before a result that was read is recorded: it opens only while the
  binding has the revision, target, provider and workspace the operation was prepared with, the credential
  is not revoked and still covers the workspace, by a grant or as the administrator's with no grants, and
  the task's link is as the payload supposes; a write is then marked as dispatched, and a result that was read leaves the store alone.\<close>

theorem snapshot_gate:
  assumes "full_inv d" and "validate_external_snapshot v active p write d = Inr d'"
  shows "binding_unchanged (xv_codec v) active (po_binding_revision p) (po_namespace p)
      (eo_provider (po_summary p)) (po_workspace p) \<and>
    (\<exists>c. credential_by_id d (po_credential_id p) = Some c \<and> sc_revoked_at c = None \<and>
       (po_workspace p \<in> set (pc_workspaces (sc_claims c)) \<or>
        pc_role (sc_claims c) = RoleOperator \<and> pc_subject (sc_claims c) = ''admin'' \<and>
          pc_workspaces (sc_claims c) = [])) \<and>
    (case po_payload p of
       Some (PayPublishIssue _ _ _ _) \<Rightarrow>
         \<forall>t. eo_task_id (po_summary p) = Some t \<longrightarrow>
           find_task_link d (po_workspace p) t (eo_provider (po_summary p)) = None
     | Some (PayPublishReport _ issue _ _ _) \<Rightarrow>
         \<forall>t. eo_task_id (po_summary p) = Some t \<longrightarrow>
           (\<exists>l. find_task_link d (po_workspace p) t (eo_provider (po_summary p)) = Some l \<and>
              el_namespace (l_link l) = po_namespace p \<and> el_external_id (l_link l) = issue)
     | Some _ \<Rightarrow> True | None \<Rightarrow> False) \<and>
    (if write then \<exists>x. row_in d (po_workspace p) (eo_id (po_summary p)) x \<and> stage x = 0 \<and>
         row_in d' (po_workspace p) (eo_id (po_summary p))
           (x\<lparr>x_phase := Dispatched, x_updated_at := xv_clock v\<rparr>)
     else d' = d)"
proof -
  from assms(2) obtain payload where
    b: "binding_unchanged (xv_codec v) active (po_binding_revision p) (po_namespace p)
      (eo_provider (po_summary p)) (po_workspace p)"
    and c: "require_credential False d (po_credential_id p) (po_workspace p) = Inr ()"
    and pay: "po_payload p = Some payload"
    and t: "publish_target_ok d (po_workspace p) (eo_task_id (po_summary p)) (eo_provider (po_summary p))
      (po_namespace p) payload = Inr ()"
    and w: "if write then \<exists>e. mark_external_dispatched v p d = Inr (d', e) else d' = d"
    by (auto simp: validate_external_snapshot_def result_simps split: if_splits)
  have "\<exists>c. credential_by_id d (po_credential_id p) = Some c \<and> sc_revoked_at c = None \<and>
       (po_workspace p \<in> set (pc_workspaces (sc_claims c)) \<or>
        pc_role (sc_claims c) = RoleOperator \<and> pc_subject (sc_claims c) = ''admin'' \<and>
          pc_workspaces (sc_claims c) = [])"
    using c by (auto simp: require_credential_def credential_allows_def result_simps Let_def)
  moreover have "case payload of
       PayPublishIssue _ _ _ _ \<Rightarrow>
         \<forall>t. eo_task_id (po_summary p) = Some t \<longrightarrow>
           find_task_link d (po_workspace p) t (eo_provider (po_summary p)) = None
     | PayPublishReport _ issue _ _ _ \<Rightarrow>
         \<forall>t. eo_task_id (po_summary p) = Some t \<longrightarrow>
           (\<exists>l. find_task_link d (po_workspace p) t (eo_provider (po_summary p)) = Some l \<and>
              el_namespace (l_link l) = po_namespace p \<and> el_external_id (l_link l) = issue)
     | _ \<Rightarrow> True"
    using t by (auto simp: publish_target_ok_def result_simps split: operation_payload.splits)
  moreover have "if write then \<exists>x. row_in d (po_workspace p) (eo_id (po_summary p)) x \<and> stage x = 0 \<and>
         row_in d' (po_workspace p) (eo_id (po_summary p))
           (x\<lparr>x_phase := Dispatched, x_updated_at := xv_clock v\<rparr>)
     else d' = d"
    using w dispatched_row by auto
  ultimately show ?thesis using b pay by (auto split: operation_payload.splits)
qed

lemma snapshot_runs: "\<not> isl (validate_external_snapshot envX activeX preparedX True dbP)"
  by (simp add: validate_external_snapshot_def binding_unchanged_def require_credential_def credential_allows_def
      credential_by_id_def credential_from_row_def publish_target_ok_def find_task_link_def mark_external_dispatched_def
      ic_provider_def ic_namespace_def target_public_name_def
      external_simps external_scenario scenario check_simps statement_simps x_key_def)

theorem snapshot_gate_witness:
  "find_task_link dbP ws0 1 Github = None \<and>
   (\<exists>x. row_in (projr (validate_external_snapshot envX activeX preparedX True dbP)) ws0 40 x \<and> x_phase x = Dispatched)"
proof -
  have "validate_external_snapshot envX activeX preparedX True dbP =
      Inr (projr (validate_external_snapshot envX activeX preparedX True dbP))"
    using snapshot_runs by (cases "validate_external_snapshot envX activeX preparedX True dbP") simp_all
  from snapshot_gate [OF full_inv_dbP this] show ?thesis
    by (auto simp: preparedX_def payloadX_def summaryX_def new_summary_def) 
qed

text \<open>C22. A new configuration is applied only when every enabled binding that has a running or unconfirmed
  operation keeps its configuration and every enabled binding with linked tasks keeps its target; a disabled
  binding is not checked. Afterwards exactly the
  connections of the file are enabled and active, and the revision of a binding never falls and grows
  whenever it is enabled with something new.\<close>

theorem catalog_respects_operations:
  assumes "full_inv d" and "apply_catalog cx k cs d = Inr (d', active, evs)"
  shows "(\<forall>b\<in>set (bindings d). b_enabled b \<and> binding_has_blocking_operation d b \<longrightarrow>
      (\<exists>c\<in>set cs. ic_key c = b_key b \<and> config_hash cx c = b_config_hash b)) \<and>
    (\<forall>b\<in>set (bindings d). b_enabled b \<and> binding_has_links d b \<longrightarrow>
      (\<exists>c\<in>set cs. ic_key c = b_key b \<and> ic_namespace cx c = b_target b)) \<and>
    {b_key b |b. b \<in> set (bindings d') \<and> b_enabled b} = ic_key ` set cs \<and> fst ` set active = ic_key ` set cs \<and>
    (\<forall>b\<in>set (bindings d). \<exists>b'\<in>set (bindings d'). b_key b' = b_key b \<and> b_revision b \<le> b_revision b' \<and>
      (b_enabled b' \<and> (\<not> b_enabled b \<or> b_config_hash b' \<noteq> b_config_hash b) \<longrightarrow> b_revision b < b_revision b'))"
proof (intro conjI ballI impI)
  from assms(1) have dist: "distinct (map b_key (bindings d))" by (simp add: full_inv_def ext_inv_def)
  note eff = apply_catalog_bindings [OF dist assms(2)]
  fix b assume b: "b \<in> set (bindings d)"
  show "\<exists>c\<in>set cs. ic_key c = b_key b \<and> config_hash cx c = b_config_hash b"
    if "b_enabled b \<and> binding_has_blocking_operation d b"
    using existing_kept(1) [OF catalog_checks [OF assms(2) b]] that by simp
  show "\<exists>c\<in>set cs. ic_key c = b_key b \<and> ic_namespace cx c = b_target b"
    if "b_enabled b \<and> binding_has_links d b"
    using existing_kept(2) [OF catalog_checks [OF assms(2) b]] that by simp
  show "\<exists>b'\<in>set (bindings d'). b_key b' = b_key b \<and> b_revision b \<le> b_revision b' \<and>
      (b_enabled b' \<and> (\<not> b_enabled b \<or> b_config_hash b' \<noteq> b_config_hash b) \<longrightarrow> b_revision b < b_revision b')"
    using eff(1) b by (simp add: revised_def revision_of_def)
next
  from assms(1) have dist: "distinct (map b_key (bindings d))" by (simp add: full_inv_def ext_inv_def)
  note eff = apply_catalog_bindings [OF dist assms(2)]
  show "{b_key b |b. b \<in> set (bindings d') \<and> b_enabled b} = ic_key ` set cs"
    unfolding eff(2) [symmetric] enabled_keys_def by blast
  show "fst ` set active = ic_key ` set cs" by (rule eff(3))
qed

definition catalogX :: catalog where
  "catalogX = [connectionX]"

definition kclocksX :: catalog_clocks where
  "kclocksX = \<lparr>kc_now = 1000, kc_configured = (\<lambda>_. 1001), kc_disabled = (\<lambda>_. 1002)\<rparr>"

lemma catalog_runs: "\<not> isl (apply_catalog codecX kclocksX catalogX dbP)"
  by (simp add: apply_catalog_def catalogX_def kclocksX_def load_stored_bindings_def workspace_exists_def check_existing_def
      binding_has_blocking_operation_def binding_has_links_def ic_key_def ic_provider_def ic_namespace_def
      target_public_name_def update_bindings_def apply_connection_def binding_revision_def binding_changed_def
      upsert_binding_def binding_check_def disable_existing_def b_key_def
      external_simps external_scenario scenario check_simps statement_simps x_key_def blocking_def AList.update.simps)

theorem catalog_respects_operations_witness:
  "{b_key b |b. b \<in> set (bindings (fst (projr (apply_catalog codecX kclocksX catalogX dbP)))) \<and> b_enabled b} =
     {(ws0, Github)} \<and> binding_has_blocking_operation dbP bindingX"
proof -
  from ran [OF catalog_runs] have "apply_catalog codecX kclocksX catalogX dbP =
     Inr (fst (projr (apply_catalog codecX kclocksX catalogX dbP)),
          fst (snd (projr (apply_catalog codecX kclocksX catalogX dbP))),
          snd (snd (projr (apply_catalog codecX kclocksX catalogX dbP))))" by simp
  from catalog_respects_operations [OF full_inv_dbP this]
  have "{b_key b |b. b \<in> set (bindings (fst (projr (apply_catalog codecX kclocksX catalogX dbP)))) \<and> b_enabled b} =
     ic_key ` set catalogX" by (elim conjE)
  then show ?thesis
    by (simp add: catalogX_def ic_key_def ic_provider_def connectionX_def binding_has_blocking_operation_def exists_row_iff
        external_scenario blocking_def)
qed

text \<open>The hash that decides whether a binding has changed depends on every field: as far as SHA-256 does
  not collide on them, two connections have the same hash exactly when workspace, provider, target, access and
  token are the same. The fields are hashed with their lengths, so none can run into the next.\<close>

theorem config_hash_faithful:
  assumes "xc_sha256 cx (config_preimage cx c) = xc_sha256 cx (config_preimage cx c2) \<Longrightarrow>
      config_preimage cx c = config_preimage cx c2"
    and "list_all usize_field [ic_workspace c, ic_namespace cx c, ic_token c, ic_workspace c2, ic_namespace cx c2, ic_token c2]"
  shows "config_hash cx c = config_hash cx c2 \<longleftrightarrow>
    ic_workspace c = ic_workspace c2 \<and> ic_provider c = ic_provider c2 \<and> ic_namespace cx c = ic_namespace cx c2 \<and>
    ic_access c = ic_access c2 \<and> ic_token c = ic_token c2"
proof -
  have short: "usize_field (provider_as_str q)" "usize_field (access_as_str a)" for q a
    by (cases q; simp add: usize_field_def) (cases a; simp add: usize_field_def)
  have "config_preimage cx c = config_preimage cx c2 \<Longrightarrow>
    [ic_workspace c, provider_as_str (ic_provider c), ic_namespace cx c, access_as_str (ic_access c), ic_token c] =
    [ic_workspace c2, provider_as_str (ic_provider c2), ic_namespace cx c2, access_as_str (ic_access c2), ic_token c2]"
    unfolding config_preimage_def
    by (rule hash_fields_inject) (use assms(2) short in auto)
  moreover have "provider_as_str q = provider_as_str q2 \<Longrightarrow> q = q2" for q q2
    by (cases q; cases q2) simp_all
  ultimately show ?thesis
    using assms(1) access_as_str_inject by (auto simp: config_hash_def config_preimage_def)
qed

theorem config_hash_faithful_witness:
  "config_hash codecX connectionX \<noteq> config_hash codecX (connectionX\<lparr>ic_token := ''kk''\<rparr>)"
proof -
  have a: "xc_sha256 codecX (config_preimage codecX connectionX) =
       xc_sha256 codecX (config_preimage codecX (connectionX\<lparr>ic_token := ''kk''\<rparr>)) \<Longrightarrow>
     config_preimage codecX connectionX = config_preimage codecX (connectionX\<lparr>ic_token := ''kk''\<rparr>)"
    by (simp add: codecX_def config_preimage_def hash_field_def connectionX_def ic_provider_def ic_namespace_def
        target_public_name_def ws0_def)
  have b: "list_all usize_field [ic_workspace connectionX, ic_namespace codecX connectionX, ic_token connectionX,
     ic_workspace (connectionX\<lparr>ic_token := ''kk''\<rparr>), ic_namespace codecX (connectionX\<lparr>ic_token := ''kk''\<rparr>),
     ic_token (connectionX\<lparr>ic_token := ''kk''\<rparr>)]"
    by (simp add: usize_field_def connectionX_def ic_namespace_def target_public_name_def ws0_def)
  from config_hash_faithful [OF a b] show ?thesis by (simp add: connectionX_def)
qed

text \<open>The check of the new configuration looks at enabled bindings only. When a router starts with a
  configuration that it cannot load, every binding is disabled, and the next configuration may drop a binding
  whose operation is still unconfirmed; with the binding enabled the same configuration is refused.\<close>

theorem disabled_bindings_unchecked:
  "apply_catalog codecX kclocksX [] dbU = Inl IntegrationBusy \<and>
   \<not> isl (apply_catalog codecX kclocksX [] (disable_bindings dbU))"
  by (simp add: apply_catalog_def kclocksX_def load_stored_bindings_def workspace_exists_def check_existing_def
      binding_has_blocking_operation_def disable_bindings_def update_bindings_def binding_check_def ic_key_def
      external_simps external_scenario scenario check_simps statement_simps x_key_def blocking_def)

end
