(* ===== verification/Limits.thy ===== *)
theory Limits
  imports Protocol_Core Paging "HOL-Library.AList"
begin

text \<open>
  The limiters of \<^verbatim>\<open>src/router.rs\<close>: the token bucket of a credential, the sliding window of
  enrollment attempts and the pre-authentication counters. Times are nanoseconds of a monotonic
  clock; \<^verbatim>\<open>duration_since\<close> is the truncated difference.
\<close>

section \<open>The token bucket of a credential\<close>

definition CREDENTIAL_MESSAGES_PER_SECOND :: nat where "CREDENTIAL_MESSAGES_PER_SECOND = 20"
definition CREDENTIAL_MESSAGE_BURST :: nat where "CREDENTIAL_MESSAGE_BURST = 40"
definition UNIT :: nat where "UNIT = 1000000000"

record credential_bucket =
  cb_available_units :: nat
  cb_updated_at :: nat

definition bucket_new :: "nat \<Rightarrow> credential_bucket" where
  "bucket_new now = \<lparr>cb_available_units = CREDENTIAL_MESSAGE_BURST * UNIT, cb_updated_at = now\<rparr>"

text \<open>The arithmetic is on \<^verbatim>\<open>u128\<close> and saturates; \<open>u64::try_from\<close> falls back to the capacity.\<close>

definition saturate128 :: "nat \<Rightarrow> nat" where
  "saturate128 n = min n (2 ^ 128 - 1)"

definition bucket_allow :: "nat \<Rightarrow> credential_bucket \<Rightarrow> credential_bucket \<times> bool" where
  "bucket_allow now b =
     (let elapsed_units = saturate128 ((now - cb_updated_at b) * CREDENTIAL_MESSAGES_PER_SECOND);
          capacity = CREDENTIAL_MESSAGE_BURST * UNIT;
          refilled = min (saturate128 (cb_available_units b + elapsed_units)) capacity;
          available = (if refilled < 2 ^ 64 then refilled else capacity)
      in if available < UNIT
         then (\<lparr>cb_available_units = available, cb_updated_at = now\<rparr>, False)
         else (\<lparr>cb_available_units = available - UNIT, cb_updated_at = now\<rparr>, True))"

text \<open>A sequence of messages at the given ts: how many the bucket lets through.\<close>

fun bucket_run :: "nat list \<Rightarrow> credential_bucket \<Rightarrow> credential_bucket \<times> nat" where
  "bucket_run [] b = (b, 0)"
| "bucket_run (now # ts) b =
     (case bucket_allow now b of (b1, ok) \<Rightarrow>
      case bucket_run ts b1 of (b2, n) \<Rightarrow> (b2, if ok then Suc n else n))"

lemmas bucket_simps = CREDENTIAL_MESSAGES_PER_SECOND_def CREDENTIAL_MESSAGE_BURST_def UNIT_def

text \<open>The saturation is never reached below the capacity.\<close>

lemma min_saturated:
  fixes a x c M :: nat
  shows "c \<le> M \<Longrightarrow> min (min (a + min x M) M) c = min (a + x) c"
  by (auto simp: min_def)

lemma bucket_allow_eq:
  "bucket_allow now b =
     (let available = min (cb_available_units b + (now - cb_updated_at b) * CREDENTIAL_MESSAGES_PER_SECOND)
            (CREDENTIAL_MESSAGE_BURST * UNIT)
      in if available < UNIT then (\<lparr>cb_available_units = available, cb_updated_at = now\<rparr>, False)
         else (\<lparr>cb_available_units = available - UNIT, cb_updated_at = now\<rparr>, True))"
proof -
  have c: "CREDENTIAL_MESSAGE_BURST * UNIT \<le> 2 ^ 128 - 1" "CREDENTIAL_MESSAGE_BURST * UNIT < 2 ^ 64"
    by (simp_all add: bucket_simps)
  have "min x (CREDENTIAL_MESSAGE_BURST * UNIT) < 2 ^ 64" for x
    by (rule min.strict_coboundedI2 [OF c(2)])
  then show ?thesis
    unfolding bucket_allow_def saturate128_def Let_def min_saturated [OF c(1)] by simp
qed

lemma bucket_allow_bound:
  assumes "bucket_allow now b = (b1, ok)"
  shows "cb_available_units b1 + (if ok then UNIT else 0) \<le>
      cb_available_units b + (now - cb_updated_at b) * CREDENTIAL_MESSAGES_PER_SECOND"
    and "cb_available_units b1 \<le> CREDENTIAL_MESSAGE_BURST * UNIT" and "cb_updated_at b1 = now"
  using assms by (auto simp: bucket_allow_eq Let_def split: if_splits)

text \<open>The potential of the bucket pays for every message it lets through.\<close>

lemma bucket_run_bound:
  assumes "bucket_run ts b = (b', n)" and "sorted (cb_updated_at b # ts)"
    and "\<forall>t\<in>set ts. t \<le> t1"
    and "cb_updated_at b \<le> t1"
  shows "n * UNIT \<le> cb_available_units b + (t1 - cb_updated_at b) * CREDENTIAL_MESSAGES_PER_SECOND"
  using assms
proof (induction ts arbitrary: b b' n)
  case (Cons now ts)
  obtain b1 ok where al: "bucket_allow now b = (b1, ok)" by fastforce
  obtain b2 m where rest: "bucket_run ts b1 = (b2, m)" by fastforce
  note one = bucket_allow_bound [OF al]
  have n: "n = (if ok then Suc m else m)" using Cons.prems(1) al rest by auto
  have "m * UNIT \<le> cb_available_units b1 + (t1 - now) * CREDENTIAL_MESSAGES_PER_SECOND"
    using Cons.IH [OF rest] Cons.prems(2,3) one(3) by auto
  moreover have "(t1 - now) + (now - cb_updated_at b) = t1 - cb_updated_at b"
    using Cons.prems(2,3) by auto
  then have "(t1 - now) * CREDENTIAL_MESSAGES_PER_SECOND + (now - cb_updated_at b) * CREDENTIAL_MESSAGES_PER_SECOND
      = (t1 - cb_updated_at b) * CREDENTIAL_MESSAGES_PER_SECOND"
    by (metis add_mult_distrib)
  ultimately show ?case using one(1) by (auto simp: n split: if_splits)
qed simp

text \<open>A message after a pause of at least one refill period is let through.\<close>

lemma bucket_allow_paced:
  assumes "UNIT \<le> (now - cb_updated_at b) * CREDENTIAL_MESSAGES_PER_SECOND"
  shows "snd (bucket_allow now b)"
proof -
  have "UNIT \<le> CREDENTIAL_MESSAGE_BURST * UNIT" by (simp add: bucket_simps)
  with assms have "\<not> min (cb_available_units b + (now - cb_updated_at b) * CREDENTIAL_MESSAGES_PER_SECOND)
      (CREDENTIAL_MESSAGE_BURST * UNIT) < UNIT"
    unfolding not_less min.bounded_iff by (blast intro: trans_le_add2)
  then show ?thesis unfolding bucket_allow_eq Let_def by (simp only: if_False snd_conv)
qed

section \<open>The sliding window of enrollment attempts\<close>

datatype ip_addr = V4 "32 word" | V6 "128 word"

definition ENROLLMENT_GLOBAL_PER_MINUTE :: nat where "ENROLLMENT_GLOBAL_PER_MINUTE = 60"
definition ENROLLMENT_PEER_PER_MINUTE :: nat where "ENROLLMENT_PEER_PER_MINUTE = 10"
definition ENROLLMENT_PEER_LIMIT :: nat where "ENROLLMENT_PEER_LIMIT = 1024"
definition ENROLLMENT_WINDOW :: nat where "ENROLLMENT_WINDOW = 60000000000"

text \<open>A \<^verbatim>\<open>HashMap\<close> of counters is an association list with distinct keys.\<close>

type_synonym counters = "(ip_addr \<times> nat) list"

record enrollment_rate =
  rt_recent :: "(nat \<times> ip_addr) list"
  rt_peers :: counters

definition rate_default :: enrollment_rate where
  "rate_default = \<lparr>rt_recent = [], rt_peers = []\<rparr>"

definition uncount :: "ip_addr \<Rightarrow> counters \<Rightarrow> counters" where
  "uncount peer peers =
     (case map_of peers peer of
        None \<Rightarrow> peers
      | Some n \<Rightarrow> if n - 1 = 0 then AList.delete peer peers else AList.update peer (n - 1) peers)"

definition peer_count :: "counters \<Rightarrow> ip_addr \<Rightarrow> nat" where
  "peer_count peers peer = (case map_of peers peer of None \<Rightarrow> 0 | Some n \<Rightarrow> n)"

fun expire_recent :: "nat \<Rightarrow> (nat \<times> ip_addr) list \<Rightarrow> counters \<Rightarrow> (nat \<times> ip_addr) list \<times> counters" where
  "expire_recent now [] peers = ([], peers)"
| "expire_recent now ((at, peer) # recent) peers =
     (if ENROLLMENT_WINDOW \<le> now - at then expire_recent now recent (uncount peer peers)
      else ((at, peer) # recent, peers))"

definition rate_record :: "ip_addr \<Rightarrow> nat \<Rightarrow> enrollment_rate \<Rightarrow> enrollment_rate \<times> bool" where
  "rate_record peer now rate =
     (let (recent, peers) = expire_recent now (rt_recent rate) (rt_peers rate) in
      if ENROLLMENT_GLOBAL_PER_MINUTE \<le> length recent \<or>
         ENROLLMENT_PEER_PER_MINUTE \<le> peer_count peers peer \<or>
         (map_of peers peer = None \<and> ENROLLMENT_PEER_LIMIT \<le> length peers)
      then (\<lparr>rt_recent = recent, rt_peers = peers\<rparr>, False)
      else (\<lparr>rt_recent = recent @ [(now, peer)],
             rt_peers = AList.update peer (peer_count peers peer + 1) peers\<rparr>, True))"

text \<open>The counters count the entries of the window.\<close>

definition counts_ok :: "(nat \<times> ip_addr) list \<Rightarrow> counters \<Rightarrow> bool" where
  "counts_ok recent peers \<longleftrightarrow> distinct (map fst peers) \<and>
     (\<forall>p. map_of peers p = (let n = count_where (\<lambda>e. snd e = p) recent in if n = 0 then None else Some n))"

lemma counts_ok_peer_count:
  "counts_ok recent peers \<Longrightarrow> peer_count peers p = count_where (\<lambda>e. snd e = p) recent"
  by (simp add: counts_ok_def peer_count_def Let_def)

lemma count_where_Cons [simp]:
  "count_where P (x # xs) = (if P x then Suc (count_where P xs) else count_where P xs)"
  by (simp add: count_where_def)

lemma count_where_append [simp]: "count_where P (xs @ ys) = count_where P xs + count_where P ys"
  by (simp add: count_where_def)

lemma count_where_Nil [simp]: "count_where P [] = 0"
  by (simp add: count_where_def)

lemma counts_ok_uncount:
  assumes "counts_ok ((at, p) # recent) peers"
  shows "counts_ok recent (uncount p peers)"
proof -
  have m: "map_of peers p = Some (Suc (count_where (\<lambda>e. snd e = p) recent))"
    and d: "distinct (map fst peers)"
    and o: "\<And>q. q \<noteq> p \<Longrightarrow> map_of peers q =
        (let n = count_where (\<lambda>e. snd e = q) recent in if n = 0 then None else Some n)"
    using assms by (auto simp: counts_ok_def Let_def split: if_splits)
  show ?thesis
    by (auto simp: counts_ok_def uncount_def m o Let_def d AList.distinct_delete AList.distinct_update
      delete_conv' update_conv' split: if_splits)
qed

lemma counts_ok_count:
  assumes "counts_ok recent peers"
  shows "counts_ok (recent @ [(now, p)]) (AList.update p (peer_count peers p + 1) peers)"
  using assms by (auto simp: counts_ok_def counts_ok_peer_count [OF assms] update_conv'
    AList.distinct_update Let_def)

lemma expire_recent_window:
  assumes "counts_ok recent peers" and "sorted (map fst recent)"
  shows "\<exists>peers'. expire_recent now recent peers =
      (filter (\<lambda>(at, _). now - at < ENROLLMENT_WINDOW) recent, peers') \<and>
    counts_ok (filter (\<lambda>(at, _). now - at < ENROLLMENT_WINDOW) recent) peers'"
  using assms
proof (induction recent arbitrary: peers)
  case (Cons e recent)
  obtain at p where e: "e = (at, p)" by fastforce
  show ?case
  proof (cases "ENROLLMENT_WINDOW \<le> now - at")
    case True
    with Cons.IH [OF counts_ok_uncount [OF Cons.prems(1) [unfolded e]]] Cons.prems(2)
    show ?thesis by (auto simp: e)
  next
    case False
    then have "\<forall>x\<in>set recent. now - fst x < ENROLLMENT_WINDOW"
      using Cons.prems(2) by (fastforce simp: e)
    then have "filter (\<lambda>(at, _). now - at < ENROLLMENT_WINDOW) recent = recent"
      by (auto simp: filter_id_conv)
    with False Cons.prems(1) show ?thesis by (simp add: e)
  qed
qed simp

text \<open>Fewer peers than entries, so the peer table never fills.\<close>

lemma counts_ok_length:
  assumes "counts_ok recent peers"
  shows "length peers \<le> length recent"
proof -
  have "set (map fst peers) \<subseteq> set (map snd recent)"
  proof
    fix p assume "p \<in> set (map fst peers)"
    then have "map_of peers p \<noteq> None" by (simp add: map_of_eq_None_iff)
    with assms have "count_where (\<lambda>e. snd e = p) recent \<noteq> 0"
      by (auto simp: counts_ok_def Let_def split: if_splits)
    then show "p \<in> set (map snd recent)" by (auto simp: count_where_def filter_empty_conv)
  qed
  moreover have "length peers = card (set (map fst peers))"
    using assms distinct_card [of "map fst peers"] by (simp add: counts_ok_def)
  ultimately show ?thesis
    by (metis card_mono card_length dual_order.trans finite_set length_map)
qed

text \<open>The abstract window: what was accepted within the last minute decides.\<close>

definition in_window :: "nat \<Rightarrow> (nat \<times> ip_addr) list \<Rightarrow> (nat \<times> ip_addr) list" where
  "in_window now accepted = filter (\<lambda>(at, _). now - at < ENROLLMENT_WINDOW) accepted"

definition window_admits :: "(nat \<times> ip_addr) list \<Rightarrow> ip_addr \<Rightarrow> nat \<Rightarrow> bool" where
  "window_admits accepted peer now \<longleftrightarrow>
     length (in_window now accepted) < ENROLLMENT_GLOBAL_PER_MINUTE \<and>
     count_where (\<lambda>e. snd e = peer) (in_window now accepted) < ENROLLMENT_PEER_PER_MINUTE"

text \<open>The state represents an accepted history as of the last call.\<close>

definition represents :: "nat \<Rightarrow> (nat \<times> ip_addr) list \<Rightarrow> enrollment_rate \<Rightarrow> bool" where
  "represents now accepted rate \<longleftrightarrow>
     sorted (map fst accepted) \<and> (\<forall>e\<in>set accepted. fst e \<le> now) \<and>
     rt_recent rate = in_window now accepted \<and> counts_ok (rt_recent rate) (rt_peers rate) \<and>
     length (rt_recent rate) \<le> ENROLLMENT_GLOBAL_PER_MINUTE"

lemma in_window_later:
  "now \<le> later \<Longrightarrow> in_window later (in_window now accepted) = in_window later accepted"
  by (auto simp: in_window_def intro!: filter_cong)

lemma sorted_in_window: "sorted (map fst accepted) \<Longrightarrow> sorted (map fst (in_window now accepted))"
  unfolding in_window_def by (rule sorted_filter)

lemma in_window_snoc:
  "in_window now (accepted @ [(now, p)]) = in_window now accepted @ [(now, p)]"
  by (simp add: in_window_def ENROLLMENT_WINDOW_def)

lemma represents_default: "represents now [] rate_default"
  by (simp add: represents_def rate_default_def in_window_def counts_ok_def)

lemma rate_record_refines:
  assumes rep: "represents now accepted rate" and mono: "now \<le> later"
  shows "snd (rate_record peer later rate) = window_admits accepted peer later"
    and "represents later (if window_admits accepted peer later then accepted @ [(later, peer)] else accepted)
      (fst (rate_record peer later rate))"
proof -
  let ?w = "in_window later accepted"
  have w: "filter (\<lambda>(at, _). later - at < ENROLLMENT_WINDOW) (rt_recent rate) = ?w"
    using rep in_window_later [OF mono, of accepted] by (simp add: represents_def in_window_def)
  obtain peers where ex: "expire_recent later (rt_recent rate) (rt_peers rate) = (?w, peers)"
    and ok: "counts_ok ?w peers"
    using expire_recent_window [of "rt_recent rate" "rt_peers rate" later] rep w
    by (auto simp: represents_def sorted_in_window)
  have small: "length ?w \<le> ENROLLMENT_GLOBAL_PER_MINUTE"
    using rep length_filter_le [of "\<lambda>(at, _). later - at < ENROLLMENT_WINDOW" "rt_recent rate"]
    unfolding w represents_def by linarith
  then have roomy: "\<not> ENROLLMENT_PEER_LIMIT \<le> length peers"
    using counts_ok_length [OF ok] by (simp add: ENROLLMENT_PEER_LIMIT_def ENROLLMENT_GLOBAL_PER_MINUTE_def)
  have rec: "rate_record peer later rate =
      (if window_admits accepted peer later
       then (\<lparr>rt_recent = ?w @ [(later, peer)], rt_peers = AList.update peer (peer_count peers peer + 1) peers\<rparr>, True)
       else (\<lparr>rt_recent = ?w, rt_peers = peers\<rparr>, False))"
    using roomy by (auto simp: rate_record_def ex window_admits_def counts_ok_peer_count [OF ok])
  then show "snd (rate_record peer later rate) = window_admits accepted peer later" by simp
  from rep mono have "sorted (map fst accepted)" "\<forall>e\<in>set accepted. fst e \<le> later"
    by (auto simp: represents_def)
  with ok small counts_ok_count [OF ok, of later peer]
  show "represents later (if window_admits accepted peer later then accepted @ [(later, peer)] else accepted)
      (fst (rate_record peer later rate))"
    by (auto simp: rec represents_def in_window_snoc sorted_append window_admits_def)
qed

text \<open>A run of attempts and what it accepted.\<close>

fun rate_run :: "(nat \<times> ip_addr) list \<Rightarrow> enrollment_rate \<Rightarrow> enrollment_rate \<times> (nat \<times> ip_addr) list" where
  "rate_run [] rate = (rate, [])"
| "rate_run ((now, peer) # attempts) rate =
     (case rate_record peer now rate of (rate1, ok) \<Rightarrow>
      case rate_run attempts rate1 of (rate2, accepted) \<Rightarrow>
        (rate2, if ok then (now, peer) # accepted else accepted))"

text \<open>Every minute of the accepted history is within the limits.\<close>

definition minute :: "nat \<Rightarrow> nat \<times> ip_addr \<Rightarrow> bool" where
  "minute t e \<longleftrightarrow> t \<le> fst e \<and> fst e < t + ENROLLMENT_WINDOW"

definition within_limits :: "(nat \<times> ip_addr) list \<Rightarrow> bool" where
  "within_limits accepted \<longleftrightarrow>
     (\<forall>t. count_where (minute t) accepted \<le> ENROLLMENT_GLOBAL_PER_MINUTE \<and>
        (\<forall>peer. count_where (\<lambda>e. minute t e \<and> snd e = peer) accepted \<le> ENROLLMENT_PEER_PER_MINUTE))"

lemma count_where_mono:
  "(\<And>x. x \<in> set xs \<Longrightarrow> P x \<Longrightarrow> Q x) \<Longrightarrow> count_where P xs \<le> count_where Q xs"
  by (induction xs) (auto intro: le_SucI)

lemma count_where_filter: "count_where P (filter Q xs) = count_where (\<lambda>x. Q x \<and> P x) xs"
  by (simp add: count_where_def conj_commute)

lemma within_limits_snoc:
  assumes ok: "within_limits accepted" and old: "\<forall>e\<in>set accepted. fst e \<le> now"
    and adm: "window_admits accepted peer now"
  shows "within_limits (accepted @ [(now, peer)])"
proof -
  have all: "count_where (minute t) accepted \<le> length (in_window now accepted)"
    and per: "count_where (\<lambda>e. minute t e \<and> snd e = p) accepted \<le>
      count_where (\<lambda>e. snd e = p) (in_window now accepted)" if "minute t (now, peer)" for t p
  proof -
    have "now - fst e < ENROLLMENT_WINDOW" if "e \<in> set accepted" "minute t e" for e
      using that \<open>minute t (now, peer)\<close> by (auto simp: minute_def)
    then have w: "(case e of (at, uu) \<Rightarrow> now - at < ENROLLMENT_WINDOW)" if "e \<in> set accepted" "minute t e" for e
      using that by (cases e) auto
    have "length (in_window now accepted) = count_where (\<lambda>(at, _). now - at < ENROLLMENT_WINDOW) accepted"
      by (simp add: in_window_def count_where_def)
    then show "count_where (minute t) accepted \<le> length (in_window now accepted)"
      using count_where_mono [of accepted "minute t"] w by fastforce
    show "count_where (\<lambda>e. minute t e \<and> snd e = p) accepted \<le>
        count_where (\<lambda>e. snd e = p) (in_window now accepted)"
      unfolding in_window_def count_where_filter by (rule count_where_mono) (use w in blast)
  qed
  show ?thesis
    unfolding within_limits_def
  proof (intro allI conjI)
    fix t
    show "count_where (minute t) (accepted @ [(now, peer)]) \<le> ENROLLMENT_GLOBAL_PER_MINUTE"
      using all [of t] adm ok by (auto simp: window_admits_def within_limits_def)
    fix p
    show "count_where (\<lambda>e. minute t e \<and> snd e = p) (accepted @ [(now, peer)]) \<le> ENROLLMENT_PEER_PER_MINUTE"
      using per [of t p] adm ok by (auto simp: window_admits_def within_limits_def)
  qed
qed

lemma rate_run_limits:
  assumes "represents now accepted rate" and "within_limits accepted"
    and "sorted (now # map fst attempts)" and "rate_run attempts rate = (rate', acc)"
  shows "within_limits (accepted @ acc)"
  using assms
proof (induction attempts arbitrary: now accepted rate acc rate')
  case (Cons a attempts)
  obtain later peer where a: "a = (later, peer)" by fastforce
  obtain rate1 ok where one: "rate_record peer later rate = (rate1, ok)" by fastforce
  obtain rate2 rest where run: "rate_run attempts rate1 = (rate2, rest)" by fastforce
  from Cons.prems(3) have le: "now \<le> later" and srt: "sorted (later # map fst attempts)" by (auto simp: a)
  note ref = rate_record_refines [OF Cons.prems(1) le, of peer, unfolded one fst_conv snd_conv]
  have acc: "acc = (if ok then (later, peer) # rest else rest)"
    using Cons.prems(4) by (simp add: a one run)
  show ?case
  proof (cases ok)
    case True
    have "within_limits (accepted @ [(later, peer)])"
      by (rule within_limits_snoc [OF Cons.prems(2)])
         (use Cons.prems(1) le ref(1) True in \<open>auto simp: represents_def\<close>)
    from Cons.IH [OF _ this srt run] ref True show ?thesis by (simp add: acc)
  next
    case False
    from Cons.IH [OF _ Cons.prems(2) srt run] ref False show ?thesis by (simp add: acc)
  qed
qed simp

text \<open>The state after a run represents what the run accepted.\<close>

lemma rate_run_represents:
  assumes "represents now accepted rate" and "sorted (now # map fst tries)"
    and "rate_run tries rate = (rate', acc)"
  shows "represents (last (now # map fst tries)) (accepted @ acc) rate'"
  using assms
proof (induction tries arbitrary: now accepted rate acc rate')
  case (Cons a tries)
  obtain later peer where a: "a = (later, peer)" by fastforce
  obtain rate1 ok where one: "rate_record peer later rate = (rate1, ok)" by fastforce
  obtain rate2 rest where run: "rate_run tries rate1 = (rate2, rest)" by fastforce
  from Cons.prems(2) have le: "now \<le> later" and srt: "sorted (later # map fst tries)" by (auto simp: a)
  note ref = rate_record_refines [OF Cons.prems(1) le, of peer, unfolded one fst_conv snd_conv]
  from Cons.IH [OF ref(2) srt run] ref(1) Cons.prems(3) show ?case
    by (auto simp: a one run split: if_splits)
qed simp

section \<open>Connections before authentication\<close>

definition DIRECT_PREAUTH_PER_IP_LIMIT :: nat where "DIRECT_PREAUTH_PER_IP_LIMIT = 8"
definition TAILSCALE_SERVE_PREAUTH_LIMIT :: nat where "TAILSCALE_SERVE_PREAUTH_LIMIT = 32"

text \<open>Behind a reverse proxy a semaphore of another crate counts; its operation is the argument
  \<open>sem_try\<close>. Directly exposed, the router counts per address.\<close>

datatype 'sem pre_auth_limiter = PreDirect counters | PreTailscale 'sem

definition pre_auth_try_acquire ::
  "('sem \<Rightarrow> 'sem option) \<Rightarrow> ip_addr \<Rightarrow> 'sem pre_auth_limiter \<Rightarrow> 'sem pre_auth_limiter option" where
  "pre_auth_try_acquire sem_try peer limiter =
     (case limiter of
        PreDirect counts \<Rightarrow>
          (if DIRECT_PREAUTH_PER_IP_LIMIT \<le> peer_count counts peer then None
           else Some (PreDirect (AList.update peer (peer_count counts peer + 1) counts)))
      | PreTailscale slots \<Rightarrow> map_option PreTailscale (sem_try slots))"

definition pre_auth_drop ::
  "('sem \<Rightarrow> 'sem) \<Rightarrow> ip_addr \<Rightarrow> 'sem pre_auth_limiter \<Rightarrow> 'sem pre_auth_limiter" where
  "pre_auth_drop sem_release peer limiter =
     (case limiter of
        PreDirect counts \<Rightarrow> PreDirect (uncount peer counts)
      | PreTailscale slots \<Rightarrow> PreTailscale (sem_release slots))"

text \<open>The counters agree with the permits that are out.\<close>

lemma pre_auth_acquire_counts:
  assumes "counts_ok held counts"
    and "pre_auth_try_acquire st peer (PreDirect counts) = Some limiter"
  shows "\<exists>counts'. limiter = PreDirect counts' \<and> counts_ok (held @ [(t, peer)]) counts' \<and>
    count_where (\<lambda>e. snd e = peer) (held @ [(t, peer)]) \<le> DIRECT_PREAUTH_PER_IP_LIMIT"
  using assms counts_ok_count [OF assms(1), of t peer]
  by (auto simp: pre_auth_try_acquire_def counts_ok_peer_count split: if_splits)

lemma counts_ok_perm:
  "counts_ok held counts \<Longrightarrow> (\<And>p. count_where (\<lambda>e. snd e = p) held' = count_where (\<lambda>e. snd e = p) held) \<Longrightarrow>
     counts_ok held' counts"
  by (simp add: counts_ok_def)

lemma pre_auth_drop_counts:
  assumes "counts_ok (held @ (t, peer) # rest) counts"
  shows "\<exists>counts'. pre_auth_drop sr peer (PreDirect counts) = PreDirect counts' \<and> counts_ok (held @ rest) counts'"
proof -
  have "counts_ok ((t, peer) # held @ rest) counts" by (rule counts_ok_perm [OF assms]) simp
  from counts_ok_uncount [OF this] show ?thesis by (simp add: pre_auth_drop_def)
qed

end
