(* ===== verification/Response_Budget.thy ===== *)
theory Response_Budget
  imports Event_Log
begin

text \<open>
  The response budget of \<^verbatim>\<open>src/router.rs\<close>: \<^verbatim>\<open>largest_response_prefix\<close> searches the largest prefix of
  a page whose JSON fits \<^verbatim>\<open>MAX_RESPONSE_BYTES\<close>, and the \<^verbatim>\<open>bound_*\<close> functions cut a page to it. The
  size of the JSON is an argument; \<open>None\<close> stands for an encoder that fails.
\<close>

section \<open>Errors of the actor\<close>

record actor_error =
  ae_code :: router_error_code
  ae_workspace :: "workspace_name option"
  ae_operation_id :: "uuid option"
  ae_current_version :: "int option"

definition actor_code :: "router_error_code \<Rightarrow> actor_error" where
  "actor_code code =
     \<lparr>ae_code = code, ae_workspace = None, ae_operation_id = None, ae_current_version = None\<rparr>"

definition actor_store :: "store_error \<Rightarrow> actor_error" where
  "actor_store e = actor_code (store_error_code e)"

section \<open>The search\<close>

definition MAX_RESPONSE_BYTES :: nat where "MAX_RESPONSE_BYTES = 256 * 1024"

function prefix_search :: "(nat \<Rightarrow> actor_error + nat) \<Rightarrow> nat \<Rightarrow> nat \<Rightarrow> actor_error + nat" where
  "prefix_search encoded_size low high =
     (if low < high then
        let middle = low + (high - low + 1) div 2 in
        case encoded_size middle of
          Inl e \<Rightarrow> Inl e
        | Inr sz \<Rightarrow>
            if sz \<le> MAX_RESPONSE_BYTES then prefix_search encoded_size middle high
            else prefix_search encoded_size low (middle - 1)
      else Inr low)"
  by pat_completeness auto
termination
  by (relation "measure (\<lambda>(_, low, high). high - low)") auto

declare prefix_search.simps [simp del]

definition largest_response_prefix :: "nat \<Rightarrow> (nat \<Rightarrow> actor_error + nat) \<Rightarrow> actor_error + nat" where
  "largest_response_prefix item_count encoded_size =
     bindR (encoded_size 0) (\<lambda>empty.
     bindR (guardR (\<not> empty > MAX_RESPONSE_BYTES) (actor_code MessageTooLarge)) (\<lambda>_.
     bindR (prefix_search encoded_size 0 item_count) (\<lambda>low.
     if 0 < item_count \<and> low = 0 then Inl (actor_code MessageTooLarge) else Inr low)))"

text \<open>The shape the four \<^verbatim>\<open>bound_*\<close> functions share: \<open>encoded rows cursor has_more\<close> is the length of the
  response with these rows.\<close>

definition bound_page ::
  "('r list \<Rightarrow> 'k \<Rightarrow> bool \<Rightarrow> nat option) \<Rightarrow> ('r \<Rightarrow> 'k) \<Rightarrow> 'r list \<Rightarrow> 'k \<Rightarrow> bool \<Rightarrow>
     actor_error + 'r list \<times> 'k \<times> bool" where
  "bound_page encoded key rows input_cursor source_has_more =
     (let item_count = length rows in
     bindR (largest_response_prefix item_count (\<lambda>count.
              ok_or (encoded (take count rows) (next_cursor key input_cursor (take count rows))
                       (source_has_more \<or> count < item_count)) (actor_code StorageError))) (\<lambda>count.
     Inr (take count rows, next_cursor key input_cursor (take count rows),
          source_has_more \<or> count < item_count)))"

definition bound_history_page ::
  "(workspace_event list \<Rightarrow> int \<Rightarrow> bool \<Rightarrow> nat option) \<Rightarrow> workspace_event list \<Rightarrow> int \<Rightarrow> bool \<Rightarrow>
     actor_error + workspace_event list \<times> int \<times> bool" where
  "bound_history_page encoded evs input_cursor source_has_more =
     bound_page encoded we_seq evs input_cursor source_has_more"

definition bound_task_list ::
  "(task_summary list \<Rightarrow> int \<Rightarrow> bool \<Rightarrow> nat option) \<Rightarrow> task_summary list \<Rightarrow> int \<Rightarrow> bool \<Rightarrow>
     actor_error + task_summary list \<times> int \<times> bool" where
  "bound_task_list encoded ts input_cursor source_has_more =
     bound_page encoded ts_id ts input_cursor source_has_more"

section \<open>The search finds the largest prefix\<close>

text \<open>Whatever the sizes are, the result fits and lies between the bounds.\<close>

lemma prefix_search_fits:
  assumes "prefix_search es low high = Inr k" and "low \<le> high"
    and "es low = Inr n" and "n \<le> MAX_RESPONSE_BYTES"
  shows "low \<le> k \<and> k \<le> high \<and> (\<exists>m. es k = Inr m \<and> m \<le> MAX_RESPONSE_BYTES)"
  using assms
proof (induction es low high arbitrary: n rule: prefix_search.induct)
  case (1 es low high)
  show ?case
  proof (cases "low < high")
    case True
    let ?mid = "low + (high - low + 1) div 2"
    have mid: "low < ?mid" "?mid \<le> high" using True by auto
    from "1.prems"(1) True obtain n1 where sz: "es ?mid = Inr n1"
      by (auto simp: prefix_search.simps [of es low high] Let_def split: sum.splits)
    show ?thesis
    proof (cases "n1 \<le> MAX_RESPONSE_BYTES")
      case fits: True
      with "1.prems"(1) True sz have "prefix_search es ?mid high = Inr k"
        by (simp add: prefix_search.simps [of es low high] Let_def)
      from "1.IH"(1) [OF True refl sz fits this mid(2) sz fits] mid show ?thesis by auto
    next
      case False
      with "1.prems"(1) True sz have "prefix_search es low (?mid - 1) = Inr k"
        by (simp add: prefix_search.simps [of es low high] Let_def)
      moreover from mid(1) have "low \<le> ?mid - 1" by linarith
      ultimately have "low \<le> k \<and> k \<le> ?mid - 1 \<and> (\<exists>m. es k = Inr m \<and> m \<le> MAX_RESPONSE_BYTES)"
        by (rule "1.IH"(2) [OF True refl sz False _ _ "1.prems"(3,4)])
      with mid(2) show ?thesis by auto
    qed
  next
    case False
    with "1.prems" show ?thesis by (auto simp: prefix_search.simps [of es low high])
  qed
qed

lemma prefix_search_total:
  assumes "\<And>i. i \<le> high \<Longrightarrow> \<exists>n. es i = Inr n"
  shows "\<exists>k. prefix_search es low high = Inr k"
  using assms
proof (induction es low high rule: prefix_search.induct)
  case (1 es low high)
  show ?case
  proof (cases "low < high")
    case True
    let ?mid = "low + (high - low + 1) div 2"
    from True have le: "?mid \<le> high" by auto
    with "1.prems" obtain n1 where sz: "es ?mid = Inr n1" by blast
    have "\<exists>k. prefix_search es ?mid high = Inr k" if "n1 \<le> MAX_RESPONSE_BYTES"
      by (rule "1.IH"(1) [OF True refl sz that "1.prems"])
    moreover have "\<exists>k. prefix_search es low (?mid - 1) = Inr k" if "\<not> n1 \<le> MAX_RESPONSE_BYTES"
      by (rule "1.IH"(2) [OF True refl sz that]) (use "1.prems" le in auto)
    ultimately show ?thesis using True sz by (simp add: prefix_search.simps [of es low high] Let_def)
  next
    case False
    then show ?thesis by (simp add: prefix_search.simps [of es low high])
  qed
qed

text \<open>When sizes grow with the prefix, no longer prefix fits.\<close>

lemma prefix_search_largest:
  assumes "prefix_search es low high = Inr k" and "low \<le> high" and "j \<le> high" and "k < j"
    and "es j = Inr m"
    and mono: "\<And>i i' n n'. i \<le> i' \<Longrightarrow> es i = Inr n \<Longrightarrow> es i' = Inr n' \<Longrightarrow> n \<le> n'"
  shows "MAX_RESPONSE_BYTES < m"
  using assms
proof (induction es low high rule: prefix_search.induct)
  case (1 es low high)
  note mono = "1.prems"(6)
  show ?case
  proof (cases "low < high")
    case True
    let ?mid = "low + (high - low + 1) div 2"
    have mid: "low < ?mid" "?mid \<le> high" using True by auto
    from "1.prems"(1) True obtain n1 where sz: "es ?mid = Inr n1"
      by (auto simp: prefix_search.simps [of es low high] Let_def split: sum.splits)
    show ?thesis
    proof (cases "n1 \<le> MAX_RESPONSE_BYTES")
      case fits: True
      with "1.prems"(1) True sz have "prefix_search es ?mid high = Inr k"
        by (simp add: prefix_search.simps [of es low high] Let_def)
      from "1.IH"(1) [OF True refl sz fits this mid(2) "1.prems"(3-5) mono] show ?thesis .
    next
      case False
      with "1.prems"(1) True sz have s: "prefix_search es low (?mid - 1) = Inr k"
        by (simp add: prefix_search.simps [of es low high] Let_def)
      show ?thesis
      proof (cases "j \<le> ?mid - 1")
        case le: True
        show ?thesis
          by (rule "1.IH"(2) [OF True refl sz False s _ le "1.prems"(4,5) mono]) (use mid in auto)
      next
        case ge: False
        then have "n1 \<le> m" by (intro mono [OF _ sz "1.prems"(5)]) auto
        with False show ?thesis by simp
      qed
    qed
  next
    case False
    with "1.prems" show ?thesis by (auto simp: prefix_search.simps [of es low high])
  qed
qed

section \<open>Bounded pages\<close>

lemma largest_response_prefix_ok:
  assumes "largest_response_prefix n es = Inr k"
  shows "k \<le> n \<and> (0 < n \<longrightarrow> 0 < k) \<and> (\<exists>m. es k = Inr m \<and> m \<le> MAX_RESPONSE_BYTES)"
proof -
  from assms obtain e0 where e0: "es 0 = Inr e0" "e0 \<le> MAX_RESPONSE_BYTES"
    and s: "prefix_search es 0 n = Inr k" and "\<not> (0 < n \<and> k = 0)"
    by (auto simp: largest_response_prefix_def result_simps split: if_splits)
  with prefix_search_fits [OF s _ e0] show ?thesis by auto
qed

lemma bound_page_ok:
  assumes "bound_page encoded key rows cursor source_more = Inr (rs, c, m)"
  shows "\<exists>k\<le>length rows. rs = take k rows \<and> (rows \<noteq> [] \<longrightarrow> 0 < k) \<and> c = next_cursor key cursor rs \<and>
    m = (source_more \<or> k < length rows) \<and> (\<exists>n. encoded rs c m = Some n \<and> n \<le> MAX_RESPONSE_BYTES)"
proof -
  from assms obtain k where
    k: "largest_response_prefix (length rows) (\<lambda>count.
        ok_or (encoded (take count rows) (next_cursor key cursor (take count rows))
          (source_more \<or> count < length rows)) (actor_code StorageError)) = Inr k"
    and r: "rs = take k rows" "c = next_cursor key cursor (take k rows)" "m = (source_more \<or> k < length rows)"
    by (auto simp: bound_page_def Let_def result_simps)
  with largest_response_prefix_ok [OF k] show ?thesis by (intro exI [of _ k]) auto
qed

text \<open>When a response with the rows of a page grows with every row, and one with at most one of them fits,
  a cut page is never empty. The rows are from a set \<open>R\<close> and the cursors from a set \<open>C\<close>.\<close>

lemma bound_page_progress:
  assumes longer: "\<And>rs x c m c' m'. set (rs @ [x]) \<subseteq> R \<Longrightarrow> c \<in> C \<Longrightarrow> c' \<in> C \<Longrightarrow>
      bytes rs c m \<le> (bytes (rs @ [x]) c' m' :: nat)"
    and fits: "\<And>rs c m. set rs \<subseteq> R \<Longrightarrow> length rs \<le> 1 \<Longrightarrow> c \<in> C \<Longrightarrow> bytes rs c m \<le> MAX_RESPONSE_BYTES"
    and rs: "set rs \<subseteq> R" and C: "c \<in> C" "key ` R \<subseteq> C"
  shows "\<exists>k\<le>length rs. (rs \<noteq> [] \<longrightarrow> 0 < k) \<and>
    bound_page (\<lambda>rs c m. Some (bytes rs c m)) key rs c src =
      Inr (take k rs, next_cursor key c (take k rs), src \<or> k < length rs)"
proof -
  define es :: "nat \<Rightarrow> actor_error + nat" where
    "es i = Inr (bytes (take i rs) (next_cursor key c (take i rs)) (src \<or> i < length rs))" for i
  have cur: "next_cursor key c (take i rs) \<in> C" for i
    using C rs in_set_takeD [of "last (take i rs)" i rs] by (fastforce simp: next_cursor_def)
  have empty: "bytes [] c m' \<le> MAX_RESPONSE_BYTES" for m' using fits [of "[]"] C by simp
  have step: "bytes (take i rs) c1 m1 \<le> bytes (take (Suc i) rs) c2 m2"
    if "i < length rs" "c1 \<in> C" "c2 \<in> C" for i c1 m1 c2 m2
    using longer [of "take i rs" "rs ! i" c1 c2] that rs in_set_takeD [of _ "Suc i" rs]
    by (fastforce simp: take_Suc_conv_app_nth)
  have mono: "bytes (take i rs) c1 m1 \<le> bytes (take j rs) c2 m2"
    if "i < j" "j \<le> length rs" "c1 \<in> C" "c2 \<in> C" for i j c1 m1 c2 m2
    using that
  proof (induction j arbitrary: c2 m2)
    case (Suc j)
    show ?case
    proof (cases "i = j")
      case True
      with Suc.prems step show ?thesis by simp
    next
      case False
      with Suc.prems have "bytes (take i rs) c1 m1 \<le> bytes (take j rs) c2 m2" by (intro Suc.IH) auto
      also have "\<dots> \<le> bytes (take (Suc j) rs) c2 m2" using Suc.prems by (intro step) simp_all
      finally show ?thesis .
    qed
  qed simp
  obtain k where k: "prefix_search es 0 (length rs) = Inr k"
    using prefix_search_total [of "length rs" es 0] by (auto simp: es_def)
  have pos: "0 < k" if "rs \<noteq> []"
  proof (rule ccontr)
    assume "\<not> 0 < k"
    then have zero: "prefix_search es 0 (length rs) = Inr 0" using k by simp
    have one: "es 1 = Inr (bytes (take 1 rs) (next_cursor key c (take 1 rs)) (src \<or> 1 < length rs))"
      by (simp add: es_def)
    have "MAX_RESPONSE_BYTES < bytes (take 1 rs) (next_cursor key c (take 1 rs)) (src \<or> 1 < length rs)"
    proof (rule prefix_search_largest [OF zero _ _ _ one])
      fix i i' n n'
      assume "i \<le> i'" "es i = Inr n" "es i' = Inr n'"
      moreover have "bytes (take i rs) c1 m1 \<le> bytes (take i' rs) c2 m2"
        if "i < i'" "i < length rs" "c1 \<in> C" "c2 \<in> C" for c1 m1 c2 m2
        using mono [of i "min i' (length rs)"] that by (cases "i' \<le> length rs") simp_all
      ultimately show "n \<le> n'"
        by (cases "i = i' \<or> length rs \<le> i") (auto simp: es_def cur)
    qed (use that in \<open>simp_all add: Suc_le_eq\<close>)
    moreover have "bytes (take 1 rs) (next_cursor key c (take 1 rs)) (src \<or> 1 < length rs) \<le> MAX_RESPONSE_BYTES"
      using fits [of "take 1 rs"] cur rs in_set_takeD [of _ 1 rs] by fastforce
    ultimately show False by simp
  qed
  have "largest_response_prefix (length rs) es = Inr k"
    using k pos empty [THEN leD] by (auto simp: largest_response_prefix_def es_def result_simps next_cursor_def)
  moreover have "k \<le> length rs" using prefix_search_fits [OF k] empty by (auto simp: es_def next_cursor_def)
  ultimately show ?thesis using pos
    by (intro exI [of _ k]) (simp add: bound_page_def Let_def es_def [abs_def] ok_or_def)
qed

text \<open>A client that follows the cursors of cut pages still sees every row.\<close>

context paged_query
begin

lemma collect_bounded_complete:
  assumes "invar s" and "ready s q after" and "1 \<le> limit"
    and "length (filter (\<lambda>r. after < key r) (rows s q)) < fuel"
    and C: "after \<in> C" "key ` set (rows s q) \<subseteq> C"
    and trim: "\<And>c rs cur source_more. page s q c limit = Inr (rs, cur, source_more) \<Longrightarrow> ready s q c \<Longrightarrow>
      c \<in> C \<Longrightarrow> set rs \<subseteq> set (rows s q) \<Longrightarrow>
      \<exists>k\<le>length rs. (rs \<noteq> [] \<longrightarrow> 0 < k) \<and>
        trim rs c source_more = Inr (take k rs, next_cursor key c (take k rs), source_more \<or> k < length rs)"
  shows "collect_pages fuel (\<lambda>c. case page s q c limit of Inl e \<Rightarrow> Inl (err e)
      | Inr (rs, cur, source_more) \<Rightarrow> trim rs c source_more) after =
    Some (Inr (filter (\<lambda>r. after < key r) (rows s q)))"
  using assms(2,4) C(1)
proof (induction fuel arbitrary: after)
  case (Suc n)
  define later where "later = filter (\<lambda>r. after < key r) (rows s q)"
  note page = page_ok [OF assms(1) Suc.prems(1), of limit, folded later_def]
  have "set (take limit later) \<subseteq> set later" by (rule set_take_subset)
  also have "\<dots> \<subseteq> set (rows s q)" unfolding later_def by (rule filter_is_subset)
  finally have "set (take limit later) \<subseteq> set (rows s q)" .
  from trim [OF page Suc.prems(1,3) this] obtain k where k: "k \<le> length (take limit later)"
    "take limit later \<noteq> [] \<longrightarrow> 0 < k"
    and t: "trim (take limit later) after (limit < length later) =
      Inr (take k (take limit later), next_cursor key after (take k (take limit later)),
        limit < length later \<or> k < length (take limit later))"
    by blast
  have "take k (take limit later) = take k later" "(limit < length later \<or> k < length (take limit later)) = (k < length later)"
    using k(1) by (auto simp: min_def split: if_splits)
  with t have c: "trim (take limit later) after (limit < length later) =
      Inr (take k later, next_cursor key after (take k later), k < length later)"
    by simp
  show ?case
  proof (cases "k < length later")
    case False
    then show ?thesis by (simp add: page c later_def [symmetric])
  next
    case True
    then have k1: "1 \<le> k" using k assms(3) by (cases later) auto
    let ?c = "key (last (take k later))"
    have ne: "take k later \<noteq> []" using True k1 by auto
    have rest: "filter (\<lambda>r. ?c < key r) (rows s q) = drop k later"
      using sorted_filter_after [OF rows_sorted [OF assms(1)] k1 later_def True] .
    have "last (take k later) \<in> set later" using ne by (meson in_set_takeD last_in_set)
    then have ready': "ready s q ?c"
      using ready_row [OF assms(1) Suc.prems(1)] by (simp add: later_def)
    have "length (filter (\<lambda>r. ?c < key r) (rows s q)) < n"
      using Suc.prems(2) True k1 by (simp add: rest later_def [symmetric])
    moreover have "?c \<in> C"
      using \<open>last (take k later) \<in> set later\<close> C(2) by (auto simp: later_def)
    ultimately have "collect_pages n (\<lambda>c. case page s q c limit of Inl e \<Rightarrow> Inl (err e)
        | Inr (rs, cur, source_more) \<Rightarrow> trim rs c source_more) ?c =
      Some (Inr (filter (\<lambda>r. ?c < key r) (rows s q)))"
      by (rule Suc.IH [OF ready'])
    then show ?thesis
      using True ne by (simp add: page c next_cursor_def rest later_def [symmetric])
  qed
qed simp

end

end
