(* ===== verification/Router_Types.thy ===== *)
theory Router_Types
  imports External_Finish Task_Replay Limits Response_Budget
begin

text \<open>
  The data of the router actor: the messages of \<^verbatim>\<open>src/protocol.rs\<close> and the state of
  \<^verbatim>\<open>src/router.rs\<close>. A \<^verbatim>\<open>HashMap\<close> is an association list whose order stands for the map's
  iteration order, a \<^verbatim>\<open>HashSet\<close> a list without repetitions.
\<close>

section \<open>Agents\<close>

datatype agent_status = Idle | Busy

datatype delivery_mode = Push | Pull

record agent_registration =
  rg_agent_id :: string
  rg_side :: agent_side
  rg_client :: agent_client
  rg_activity :: "string option"
  rg_delivery_mode :: delivery_mode

record agent_descriptor =
  ad_agent_id :: string
  ad_side :: agent_side
  ad_client :: agent_client
  ad_activity :: "string option"
  ad_status :: agent_status
  ad_delivery_mode :: delivery_mode
  ad_ready :: bool
  ad_session_id :: uuid

record task_dispatch =
  dp_id :: int
  dp_expected_version :: int

record credential_summary =
  cs_claims :: public_claims
  cs_created_at :: int
  cs_revoked_at :: "int option"

record workspace_summary =
  ws_name :: workspace_name
  ws_created_at :: int
  ws_connected_agents :: nat

record history_page =
  hp_workspace :: workspace_name
  hp_events :: "workspace_event list"
  hp_next_cursor :: int
  hp_has_more :: bool

record task_history_event =
  th_seq :: int
  th_actor_id :: string
  th_created_at :: int
  th_event :: task_event
  th_attempt :: "task_attempt option"
  th_report :: "task_report_record option"

record task_history_page =
  hq_workspace :: workspace_name
  hq_task_id :: int
  hq_events :: "task_history_event list"
  hq_next_cursor :: int
  hq_has_more :: bool

datatype registration_role = RegAgent | RegDelegate

datatype task_execution_evidence = ProviderTerminal | ProviderClosed | HostIdle

datatype task_pause_kind = PauseKindPaused | PauseKindBlocked

definition PROTOCOL_VERSION :: nat where "PROTOCOL_VERSION = 2"

section \<open>Messages of a client\<close>

text \<open>The constructors and their fields stand in the order of the source's variants.\<close>

datatype (plugins only: code) client_message =
    MRegister nat agent_registration string "string option"
  | MRegisterDelegate nat string string
  | MRegisterOperator nat string
  | MPing string
  | MReadiness bool
  | MList string
  | MSend string string string "nat option"
  | MReply string bool "string option" "router_error_code option"
  | MWorkIdle string workspace_name string "task_fence option" bool
  | MTaskExecutionStopped string workspace_name int uuid uuid task_execution_evidence pause_reason
  | MCredentialIssue string credential_role string "agent_side option" "agent_client option"
      "workspace_name list"
  | MCredentialList string "uuid option" "nat option"
  | MCredentialRevoke string uuid
  | MOnboardingInviteIssue string workspace_name bool "onboarding_provider option"
  | MOnboardingInviteRevoke string uuid
  | MWorkspaceCreate string workspace_name
  | MWorkspaceList string "string option" "nat option"
  | MWorkspaceJoin string workspace_name
  | MWorkspaceLeave string
  | MWorkspaceMembers string
  | MWorkspacePost string string
  | MWorkspaceHistory string "int option" "nat option"
  | MWorkspaceSubscribe string int
  | MWorkspaceUnsubscribe string
  | MTaskList string workspace_name "task_state list option" "string option" "int option" "nat option"
  | MTaskGet string workspace_name int
  | MTaskHistory string workspace_name int "int option" "nat option"
  | MTaskCreate string workspace_name uuid string string
  | MTaskEdit string workspace_name uuid int int "string option" "string option"
  | MTaskAssign string workspace_name uuid int int "string option"
  | MTaskNote string workspace_name uuid int string
  | MTaskBegin string workspace_name uuid int string int "uuid option" string
  | MTaskCheckpoint string workspace_name uuid int uuid int task_checkpoint
  | MTaskPause string workspace_name uuid int uuid int task_checkpoint task_pause_kind
  | MTaskComplete string workspace_name uuid int uuid int task_checkpoint
  | MTaskCancel string workspace_name uuid int int string
  | MTaskReopen string workspace_name uuid int int string
  | MTaskRequest string workspace_name int int "string option" "nat option"
  | MTaskInterrupt string workspace_name uuid int int string
  | MTaskConfirmStopped string workspace_name uuid int uuid int string
  | MTaskImport string workspace_name external_provider string uuid
  | MTaskLink string workspace_name uuid int int external_provider string bool
  | MTaskPublish string workspace_name uuid int int external_provider external_publish_kind
      "uuid option"
  | MTaskExternalStatus string workspace_name uuid
  | MTaskExternalResolve string workspace_name uuid uuid external_resolution_outcome
      "string option" string
  | MIntegrationList string workspace_name
  | MIntegrationCheck string workspace_name external_provider
  | MIntegrationReload string
  | MRouterShutdown string

fun request_id :: "client_message \<Rightarrow> string option" where
  "request_id (MRegister _ _ _ _) = None"
| "request_id (MRegisterDelegate _ _ _) = None"
| "request_id (MRegisterOperator _ _) = None"
| "request_id (MReadiness _) = None"
| "request_id (MPing r) = Some r"
| "request_id (MList r) = Some r"
| "request_id (MSend r _ _ _) = Some r"
| "request_id (MReply r _ _ _) = Some r"
| "request_id (MWorkIdle r _ _ _ _) = Some r"
| "request_id (MTaskExecutionStopped r _ _ _ _ _ _) = Some r"
| "request_id (MCredentialIssue r _ _ _ _ _) = Some r"
| "request_id (MCredentialList r _ _) = Some r"
| "request_id (MCredentialRevoke r _) = Some r"
| "request_id (MOnboardingInviteIssue r _ _ _) = Some r"
| "request_id (MOnboardingInviteRevoke r _) = Some r"
| "request_id (MWorkspaceCreate r _) = Some r"
| "request_id (MWorkspaceList r _ _) = Some r"
| "request_id (MWorkspaceJoin r _) = Some r"
| "request_id (MWorkspaceLeave r) = Some r"
| "request_id (MWorkspaceMembers r) = Some r"
| "request_id (MWorkspacePost r _) = Some r"
| "request_id (MWorkspaceHistory r _ _) = Some r"
| "request_id (MWorkspaceSubscribe r _) = Some r"
| "request_id (MWorkspaceUnsubscribe r) = Some r"
| "request_id (MTaskList r _ _ _ _ _) = Some r"
| "request_id (MTaskGet r _ _) = Some r"
| "request_id (MTaskHistory r _ _ _ _) = Some r"
| "request_id (MTaskCreate r _ _ _ _) = Some r"
| "request_id (MTaskEdit r _ _ _ _ _ _) = Some r"
| "request_id (MTaskAssign r _ _ _ _ _) = Some r"
| "request_id (MTaskNote r _ _ _ _) = Some r"
| "request_id (MTaskBegin r _ _ _ _ _ _ _) = Some r"
| "request_id (MTaskCheckpoint r _ _ _ _ _ _) = Some r"
| "request_id (MTaskPause r _ _ _ _ _ _ _) = Some r"
| "request_id (MTaskComplete r _ _ _ _ _ _) = Some r"
| "request_id (MTaskCancel r _ _ _ _ _) = Some r"
| "request_id (MTaskReopen r _ _ _ _ _) = Some r"
| "request_id (MTaskRequest r _ _ _ _ _) = Some r"
| "request_id (MTaskInterrupt r _ _ _ _ _) = Some r"
| "request_id (MTaskConfirmStopped r _ _ _ _ _ _) = Some r"
| "request_id (MTaskImport r _ _ _ _) = Some r"
| "request_id (MTaskLink r _ _ _ _ _ _ _) = Some r"
| "request_id (MTaskPublish r _ _ _ _ _ _ _) = Some r"
| "request_id (MTaskExternalStatus r _ _) = Some r"
| "request_id (MTaskExternalResolve r _ _ _ _ _ _) = Some r"
| "request_id (MIntegrationList r _) = Some r"
| "request_id (MIntegrationCheck r _ _) = Some r"
| "request_id (MIntegrationReload r) = Some r"
| "request_id (MRouterShutdown r) = Some r"

section \<open>Messages of the router\<close>

datatype (plugins only: code) server_message =
    SRegistered nat agent_descriptor registration_role "workspace_name option" int
  | SRegisteredOperator nat string bool "workspace_name option" int
  | SPong string
  | SError "string option" router_error_code "workspace_name option" "uuid option" "int option"
  | SAgents string workspace_name "agent_descriptor list"
  | SAccepted string workspace_name string
  | SDeliver workspace_name string string string nat "task_dispatch option"
  | SResult workspace_name string string bool "string option" "router_error_code option" "int option"
  | SCancelWork workspace_name string router_error_code "task_fence option"
  | SWorkIdleAck string workspace_name string
  | STaskExecutionStoppedAck string workspace_name int uuid
  | STaskAttemptChanged workspace_name int "task_attempt option" "uuid option" "task_fence option"
      "task_fence option"
  | SWorkspaceCreated string workspace_summary
  | SWorkspaces string "workspace_summary list" "string option" bool
  | SCredentialIssued string credential_file
  | SCredentials string "credential_summary list" "uuid option" bool
  | SCredentialRevoked string uuid
  | SOnboardingInviteIssued string uuid uuid string int workspace_name "onboarding_provider option"
  | SOnboardingInviteRevoked string uuid
  | SIntegrations string workspace_name "integration_public list"
  | SIntegrationChecked string workspace_name integration_public
  | SIntegrationsReloaded string "integration_public list"
  | SExternalOperation string workspace_name external_operation_summary
  | SExternalStatus string workspace_name external_operation_summary "external_resolution option"
  | SExternalResolved string workspace_name external_operation_summary external_resolution
  | SWorkspaceJoined string workspace_name int
  | SWorkspaceLeft string "workspace_name option"
  | SWorkspaceChanged "workspace_name option" int
  | SWorkspacePosted string workspace_name int
  | SWorkspaceHistory string history_page
  | SWorkspaceSubscription string workspace_name "workspace_event list" int bool
  | SWorkspaceEvent workspace_event
  | SWorkspaceUnsubscribed string workspace_name
  | STasks string workspace_name "task_summary list" int bool
  | STask string workspace_name task_detail
  | STaskHistory string task_history_page
  | STaskMutated string workspace_name task_mutation_result
  | SRouterStopping string

section \<open>The state of the actor\<close>

datatype connection_role =
    AgentRole public_claims agent_descriptor "string option"
  | DelegateRole string
  | OperatorRole public_claims bool

record canceling_work =
  cw_workspace :: workspace_name
  cw_request_id :: string
  cw_task :: "task_fence option"

record connection_state =
  cn_generation :: int
  cn_role :: "connection_role option"
  cn_workspace :: "workspace_name option"
  cn_subscribed :: bool
  cn_stored_ready :: bool
  cn_canceling :: "canceling_work option"

record pending_request =
  pd_workspace :: workspace_name
  pd_request_id :: string
  pd_requester :: uuid
  pd_requester_generation :: int
  pd_requester_id :: string
  pd_recipient :: uuid
  pd_recipient_generation :: int
  pd_recipient_id :: string
  pd_deadline :: nat
  pd_task :: "task_dispatch option"
  pd_attempt_id :: "uuid option"

text \<open>What the writer of a connection got: a frame with its two registration flags, or the request
  to close the socket with code 1013.\<close>

datatype writer_item =
    Frame uuid server_message bool bool
  | CloseOverloaded uuid

text \<open>A spawned task that talks to a provider: what it was given, and for whom it answers.\<close>

datatype worker =
    CheckWorker active_integration uuid int string workspace_name external_provider
  | ExternalWorker active_integration prepared_operation
  | ResolutionWorker active_integration prepared_resolution uuid int string

type_synonym request_key = "workspace_name \<times> string"

type_synonym task_slot = "workspace_name \<times> int \<times> external_provider"

text \<open>\<open>rs_out\<close> lists what the actor handed to the writers so far, \<open>rs_workers\<close> the spawned tasks that have
  not reported back, and \<open>rs_tick\<close> counts the readings of the environment; the other fields are those of
  \<^verbatim>\<open>RouterState\<close>. \<open>rs_client\<close> says whether there is an \<^verbatim>\<open>IntegrationClient\<close>.\<close>

record router_state =
  rs_store :: db
  rs_connections :: "(uuid \<times> connection_state) list"
  rs_primaries :: "(string \<times> uuid) list"
  rs_delegates :: "(string \<times> uuid list) list"
  rs_pending :: "(request_key \<times> pending_request) list"
  rs_buckets :: "(uuid \<times> credential_bucket) list"
  rs_subscribers :: "(workspace_name \<times> uuid list) list"
  rs_integrations :: integration_registry
  rs_client :: bool
  rs_integration_requests :: nat
  rs_task_slots :: "task_slot list"
  rs_shutting_down :: bool
  rs_healthy :: bool
  rs_notified :: bool
  rs_workers :: "worker list"
  rs_out :: "writer_item list"
  rs_tick :: nat

datatype runtime_error = RtConfiguration | RtStore store_error | RtActorStopped

section \<open>The environment\<close>

text \<open>What the actor reads from outside, by the number of the reading: the wall clock, the monotonic
  clock in nanoseconds, \<^verbatim>\<open>Uuid::new_v4\<close>, random bytes, and whether the byte permits and the channel
  of a writer take a frame, which depends on how far the writer task has drained them. The rest are
  functions of other crates: the length of a message's JSON (\<open>None\<close> when it cannot be encoded) and
  that of the \<^verbatim>\<open>*Budget\<close> structure with the fields of a listing, the digest of a command, the length
  of a report body, base64 and SHA-256, the encodings of the integrations, what reading a file gives,
  and whether a client of the providers can be built.\<close>

record router_env =
  re_clock :: "nat \<Rightarrow> int"
  re_instant :: "nat \<Rightarrow> nat"
  re_uuid :: "nat \<Rightarrow> uuid"
  re_random :: "nat \<Rightarrow> string option"
  re_permits :: "nat \<Rightarrow> nat \<Rightarrow> bool"
  re_channel :: "nat \<Rightarrow> bool"
  re_json_len :: "server_message \<Rightarrow> nat option"
  re_budget_len :: "server_message \<Rightarrow> nat option"
  re_digest :: "task_command \<Rightarrow> digest"
  re_body_len :: "report_body \<Rightarrow> nat"
  re_codec :: codec
  re_xcodec :: xcodec
  re_file :: "nat \<Rightarrow> string \<Rightarrow> file_read"
  re_client :: "nat \<Rightarrow> integration_client_error + unit"

end
