(* ===== verification/Listings.thy ===== *)
theory Listings
  imports Router_Types
begin

text \<open>
  The listings the router serves beside those of \<open>Event_Log\<close> and \<open>Task_Read\<close>: the workspaces a
  credential may see and the history of one task (\<^verbatim>\<open>src/store.rs\<close>), cut to the response budget
  (\<^verbatim>\<open>bound_workspace_list\<close> and \<^verbatim>\<open>bound_task_history\<close> of \<^verbatim>\<open>src/router.rs\<close>).
\<close>

section \<open>Workspaces\<close>

text \<open>The loop skips the workspaces that are not granted and stops one row after the limit.\<close>

fun visible_rows ::
  "workspace_name list option \<Rightarrow> nat \<Rightarrow> workspace_row list \<Rightarrow> (workspace_name \<times> int) list \<Rightarrow>
     store_error + (workspace_name \<times> int) list" where
  "visible_rows allowed limit [] result = Inr result"
| "visible_rows allowed limit (w # rows) result =
     (if (case allowed of None \<Rightarrow> False | Some grants \<Rightarrow> w_name w \<notin> set grants)
      then visible_rows allowed limit rows result
      else
        bindR (map_err (\<lambda>_. SInvalidData) (parse_workspace_name (w_name w))) (\<lambda>name.
          let result = result @ [(name, w_created_at w)] in
          if limit < length result then Inr result
          else visible_rows allowed limit rows result))"

definition list_workspace_rows ::
  "db \<Rightarrow> workspace_name list option \<Rightarrow> string option \<Rightarrow> nat \<Rightarrow>
     store_error + (workspace_name \<times> int) list \<times> string option \<times> bool" where
  "list_workspace_rows d allowed after limit =
     (let after = (case after of None \<Rightarrow> [] | Some a \<Rightarrow> a) in
      bindR (visible_rows allowed limit
               (sort_key w_name (filter (\<lambda>w. after < w_name w) (workspaces d))) []) (\<lambda>fetched.
      let (page, has_more) = pop_page limit fetched in
      Inr (page,
           (if page = [] then (if after \<noteq> [] then Some after else None) else Some (fst (last page))),
           has_more)))"

definition bound_workspace_list ::
  "(workspace_summary list \<Rightarrow> string option \<Rightarrow> bool \<Rightarrow> nat option) \<Rightarrow> workspace_summary list \<Rightarrow>
     string option \<Rightarrow> bool \<Rightarrow> actor_error + workspace_summary list \<times> string option \<times> bool" where
  "bound_workspace_list encoded rows input_cursor source_has_more =
     bound_page encoded (\<lambda>w. Some (ws_name w)) rows input_cursor source_has_more"

section \<open>The history of a task\<close>

record stored_task_history_event =
  sh_event :: workspace_event
  sh_attempt :: "task_attempt option"
  sh_report :: "task_report_record option"

text \<open>The two left joins on the identifiers in the event's JSON.\<close>

definition task_event_of :: "workspace_event \<Rightarrow> task_event option" where
  "task_event_of e = (case we_content e of Some (ContentTask te) \<Rightarrow> Some te | _ \<Rightarrow> None)"

definition joined_attempt :: "db \<Rightarrow> workspace_event \<Rightarrow> attempt_row option" where
  "joined_attempt d e =
     find (\<lambda>a. Some (a_id a) = Option.bind (task_event_of e) te_attempt_id \<and>
               a_workspace a = we_workspace e \<and> Some (a_task_id a) = we_task_id e) (attempts d)"

definition joined_report :: "db \<Rightarrow> workspace_event \<Rightarrow> report_row option" where
  "joined_report d e =
     find (\<lambda>r. Some (r_id r) = Option.bind (task_event_of e) te_report_id \<and>
               r_workspace r = we_workspace e \<and> Some (r_task_id r) = we_task_id e) (reports d)"

definition store_task_history ::
  "db \<Rightarrow> workspace_name \<Rightarrow> int \<Rightarrow> int \<Rightarrow> nat \<Rightarrow> stored_task_history_event list \<times> int \<times> bool" where
  "store_task_history d workspace task_id after limit =
     (let rows = take (limit + 1) (sort_key we_seq (filter (\<lambda>e. we_task_id e = Some task_id \<and>
            we_kind e = KTask \<and> after < we_seq e) (workspace_log d workspace)));
          fetched = map (\<lambda>e. \<lparr>sh_event = e, sh_attempt = map_option attempt_of_row (joined_attempt d e),
                              sh_report = map_option report_of_row (joined_report d e)\<rparr>) rows;
          (page, has_more) = pop_page limit fetched
      in (page, next_cursor (\<lambda>x. we_seq (sh_event x)) after page, has_more))"

text \<open>What the router checks of a stored row before it shows it.\<close>

definition task_history_event_of ::
  "workspace_name \<Rightarrow> int \<Rightarrow> stored_task_history_event \<Rightarrow> actor_error + task_history_event" where
  "task_history_event_of workspace task_id x =
     bindR (ok_or (task_event_of (sh_event x)) (actor_code StorageError)) (\<lambda>te.
     bindR (guardR (\<not> (we_task_id (sh_event x) \<noteq> Some task_id \<or> ts_id (te_task te) \<noteq> task_id \<or>
                       ts_workspace (te_task te) \<noteq> workspace \<or>
                       te_attempt_id te \<noteq> map_option ta_id (sh_attempt x) \<or>
                       te_report_id te \<noteq> map_option tr_id (sh_report x) \<or>
                       (case sh_attempt x of None \<Rightarrow> False | Some a \<Rightarrow> ta_task_id a \<noteq> task_id) \<or>
                       (case sh_report x of None \<Rightarrow> False | Some r \<Rightarrow> tr_task_id r \<noteq> task_id)))
              (actor_code StorageError)) (\<lambda>_.
     Inr \<lparr>th_seq = we_seq (sh_event x), th_actor_id = we_actor_id (sh_event x),
          th_created_at = we_created_at (sh_event x), th_event = te, th_attempt = sh_attempt x,
          th_report = sh_report x\<rparr>))"

definition bound_task_history ::
  "(task_history_event list \<Rightarrow> int \<Rightarrow> bool \<Rightarrow> nat option) \<Rightarrow> task_history_event list \<Rightarrow> int \<Rightarrow> bool \<Rightarrow>
     actor_error + task_history_event list \<times> int \<times> bool" where
  "bound_task_history encoded evs input_cursor source_has_more =
     bound_page encoded th_seq evs input_cursor source_has_more"

end
