(* ===== verification/Router_Core.thy ===== *)
theory Router_Core
  imports Listings
begin

text \<open>
  The parts of the router actor (\<^verbatim>\<open>src/router.rs\<close>) every handler shares: fallible steps on the
  state, the accessors and guards, sending, fanning out events, ending pending requests and
  disconnecting. A subscriber whose writer refuses an event is disconnected, which ends its requests,
  which fans out events: the three functions call each other, and each nested call has one connection
  fewer.
\<close>

section \<open>Steps\<close>

text \<open>A \<^verbatim>\<open>&mut self\<close> method that returns a \<^verbatim>\<open>Result\<close>: an error leaves the method and keeps what was
  changed before it.\<close>

type_synonym ('e, 'a) act = "router_state \<Rightarrow> ('e + 'a) \<times> router_state"

definition retA :: "'a \<Rightarrow> ('e, 'a) act" where
  "retA x = (\<lambda>s. (Inr x, s))"

definition failA :: "'e \<Rightarrow> ('e, 'a) act" where
  "failA e = (\<lambda>s. (Inl e, s))"

definition bindA :: "('e, 'a) act \<Rightarrow> ('a \<Rightarrow> ('e, 'b) act) \<Rightarrow> ('e, 'b) act" where
  "bindA m f = (\<lambda>s. case m s of (Inl e, s1) \<Rightarrow> (Inl e, s1) | (Inr x, s1) \<Rightarrow> f x s1)"

definition readA :: "(router_state \<Rightarrow> 'e + 'a) \<Rightarrow> ('e, 'a) act" where
  "readA r = (\<lambda>s. (r s, s))"

definition guardA :: "bool \<Rightarrow> 'e \<Rightarrow> ('e, unit) act" where
  "guardA b e = (if b then retA () else failA e)"

definition updA :: "(router_state \<Rightarrow> router_state) \<Rightarrow> ('e, unit) act" where
  "updA f = (\<lambda>s. (Inr (), f s))"

definition callA :: "(router_state \<Rightarrow> 'a \<times> router_state) \<Rightarrow> ('e, 'a) act" where
  "callA f = (\<lambda>s. case f s of (x, s1) \<Rightarrow> (Inr x, s1))"

definition errA :: "('e \<Rightarrow> 'f) \<Rightarrow> ('e, 'a) act \<Rightarrow> ('f, 'a) act" where
  "errA g m = (\<lambda>s. case m s of (r, s1) \<Rightarrow> (map_err g r, s1))"

text \<open>\<^verbatim>\<open>.ok()\<close> on a call.\<close>

definition tryA :: "('e, 'a) act \<Rightarrow> ('f, 'a option) act" where
  "tryA m = (\<lambda>s. case m s of (Inl _, s1) \<Rightarrow> (Inr None, s1) | (Inr x, s1) \<Rightarrow> (Inr (Some x), s1))"

text \<open>A call of the store; a failed one was rolled back.\<close>

definition storeA :: "(db \<Rightarrow> 'e + db \<times> 'a) \<Rightarrow> ('e, 'a) act" where
  "storeA f = (\<lambda>s. case f (rs_store s) of Inl e \<Rightarrow> (Inl e, s)
     | Inr (d, x) \<Rightarrow> (Inr x, s\<lparr>rs_store := d\<rparr>))"

text \<open>\<open>k\<close> readings of the environment.\<close>

definition tickA :: "nat \<Rightarrow> (nat \<Rightarrow> 'a) \<Rightarrow> ('e, 'a) act" where
  "tickA k reading = (\<lambda>s. (Inr (reading (rs_tick s)), s\<lparr>rs_tick := rs_tick s + k\<rparr>))"

fun eachA :: "('x \<Rightarrow> ('e, unit) act) \<Rightarrow> 'x list \<Rightarrow> ('e, unit) act" where
  "eachA f [] = retA ()"
| "eachA f (x # xs) = bindA (f x) (\<lambda>_. eachA f xs)"

section \<open>Accessors\<close>

definition connection :: "router_state \<Rightarrow> uuid \<Rightarrow> connection_state option" where
  "connection s c = map_of (rs_connections s) c"

definition role_of :: "router_state \<Rightarrow> uuid \<Rightarrow> connection_role option" where
  "role_of s c = Option.bind (connection s c) cn_role"

definition modify_connection ::
  "uuid \<Rightarrow> (connection_state \<Rightarrow> connection_state) \<Rightarrow> router_state \<Rightarrow> router_state" where
  "modify_connection c f s = s\<lparr>rs_connections := AList.map_entry c f (rs_connections s)\<rparr>"

definition effective_primary :: "router_state \<Rightarrow> uuid \<Rightarrow> uuid option" where
  "effective_primary s c =
     (case role_of s c of Some (DelegateRole owner) \<Rightarrow> map_of (rs_primaries s) owner | _ \<Rightarrow> None)"

text \<open>\<^verbatim>\<open>self.effective_primary(id).unwrap_or(id)\<close>\<close>

definition effective :: "router_state \<Rightarrow> uuid \<Rightarrow> uuid" where
  "effective s c = (case effective_primary s c of None \<Rightarrow> c | Some p \<Rightarrow> p)"

definition delegates_of :: "router_state \<Rightarrow> string \<Rightarrow> uuid list" where
  "delegates_of s owner = (case map_of (rs_delegates s) owner of None \<Rightarrow> [] | Some ds \<Rightarrow> ds)"

definition connection_family :: "router_state \<Rightarrow> uuid \<Rightarrow> uuid list" where
  "connection_family s c =
     (case role_of s c of
        Some (AgentRole _ d _) \<Rightarrow> c # filter (\<lambda>x. x \<noteq> c) (delegates_of s (ad_agent_id d))
      | _ \<Rightarrow> [c])"

definition actor_id :: "router_state \<Rightarrow> uuid \<Rightarrow> actor_error + string" where
  "actor_id s c =
     (case role_of s (effective s c) of
        Some (AgentRole _ d _) \<Rightarrow> Inr (ad_agent_id d)
      | Some (OperatorRole claims _) \<Rightarrow> Inr (''operator:'' @ pc_subject claims)
      | _ \<Rightarrow> Inl (actor_code NotRegistered))"

definition current_workspace :: "router_state \<Rightarrow> uuid \<Rightarrow> actor_error + workspace_name" where
  "current_workspace s c =
     ok_or (Option.bind (connection s (effective s c)) cn_workspace) (actor_code WorkspaceRequired)"

definition require_workspace_match ::
  "router_state \<Rightarrow> uuid \<Rightarrow> workspace_name \<Rightarrow> actor_error + unit" where
  "require_workspace_match s c workspace =
     bindR (current_workspace s c) (\<lambda>current.
       if current = workspace then Inr ()
       else Inl \<lparr>ae_code = WorkspaceMismatch, ae_workspace = Some current, ae_operation_id = None,
                 ae_current_version = None\<rparr>)"

definition claims_of :: "router_state \<Rightarrow> uuid \<Rightarrow> actor_error + public_claims \<times> bool" where
  "claims_of s c =
     (case role_of s (effective s c) of
        Some (AgentRole claims _ _) \<Rightarrow> Inr (claims, False)
      | Some (OperatorRole claims admin) \<Rightarrow> Inr (claims, admin)
      | _ \<Rightarrow> Inl (actor_code NotRegistered))"

definition authorize_workspace ::
  "router_state \<Rightarrow> uuid \<Rightarrow> workspace_name \<Rightarrow> actor_error + unit" where
  "authorize_workspace s c workspace =
     bindR (claims_of s c) (\<lambda>(claims, admin).
       if admin \<or> workspace \<in> set (pc_workspaces claims) then Inr ()
       else Inl (actor_code WorkspaceNotFound))"

definition connection_credential_id :: "router_state \<Rightarrow> uuid \<Rightarrow> uuid option" where
  "connection_credential_id s c =
     (case role_of s (effective s c) of
        Some (AgentRole claims _ _) \<Rightarrow> Some (pc_id claims)
      | Some (OperatorRole claims _) \<Rightarrow> Some (pc_id claims)
      | _ \<Rightarrow> None)"

definition require_registered :: "router_state \<Rightarrow> uuid \<Rightarrow> actor_error + unit" where
  "require_registered s c = guardR (role_of s c \<noteq> None) (actor_code NotRegistered)"

definition require_unregistered :: "router_state \<Rightarrow> uuid \<Rightarrow> actor_error + unit" where
  "require_unregistered s c =
     guardR (case connection s c of None \<Rightarrow> False | Some k \<Rightarrow> cn_role k = None)
       (actor_code AgentConflict)"

definition require_operator :: "router_state \<Rightarrow> uuid \<Rightarrow> actor_error + unit" where
  "require_operator s c =
     guardR (case role_of s c of Some (OperatorRole _ _) \<Rightarrow> True | _ \<Rightarrow> False)
       (actor_code PermissionDenied)"

definition require_admin :: "router_state \<Rightarrow> uuid \<Rightarrow> actor_error + unit" where
  "require_admin s c =
     guardR (case role_of s c of Some (OperatorRole _ admin) \<Rightarrow> admin | _ \<Rightarrow> False)
       (actor_code PermissionDenied)"

text \<open>The agent id of a connection whose role is that of an agent.\<close>

definition agent_of :: "router_state \<Rightarrow> uuid \<Rightarrow> string option" where
  "agent_of s c = (case role_of s c of Some (AgentRole _ d _) \<Rightarrow> Some (ad_agent_id d) | _ \<Rightarrow> None)"

definition agents_in_workspace :: "router_state \<Rightarrow> workspace_name \<Rightarrow> agent_descriptor list" where
  "agents_in_workspace s workspace =
     sort_key ad_agent_id (List.map_filter (\<lambda>(_, k).
       if cn_workspace k = Some workspace
       then (case cn_role k of Some (AgentRole _ d _) \<Rightarrow> Some d | _ \<Rightarrow> None) else None)
       (rs_connections s))"

text \<open>\<^verbatim>\<open>agent_has_execution_barrier(..).unwrap_or(true)\<close>\<close>

definition barrier_or_true :: "db \<Rightarrow> string \<Rightarrow> bool" where
  "barrier_or_true d agent_id =
     (case agent_has_execution_barrier d agent_id of Inl _ \<Rightarrow> True | Inr b \<Rightarrow> b)"

definition map_descriptor ::
  "(agent_descriptor \<Rightarrow> agent_descriptor) \<Rightarrow> connection_state \<Rightarrow> connection_state" where
  "map_descriptor f k =
     (case cn_role k of
        Some (AgentRole claims d token) \<Rightarrow> k\<lparr>cn_role := Some (AgentRole claims (f d) token)\<rparr>
      | _ \<Rightarrow> k)"

definition set_busy :: "uuid \<Rightarrow> bool \<Rightarrow> router_state \<Rightarrow> router_state" where
  "set_busy c busy s =
     (let blocked = (case agent_of s c of None \<Rightarrow> False | Some a \<Rightarrow> barrier_or_true (rs_store s) a) in
      modify_connection c (\<lambda>k.
        let effective_busy = (busy \<or> cn_canceling k \<noteq> None) in
        map_descriptor (\<lambda>d. d\<lparr>ad_status := (if effective_busy then Busy else Idle),
          ad_ready := (\<not> effective_busy \<and> \<not> blocked \<and> cn_stored_ready k \<and> cn_workspace k \<noteq> None)\<rparr>) k) s)"

definition terminal_pause_reason :: "router_error_code \<Rightarrow> pause_reason" where
  "terminal_pause_reason code =
     (case code of
        RequestTimeout \<Rightarrow> ReasonRequestTimeout
      | RequestCancelled \<Rightarrow> ReasonRequestCancelled
      | RouterRestarted \<Rightarrow> ReasonRouterRestarted
      | TaskInterrupted \<Rightarrow> OperatorInterrupt
      | _ \<Rightarrow> TransportLost)"

section \<open>Sending\<close>

definition U32_MAX :: nat where "U32_MAX = 4294967295"

definition ask_close :: "uuid \<Rightarrow> router_state \<Rightarrow> router_state" where
  "ask_close c s = s\<lparr>rs_out := rs_out s @ [CloseOverloaded c], rs_tick := rs_tick s + 1\<rparr>"

definition send_serialized ::
  "router_env \<Rightarrow> uuid \<Rightarrow> int \<Rightarrow> server_message \<Rightarrow> nat \<Rightarrow> bool \<Rightarrow> bool \<Rightarrow> router_state \<Rightarrow>
     bool \<times> router_state" where
  "send_serialized ev c generation message len ack err s =
     (case connection s c of
        None \<Rightarrow> (False, s)
      | Some k \<Rightarrow>
          if cn_generation k \<noteq> generation then (False, s)
          else if U32_MAX < len then (False, ask_close c s)
          else if \<not> re_permits ev (rs_tick s) (max len 1) then (False, ask_close c s)
          else if \<not> re_channel ev (rs_tick s) then (False, ask_close c s)
          else (True, s\<lparr>rs_out := rs_out s @ [Frame c message ack err], rs_tick := rs_tick s + 1\<rparr>))"

definition is_registration_ack :: "server_message \<Rightarrow> bool" where
  "is_registration_ack m =
     (case m of SRegistered _ _ _ _ _ \<Rightarrow> True | SRegisteredOperator _ _ _ _ _ \<Rightarrow> True | _ \<Rightarrow> False)"

definition is_error_message :: "server_message \<Rightarrow> bool" where
  "is_error_message m = (case m of SError _ _ _ _ _ \<Rightarrow> True | _ \<Rightarrow> False)"

definition send ::
  "router_env \<Rightarrow> uuid \<Rightarrow> int \<Rightarrow> server_message \<Rightarrow> router_state \<Rightarrow> bool \<times> router_state" where
  "send ev c generation message s =
     (case re_json_len ev message of
        None \<Rightarrow> (False, s\<lparr>rs_healthy := False, rs_shutting_down := True\<rparr>)
      | Some len \<Rightarrow>
          send_serialized ev c generation message len (is_registration_ack message)
            (is_error_message message) s)"

text \<open>A \<^verbatim>\<open>send\<close> whose result is dropped.\<close>

definition sendA :: "router_env \<Rightarrow> uuid \<Rightarrow> int \<Rightarrow> server_message \<Rightarrow> ('e, unit) act" where
  "sendA ev c generation message = updA (\<lambda>s. snd (send ev c generation message s))"

definition send_error ::
  "router_env \<Rightarrow> uuid \<Rightarrow> int \<Rightarrow> string option \<Rightarrow> actor_error \<Rightarrow> router_state \<Rightarrow> router_state" where
  "send_error ev c generation rid e s =
     snd (send ev c generation
       (SError rid (ae_code e) (ae_workspace e) (ae_operation_id e) (ae_current_version e)) s)"

definition notify_task_attempt_changed ::
  "router_env \<Rightarrow> workspace_name \<Rightarrow> int \<Rightarrow> task_attempt option \<Rightarrow> uuid option \<Rightarrow> string \<Rightarrow>
     (store_error, unit) act" where
  "notify_task_attempt_changed ev workspace task_id attempt closed agent_id =
     bindA (readA (\<lambda>s. agent_execution_fences (rs_store s) agent_id)) (\<lambda>(current, stop_pending).
       updA (\<lambda>s. case map_of (rs_primaries s) agent_id of
          None \<Rightarrow> s
        | Some c \<Rightarrow>
            (case connection s c of
               None \<Rightarrow> s
             | Some k \<Rightarrow> snd (send ev c (cn_generation k)
                 (STaskAttemptChanged workspace task_id attempt closed current stop_pending) s))))"

section \<open>Fanning out an event\<close>

text \<open>\<open>dc\<close> is \<^verbatim>\<open>disconnect_with_reason\<close>.\<close>

type_synonym disconnector = "uuid \<Rightarrow> int \<Rightarrow> pause_reason \<Rightarrow> (runtime_error, unit) act"

fun fanout_frames ::
  "router_env \<Rightarrow> workspace_event \<Rightarrow> nat \<Rightarrow> uuid list \<Rightarrow> router_state \<Rightarrow>
     (uuid \<times> int) list \<times> router_state" where
  "fanout_frames ev event len [] s = ([], s)"
| "fanout_frames ev event len (recipient # recipients) s =
     (case connection s recipient of
        None \<Rightarrow> fanout_frames ev event len recipients s
      | Some k \<Rightarrow>
          (case send_serialized ev recipient (cn_generation k) (SWorkspaceEvent event) len False False s of
             (sent, s1) \<Rightarrow>
               (case fanout_frames ev event len recipients s1 of
                  (failed, s2) \<Rightarrow>
                    (if sent then failed else (recipient, cn_generation k) # failed, s2))))"

fun disconnect_failed :: "disconnector \<Rightarrow> (uuid \<times> int) list \<Rightarrow> router_state \<Rightarrow> router_state" where
  "disconnect_failed dc [] s = s"
| "disconnect_failed dc ((recipient, generation) # failed) s =
     disconnect_failed dc failed
       (case dc recipient generation TransportLost s of
          (Inl _, s1) \<Rightarrow> s1\<lparr>rs_healthy := False, rs_shutting_down := True\<rparr>
        | (Inr _, s1) \<Rightarrow> s1)"

definition fanout_with ::
  "router_env \<Rightarrow> disconnector \<Rightarrow> workspace_event \<Rightarrow> router_state \<Rightarrow> router_state" where
  "fanout_with ev dc event s =
     (case re_json_len ev (SWorkspaceEvent event) of
        None \<Rightarrow> s\<lparr>rs_healthy := False\<rparr>
      | Some len \<Rightarrow>
          (case fanout_frames ev event len
                  (case map_of (rs_subscribers s) (we_workspace event) of None \<Rightarrow> [] | Some r \<Rightarrow> r) s of
             (failed, s1) \<Rightarrow> disconnect_failed dc failed s1))"

definition fanout_opt_with ::
  "router_env \<Rightarrow> disconnector \<Rightarrow> workspace_event option \<Rightarrow> router_state \<Rightarrow> router_state" where
  "fanout_opt_with ev dc event s = (case event of None \<Rightarrow> s | Some e \<Rightarrow> fanout_with ev dc e s)"

section \<open>Ending a pending request\<close>

text \<open>\<open>interruptA\<close> reads the two clocks of \<^verbatim>\<open>interrupt_attempt\<close>; \<open>appendA\<close> the one of \<^verbatim>\<open>append_event\<close>.\<close>

definition appendA :: "router_env \<Rightarrow> event_insert \<Rightarrow> (store_error, workspace_event) act" where
  "appendA ev i = bindA (tickA 1 (re_clock ev)) (\<lambda>clock. storeA (append_event clock i))"

definition interruptA ::
  "router_env \<Rightarrow> uuid \<Rightarrow> pause_reason \<Rightarrow> (store_error, workspace_event option) act" where
  "interruptA ev attempt_id reason =
     bindA (tickA 2 (\<lambda>t. (re_clock ev t, re_clock ev (t + 1)))) (\<lambda>(clock, eclock).
       storeA (interrupt_attempt clock eclock attempt_id reason))"

definition interrupt_optA ::
  "router_env \<Rightarrow> uuid option \<Rightarrow> pause_reason \<Rightarrow> (store_error, workspace_event option) act" where
  "interrupt_optA ev attempt_id reason =
     (case attempt_id of None \<Rightarrow> retA None | Some i \<Rightarrow> interruptA ev i reason)"

definition execution_attempt_opt ::
  "uuid option \<Rightarrow> (store_error, (workspace_name \<times> task_attempt) option) act" where
  "execution_attempt_opt attempt_id =
     (case attempt_id of None \<Rightarrow> retA None
      | Some i \<Rightarrow> readA (\<lambda>s. execution_attempt (rs_store s) i))"

definition pending_fence :: "pending_request \<Rightarrow> task_fence option" where
  "pending_fence p =
     (case (pd_task p, pd_attempt_id p) of
        (Some task, Some attempt_id) \<Rightarrow> Some (dp_id task, attempt_id)
      | _ \<Rightarrow> None)"

definition result_insert ::
  "workspace_name \<Rightarrow> string \<Rightarrow> string \<Rightarrow> pending_request \<Rightarrow> string option \<Rightarrow> bool \<Rightarrow>
     router_error_code option \<Rightarrow> event_insert" where
  "result_insert workspace actor rid p content ok err =
     \<lparr>ei_workspace = workspace, ei_kind = KResult, ei_actor_id = actor, ei_request_id = Some rid,
      ei_target_id = Some (pd_requester_id p), ei_task_id = map_option dp_id (pd_task p),
      ei_content = map_option ContentText content, ei_ok = Some ok, ei_error = err\<rparr>"

text \<open>The recipient, when it is still connected as an agent, is busy until it reports that it is idle.\<close>

definition can_cancel :: "router_state \<Rightarrow> pending_request \<Rightarrow> bool" where
  "can_cancel s p =
     (case connection s (pd_recipient p) of
        None \<Rightarrow> False
      | Some k \<Rightarrow> cn_generation k = pd_recipient_generation p \<and>
          (case cn_role k of Some (AgentRole _ _ _) \<Rightarrow> True | _ \<Rightarrow> False))"

definition mark_canceling :: "canceling_work \<Rightarrow> connection_state \<Rightarrow> connection_state" where
  "mark_canceling w k =
     (map_descriptor (\<lambda>d. d\<lparr>ad_status := Busy, ad_ready := False\<rparr>) k)
       \<lparr>cn_stored_ready := False, cn_canceling := Some w\<rparr>"

text \<open>A pending request is taken out, its attempt is interrupted and its result is logged.\<close>

definition settle_request ::
  "router_env \<Rightarrow> request_key \<Rightarrow> pending_request \<Rightarrow> pause_reason \<Rightarrow> event_insert \<Rightarrow>
     (store_error, workspace_event option \<times> (workspace_name \<times> task_attempt) option \<times> workspace_event) act" where
  "settle_request ev key p reason result =
     bindA (updA (\<lambda>s. s\<lparr>rs_pending := AList.delete key (rs_pending s)\<rparr>)) (\<lambda>_.
     bindA (interrupt_optA ev (pd_attempt_id p) reason) (\<lambda>task_event.
     bindA (execution_attempt_opt (pd_attempt_id p)) (\<lambda>attempt_change.
     bindA (appendA ev result) (\<lambda>event.
     retA (task_event, attempt_change, event)))))"

definition cancel_recipient ::
  "router_env \<Rightarrow> workspace_name \<Rightarrow> string \<Rightarrow> router_error_code \<Rightarrow> pending_request \<Rightarrow> router_state \<Rightarrow>
     router_state" where
  "cancel_recipient ev workspace rid code p s =
     (if can_cancel s p then
        snd (send ev (pd_recipient p) (pd_recipient_generation p)
          (SCancelWork workspace rid code (pending_fence p))
          (modify_connection (pd_recipient p)
             (mark_canceling \<lparr>cw_workspace = workspace, cw_request_id = rid,
                               cw_task = pending_fence p\<rparr>) s))
      else s)"

text \<open>The recipient, its host, the requester and the subscribers learn that the request has ended.\<close>

definition announce_result ::
  "router_env \<Rightarrow> disconnector \<Rightarrow> workspace_name \<Rightarrow> string \<Rightarrow> router_error_code \<Rightarrow> pending_request \<Rightarrow>
     workspace_event option \<times> (workspace_name \<times> task_attempt) option \<times> workspace_event \<Rightarrow>
     (store_error, unit) act" where
  "announce_result ev dc workspace rid code p = (\<lambda>(task_event, attempt_change, event).
     bindA (updA (cancel_recipient ev workspace rid code p)) (\<lambda>_.
     bindA (case attempt_change of
         None \<Rightarrow> retA ()
       | Some (attempt_workspace, attempt) \<Rightarrow>
           bindA (guardA (attempt_workspace = workspace) SInvalidData) (\<lambda>_.
           notify_task_attempt_changed ev workspace (ta_task_id attempt) (Some attempt)
             (pd_attempt_id p) (pd_recipient_id p))) (\<lambda>_.
     bindA (sendA ev (pd_requester p) (pd_requester_generation p)
       (SResult workspace rid SYSTEM_ROUTER False None (Some code)
          (map_option dp_id (pd_task p)))) (\<lambda>_.
     bindA (updA (fanout_opt_with ev dc task_event)) (\<lambda>_.
     updA (fanout_with ev dc event))))))"

definition finish_pending_error_with ::
  "router_env \<Rightarrow> disconnector \<Rightarrow> workspace_name \<Rightarrow> string \<Rightarrow> router_error_code \<Rightarrow>
     (store_error, unit) act" where
  "finish_pending_error_with ev dc workspace rid code s =
     (case map_of (rs_pending s) (workspace, rid) of
        None \<Rightarrow> (Inr (), s)
      | Some p \<Rightarrow>
          bindA (settle_request ev (workspace, rid) p (terminal_pause_reason code)
                   (result_insert workspace SYSTEM_ROUTER rid p None False (Some code)))
            (announce_result ev dc workspace rid code p) s)"

section \<open>Disconnecting\<close>

definition interrupt_sessionA ::
  "router_env \<Rightarrow> string \<Rightarrow> uuid \<Rightarrow> uuid \<Rightarrow> int \<Rightarrow> pause_reason \<Rightarrow>
     (store_error, workspace_event list) act" where
  "interrupt_sessionA ev agent_id credential_id session_id generation reason s =
     (let k = length (session_attempts (rs_store s) agent_id credential_id session_id generation) in
      bindA (tickA (2 * k) (\<lambda>t n. (re_clock ev (t + 2 * n), re_clock ev (t + 2 * n + 1)))) (\<lambda>clocks.
      storeA (interrupt_session_attempts clocks agent_id credential_id session_id generation reason)) s)"

text \<open>Only the session of an agent has attempts.\<close>

definition interrupt_role ::
  "router_env \<Rightarrow> connection_role option \<Rightarrow> int \<Rightarrow> pause_reason \<Rightarrow>
     (runtime_error, workspace_event list) act" where
  "interrupt_role ev role generation reason =
     (case role of
        Some (AgentRole claims d _) \<Rightarrow>
          errA RtStore (interrupt_sessionA ev (ad_agent_id d) (pc_id claims) (ad_session_id d)
            generation reason)
      | _ \<Rightarrow> retA [])"

definition remove_family :: "uuid list \<Rightarrow> router_state \<Rightarrow> router_state" where
  "remove_family family s =
     s\<lparr>rs_connections := filter (\<lambda>(c, _). c \<notin> set family) (rs_connections s),
       rs_subscribers := map (\<lambda>(w, cs). (w, filter (\<lambda>c. c \<notin> set family) cs)) (rs_subscribers s)\<rparr>"

definition drop_bucket :: "uuid option \<Rightarrow> router_state \<Rightarrow> router_state" where
  "drop_bucket credential_id s =
     (case credential_id of
        None \<Rightarrow> s
      | Some i \<Rightarrow>
          if list_ex (\<lambda>(c, _). connection_credential_id s c = Some i) (rs_connections s) then s
          else s\<lparr>rs_buckets := AList.delete i (rs_buckets s)\<rparr>)"

definition member_insert ::
  "workspace_name \<Rightarrow> workspace_event_kind \<Rightarrow> string \<Rightarrow> event_insert" where
  "member_insert workspace kind actor =
     \<lparr>ei_workspace = workspace, ei_kind = kind, ei_actor_id = actor, ei_request_id = None,
      ei_target_id = None, ei_task_id = None, ei_content = None, ei_ok = None, ei_error = None\<rparr>"

definition forget_role ::
  "router_env \<Rightarrow> disconnector \<Rightarrow> uuid \<Rightarrow> connection_state \<Rightarrow> string option \<Rightarrow> ('e, unit) act" where
  "forget_role ev dc c k actor =
     (case cn_role k of
        Some (AgentRole _ d _) \<Rightarrow>
          bindA (updA (\<lambda>s. s\<lparr>rs_primaries := AList.delete (ad_agent_id d) (rs_primaries s),
                               rs_delegates := AList.delete (ad_agent_id d) (rs_delegates s)\<rparr>)) (\<lambda>_.
          (case (cn_workspace k, actor) of
             (Some workspace, Some a) \<Rightarrow>
               bindA (tryA (appendA ev (member_insert workspace KMemberLeft a))) (\<lambda>event.
               updA (fanout_opt_with ev dc event))
           | _ \<Rightarrow> retA ()))
      | Some (DelegateRole owner) \<Rightarrow>
          updA (\<lambda>s. s\<lparr>rs_delegates := AList.map_entry owner (removeAll c) (rs_delegates s)\<rparr>)
      | _ \<Rightarrow> retA ())"

definition affected_pending ::
  "uuid list \<Rightarrow> router_state \<Rightarrow> (workspace_name \<times> string \<times> router_error_code) list" where
  "affected_pending family s =
     map (\<lambda>(_, p). (pd_workspace p, pd_request_id p,
            if pd_requester p \<in> set family then RequesterDisconnected else TargetDisconnected))
       (filter (\<lambda>(_, p). pd_requester p \<in> set family \<or> pd_recipient p \<in> set family) (rs_pending s))"

text \<open>What is left to do once the connection and its delegates are out of the maps.\<close>

definition after_removal ::
  "router_env \<Rightarrow> disconnector \<Rightarrow> uuid \<Rightarrow> connection_state \<Rightarrow> string option \<Rightarrow> uuid list \<Rightarrow>
     workspace_event list \<Rightarrow> (runtime_error, unit) act" where
  "after_removal ev dc c k actor family interrupted =
     bindA (updA (fold (fanout_with ev dc) interrupted)) (\<lambda>_.
     bindA (forget_role ev dc c k actor) (\<lambda>_.
     bindA (readA (\<lambda>s. Inr (affected_pending family s))) (\<lambda>affected.
     eachA (\<lambda>(workspace, rid, code).
       errA RtStore (finish_pending_error_with ev dc workspace rid code)) affected)))"

definition disconnect_body :: "router_env \<Rightarrow> disconnector \<Rightarrow> disconnector" where
  "disconnect_body ev dc c generation reason s0 =
     (case connection s0 c of
        None \<Rightarrow> (Inr (), s0)
      | Some k \<Rightarrow>
          if cn_generation k \<noteq> generation then (Inr (), s0)
          else
            let actor = (case actor_id s0 c of Inl _ \<Rightarrow> None | Inr a \<Rightarrow> Some a);
                family = connection_family s0 c;
                credential_id = connection_credential_id s0 c in
            bindA (interrupt_role ev (cn_role k) generation reason) (\<lambda>interrupted.
            bindA (updA (remove_family family)) (\<lambda>_.
            bindA (updA (drop_bucket credential_id)) (\<lambda>_.
            after_removal ev dc c k actor family interrupted))) s0)"

text \<open>The nesting of the calls is bounded by the number of connections.\<close>

primrec disconnect_n :: "router_env \<Rightarrow> nat \<Rightarrow> disconnector" where
  "disconnect_n ev 0 = (\<lambda>c generation reason s. (Inr (), s))"
| "disconnect_n ev (Suc n) = disconnect_body ev (disconnect_n ev n)"

definition disconnect_with_reason :: "router_env \<Rightarrow> disconnector" where
  "disconnect_with_reason ev c generation reason s =
     disconnect_n ev (length (rs_connections s)) c generation reason s"

definition fanout :: "router_env \<Rightarrow> workspace_event \<Rightarrow> router_state \<Rightarrow> router_state" where
  "fanout ev = fanout_with ev (disconnect_with_reason ev)"

definition fanout_opt :: "router_env \<Rightarrow> workspace_event option \<Rightarrow> router_state \<Rightarrow> router_state" where
  "fanout_opt ev = fanout_opt_with ev (disconnect_with_reason ev)"

definition finish_pending_error ::
  "router_env \<Rightarrow> workspace_name \<Rightarrow> string \<Rightarrow> router_error_code \<Rightarrow> (store_error, unit) act" where
  "finish_pending_error ev = finish_pending_error_with ev (disconnect_with_reason ev)"

end
