(* ===== verification/Router_Ops.thy ===== *)
theory Router_Ops
  imports Router_Core
begin

text \<open>
  The handlers of the router actor (\<^verbatim>\<open>src/router.rs\<close>), one definition per method of
  \<^verbatim>\<open>RouterState\<close>, and \<^verbatim>\<open>dispatch\<close>, \<^verbatim>\<open>handle_message\<close>, \<^verbatim>\<open>handle_control\<close> and the turns of the actor's
  loop. The handlers of external operations are an argument of \<open>router_dispatch\<close>.
\<close>

section \<open>Registration\<close>

definition authenticate :: "router_env \<Rightarrow> router_state \<Rightarrow> string \<Rightarrow> actor_error + public_claims" where
  "authenticate ev s token =
     bindR (ok_or (credential_by_hash (rs_store s) (sha256 (re_codec ev) token))
              (actor_code Unauthorized)) (\<lambda>credential.
     bindR (guardR (sc_revoked_at credential = None) (actor_code Unauthorized)) (\<lambda>_.
     Inr (sc_claims credential)))"

definition set_role :: "connection_role \<Rightarrow> connection_state \<Rightarrow> connection_state" where
  "set_role role k = k\<lparr>cn_role := Some role\<rparr>"

text \<open>\<^verbatim>\<open>self.connections.get_mut(&id).ok_or(NotRegistered)?\<close> followed by an assignment.\<close>

definition with_connection ::
  "uuid \<Rightarrow> (connection_state \<Rightarrow> connection_state) \<Rightarrow> (actor_error, unit) act" where
  "with_connection c f =
     bindA (readA (\<lambda>s. guardR (connection s c \<noteq> None) (actor_code NotRegistered))) (\<lambda>_.
     updA (modify_connection c f))"

definition send_execution_snapshot ::
  "router_env \<Rightarrow> uuid \<Rightarrow> int \<Rightarrow> string \<Rightarrow> (actor_error, unit) act" where
  "send_execution_snapshot ev c generation agent_id =
     bindA (readA (\<lambda>s. map_err actor_store (agent_execution_fences (rs_store s) agent_id)))
       (\<lambda>(current, stop_pending).
     (case or_else current stop_pending of
        None \<Rightarrow> retA ()
      | Some (task_id, attempt_id) \<Rightarrow>
          bindA (readA (\<lambda>s. map_err actor_store (execution_attempt (rs_store s) attempt_id))) (\<lambda>found.
          bindA (readA (\<lambda>s. ok_or found (actor_store SInvalidData))) (\<lambda>(workspace, attempt).
          sendA ev c generation
            (STaskAttemptChanged workspace task_id (Some attempt) (map_option snd stop_pending)
               current stop_pending)))))"

definition register_agent ::
  "router_env \<Rightarrow> uuid \<Rightarrow> int \<Rightarrow> agent_registration \<Rightarrow> string \<Rightarrow> string option \<Rightarrow> (actor_error, unit) act" where
  "register_agent ev c generation registration token delegation_token =
     bindA (readA (\<lambda>s. require_unregistered s c)) (\<lambda>_.
     bindA (readA (\<lambda>s. authenticate ev s token)) (\<lambda>claims.
     bindA (readA (\<lambda>s. guardR (map_of (rs_primaries s) (rg_agent_id registration) = None)
                         (actor_code AgentConflict))) (\<lambda>_.
     bindA (guardA (\<not> (pc_role claims \<noteq> RoleAgent \<or> pc_subject claims \<noteq> rg_agent_id registration \<or>
                       pc_agent_side claims \<noteq> Some (rg_side registration) \<or>
                       pc_agent_client claims \<noteq> Some (rg_client registration)))
              (actor_code Unauthorized)) (\<lambda>_.
     bindA (tickA 1 (re_uuid ev)) (\<lambda>session_id.
     let descriptor =
       \<lparr>ad_agent_id = rg_agent_id registration, ad_side = rg_side registration,
        ad_client = rg_client registration, ad_activity = rg_activity registration,
        ad_status = Idle, ad_delivery_mode = rg_delivery_mode registration, ad_ready = False,
        ad_session_id = session_id\<rparr> in
     bindA (with_connection c (set_role (AgentRole claims descriptor delegation_token))) (\<lambda>_.
     bindA (updA (\<lambda>s. s\<lparr>rs_primaries :=
       AList.update (rg_agent_id registration) c (rs_primaries s)\<rparr>)) (\<lambda>_.
     bindA (sendA ev c generation (SRegistered PROTOCOL_VERSION descriptor RegAgent None 0)) (\<lambda>_.
     send_execution_snapshot ev c generation (rg_agent_id registration)))))))))"

definition owner_grant ::
  "router_state \<Rightarrow> string \<Rightarrow> string \<Rightarrow> actor_error + agent_descriptor \<times> workspace_name option" where
  "owner_grant s owner_id token =
     bindR (ok_or (map_of (rs_primaries s) owner_id) (actor_code Unauthorized)) (\<lambda>owner_connection.
     bindR (ok_or (connection s owner_connection) (actor_code Unauthorized)) (\<lambda>owner.
       (case cn_role owner of
          Some (AgentRole _ descriptor (Some expected)) \<Rightarrow>
            if expected = token then Inr (descriptor, cn_workspace owner)
            else Inl (actor_code Unauthorized)
        | _ \<Rightarrow> Inl (actor_code Unauthorized))))"

definition register_delegate ::
  "router_env \<Rightarrow> uuid \<Rightarrow> int \<Rightarrow> string \<Rightarrow> string \<Rightarrow> (actor_error, unit) act" where
  "register_delegate ev c generation owner_id token =
     bindA (readA (\<lambda>s. require_unregistered s c)) (\<lambda>_.
     bindA (readA (\<lambda>s. owner_grant s owner_id token)) (\<lambda>(descriptor, workspace).
     bindA (readA (\<lambda>s. Inr (case Option.bind workspace (latest_seq (rs_store s)) of
                               None \<Rightarrow> 0 | Some n \<Rightarrow> n))) (\<lambda>cursor.
     bindA (with_connection c (\<lambda>k. k\<lparr>cn_role := Some (DelegateRole owner_id),
                                      cn_workspace := workspace\<rparr>)) (\<lambda>_.
     bindA (updA (\<lambda>s. s\<lparr>rs_delegates :=
       AList.update owner_id (List.insert c (delegates_of s owner_id)) (rs_delegates s)\<rparr>)) (\<lambda>_.
     sendA ev c generation (SRegistered PROTOCOL_VERSION descriptor RegDelegate workspace cursor))))))"

definition register_operator ::
  "router_env \<Rightarrow> uuid \<Rightarrow> int \<Rightarrow> string \<Rightarrow> (actor_error, unit) act" where
  "register_operator ev c generation token =
     bindA (readA (\<lambda>s. require_unregistered s c)) (\<lambda>_.
     bindA (readA (\<lambda>s. authenticate ev s token)) (\<lambda>claims.
     bindA (guardA (pc_role claims = RoleOperator) (actor_code Unauthorized)) (\<lambda>_.
     let admin = (pc_subject claims = ''admin'' \<and> pc_workspaces claims = []) in
     bindA (with_connection c (set_role (OperatorRole claims admin))) (\<lambda>_.
     sendA ev c generation (SRegisteredOperator PROTOCOL_VERSION (pc_subject claims) admin None 0)))))"

definition set_readiness :: "uuid \<Rightarrow> bool \<Rightarrow> (actor_error, unit) act" where
  "set_readiness c ready s =
     (case connection s c of
        None \<Rightarrow> (Inl (actor_code NotRegistered), s)
      | Some k \<Rightarrow>
          (case cn_role k of
             Some (AgentRole _ d _) \<Rightarrow>
               if ad_delivery_mode d = Pull then
                 (Inr (), modify_connection c (\<lambda>k.
                    (map_descriptor (\<lambda>d. d\<lparr>ad_ready :=
                       (ready \<and> cn_canceling k = None \<and> \<not> barrier_or_true (rs_store s) (ad_agent_id d) \<and>
                        ad_status d = Idle \<and> cn_workspace k \<noteq> None)\<rparr>) k)
                      \<lparr>cn_stored_ready := ready\<rparr>) s)
               else (Inl (actor_code InvalidMessage), s)
           | _ \<Rightarrow> (Inl (actor_code PermissionDenied), s)))"

section \<open>Workspaces\<close>

definition page_limit :: "nat option \<Rightarrow> actor_error + nat" where
  "page_limit limit =
     (let limit = (case limit of None \<Rightarrow> DEFAULT_PAGE_LIMIT | Some l \<Rightarrow> l) in
      if 1 \<le> limit \<and> limit \<le> MAX_PAGE_LIMIT then Inr limit else Inl (actor_code InvalidMessage))"

definition workspace_list ::
  "router_env \<Rightarrow> uuid \<Rightarrow> int \<Rightarrow> string \<Rightarrow> string option \<Rightarrow> nat option \<Rightarrow> (actor_error, unit) act" where
  "workspace_list ev c generation rid after limit =
     bindA (readA (\<lambda>s. claims_of s c)) (\<lambda>(claims, admin).
     bindA (readA (\<lambda>s. page_limit limit)) (\<lambda>limit.
     bindA (readA (\<lambda>s. case after of None \<Rightarrow> Inr () | Some a \<Rightarrow>
              bindR (map_err (\<lambda>_. actor_code InvalidMessage) (parse_workspace_name a)) (\<lambda>_. Inr ()))) (\<lambda>_.
     bindA (readA (\<lambda>s. map_err actor_store (list_workspace_rows (rs_store s)
              (if admin then None else Some (pc_workspaces claims)) after limit))) (\<lambda>(rows, _, source_has_more).
     bindA (readA (\<lambda>s. mapR (\<lambda>(name, created_at).
              bindR (guardR (length (agents_in_workspace s name) \<le> U32_MAX) (actor_code StorageError)) (\<lambda>_.
              Inr \<lparr>ws_name = name, ws_created_at = created_at,
                   ws_connected_agents = length (agents_in_workspace s name)\<rparr>)) rows)) (\<lambda>summaries.
     bindA (readA (\<lambda>s. bound_workspace_list (\<lambda>rows cursor has_more.
              re_budget_len ev (SWorkspaces rid rows cursor has_more)) summaries after source_has_more))
       (\<lambda>(page, next, has_more).
     sendA ev c generation (SWorkspaces rid page next has_more)))))))"

definition is_operator_connection :: "router_state \<Rightarrow> uuid \<Rightarrow> bool" where
  "is_operator_connection s c =
     (case role_of s c of Some (OperatorRole _ _) \<Rightarrow> True | _ \<Rightarrow> False)"

definition sync_delegates :: "uuid \<Rightarrow> workspace_name option \<Rightarrow> router_state \<Rightarrow> router_state" where
  "sync_delegates owner workspace s =
     (case agent_of s owner of
        None \<Rightarrow> s
      | Some a \<Rightarrow> fold (\<lambda>c. modify_connection c (\<lambda>k. k\<lparr>cn_workspace := workspace\<rparr>)) (delegates_of s a) s)"

text \<open>A \<^verbatim>\<open>send\<close> to a connection under its current generation, if it is there.\<close>

definition send_current :: "router_env \<Rightarrow> server_message \<Rightarrow> uuid \<Rightarrow> router_state \<Rightarrow> router_state" where
  "send_current ev message c s =
     (case connection s c of None \<Rightarrow> s | Some k \<Rightarrow> snd (send ev c (cn_generation k) message s))"

definition notify_membership ::
  "router_env \<Rightarrow> uuid \<Rightarrow> workspace_name option \<Rightarrow> int \<Rightarrow> router_state \<Rightarrow> router_state" where
  "notify_membership ev owner workspace cursor s =
     (case role_of s owner of
        Some (AgentRole _ d _) \<Rightarrow>
          (let s1 = send_current ev (SWorkspaceChanged workspace cursor) owner s in
           fold (send_current ev (SWorkspaceChanged workspace cursor)) (delegates_of s1 (ad_agent_id d)) s1)
      | Some (OperatorRole _ _) \<Rightarrow> send_current ev (SWorkspaceChanged workspace cursor) owner s
      | _ \<Rightarrow> s)"

definition remove_subscriptions_for_owner :: "uuid \<Rightarrow> router_state \<Rightarrow> router_state" where
  "remove_subscriptions_for_owner owner s =
     (let gone = owner # delegates_of s (case agent_of s owner of None \<Rightarrow> [] | Some a \<Rightarrow> a) in
      s\<lparr>rs_subscribers := map (\<lambda>(w, cs). (w, filter (\<lambda>c. c \<notin> set gone) cs)) (rs_subscribers s)\<rparr>)"

definition enter_workspace :: "db \<Rightarrow> workspace_name \<Rightarrow> connection_state \<Rightarrow> connection_state" where
  "enter_workspace d name k =
     (case cn_role k of
        Some (AgentRole _ a _) \<Rightarrow>
          (map_descriptor (\<lambda>a. a\<lparr>ad_ready :=
             (ad_delivery_mode a = Push \<and> \<not> barrier_or_true d (ad_agent_id a))\<rparr>) k)
            \<lparr>cn_workspace := Some name, cn_stored_ready := (ad_delivery_mode a = Push)\<rparr>
      | _ \<Rightarrow> k\<lparr>cn_workspace := Some name\<rparr>)"

definition leave_workspace :: "connection_state \<Rightarrow> connection_state" where
  "leave_workspace k =
     (map_descriptor (\<lambda>a. a\<lparr>ad_ready := False\<rparr>) k)\<lparr>cn_workspace := None, cn_stored_ready := False\<rparr>"

text \<open>The member event of a join or a leave; operators leave no event.\<close>

definition member_event ::
  "router_env \<Rightarrow> bool \<Rightarrow> workspace_name \<Rightarrow> workspace_event_kind \<Rightarrow> string \<Rightarrow>
     (actor_error, workspace_event option) act" where
  "member_event ev is_operator name kind actor =
     (if is_operator then retA None
      else bindA (errA actor_store (appendA ev (member_insert name kind actor))) (\<lambda>event.
           retA (Some event)))"

definition latest_or_zero :: "db \<Rightarrow> workspace_name \<Rightarrow> int" where
  "latest_or_zero d name = (case latest_seq d name of None \<Rightarrow> 0 | Some n \<Rightarrow> n)"

definition workspace_join ::
  "router_env \<Rightarrow> uuid \<Rightarrow> int \<Rightarrow> string \<Rightarrow> workspace_name \<Rightarrow> (actor_error, unit) act" where
  "workspace_join ev c generation rid name s0 =
     (let e = effective s0 c in
     bindA (readA (\<lambda>s. authorize_workspace s e name)) (\<lambda>_.
     bindA (readA (\<lambda>s. guardR (workspace_exists (rs_store s) name) (actor_code WorkspaceNotFound))) (\<lambda>_.
     let current = Option.bind (connection s0 e) cn_workspace in
     if current = Some name then
       bindA (readA (\<lambda>s. Inr (latest_or_zero (rs_store s) name))) (\<lambda>cursor.
       sendA ev c generation (SWorkspaceJoined rid name cursor))
     else
       bindA (guardA (current = None) (actor_code WorkspaceAlreadyJoined)) (\<lambda>_.
       bindA (readA (\<lambda>s. actor_id s c)) (\<lambda>actor.
       bindA (member_event ev (is_operator_connection s0 e) name KMemberJoined actor) (\<lambda>event.
       bindA (readA (\<lambda>s. Inr (case event of Some x \<Rightarrow> we_seq x | None \<Rightarrow> latest_or_zero (rs_store s) name)))
         (\<lambda>cursor.
       bindA (updA (\<lambda>s. modify_connection e (enter_workspace (rs_store s) name) s)) (\<lambda>_.
       bindA (updA (sync_delegates e (Some name))) (\<lambda>_.
       bindA (sendA ev c generation (SWorkspaceJoined rid name cursor)) (\<lambda>_.
       bindA (updA (notify_membership ev e (Some name) cursor)) (\<lambda>_.
       updA (fanout_opt ev event))))))))))) s0)"

definition involves :: "uuid list \<Rightarrow> pending_request \<Rightarrow> bool" where
  "involves family p = (pd_requester p \<in> set family \<or> pd_recipient p \<in> set family)"

definition workspace_leave ::
  "router_env \<Rightarrow> uuid \<Rightarrow> int \<Rightarrow> string \<Rightarrow> (actor_error, unit) act" where
  "workspace_leave ev c generation rid s0 =
     (let e = effective s0 c in
      case Option.bind (connection s0 e) cn_workspace of
        None \<Rightarrow> sendA ev c generation (SWorkspaceLeft rid None) s0
      | Some workspace \<Rightarrow>
          bindA (guardA (Option.bind (connection s0 e) cn_canceling = None) (actor_code WorkspaceBusy)) (\<lambda>_.
          bindA (guardA (\<not> list_ex (\<lambda>(_, p). pd_workspace p = workspace \<and>
                     involves (connection_family s0 e) p) (rs_pending s0)) (actor_code WorkspaceBusy)) (\<lambda>_.
          bindA (case agent_of s0 e of
              None \<Rightarrow> retA ()
            | Some agent_id \<Rightarrow>
                bindA (readA (\<lambda>s. map_err actor_store (agent_execution_barriers (rs_store s) agent_id)))
                  (\<lambda>(running, unconfirmed).
                bindA (guardA (\<not> running) (actor_code WorkspaceBusy)) (\<lambda>_.
                guardA (\<not> unconfirmed) (actor_code LeaveUnconfirmed)))) (\<lambda>_.
          bindA (readA (\<lambda>s. actor_id s c)) (\<lambda>actor.
          bindA (member_event ev (is_operator_connection s0 e) workspace KMemberLeft actor) (\<lambda>event.
          bindA (updA (modify_connection e leave_workspace)) (\<lambda>_.
          bindA (updA (sync_delegates e None)) (\<lambda>_.
          bindA (updA (remove_subscriptions_for_owner e)) (\<lambda>_.
          bindA (sendA ev c generation (SWorkspaceLeft rid (Some workspace))) (\<lambda>_.
          bindA (updA (notify_membership ev e None 0)) (\<lambda>_.
          updA (fanout_opt ev event))))))))))) s0)"

definition workspace_post ::
  "router_env \<Rightarrow> uuid \<Rightarrow> int \<Rightarrow> string \<Rightarrow> string \<Rightarrow> (actor_error, unit) act" where
  "workspace_post ev c generation rid content =
     bindA (readA (\<lambda>s. current_workspace s c)) (\<lambda>workspace.
     bindA (readA (\<lambda>s. actor_id s c)) (\<lambda>actor.
     bindA (tickA 1 (re_clock ev)) (\<lambda>clock.
     bindA (errA actor_store (storeA (append_chat_idempotent clock workspace actor rid content))) (\<lambda>appended.
     bindA (sendA ev c generation (SWorkspacePosted rid workspace (we_seq (ca_event appended)))) (\<lambda>_.
     if ca_inserted appended then updA (fanout ev (ca_event appended)) else retA ())))))"

definition workspace_history ::
  "router_env \<Rightarrow> uuid \<Rightarrow> int \<Rightarrow> string \<Rightarrow> int option \<Rightarrow> nat option \<Rightarrow> (actor_error, unit) act" where
  "workspace_history ev c generation rid after limit =
     bindA (readA (\<lambda>s. current_workspace s c)) (\<lambda>workspace.
     let recent = (after = None) in
     bindA (readA (\<lambda>s. map_err actor_code (validate_page after limit))) (\<lambda>(after, limit).
     bindA (readA (\<lambda>s. guardR (\<not> (\<not> recent \<and> latest_or_zero (rs_store s) workspace < after))
                         (actor_code InvalidMessage))) (\<lambda>_.
     bindA (readA (\<lambda>s. map_err actor_store
              (if recent then recent_history (rs_store s) workspace limit
               else history (rs_store s) workspace after limit))) (\<lambda>(evs, _, source_has_more).
     bindA (readA (\<lambda>s. bound_history_page (\<lambda>rows cursor has_more.
              re_budget_len ev (SWorkspaceHistory rid \<lparr>hp_workspace = workspace, hp_events = rows,
                hp_next_cursor = cursor, hp_has_more = has_more\<rparr>)) evs after source_has_more))
       (\<lambda>(page, next, has_more).
     sendA ev c generation (SWorkspaceHistory rid \<lparr>hp_workspace = workspace, hp_events = page,
       hp_next_cursor = next, hp_has_more = has_more\<rparr>))))))"

definition is_delegate :: "router_state \<Rightarrow> uuid \<Rightarrow> bool" where
  "is_delegate s c = (case role_of s c of Some (DelegateRole _) \<Rightarrow> True | _ \<Rightarrow> False)"

definition subscribers_of :: "router_state \<Rightarrow> workspace_name \<Rightarrow> uuid list" where
  "subscribers_of s w = (case map_of (rs_subscribers s) w of None \<Rightarrow> [] | Some cs \<Rightarrow> cs)"

definition workspace_subscribe ::
  "router_env \<Rightarrow> uuid \<Rightarrow> int \<Rightarrow> string \<Rightarrow> int \<Rightarrow> (actor_error, unit) act" where
  "workspace_subscribe ev c generation rid after =
     bindA (readA (\<lambda>s. current_workspace s c)) (\<lambda>workspace.
     bindA (readA (\<lambda>s. guardR (\<not> is_delegate s c) (actor_code PermissionDenied))) (\<lambda>_.
     bindA (readA (\<lambda>s. guardR (\<not> latest_or_zero (rs_store s) workspace < after)
                         (actor_code InvalidMessage))) (\<lambda>_.
     bindA (readA (\<lambda>s. map_err actor_store (history (rs_store s) workspace after MAX_PAGE_LIMIT)))
       (\<lambda>(evs, _, source_has_more).
     bindA (readA (\<lambda>s. bound_history_page (\<lambda>rows cursor has_more.
              re_budget_len ev (SWorkspaceSubscription rid workspace rows cursor (\<not> has_more)))
              evs after source_has_more)) (\<lambda>(page, next, has_more).
     let live = (\<not> has_more) in
     bindA (updA (\<lambda>s. if live then
         modify_connection c (\<lambda>k. k\<lparr>cn_subscribed := True\<rparr>)
           (s\<lparr>rs_subscribers := AList.update workspace (List.insert c (subscribers_of s workspace))
                                  (rs_subscribers s)\<rparr>)
       else s)) (\<lambda>_.
     sendA ev c generation (SWorkspaceSubscription rid workspace page next live)))))))"

definition workspace_unsubscribe ::
  "router_env \<Rightarrow> uuid \<Rightarrow> int \<Rightarrow> string \<Rightarrow> (actor_error, unit) act" where
  "workspace_unsubscribe ev c generation rid =
     bindA (readA (\<lambda>s. current_workspace s c)) (\<lambda>workspace.
     bindA (updA (\<lambda>s. s\<lparr>rs_subscribers := AList.map_entry workspace (removeAll c) (rs_subscribers s)\<rparr>)) (\<lambda>_.
     bindA (updA (modify_connection c (\<lambda>k. k\<lparr>cn_subscribed := False\<rparr>))) (\<lambda>_.
     sendA ev c generation (SWorkspaceUnsubscribed rid workspace))))"

section \<open>Requests\<close>

definition PENDING_REQUEST_LIMIT :: nat where "PENDING_REQUEST_LIMIT = 256"

definition NANOS_PER_MILLI :: nat where "NANOS_PER_MILLI = 1000000"

definition pending_of_task :: "workspace_name \<Rightarrow> int \<Rightarrow> pending_request \<Rightarrow> bool" where
  "pending_of_task workspace task_id p =
     (pd_workspace p = workspace \<and>
      (case pd_task p of None \<Rightarrow> False | Some t \<Rightarrow> dp_id t = task_id))"

text \<open>The checks of \<^verbatim>\<open>start_request\<close> on the requester: it is not finishing cancelled work and has no
  attempt whose stop is unconfirmed.\<close>

definition requester_free :: "router_state \<Rightarrow> uuid \<Rightarrow> actor_error + unit" where
  "requester_free s e =
     bindR (guardR (Option.bind (connection s e) cn_canceling = None) (actor_code SessionBusy)) (\<lambda>_.
     (case agent_of s e of
        None \<Rightarrow> Inr ()
      | Some agent_id \<Rightarrow>
          bindR (map_err actor_store (agent_execution_barriers (rs_store s) agent_id)) (\<lambda>(_, stop_pending).
          guardR (\<not> stop_pending) (actor_code SessionBusy))))"

text \<open>The checks on the recipient; the result is its connection and generation.\<close>

definition recipient_ready ::
  "router_state \<Rightarrow> workspace_name \<Rightarrow> string \<Rightarrow> actor_error + uuid \<times> int" where
  "recipient_ready s workspace recipient_id =
     bindR (ok_or (map_of (rs_primaries s) recipient_id) (actor_code TargetOffline)) (\<lambda>recipient.
     bindR (ok_or (connection s recipient) (actor_code TargetOffline)) (\<lambda>k.
     bindR (guardR (cn_workspace k = Some workspace) (actor_code TargetOffline)) (\<lambda>_.
     (case cn_role k of
        Some (AgentRole _ descriptor _) \<Rightarrow>
          bindR (guardR (\<not> (cn_canceling k \<noteq> None \<or> ad_status descriptor = Busy))
                   (actor_code SessionBusy)) (\<lambda>_.
          bindR (map_err actor_store (agent_has_execution_barrier (rs_store s) (ad_agent_id descriptor)))
            (\<lambda>blocked.
          bindR (guardR (\<not> blocked) (actor_code SessionBusy)) (\<lambda>_.
          bindR (guardR (ad_ready descriptor) (actor_code TargetNotReady)) (\<lambda>_.
          Inr (recipient, cn_generation k)))))
      | _ \<Rightarrow> Inl (actor_code TargetOffline)))))"

text \<open>A request that an agent sends while it works for another one does not outlive that one.\<close>

definition request_deadline :: "router_state \<Rightarrow> uuid \<Rightarrow> nat \<Rightarrow> nat option \<Rightarrow> nat" where
  "request_deadline s e now timeout_ms =
     (let requested = now + normalize_timeout_ms timeout_ms * NANOS_PER_MILLI;
          parents = map (\<lambda>(_, p). pd_deadline p) (filter (\<lambda>(_, p). pd_recipient p = e) (rs_pending s))
      in if parents = [] then requested else min (Min (set parents)) requested)"

definition request_insert ::
  "workspace_name \<Rightarrow> string \<Rightarrow> string \<Rightarrow> string \<Rightarrow> task_dispatch option \<Rightarrow> string \<Rightarrow> event_insert" where
  "request_insert workspace requester_id rid recipient_id task content =
     \<lparr>ei_workspace = workspace, ei_kind = KRequest, ei_actor_id = requester_id,
      ei_request_id = Some rid, ei_target_id = Some recipient_id, ei_task_id = map_option dp_id task,
      ei_content = Some (ContentText content), ei_ok = None, ei_error = None\<rparr>"

text \<open>The request is logged and becomes pending.\<close>

definition record_request ::
  "router_env \<Rightarrow> string \<Rightarrow> pending_request \<Rightarrow> (store_error, workspace_event) act" where
  "record_request ev content p =
     bindA (tickA 1 (re_clock ev)) (\<lambda>clock.
     bindA (storeA (append_request clock (request_insert (pd_workspace p) (pd_requester_id p)
              (pd_request_id p) (pd_recipient_id p) (pd_task p) content))) (\<lambda>event.
     bindA (updA (\<lambda>s. s\<lparr>rs_pending :=
       AList.update (pd_workspace p, pd_request_id p) p (rs_pending s)\<rparr>)) (\<lambda>_.
     retA event)))"

definition start_request ::
  "router_env \<Rightarrow> uuid \<Rightarrow> int \<Rightarrow> string \<Rightarrow> string \<Rightarrow> string \<Rightarrow> nat option \<Rightarrow> task_dispatch option \<Rightarrow>
     (actor_error, unit) act" where
  "start_request ev requester requester_generation rid recipient_id content timeout_ms task =
     bindA (readA (\<lambda>s. current_workspace s requester)) (\<lambda>workspace.
     bindA (readA (\<lambda>s. Inr (effective s requester))) (\<lambda>e.
     bindA (readA (\<lambda>s. requester_free s e)) (\<lambda>_.
     bindA (readA (\<lambda>s. guardR (length (rs_pending s) < PENDING_REQUEST_LIMIT) (actor_code RateLimited))) (\<lambda>_.
     bindA (readA (\<lambda>s. guardR (map_of (rs_pending s) (workspace, rid) = None)
                         (actor_code RequestConflict))) (\<lambda>_.
     bindA (readA (\<lambda>s. recipient_ready s workspace recipient_id)) (\<lambda>(recipient, recipient_generation).
     bindA (readA (\<lambda>s. actor_id s requester)) (\<lambda>requester_id.
     bindA (tickA 1 (re_instant ev)) (\<lambda>now.
     bindA (readA (\<lambda>s. Inr (request_deadline s e now timeout_ms))) (\<lambda>deadline.
     bindA (errA actor_store (record_request ev content
       \<lparr>pd_workspace = workspace, pd_request_id = rid, pd_requester = requester,
        pd_requester_generation = requester_generation, pd_requester_id = requester_id,
        pd_recipient = recipient, pd_recipient_generation = recipient_generation,
        pd_recipient_id = recipient_id, pd_deadline = deadline, pd_task = task,
        pd_attempt_id = None\<rparr>)) (\<lambda>event.
     bindA (updA (set_busy recipient True)) (\<lambda>_.
     bindA (readA (\<lambda>s. actor_id s requester)) (\<lambda>from_id.
     bindA (callA (send ev recipient recipient_generation
              (SDeliver workspace rid from_id content
                 (max ((deadline - now) div NANOS_PER_MILLI) 1) task))) (\<lambda>delivered.
     if \<not> delivered then
       bindA (updA (fanout ev event)) (\<lambda>_.
       bindA (errA actor_store (finish_pending_error ev workspace rid TargetDisconnected)) (\<lambda>_.
       failA (actor_code TargetDisconnected)))
     else
       bindA (sendA ev requester requester_generation (SAccepted rid workspace recipient_id)) (\<lambda>_.
       updA (fanout ev event)))))))))))))))"

text \<open>What a reply leaves: a text when it succeeded, an error code when it did not.\<close>

definition reply_content :: "bool \<Rightarrow> string option \<Rightarrow> string option" where
  "reply_content ok content = (if ok then Some (case content of None \<Rightarrow> [] | Some t \<Rightarrow> t) else None)"

definition reply_error :: "bool \<Rightarrow> router_error_code option \<Rightarrow> router_error_code option" where
  "reply_error ok err = (if ok then None else Some (case err of None \<Rightarrow> ProviderError | Some e \<Rightarrow> e))"

definition complete_reply ::
  "router_env \<Rightarrow> uuid \<Rightarrow> workspace_name \<Rightarrow> string \<Rightarrow> pending_request \<Rightarrow> bool \<Rightarrow> string option \<Rightarrow>
     router_error_code option \<Rightarrow> (actor_error, unit) act" where
  "complete_reply ev c workspace rid p ok content err =
     bindA (errA actor_store (settle_request ev (workspace, rid) p
              (if ok then ReplyWithoutRelease else HostError)
              (result_insert workspace (pd_recipient_id p) (pd_request_id p) p
                 (reply_content ok content) ok (reply_error ok err))))
       (\<lambda>(task_event, attempt_change, event).
     bindA (updA (set_busy c False)) (\<lambda>_.
     bindA (sendA ev (pd_requester p) (pd_requester_generation p)
              (SResult workspace (pd_request_id p) (pd_recipient_id p) ok (reply_content ok content)
                 (reply_error ok err) (map_option dp_id (pd_task p)))) (\<lambda>_.
     bindA (case attempt_change of
         None \<Rightarrow> retA ()
       | Some (attempt_workspace, attempt) \<Rightarrow>
           bindA (guardA (\<not> (attempt_workspace \<noteq> workspace \<or>
                             Some (ta_task_id attempt) \<noteq> map_option dp_id (pd_task p)))
                    (actor_store SInvalidData)) (\<lambda>_.
           errA actor_store (notify_task_attempt_changed ev workspace (ta_task_id attempt)
             (Some attempt) (pd_attempt_id p) (pd_recipient_id p)))) (\<lambda>_.
     bindA (updA (fanout_opt ev task_event)) (\<lambda>_.
     updA (fanout ev event))))))"

definition finish_reply ::
  "router_env \<Rightarrow> uuid \<Rightarrow> int \<Rightarrow> string \<Rightarrow> bool \<Rightarrow> string option \<Rightarrow> router_error_code option \<Rightarrow>
     (actor_error, unit) act" where
  "finish_reply ev c generation rid ok content err s =
     (case current_workspace s c of
        Inl e \<Rightarrow> (Inl e, s)
      | Inr workspace \<Rightarrow>
          (case map_of (rs_pending s) (workspace, rid) of
             None \<Rightarrow> (Inl (actor_code RequestNotFound), s)
           | Some p \<Rightarrow>
               if pd_recipient p \<noteq> c \<or> pd_recipient_generation p \<noteq> generation
               then (Inl (actor_code PermissionDenied), s)
               else complete_reply ev c workspace rid p ok content err s))"

text \<open>Who may report that cancelled work is over.\<close>

definition idle_agent ::
  "router_state \<Rightarrow> uuid \<Rightarrow> int \<Rightarrow> canceling_work \<Rightarrow> actor_error + string" where
  "idle_agent s c generation expected =
     (case connection s c of
        None \<Rightarrow> Inl (actor_code PermissionDenied)
      | Some k \<Rightarrow>
          (case cn_role k of
             Some (AgentRole _ d _) \<Rightarrow>
               if cn_generation k = generation \<and> cn_canceling k = Some expected then Inr (ad_agent_id d)
               else if list_ex (\<lambda>(candidate, k). candidate \<noteq> c \<and> cn_canceling k = Some expected)
                         (rs_connections s)
                 then Inl (actor_code PermissionDenied)
               else Inl (actor_code RequestNotFound)
           | _ \<Rightarrow> Inl (actor_code PermissionDenied)))"

definition work_idle ::
  "router_env \<Rightarrow> uuid \<Rightarrow> int \<Rightarrow> string \<Rightarrow> workspace_name \<Rightarrow> string \<Rightarrow> task_fence option \<Rightarrow> bool \<Rightarrow>
     (actor_error, unit) act" where
  "work_idle ev c generation rid workspace work_rid task ready =
     bindA (readA (\<lambda>s. require_workspace_match s c workspace)) (\<lambda>_.
     bindA (readA (\<lambda>s. idle_agent s c generation
              \<lparr>cw_workspace = workspace, cw_request_id = work_rid, cw_task = task\<rparr>)) (\<lambda>agent_id.
     bindA (readA (\<lambda>s. map_err actor_store (agent_has_execution_barrier (rs_store s) agent_id))) (\<lambda>blocked.
     bindA (updA (modify_connection c (\<lambda>k.
         (map_descriptor (\<lambda>d. d\<lparr>ad_status := Idle,
            ad_ready := (ready \<and> \<not> blocked \<and> cn_workspace k \<noteq> None)\<rparr>) k)
           \<lparr>cn_canceling := None, cn_stored_ready := ready\<rparr>))) (\<lambda>_.
     sendA ev c generation (SWorkIdleAck rid workspace work_rid)))))"

section \<open>Tasks\<close>

definition task_actor_error :: "workspace_name \<Rightarrow> uuid option \<Rightarrow> task_error \<Rightarrow> actor_error" where
  "task_actor_error workspace op e =
     \<lparr>ae_code = err_code e, ae_workspace = Some workspace, ae_operation_id = op,
      ae_current_version = err_current_version e\<rparr>"

definition task_execution_stopped ::
  "router_env \<Rightarrow> uuid \<Rightarrow> int \<Rightarrow> string \<Rightarrow> workspace_name \<Rightarrow> int \<Rightarrow> uuid \<Rightarrow> uuid \<Rightarrow> pause_reason \<Rightarrow>
     (actor_error, unit) act" where
  "task_execution_stopped ev c generation rid workspace task_id attempt_id ended_session_id reason =
     bindA (readA (\<lambda>s. require_workspace_match s c workspace)) (\<lambda>_.
     bindA (readA (\<lambda>s. case role_of s c of
         Some (AgentRole claims d _) \<Rightarrow> Inr (ad_agent_id d, pc_id claims)
       | _ \<Rightarrow> Inl (actor_code PermissionDenied))) (\<lambda>(agent_id, credential_id).
     bindA (tickA 2 (\<lambda>t. (re_clock ev t, re_clock ev (t + 1)))) (\<lambda>(clock, eclock).
     bindA (errA (task_actor_error workspace None) (storeA (record_execution_stopped clock eclock
              workspace task_id attempt_id ended_session_id agent_id credential_id reason))) (\<lambda>event.
     bindA (updA (\<lambda>s. if list_ex (\<lambda>(_, p). pd_recipient p = c) (rs_pending s) then s
                       else set_busy c False s)) (\<lambda>_.
     bindA (readA (\<lambda>s. map_err actor_store (execution_attempt (rs_store s) attempt_id))) (\<lambda>found.
     bindA (readA (\<lambda>s. ok_or found (actor_store SInvalidData))) (\<lambda>(attempt_workspace, attempt).
     bindA (guardA (\<not> (attempt_workspace \<noteq> workspace \<or> ta_task_id attempt \<noteq> task_id))
              (actor_store SInvalidData)) (\<lambda>_.
     bindA (sendA ev c generation (STaskExecutionStoppedAck rid workspace task_id attempt_id)) (\<lambda>_.
     bindA (errA actor_store (notify_task_attempt_changed ev workspace task_id (Some attempt)
              (Some attempt_id) agent_id)) (\<lambda>_.
     updA (fanout_opt ev event)))))))))))"

definition DEFAULT_TASK_MESSAGE :: string where
  "DEFAULT_TASK_MESSAGE =
     ''Perform the assigned task and record checkpoints before releasing it.''"

definition task_request ::
  "router_env \<Rightarrow> uuid \<Rightarrow> int \<Rightarrow> string \<Rightarrow> workspace_name \<Rightarrow> int \<Rightarrow> int \<Rightarrow> string option \<Rightarrow> nat option \<Rightarrow>
     (actor_error, unit) act" where
  "task_request ev c generation rid workspace task_id expected_version message timeout_ms =
     bindA (readA (\<lambda>s. require_workspace_match s c workspace)) (\<lambda>_.
     bindA (readA (\<lambda>s. map_err actor_store (get_task (rs_store s) workspace task_id))) (\<lambda>found.
     bindA (readA (\<lambda>s. ok_or found (actor_code TaskNotFound))) (\<lambda>task.
     let summary = td_summary task in
     bindA (guardA (ts_version summary = expected_version)
              \<lparr>ae_code = TaskConflict, ae_workspace = Some workspace, ae_operation_id = None,
               ae_current_version = Some (ts_version summary)\<rparr>) (\<lambda>_.
     bindA (guardA (\<not> is_terminal (ts_state summary)) (actor_code TaskInvalidTransition)) (\<lambda>_.
     bindA (guardA (ts_current_attempt_id summary = None) (actor_code TaskActive)) (\<lambda>_.
     bindA (guardA (ts_stop_evidence summary \<noteq> Some EvUnknown) (actor_code TaskStopUnconfirmed)) (\<lambda>_.
     bindA (readA (\<lambda>s. ok_or (ts_assigned_agent_id summary) (actor_code TaskNotAssigned))) (\<lambda>agent_id.
     bindA (readA (\<lambda>s. map_err actor_store (agent_has_execution_barrier (rs_store s) agent_id))) (\<lambda>blocked.
     bindA (guardA (\<not> blocked) (actor_code TaskStopUnconfirmed)) (\<lambda>_.
     bindA (readA (\<lambda>s. guardR (\<not> list_ex (\<lambda>(_, p). pending_of_task workspace task_id p) (rs_pending s))
                         (actor_code TaskActive))) (\<lambda>_.
     start_request ev c generation rid agent_id
       (case message of None \<Rightarrow> DEFAULT_TASK_MESSAGE | Some m \<Rightarrow> m) timeout_ms
       (Some \<lparr>dp_id = task_id, dp_expected_version = expected_version\<rparr>))))))))))))"

definition task_list ::
  "router_env \<Rightarrow> uuid \<Rightarrow> int \<Rightarrow> string \<Rightarrow> workspace_name \<Rightarrow> task_state list option \<Rightarrow> string option \<Rightarrow>
     int option \<Rightarrow> nat option \<Rightarrow> (actor_error, unit) act" where
  "task_list ev c generation rid workspace states assigned after limit =
     bindA (readA (\<lambda>s. require_workspace_match s c workspace)) (\<lambda>_.
     let states = (case states of None \<Rightarrow> [Todo, InProgress, Blocked, Paused] | Some l \<Rightarrow> l) in
     bindA (guardA (\<not> (states = [] \<or> length states > 6)) (actor_code InvalidMessage)) (\<lambda>_.
     bindA (guardA (length (remdups states) = length states) (actor_code InvalidMessage)) (\<lambda>_.
     bindA (readA (\<lambda>s. map_err actor_code (validate_page after limit))) (\<lambda>(after, limit).
     bindA (readA (\<lambda>s. map_err actor_store
              (list_tasks (rs_store s) workspace states assigned after limit)))
       (\<lambda>(rows, _, source_has_more).
     bindA (readA (\<lambda>s. bound_task_list (\<lambda>rows cursor has_more.
              re_budget_len ev (STasks rid workspace rows cursor has_more)) rows after source_has_more))
       (\<lambda>(page, next, has_more).
     sendA ev c generation (STasks rid workspace page next has_more)))))))"

definition task_get ::
  "router_env \<Rightarrow> uuid \<Rightarrow> int \<Rightarrow> string \<Rightarrow> workspace_name \<Rightarrow> int \<Rightarrow> (actor_error, unit) act" where
  "task_get ev c generation rid workspace task_id =
     bindA (readA (\<lambda>s. require_workspace_match s c workspace)) (\<lambda>_.
     bindA (readA (\<lambda>s. map_err actor_store (get_task (rs_store s) workspace task_id))) (\<lambda>found.
     bindA (readA (\<lambda>s. ok_or found (actor_code TaskNotFound))) (\<lambda>task.
     sendA ev c generation (STask rid workspace task))))"

definition task_history ::
  "router_env \<Rightarrow> uuid \<Rightarrow> int \<Rightarrow> string \<Rightarrow> workspace_name \<Rightarrow> int \<Rightarrow> int option \<Rightarrow> nat option \<Rightarrow>
     (actor_error, unit) act" where
  "task_history ev c generation rid workspace task_id after limit =
     bindA (readA (\<lambda>s. require_workspace_match s c workspace)) (\<lambda>_.
     bindA (readA (\<lambda>s. map_err actor_store (get_task (rs_store s) workspace task_id))) (\<lambda>found.
     bindA (guardA (found \<noteq> None) (actor_code TaskNotFound)) (\<lambda>_.
     bindA (readA (\<lambda>s. map_err actor_code (validate_page after limit))) (\<lambda>(after, limit).
     bindA (readA (\<lambda>s. guardR (\<not> latest_or_zero (rs_store s) workspace < after)
                         (actor_code InvalidMessage))) (\<lambda>_.
     bindA (readA (\<lambda>s. Inr (store_task_history (rs_store s) workspace task_id after limit)))
       (\<lambda>(rows, _, source_has_more).
     bindA (readA (\<lambda>s. mapR (task_history_event_of workspace task_id) rows)) (\<lambda>evs.
     bindA (readA (\<lambda>s. bound_task_history (\<lambda>rows cursor has_more.
              re_budget_len ev (STaskHistory rid \<lparr>hq_workspace = workspace, hq_task_id = task_id,
                hq_events = rows, hq_next_cursor = cursor, hq_has_more = has_more\<rparr>))
              evs after source_has_more)) (\<lambda>(page, next, has_more).
     sendA ev c generation (STaskHistory rid \<lparr>hq_workspace = workspace, hq_task_id = task_id,
       hq_events = page, hq_next_cursor = next, hq_has_more = has_more\<rparr>)))))))))"

section \<open>Task commands\<close>

fun task_command_id :: "task_command \<Rightarrow> int option" where
  "task_command_id (CmdCreate _ _ _) = None"
| "task_command_id (CmdEdit _ task_id _ _ _) = Some task_id"
| "task_command_id (CmdAssign _ task_id _ _) = Some task_id"
| "task_command_id (CmdNote _ task_id _) = Some task_id"
| "task_command_id (CmdBegin _ task_id _ _ _ _) = Some task_id"
| "task_command_id (CmdCheckpoint _ task_id _ _ _) = Some task_id"
| "task_command_id (CmdPause _ task_id _ _ _ _) = Some task_id"
| "task_command_id (CmdComplete _ task_id _ _ _) = Some task_id"
| "task_command_id (CmdCancel _ task_id _ _) = Some task_id"
| "task_command_id (CmdReopen _ task_id _ _) = Some task_id"
| "task_command_id (CmdInterrupt _ task_id _ _) = Some task_id"
| "task_command_id (CmdConfirmStopped _ task_id _ _ _) = Some task_id"

fun attempt_changed :: "task_command \<Rightarrow> bool" where
  "attempt_changed (CmdBegin _ _ _ _ _ _) = True"
| "attempt_changed (CmdPause _ _ _ _ _ _) = True"
| "attempt_changed (CmdComplete _ _ _ _ _) = True"
| "attempt_changed (CmdInterrupt _ _ _ _) = True"
| "attempt_changed (CmdConfirmStopped _ _ _ _ _) = True"
| "attempt_changed _ = False"

text \<open>The commands a task accepts while a request for it is pending.\<close>

fun allowed_while_pending :: "task_command \<Rightarrow> bool" where
  "allowed_while_pending (CmdBegin _ _ _ _ _ _) = True"
| "allowed_while_pending (CmdNote _ _ _) = True"
| "allowed_while_pending (CmdCheckpoint _ _ _ _ _) = True"
| "allowed_while_pending (CmdPause _ _ _ _ _ _) = True"
| "allowed_while_pending (CmdComplete _ _ _ _ _) = True"
| "allowed_while_pending (CmdInterrupt _ _ _ _) = True"
| "allowed_while_pending _ = False"

fun begins :: "task_command \<Rightarrow> (int \<times> string) option" where
  "begins (CmdBegin _ task_id work_rid _ _ _) = Some (task_id, work_rid)"
| "begins _ = None"

fun interrupts :: "task_command \<Rightarrow> int option" where
  "interrupts (CmdInterrupt _ task_id _ _) = Some task_id"
| "interrupts _ = None"

fun confirms :: "task_command \<Rightarrow> uuid option" where
  "confirms (CmdConfirmStopped _ _ attempt_id _ _) = Some attempt_id"
| "confirms _ = None"

text \<open>Role, agent, credential and session of a caller, as both context functions compute them.\<close>

definition caller_identity ::
  "router_state \<Rightarrow> uuid \<Rightarrow> actor_error + caller_role \<times> string option \<times> uuid \<times> uuid option" where
  "caller_identity s c =
     (case role_of s (effective s c) of
        Some (AgentRole claims d _) \<Rightarrow>
          Inr (if effective s c = c then Agent else Delegate, Some (ad_agent_id d), pc_id claims,
               Some (ad_session_id d))
      | Some (OperatorRole claims admin) \<Rightarrow>
          Inr (if admin then Admin else Operator, None, pc_id claims, None)
      | _ \<Rightarrow> Inl (actor_code NotRegistered))"

definition begin_free :: "router_state \<Rightarrow> connection_state \<Rightarrow> actor_error + unit" where
  "begin_free s k =
     bindR (guardR (cn_canceling k = None) (actor_code SessionBusy)) (\<lambda>_.
     (case cn_role k of
        Some (AgentRole _ d _) \<Rightarrow>
          bindR (map_err actor_store (agent_execution_barriers (rs_store s) (ad_agent_id d)))
            (\<lambda>(_, stop_pending). guardR (\<not> stop_pending) (actor_code SessionBusy))
      | _ \<Rightarrow> Inr ()))"

definition reservation_for ::
  "router_state \<Rightarrow> uuid \<Rightarrow> workspace_name \<Rightarrow> task_command \<Rightarrow> reservation_fence option" where
  "reservation_for s e workspace command =
     (case begins command of
        None \<Rightarrow> None
      | Some (task_id, work_rid) \<Rightarrow>
          (case map_of (rs_pending s) (workspace, work_rid) of
             None \<Rightarrow> None
           | Some p \<Rightarrow>
               if pd_recipient p = e \<and>
                  (case pd_task p of None \<Rightarrow> False | Some t \<Rightarrow> dp_id t = task_id)
               then Some \<lparr>rf_work_request_id = work_rid, rf_task_id = task_id\<rparr> else None))"

definition router_caller_context ::
  "router_state \<Rightarrow> uuid \<Rightarrow> workspace_name \<Rightarrow> task_command \<Rightarrow> actor_error + caller_context" where
  "router_caller_context s c workspace command =
     bindR (ok_or (connection s (effective s c)) (actor_code NotRegistered)) (\<lambda>k.
     bindR (if begins command \<noteq> None then begin_free s k else Inr ()) (\<lambda>_.
     bindR (caller_identity s c) (\<lambda>(role, agent_id, credential_id, session_id).
     bindR (actor_id s c) (\<lambda>actor.
     Inr \<lparr>cc_actor_id = actor, cc_role = role, cc_workspace = workspace, cc_agent_id = agent_id,
          cc_credential_id = credential_id, cc_session_id = session_id,
          cc_connection_generation = cn_generation k,
          cc_reservation = reservation_for s (effective s c) workspace command\<rparr>))))"

definition env_at :: "router_env \<Rightarrow> nat \<Rightarrow> env" where
  "env_at ev t =
     \<lparr>op_clock = re_clock ev t, event_clock = re_clock ev (t + 1), new_attempt_id = re_uuid ev t,
      new_report_id = re_uuid ev (t + 1), request_digest = re_digest ev,
      body_json_len = re_body_len ev\<rparr>"

definition set_attempt ::
  "task_command \<Rightarrow> workspace_name \<Rightarrow> uuid option \<Rightarrow> router_state \<Rightarrow> router_state" where
  "set_attempt command workspace attempt_id s =
     (case begins command of
        None \<Rightarrow> s
      | Some (_, work_rid) \<Rightarrow>
          s\<lparr>rs_pending := AList.map_entry (workspace, work_rid)
              (\<lambda>p. p\<lparr>pd_attempt_id := attempt_id\<rparr>) (rs_pending s)\<rparr>)"

definition interrupted_request ::
  "router_state \<Rightarrow> workspace_name \<Rightarrow> task_command \<Rightarrow> request_key option" where
  "interrupted_request s workspace command =
     Option.bind (interrupts command) (\<lambda>task_id.
       map_option fst (find (\<lambda>((w, _), p). w = workspace \<and>
         (case pd_task p of None \<Rightarrow> False | Some t \<Rightarrow> dp_id t = task_id)) (rs_pending s)))"

definition release_stopped :: "string option \<Rightarrow> router_state \<Rightarrow> router_state" where
  "release_stopped agent_id s =
     (case Option.bind agent_id (map_of (rs_primaries s)) of None \<Rightarrow> s | Some c \<Rightarrow> set_busy c False s)"

definition task_mutate ::
  "router_env \<Rightarrow> uuid \<Rightarrow> int \<Rightarrow> string \<Rightarrow> workspace_name \<Rightarrow> task_command \<Rightarrow> (actor_error, unit) act" where
  "task_mutate ev c generation rid workspace command =
     bindA (readA (\<lambda>s. require_workspace_match s c workspace)) (\<lambda>_.
     bindA (readA (\<lambda>s. guardR (\<not> (case task_command_id command of None \<Rightarrow> False | Some task_id \<Rightarrow>
              \<not> allowed_while_pending command \<and>
              list_ex (\<lambda>(_, p). pending_of_task workspace task_id p) (rs_pending s)))
              (actor_code TaskActive))) (\<lambda>_.
     bindA (readA (\<lambda>s. Inr (interrupted_request s workspace command))) (\<lambda>interrupted.
     bindA (readA (\<lambda>s. Inr (Option.bind (confirms command) (attempt_agent_id (rs_store s)))))
       (\<lambda>stopped_agent.
     bindA (readA (\<lambda>s. router_caller_context s c workspace command)) (\<lambda>caller.
     bindA (tickA 2 (env_at ev)) (\<lambda>tev.
     bindA (errA (\<lambda>e. task_actor_error workspace (err_operation_id e) e)
              (storeA (apply_task tev caller command))) (\<lambda>result.
     let mutation = ar_mutation result; task = tm_task mutation in
     bindA (updA (set_attempt command workspace (ts_current_attempt_id (td_summary task)))) (\<lambda>_.
     bindA (updA (release_stopped stopped_agent)) (\<lambda>_.
     bindA (sendA ev c generation (STaskMutated rid workspace mutation)) (\<lambda>_.
     bindA (updA (fanout ev (ar_event result))) (\<lambda>_.
     bindA (case interrupted of
         None \<Rightarrow> retA ()
       | Some (pending_workspace, pending_rid) \<Rightarrow>
           errA actor_store (finish_pending_error ev pending_workspace pending_rid TaskInterrupted)) (\<lambda>_.
     (case (interrupted,
            if attempt_changed command
            then or_else (td_current_attempt task) (td_last_attempt task) else None) of
        (None, Some attempt) \<Rightarrow>
          errA actor_store (notify_task_attempt_changed ev workspace (ta_task_id attempt)
            (Some attempt) (ar_closed_attempt_id result) (ta_agent_id attempt))
      | _ \<Rightarrow> retA ())))))))))))))"

section \<open>Credentials\<close>

definition credential_issue ::
  "router_env \<Rightarrow> uuid \<Rightarrow> int \<Rightarrow> string \<Rightarrow> credential_role \<Rightarrow> string \<Rightarrow> agent_side option \<Rightarrow>
     agent_client option \<Rightarrow> workspace_name list \<Rightarrow> (actor_error, unit) act" where
  "credential_issue ev c generation rid role subject side client grants =
     bindA (readA (\<lambda>s. require_admin s c)) (\<lambda>_.
     bindA (guardA (\<not> (role = RoleOperator \<and> subject = ''admin'')) (actor_code PermissionDenied)) (\<lambda>_.
     bindA (readA (\<lambda>s. guardR (list_all (workspace_exists (rs_store s)) grants)
                         (actor_code WorkspaceNotFound))) (\<lambda>_.
     bindA (tickA 1 (\<lambda>t. (re_uuid ev t, re_random ev t))) (\<lambda>(new_id, random).
     bindA (readA (\<lambda>s. map_err (\<lambda>_. actor_code InvalidMessage)
              (generate_credential (re_codec ev) new_id random role subject side client grants)))
       (\<lambda>credential.
     bindA (tickA 1 (re_clock ev)) (\<lambda>clock.
     bindA (errA actor_store (storeA (\<lambda>d.
              bindR (insert_credential (re_codec ev) clock credential d) (\<lambda>d1. Inr (d1, ()))))) (\<lambda>_.
     sendA ev c generation (SCredentialIssued rid credential))))))))"

definition credential_list ::
  "router_env \<Rightarrow> uuid \<Rightarrow> int \<Rightarrow> string \<Rightarrow> uuid option \<Rightarrow> nat option \<Rightarrow> (actor_error, unit) act" where
  "credential_list ev c generation rid after limit =
     bindA (readA (\<lambda>s. require_admin s c)) (\<lambda>_.
     bindA (readA (\<lambda>s. page_limit limit)) (\<lambda>limit.
     bindA (readA (\<lambda>s. map_err actor_store (list_credentials (rs_store s) after limit)))
       (\<lambda>(rows, next, has_more).
     sendA ev c generation (SCredentials rid
       (map (\<lambda>r. \<lparr>cs_claims = sc_claims r, cs_created_at = sc_created_at r,
                   cs_revoked_at = sc_revoked_at r\<rparr>) rows) next has_more))))"

definition credential_connections :: "uuid \<Rightarrow> router_state \<Rightarrow> (uuid \<times> int) list" where
  "credential_connections credential_id s =
     List.map_filter (\<lambda>(c, k). case cn_role k of
         Some (AgentRole claims _ _) \<Rightarrow>
           if pc_id claims = credential_id then Some (c, cn_generation k) else None
       | Some (OperatorRole claims _) \<Rightarrow>
           if pc_id claims = credential_id then Some (c, cn_generation k) else None
       | _ \<Rightarrow> None) (rs_connections s)"

definition revoke_notice :: "router_env \<Rightarrow> uuid \<Rightarrow> router_state \<Rightarrow> router_state" where
  "revoke_notice ev c s =
     (case connection s c of
        None \<Rightarrow> s
      | Some k \<Rightarrow> send_error ev c (cn_generation k) None (actor_code Unauthorized) s)"

definition router_revoke_credential :: "router_env \<Rightarrow> uuid \<Rightarrow> (runtime_error, bool) act" where
  "router_revoke_credential ev credential_id =
     bindA (tickA 1 (re_clock ev)) (\<lambda>clock.
     bindA (errA RtStore (storeA (revoke_credential clock credential_id))) (\<lambda>revoked.
     if \<not> revoked then retA False
     else
       bindA (readA (\<lambda>s. Inr (credential_connections credential_id s))) (\<lambda>matching.
       bindA (eachA (\<lambda>(c, generation).
           bindA (updA (\<lambda>s. fold (revoke_notice ev) (connection_family s c) s)) (\<lambda>_.
           disconnect_with_reason ev c generation CredentialRevoked)) matching) (\<lambda>_.
       retA True))))"

definition credential_revoke ::
  "router_env \<Rightarrow> uuid \<Rightarrow> int \<Rightarrow> string \<Rightarrow> uuid \<Rightarrow> (actor_error, unit) act" where
  "credential_revoke ev c generation rid credential_id =
     bindA (readA (\<lambda>s. require_admin s c)) (\<lambda>_.
     bindA (errA (\<lambda>_. actor_code StorageError) (router_revoke_credential ev credential_id)) (\<lambda>revoked.
     bindA (guardA revoked (actor_code RequestNotFound)) (\<lambda>_.
     sendA ev c generation (SCredentialRevoked rid credential_id))))"

definition invite_issue ::
  "router_env \<Rightarrow> uuid \<Rightarrow> int \<Rightarrow> string \<Rightarrow> workspace_name \<Rightarrow> bool \<Rightarrow> onboarding_provider option \<Rightarrow>
     (actor_error, unit) act" where
  "invite_issue ev c generation rid workspace create provider =
     bindA (readA (\<lambda>s. require_admin s c)) (\<lambda>_.
     bindA (tickA 1 (\<lambda>t. (re_clock ev t, re_uuid ev t, re_random ev t))) (\<lambda>(clock, new_id, random).
     bindA (readA (\<lambda>s. map_err actor_store (now_millis clock))) (\<lambda>now.
     bindA (errA actor_store (storeA (issue_onboarding_invite (re_codec ev) new_id random workspace
              create provider now))) (\<lambda>invite.
     sendA ev c generation (SOnboardingInviteIssued rid (ii_server_id invite) (ii_invite_id invite)
       (ii_invite_token invite) (ii_expires_at invite) (ii_workspace invite) (ii_provider invite))))))"

definition invite_revoke ::
  "router_env \<Rightarrow> uuid \<Rightarrow> int \<Rightarrow> string \<Rightarrow> uuid \<Rightarrow> (actor_error, unit) act" where
  "invite_revoke ev c generation rid invite_id =
     bindA (readA (\<lambda>s. require_admin s c)) (\<lambda>_.
     bindA (tickA 1 (re_clock ev)) (\<lambda>clock.
     bindA (readA (\<lambda>s. map_err actor_store (now_millis clock))) (\<lambda>now.
     bindA (errA actor_store (storeA (\<lambda>d.
              bindR (revoke_onboarding_invite invite_id now d) (\<lambda>d1. Inr (d1, ()))))) (\<lambda>_.
     sendA ev c generation (SOnboardingInviteRevoked rid invite_id)))))"

definition workspace_create ::
  "router_env \<Rightarrow> uuid \<Rightarrow> int \<Rightarrow> string \<Rightarrow> workspace_name \<Rightarrow> (actor_error, unit) act" where
  "workspace_create ev c generation rid name =
     bindA (readA (\<lambda>s. require_admin s c)) (\<lambda>_.
     bindA (tickA 1 (re_clock ev)) (\<lambda>clock.
     bindA (errA actor_store (storeA (create_workspace clock name))) (\<lambda>(created_at, created).
     bindA (guardA created (actor_code WorkspaceConflict)) (\<lambda>_.
     sendA ev c generation (SWorkspaceCreated rid
       \<lparr>ws_name = name, ws_created_at = created_at, ws_connected_agents = 0\<rparr>)))))"

definition router_shutdown :: "router_env \<Rightarrow> uuid \<Rightarrow> int \<Rightarrow> string \<Rightarrow> (actor_error, unit) act" where
  "router_shutdown ev c generation rid =
     bindA (readA (\<lambda>s. require_admin s c)) (\<lambda>_.
     bindA (sendA ev c generation (SRouterStopping rid)) (\<lambda>_.
     updA (\<lambda>s. s\<lparr>rs_shutting_down := True\<rparr>)))"

end
