(* ===== verification/Router_External.thy ===== *)
theory Router_External
  imports Router_Ops
begin

text \<open>
  The router's side of the integrations (\<^verbatim>\<open>src/router.rs\<close>): the messages about bindings and external
  operations, the tasks they spawn, and the commands by which those tasks ask for the gate and report back.
\<close>

section \<open>Shared parts\<close>

definition INTEGRATION_REQUEST_LIMIT :: nat where "INTEGRATION_REQUEST_LIMIT = 4"

definition external_error ::
  "workspace_name option \<Rightarrow> uuid option \<Rightarrow> router_error_code \<Rightarrow> actor_error" where
  "external_error workspace op code =
     \<lparr>ae_code = code, ae_workspace = workspace, ae_operation_id = op, ae_current_version = None\<rparr>"

fun integration_router_code :: "integration_client_error \<Rightarrow> router_error_code" where
  "integration_router_code CeBusy = IntegrationBusy"
| "integration_router_code (CeFailed e) =
     (if e = ConfigurationInvalid then IntegrationConfigurationInvalid else IntegrationError)"
| "integration_router_code (CeUnconfirmed _) = IntegrationError"

text \<open>The readings one call of the store takes.\<close>

definition xenv_at :: "router_env \<Rightarrow> nat \<Rightarrow> xenv" where
  "xenv_at ev t =
     \<lparr>xv_codec = re_xcodec ev, xv_clock = re_clock ev t, xv_event_clock = re_clock ev (t + 1),
      xv_task_clock = re_clock ev (t + 2), xv_instant = re_instant ev t, xv_creation_id = re_uuid ev t,
      xv_note_id = re_uuid ev (t + 1), xv_body_len = re_body_len ev\<rparr>"

text \<open>The file is read at the time of the call.\<close>

definition xcodec_at :: "router_env \<Rightarrow> nat \<Rightarrow> xcodec" where
  "xcodec_at ev t = (re_xcodec ev)\<lparr>xc_read_file := re_file ev t\<rparr>"

definition catalog_clocks_at :: "router_env \<Rightarrow> nat \<Rightarrow> catalog_clocks" where
  "catalog_clocks_at ev t =
     \<lparr>kc_now = re_clock ev t, kc_configured = (\<lambda>n. re_clock ev (t + 2 * n + 1)),
      kc_disabled = (\<lambda>n. re_clock ev (t + 2 * n + 2))\<rparr>"

text \<open>A call whose error the caller looks at.\<close>

definition attemptA :: "('e, 'a) act \<Rightarrow> ('f, 'e + 'a) act" where
  "attemptA m = (\<lambda>s. case m s of (r, s1) \<Rightarrow> (Inr r, s1))"

definition external_caller_context ::
  "router_state \<Rightarrow> uuid \<Rightarrow> workspace_name \<Rightarrow> actor_error + caller_context" where
  "external_caller_context s c workspace =
     bindR (ok_or (connection s (effective s c)) (actor_code NotRegistered)) (\<lambda>k.
     bindR (caller_identity s c) (\<lambda>(role, agent_id, credential_id, session_id).
     bindR (actor_id s c) (\<lambda>actor.
     Inr \<lparr>cc_actor_id = actor, cc_role = role, cc_workspace = workspace, cc_agent_id = agent_id,
          cc_credential_id = credential_id, cc_session_id = session_id,
          cc_connection_generation = cn_generation k, cc_reservation = None\<rparr>)))"

text \<open>Reserving one of the four requests and the task's slot at the provider, and giving them back.\<close>

definition reserve :: "task_slot option \<Rightarrow> router_state \<Rightarrow> router_state" where
  "reserve slot s =
     s\<lparr>rs_integration_requests := rs_integration_requests s + 1,
       rs_task_slots := (case slot of None \<Rightarrow> rs_task_slots s | Some k \<Rightarrow> List.insert k (rs_task_slots s))\<rparr>"

definition release :: "task_slot option \<Rightarrow> router_state \<Rightarrow> router_state" where
  "release slot s =
     s\<lparr>rs_integration_requests := rs_integration_requests s - 1,
       rs_task_slots := (case slot of None \<Rightarrow> rs_task_slots s | Some k \<Rightarrow> removeAll k (rs_task_slots s))\<rparr>"

definition slot_of :: "workspace_name \<Rightarrow> int option \<Rightarrow> external_provider \<Rightarrow> task_slot option" where
  "slot_of workspace task_id provider = map_option (\<lambda>t. (workspace, t, provider)) task_id"

definition release_external_reservation :: "prepared_operation \<Rightarrow> router_state \<Rightarrow> router_state" where
  "release_external_reservation p =
     release (slot_of (po_workspace p) (eo_task_id (po_summary p)) (eo_provider (po_summary p)))"

definition release_resolution_reservation :: "prepared_resolution \<Rightarrow> router_state \<Rightarrow> router_state" where
  "release_resolution_reservation p =
     release (slot_of (pr_workspace p) (pr_task_id p) (pr_provider p))"

definition spawn :: "worker \<Rightarrow> router_state \<Rightarrow> router_state" where
  "spawn w s = s\<lparr>rs_workers := w # rs_workers s\<rparr>"

text \<open>A task that reported back is gone.\<close>

fun drop_first :: "('a \<Rightarrow> bool) \<Rightarrow> 'a list \<Rightarrow> 'a list" where
  "drop_first P [] = []"
| "drop_first P (x # xs) = (if P x then xs else x # drop_first P xs)"

definition report_back :: "(worker \<Rightarrow> bool) \<Rightarrow> router_state \<Rightarrow> router_state" where
  "report_back P s = s\<lparr>rs_workers := drop_first P (rs_workers s)\<rparr>"

text \<open>The three conditions under which a task may be spawned.\<close>

definition may_spawn :: "task_slot option \<Rightarrow> router_state \<Rightarrow> actor_error + unit" where
  "may_spawn slot s =
     bindR (guardR (rs_integration_requests s < INTEGRATION_REQUEST_LIMIT) (actor_code IntegrationBusy)) (\<lambda>_.
     bindR (guardR (case slot of None \<Rightarrow> True | Some k \<Rightarrow> k \<notin> set (rs_task_slots s))
              (actor_code IntegrationBusy)) (\<lambda>_.
     guardR (rs_client s) (actor_code IntegrationConfigurationInvalid)))"

section \<open>Bindings\<close>

definition integration_list ::
  "router_env \<Rightarrow> uuid \<Rightarrow> int \<Rightarrow> string \<Rightarrow> workspace_name \<Rightarrow> (actor_error, unit) act" where
  "integration_list ev c generation rid workspace =
     bindA (readA (\<lambda>s. require_workspace_match s c workspace)) (\<lambda>_.
     bindA (readA (\<lambda>s. map_err (external_error (Some workspace) None)
              (registry_list (re_xcodec ev) (rs_integrations s) workspace))) (\<lambda>integrations.
     sendA ev c generation (SIntegrations rid workspace integrations)))"

definition integration_check ::
  "router_env \<Rightarrow> uuid \<Rightarrow> int \<Rightarrow> string \<Rightarrow> workspace_name \<Rightarrow> external_provider \<Rightarrow> (actor_error, unit) act" where
  "integration_check ev c generation rid workspace provider =
     bindA (readA (\<lambda>s. require_operator s c)) (\<lambda>_.
     bindA (readA (\<lambda>s. authorize_workspace s c workspace)) (\<lambda>_.
     bindA (readA (\<lambda>s. guardR (rs_integration_requests s < INTEGRATION_REQUEST_LIMIT)
              (actor_code IntegrationBusy))) (\<lambda>_.
     bindA (readA (\<lambda>s. map_err (external_error (Some workspace) None)
              (registry_binding (rs_integrations s) workspace provider))) (\<lambda>active.
     bindA (readA (\<lambda>s. guardR (rs_client s) (actor_code IntegrationConfigurationInvalid))) (\<lambda>_.
     bindA (updA (reserve None)) (\<lambda>_.
     updA (spawn (CheckWorker active c generation rid workspace provider))))))))"

text \<open>The reload reads one clock for itself and one for each event of its two loops.\<close>

definition reload_readings :: "router_state \<Rightarrow> nat" where
  "reload_readings s = 2 * (MAX_CONNECTIONS + length (bindings (rs_store s))) + 1"

definition reloadA ::
  "router_env \<Rightarrow> (router_error_code, integration_public list \<times> workspace_event list) act" where
  "reloadA ev s =
     bindA (tickA (reload_readings s) (\<lambda>t. (xcodec_at ev t, catalog_clocks_at ev t))) (\<lambda>(cx, clocks) s1.
       case registry_reload cx clocks (rs_integrations s1) (rs_store s1) of
         Inl code \<Rightarrow> (Inl code, s1)
       | Inr (d, registry, public, changes) \<Rightarrow>
           (Inr (public, changes), s1\<lparr>rs_store := d, rs_integrations := registry\<rparr>)) s"

definition integration_reload ::
  "router_env \<Rightarrow> uuid \<Rightarrow> int \<Rightarrow> string \<Rightarrow> (actor_error, unit) act" where
  "integration_reload ev c generation rid =
     bindA (readA (\<lambda>s. require_admin s c)) (\<lambda>_.
     bindA (errA (external_error None None) (reloadA ev)) (\<lambda>(integrations, changes).
     bindA (readA (\<lambda>s. Inr (registry_has_active (rs_integrations s)))) (\<lambda>has_active.
     bindA (if has_active
            then bindA (tickA 1 (re_client ev)) (\<lambda>client.
                 bindA (readA (\<lambda>_. map_err (\<lambda>e. actor_code (integration_router_code e)) client)) (\<lambda>_.
                 updA (\<lambda>s. s\<lparr>rs_client := True\<rparr>)))
            else updA (\<lambda>s. s\<lparr>rs_client := False\<rparr>)) (\<lambda>_.
     bindA (sendA ev c generation (SIntegrationsReloaded rid integrations)) (\<lambda>_.
     eachA (\<lambda>event. updA (fanout ev event)) changes)))))"

section \<open>External operations\<close>

text \<open>\<^verbatim>\<open>external_status\<close>, a method of the router.\<close>

definition router_external_status ::
  "router_env \<Rightarrow> uuid \<Rightarrow> int \<Rightarrow> string \<Rightarrow> workspace_name \<Rightarrow> uuid \<Rightarrow> (actor_error, unit) act" where
  "router_external_status ev c generation rid workspace op =
     bindA (readA (\<lambda>s. require_workspace_match s c workspace)) (\<lambda>_.
     bindA (readA (\<lambda>s. ok_or (external_status (rs_store s) workspace op) (actor_code IntegrationError)))
       (\<lambda>(operation, resolution).
     sendA ev c generation (SExternalStatus rid workspace operation resolution)))"

definition start_worker ::
  "router_env \<Rightarrow> uuid \<Rightarrow> int \<Rightarrow> string \<Rightarrow> workspace_name \<Rightarrow> active_integration \<Rightarrow> prepared_operation \<Rightarrow>
     (actor_error, unit) act" where
  "start_worker ev c generation rid workspace active prepared =
     bindA (sendA ev c generation (SExternalOperation rid workspace (po_summary prepared))) (\<lambda>_.
     bindA (updA (fanout_opt ev (po_event prepared))) (\<lambda>_.
     if po_payload prepared = None then updA (release_external_reservation prepared)
     else updA (spawn (ExternalWorker active prepared))))"

definition external_start ::
  "router_env \<Rightarrow> uuid \<Rightarrow> int \<Rightarrow> string \<Rightarrow> workspace_name \<Rightarrow> external_command \<Rightarrow> (actor_error, unit) act" where
  "external_start ev c generation rid workspace command =
     bindA (readA (\<lambda>s. require_workspace_match s c workspace)) (\<lambda>_.
     bindA (readA (\<lambda>s. external_caller_context s c workspace)) (\<lambda>caller.
     bindA (readA (\<lambda>s. map_err (external_error (Some workspace) (Some (xc_operation_id command)))
              (replay_external_operation (re_xcodec ev) (rs_store s) caller command))) (\<lambda>replay.
     case replay of
       Some operation \<Rightarrow> sendA ev c generation (SExternalOperation rid workspace operation)
     | None \<Rightarrow>
         bindA (readA (\<lambda>s. map_err (external_error (Some workspace) (Some (xc_operation_id command)))
                  (registry_binding (rs_integrations s) workspace (xc_provider command)))) (\<lambda>active.
         let slot = slot_of workspace (xc_task_id command) (xc_provider command) in
         bindA (readA (may_spawn slot)) (\<lambda>_.
         bindA (updA (reserve slot)) (\<lambda>_.
         bindA (tickA 3 (xenv_at ev)) (\<lambda>v.
         bindA (attemptA (storeA (prepare_external_operation v caller active command))) (\<lambda>prepared.
         case prepared of
           Inl code \<Rightarrow>
             bindA (updA (release slot)) (\<lambda>_.
             failA (external_error (Some workspace) (Some (xc_operation_id command)) code))
         | Inr p \<Rightarrow> start_worker ev c generation rid workspace active p)))))))) "

definition announce_resolution ::
  "router_env \<Rightarrow> uuid \<Rightarrow> int \<Rightarrow> string \<Rightarrow> workspace_name \<Rightarrow> resolution_completion \<Rightarrow> ('e, unit) act" where
  "announce_resolution ev c generation rid workspace completion =
     bindA (sendA ev c generation
       (SExternalResolved rid workspace (vc_operation completion) (vc_resolution completion))) (\<lambda>_.
     bindA (updA (fanout_opt ev (vc_task_event completion))) (\<lambda>_.
     updA (fanout ev (vc_event completion))))"

definition external_resolve ::
  "router_env \<Rightarrow> uuid \<Rightarrow> int \<Rightarrow> string \<Rightarrow> workspace_name \<Rightarrow> uuid \<Rightarrow> uuid \<Rightarrow> external_resolution_outcome \<Rightarrow>
     string option \<Rightarrow> string \<Rightarrow> (actor_error, unit) act" where
  "external_resolve ev c generation rid workspace op resolution_id outcome external_id remark =
     bindA (readA (\<lambda>s. require_operator s c)) (\<lambda>_.
     bindA (readA (\<lambda>s. authorize_workspace s c workspace)) (\<lambda>_.
     bindA (readA (\<lambda>s. ok_or (external_status (rs_store s) workspace op) (actor_code IntegrationError)))
       (\<lambda>(operation, _).
     bindA (readA (\<lambda>s. map_err (external_error (Some workspace) (Some op))
              (registry_binding (rs_integrations s) workspace (eo_provider operation)))) (\<lambda>active.
     bindA (readA (\<lambda>s. external_caller_context s c workspace)) (\<lambda>caller.
     bindA (tickA 3 (xenv_at ev)) (\<lambda>v.
     bindA (errA (external_error (Some workspace) (Some op))
              (storeA (prepare_external_resolution v caller active op resolution_id outcome external_id remark)))
       (\<lambda>prepared.
     case prepared of
       ReplayResolution stored resolution \<Rightarrow>
         sendA ev c generation (SExternalResolved rid workspace stored resolution)
     | ResolutionCompleted completion \<Rightarrow> announce_resolution ev c generation rid workspace completion
     | ResolutionVerify p \<Rightarrow>
         let slot = slot_of workspace (pr_task_id p) (pr_provider p) in
         bindA (readA (may_spawn slot)) (\<lambda>_.
         bindA (updA (reserve slot)) (\<lambda>_.
         updA (spawn (ResolutionWorker active p c generation rid)))))))))))"

section \<open>What a spawned task does\<close>

text \<open>The answers of the provider are arguments. \<open>call\<close> is \<open>None\<close> when the deadline passed first.\<close>

datatype external_success = ReadIssue external_issue | WroteMutation external_mutation

datatype external_worker_result =
    WorkerSuccess external_success
  | WorkerClientError integration_client_error
  | WorkerGateDenied router_error_code

definition external_call ::
  "bool \<Rightarrow> (integration_client_error + 'a) option \<Rightarrow> integration_client_error + 'a" where
  "external_call mutation call =
     (case call of Some r \<Rightarrow> r
      | None \<Rightarrow> Inl (if mutation then CeUnconfirmed XTimeout else CeFailed XTimeout))"

text \<open>What the provider and the gate answer to one task.\<close>

record provider_answers =
  pa_check :: "(integration_client_error + unit) option"
  pa_issue :: "string \<Rightarrow> (integration_client_error + external_issue) option"
  pa_write :: "(integration_client_error + external_mutation) option"
  pa_gate :: "router_error_code + unit"

definition gated_write :: "integration_client_error + 'a \<Rightarrow> provider_answers \<Rightarrow> external_worker_result" where
  "gated_write preflight answers =
     (case preflight of
        Inl e \<Rightarrow> WorkerClientError e
      | Inr _ \<Rightarrow>
          (case pa_gate answers of
             Inl code \<Rightarrow> WorkerGateDenied code
           | Inr _ \<Rightarrow>
               (case external_call True (pa_write answers) of
                  Inl e \<Rightarrow> WorkerClientError e
                | Inr m \<Rightarrow> WorkerSuccess (WroteMutation m))))"

definition read_issue :: "string \<Rightarrow> provider_answers \<Rightarrow> external_worker_result" where
  "read_issue external_id answers =
     (case external_call False (pa_issue answers external_id) of
        Inl e \<Rightarrow> WorkerClientError e
      | Inr i \<Rightarrow> WorkerSuccess (ReadIssue i))"

text \<open>\<^verbatim>\<open>run_external_worker\<close>: the result it reports; a task is spawned only with a payload.\<close>

fun run_external_worker :: "operation_payload \<Rightarrow> provider_answers \<Rightarrow> external_worker_result" where
  "run_external_worker (PayImport external_id) answers = read_issue external_id answers"
| "run_external_worker (PayLink external_id _ _) answers = read_issue external_id answers"
| "run_external_worker (PayPublishIssue _ _ _ _) answers =
     gated_write (external_call False (pa_check answers)) answers"
| "run_external_worker (PayPublishReport _ issue_id _ _ _) answers =
     gated_write (external_call False (pa_issue answers issue_id)) answers"

fun run_resolution_worker ::
  "operation_payload \<Rightarrow> (integration_client_error + external_mutation) option \<Rightarrow>
     integration_client_error + external_mutation" where
  "run_resolution_worker (PayPublishIssue _ _ _ _) verified = external_call False verified"
| "run_resolution_worker (PayPublishReport _ _ _ _ _) verified = external_call False verified"
| "run_resolution_worker _ verified = Inl (CeFailed InvalidRequest)"

section \<open>Reports of spawned tasks\<close>

definition check_finished ::
  "router_env \<Rightarrow> uuid \<Rightarrow> int \<Rightarrow> string \<Rightarrow> workspace_name \<Rightarrow> external_provider \<Rightarrow>
     integration_client_error + unit \<Rightarrow> ('e, unit) act" where
  "check_finished ev c generation rid workspace provider result =
     bindA (updA (release None)) (\<lambda>_.
     bindA (readA (\<lambda>s. Inr (bindR (map_err integration_router_code result) (\<lambda>_.
              registry_binding (rs_integrations s) workspace provider)))) (\<lambda>answer.
     case answer of
       Inr active \<Rightarrow>
         sendA ev c generation (SIntegrationChecked rid workspace (ic_public (re_xcodec ev) (ai_connection active)))
     | Inl code \<Rightarrow>
         updA (send_error ev c generation (Some rid) (external_error (Some workspace) None code))))"

definition external_gate ::
  "router_env \<Rightarrow> prepared_operation \<Rightarrow> ('e, router_error_code + unit) act" where
  "external_gate ev p =
     bindA (tickA 1 (re_instant ev)) (\<lambda>now.
     bindA (tickA 3 (xenv_at ev)) (\<lambda>v.
     bindA (attemptA (bindA (readA (\<lambda>s.
         bindR (guardR (\<not> rs_shutting_down s) ConfigurationRequired) (\<lambda>_.
         bindR (guardR (\<not> po_deadline p \<le> now) RequestTimeout) (\<lambda>_.
         bindR (registry_binding (rs_integrations s) (po_workspace p) (eo_provider (po_summary p))) (\<lambda>active.
         validate_external_snapshot v active p False (rs_store s)))))) (\<lambda>_.
       storeA (mark_external_dispatched v p)))) (\<lambda>result.
     case result of
       Inl code \<Rightarrow> retA (Inl code)
     | Inr event \<Rightarrow> bindA (updA (fanout ev event)) (\<lambda>_. retA (Inr ())))))"

definition complete_external ::
  "xenv \<Rightarrow> integration_registry \<Rightarrow> prepared_operation \<Rightarrow> external_worker_result \<Rightarrow> db \<Rightarrow>
     router_error_code + db \<times> external_completion" where
  "complete_external v registry p result d =
     (case result of
        WorkerSuccess (ReadIssue issue) \<Rightarrow>
          bindR (registry_binding registry (po_workspace p) (eo_provider (po_summary p))) (\<lambda>active.
          bindR (validate_external_snapshot v active p False d) (\<lambda>d1.
          complete_external_read v p issue d1))
      | WorkerSuccess (WroteMutation mutation) \<Rightarrow> complete_external_mutation v p mutation d
      | WorkerClientError e \<Rightarrow> complete_external_error v p e d
      | WorkerGateDenied code \<Rightarrow> terminal_external_error v p OpFailed (error_as_str code) d)"

definition external_finished ::
  "router_env \<Rightarrow> prepared_operation \<Rightarrow> external_worker_result \<Rightarrow> (runtime_error, unit) act" where
  "external_finished ev p result =
     bindA (updA (release_external_reservation p)) (\<lambda>_.
     bindA (tickA 3 (xenv_at ev)) (\<lambda>v.
     bindA (readA (\<lambda>s. Inr (rs_integrations s))) (\<lambda>registry.
     bindA (attemptA (storeA (complete_external v registry p result))) (\<lambda>completed.
     bindA (case completed of
         Inr completion \<Rightarrow> retA completion
       | Inl code \<Rightarrow>
           bindA (tickA 3 (xenv_at ev)) (\<lambda>w.
           errA (\<lambda>_. RtActorStopped)
             (storeA (terminal_external_error w p OpFailed (error_as_str code))))) (\<lambda>completion.
     bindA (updA (fanout_opt ev (xo_task_event completion))) (\<lambda>_.
     updA (fanout ev (xo_event completion))))))))"

definition resolution_finished ::
  "router_env \<Rightarrow> uuid \<Rightarrow> int \<Rightarrow> string \<Rightarrow> prepared_resolution \<Rightarrow>
     integration_client_error + external_mutation \<Rightarrow> ('e, unit) act" where
  "resolution_finished ev c generation rid p result =
     bindA (updA (release_resolution_reservation p)) (\<lambda>_.
     case result of
       Inl e \<Rightarrow>
         updA (send_error ev c generation (Some rid)
           (external_error (Some (pr_workspace p)) (Some (pr_operation_id p)) (integration_router_code e)))
     | Inr mutation \<Rightarrow>
         bindA (tickA 1 (re_instant ev)) (\<lambda>now.
         bindA (tickA 3 (xenv_at ev)) (\<lambda>v.
         bindA (attemptA (bindA (readA (\<lambda>s.
             bindR (registry_binding (rs_integrations s) (pr_workspace p) (pr_provider p)) (\<lambda>active.
             validate_resolution_snapshot (re_xcodec ev) now active p (rs_store s)))) (\<lambda>_.
           storeA (complete_applied_resolution v p mutation)))) (\<lambda>completed.
         case completed of
           Inl code \<Rightarrow>
             updA (send_error ev c generation (Some rid)
               (external_error (Some (pr_workspace p)) (Some (pr_operation_id p)) code))
         | Inr completion \<Rightarrow> announce_resolution ev c generation rid (pr_workspace p) completion))))"

end
