(* ===== verification/Router_Actor.thy ===== *)
theory Router_Actor
  imports Router_External
begin

text \<open>
  The router actor as a whole (\<^verbatim>\<open>src/router.rs\<close>): \<^verbatim>\<open>dispatch\<close> of a client's message,
  \<^verbatim>\<open>handle_message\<close> with the rate limit, \<^verbatim>\<open>handle_control\<close>, deadlines, shutdown, and one turn of the
  loop of \<^verbatim>\<open>run_actor_thread\<close>.
\<close>

section \<open>Dispatch\<close>

definition agents_list ::
  "router_env \<Rightarrow> uuid \<Rightarrow> int \<Rightarrow> string \<Rightarrow> (actor_error, unit) act" where
  "agents_list ev c generation rid =
     bindA (readA (\<lambda>s. current_workspace s c)) (\<lambda>workspace.
     bindA (readA (\<lambda>s. Inr (agents_in_workspace s workspace))) (\<lambda>agents.
     sendA ev c generation (SAgents rid workspace agents)))"

definition ping :: "router_env \<Rightarrow> uuid \<Rightarrow> int \<Rightarrow> string \<Rightarrow> (actor_error, unit) act" where
  "ping ev c generation rid =
     bindA (readA (\<lambda>s. require_registered s c)) (\<lambda>_. sendA ev c generation (SPong rid))"

fun router_dispatch ::
  "router_env \<Rightarrow> uuid \<Rightarrow> int \<Rightarrow> client_message \<Rightarrow> (actor_error, unit) act" where
  "router_dispatch ev c g (MRegister _ agent token delegation_token) =
     register_agent ev c g agent token delegation_token"
| "router_dispatch ev c g (MRegisterDelegate _ owner_id delegation_token) =
     register_delegate ev c g owner_id delegation_token"
| "router_dispatch ev c g (MRegisterOperator _ token) = register_operator ev c g token"
| "router_dispatch ev c g (MPing rid) = ping ev c g rid"
| "router_dispatch ev c g (MReadiness ready) = set_readiness c ready"
| "router_dispatch ev c g (MList rid) = agents_list ev c g rid"
| "router_dispatch ev c g (MWorkspaceMembers rid) = agents_list ev c g rid"
| "router_dispatch ev c g (MSend rid recipient content timeout_ms) =
     start_request ev c g rid recipient content timeout_ms None"
| "router_dispatch ev c g (MReply rid ok content err) =
     finish_reply ev c g rid ok content err"
| "router_dispatch ev c g (MWorkIdle rid workspace work_rid task ready) =
     work_idle ev c g rid workspace work_rid task ready"
| "router_dispatch ev c g
     (MTaskExecutionStopped rid workspace task_id attempt_id ended_session_id _ reason) =
     task_execution_stopped ev c g rid workspace task_id attempt_id ended_session_id reason"
| "router_dispatch ev c g (MCredentialIssue rid role subject side client grants) =
     credential_issue ev c g rid role subject side client grants"
| "router_dispatch ev c g (MCredentialList rid after limit) =
     credential_list ev c g rid after limit"
| "router_dispatch ev c g (MCredentialRevoke rid i) = credential_revoke ev c g rid i"
| "router_dispatch ev c g (MOnboardingInviteIssue rid workspace create provider) =
     invite_issue ev c g rid workspace create provider"
| "router_dispatch ev c g (MOnboardingInviteRevoke rid i) = invite_revoke ev c g rid i"
| "router_dispatch ev c g (MWorkspaceCreate rid name) = workspace_create ev c g rid name"
| "router_dispatch ev c g (MWorkspaceList rid after limit) =
     workspace_list ev c g rid after limit"
| "router_dispatch ev c g (MWorkspaceJoin rid name) = workspace_join ev c g rid name"
| "router_dispatch ev c g (MWorkspaceLeave rid) = workspace_leave ev c g rid"
| "router_dispatch ev c g (MWorkspacePost rid content) = workspace_post ev c g rid content"
| "router_dispatch ev c g (MWorkspaceHistory rid after limit) =
     workspace_history ev c g rid after limit"
| "router_dispatch ev c g (MWorkspaceSubscribe rid after) =
     workspace_subscribe ev c g rid after"
| "router_dispatch ev c g (MWorkspaceUnsubscribe rid) = workspace_unsubscribe ev c g rid"
| "router_dispatch ev c g (MTaskList rid workspace states assigned after limit) =
     task_list ev c g rid workspace states assigned after limit"
| "router_dispatch ev c g (MTaskGet rid workspace task_id) =
     task_get ev c g rid workspace task_id"
| "router_dispatch ev c g (MTaskHistory rid workspace task_id after limit) =
     task_history ev c g rid workspace task_id after limit"
| "router_dispatch ev c g (MTaskCreate rid workspace op title description) =
     task_mutate ev c g rid workspace (CmdCreate op title description)"
| "router_dispatch ev c g (MTaskEdit rid workspace op task_id version title description) =
     task_mutate ev c g rid workspace (CmdEdit op task_id version title description)"
| "router_dispatch ev c g (MTaskAssign rid workspace op task_id version agent_id) =
     task_mutate ev c g rid workspace (CmdAssign op task_id version agent_id)"
| "router_dispatch ev c g (MTaskNote rid workspace op task_id note) =
     task_mutate ev c g rid workspace (CmdNote op task_id note)"
| "router_dispatch ev c g
     (MTaskBegin rid workspace op task_id work_rid version last_checkpoint_id resume_note) =
     task_mutate ev c g rid workspace
       (CmdBegin op task_id work_rid version last_checkpoint_id resume_note)"
| "router_dispatch ev c g
     (MTaskCheckpoint rid workspace op task_id attempt_id version checkpoint) =
     task_mutate ev c g rid workspace (CmdCheckpoint op task_id attempt_id version checkpoint)"
| "router_dispatch ev c g
     (MTaskPause rid workspace op task_id attempt_id version checkpoint reason) =
     task_mutate ev c g rid workspace
       (CmdPause op task_id attempt_id version checkpoint (reason = PauseKindBlocked))"
| "router_dispatch ev c g
     (MTaskComplete rid workspace op task_id attempt_id version result) =
     task_mutate ev c g rid workspace (CmdComplete op task_id attempt_id version result)"
| "router_dispatch ev c g (MTaskCancel rid workspace op task_id version note) =
     task_mutate ev c g rid workspace (CmdCancel op task_id version note)"
| "router_dispatch ev c g (MTaskReopen rid workspace op task_id version note) =
     task_mutate ev c g rid workspace (CmdReopen op task_id version note)"
| "router_dispatch ev c g (MTaskInterrupt rid workspace op task_id version note) =
     task_mutate ev c g rid workspace (CmdInterrupt op task_id version note)"
| "router_dispatch ev c g
     (MTaskConfirmStopped rid workspace op task_id attempt_id version note) =
     task_mutate ev c g rid workspace (CmdConfirmStopped op task_id attempt_id version note)"
| "router_dispatch ev c g
     (MTaskRequest rid workspace task_id version message timeout_ms) =
     task_request ev c g rid workspace task_id version message timeout_ms"
| "router_dispatch ev c g (MRouterShutdown rid) = router_shutdown ev c g rid"
| "router_dispatch ev c g (MTaskImport rid workspace provider external_id op) =
     external_start ev c g rid workspace (XImport op provider external_id)"
| "router_dispatch ev c g
     (MTaskLink rid workspace op task_id version provider external_id replace) =
     external_start ev c g rid workspace (XLink op task_id version provider external_id replace)"
| "router_dispatch ev c g
     (MTaskPublish rid workspace op task_id version provider kind report_id) =
     external_start ev c g rid workspace (XPublish op task_id version provider kind report_id)"
| "router_dispatch ev c g (MTaskExternalStatus rid workspace op) =
     router_external_status ev c g rid workspace op"
| "router_dispatch ev c g
     (MTaskExternalResolve rid workspace op resolution_id outcome external_id remark) =
     external_resolve ev c g rid workspace op resolution_id outcome external_id remark"
| "router_dispatch ev c g (MIntegrationList rid workspace) = integration_list ev c g rid workspace"
| "router_dispatch ev c g (MIntegrationCheck rid workspace provider) =
     integration_check ev c g rid workspace provider"
| "router_dispatch ev c g (MIntegrationReload rid) = integration_reload ev c g rid"

section \<open>Messages\<close>

text \<open>One message costs one token of the credential's bucket.\<close>

definition take_token :: "router_env \<Rightarrow> uuid \<Rightarrow> router_state \<Rightarrow> bool \<times> router_state" where
  "take_token ev credential_id s =
     (let now = re_instant ev (rs_tick s);
          bucket = (case map_of (rs_buckets s) credential_id of None \<Rightarrow> bucket_new now | Some b \<Rightarrow> b);
          (bucket', allowed) = bucket_allow now bucket
      in (allowed, s\<lparr>rs_buckets := AList.update credential_id bucket' (rs_buckets s),
                     rs_tick := rs_tick s + 1\<rparr>))"

definition run_dispatch ::
  "router_env \<Rightarrow> uuid \<Rightarrow> int \<Rightarrow> client_message \<Rightarrow> router_state \<Rightarrow> router_state" where
  "run_dispatch ev c generation message s =
     (case router_dispatch ev c generation message s of
        (Inr _, s1) \<Rightarrow> s1
      | (Inl e, s1) \<Rightarrow>
          (let s2 = send_error ev c generation (request_id message) e s1 in
           if ae_code e = StorageError then s2\<lparr>rs_healthy := False, rs_shutting_down := True\<rparr> else s2))"

definition handle_message ::
  "router_env \<Rightarrow> uuid \<Rightarrow> int \<Rightarrow> client_message \<Rightarrow> router_state \<Rightarrow> router_state" where
  "handle_message ev c generation message s =
     (case connection s c of
        None \<Rightarrow> s
      | Some k \<Rightarrow>
          if cn_generation k \<noteq> generation then s
          else
            (case connection_credential_id s c of
               None \<Rightarrow> run_dispatch ev c generation message s
             | Some credential_id \<Rightarrow>
                 (case take_token ev credential_id s of
                    (allowed, s1) \<Rightarrow>
                      if allowed then run_dispatch ev c generation message s1
                      else send_error ev c generation (request_id message) (actor_code RateLimited) s1)))"

section \<open>Deadlines and shutdown\<close>

definition finish_all ::
  "router_env \<Rightarrow> router_error_code \<Rightarrow> request_key list \<Rightarrow> (runtime_error, unit) act" where
  "finish_all ev code keys =
     eachA (\<lambda>(workspace, rid). errA RtStore (finish_pending_error ev workspace rid code)) keys"

definition expire_deadlines :: "router_env \<Rightarrow> (runtime_error, unit) act" where
  "expire_deadlines ev =
     bindA (tickA 1 (re_instant ev)) (\<lambda>now.
     bindA (readA (\<lambda>s. Inr (map (\<lambda>(_, p). (pd_workspace p, pd_request_id p))
              (filter (\<lambda>(_, p). pd_deadline p \<le> now) (rs_pending s))))) (\<lambda>expired.
     finish_all ev RequestTimeout expired))"

definition shutdown_pending :: "router_env \<Rightarrow> (runtime_error, unit) act" where
  "shutdown_pending ev =
     bindA (readA (\<lambda>s. Inr (map (\<lambda>(_, p). (pd_workspace p, pd_request_id p)) (rs_pending s)))) (\<lambda>keys.
     finish_all ev RouterRestarted keys)"

definition close_all :: "router_state \<Rightarrow> router_state" where
  "close_all s =
     s\<lparr>rs_healthy := False, rs_connections := [], rs_primaries := [], rs_delegates := [],
       rs_subscribers := []\<rparr>"

definition fail_closed :: "router_env \<Rightarrow> router_state \<Rightarrow> router_state" where
  "fail_closed ev s =
     (close_all (snd (shutdown_pending ev (s\<lparr>rs_healthy := False, rs_shutting_down := True\<rparr>))))
       \<lparr>rs_notified := True\<rparr>"

section \<open>Control commands\<close>

datatype control_command =
    CtlOpen uuid int
  | CtlClosed uuid int
  | CtlDirect uuid int server_message
  | CtlRevokeCredential uuid
  | CtlEnroll enrollment_request nat bool
  | CtlIntegrationCheckFinished uuid int string workspace_name external_provider
      "integration_client_error + unit"
  | CtlExternalGate prepared_operation
  | CtlExternalFinished prepared_operation external_worker_result
  | CtlResolutionFinished uuid int string prepared_resolution
      "integration_client_error + external_mutation"
  | CtlShutdown

datatype control_reply =
    ReplyAccepted bool
  | ReplyDone
  | ReplyRevoked bool
  | ReplyEnrolled "enrollment_error + public_claims"
  | ReplyGate "router_error_code + unit"
  | NoReply

definition fresh_connection :: "int \<Rightarrow> connection_state" where
  "fresh_connection generation =
     \<lparr>cn_generation = generation, cn_role = None, cn_workspace = None, cn_subscribed = False,
      cn_stored_ready = False, cn_canceling = None\<rparr>"

text \<open>A failed redemption was rolled back.\<close>

definition enroll ::
  "router_env \<Rightarrow> enrollment_request \<Rightarrow> nat \<Rightarrow> router_state \<Rightarrow>
     (enrollment_error + public_claims) \<times> router_state" where
  "enroll ev request deadline s =
     (let s1 = s\<lparr>rs_tick := rs_tick s + 1\<rparr> in
      if rs_shutting_down s \<or> deadline \<le> re_instant ev (rs_tick s) then (Inl EnrUnavailable, s1)
      else
        (case now_millis (re_clock ev (rs_tick s)) of
           Inl _ \<Rightarrow> (Inl EnrUnavailable, s1)
         | Inr now \<Rightarrow> storeA (redeem_onboarding (re_codec ev) request now) s1))"

text \<open>The task a command comes from.\<close>

fun sent_by :: "control_command \<Rightarrow> worker \<Rightarrow> bool" where
  "sent_by (CtlIntegrationCheckFinished c g rid ws p _) (CheckWorker _ c' g' rid' ws' p') \<longleftrightarrow>
     (c, g, rid, ws, p) = (c', g', rid', ws', p')"
| "sent_by (CtlExternalGate p) (ExternalWorker _ p') \<longleftrightarrow> p = p'"
| "sent_by (CtlExternalFinished p _) (ExternalWorker _ p') \<longleftrightarrow> p = p'"
| "sent_by (CtlResolutionFinished c g rid p _) (ResolutionWorker _ p' c' g' rid') \<longleftrightarrow>
     (c, g, rid, p) = (c', g', rid', p')"
| "sent_by _ _ \<longleftrightarrow> False"

fun from_worker :: "control_command \<Rightarrow> bool" where
  "from_worker (CtlIntegrationCheckFinished _ _ _ _ _ _) = True"
| "from_worker (CtlExternalGate _) = True"
| "from_worker (CtlExternalFinished _ _) = True"
| "from_worker (CtlResolutionFinished _ _ _ _ _) = True"
| "from_worker _ = False"

text \<open>The result says whether the loop ends, with what the caller of the command is answered.
  \<^verbatim>\<open>CtlEnroll\<close> carries whether the caller still waits.\<close>

fun handle_control ::
  "router_env \<Rightarrow> control_command \<Rightarrow> (runtime_error, bool \<times> control_reply) act" where
  "handle_control ev (CtlOpen c generation) =
     bindA (readA (\<lambda>s. Inr (\<not> rs_shutting_down s))) (\<lambda>accepted.
     bindA (updA (\<lambda>s. if accepted
         then s\<lparr>rs_connections := AList.update c (fresh_connection generation) (rs_connections s)\<rparr>
         else s)) (\<lambda>_.
     retA (False, ReplyAccepted accepted)))"
| "handle_control ev (CtlClosed c generation) =
     bindA (disconnect_with_reason ev c generation TransportLost) (\<lambda>_. retA (False, ReplyDone))"
| "handle_control ev (CtlDirect c generation message) =
     bindA (sendA ev c generation message) (\<lambda>_. retA (False, ReplyDone))"
| "handle_control ev (CtlRevokeCredential i) =
     bindA (router_revoke_credential ev i) (\<lambda>revoked. retA (False, ReplyRevoked revoked))"
| "handle_control ev (CtlEnroll request deadline waiting) =
     (if waiting then bindA (callA (enroll ev request deadline)) (\<lambda>r. retA (False, ReplyEnrolled r))
      else retA (False, NoReply))"
| "handle_control ev (CtlIntegrationCheckFinished c generation rid workspace provider result) =
     bindA (updA (report_back
       (sent_by (CtlIntegrationCheckFinished c generation rid workspace provider result)))) (\<lambda>_.
     bindA (check_finished ev c generation rid workspace provider result) (\<lambda>_. retA (False, NoReply)))"
| "handle_control ev (CtlExternalGate p) =
     bindA (external_gate ev p) (\<lambda>answer. retA (False, ReplyGate answer))"
| "handle_control ev (CtlExternalFinished p result) =
     bindA (updA (report_back (sent_by (CtlExternalFinished p result)))) (\<lambda>_.
     bindA (external_finished ev p result) (\<lambda>_. retA (False, NoReply)))"
| "handle_control ev (CtlResolutionFinished c generation rid p result) =
     bindA (updA (report_back (sent_by (CtlResolutionFinished c generation rid p result)))) (\<lambda>_.
     bindA (resolution_finished ev c generation rid p result) (\<lambda>_. retA (False, NoReply)))"
| "handle_control ev CtlShutdown =
     bindA (updA (\<lambda>s. s\<lparr>rs_shutting_down := True, rs_notified := True\<rparr>)) (\<lambda>_.
     bindA (shutdown_pending ev) (\<lambda>_.
     bindA (updA close_all) (\<lambda>_. retA (True, ReplyDone))))"

section \<open>The loop\<close>

datatype actor_input =
    InControl control_command
  | InTimer
  | InCommand uuid int client_message

datatype turn = Continue | Stop "runtime_error option"

definition stop_on_error ::
  "router_env \<Rightarrow> (runtime_error + 'a) \<times> router_state \<Rightarrow> turn \<times> router_state" where
  "stop_on_error ev r =
     (case r of (Inl e, s) \<Rightarrow> (Stop (Some e), fail_closed ev s) | (Inr _, s) \<Rightarrow> (Continue, s))"

definition command_turn ::
  "router_env \<Rightarrow> uuid \<Rightarrow> int \<Rightarrow> client_message \<Rightarrow> router_state \<Rightarrow>
     turn \<times> router_state" where
  "command_turn ev c generation message s =
     (if rs_shutting_down s then (Continue, s)
      else
        let s1 = handle_message ev c generation message s in
        if rs_shutting_down s1 then
          (case shutdown_pending ev s1 of
             (r, s2) \<Rightarrow>
               (Stop (case r of Inl e \<Rightarrow> Some e
                      | Inr _ \<Rightarrow> if rs_healthy s1 then None else Some RtActorStopped),
                (close_all s2)\<lparr>rs_notified := True\<rparr>))
        else (Continue, s1))"

text \<open>After the loop the external operations in flight are settled, as far as the store allows it, and
  everything is closed.\<close>

definition actor_exit :: "int \<Rightarrow> (nat \<Rightarrow> int) \<Rightarrow> router_state \<Rightarrow> router_state" where
  "actor_exit clock clocks s =
     close_all (case recover_external_inflight clock clocks (rs_store s) of
         Inl _ \<Rightarrow> s | Inr d \<Rightarrow> s\<lparr>rs_store := d\<rparr>)"

text \<open>A turn with expired requests ends them and leaves the input for the next turn; an input is what
  the select of the loop took.\<close>

definition actor_turn ::
  "router_env \<Rightarrow> actor_input \<Rightarrow> router_state \<Rightarrow> turn \<times> router_state" where
  "actor_turn ev input s0 =
     (let now = re_instant ev (rs_tick s0); s = s0\<lparr>rs_tick := rs_tick s0 + 1\<rparr> in
      if list_ex (\<lambda>(_, p). pd_deadline p \<le> now) (rs_pending s)
      then stop_on_error ev (expire_deadlines ev s)
      else
        (case input of
           InControl control \<Rightarrow>
             (case handle_control ev control s of
                (Inl e, s1) \<Rightarrow> (Stop (Some e), fail_closed ev s1)
              | (Inr (True, _), s1) \<Rightarrow> (Stop None, s1)
              | (Inr (False, _), s1) \<Rightarrow> (Continue, s1))
         | InTimer \<Rightarrow> stop_on_error ev (expire_deadlines ev s)
         | InCommand c generation message \<Rightarrow> command_turn ev c generation message s))"

end
