(* ===== verification/Router_Steps.thy ===== *)
theory Router_Steps
  imports Router_Core
begin

text \<open>
  Reasoning about the steps of the actor. \<open>okA F I m\<close> says that \<open>m\<close> keeps \<open>I\<close>; a failure that \<open>F\<close>
  calls fatal only has to keep \<open>I\<close> of the state that is marked unhealthy. The locale \<open>core_inv\<close> lists
  what an invariant has to survive so that sending, fanning out, ending requests and disconnecting
  keep it, for every depth of their mutual calls.
\<close>

named_theorems ok_intros \<open>what keeps an invariant\<close>

section \<open>Keeping an invariant\<close>

definition unhealthy :: "router_state \<Rightarrow> router_state" where
  "unhealthy s = s\<lparr>rs_healthy := False\<rparr>"

definition settledA :: "('e \<Rightarrow> bool) \<Rightarrow> (router_state \<Rightarrow> bool) \<Rightarrow> ('e + 'a) \<times> router_state \<Rightarrow> bool" where
  "settledA F I r \<longleftrightarrow> (case r of (Inr _, s) \<Rightarrow> I s | (Inl e, s) \<Rightarrow> if F e then I (unhealthy s) else I s)"

definition okA :: "('e \<Rightarrow> bool) \<Rightarrow> (router_state \<Rightarrow> bool) \<Rightarrow> ('e, 'a) act \<Rightarrow> bool" where
  "okA F I m \<longleftrightarrow> (\<forall>s. I s \<longrightarrow> settledA F I (m s))"

lemma settledA_simps [simp]:
  "settledA F I (Inr x, s) \<longleftrightarrow> I s"
  "settledA F I (Inl e, s) \<longleftrightarrow> (if F e then I (unhealthy s) else I s)"
  by (simp_all add: settledA_def)

lemma okAD: "okA F I m \<Longrightarrow> I s \<Longrightarrow> settledA F I (m s)"
  by (simp add: okA_def)

lemma ok_bindA [ok_intros]:
  assumes "okA F I m" and "\<And>x. okA F I (f x)"
  shows "okA F I (bindA m f)"
  unfolding okA_def
proof (intro allI impI)
  fix s assume "I s"
  with assms(1) have m: "settledA F I (m s)" by (rule okAD)
  obtain r s1 where r: "m s = (r, s1)" by fastforce
  show "settledA F I (bindA m f s)"
  proof (cases r)
    case (Inl e)
    with m r show ?thesis by (simp add: bindA_def)
  next
    case (Inr x)
    with m r have "I s1" by simp
    then have "settledA F I (f x s1)" by (rule okAD [OF assms(2)])
    with Inr r show ?thesis by (simp add: bindA_def)
  qed
qed

lemma settled_bind:
  assumes "settledA F I (m s)" and "\<And>x. okA F I (f x)"
  shows "settledA F I (bindA m f s)"
proof (cases "m s")
  case (Pair r s1)
  with assms show ?thesis by (cases r) (auto simp: bindA_def dest: okAD)
qed

lemma ok_retA [ok_intros]: "okA F I (retA x)"
  by (simp add: okA_def retA_def)

lemma ok_updA [ok_intros]: "(\<And>s. I s \<Longrightarrow> I (f s)) \<Longrightarrow> okA F I (updA f)"
  by (simp add: okA_def updA_def)

lemma ok_callA [ok_intros]: "(\<And>s. I s \<Longrightarrow> I (snd (f s))) \<Longrightarrow> okA F I (callA f)"
  by (simp add: okA_def callA_def case_prod_beta)

lemma ok_storeA [ok_intros]:
  "(\<And>s d x. I s \<Longrightarrow> op (rs_store s) = Inr (d, x) \<Longrightarrow> I (s\<lparr>rs_store := d\<rparr>)) \<Longrightarrow>
     (\<And>s. I s \<Longrightarrow> I (unhealthy s)) \<Longrightarrow> okA F I (storeA op)"
  by (auto simp: okA_def storeA_def split: sum.splits prod.splits)

lemma ok_eachA [ok_intros]: "(\<And>x. okA F I (f x)) \<Longrightarrow> okA F I (eachA f xs)"
  by (induction xs) (auto intro: ok_intros)

lemma ok_tryA [ok_intros]:
  assumes "okA (\<lambda>_. False) I m"
  shows "okA F I (tryA m)"
  unfolding okA_def
proof (intro allI impI)
  fix s assume "I s"
  then have "settledA (\<lambda>_. False) I (m s)" by (rule okAD [OF assms])
  then show "settledA F I (tryA m s)"
    by (auto simp: tryA_def settledA_def split: prod.splits sum.splits)
qed

lemma ok_errA [ok_intros]:
  assumes "okA F I m" and "\<And>e. F e \<Longrightarrow> G (g e)" and "\<And>s. I s \<Longrightarrow> I (unhealthy s)"
  shows "okA G I (errA g m)"
  unfolding okA_def
proof (intro allI impI)
  fix s assume "I s"
  with assms(1) have m: "settledA F I (m s)" by (rule okAD)
  obtain r s1 where r: "m s = (r, s1)" by fastforce
  with m assms(2,3) show "settledA G I (errA g m s)"
    by (cases r) (auto simp: errA_def map_err_def split: if_splits)
qed

lemma ok_if [ok_intros]: "(b \<Longrightarrow> okA F I m) \<Longrightarrow> (\<not> b \<Longrightarrow> okA F I m') \<Longrightarrow> okA F I (if b then m else m')"
  by simp

lemma ok_option [ok_intros]:
  "okA F I m \<Longrightarrow> (\<And>y. okA F I (f y)) \<Longrightarrow> okA F I (case x of None \<Rightarrow> m | Some y \<Rightarrow> f y)"
  by (simp split: option.split)

lemma ok_prod [ok_intros]: "(\<And>a b. okA F I (f a b)) \<Longrightarrow> okA F I (case x of (a, b) \<Rightarrow> f a b)"
  by (simp split: prod.split)

lemma ok_let [ok_intros]: "okA F I (f x) \<Longrightarrow> okA F I (let y = x in f y)"
  by simp

lemma ok_any_failure:
  assumes "okA (\<lambda>_. False) I m" and "\<And>s. I s \<Longrightarrow> I (unhealthy s)"
  shows "okA F I m"
  unfolding okA_def
proof (intro allI impI)
  fix s assume "I s"
  then have "settledA (\<lambda>_. False) I (m s)" by (rule okAD [OF assms(1)])
  with assms(2) show "settledA F I (m s)" by (auto simp: settledA_def split: prod.splits sum.splits)
qed

text \<open>A disconnector that keeps an invariant; all its failures are fatal.\<close>

definition dc_ok :: "(router_state \<Rightarrow> bool) \<Rightarrow> disconnector \<Rightarrow> bool" where
  "dc_ok I dc \<longleftrightarrow> (\<forall>c g reason. okA (\<lambda>_. True) I (dc c g reason))"

lemma dc_okD: "dc_ok I dc \<Longrightarrow> okA (\<lambda>_. True) I (dc c g reason)"
  by (simp add: dc_ok_def)

section \<open>What an invariant has to survive\<close>

text \<open>The store errors after which \<^verbatim>\<open>handle_message\<close> shuts the router down.\<close>

definition store_fatal :: "store_error \<Rightarrow> bool" where
  "store_fatal e \<longleftrightarrow> store_error_code e = StorageError"

fun interrupted_to :: "uuid option \<Rightarrow> db \<Rightarrow> db \<Rightarrow> bool" where
  "interrupted_to None d d1 \<longleftrightarrow> d1 = d"
| "interrupted_to (Some i) d d1 \<longleftrightarrow>
     (\<exists>clock eclock reason r. interrupt_attempt clock eclock i reason d = Inr (d1, r))"

text \<open>The two ways in which a request is taken out.\<close>

lemma settle_request_cases:
  assumes "\<And>e t da. settle_request ev key p reason i s =
        (Inl e, s\<lparr>rs_pending := AList.delete key (rs_pending s), rs_store := da, rs_tick := t\<rparr>) \<Longrightarrow>
      da = rs_store s \<or> interrupted_to (pd_attempt_id p) (rs_store s) da \<Longrightarrow> thesis"
    and "\<And>x t da db clock e. settle_request ev key p reason i s =
        (Inr x, s\<lparr>rs_pending := AList.delete key (rs_pending s), rs_store := db, rs_tick := t\<rparr>) \<Longrightarrow>
      interrupted_to (pd_attempt_id p) (rs_store s) da \<Longrightarrow>
      append_event clock i da = Inr (db, e) \<Longrightarrow> snd (snd x) = e \<Longrightarrow> thesis"
  shows thesis
proof (cases "pd_attempt_id p")
  case None
  note run = settle_request_def bindA_def updA_def retA_def None interrupt_optA_def
    execution_attempt_opt_def appendA_def tickA_def storeA_def
  show ?thesis
  proof (cases "append_event (re_clock ev (rs_tick s)) i (rs_store s)")
    case (Inl e)
    then show ?thesis
      using assms(1) [where e = e and da = "rs_store s" and t = "rs_tick s + 1"] by (simp add: run)
  next
    case (Inr r)
    then show ?thesis
      using assms(2) [where da = "rs_store s" and db = "fst r" and e = "snd r"
          and t = "rs_tick s + 1" and x = "(None, None, snd r)"] None
      by (cases r) (simp add: run)
  qed
next
  case (Some a)
  let ?t = "rs_tick s"
  note run = settle_request_def bindA_def updA_def retA_def Some interrupt_optA_def
    execution_attempt_opt_def appendA_def tickA_def storeA_def interruptA_def readA_def
  show ?thesis
  proof (cases "interrupt_attempt (re_clock ev ?t) (re_clock ev (?t + 1)) a reason (rs_store s)")
    case (Inl e)
    then show ?thesis
      using assms(1) [where e = e and da = "rs_store s" and t = "?t + 2"] by (simp add: run)
  next
    case (Inr r)
    obtain da te where r: "r = (da, te)" by fastforce
    have int: "interrupted_to (pd_attempt_id p) (rs_store s) da"
      using Inr Some r by auto
    show ?thesis
    proof (cases "execution_attempt da a")
      case (Inl e)
      with Inr r int show ?thesis
        using assms(1) [where e = e and da = da and t = "?t + 2"] \<open>interrupt_attempt _ _ _ _ _ = _\<close>
        by (simp add: run)
    next
      case ch: (Inr ch)
      show ?thesis
      proof (cases "append_event (re_clock ev (?t + 2)) i da")
        case (Inl e)
        with ch r int show ?thesis
          using assms(1) [where e = e and da = da and t = "?t + 3"] \<open>interrupt_attempt _ _ _ _ _ = _\<close>
          by (simp add: run)
      next
        case app: (Inr y)
        with ch r int show ?thesis
          using assms(2) [where da = da and db = "fst y" and e = "snd y" and t = "?t + 3"
              and x = "(te, ch, snd y)"] \<open>interrupt_attempt _ _ _ _ _ = _\<close>
          by (cases y) (simp add: run)
      qed
    qed
  qed
qed

lemma settle_request_failed:
  assumes "settle_request ev key p reason i s = (Inl x, s')"
  obtains da t where
    "s' = s\<lparr>rs_pending := AList.delete key (rs_pending s), rs_store := da, rs_tick := t\<rparr>"
    "da = rs_store s \<or> interrupted_to (pd_attempt_id p) (rs_store s) da"
  by (rule settle_request_cases [of ev key p reason i s]) (use assms in auto)

locale core_inv =
  fixes ev :: router_env and I :: "router_state \<Rightarrow> bool"
  assumes out: "I s \<Longrightarrow> I (s\<lparr>rs_out := os, rs_tick := t\<rparr>)"
    and sick: "I s \<Longrightarrow> I (unhealthy s)"
    and stopping: "I s \<Longrightarrow> I (s\<lparr>rs_shutting_down := True\<rparr>)"
    and canceling: "I s \<Longrightarrow> I (modify_connection c (mark_canceling w) s)"
    and leaving: "I s \<Longrightarrow> I (remove_family family s)"
    and buckets: "I s \<Longrightarrow> I (s\<lparr>rs_buckets := b\<rparr>)"
    and owner_gone: "I s \<Longrightarrow> I (s\<lparr>rs_primaries := AList.delete a (rs_primaries s),
      rs_delegates := AList.delete a (rs_delegates s)\<rparr>)"
    and delegate_gone: "I s \<Longrightarrow>
      I (s\<lparr>rs_delegates := AList.map_entry a (removeAll c) (rs_delegates s)\<rparr>)"
    and session: "I s \<Longrightarrow>
      interrupt_session_attempts clocks a cr ses g reason (rs_store s) = Inr (d, evs) \<Longrightarrow>
      I (s\<lparr>rs_store := d\<rparr>)"
    and left: "I s \<Longrightarrow> append_event clock (member_insert ws KMemberLeft a) (rs_store s) = Inr (d, e) \<Longrightarrow>
      I (s\<lparr>rs_store := d\<rparr>)"
    and settled: "I s \<Longrightarrow> map_of (rs_pending s) (ws, rid) = Some p \<Longrightarrow>
      q = rid \<or> q = pd_request_id p \<Longrightarrow> interrupted_to (pd_attempt_id p) (rs_store s) d1 \<Longrightarrow>
      append_event clock (result_insert ws actor q p content ok err) d1 = Inr (d2, e) \<Longrightarrow>
      I (s\<lparr>rs_pending := AList.delete (ws, rid) (rs_pending s), rs_store := d2\<rparr>)"
    and lost: "I s \<Longrightarrow> map_of (rs_pending s) (ws, rid) = Some p \<Longrightarrow> q = rid \<or> q = pd_request_id p \<Longrightarrow>
      settle_request ev (ws, rid) p reason (result_insert ws actor q p content ok err) s = (Inl x, s') \<Longrightarrow>
      settledA store_fatal I (Inl x :: store_error + unit, s')"
begin

lemma out_only: "I s \<Longrightarrow> I (s\<lparr>rs_tick := t\<rparr>)"
  by (drule out [where os = "rs_out s" and t = t]) simp

lemma send_serialized_keeps: "I s \<Longrightarrow> I (snd (send_serialized ev c g m n ack err s))"
  by (auto simp: send_serialized_def ask_close_def out split: option.splits)

lemma down: "I s \<Longrightarrow> I (s\<lparr>rs_healthy := False, rs_shutting_down := True\<rparr>)"
  using stopping [OF sick] by (simp add: unhealthy_def)

lemma send_keeps: "I s \<Longrightarrow> I (snd (send ev c g m s))"
  using send_serialized_keeps by (auto simp: send_def down split: option.splits)

lemma ok_readA [ok_intros]: "okA F I (readA r)"
  by (auto simp: okA_def readA_def settledA_def sick split: sum.splits)

lemma ok_failA [ok_intros]: "okA F I (failA e)"
  by (simp add: okA_def failA_def sick)

lemma ok_guardA [ok_intros]: "okA F I (guardA b e)"
  by (simp add: guardA_def ok_retA ok_failA)

lemma ok_tickA [ok_intros]: "okA F I (tickA k r)"
  by (simp add: okA_def tickA_def out_only)

lemma ok_sendA [ok_intros]: "okA F I (sendA ev c g m)"
  unfolding sendA_def by (intro ok_intros send_keeps)

lemma ok_notify [ok_intros]: "okA F I (notify_task_attempt_changed ev ws k a cl ag)"
  unfolding notify_task_attempt_changed_def
  by (intro ok_intros) (auto simp: send_keeps split: option.splits)

lemma fanout_frames_keeps: "I s \<Longrightarrow> I (snd (fanout_frames ev e n rs s))"
proof (induction rs arbitrary: s)
  case (Cons r rs)
  show ?case
  proof (cases "connection s r")
    case None
    with Cons show ?thesis by simp
  next
    case (Some k)
    obtain b s1 where b: "send_serialized ev r (cn_generation k) (SWorkspaceEvent e) n False False s = (b, s1)"
      by fastforce
    then have "I s1" using send_serialized_keeps [OF Cons.prems] by (metis snd_conv)
    then have "I (snd (fanout_frames ev e n rs s1))" by (rule Cons.IH)
    with Some b show ?thesis by (simp add: case_prod_beta)
  qed
qed simp

lemma disconnect_failed_keeps:
  assumes "dc_ok I dc"
  shows "I s \<Longrightarrow> I (disconnect_failed dc failed s)"
proof (induction failed arbitrary: s)
  case (Cons f failed)
  obtain c g where f: "f = (c, g)" by fastforce
  obtain r s1 where r: "dc c g TransportLost s = (r, s1)" by fastforce
  have "settledA (\<lambda>_. True) I (r, s1)" using okAD [OF dc_okD [OF assms] Cons.prems, of c g TransportLost] r by simp
  then have "I (case r of Inl _ \<Rightarrow> s1\<lparr>rs_healthy := False, rs_shutting_down := True\<rparr> | Inr _ \<Rightarrow> s1)"
    using stopping [of "unhealthy s1"] by (cases r) (auto simp: unhealthy_def)
  then show ?case using Cons.IH f r by (cases r) auto
qed simp

lemma fanout_with_keeps:
  assumes "dc_ok I dc" and "I s"
  shows "I (fanout_with ev dc e s)"
proof (cases "re_json_len ev (SWorkspaceEvent e)")
  case None
  then show ?thesis using sick [OF assms(2)] by (simp add: fanout_with_def unhealthy_def)
next
  case (Some n)
  show ?thesis
    unfolding fanout_with_def Some option.case case_prod_beta
    by (rule disconnect_failed_keeps) (rule assms(1), rule fanout_frames_keeps, rule assms(2))
qed

lemma fanout_opt_with_keeps:
  "dc_ok I dc \<Longrightarrow> I s \<Longrightarrow> I (fanout_opt_with ev dc e s)"
  by (cases e) (auto simp: fanout_opt_with_def intro: fanout_with_keeps)

lemma settle_request_keeps:
  assumes "I s" and "map_of (rs_pending s) (ws, rid) = Some p" and "q = rid \<or> q = pd_request_id p"
  shows "settledA store_fatal I
    (settle_request ev (ws, rid) p reason (result_insert ws actor q p content ok err) s)"
proof (rule settle_request_cases)
  fix e t d1
  assume "settle_request ev (ws, rid) p reason (result_insert ws actor q p content ok err) s =
      (Inl e, s\<lparr>rs_pending := AList.delete (ws, rid) (rs_pending s), rs_store := d1, rs_tick := t\<rparr>)"
  with lost [OF assms this] show ?thesis by simp
next
  fix x t d1 d2 clock e
  assume "settle_request ev (ws, rid) p reason (result_insert ws actor q p content ok err) s =
      (Inr x, s\<lparr>rs_pending := AList.delete (ws, rid) (rs_pending s), rs_store := d2, rs_tick := t\<rparr>)"
    and "interrupted_to (pd_attempt_id p) (rs_store s) d1"
    and "append_event clock (result_insert ws actor q p content ok err) d1 = Inr (d2, e)"
  with out_only [OF settled [OF assms]] show ?thesis by simp
qed

lemma cancel_recipient_keeps: "I s \<Longrightarrow> I (cancel_recipient ev ws rid code p s)"
  by (simp add: cancel_recipient_def send_keeps canceling)

lemma ok_announce:
  assumes "dc_ok I dc"
  shows "okA F I (announce_result ev dc ws rid code p x)"
  unfolding announce_result_def
  by (intro ok_intros cancel_recipient_keeps fanout_with_keeps fanout_opt_with_keeps assms)

lemma ok_finish_with:
  assumes "dc_ok I dc"
  shows "okA store_fatal I (finish_pending_error_with ev dc ws rid code)"
  unfolding okA_def
proof (intro allI impI)
  fix s assume I: "I s"
  show "settledA store_fatal I (finish_pending_error_with ev dc ws rid code s)"
  proof (cases "map_of (rs_pending s) (ws, rid)")
    case None
    with I show ?thesis by (simp add: finish_pending_error_with_def)
  next
    case (Some p)
    show ?thesis
      unfolding finish_pending_error_with_def Some option.case
      by (rule settled_bind) (rule settle_request_keeps [OF I Some], simp, rule ok_announce [OF assms])
  qed
qed

lemma drop_bucket_keeps: "I s \<Longrightarrow> I (drop_bucket i s)"
  by (simp add: drop_bucket_def buckets split: option.split)

lemma ok_forget_role:
  assumes "dc_ok I dc"
  shows "okA F I (forget_role ev dc c k actor)"
  unfolding forget_role_def appendA_def
  by (auto split: option.splits connection_role.splits intro!: ok_intros owner_gone delegate_gone
      left sick fanout_opt_with_keeps assms)

lemma fold_fanout_keeps:
  assumes "dc_ok I dc"
  shows "I s \<Longrightarrow> I (fold (fanout_with ev dc) evs s)"
  by (induction evs arbitrary: s) (auto intro: fanout_with_keeps [OF assms])

lemma ok_interrupt_session: "okA (\<lambda>_. True) I (interrupt_sessionA ev a cr ses g reason)"
  unfolding okA_def interrupt_sessionA_def Let_def
  by (intro allI impI okAD [where s = s for s]) (auto intro!: ok_intros session sick)

lemma ok_interrupt_role: "okA (\<lambda>_. True) I (interrupt_role ev role g reason)"
  by (auto simp: interrupt_role_def split: option.splits connection_role.splits
      intro!: ok_intros ok_interrupt_session sick)

lemma ok_after_removal:
  assumes "dc_ok I dc"
  shows "okA (\<lambda>_. True) I (after_removal ev dc c k actor family evs)"
  unfolding after_removal_def
  by (auto intro!: ok_intros fold_fanout_keeps ok_forget_role ok_finish_with sick assms)

lemma dc_ok_body:
  assumes "dc_ok I dc"
  shows "dc_ok I (disconnect_body ev dc)"
  unfolding dc_ok_def okA_def
proof (intro allI impI)
  fix c g reason s assume I: "I s"
  have "settledA (\<lambda>_. True) I (bindA (interrupt_role ev role g reason) (\<lambda>interrupted.
      bindA (updA (remove_family family)) (\<lambda>_. bindA (updA (drop_bucket i)) (\<lambda>_.
      after_removal ev dc c k actor family interrupted))) s)" for role family i k actor
    by (rule okAD [where I = I, OF ok_bindA I])
      (auto intro!: ok_intros ok_interrupt_role leaving drop_bucket_keeps ok_after_removal assms)
  with I show "settledA (\<lambda>_. True) I (disconnect_body ev dc c g reason s)"
    by (simp add: disconnect_body_def Let_def split: option.split)
qed

lemma dc_ok_n: "dc_ok I (disconnect_n ev n)"
proof (induction n)
  case 0
  show ?case by (simp add: dc_ok_def okA_def)
next
  case (Suc n)
  then show ?case by (simp add: dc_ok_body)
qed

lemma dc_ok_disconnect: "dc_ok I (disconnect_with_reason ev)"
  using dc_ok_n by (simp add: dc_ok_def okA_def disconnect_with_reason_def)

lemma ok_disconnect [ok_intros]: "okA (\<lambda>_. True) I (disconnect_with_reason ev c g reason)"
  by (rule dc_okD [OF dc_ok_disconnect])

lemma fanout_keeps: "I s \<Longrightarrow> I (fanout ev e s)"
  unfolding fanout_def by (rule fanout_with_keeps [OF dc_ok_disconnect])

lemma fanout_opt_keeps: "I s \<Longrightarrow> I (fanout_opt ev e s)"
  unfolding fanout_opt_def by (rule fanout_opt_with_keeps [OF dc_ok_disconnect])

lemma ok_finish [ok_intros]: "okA store_fatal I (finish_pending_error ev ws rid code)"
  unfolding finish_pending_error_def by (rule ok_finish_with [OF dc_ok_disconnect])

end

end
