(* ===== verification/Router_Handlers.thy ===== *)
theory Router_Handlers
  imports Router_Actor Router_Steps
begin

text \<open>
  What every handler of the actor keeps. The locale \<open>handler_inv\<close> extends \<open>core_inv\<close> by the changes
  the handlers make; inside it each handler, \<^verbatim>\<open>handle_message\<close>, \<^verbatim>\<open>handle_control\<close> and a turn of the loop
  keep the invariant, on every branch and with every failure.
\<close>

section \<open>What the handlers change\<close>

definition actor_fatal :: "actor_error \<Rightarrow> bool" where
  "actor_fatal e \<longleftrightarrow> ae_code e = StorageError"

lemma actor_store_fatal [simp]: "actor_fatal (actor_store e) \<longleftrightarrow> store_fatal e"
  by (simp add: actor_fatal_def actor_store_def actor_code_def store_fatal_def)

lemma ok_attemptA:
  assumes "okA (\<lambda>_. False) I m"
  shows "okA F I (attemptA m)"
  unfolding okA_def
proof (intro allI impI)
  fix s assume "I s"
  then have "settledA (\<lambda>_. False) I (m s)" by (rule okAD [OF assms])
  then show "settledA F I (attemptA m s)"
    by (auto simp: attemptA_def settledA_def split: prod.splits sum.splits)
qed

text \<open>The messages about integrations and external operations; \<open>Router_Crew\<close> treats them.\<close>

fun is_external :: "client_message \<Rightarrow> bool" where
  "is_external (MTaskImport _ _ _ _ _) = True"
| "is_external (MTaskLink _ _ _ _ _ _ _ _) = True"
| "is_external (MTaskPublish _ _ _ _ _ _ _ _) = True"
| "is_external (MTaskExternalStatus _ _ _) = True"
| "is_external (MTaskExternalResolve _ _ _ _ _ _ _) = True"
| "is_external (MIntegrationList _ _) = True"
| "is_external (MIntegrationCheck _ _ _) = True"
| "is_external (MIntegrationReload _) = True"
| "is_external _ = False"

text \<open>The calls of the store by which handlers leave requests alone.\<close>

inductive quiet_step :: "db \<Rightarrow> db \<Rightarrow> bool" where
  quiet_task: "apply_task tev caller c d = Inr (d', res) \<Longrightarrow> quiet_step d d'"
| quiet_stopped: "record_execution_stopped clock eclock ws k aid ses ag cr reason d = Inr (d', r) \<Longrightarrow>
    quiet_step d d'"
| quiet_session: "interrupt_session_attempts clocks a cr ses g reason d = Inr (d', evs) \<Longrightarrow> quiet_step d d'"
| quiet_member: "append_event clock (member_insert ws kind a) d = Inr (d', e) \<Longrightarrow>
    kind = KMemberJoined \<or> kind = KMemberLeft \<Longrightarrow> quiet_step d d'"
| quiet_chat: "append_chat_idempotent clock ws actor req content d = Inr (d', ca) \<Longrightarrow> quiet_step d d'"
| quiet_workspace: "create_workspace clock name d = Inr (d', w) \<Longrightarrow> quiet_step d d'"
| quiet_credential: "insert_credential cx clock c d = Inr d' \<Longrightarrow> quiet_step d d'"
| quiet_revoke: "revoke_credential clock i d = Inr (d', r) \<Longrightarrow> quiet_step d d'"
| quiet_issue: "issue_onboarding_invite cx new_id random ws create provider now d = Inr (d', issued) \<Longrightarrow>
    quiet_step d d'"
| quiet_revoke_invite: "revoke_onboarding_invite i now d = Inr d' \<Longrightarrow> quiet_step d d'"
| quiet_redeem: "redeem_onboarding cx r now d = Inr (d', claims) \<Longrightarrow> quiet_step d d'"

locale handler_inv = core_inv +
  assumes connections: "I s \<Longrightarrow> I (modify_connection c f s)"
    and opened: "I s \<Longrightarrow> I (s\<lparr>rs_connections := AList.update c k (rs_connections s)\<rparr>)"
    and subscribed: "I s \<Longrightarrow> I (s\<lparr>rs_subscribers := sub\<rparr>)"
    and primary: "I s \<Longrightarrow> I (s\<lparr>rs_primaries := AList.update a c (rs_primaries s)\<rparr>)"
    and delegated: "I s \<Longrightarrow> I (s\<lparr>rs_delegates := AList.update a cs (rs_delegates s)\<rparr>)"
    and noted: "I s \<Longrightarrow> I (s\<lparr>rs_notified := True\<rparr>)"
    and closed: "I s \<Longrightarrow> I (close_all s)"
    and begun: "I s \<Longrightarrow> I (s\<lparr>rs_pending :=
      AList.map_entry key (\<lambda>p. p\<lparr>pd_attempt_id := aid\<rparr>) (rs_pending s)\<rparr>)"
    and quiet: "I s \<Longrightarrow> quiet_step (rs_store s) d \<Longrightarrow> I (s\<lparr>rs_store := d\<rparr>)"
    and requested: "I s \<Longrightarrow> length (rs_pending s) < PENDING_REQUEST_LIMIT \<Longrightarrow> append_request clock (request_insert (pd_workspace p) (pd_requester_id p)
        (pd_request_id p) (pd_recipient_id p) (pd_task p) content) (rs_store s) = Inr (d, e) \<Longrightarrow>
      I (s\<lparr>rs_store := d,
           rs_pending := AList.update (pd_workspace p, pd_request_id p) p (rs_pending s)\<rparr>)"
begin

section \<open>Registration and membership\<close>

lemma set_busy_keeps: "I s \<Longrightarrow> I (set_busy c b s)"
  by (simp add: set_busy_def connections)

lemma ok_with_connection [ok_intros]: "okA F I (with_connection c f)"
  unfolding with_connection_def by (intro ok_intros connections)

lemma ok_snapshot [ok_intros]: "okA F I (send_execution_snapshot ev c g a)"
  unfolding send_execution_snapshot_def by (intro ok_intros)

lemma ok_register_agent: "okA F I (register_agent ev c g reg token dt)"
  unfolding register_agent_def Let_def by (intro ok_intros primary)

lemma ok_register_delegate: "okA F I (register_delegate ev c g owner token)"
  unfolding register_delegate_def by (intro ok_intros delegated)

lemma ok_register_operator: "okA F I (register_operator ev c g token)"
  unfolding register_operator_def Let_def by (intro ok_intros)

lemma ok_set_readiness: "okA F I (set_readiness c ready)"
  by (auto simp: okA_def set_readiness_def connections sick split: option.splits connection_role.splits)

lemma ok_workspace_list: "okA F I (workspace_list ev c g rid after limit)"
  unfolding workspace_list_def by (intro ok_intros)

lemma fold_keeps: "(\<And>x s. I s \<Longrightarrow> I (f x s)) \<Longrightarrow> I s \<Longrightarrow> I (fold f xs s)"
  by (induction xs arbitrary: s) auto

lemma sync_delegates_keeps: "I s \<Longrightarrow> I (sync_delegates e w s)"
  by (auto simp: sync_delegates_def intro: fold_keeps connections split: option.splits)

lemma send_current_keeps: "I s \<Longrightarrow> I (send_current ev m c s)"
  by (simp add: send_current_def send_keeps split: option.split)

lemma notify_membership_keeps: "I s \<Longrightarrow> I (notify_membership ev e w n s)"
  by (auto simp: notify_membership_def Let_def intro: fold_keeps send_current_keeps
      split: option.splits connection_role.splits)

lemma remove_subscriptions_keeps: "I s \<Longrightarrow> I (remove_subscriptions_for_owner e s)"
  by (simp add: remove_subscriptions_for_owner_def subscribed Let_def)

lemma ok_member_event [ok_intros]:
  "kind = KMemberJoined \<or> kind = KMemberLeft \<Longrightarrow> okA F I (member_event ev b w kind a)"
  unfolding member_event_def appendA_def
  by (intro ok_intros ok_errA [where F = F for F] sick) (auto intro: quiet quiet_member)

lemma ok_workspace_join: "okA F I (workspace_join ev c g rid name)"
  unfolding okA_def
proof (intro allI impI)
  fix s assume I: "I s"
  show "settledA F I (workspace_join ev c g rid name s)"
    unfolding workspace_join_def Let_def
    by (rule okAD [where I = I, OF ok_bindA I])
      (intro ok_intros connections sync_delegates_keeps notify_membership_keeps fanout_opt_keeps | simp)+
qed

lemma ok_workspace_leave: "okA F I (workspace_leave ev c g rid)"
  unfolding okA_def
proof (intro allI impI)
  fix s assume I: "I s"
  show "settledA F I (workspace_leave ev c g rid s)"
  proof (cases "Option.bind (connection s (effective s c)) cn_workspace")
    case None
    with okAD [OF ok_sendA I] show ?thesis by (simp add: workspace_leave_def)
  next
    case (Some w)
    show ?thesis
      unfolding workspace_leave_def Let_def Some option.case
      by (rule okAD [where I = I, OF ok_bindA I])
        (intro ok_intros connections sync_delegates_keeps remove_subscriptions_keeps
          notify_membership_keeps fanout_opt_keeps | simp)+
  qed
qed

lemma ok_workspace_post: "okA F I (workspace_post ev c g rid content)"
  unfolding workspace_post_def
  by (intro ok_intros ok_errA [where F = F for F] sick fanout_keeps) (auto intro: quiet quiet_chat)

lemma ok_workspace_history: "okA F I (workspace_history ev c g rid after limit)"
  unfolding workspace_history_def Let_def by (intro ok_intros)

lemma ok_workspace_subscribe: "okA F I (workspace_subscribe ev c g rid after)"
  unfolding workspace_subscribe_def Let_def by (intro ok_intros) (simp add: connections subscribed)

lemma ok_workspace_unsubscribe: "okA F I (workspace_unsubscribe ev c g rid)"
  unfolding workspace_unsubscribe_def by (intro ok_intros subscribed connections)

section \<open>Requests\<close>

lemma settled_readA:
  assumes "I s" and "\<And>x. r s = Inr x \<Longrightarrow> settledA F I (f x s)"
  shows "settledA F I (bindA (readA r) f s)"
  using assms by (cases "r s") (simp_all add: bindA_def readA_def sick)

lemma settled_tickA:
  "settledA F I (f (reading (rs_tick s)) (s\<lparr>rs_tick := rs_tick s + k\<rparr>)) \<Longrightarrow>
     settledA F I (bindA (tickA k reading) f s)"
  by (simp add: bindA_def tickA_def)

lemma record_request_keeps:
  assumes "I s" and "length (rs_pending s) < PENDING_REQUEST_LIMIT"
  shows "settledA F I (record_request ev content p s)"
  using assms requested [of "s\<lparr>rs_tick := rs_tick s + 1\<rparr>" "re_clock ev (rs_tick s)" p content]
  by (auto simp: record_request_def bindA_def tickA_def storeA_def updA_def retA_def sick out_only
      split: sum.splits prod.splits)

lemma ok_finish_actor [ok_intros]:
  "okA actor_fatal I (errA actor_store (finish_pending_error ev ws rid code))"
  by (rule ok_errA [OF ok_finish]) (simp_all add: sick)

lemma settled_errA:
  assumes "settledA F I (m s)" and "\<And>e. F e \<Longrightarrow> G (g e)"
  shows "settledA G I (errA g m s)"
proof (cases "m s")
  case (Pair r s1)
  with assms show ?thesis by (cases r) (auto simp: errA_def sick split: if_splits)
qed

lemma ok_start_request: "okA actor_fatal I (start_request ev c g rid recipient content timeout task)"
  unfolding okA_def
proof (intro allI impI)
  fix s assume I: "I s"
  have small: "length (rs_pending s) < PENDING_REQUEST_LIMIT"
    if "guardR (length (rs_pending s) < PENDING_REQUEST_LIMIT) (actor_code RateLimited) = Inr x" for x
    using that by (simp add: guardR_def split: if_splits)
  show "settledA actor_fatal I (start_request ev c g rid recipient content timeout task s)"
    unfolding start_request_def
    apply (rule settled_readA [OF I])+
    apply (drule small)
    apply (unfold case_prod_beta)
    apply (rule settled_readA [OF I] settled_tickA settled_readA [OF out_only [OF I]])+
    apply (rule settled_bind)
     apply (rule settled_errA [where F = store_fatal])
      apply (rule record_request_keeps [OF out_only [OF I]])
      apply simp
     apply simp
    apply (intro ok_bindA ok_updA ok_readA ok_callA ok_if ok_failA ok_sendA ok_finish_actor
        set_busy_keeps send_keeps fanout_keeps sick; assumption)
    done
qed

lemma ok_complete_reply:
  assumes "I s" and "map_of (rs_pending s) (ws, rid) = Some p"
  shows "settledA actor_fatal I (complete_reply ev c ws rid p ok content err s)"
  unfolding complete_reply_def
proof (rule settled_bind)
  show "settledA actor_fatal I (errA actor_store (settle_request ev (ws, rid) p
      (if ok then ReplyWithoutRelease else HostError)
      (result_insert ws (pd_recipient_id p) (pd_request_id p) p (reply_content ok content) ok
        (reply_error ok err))) s)"
    by (rule settled_errA [where F = store_fatal]) (rule settle_request_keeps [OF assms], simp_all)
qed (intro ok_intros ok_errA [OF ok_notify] set_busy_keeps fanout_keeps fanout_opt_keeps sick, auto)

lemma ok_finish_reply: "okA actor_fatal I (finish_reply ev c g rid ok content err)"
  by (auto simp: okA_def finish_reply_def sick ok_complete_reply split: sum.splits option.splits)

lemma ok_work_idle: "okA F I (work_idle ev c g rid ws wrid task ready)"
  unfolding work_idle_def by (intro ok_intros connections)

section \<open>Tasks\<close>

lemma ok_execution_stopped: "okA F I (task_execution_stopped ev c g rid ws k aid ses reason)"
  unfolding task_execution_stopped_def
  by (intro ok_intros ok_errA [where F = F for F] sick fanout_opt_keeps)
    (auto intro: quiet quiet_stopped set_busy_keeps)

lemma ok_task_request: "okA actor_fatal I (task_request ev c g rid ws k v m timeout)"
  unfolding task_request_def Let_def by (intro ok_intros ok_start_request)

lemma ok_task_list: "okA F I (task_list ev c g rid ws states assigned after limit)"
  unfolding task_list_def Let_def by (intro ok_intros)

lemma ok_task_get: "okA F I (task_get ev c g rid ws k)"
  unfolding task_get_def by (intro ok_intros)

lemma ok_task_history: "okA F I (task_history ev c g rid ws k after limit)"
  unfolding task_history_def by (intro ok_intros)

lemma set_attempt_keeps: "I s \<Longrightarrow> I (set_attempt cmd ws aid s)"
  by (simp add: set_attempt_def begun split: option.split prod.split)

lemma release_stopped_keeps: "I s \<Longrightarrow> I (release_stopped a s)"
  by (simp add: release_stopped_def set_busy_keeps split: option.split)

lemma ok_task_mutate: "okA actor_fatal I (task_mutate ev c g rid ws cmd)"
  unfolding task_mutate_def Let_def
  by (intro ok_intros ok_errA [OF ok_storeA] ok_errA [OF ok_notify] set_attempt_keeps
      release_stopped_keeps fanout_keeps sick) (auto intro: quiet quiet_task)

section \<open>Administration\<close>

lemma ok_credential_issue: "okA F I (credential_issue ev c g rid role sub side client grants)"
  unfolding credential_issue_def
  by (intro ok_intros ok_errA [OF ok_storeA] sick) (auto simp: result_simps intro: quiet quiet_credential)

lemma ok_credential_list: "okA F I (credential_list ev c g rid after limit)"
  unfolding credential_list_def by (intro ok_intros)

lemma revoke_notice_keeps: "I s \<Longrightarrow> I (revoke_notice ev c s)"
  by (simp add: revoke_notice_def send_error_def send_keeps split: option.split)

lemma ok_router_revoke: "okA (\<lambda>_. True) I (router_revoke_credential ev i)"
  unfolding router_revoke_credential_def
  by (intro ok_intros ok_errA [OF ok_storeA] sick) (auto intro: quiet quiet_revoke fold_keeps revoke_notice_keeps)

lemma ok_credential_revoke: "okA actor_fatal I (credential_revoke ev c g rid i)"
  unfolding credential_revoke_def
  by (intro ok_intros ok_errA [OF ok_router_revoke] sick) (simp add: actor_fatal_def actor_code_def)

lemma ok_invite_issue: "okA F I (invite_issue ev c g rid ws create prov)"
  unfolding invite_issue_def
  by (intro ok_intros ok_errA [OF ok_storeA] sick) (auto intro: quiet quiet_issue)

lemma ok_invite_revoke: "okA F I (invite_revoke ev c g rid i)"
  unfolding invite_revoke_def
  by (intro ok_intros ok_errA [OF ok_storeA] sick) (auto simp: result_simps intro: quiet quiet_revoke_invite)

lemma ok_workspace_create: "okA F I (workspace_create ev c g rid name)"
  unfolding workspace_create_def
  by (intro ok_intros ok_errA [OF ok_storeA] sick) (auto intro: quiet quiet_workspace)

lemma ok_router_shutdown: "okA F I (router_shutdown ev c g rid)"
  unfolding router_shutdown_def by (intro ok_intros stopping)

lemmas ok_handlers = ok_register_agent ok_register_delegate ok_register_operator ok_set_readiness
  ok_workspace_list ok_workspace_join ok_workspace_leave ok_workspace_post ok_workspace_history
  ok_workspace_subscribe ok_workspace_unsubscribe ok_start_request ok_finish_reply ok_work_idle
  ok_execution_stopped ok_task_request ok_task_list ok_task_get ok_task_history ok_task_mutate
  ok_credential_issue ok_credential_list ok_credential_revoke ok_invite_issue ok_invite_revoke
  ok_workspace_create ok_router_shutdown

section \<open>Messages, control commands and turns\<close>

lemma ok_agents_list: "okA F I (agents_list ev c g rid)"
  unfolding agents_list_def by (intro ok_intros)

lemma ok_ping: "okA F I (ping ev c g rid)"
  unfolding ping_def by (intro ok_intros)

lemma ok_dispatch:
  assumes "\<not> is_external m"
  shows "okA actor_fatal I (router_dispatch ev c g m)"
  using assms by (cases m) (simp_all add: ok_handlers ok_agents_list ok_ping)

lemma send_unhealthy: "unhealthy (snd (send ev c g m s)) = snd (send ev c g m (unhealthy s))"
  by (simp add: send_def send_serialized_def ask_close_def unhealthy_def connection_def
      split: option.split)

lemma run_dispatch_keeps:
  assumes "okA actor_fatal I (router_dispatch ev c g m)" and "I s"
  shows "I (run_dispatch ev c g m s)"
proof (cases "router_dispatch ev c g m s")
  case (Pair r s1)
  have ok: "settledA actor_fatal I (r, s1)" using okAD [OF assms] Pair by simp
  show ?thesis
  proof (cases r)
    case (Inl e)
    let ?s2 = "send_error ev c g (request_id m) e s1"
    have "I (unhealthy ?s2)" if "I (unhealthy s1)"
      using send_keeps [OF that] by (simp add: send_error_def send_unhealthy)
    then have "actor_fatal e \<Longrightarrow> I (?s2\<lparr>rs_healthy := False, rs_shutting_down := True\<rparr>)"
      using ok Inl stopping [of "unhealthy ?s2"] by (simp add: unhealthy_def)
    moreover have "\<not> actor_fatal e \<Longrightarrow> I ?s2" using ok Inl by (simp add: send_error_def send_keeps)
    ultimately show ?thesis using Pair Inl by (simp add: run_dispatch_def Let_def actor_fatal_def)
  qed (use ok Pair in \<open>simp add: run_dispatch_def\<close>)
qed

lemma handle_message_keeps:
  assumes "okA actor_fatal I (router_dispatch ev c g m)" and "I s"
  shows "I (handle_message ev c g m s)"
proof -
  have token: "I (snd (take_token ev i s))" for i
    using out_only [OF buckets [OF assms(2)]] by (simp add: take_token_def Let_def case_prod_beta)
  show ?thesis
    using assms run_dispatch_keeps [OF assms(1)] token
    by (auto simp: handle_message_def send_error_def send_keeps case_prod_beta split: option.splits)
qed

lemma ok_finish_all: "okA (\<lambda>_. True) I (finish_all ev code keys)"
  unfolding finish_all_def by (intro ok_intros ok_errA [OF ok_finish] sick) simp_all

lemma ok_expire: "okA (\<lambda>_. True) I (expire_deadlines ev)"
  unfolding expire_deadlines_def by (intro ok_intros ok_finish_all)

lemma ok_shutdown_pending: "okA (\<lambda>_. True) I (shutdown_pending ev)"
  unfolding shutdown_pending_def by (intro ok_intros ok_finish_all)

lemma close_shutdown:
  assumes "I s"
  shows "I (close_all (snd (shutdown_pending ev s)))"
proof (cases "shutdown_pending ev s")
  case (Pair r s1)
  have "settledA (\<lambda>_. True) I (r, s1)" using okAD [OF ok_shutdown_pending assms] Pair by simp
  then have "I (close_all (unhealthy s1))" using closed sick by (cases r) auto
  then show ?thesis using Pair by (simp add: close_all_def unhealthy_def)
qed

lemma fail_closed_keeps:
  assumes "settledA (\<lambda>_. True) I (Inl e, s)"
  shows "I (fail_closed ev s)"
  using noted [OF close_shutdown [OF stopping [of "unhealthy s"]]] assms
  by (simp add: fail_closed_def unhealthy_def)

lemma ok_enroll: "okA F I (callA (enroll ev r deadline))"
proof -
  have st: "I (snd (storeA (redeem_onboarding cx r now) s))" if "I s" for cx now s
    using that quiet [OF that quiet_redeem] by (auto simp: storeA_def split: sum.splits prod.splits)
  show ?thesis
    by (rule ok_callA) (auto simp: enroll_def Let_def out_only intro!: st split: sum.splits)
qed

lemma ok_control:
  assumes "\<not> from_worker ctl"
  shows "okA (\<lambda>_. True) I (handle_control ev ctl)"
  using assms by (cases ctl) (auto intro!: ok_intros opened ok_router_revoke ok_enroll ok_shutdown_pending closed
      ok_updA noted stopping [THEN noted])

lemma stop_on_error_keeps: "settledA (\<lambda>_. True) I r \<Longrightarrow> I (snd (stop_on_error ev r))"
  by (cases r) (auto simp: stop_on_error_def fail_closed_keeps split: sum.splits)

lemma command_turn_keeps:
  assumes "okA actor_fatal I (router_dispatch ev c g m)" and "I s"
  shows "I (snd (command_turn ev c g m s))"
  using assms noted [OF close_shutdown [OF handle_message_keeps [OF assms]]] handle_message_keeps [OF assms]
  by (simp add: command_turn_def Let_def case_prod_beta)

lemma control_turn_keeps:
  assumes "settledA (\<lambda>_. True) I (handle_control ev ctl s)"
  shows "I (snd (case handle_control ev ctl s of (Inl e, s1) \<Rightarrow> (Stop (Some e), fail_closed ev s1)
      | (Inr (True, _), s1) \<Rightarrow> (Stop None, s1) | (Inr (False, _), s1) \<Rightarrow> (Continue, s1)))"
proof (cases "handle_control ev ctl s")
  case (Pair r s1)
  with assms have "settledA (\<lambda>_. True) I (r, s1)" by simp
  then show ?thesis
    using Pair by (cases r) (auto simp: fail_closed_keeps split: bool.split)
qed

lemma actor_turn_keeps:
  assumes "I s" and "\<And>c g m. input = InCommand c g m \<Longrightarrow> okA actor_fatal I (router_dispatch ev c g m)"
    and "\<And>ctl. input = InControl ctl \<Longrightarrow>
      settledA (\<lambda>_. True) I (handle_control ev ctl (s\<lparr>rs_tick := rs_tick s + 1\<rparr>))"
  shows "I (snd (actor_turn ev input s))"
proof -
  have I: "I (s\<lparr>rs_tick := rs_tick s + 1\<rparr>)" by (rule out_only [OF assms(1)])
  have expire: "I (snd (stop_on_error ev (expire_deadlines ev (s\<lparr>rs_tick := rs_tick s + 1\<rparr>))))"
    by (rule stop_on_error_keeps [OF okAD [OF ok_expire I]])
  show ?thesis
    using I expire control_turn_keeps [OF assms(3)] command_turn_keeps [OF assms(2) I]
    by (cases input) (simp_all add: actor_turn_def Let_def)
qed

end

end
