(* ===== verification/Router_Crew.thy ===== *)
theory Router_Crew
  imports Router_Handlers External_Runs
begin

text \<open>
  What the handlers of external operations and the reports of spawned tasks keep. The locale
  \<open>external_inv\<close> extends \<open>handler_inv\<close> by the changes they make, so that with it every message, every
  command and every turn of the loop keeps an invariant. A task that reports back carries what it was given,
  which agrees with the stored operation: \<open>knows\<close> says so.
\<close>

section \<open>The store moves by its own steps while events are fanned out\<close>

lemma interrupt_each_run:
  "interrupt_each clocks reason ids d = Inr (d', evs) \<Longrightarrow> store_step\<^sup>*\<^sup>* d d'"
proof (induction ids arbitrary: clocks d evs)
  case (Cons i ids)
  then obtain d1 e evs1 where
    "interrupt_attempt (fst (clocks 0)) (snd (clocks 0)) i reason d = Inr (d1, e)"
    "interrupt_each (\<lambda>n. clocks (Suc n)) reason ids d1 = Inr (d', evs1)"
    by (auto simp: result_simps)
  with Cons.IH show ?case by (meson converse_rtranclp_into_rtranclp store_step.interrupt)
qed simp

lemma quiet_run: "quiet_step d d' \<Longrightarrow> store_step\<^sup>*\<^sup>* d d'"
  by (induction rule: quiet_step.induct)
    (auto simp: interrupt_session_attempts_def intro: store_step.intros interrupt_each_run)

lemma interrupted_run: "interrupted_to aid d d1 \<Longrightarrow> store_step\<^sup>*\<^sup>* d d1"
  by (cases aid) (auto intro: store_step.interrupt)

interpretation moves: handler_inv ev "\<lambda>s. store_step\<^sup>*\<^sup>* d (rs_store s)" for ev d
proof unfold_locales
  fix s ws rid p q da clock actor content ok err db e
  assume "store_step\<^sup>*\<^sup>* d (rs_store s)" and "interrupted_to (pd_attempt_id p) (rs_store s) da"
    and "append_event clock (result_insert ws actor q p content ok err) da = Inr (db, e)"
  then show "store_step\<^sup>*\<^sup>* d (rs_store (s\<lparr>rs_pending := AList.delete (ws, rid) (rs_pending s), rs_store := db\<rparr>))"
    using interrupted_run store_step.event by (simp) (meson rtranclp.rtrancl_into_rtrancl rtranclp_trans)
next
  fix s ws rid p q reason actor content ok err x s'
  assume run: "store_step\<^sup>*\<^sup>* d (rs_store s)"
    and "settle_request ev (ws, rid) p reason (result_insert ws actor q p content ok err) s = (Inl x, s')"
  then show "settledA store_fatal (\<lambda>s. store_step\<^sup>*\<^sup>* d (rs_store s)) (Inl x :: store_error + unit, s')"
    using interrupted_run by (auto elim!: settle_request_failed simp: unhealthy_def intro: rtranclp_trans)
next
  fix s da assume "store_step\<^sup>*\<^sup>* d (rs_store s)" and "quiet_step (rs_store s) da"
  then show "store_step\<^sup>*\<^sup>* d (rs_store (s\<lparr>rs_store := da\<rparr>))"
    using quiet_run by (simp) (rule rtranclp_trans)
next
  fix s clocks a cr ses g reason da evs
  assume "store_step\<^sup>*\<^sup>* d (rs_store s)"
    and "interrupt_session_attempts clocks a cr ses g reason (rs_store s) = Inr (da, evs)"
  then show "store_step\<^sup>*\<^sup>* d (rs_store (s\<lparr>rs_store := da\<rparr>))"
    using quiet_run [OF quiet_session] by (simp) (rule rtranclp_trans)
qed (auto simp: unhealthy_def modify_connection_def remove_family_def close_all_def
    intro: rtranclp.rtrancl_into_rtrancl store_step.intros)

lemma send_store: "rs_store (snd (send ev c g m s)) = rs_store s"
  by (simp add: send_def send_serialized_def ask_close_def split: option.split)

lemma fanout_opt_moves: "store_step\<^sup>*\<^sup>* (rs_store s) (rs_store (fanout_opt ev e s))"
  by (rule moves.fanout_opt_keeps) simp

section \<open>Steps outside\<close>

text \<open>The calls of the store made for external operations.\<close>

inductive outside_step :: "db \<Rightarrow> db \<Rightarrow> bool" where
  out_prepare: "prepare_external_operation v caller active c d = Inr (d', p) \<Longrightarrow> outside_step d d'"
| out_gate: "mark_external_dispatched v p d = Inr (d', e) \<Longrightarrow> outside_step d d'"
| out_resolution: "prepare_external_resolution v caller active op rid outcome eid remark d = Inr (d', prep) \<Longrightarrow>
    outside_step d d'"
| out_finish: "tracks p d \<Longrightarrow> completes p d d' \<Longrightarrow> outside_step d d'"
| out_resolved: "resolves q d \<Longrightarrow> complete_applied_resolution v q m d = Inr (d', vc) \<Longrightarrow> outside_step d d'"
| out_reload: "registry_reload cx k r d = Inr (d', r', ps, evs) \<Longrightarrow> outside_step d d'"

lemma outside_store_step: "outside_step d d' \<Longrightarrow> store_step d d'"
proof (induction rule: outside_step.induct)
  case (out_finish p d d')
  from out_finish(2,1) show ?case by cases (blast intro: store_step.intros)+
next
  case (out_reload cx k r d d' r' ps evs)
  then show ?case by (auto simp: registry_reload_def Let_def result_simps intro: store_step.catalog)
qed (blast intro: store_step.intros)+

text \<open>What a spawned task carries agrees with the store.\<close>

fun knows :: "worker \<Rightarrow> db \<Rightarrow> bool" where
  "knows (CheckWorker _ _ _ _ _ _) d \<longleftrightarrow> True"
| "knows (ExternalWorker _ p) d \<longleftrightarrow> tracks p d"
| "knows (ResolutionWorker _ p _ _ _) d \<longleftrightarrow> resolves p d"

fun command_knows :: "control_command \<Rightarrow> db \<Rightarrow> bool" where
  "command_knows (CtlExternalGate p) d \<longleftrightarrow> tracks p d"
| "command_knows (CtlExternalFinished p _) d \<longleftrightarrow> tracks p d"
| "command_knows (CtlResolutionFinished _ _ _ p _) d \<longleftrightarrow> resolves p d"
| "command_knows _ d \<longleftrightarrow> True"

lemma sent_by_knows: "sent_by ctl w \<Longrightarrow> knows w d \<Longrightarrow> command_knows ctl d"
  by (cases "(ctl, w)" rule: sent_by.cases) auto

lemma complete_external_completes:
  assumes "complete_external v registry p result d = Inr (d', c)"
  shows "completes p d d'"
  using assms
  by (auto simp: complete_external_def result_simps validate_external_snapshot_def
      split: external_worker_result.splits external_success.splits intro: completes.intros)

locale external_inv = handler_inv +
  assumes client: "I s \<Longrightarrow> I (s\<lparr>rs_client := b\<rparr>)"
    and registry: "I s \<Longrightarrow> I (s\<lparr>rs_integrations := r\<rparr>)"
    and reserved: "I s \<Longrightarrow> I (reserve slot s)"
    and released: "I s \<Longrightarrow> I (release slot s)"
    and reported: "I s \<Longrightarrow> I (report_back P s)"
    and outside: "I s \<Longrightarrow> outside_step (rs_store s) d \<Longrightarrow> I (s\<lparr>rs_store := d\<rparr>)"
    and inspecting: "I s \<Longrightarrow> I (spawn (CheckWorker a c g rid ws prov) s)"
    and working: "I s0 \<Longrightarrow> prepare_external_operation v caller active command (rs_store s0) = Inr (d, p) \<Longrightarrow>
      po_payload p \<noteq> None \<Longrightarrow> store_step\<^sup>*\<^sup>* d (rs_store s) \<Longrightarrow> I s \<Longrightarrow> I (spawn (ExternalWorker a p) s)"
    and resolving: "I s \<Longrightarrow> prepare_external_resolution v caller active op rrid outcome eid remark (rs_store s) =
        Inr (d, ResolutionVerify q) \<Longrightarrow> I s \<Longrightarrow> I (spawn (ResolutionWorker a q c g rid) s)"
begin

lemma ok_integration_list: "okA F I (integration_list ev c g rid ws)"
  unfolding integration_list_def by (intro ok_intros)

lemma ok_integration_check: "okA F I (integration_check ev c g rid ws prov)"
  unfolding integration_check_def by (intro ok_intros reserved inspecting)

lemma ok_reloadA: "okA F I (reloadA ev)"
proof -
  have "I (s1\<lparr>rs_store := d, rs_integrations := r\<rparr>)"
    if "I s1" "registry_reload cx k (rs_integrations s1) (rs_store s1) = Inr (d, r, ps, evs)" for s1 d r ps evs cx k
    using registry [OF outside [OF that(1) out_reload [OF that(2)]]] by simp
  then show ?thesis
    by (auto simp: okA_def reloadA_def bindA_def tickA_def out_only sick split: sum.splits prod.splits
        intro!: sick [OF out_only] out_only)
qed

lemma ok_integration_reload: "okA F I (integration_reload ev c g rid)"
  unfolding integration_reload_def
  by (intro ok_intros ok_errA [OF ok_reloadA] client fanout_keeps sick) assumption

lemma ok_external_status: "okA F I (router_external_status ev c g rid ws op)"
  unfolding router_external_status_def by (intro ok_intros)

lemma ok_announce_resolution: "okA F I (announce_resolution ev c g rid ws completion)"
  unfolding announce_resolution_def by (intro ok_intros fanout_keeps fanout_opt_keeps)

lemma release_external_keeps: "I s \<Longrightarrow> I (release_external_reservation p s)"
  by (simp add: release_external_reservation_def released)

lemma release_resolution_keeps: "I s \<Longrightarrow> I (release_resolution_reservation p s)"
  by (simp add: release_resolution_reservation_def released)

text \<open>The part of \<^verbatim>\<open>external_start\<close> after the reservation.\<close>

lemma start_worker_keeps:
  assumes "I s0" and prep: "prepare_external_operation v caller active command (rs_store s0) = Inr (d, p)"
  shows "settledA F I (start_worker ev c g rid ws active p (s0\<lparr>rs_store := d\<rparr>))"
proof -
  let ?s1 = "snd (send ev c g (SExternalOperation rid ws (po_summary p)) (s0\<lparr>rs_store := d\<rparr>))"
  let ?s2 = "fanout_opt ev (po_event p) ?s1"
  have i1: "I (s0\<lparr>rs_store := d\<rparr>)" by (rule outside [OF assms(1) out_prepare [OF prep]])
  have i2: "I ?s2" by (rule fanout_opt_keeps [OF send_keeps [OF i1]])
  have "store_step\<^sup>*\<^sup>* d (rs_store ?s2)" using fanout_opt_moves [of ?s1 ev "po_event p"] by (simp add: send_store)
  then have "po_payload p \<noteq> None \<Longrightarrow> I (spawn (ExternalWorker active p) ?s2)"
    using working [OF assms(1) prep _ _ i2] by blast
  with release_external_keeps [OF i2, of p] show ?thesis
    by (simp add: start_worker_def bindA_def sendA_def updA_def)
qed

lemma ok_prepare_and_start:
  "okA F I (bindA (tickA 3 (xenv_at ev)) (\<lambda>v.
      bindA (attemptA (storeA (prepare_external_operation v caller active command))) (\<lambda>prepared.
      case prepared of
        Inl code \<Rightarrow> bindA (updA (release slot)) (\<lambda>_. failA (err code))
      | Inr p \<Rightarrow> start_worker ev c g rid ws active p)))"
  unfolding okA_def
proof (intro allI impI)
  fix s assume I: "I s"
  let ?v = "xenv_at ev (rs_tick s)" and ?s = "s\<lparr>rs_tick := rs_tick s + 3\<rparr>"
  have I1: "I ?s" by (rule out_only [OF I])
  show "settledA F I (bindA (tickA 3 (xenv_at ev)) (\<lambda>v.
      bindA (attemptA (storeA (prepare_external_operation v caller active command))) (\<lambda>prepared.
      case prepared of
        Inl code \<Rightarrow> bindA (updA (release slot)) (\<lambda>_. failA (err code))
      | Inr p \<Rightarrow> start_worker ev c g rid ws active p)) s)"
  proof (cases "prepare_external_operation ?v caller active command (rs_store s)")
    case (Inl code)
    then show ?thesis
      using released [OF I1, of slot] sick [OF released [OF I1, of slot]]
      by (simp add: bindA_def tickA_def attemptA_def storeA_def updA_def failA_def)
  next
    case (Inr r)
    obtain d p where r: "r = (d, p)" by fastforce
    have "prepare_external_operation ?v caller active command (rs_store ?s) = Inr (d, p)" using Inr r by simp
    from start_worker_keeps [OF I1 this] Inr r show ?thesis
      by (simp add: bindA_def tickA_def attemptA_def storeA_def)
  qed
qed

lemma ok_external_start: "okA F I (external_start ev c g rid ws command)"
  unfolding external_start_def Let_def
  by (intro ok_intros reserved ok_prepare_and_start)

lemma ok_resolve_prepared:
  "okA F I (bindA (errA err (storeA (prepare_external_resolution v caller active op rrid outcome eid remark)))
       (\<lambda>prepared.
     case prepared of
       ReplayResolution stored resolution \<Rightarrow> sendA ev c g (SExternalResolved rid ws stored resolution)
     | ResolutionCompleted completion \<Rightarrow> announce_resolution ev c g rid ws completion
     | ResolutionVerify p \<Rightarrow>
         let slot = slot_of ws (pr_task_id p) (pr_provider p) in
         bindA (readA (may_spawn slot)) (\<lambda>_.
         bindA (updA (reserve slot)) (\<lambda>_.
         updA (spawn (ResolutionWorker active p c g rid))))))"
  unfolding okA_def
proof (intro allI impI)
  fix s assume I: "I s"
  let ?k = "\<lambda>prepared. case prepared of
       ReplayResolution stored resolution \<Rightarrow> sendA ev c g (SExternalResolved rid ws stored resolution)
     | ResolutionCompleted completion \<Rightarrow> announce_resolution ev c g rid ws completion
     | ResolutionVerify p \<Rightarrow>
         let slot = slot_of ws (pr_task_id p) (pr_provider p) in
         bindA (readA (may_spawn slot)) (\<lambda>_.
         bindA (updA (reserve slot)) (\<lambda>_.
         updA (spawn (ResolutionWorker active p c g rid))))"
  show "settledA F I (bindA (errA err (storeA
      (prepare_external_resolution v caller active op rrid outcome eid remark))) ?k s)"
  proof (cases "prepare_external_resolution v caller active op rrid outcome eid remark (rs_store s)")
    case (Inl code)
    then show ?thesis using I sick [OF I] by (simp add: bindA_def errA_def storeA_def)
  next
    case (Inr r)
    obtain d prep where r: "r = (d, prep)" by fastforce
    have I1: "I (s\<lparr>rs_store := d\<rparr>)" using outside [OF I out_resolution] Inr r by blast
    have "settledA F I (?k prep (s\<lparr>rs_store := d\<rparr>))"
    proof (cases prep)
      case (ReplayResolution stored resolution)
      then show ?thesis using okAD [OF ok_sendA I1] by simp
    next
      case (ResolutionCompleted completion)
      then show ?thesis using okAD [OF ok_announce_resolution I1] by simp
    next
      case (ResolutionVerify q)
      let ?slot = "slot_of ws (pr_task_id q) (pr_provider q)"
      have same: "d = rs_store s" using prepare_resolution_resolves Inr r ResolutionVerify by blast
      have "I (spawn (ResolutionWorker active q c g rid) (reserve ?slot s))"
        by (rule resolving [OF reserved [OF I]])
           (use Inr r ResolutionVerify same reserved [OF I] in \<open>simp_all add: reserve_def\<close>)
      then show ?thesis
        using ResolutionVerify same I sick [OF I]
        by (simp add: bindA_def readA_def updA_def Let_def split: sum.split)
    qed
    then show ?thesis using Inr r by (simp add: bindA_def errA_def storeA_def)
  qed
qed

lemma ok_external_resolve: "okA F I (external_resolve ev c g rid ws op rrid outcome eid remark)"
  unfolding external_resolve_def by (intro ok_intros ok_resolve_prepared)

lemma ok_dispatch_all: "okA actor_fatal I (router_dispatch ev c g m)"
proof (cases "is_external m")
  case True
  then show ?thesis
    by (cases m) (simp_all add: ok_integration_list ok_integration_check ok_integration_reload ok_external_status
        ok_external_start ok_external_resolve)
qed (rule ok_dispatch)

section \<open>Reports\<close>

lemma ok_send_error: "okA F I (updA (send_error ev c g rid e))"
  unfolding send_error_def by (intro ok_intros send_keeps)

lemma ok_check_finished: "okA F I (check_finished ev c g rid ws prov result)"
proof -
  have "okA F I (case r of
       Inr active \<Rightarrow> sendA ev c g (SIntegrationChecked rid ws (ic_public (re_xcodec ev) (ai_connection active)))
     | Inl code \<Rightarrow> updA (send_error ev c g (Some rid) (external_error (Some ws) None code)))" for r
    by (cases r) (simp_all add: ok_sendA ok_send_error)
  then show ?thesis unfolding check_finished_def by (intro ok_intros released)
qed

lemma ok_external_gate: "okA F I (external_gate ev p)"
proof -
  have "okA F I (case r of Inl code \<Rightarrow> retA (Inl code)
     | Inr event \<Rightarrow> bindA (updA (fanout ev event)) (\<lambda>_. retA (Inr ())))" for r
    by (cases r) (auto intro!: ok_intros fanout_keeps)
  then show ?thesis
    unfolding external_gate_def
    by (intro ok_intros ok_attemptA sick) (auto intro: outside out_gate)
qed

lemma external_finished_keeps:
  assumes I: "I s" and know: "tracks p (rs_store s)"
  shows "settledA (\<lambda>_. True) I (external_finished ev p result s)"
proof -
  let ?s1 = "(release_external_reservation p s)\<lparr>rs_tick := rs_tick s + 3\<rparr>"
  let ?v = "xenv_at ev (rs_tick s)" and ?w = "xenv_at ev (rs_tick s + 3)"
  let ?k = "\<lambda>completion. bindA (updA (fanout_opt ev (xo_task_event completion))) (\<lambda>_. updA (fanout ev (xo_event completion)))"
  have st: "rs_store (release_external_reservation p s) = rs_store s"
    "rs_integrations (release_external_reservation p s) = rs_integrations s"
    "rs_tick (release_external_reservation p s) = rs_tick s"
    by (simp_all add: release_external_reservation_def release_def)
  have I1: "I ?s1" by (rule out_only [OF release_external_keeps [OF I]])
  have k: "okA F I (?k completion)" for F completion
    by (intro ok_intros fanout_keeps fanout_opt_keeps)
  show ?thesis
  proof (cases "complete_external ?v (rs_integrations s) p result (rs_store s)")
    case (Inr r)
    obtain d c where r: "r = (d, c)" by fastforce
    have "I (?s1\<lparr>rs_store := d\<rparr>)"
      by (rule outside [OF I1]) (use complete_external_completes Inr r st know in \<open>simp add: out_finish\<close>)
    from okAD [OF k this, of "\<lambda>_. True" c] Inr r show ?thesis
      by (simp add: external_finished_def bindA_def updA_def tickA_def readA_def attemptA_def storeA_def retA_def st)
  next
    case (Inl code)
    show ?thesis
    proof (cases "terminal_external_error ?w p OpFailed (error_as_str code) (rs_store s)")
      case fail: (Inl x)
      show ?thesis
        using Inl fail sick [OF out_only [OF I1, of "rs_tick s + 6"]]
        by (simp add: external_finished_def bindA_def updA_def tickA_def readA_def attemptA_def storeA_def retA_def
            errA_def st add.assoc)
    next
      case ok: (Inr r)
      obtain d c where r: "r = (d, c)" by fastforce
      have "I (?s1\<lparr>rs_tick := rs_tick s + 6, rs_store := d\<rparr>)"
        by (rule outside [OF out_only [OF I1]]) (use ok r st know in \<open>auto intro: out_finish completes.by_denial\<close>)
      from okAD [OF k this, of "\<lambda>_. True" c] Inl ok r show ?thesis
        by (simp add: external_finished_def bindA_def updA_def tickA_def readA_def attemptA_def storeA_def retA_def
            errA_def st add.assoc)
    qed
  qed
qed

lemma resolution_finished_keeps:
  assumes I: "I s" and know: "resolves p (rs_store s)"
  shows "settledA F I (resolution_finished ev c g rid p result s)"
proof (cases result)
  case (Inl e)
  have "I (release_resolution_reservation p s)" by (rule release_resolution_keeps [OF I])
  from okAD [OF ok_send_error this] Inl show ?thesis
    by (simp add: resolution_finished_def bindA_def updA_def)
next
  case (Inr m)
  let ?s1 = "(release_resolution_reservation p s)\<lparr>rs_tick := 4 + rs_tick s\<rparr>"
  let ?v = "xenv_at ev (rs_tick s + 1)"
  let ?read = "bindR (registry_binding (rs_integrations s) (pr_workspace p) (pr_provider p)) (\<lambda>active.
             validate_resolution_snapshot (re_xcodec ev) (re_instant ev (rs_tick s)) active p (rs_store s))"
  have st: "rs_store (release_resolution_reservation p s) = rs_store s"
    "rs_integrations (release_resolution_reservation p s) = rs_integrations s"
    "rs_tick (release_resolution_reservation p s) = rs_tick s"
    by (simp_all add: release_resolution_reservation_def release_def)
  have I1: "I ?s1" by (rule out_only [OF release_resolution_keeps [OF I]])
  have err: "settledA F I (updA (send_error ev c g (Some rid) x) ?s1)" for x
    by (rule okAD [OF ok_send_error I1])
  show ?thesis
  proof (cases ?read)
    case bad: (Inl code)
    with err Inr show ?thesis
      by (simp add: resolution_finished_def bindA_def updA_def tickA_def readA_def attemptA_def st add.assoc)
  next
    case fine: (Inr u)
    show ?thesis
    proof (cases "complete_applied_resolution ?v p m (rs_store s)")
      case bad: (Inl code)
      with err Inr fine show ?thesis
        by (simp add: resolution_finished_def bindA_def updA_def tickA_def readA_def attemptA_def storeA_def st add.assoc)
    next
      case applied: (Inr r)
      obtain d completion where r: "r = (d, completion)" by fastforce
      have "I (?s1\<lparr>rs_store := d\<rparr>)"
        by (rule outside [OF I1]) (use applied r st know in \<open>auto intro: out_resolved\<close>)
      from okAD [OF ok_announce_resolution this] Inr fine applied r show ?thesis
        by (simp add: resolution_finished_def bindA_def updA_def tickA_def readA_def attemptA_def storeA_def st add.assoc)
    qed
  qed
qed

lemma control_keeps:
  assumes I: "I s" and know: "command_knows ctl (rs_store s)"
  shows "settledA (\<lambda>_. True) I (handle_control ev ctl s)"
proof (cases "from_worker ctl")
  case True
  have ret: "okA (\<lambda>_. True) I (retA x)" for x :: "bool \<times> control_reply" by (rule ok_retA)
  show ?thesis
  proof (cases ctl)
    case (CtlIntegrationCheckFinished c g rid ws prov result)
    have "okA (\<lambda>_. True) I (handle_control ev ctl)"
      unfolding CtlIntegrationCheckFinished handle_control.simps by (intro ok_intros reported ok_check_finished)
    from okAD [OF this I] show ?thesis .
  next
    case (CtlExternalGate p)
    have "okA (\<lambda>_. True) I (handle_control ev ctl)"
      unfolding CtlExternalGate handle_control.simps by (intro ok_intros ok_external_gate)
    from okAD [OF this I] show ?thesis .
  next
    case (CtlExternalFinished p result)
    let ?s = "report_back (sent_by ctl) s"
    have "settledA (\<lambda>_. True) I (external_finished ev p result ?s)"
      by (rule external_finished_keeps [OF reported [OF I]]) (use know CtlExternalFinished in \<open>simp add: report_back_def\<close>)
    from settled_bind [of "\<lambda>_. True" I "external_finished ev p result" ?s, OF this ret]
    show ?thesis unfolding CtlExternalFinished handle_control.simps by (simp add: bindA_def updA_def)
  next
    case (CtlResolutionFinished c g rid p result)
    let ?s = "report_back (sent_by ctl) s"
    have "settledA (\<lambda>_. True) I (resolution_finished ev c g rid p result ?s)"
      by (rule resolution_finished_keeps [OF reported [OF I]]) (use know CtlResolutionFinished in \<open>simp add: report_back_def\<close>)
    from settled_bind [of "\<lambda>_. True" I "resolution_finished ev c g rid p result" ?s, OF this ret]
    show ?thesis unfolding CtlResolutionFinished handle_control.simps by (simp add: bindA_def updA_def)
  qed (use True in simp_all)
next
  case False
  from okAD [OF ok_control [OF this] I] show ?thesis .
qed

lemma turn_keeps:
  assumes "I s" and "\<And>ctl. input = InControl ctl \<Longrightarrow> command_knows ctl (rs_store s)"
  shows "I (snd (actor_turn ev input s))"
  by (rule actor_turn_keeps [OF assms(1) ok_dispatch_all control_keeps [OF out_only [OF assms(1)]]])
     (use assms(2) in simp)

end

end
