(* ===== verification/Router_Quiet.thy ===== *)
theory Router_Quiet
  imports Router_Crew
begin

text \<open>
  The requests and results in the log, and that the calls of the store by which the handlers leave
  requests alone log neither.
\<close>

section \<open>Requests in the log\<close>

definition event_key :: "workspace_event_kind \<Rightarrow> workspace_event \<Rightarrow> request_key option" where
  "event_key kind e =
     (if we_kind e = kind then map_option (Pair (we_workspace e)) (we_request_id e) else None)"

definition logged_keys :: "workspace_event_kind \<Rightarrow> db \<Rightarrow> request_key list" where
  "logged_keys kind d = List.map_filter (event_key kind) (events d)"

abbreviation requests_logged :: "db \<Rightarrow> request_key list" where
  "requests_logged \<equiv> logged_keys KRequest"

abbreviation results_logged :: "db \<Rightarrow> request_key list" where
  "results_logged \<equiv> logged_keys KResult"

lemma logged_keys_append:
  "events d' = events d @ evs \<Longrightarrow> logged_keys kind d' = logged_keys kind d @ List.map_filter (event_key kind) evs"
  by (simp add: logged_keys_def map_filter_def)

text \<open>Only events of other kinds are added.\<close>

definition quietly :: "db \<Rightarrow> db \<Rightarrow> bool" where
  "quietly d d' \<longleftrightarrow> (\<exists>evs. events d' = events d @ evs \<and>
     (\<forall>e\<in>set evs. we_kind e \<noteq> KRequest \<and> we_kind e \<noteq> KResult))"

lemma quietly_refl [simp]: "quietly d d"
  by (simp add: quietly_def)

lemma quietly_trans: "quietly d d1 \<Longrightarrow> quietly d1 d2 \<Longrightarrow> quietly d d2"
  by (auto simp: quietly_def)

lemma quietly_same: "events d' = events d \<Longrightarrow> quietly d d'"
  by (simp add: quietly_def)

lemma quietly_append:
  "append_event_in_transaction clock i d1 = Inr (d', e) \<Longrightarrow> events d1 = events d \<Longrightarrow>
     ei_kind i \<noteq> KRequest \<Longrightarrow> ei_kind i \<noteq> KResult \<Longrightarrow> quietly d d'"
  by (simp add: quietly_def append_event_fields append_event_event)

lemma quietly_keys:
  assumes "quietly d d'" and "kind = KRequest \<or> kind = KResult"
  shows "logged_keys kind d' = logged_keys kind d"
proof -
  from assms obtain evs where "events d' = events d @ evs" "\<forall>e\<in>set evs. we_kind e \<noteq> kind"
    by (auto simp: quietly_def)
  then show ?thesis by (simp add: logged_keys_append map_filter_def event_key_def filter_empty_conv)
qed

lemma task_event_kind [simp]: "ei_kind (task_event_insert ws a k te) = KTask"
  by (simp add: task_event_insert_def)

lemma apply_task_quietly:
  assumes "apply_task tev caller c d = Inr (d', res)"
  shows "quietly d d'"
proof (cases "mutation_receipt d (cc_workspace caller) (operation_id c)")
  case None
  with assms obtain aid where "finishes tev caller (request_digest tev c) (operation_id c) d aid (d', res)"
    by (auto simp: apply_task_fresh dest: dispatch_finishes)
  then show ?thesis
    by (auto simp: finishes_def log_same_def dest!: finish_mutation_effect)
      (auto simp: quietly_def append_event_fields append_event_event)
next
  case (Some m)
  with assms show ?thesis
    by (auto simp: apply_task_def result_simps Let_def dest: replay_receipt_same)
qed

lemma interrupt_attempt_quietly:
  "interrupt_attempt clock eclock aid reason d = Inr (d', r) \<Longrightarrow> quietly d d'"
  by (auto simp: interrupt_attempt_def result_simps split: option.splits if_splits
      dest!: update_attempts_effect(1) update_tasks_effect(1) intro: quietly_append)

lemma record_execution_stopped_quietly:
  "record_execution_stopped clock eclock ws k aid ses ag cr reason d = Inr (d', r) \<Longrightarrow> quietly d d'"
  by (auto simp: record_execution_stopped_def result_simps split: option.splits if_splits
      dest!: update_attempts_effect(1) update_tasks_effect(1) intro: quietly_append)

lemma interrupt_each_quietly: "interrupt_each clocks reason ids d = Inr (d', evs) \<Longrightarrow> quietly d d'"
  by (induction ids arbitrary: clocks d evs)
    (auto simp: result_simps dest!: interrupt_attempt_quietly intro: quietly_trans)

lemma interrupted_quietly: "interrupted_to aid d d1 \<Longrightarrow> quietly d d1"
  by (cases aid) (auto dest: interrupt_attempt_quietly)

lemma quiet_step_quietly: "quiet_step d d' \<Longrightarrow> quietly d d'"
proof (induction rule: quiet_step.induct)
  case quiet_task
  then show ?case by (rule apply_task_quietly)
next
  case quiet_stopped
  then show ?case by (rule record_execution_stopped_quietly)
next
  case quiet_session
  then show ?case by (auto simp: interrupt_session_attempts_def dest: interrupt_each_quietly)
next
  case quiet_member
  then show ?case
    by (auto simp: append_event_def result_simps member_insert_def intro: quietly_append)
next
  case quiet_chat
  then show ?case
    by (auto simp: append_chat_idempotent_def chat_insert_def result_simps split: option.splits
        intro: quietly_append)
next
  case quiet_workspace
  then show ?case
    by (auto simp: create_workspace_def insert_workspace_def result_simps intro: quietly_same
        split: if_splits)
next
  case quiet_credential
  then show ?case
    by (auto simp: insert_credential_def insert_credential_connection_def insert_credential_row_def
        result_simps intro: quietly_same split: if_splits)
next
  case quiet_revoke
  then show ?case
    by (auto simp: revoke_credential_def update_credentials_def result_simps intro: quietly_same
        split: if_splits)
next
  case quiet_issue
  then show ?case
    by (auto simp: issue_onboarding_invite_def result_simps Let_def insert_workspace_def insert_invite_def
        intro: quietly_same split: if_splits)
next
  case quiet_revoke_invite
  then show ?case
    by (auto simp: revoke_onboarding_invite_def update_invites_def result_simps intro: quietly_same
        split: if_splits)
next
  case quiet_redeem
  then show ?case
    by (auto simp: redeem_eq_Inr replay_enrollment_eq_Inr first_enrollment_eq_Inr update_invites_def
        insert_credential_connection_def insert_credential_row_def result_simps intro!: quietly_same
        split: if_splits)
qed

section \<open>External operations\<close>

lemma operation_event_kind [simp]: "ei_kind (operation_insert ws a op) = KIntegration"
  by (simp add: operation_insert_def)

lemma binding_event_kind [simp]: "ei_kind (binding_insert ws change public) = KIntegration"
  by (simp add: binding_insert_def)

lemma append_quietly:
  "append_event_in_transaction clock i d = Inr (d', e) \<Longrightarrow> ei_kind i \<noteq> KRequest \<Longrightarrow> ei_kind i \<noteq> KResult \<Longrightarrow>
     quietly d d'"
  by (rule quietly_append) simp_all

lemma external_task_event_quietly:
  "append_external_task_event clock ws actor t op d = Inr (d', e) \<Longrightarrow> quietly d d'"
  by (auto simp: append_external_task_event_def result_simps intro: append_quietly)

lemma statement_quietly:
  "insert_link l d = Inr d' \<Longrightarrow> quietly d d'" "upsert_link l d = Inr d' \<Longrightarrow> quietly d d'"
  "touch_task ws t actor now d = Inr (d', n) \<Longrightarrow> quietly d d'"
  "insert_report plen r d = Inr d' \<Longrightarrow> quietly d d'" "insert_task tr d = Inr d' \<Longrightarrow> quietly d d'"
  "update_workspaces Q f d = Inr (d', n) \<Longrightarrow> quietly d d'"
  "insert_resolution ws hash res d = Inr d' \<Longrightarrow> quietly d d'" "resolve_row ws op g d = Inr d' \<Longrightarrow> quietly d d'"
  by (auto simp: insert_link_def upsert_link_def touch_task_def insert_report_def insert_task_def update_workspaces_def
      insert_resolution_def insert_resolution_row_def resolve_row_def update_external_operations_def result_simps
      intro!: quietly_same split: if_splits dest!: update_tasks_effect(1))

lemma quietly_bindings [simp]: "quietly (d\<lparr>bindings := bs\<rparr>) d' = quietly d d'"
  by (simp add: quietly_def)

lemma settle_quietly:
  assumes "settle_operation v p status eid url err now te d = Inr (d', c)"
  shows "quietly d d'"
  using settle_effect [OF assms] by (auto intro: quietly_append)

lemma import_quietly:
  assumes "import_new_task v p issue now d = Inr (d', t, te)"
  shows "quietly d d'"
  using assms
  by (auto simp: import_new_task_def result_simps dest!: statement_quietly external_task_event_quietly)
     (meson quietly_trans)

lemma write_link_quietly: "write_link v p t issue now d = Inr (d', te) \<Longrightarrow> quietly d d'"
  by (auto simp: write_link_def result_simps
      dest!: statement_quietly external_task_event_quietly intro: quietly_trans)

lemma mutation_quietly:
  "complete_external_mutation v p m d = Inr (d', c) \<Longrightarrow> quietly d d'"
  by (auto simp: complete_external_mutation_def result_simps split: option.splits operation_payload.splits
      dest!: statement_quietly external_task_event_quietly settle_quietly intro: quietly_trans)

lemma read_quietly:
  "complete_external_read v p issue d = Inr (d', c) \<Longrightarrow> quietly d d'"
  by (auto simp: complete_external_read_def complete_import_def complete_link_def terminal_semantic_conflict_def
      result_simps Let_def split: option.splits operation_payload.splits if_splits
      dest!: import_quietly write_link_quietly settle_quietly intro: quietly_trans)

lemma completes_quietly: "completes p d d' \<Longrightarrow> quietly d d'"
proof (induction rule: completes.induct)
  case (by_error v p e d d' c)
  then show ?case
    by (cases e) (auto simp: complete_external_error_def terminal_external_error_def result_simps intro: settle_quietly)
next
  case (by_denial v p code d d' c)
  then show ?case by (auto simp: terminal_external_error_def result_simps intro: settle_quietly)
qed (auto intro: read_quietly mutation_quietly)

lemma resolution_quietly:
  assumes "prepare_external_resolution v caller active op rid outcome eid remark d = Inr (d', prep)"
  shows "quietly d d'"
  using prepare_resolution_effect [OF assms]
proof (elim disjE exE conjE)
  fix x hash assume st: "start_resolution v caller active x rid outcome eid remark hash d = Inr (d', prep)"
  from start_resolution_effect [OF st] show ?thesis
    by (auto simp: complete_not_applied_resolution_def append_resolution_event_def result_simps Let_def
        dest!: statement_quietly append_quietly intro: quietly_trans)
qed simp

lemma applied_quietly:
  "complete_applied_resolution v q m d = Inr (d', c) \<Longrightarrow> quietly d d'"
  by (auto simp: complete_applied_resolution_def link_resolved_def append_resolution_event_def result_simps Let_def
      split: operation_payload.splits
      dest!: statement_quietly external_task_event_quietly append_quietly) (meson quietly_trans)+

lemma catalog_quietly:
  assumes run: "apply_catalog cx k cs d = Inr (d', active, evs)"
  shows "quietly d d'"
proof -
  let ?f = "\<lambda>b. b\<lparr>b_enabled := False, b_updated_at := kc_now k\<rparr>"
  from run obtain d1 n d2 evs1 where
    dis: "update_bindings (\<lambda>_. True) ?f d = Inr (d1, n)"
    and l1: "loopR (kc_configured k) (apply_connection cx (kc_now k) (load_stored_bindings d)) cs
        (d1, [], []) = Inr (d2, active, evs1)"
    and l2: "loopR (kc_disabled k) (disable_existing active) (filter b_enabled (load_stored_bindings d))
        (d2, evs1) = Inr (d', evs)"
    by (auto simp: apply_catalog_def result_simps Let_def)
  have step1: "quietly a a'" if "apply_connection cx now stored clock c (a, am, es) = Inr (a', am', es')"
    for cx now stored clock c a am es a' am' es'
    using that
    by (auto simp: apply_connection_def upsert_binding_def result_simps Let_def split: if_splits
        dest!: append_quietly intro: quietly_same)
  have step2: "quietly a a'" if "disable_existing am clock b (a, es) = Inr (a', es')" for am clock b a es a' es'
    using that by (auto simp: disable_existing_def result_simps split: if_splits dest!: append_quietly)
  have "quietly d d1" using dis by (auto simp: update_bindings_def split: if_splits intro: quietly_same)
  then have "quietly d (fst (d2, active, evs1))"
    using loopR_preserves [OF l1, of "\<lambda>s. quietly d (fst s)"] step1 by (force intro: quietly_trans)
  then have "quietly d (fst (d', evs))"
    using loopR_preserves [OF l2, of "\<lambda>s. quietly d (fst s)"] step2 by (force intro: quietly_trans)
  then show ?thesis by simp
qed

lemma outside_step_quietly: "outside_step d d' \<Longrightarrow> quietly d d'"
proof (induction rule: outside_step.induct)
  case (out_prepare v caller active c d d' p)
  then show ?case
    by (auto simp: prepare_external_operation_def insert_prepared_def append_operation_event_def result_simps Let_def
        split: option.splits dest!: insert_operation_effect(1) intro: quietly_append)
next
  case (out_gate v p d d' e)
  from mark_dispatched_effect [OF this] out_gate show ?case
    by (auto simp: mark_external_dispatched_def append_operation_event_def result_simps update_external_operations_def
        intro: quietly_append)
next
  case (out_reload cx k r d d' r' ps evs)
  then show ?case by (auto simp: registry_reload_def Let_def result_simps intro: catalog_quietly)
qed (auto intro: resolution_quietly completes_quietly applied_quietly)

end
