(* ===== verification/Router_Books.thy ===== *)
theory Router_Books
  imports Router_Quiet Execution
begin

text \<open>
  What a turn of the actor does to the store and to the requests. Three interpretations of
  \<open>external_inv\<close>: the store only moves by the steps of \<open>Store_Machine\<close>, so that everything shown of
  reachable stores holds while the router runs; the pending requests of the actor are the unanswered
  requests of the log, so that no request is answered twice and, as long as the router is healthy, none is
  lost; and what a spawned task carries agrees with the stored operation.
\<close>

section \<open>Failures of a settlement\<close>

definition positive_clocks :: "router_env \<Rightarrow> bool" where
  "positive_clocks ev \<longleftrightarrow> (\<forall>t. 0 \<le> re_clock ev t)"

lemma store_fatal_simps [simp]: "store_fatal (SSqlite x)" "store_fatal SOverflow" "store_fatal SIo"
  by (simp_all add: store_fatal_def)

lemma append_in_transaction_fatal:
  "append_event_in_transaction clock i d = Inl e \<Longrightarrow> 0 \<le> clock \<Longrightarrow> store_fatal e"
  by (auto simp: append_event_in_transaction_def result_simps now_millis_def ok_or_def
      split: if_splits option.splits)

lemma append_event_fatal: "append_event clock i d = Inl e \<Longrightarrow> 0 \<le> clock \<Longrightarrow> store_fatal e"
  by (auto simp: append_event_def result_simps append_in_transaction_fatal)

lemma load_fatal: "load_attempt d i = Inl e \<Longrightarrow> store_fatal e" "load_report d j = Inl e \<Longrightarrow> store_fatal e"
  by (auto simp: load_attempt_def load_report_def ok_or_def result_simps split: option.splits)

lemma get_task_detail_fatal: "get_task_detail_connection d ws k = Inl e \<Longrightarrow> store_fatal e"
  by (auto simp: get_task_detail_connection_def result_simps transposeR_def load_fatal
      split: option.splits sum.splits)

lemma execution_attempt_fatal: "execution_attempt d i = Inl e \<Longrightarrow> store_fatal e"
  by (auto simp: execution_attempt_def result_simps load_fatal split: option.splits)

text \<open>In a consistent store the task of a running attempt is there and points at it.\<close>

lemma running_task_count:
  assumes inv: "store_inv d" and a: "find_attempt d i = Some a" "a_status a = Running"
  shows "count_where (\<lambda>t. t_key t = a_key a \<and> t_current_attempt_id t = Some i) (tasks d) = 1"
    and "\<exists>t\<in>set (tasks d). t_key t = a_key a"
proof -
  note ok = store_invD(2) [OF inv]
  from find_attempt_SomeD [OF a(1)] have ain: "a \<in> set (attempts d)" "a_id a = i" by auto
  from exec_okD(8) [OF ok ain(1)] a(2) obtain t where
    t: "t \<in> set (tasks d)" "t_key t = a_key a" "t_current_attempt_id t = Some i"
    by (auto simp: is_running_def ain)
  show "count_where (\<lambda>t. t_key t = a_key a \<and> t_current_attempt_id t = Some i) (tasks d) = 1"
    by (rule count_where_key_one [OF exec_okD(1) [OF ok] t(1)]) (use t in auto)
  show "\<exists>t\<in>set (tasks d). t_key t = a_key a" using t by blast
qed

lemma interrupt_attempt_fatal:
  assumes inv: "store_inv d" and "0 \<le> clock" and "0 \<le> eclock"
    and fail: "interrupt_attempt clock eclock i reason d = Inl e"
  shows "store_fatal e"
proof (cases "find_attempt d i")
  case None
  with fail show ?thesis by (auto simp: interrupt_attempt_def result_simps)
next
  case (Some a)
  show ?thesis
  proof (cases "a_status a = Running")
    case False
    with Some fail show ?thesis by (auto simp: interrupt_attempt_def result_simps)
  next
    case True
    note run = running_task_count [OF inv Some True]
    let ?P = "\<lambda>b. a_id b = i \<and> a_status b = Running"
    let ?f = "\<lambda>b. b\<lparr>a_status := Interrupted, a_stop_evidence := EvUnknown, a_reason := Some reason,
      a_ended_at := Some clock\<rparr>"
    let ?Q = "\<lambda>t. t_key t = a_key a \<and> t_current_attempt_id t = Some i"
    let ?g = "\<lambda>t. t\<lparr>t_state := Paused, t_version := t_version t + 1, t_current_attempt_id := None,
      t_last_attempt_id := Some i, t_pause_reason := Some reason, t_updated_by := SYSTEM_ROUTER,
      t_updated_at := clock\<rparr>"
    have both: "n = 1 \<and> get_task_detail_connection d2 (a_workspace a) (a_task_id a) \<noteq> Inr None"
      if ua: "update_attempts ?P ?f d = Inr (d1, m)" and ut: "update_tasks ?Q ?g d1 = Inr (d2, n)" for d1 m d2 n
    proof -
      from run(2) obtain t where t: "t \<in> set (tasks d)" "t_key t = a_key a" by blast
      have "\<exists>u\<in>set (update_where ?Q ?g (tasks d)). t_key u = t_key t"
        by (rule key_update_where_ex [OF _ t(1)]) (simp add: t_key_def)
      with t update_attempts_effect(1) [OF ua] update_tasks_effect(1) [OF ut]
      have "find_task d2 (a_workspace a) (a_task_id a) \<noteq> None"
        by (auto simp: find_task_def find_None_iff a_key_def)
      then show ?thesis
        using update_attempts_effect(1) [OF ua] update_tasks_effect(3) [OF ut] run(1)
        by (auto simp: get_task_detail_connection_def result_simps split: option.splits)
    qed
    show ?thesis
    proof (rule ccontr)
      assume "\<not> store_fatal e"
      with fail Some True assms(2,3) obtain d1 m d2 n where
        ua: "update_attempts ?P ?f d = Inr (d1, m)" and ut: "update_tasks ?Q ?g d1 = Inr (d2, n)"
        and rest: "n = 1 \<longrightarrow> get_task_detail_connection d2 (a_workspace a) (a_task_id a) = Inr None"
        by (auto simp: interrupt_attempt_def result_simps now_millis_def
            dest: get_task_detail_fatal append_in_transaction_fatal split: if_splits)
      with both [OF ua ut] show False by simp
    qed
  qed
qed

lemma settle_fatal:
  assumes inv: "store_inv (rs_store s)" and "positive_clocks ev"
    and fail: "settle_request ev key p reason i s = (Inl x, s')"
  shows "store_fatal x"
  using fail assms(2)
  by (auto simp: settle_request_def bindA_def updA_def interrupt_optA_def interruptA_def tickA_def
      storeA_def execution_attempt_opt_def readA_def retA_def appendA_def positive_clocks_def
      intro: interrupt_attempt_fatal [OF inv] append_event_fatal execution_attempt_fatal
      split: option.splits sum.splits prod.splits)

section \<open>The books\<close>

definition pending_keys :: "router_state \<Rightarrow> request_key set" where
  "pending_keys s = fst ` set (rs_pending s)"

definition well_keyed :: "(request_key \<times> pending_request) list \<Rightarrow> bool" where
  "well_keyed ps \<longleftrightarrow> distinct (map fst ps) \<and>
     (\<forall>(k, p)\<in>set ps. k = (pd_workspace p, pd_request_id p))"

text \<open>No request id is used twice and no request is answered twice; what is pending was requested and
  not answered, and, as long as the router is healthy, every request without an answer is pending.\<close>

definition books :: "router_state \<Rightarrow> bool" where
  "books s \<longleftrightarrow> full_inv (rs_store s) \<and> well_keyed (rs_pending s) \<and>
     length (rs_pending s) \<le> PENDING_REQUEST_LIMIT \<and>
     distinct (requests_logged (rs_store s)) \<and> distinct (results_logged (rs_store s)) \<and>
     set (results_logged (rs_store s)) \<subseteq> set (requests_logged (rs_store s)) \<and>
     pending_keys s \<subseteq> set (requests_logged (rs_store s)) - set (results_logged (rs_store s)) \<and>
     (rs_healthy s \<longrightarrow>
       set (requests_logged (rs_store s)) - set (results_logged (rs_store s)) \<subseteq> pending_keys s)"

lemma pending_keys_delete:
  "fst ` set (AList.delete k ps) = fst ` set ps - {k}"
  by (auto simp: AList.delete_eq)

lemma pending_keys_update: "fst ` set (AList.update k p ps) = insert k (fst ` set ps)"
  by (induction ps) auto

lemma well_keyed_delete: "well_keyed ps \<Longrightarrow> well_keyed (AList.delete k ps)"
  by (auto simp: well_keyed_def AList.delete_eq intro: distinct_map_filter)

lemma set_alist_update: "set (AList.update k v ps) \<subseteq> insert (k, v) (set ps)"
  by (induction ps) auto

lemma well_keyed_update:
  "well_keyed ps \<Longrightarrow> well_keyed (AList.update (pd_workspace p, pd_request_id p) p ps)"
  using set_alist_update [of "(pd_workspace p, pd_request_id p)" p ps]
  by (auto simp: well_keyed_def distinct_update)

lemma map_entry_keys: "map fst (AList.map_entry k f ps) = map fst ps"
  by (induction ps) auto

lemma well_keyed_entry:
  "well_keyed ps \<Longrightarrow> well_keyed (AList.map_entry k (\<lambda>p. p\<lparr>pd_attempt_id := a\<rparr>) ps)"
proof -
  have "\<exists>q. (k', q) \<in> set ps \<and> pd_workspace p = pd_workspace q \<and> pd_request_id p = pd_request_id q"
    if "(k', p) \<in> set (AList.map_entry k (\<lambda>p. p\<lparr>pd_attempt_id := a\<rparr>) ps)" for k' p
    using that by (induction ps) (auto split: if_splits)
  then show "well_keyed ps \<Longrightarrow> ?thesis" by (fastforce simp: well_keyed_def map_entry_keys)
qed

lemma well_keyed_found: "well_keyed ps \<Longrightarrow> map_of ps (ws, rid) = Some p \<Longrightarrow> pd_request_id p = rid"
  by (fastforce simp: well_keyed_def dest: map_of_SomeD)

lemma append_keys:
  assumes "append_event_in_transaction clock i d = Inr (d', e)" and "ei_request_id i = Some rid"
  shows "logged_keys kind d' =
    logged_keys kind d @ (if ei_kind i = kind then [(ei_workspace i, rid)] else [])"
  using append_event_event [OF assms(1)] assms(2)
  by (simp add: logged_keys_append [OF append_event_fields(1) [OF assms(1)]] event_key_def map_filter_def)

lemma length_delete: "length (AList.delete k ps) \<le> length ps"
  by (simp add: AList.delete_eq)

lemma length_update: "length (AList.update k p ps) \<le> Suc (length ps)"
  by (induction ps) auto

lemma length_entry [simp]: "length (AList.map_entry k f ps) = length ps"
  by (induction ps) auto

lemma full_inv_run: "store_step\<^sup>*\<^sup>* d d' \<Longrightarrow> full_inv d \<Longrightarrow> full_inv d'"
  by (rule store.run_inv)

lemma books_quiet:
  assumes "books s" and "store_step\<^sup>*\<^sup>* (rs_store s) d" and "quietly (rs_store s) d"
  shows "books (s\<lparr>rs_store := d\<rparr>)"
  using assms(1) full_inv_run [OF assms(2)] quietly_keys [OF assms(3)]
  by (simp add: books_def pending_keys_def)

lemma books_settled:
  assumes books: "books s" and p: "map_of (rs_pending s) (ws, rid) = Some p"
    and q: "q = rid \<or> q = pd_request_id p" and int: "interrupted_to (pd_attempt_id p) (rs_store s) d1"
    and app: "append_event clock (result_insert ws actor q p content ok err) d1 = Inr (d2, e)"
  shows "books (s\<lparr>rs_pending := AList.delete (ws, rid) (rs_pending s), rs_store := d2\<rparr>)"
proof -
  from books p q have qr: "q = rid" using well_keyed_found by (auto simp: books_def)
  from p have "(ws, rid) \<in> pending_keys s" by (force simp: pending_keys_def dest: map_of_SomeD)
  with books have open_req: "(ws, rid) \<in> set (requests_logged (rs_store s))"
    "(ws, rid) \<notin> set (results_logged (rs_store s))" by (auto simp: books_def)
  have run: "store_step\<^sup>*\<^sup>* (rs_store s) d2"
    using interrupted_run [OF int] store_step.event [OF app] by (rule rtranclp.rtrancl_into_rtrancl)
  have keys: "requests_logged d2 = requests_logged (rs_store s)"
    "results_logged d2 = results_logged (rs_store s) @ [(ws, rid)]"
    using app quietly_keys [OF interrupted_quietly [OF int]]
    by (auto simp: append_event_def result_simps append_keys result_insert_def qr)
  show ?thesis
    using books open_req full_inv_run [OF run] well_keyed_delete length_delete [of "(ws, rid)" "rs_pending s"]
    by (auto simp: books_def keys pending_keys_def pending_keys_delete)
qed

lemma books_lost:
  assumes books: "books s" and "positive_clocks ev"
    and fail: "settle_request ev (ws, rid) p reason i s = (Inl x, s')"
  shows "settledA store_fatal books (Inl x :: store_error + unit, s')"
proof -
  have "store_fatal x"
    using books settle_fatal [OF _ assms(2) fail] by (simp add: books_def full_inv_def)
  moreover have "books (unhealthy s')"
  proof (rule settle_request_failed [OF fail])
    fix da t
    assume s': "s' = s\<lparr>rs_pending := AList.delete (ws, rid) (rs_pending s), rs_store := da, rs_tick := t\<rparr>"
      and "da = rs_store s \<or> interrupted_to (pd_attempt_id p) (rs_store s) da"
    then have "store_step\<^sup>*\<^sup>* (rs_store s) da" "quietly (rs_store s) da"
      by (auto intro: interrupted_run interrupted_quietly)
    with books full_inv_run quietly_keys length_delete [of "(ws, rid)" "rs_pending s"] show ?thesis
      by (auto simp: s' books_def unhealthy_def pending_keys_def pending_keys_delete well_keyed_delete)
  qed
  ultimately show ?thesis by simp
qed

lemma books_requested:
  assumes books: "books s" and small: "length (rs_pending s) < PENDING_REQUEST_LIMIT"
    and app: "append_request clock (request_insert (pd_workspace p) (pd_requester_id p)
        (pd_request_id p) (pd_recipient_id p) (pd_task p) content) (rs_store s) = Inr (d, e)"
  shows "books (s\<lparr>rs_store := d, rs_pending :=
    AList.update (pd_workspace p, pd_request_id p) p (rs_pending s)\<rparr>)"
proof -
  let ?key = "(pd_workspace p, pd_request_id p)"
  from app have new: "?key \<notin> set (requests_logged (rs_store s))"
    by (auto simp: append_request_def result_simps request_insert_def logged_keys_def map_filter_def
        event_key_def list_ex_iff exists_row_def split: if_splits)
  have keys: "requests_logged d = requests_logged (rs_store s) @ [?key]" "results_logged d = results_logged (rs_store s)"
    using app by (auto simp: append_request_def result_simps append_keys request_insert_def)
  have "full_inv d"
    using books full_inv_run [OF r_into_rtranclp [of store_step, OF store_step.request [OF app]]]
    by (simp add: books_def)
  moreover have "length (AList.update ?key p (rs_pending s)) \<le> PENDING_REQUEST_LIMIT"
    using length_update [of ?key p "rs_pending s"] small by simp
  ultimately show ?thesis
    using books new well_keyed_update
    by (auto simp: books_def pending_keys_def pending_keys_update keys)
qed

interpretation books: external_inv ev "\<lambda>s. positive_clocks ev \<longrightarrow> books s" for ev
proof unfold_locales
  fix s :: router_state and da
  assume "positive_clocks ev \<longrightarrow> books s" and "quiet_step (rs_store s) da"
  then show "positive_clocks ev \<longrightarrow> books (s\<lparr>rs_store := da\<rparr>)"
    using books_quiet quiet_run quiet_step_quietly by blast
next
  fix s :: router_state and da
  assume "positive_clocks ev \<longrightarrow> books s" and "outside_step (rs_store s) da"
  then show "positive_clocks ev \<longrightarrow> books (s\<lparr>rs_store := da\<rparr>)"
    using books_quiet outside_step_quietly r_into_rtranclp [of store_step, OF outside_store_step] by blast
next
  fix s clocks a cr ses g reason da evs
  assume "positive_clocks ev \<longrightarrow> books s"
    and "interrupt_session_attempts clocks a cr ses g reason (rs_store s) = Inr (da, evs)"
  then show "positive_clocks ev \<longrightarrow> books (s\<lparr>rs_store := da\<rparr>)"
    using books_quiet quiet_run quiet_step_quietly quiet_session by blast
next
  fix s clock ws a da e
  assume "positive_clocks ev \<longrightarrow> books s"
    and "append_event clock (member_insert ws KMemberLeft a) (rs_store s) = Inr (da, e)"
  then show "positive_clocks ev \<longrightarrow> books (s\<lparr>rs_store := da\<rparr>)"
    using books_quiet quiet_run quiet_step_quietly quiet_member by blast
next
  fix s ws rid p q reason actor content ok err x s'
  assume "positive_clocks ev \<longrightarrow> books s"
    and "settle_request ev (ws, rid) p reason (result_insert ws actor q p content ok err) s = (Inl x, s')"
  then show "settledA store_fatal (\<lambda>s. positive_clocks ev \<longrightarrow> books s) (Inl x :: store_error + unit, s')"
    using books_lost by (fastforce simp: settledA_def)
qed (auto simp: books_settled books_requested, auto simp: books_def unhealthy_def modify_connection_def
    remove_family_def close_all_def pending_keys_def reserve_def release_def report_back_def spawn_def well_keyed_entry map_entry_keys [THEN arg_cong [of _ _ set], simplified])

section \<open>Spawned tasks\<close>

interpretation moves: external_inv ev "\<lambda>s. store_step\<^sup>*\<^sup>* d (rs_store s)" for ev d
  by unfold_locales
    (auto simp: reserve_def release_def report_back_def spawn_def
      intro: rtranclp.rtrancl_into_rtrancl outside_store_step)

text \<open>Every spawned task that has not reported back knows its operation.\<close>

definition crew :: "router_state \<Rightarrow> bool" where
  "crew s \<longleftrightarrow> full_inv (rs_store s) \<and> (\<forall>w\<in>set (rs_workers s). knows w (rs_store s))"

lemma knows_run:
  assumes "full_inv d" and "store_step\<^sup>*\<^sup>* d d'" and "knows w d"
  shows "knows w d'"
  using assms operations.run_ext [OF assms(2,1)] by (cases w) (auto intro: tracks_onward resolves_onward)

lemma crew_moves:
  assumes "crew s" and "store_step\<^sup>*\<^sup>* (rs_store s) d" and "rs_store s' = d" and "rs_workers s' = rs_workers s"
  shows "crew s'"
  using assms knows_run full_inv_run [OF assms(2)] by (auto simp: crew_def)

lemma crew_same: "crew s \<Longrightarrow> rs_store s' = rs_store s \<Longrightarrow> rs_workers s' = rs_workers s \<Longrightarrow> crew s'"
  by (simp add: crew_def)

lemma set_drop_first: "set (drop_first P xs) \<subseteq> set xs"
  by (induction xs) auto

lemma crew_working:
  assumes "crew s" and prep: "prepare_external_operation v caller active c (rs_store s) = Inr (d, p)"
    and "po_payload p \<noteq> None" and run: "store_step\<^sup>*\<^sup>* d (rs_store t)" and "crew t"
  shows "crew (spawn (ExternalWorker a p) t)"
proof -
  from assms(1) have inv: "full_inv (rs_store s)" by (simp add: crew_def)
  from prepare_external_sound [OF full_inv_sound_db [OF inv] prep] assms(3) have "tracks p d" by simp
  moreover have "full_inv d" by (rule full_inv_run [OF r_into_rtranclp [of store_step, OF store_step.prepare [OF prep]] inv])
  ultimately have "knows (ExternalWorker a p) (rs_store t)" using knows_run [OF _ run, of "ExternalWorker a p"] by simp
  with assms(5) show ?thesis by (simp add: crew_def spawn_def)
qed

interpretation crew: external_inv ev crew for ev
proof unfold_locales
  fix s ws rid p q da clock actor content ok err db e
  assume c: "crew s" and int: "interrupted_to (pd_attempt_id p) (rs_store s) da"
    and app: "append_event clock (result_insert ws actor q p content ok err) da = Inr (db, e)"
  show "crew (s\<lparr>rs_pending := AList.delete (ws, rid) (rs_pending s), rs_store := db\<rparr>)"
    by (rule crew_moves [OF c rtranclp.rtrancl_into_rtrancl [OF interrupted_run [OF int] store_step.event [OF app]]])
      simp_all
next
  fix s ws rid p q reason actor content ok err x s'
  assume c: "crew s"
    and "settle_request ev (ws, rid) p reason (result_insert ws actor q p content ok err) s = (Inl x, s')"
  then obtain da t where
    s': "s' = s\<lparr>rs_pending := AList.delete (ws, rid) (rs_pending s), rs_store := da, rs_tick := t\<rparr>"
    "da = rs_store s \<or> interrupted_to (pd_attempt_id p) (rs_store s) da" by (blast elim: settle_request_failed)
  from s'(2) have "store_step\<^sup>*\<^sup>* (rs_store s) da" using interrupted_run by auto
  from crew_moves [OF c this, of s'] crew_moves [OF c this, of "unhealthy s'"]
  show "settledA store_fatal crew (Inl x :: store_error + unit, s')"
    by (simp add: s'(1) unhealthy_def)
next
  fix s da assume "crew s" and "quiet_step (rs_store s) da"
  then show "crew (s\<lparr>rs_store := da\<rparr>)" using crew_moves [OF _ quiet_run] by simp
next
  fix s clocks a cr ses g reason da evs
  assume "crew s" and "interrupt_session_attempts clocks a cr ses g reason (rs_store s) = Inr (da, evs)"
  then show "crew (s\<lparr>rs_store := da\<rparr>)" using crew_moves [OF _ quiet_run [OF quiet_session]] by simp
next
  fix s clock ws a da e
  assume "crew s" and "append_event clock (member_insert ws KMemberLeft a) (rs_store s) = Inr (da, e)"
  then show "crew (s\<lparr>rs_store := da\<rparr>)"
    using crew_moves [OF _ r_into_rtranclp [of store_step, OF store_step.event]] by simp
next
  fix s :: router_state and clock content da e and p :: pending_request
  assume "crew s" and "append_request clock (request_insert (pd_workspace p) (pd_requester_id p)
      (pd_request_id p) (pd_recipient_id p) (pd_task p) content) (rs_store s) = Inr (da, e)"
  then show "crew (s\<lparr>rs_store := da, rs_pending := AList.update (pd_workspace p, pd_request_id p) p (rs_pending s)\<rparr>)"
    using crew_moves [OF _ r_into_rtranclp [of store_step, OF store_step.request]] by simp
next
  fix s da assume "crew s" and "outside_step (rs_store s) da"
  then show "crew (s\<lparr>rs_store := da\<rparr>)"
    using crew_moves [OF _ r_into_rtranclp [of store_step, OF outside_store_step]] by simp
next
  fix s P assume "crew s"
  then show "crew (report_back P s)" using set_drop_first by (fastforce simp: crew_def report_back_def)
next
  fix s v caller active op rrid outcome eid remark d q a c g rid
  assume "crew s" and "prepare_external_resolution v caller active op rrid outcome eid remark (rs_store s) =
      Inr (d, ResolutionVerify q)"
  with prepare_resolution_resolves show "crew (spawn (ResolutionWorker a q c g rid) s)"
    by (fastforce simp: crew_def spawn_def)
qed (auto intro: crew_working, auto simp: crew_def unhealthy_def modify_connection_def remove_family_def close_all_def
    reserve_def release_def spawn_def)

end
