(* ===== verification/Router_Run.thy ===== *)
theory Router_Run
  imports Router_Books "HOL-Library.Multiset"
begin

text \<open>
  Runs of the router: it opens the store, which recovers what the last run left open, takes turns and
  may stop or crash between two turns and be started again. The books of \<open>Router_Books\<close> balance in
  every state of a run.
\<close>

section \<open>Runs\<close>

definition start_state :: "integration_registry \<Rightarrow> bool \<Rightarrow> db \<Rightarrow> router_state" where
  "start_state registry client d =
     \<lparr>rs_store = d, rs_connections = [], rs_primaries = [], rs_delegates = [], rs_pending = [],
      rs_buckets = [], rs_subscribers = [], rs_integrations = registry, rs_client = client,
      rs_integration_requests = 0, rs_task_slots = [], rs_shutting_down = False, rs_healthy = True,
      rs_notified = False, rs_workers = [], rs_out = [], rs_tick = 0\<rparr>"

text \<open>Hash maps and sets have no order, the lists that stand for them do: between two turns the
  entries may change places.\<close>

definition same_sets :: "('k \<times> 'v list) list \<Rightarrow> ('k \<times> 'v list) list \<Rightarrow> bool" where
  "same_sets xs ys \<longleftrightarrow> (\<exists>zs. mset zs = mset ys \<and>
     list_all2 (\<lambda>(k, v) (k', v'). k = k' \<and> mset v = mset v') xs zs)"

definition reordered :: "router_state \<Rightarrow> router_state \<Rightarrow> bool" where
  "reordered s s' \<longleftrightarrow>
     (\<exists>cs ps ds qs bs ss ts. s' = s\<lparr>rs_connections := cs, rs_primaries := ps, rs_delegates := ds,
        rs_pending := qs, rs_buckets := bs, rs_subscribers := ss, rs_task_slots := ts\<rparr> \<and>
      mset cs = mset (rs_connections s) \<and> mset ps = mset (rs_primaries s) \<and>
      same_sets ds (rs_delegates s) \<and> mset qs = mset (rs_pending s) \<and>
      mset bs = mset (rs_buckets s) \<and> same_sets ss (rs_subscribers s) \<and>
      mset ts = mset (rs_task_slots s))"

text \<open>The commands of spawned tasks come from tasks that have not reported back.\<close>

fun own_input :: "router_state \<Rightarrow> actor_input \<Rightarrow> bool" where
  "own_input s (InControl ctl) \<longleftrightarrow> (from_worker ctl \<longrightarrow> (\<exists>w\<in>set (rs_workers s). sent_by ctl w))"
| "own_input s _ \<longleftrightarrow> True"

text \<open>The administrator's credential is created when the store has none.\<close>

inductive bootstrapped :: "db \<Rightarrow> db \<Rightarrow> bool" where
  kept: "bootstrapped d d"
| created: "insert_credential cx clock c d = Inr d' \<Longrightarrow> bootstrapped d d'"

text \<open>A run takes turns, leaves the loop at any point (a stop, or the senders of the channels are gone)
  and starts again; the turns after a stop, which the loop does not take, are allowed here too.\<close>

inductive router_step :: "router_env \<Rightarrow> router_state \<Rightarrow> router_state \<Rightarrow> bool" for ev where
  turn: "actor_turn ev input s = (t, s') \<Longrightarrow> own_input s input \<Longrightarrow> router_step ev s s'"
| reorder: "reordered s s' \<Longrightarrow> router_step ev s s'"
| exit: "router_step ev s (actor_exit clock clocks s)"
| restart: "recover rc (rs_store s) = Inr d \<Longrightarrow> bootstrapped d d1 \<Longrightarrow>
    registry_load cx k explicit dir d1 = (registry, d2) \<Longrightarrow>
    client \<longrightarrow> registry_has_active registry \<Longrightarrow> router_step ev s (start_state registry client d2)"

text \<open>At the start the registry is loaded, which applies the file or disables every binding.\<close>

lemma registry_load_step:
  assumes "registry_load cx k explicit dir d = (registry, d')"
  shows "store_step d d'" and "quietly d d'"
proof -
  from assms consider active evs cs where "apply_catalog cx k cs d = Inr (d', active, evs)" | "d' = disable_bindings d"
    by (auto simp: registry_load_def Let_def result_simps split: prod.splits sum.splits option.splits)
  then show "store_step d d'" by cases (auto intro: store_step.catalog store_step.disabled)
  have "quietly d (disable_bindings d)"
    by (auto simp: disable_bindings_def update_bindings_def intro: quietly_same split: sum.splits)
  with \<open>\<And>thesis. (\<And>active evs cs. apply_catalog cx k cs d = Inr (d', active, evs) \<Longrightarrow> thesis) \<Longrightarrow>
      (d' = disable_bindings d \<Longrightarrow> thesis) \<Longrightarrow> thesis\<close>
  show "quietly d d'" by (metis catalog_quietly)
qed

section \<open>Recovery balances the books\<close>

lemma logged_key_iff:
  "(ws, rid) \<in> set (logged_keys kind d) \<longleftrightarrow>
     (\<exists>e\<in>set (events d). we_kind e = kind \<and> we_workspace e = ws \<and> we_request_id e = Some rid)"
  by (force simp: logged_keys_def map_filter_def event_key_def)

lemma event_key_Some: "we_kind e = kind \<Longrightarrow> we_request_id e = Some q \<Longrightarrow> the (event_key kind e) = (we_workspace e, q)"
  by (simp add: event_key_def)

lemma loopR_quietly:
  assumes "loopR c f xs d = Inr d'" and "\<And>n x d d'. f n x d = Inr d' \<Longrightarrow> quietly d d'"
  shows "quietly d d'"
  by (rule loopR_preserves [OF assms(1), of "quietly d"]) (auto intro: quietly_trans assms(2))

lemma recover_attempt_quietly: "recover_attempt now clock a d = Inr d' \<Longrightarrow> quietly d d'"
  by (auto simp: recover_attempt_def result_simps
      dest!: update_attempts_effect(1) update_tasks_effect(1) intro: quietly_append)

lemma recover_operation_quietly: "recover_operation now clock x d = Inr d' \<Longrightarrow> quietly d d'"
  by (auto simp: recover_operation_def result_simps update_external_operations_def
      split: prod.splits intro: quietly_append)

definition row_key :: "workspace_name \<times> string \<times> string \<times> int option \<Rightarrow> request_key" where
  "row_key row = (fst row, fst (snd row))"

lemma restarted_keys:
  assumes "loopR clocks (\<lambda>clock row s.
      bindR (append_event_in_transaction clock (restarted_result row) s) (\<lambda>(s1, _). Inr s1)) rows d = Inr d'"
  shows "requests_logged d' = requests_logged d \<and> results_logged d' = results_logged d @ map row_key rows"
  using assms
proof (induction rows arbitrary: clocks d)
  case (Cons row rows)
  then obtain d1 e where
    app: "append_event_in_transaction (clocks 0) (restarted_result row) d = Inr (d1, e)"
    and rest: "loopR (\<lambda>n. clocks (Suc n)) (\<lambda>clock row s.
      bindR (append_event_in_transaction clock (restarted_result row) s) (\<lambda>(s1, _). Inr s1)) rows d1 = Inr d'"
    by (auto simp: bindR_eq_Inr)
  from append_keys [OF app] Cons.IH [OF rest] show ?case
    by (cases row) (simp add: restarted_result_def row_key_def)
qed simp

lemma unfinished_keys:
  assumes rows: "list_all2 (\<lambda>r row. \<exists>q. we_request_id r = Some q \<and>
        (we_workspace r, q, we_actor_id r, we_task_id r) = row) (unfinished_requests d) rows"
    and dist: "distinct (requests_logged d)"
  shows "distinct (map row_key rows)"
    and "set (map row_key rows) \<subseteq> set (requests_logged d) - set (results_logged d)"
proof -
  let ?key = "the \<circ> event_key KRequest"
  let ?P = "\<lambda>r. we_kind r = KRequest \<and> \<not> answered d r"
  have req: "we_kind r = KRequest \<and> \<not> answered d r \<and> (\<exists>q. we_request_id r = Some q) \<and> r \<in> set (events d)"
    if r: "r \<in> set (unfinished_requests d)" for r
  proof -
    from r obtain i where "i < length (unfinished_requests d)" "r = unfinished_requests d ! i"
      by (auto simp: in_set_conv_nth)
    with list_all2_nthD [OF rows] have "\<exists>q. we_request_id r = Some q" by blast
    with r show ?thesis by (auto simp: unfinished_requests_def)
  qed
  have keys: "map row_key rows = map ?key (unfinished_requests d)"
    using rows req
  proof (induction rule: list_all2_induct)
    case (Cons r rs row rows)
    then show ?case by (auto simp: row_key_def event_key_def)
  qed simp
  have perm: "mset (map ?key (unfinished_requests d)) = mset (map ?key (filter ?P (events d)))"
    by (simp add: unfinished_requests_def)
  have some: "filter ?P (events d) = filter ?P (filter (\<lambda>e. event_key KRequest e \<noteq> None) (events d))"
    unfolding filter_filter
  proof (rule filter_cong [OF refl])
    fix r assume r: "r \<in> set (events d)"
    have "event_key KRequest r \<noteq> None" if P: "?P r"
    proof -
      from r P have "r \<in> set (unfinished_requests d)" by (simp add: unfinished_requests_def)
      from req [OF this] obtain q where "we_request_id r = Some q" by (elim conjE exE)
      with P show ?thesis by (simp add: event_key_def)
    qed
    then show "?P r = (event_key KRequest r \<noteq> None \<and> ?P r)" by argo
  qed
  have "distinct (map ?key (filter ?P (filter (\<lambda>e. event_key KRequest e \<noteq> None) (events d))))"
    by (rule distinct_map_filter) (use dist in \<open>simp add: logged_keys_def map_filter_def\<close>)
  then show "distinct (map row_key rows)"
    unfolding keys mset_eq_imp_distinct_iff [OF perm] some .
  show "set (map row_key rows) \<subseteq> set (requests_logged d) - set (results_logged d)"
  proof
    fix k assume "k \<in> set (map row_key rows)"
    then obtain r where r: "r \<in> set (unfinished_requests d)" "k = ?key r" unfolding keys by auto
    from req [OF r(1)] obtain q where q: "we_request_id r = Some q" by blast
    with req [OF r(1)] r(2) have k: "k = (we_workspace r, q)" by (simp add: event_key_Some)
    show "k \<in> set (requests_logged d) - set (results_logged d)"
      using req [OF r(1)] q by (auto simp: k logged_key_iff answered_def)
  qed
qed

lemma recover_keys:
  assumes run: "recover rc d = Inr d'" and inv: "store_inv d" and dist: "distinct (requests_logged d)"
    "distinct (results_logged d)" "set (results_logged d) \<subseteq> set (requests_logged d)"
  shows "requests_logged d' = requests_logged d" "distinct (results_logged d')"
    "set (results_logged d') = set (requests_logged d)"
proof -
  from run obtain d1 d2 where
    d1: "recover_unfinished_requests (rc_requests rc) d = Inr d1"
    and d2: "recover_running_attempts (rc_attempts_now rc) (rc_attempts rc) d1 = Inr d2"
    and d3: "recover_external_operations (rc_operations_now rc) (rc_operations rc) d2 = Inr d'"
    by (auto simp: recover_def bindR_eq_Inr)
  from d1 obtain rows where
    rows: "list_all2 (\<lambda>r row. \<exists>q. we_request_id r = Some q \<and>
        (we_workspace r, q, we_actor_id r, we_task_id r) = row) (unfinished_requests d) rows"
    and loop: "loopR (rc_requests rc) (\<lambda>clock row s.
       bindR (append_event_in_transaction clock (restarted_result row) s) (\<lambda>(s1, _). Inr s1))
       rows d = Inr d1"
    by (auto simp: recover_unfinished_requests_def bindR_eq_Inr mapR_eq_Inr)
  note new = restarted_keys [OF loop] unfinished_keys [OF rows dist(1)]
  have "quietly d1 d2" using d2
    by (auto simp: recover_running_attempts_def result_simps intro: loopR_quietly recover_attempt_quietly)
  moreover have "quietly d2 d'" using d3
    by (auto simp: recover_external_operations_def result_simps intro: loopR_quietly recover_operation_quietly)
  ultimately have keys: "requests_logged d' = requests_logged d1" "results_logged d' = results_logged d1"
    using quietly_keys [of d1 d2] quietly_keys [of d2 d'] by simp_all
  show "requests_logged d' = requests_logged d" using keys new(1) by simp
  show "distinct (results_logged d')" using keys new dist by auto
  have "set (requests_logged d') \<subseteq> set (results_logged d')"
  proof
    fix k assume k: "k \<in> set (requests_logged d')"
    obtain ws rid where kp: "k = (ws, rid)" by fastforce
    from k obtain r where "r \<in> set (events d')" "we_kind r = KRequest" "we_workspace r = ws"
      "we_request_id r = Some rid" by (auto simp: kp logged_key_iff)
    with recover_effect(2) [OF inv run] show "k \<in> set (results_logged d')"
      unfolding kp logged_key_iff all_answered_def answered_def by fastforce
  qed
  then show "set (results_logged d') = set (requests_logged d)"
    using keys new dist(3) by auto
qed

lemma books_restart:
  assumes "books s" and run: "recover rc (rs_store s) = Inr d" and "bootstrapped d d'"
    and load: "registry_load cx k explicit dir d' = (registry, d2)"
  shows "books (start_state registry client d2)"
proof -
  let ?d = "rs_store s"
  note inv = assms(1) [unfolded books_def]
  have full: "full_inv d" using inv full_inv_run [OF r_into_rtranclp [of store_step, OF store_step.recovery [OF run]]] by simp
  have keys: "requests_logged d = requests_logged ?d" "distinct (results_logged d)"
    "set (results_logged d) = set (requests_logged ?d)"
    using recover_keys [OF run] inv by (simp_all add: full_inv_def)
  from assms(3) have "full_inv d' \<and> requests_logged d' = requests_logged d \<and> results_logged d' = results_logged d"
  proof cases
    case kept
    with full show ?thesis by simp
  next
    case created
    then have q: "quiet_step d d'" by (rule quiet_credential)
    with full full_inv_run [OF quiet_run [OF q]] quietly_keys [OF quiet_step_quietly [OF q]]
    show ?thesis by simp
  qed
  moreover from this have "full_inv d2"
    using full_inv_run [OF r_into_rtranclp [of store_step, OF registry_load_step(1) [OF load]]] by simp
  ultimately show ?thesis
    using inv keys quietly_keys [OF registry_load_step(2) [OF load]]
    by (simp add: books_def start_state_def pending_keys_def well_keyed_def)
qed

section \<open>Every state of a run\<close>

lemma own_inputD:
  assumes "own_input s input" and "crew s" and "input = InControl ctl"
  shows "command_knows ctl (rs_store s)"
proof (cases "from_worker ctl")
  case True
  with assms show ?thesis by (auto simp: crew_def dest: sent_by_knows)
next
  case False
  then show ?thesis by (cases ctl) simp_all
qed

lemma well_keyed_mset:
  assumes "mset qs = mset ps" and "well_keyed ps"
  shows "well_keyed qs"
proof -
  have "mset (map fst qs) = mset (map fst ps)" using assms(1) by simp
  then have "distinct (map fst qs)" using assms(2) mset_eq_imp_distinct_iff [of "map fst qs" "map fst ps"] by (simp add: well_keyed_def)
  with assms show ?thesis by (simp add: well_keyed_def mset_eq_setD [OF assms(1)])
qed

lemma books_reordered:
  assumes "reordered s s'" and "books s"
  shows "books s'"
proof -
  from assms(1) obtain qs where qs: "mset qs = mset (rs_pending s)" "rs_pending s' = qs"
    and same: "rs_store s' = rs_store s" "rs_healthy s' = rs_healthy s"
    by (auto simp: reordered_def)
  show ?thesis
    using assms(2) well_keyed_mset [OF qs(1)]
    by (simp add: books_def pending_keys_def qs(2) same mset_eq_setD [OF qs(1)] mset_eq_length [OF qs(1)])
qed

lemma exit_quietly:
  "recover_external_inflight clock clocks d = Inr d' \<Longrightarrow> quietly d d'"
  by (auto simp: recover_external_inflight_def recover_external_operations_def result_simps
      intro: loopR_quietly recover_operation_quietly)

lemma books_exit:
  assumes "books s"
  shows "books (actor_exit clock clocks s)"
proof (cases "recover_external_inflight clock clocks (rs_store s)")
  case (Inl e)
  with assms show ?thesis by (simp add: actor_exit_def close_all_def books_def pending_keys_def)
next
  case (Inr d)
  have "books (s\<lparr>rs_store := d\<rparr>)"
    by (rule books_quiet [OF assms r_into_rtranclp [of store_step, OF store_step.inflight [OF Inr]]
          exit_quietly [OF Inr]])
  with Inr show ?thesis by (simp add: actor_exit_def close_all_def books_def pending_keys_def)
qed

lemma crew_step:
  assumes "router_step ev s s'" and "crew s"
  shows "crew s'"
  using assms(1)
proof cases
  case (turn input t)
  with crew.turn_keeps [OF assms(2), of input ev] own_inputD [OF _ assms(2)] show ?thesis by auto
next
  case reorder
  then show ?thesis using assms(2) by (auto simp: reordered_def crew_def)
next
  case (exit clock clocks)
  show ?thesis
  proof (cases "recover_external_inflight clock clocks (rs_store s)")
    case (Inl e)
    with assms(2) exit show ?thesis by (simp add: actor_exit_def close_all_def crew_def)
  next
    case (Inr d)
    with crew_moves [OF assms(2) r_into_rtranclp [of store_step, OF store_step.inflight [OF Inr]]] exit
    show ?thesis by (simp add: actor_exit_def close_all_def)
  qed
next
  case (restart rc d d1 cx k explicit dir registry d2 client)
  have "full_inv d" using assms(2) restart(2) store_step_inv [OF store_step.recovery] by (auto simp: crew_def)
  moreover have "store_step\<^sup>*\<^sup>* d d1" using restart(3) by cases (auto intro: quiet_run quiet_credential)
  ultimately have "full_inv d2" using full_inv_run store_step_inv [OF registry_load_step(1) [OF restart(4)]] by blast
  with restart(1) show ?thesis by (simp add: crew_def start_state_def)
qed

lemma books_step:
  assumes "router_step ev s s'" and "positive_clocks ev" and "books s" and "crew s"
  shows "books s'"
  using assms(1)
proof cases
  case (turn input t)
  with books.turn_keeps [of ev s input] assms(2,3) own_inputD [OF _ assms(4)] show ?thesis by auto
next
  case reorder
  then show ?thesis using books_reordered assms(3) by blast
next
  case (exit clock clocks)
  then show ?thesis using books_exit assms(3) by simp
next
  case restart
  then show ?thesis using books_restart assms(3) by blast
qed

lemma crew_run: "(router_step ev)\<^sup>*\<^sup>* s s' \<Longrightarrow> crew s \<Longrightarrow> crew s'"
  by (induction rule: rtranclp_induct) (auto intro: crew_step)

lemma books_run:
  "(router_step ev)\<^sup>*\<^sup>* s s' \<Longrightarrow> positive_clocks ev \<Longrightarrow> books s \<Longrightarrow> crew s \<Longrightarrow> books s'"
  by (induction rule: rtranclp_induct) (auto intro: books_step crew_run)

lemma books_empty: "books (start_state registry client (empty_db server))"
  using empty_db_inv [of server]
  by (simp add: books_def start_state_def empty_db_def logged_keys_def map_filter_def well_keyed_def
      pending_keys_def)

lemma crew_empty: "crew (start_state registry client (empty_db server))"
  using empty_db_inv [of server] by (simp add: crew_def start_state_def)

lemma router_moves_store:
  assumes "router_step ev s s'" and "crew s"
  shows "store_step\<^sup>*\<^sup>* (rs_store s) (rs_store s')"
  using assms(1)
proof cases
  case (turn input t)
  with moves.turn_keeps [of "rs_store s" s input ev] own_inputD [OF _ assms(2)] show ?thesis by auto
next
  case reorder
  then show ?thesis by (auto simp: reordered_def)
next
  case (exit clock clocks)
  then show ?thesis
    by (auto simp: actor_exit_def close_all_def intro: store_step.inflight split: sum.split)
next
  case (restart rc d d1 cx k explicit dir registry d2 client)
  from restart(3) have "store_step\<^sup>*\<^sup>* d d1"
    by cases (auto intro: quiet_run quiet_credential)
  then have "store_step\<^sup>*\<^sup>* d d2" using registry_load_step(1) [OF restart(4)] by (rule rtranclp.rtrancl_into_rtrancl)
  with store_step.recovery [OF restart(2)] restart(1) show ?thesis
    by (simp add: start_state_def converse_rtranclp_into_rtranclp)
qed

end
