(* ===== verification/Router_Fuel.thy ===== *)
theory Router_Fuel
  imports Router_Steps
begin

text \<open>
  The depth to which fanning out, ending requests and disconnecting call each other. The number of
  connections never grows and a disconnect that does anything removes one, so the bound of
  \<open>disconnect_n\<close> is never reached: \<^verbatim>\<open>disconnect_with_reason\<close> satisfies the recursion of the source.
\<close>

section \<open>Connections only go\<close>

lemma connection_conv: "connection s c = map_of (rs_connections s) c"
  by (simp add: connection_def)

lemma length_modify [simp]:
  "length (rs_connections (modify_connection c f s)) = length (rs_connections s)"
proof -
  have "length (AList.map_entry c f xs) = length xs" for xs
    by (induction xs) auto
  then show ?thesis by (simp add: modify_connection_def)
qed

interpretation few: core_inv ev "\<lambda>s. length (rs_connections s) \<le> n" for ev and n :: nat
  by unfold_locales (auto simp: unhealthy_def remove_family_def intro: le_trans [OF length_filter_le]
      elim!: settle_request_failed)

section \<open>Agreement on states with few connections\<close>

definition eqA :: "nat \<Rightarrow> ('e, 'a) act \<Rightarrow> ('e, 'a) act \<Rightarrow> bool" where
  "eqA n m m' \<longleftrightarrow> (\<forall>s. length (rs_connections s) \<le> n \<longrightarrow> m s = m' s)"

abbreviation fewA :: "nat \<Rightarrow> ('e, 'a) act \<Rightarrow> bool" where
  "fewA n \<equiv> okA (\<lambda>_. True) (\<lambda>s. length (rs_connections s) \<le> n)"

lemma eqAD: "eqA n m m' \<Longrightarrow> length (rs_connections s) \<le> n \<Longrightarrow> m s = m' s"
  by (simp add: eqA_def)

lemma eqA_refl [simp]: "eqA n m m"
  by (simp add: eqA_def)

lemma eqA_bind:
  assumes "eqA n m m'" and "fewA n m" and "\<And>x. eqA n (f x) (f' x)"
  shows "eqA n (bindA m f) (bindA m' f')"
  unfolding eqA_def
proof (intro allI impI)
  fix s :: router_state
  assume small: "length (rs_connections s) \<le> n"
  obtain r s1 where r: "m s = (r, s1)" by fastforce
  have "settledA (\<lambda>_. True) (\<lambda>s. length (rs_connections s) \<le> n) (r, s1)"
    using okAD [OF assms(2) small] r by simp
  moreover have "m' s = (r, s1)" using eqAD [OF assms(1) small] r by simp
  ultimately show "bindA m f s = bindA m' f' s"
    using r eqAD [OF assms(3), of s1] by (cases r) (auto simp: bindA_def)
qed

lemma eqA_updA: "(\<And>s. length (rs_connections s) \<le> n \<Longrightarrow> f s = f' s) \<Longrightarrow> eqA n (updA f) (updA f')"
  by (simp add: eqA_def updA_def)

lemma eqA_errA: "eqA n m m' \<Longrightarrow> eqA n (errA g m) (errA g m')"
  by (simp add: eqA_def errA_def)

lemma eqA_eachA:
  "(\<And>x. eqA n (f x) (f' x)) \<Longrightarrow> (\<And>x. fewA n (f x)) \<Longrightarrow> eqA n (eachA f xs) (eachA f' xs)"
  by (induction xs) (auto intro: eqA_bind)

definition dc_eq :: "nat \<Rightarrow> disconnector \<Rightarrow> disconnector \<Rightarrow> bool" where
  "dc_eq n dc dc' \<longleftrightarrow> (\<forall>c g reason. eqA n (dc c g reason) (dc' c g reason))"

definition dc_few :: "disconnector \<Rightarrow> bool" where
  "dc_few dc \<longleftrightarrow> (\<forall>n. dc_ok (\<lambda>s. length (rs_connections s) \<le> n) dc)"

lemma disconnect_failed_eq:
  assumes "dc_eq n dc dc'" and "dc_few dc"
  shows "length (rs_connections s) \<le> n \<Longrightarrow> disconnect_failed dc fs s = disconnect_failed dc' fs s"
proof (induction fs arbitrary: s)
  case (Cons f fs)
  obtain c g where f: "f = (c, g)" by fastforce
  obtain r s1 where r: "dc c g TransportLost s = (r, s1)" by fastforce
  have "dc' c g TransportLost s = (r, s1)"
    using assms(1) r Cons.prems by (simp add: dc_eq_def eqA_def)
  moreover have "length (rs_connections s1) \<le> n"
    using okAD [OF dc_okD, of "\<lambda>s. length (rs_connections s) \<le> n" dc s c g TransportLost]
      assms(2) Cons.prems r by (cases r) (auto simp: dc_few_def unhealthy_def)
  ultimately show ?case using Cons.IH f r by (cases r) auto
qed simp

lemma fanout_with_eq:
  assumes "dc_eq n dc dc'" and "dc_few dc" and "length (rs_connections s) \<le> n"
  shows "fanout_with ev dc e s = fanout_with ev dc' e s"
proof -
  have "disconnect_failed dc failed (snd (fanout_frames ev e len rs s)) =
      disconnect_failed dc' failed (snd (fanout_frames ev e len rs s))" for failed len rs
    by (rule disconnect_failed_eq [OF assms(1,2)]) (rule few.fanout_frames_keeps [OF assms(3)])
  then show ?thesis by (simp add: fanout_with_def case_prod_beta split: option.split)
qed

lemma fanout_with_few:
  "dc_few dc \<Longrightarrow> length (rs_connections s) \<le> n \<Longrightarrow> length (rs_connections (fanout_with ev dc e s)) \<le> n"
  by (rule few.fanout_with_keeps) (auto simp: dc_few_def)

lemma fanout_opt_with_eq:
  assumes "dc_eq n dc dc'" and "dc_few dc" and "length (rs_connections s) \<le> n"
  shows "fanout_opt_with ev dc e s = fanout_opt_with ev dc' e s"
  using fanout_with_eq [OF assms] by (simp add: fanout_opt_with_def split: option.split)

lemma fanout_opt_with_few:
  "dc_few dc \<Longrightarrow> length (rs_connections s) \<le> n \<Longrightarrow>
     length (rs_connections (fanout_opt_with ev dc e s)) \<le> n"
  by (rule few.fanout_opt_with_keeps) (auto simp: dc_few_def)

lemma few_settle: "fewA n (settle_request ev key p reason i)"
  unfolding okA_def
proof (intro allI impI)
  fix s :: router_state
  assume "length (rs_connections s) \<le> n"
  then show "settledA (\<lambda>_. True) (\<lambda>s. length (rs_connections s) \<le> n) (settle_request ev key p reason i s)"
    by (cases rule: settle_request_cases [of ev key p reason i s]) (auto simp: unhealthy_def)
qed

lemma announce_eq:
  assumes "dc_eq n dc dc'" and "dc_few dc"
  shows "eqA n (announce_result ev dc ws rid code p x) (announce_result ev dc' ws rid code p x)"
proof -
  have "dc_ok (\<lambda>s. length (rs_connections s) \<le> n) dc" using assms(2) by (simp add: dc_few_def)
  note keeps = few.cancel_recipient_keeps few.fanout_opt_with_keeps [OF this]
  show ?thesis
    unfolding announce_result_def case_prod_beta
    by (intro eqA_bind eqA_refl eqA_updA ok_intros keeps fanout_with_eq [OF assms]
        fanout_opt_with_eq [OF assms])
qed

lemma finish_with_eq:
  assumes "dc_eq n dc dc'" and "dc_few dc"
  shows "eqA n (finish_pending_error_with ev dc ws rid code) (finish_pending_error_with ev dc' ws rid code)"
  using eqA_bind [OF eqA_refl few_settle announce_eq [OF assms]]
  by (simp add: eqA_def finish_pending_error_with_def split: option.split)

lemma forget_role_eq:
  assumes "dc_eq n dc dc'" and "dc_few dc"
  shows "eqA n (forget_role ev dc c k actor) (forget_role ev dc' c k actor)"
  unfolding forget_role_def appendA_def
  by (auto split: option.splits connection_role.splits simp: unhealthy_def
      intro!: eqA_bind eqA_updA fanout_opt_with_eq [OF assms] ok_intros)

section \<open>The recursion of the source\<close>

lemma remove_family_fewer:
  assumes "connection s c = Some k" and "c \<in> set family"
  shows "length (rs_connections (remove_family family s)) < length (rs_connections s)"
proof -
  have "(c, k) \<in> set (rs_connections s)" using assms(1) by (auto simp: connection_def dest: map_of_SomeD)
  then show ?thesis
    using assms(2) unfolding remove_family_def by simp (rule length_filter_less, auto)
qed

lemma self_in_family: "c \<in> set (connection_family s c)"
  by (auto simp: connection_family_def split: option.splits connection_role.splits)

text \<open>The part of \<open>disconnect_body\<close> after the family was removed.\<close>

lemma drop_bucket_connections [simp]: "rs_connections (drop_bucket i s) = rs_connections s"
  by (simp add: drop_bucket_def split: option.split)

lemma fold_fanout_eq:
  assumes "dc_eq n dc dc'" and "dc_few dc"
  shows "length (rs_connections s) \<le> n \<Longrightarrow> fold (fanout_with ev dc) evs s = fold (fanout_with ev dc') evs s"
proof (induction evs arbitrary: s)
  case (Cons e evs)
  have "length (rs_connections (fanout_with ev dc e s)) \<le> n"
    by (rule fanout_with_few [OF assms(2) Cons.prems])
  from Cons.IH [OF this] show ?case using fanout_with_eq [OF assms Cons.prems] by simp
qed simp

lemma after_removal_eq:
  assumes "dc_eq n dc dc'" and "dc_few dc"
  shows "eqA n (after_removal ev dc c k actor family evs) (after_removal ev dc' c k actor family evs)"
proof -
  have ok: "dc_ok (\<lambda>s. length (rs_connections s) \<le> n) dc" using assms(2) by (simp add: dc_few_def)
  have fin: "eqA n (case x of (w, r, code) \<Rightarrow> errA RtStore (finish_pending_error_with ev dc w r code))
      (case x of (w, r, code) \<Rightarrow> errA RtStore (finish_pending_error_with ev dc' w r code))" for x
    by (cases x) (simp add: eqA_errA finish_with_eq [OF assms])
  have few: "fewA n (case x of (w, r, code) \<Rightarrow> errA RtStore (finish_pending_error_with ev dc w r code))" for x
    by (cases x) (auto intro!: ok_errA [OF few.ok_finish_with [OF ok]] simp: unhealthy_def)
  show ?thesis
    unfolding after_removal_def
    by (intro eqA_bind eqA_updA eqA_eachA fold_fanout_eq [OF assms] forget_role_eq [OF assms] fin few
        eqA_refl ok_intros few.fold_fanout_keeps [OF ok] few.ok_forget_role [OF ok])
qed

lemma interrupt_session_connections:
  "rs_connections (snd (interrupt_sessionA ev a cr ses g reason s)) = rs_connections s"
  by (simp add: interrupt_sessionA_def bindA_def tickA_def storeA_def Let_def split: sum.split prod.split)

lemma interrupt_role_connections:
  "rs_connections (snd (interrupt_role ev role g reason s)) = rs_connections s"
  by (auto simp: interrupt_role_def retA_def errA_def case_prod_beta interrupt_session_connections
      split: option.splits connection_role.splits)

lemma disconnect_body_eq:
  assumes "dc_eq n dc dc'" and "dc_few dc"
  shows "dc_eq (Suc n) (disconnect_body ev dc) (disconnect_body ev dc')"
  unfolding dc_eq_def eqA_def
proof (intro allI impI)
  fix c g reason and s :: router_state
  assume small: "length (rs_connections s) \<le> Suc n"
  show "disconnect_body ev dc c g reason s = disconnect_body ev dc' c g reason s"
  proof (cases "connection s c")
    case (Some k)
    let ?first = "interrupt_role ev (cn_role k) g reason"
    let ?family = "connection_family s c"
    have "length (rs_connections (drop_bucket i (remove_family ?family (snd (?first s))))) \<le> n" for i
      using remove_family_fewer [of "snd (?first s)" c k ?family] Some small self_in_family [of c s]
      by (simp add: connection_def interrupt_role_connections)
    note eq = eqAD [OF after_removal_eq [OF assms] this]
    show ?thesis
    proof (cases "?first s")
      case (Pair r s1)
      then show ?thesis
        using eq Some by (cases r) (auto simp: disconnect_body_def bindA_def updA_def Let_def)
    qed
  qed (simp add: disconnect_body_def)
qed

lemma dc_few_n: "dc_few (disconnect_n ev n)"
  by (simp add: dc_few_def few.dc_ok_n)

lemma disconnect_n_enough: "m \<ge> n \<Longrightarrow> dc_eq n (disconnect_n ev m) (disconnect_n ev n)"
proof (induction n arbitrary: m)
  case 0
  show ?case
    by (cases m) (auto simp: dc_eq_def eqA_def disconnect_body_def connection_def)
next
  case (Suc n)
  then obtain j where "m = Suc j" "n \<le> j" by (cases m) auto
  with Suc.IH show ?case by (simp add: disconnect_body_eq [OF _ dc_few_n])
qed

lemma disconnect_enough:
  assumes "length (rs_connections s) \<le> n"
  shows "disconnect_n ev n c g reason s = disconnect_with_reason ev c g reason s"
  using disconnect_n_enough [OF assms, of ev]
  by (simp add: dc_eq_def eqA_def disconnect_with_reason_def)

lemma dc_few_disconnect: "dc_few (disconnect_with_reason ev)"
  by (simp add: dc_few_def few.dc_ok_disconnect)

lemma disconnect_recursion:
  "disconnect_with_reason ev c g reason s =
     disconnect_body ev (disconnect_with_reason ev) c g reason s"
proof -
  let ?n = "length (rs_connections s)"
  have "dc_eq ?n (disconnect_with_reason ev) (disconnect_n ev ?n)"
    by (simp add: dc_eq_def eqA_def disconnect_enough)
  then have "dc_eq (Suc ?n) (disconnect_body ev (disconnect_with_reason ev)) (disconnect_n ev (Suc ?n))"
    by (simp add: disconnect_body_eq [OF _ dc_few_disconnect])
  then show ?thesis
    using disconnect_enough [of s "Suc ?n"] by (simp add: dc_eq_def eqA_def)
qed

end
