(* ===== verification/Router_Gone.thy ===== *)
theory Router_Gone
  imports Router_Books Router_Fuel
begin

text \<open>
  What ending requests and disconnecting leave behind. A third interpretation of \<open>core_inv\<close>: none of
  them adds a pending request, a connection or a running attempt. So a request that was ended stays
  ended while its end is announced, and after a disconnect nothing refers to the connection.
\<close>

section \<open>Nothing is added\<close>

definition within ::
  "(request_key \<times> pending_request) set \<Rightarrow> uuid set \<Rightarrow> attempt_row set \<Rightarrow> router_state \<Rightarrow> bool" where
  "within P C A s \<longleftrightarrow> set (rs_pending s) \<subseteq> P \<and> fst ` set (rs_connections s) \<subseteq> C \<and>
     full_inv (rs_store s) \<and> (\<forall>a\<in>set (attempts (rs_store s)). is_running a \<longrightarrow> a \<in> A)"

lemma within_store:
  assumes "within P C A s" and "store_step\<^sup>*\<^sup>* (rs_store s) d" and "quieter (rs_store s) d"
  shows "within P C A (s\<lparr>rs_store := d\<rparr>)"
  using assms(1,3) full_inv_run [OF assms(2)] by (auto simp: within_def quieter_def)

lemma within_less:
  "within P C A s \<Longrightarrow> set (rs_pending s') \<subseteq> set (rs_pending s) \<Longrightarrow>
     fst ` set (rs_connections s') \<subseteq> fst ` set (rs_connections s) \<Longrightarrow> rs_store s' = rs_store s \<Longrightarrow>
     within P C A s'"
  by (simp add: within_def) blast

lemma within_self: "full_inv (rs_store s) \<Longrightarrow>
    within (set (rs_pending s)) (fst ` set (rs_connections s)) {a \<in> set (attempts (rs_store s)). is_running a} s"
  by (simp add: within_def)

lemma quieter_same: "attempts d' = attempts d \<Longrightarrow> quieter d d'"
  by (simp add: quieter_def)

lemma append_event_quieter: "append_event clock i d = Inr (d', e) \<Longrightarrow> quieter d d'"
  by (auto simp: append_event_def result_simps append_event_fields intro: quieter_same)

lemma quieter_trans: "quieter d d1 \<Longrightarrow> quieter d1 d2 \<Longrightarrow> quieter d d2"
  by (auto simp: quieter_def)

lemma interrupted_quieter: "interrupted_to aid d d1 \<Longrightarrow> full_inv d \<Longrightarrow> quieter d d1"
  by (cases aid) (auto simp: full_inv_def intro: quieter_same interrupt_attempt_quieter)

lemma full_inv_within: "within P C A s \<Longrightarrow> full_inv (rs_store s)"
  by (simp add: within_def)

lemma set_delete: "set (AList.delete k ps) \<subseteq> set ps"
  by (auto simp: AList.delete_eq)

lemma within_settled:
  assumes "within P C A s" and "interrupted_to aid (rs_store s) da"
    and "append_event clock i da = Inr (db, e)"
  shows "within P C A (s\<lparr>rs_pending := AList.delete key (rs_pending s), rs_store := db\<rparr>)"
proof -
  have "store_step\<^sup>*\<^sup>* (rs_store s) db"
    using interrupted_run [OF assms(2)] store_step.event [OF assms(3)] by (rule rtranclp.rtrancl_into_rtrancl)
  moreover have "quieter (rs_store s) db"
    using interrupted_quieter [OF assms(2) full_inv_within [OF assms(1)]] append_event_quieter [OF assms(3)]
    by (rule quieter_trans)
  ultimately have "within P C A (s\<lparr>rs_store := db\<rparr>)" by (rule within_store [OF assms(1)])
  then show ?thesis by (rule within_less) (simp_all add: set_delete)
qed

interpretation within: core_inv ev "within P C A" for ev P C A
proof unfold_locales
  fix s clocks a cr ses g reason da evs
  assume w: "within P C A s"
    and run: "interrupt_session_attempts clocks a cr ses g reason (rs_store s) = Inr (da, evs)"
  have "quieter (rs_store s) da"
    using interrupt_each_quiet [of clocks reason "session_attempts (rs_store s) a cr ses g" "rs_store s" da evs]
      run w by (simp add: interrupt_session_attempts_def full_inv_def within_def)
  then show "within P C A (s\<lparr>rs_store := da\<rparr>)"
    by (rule within_store [OF w quiet_run [OF quiet_session [OF run]]])
next
  fix s clock ws a da e
  assume w: "within P C A s" and run: "append_event clock (member_insert ws KMemberLeft a) (rs_store s) = Inr (da, e)"
  then show "within P C A (s\<lparr>rs_store := da\<rparr>)"
    by (intro within_store r_into_rtranclp [of store_step] store_step.event append_event_quieter)
next
  fix s ws rid p q da clock actor content ok err db e
  assume "within P C A s" and "interrupted_to (pd_attempt_id p) (rs_store s) da"
    and "append_event clock (result_insert ws actor q p content ok err) da = Inr (db, e)"
  then show "within P C A (s\<lparr>rs_pending := AList.delete (ws, rid) (rs_pending s), rs_store := db\<rparr>)"
    by (rule within_settled)
next
  fix s ws rid p q reason actor content ok err x s'
  assume w: "within P C A s"
    and fail: "settle_request ev (ws, rid) p reason (result_insert ws actor q p content ok err) s = (Inl x, s')"
  from fail obtain da t where
    s': "s' = s\<lparr>rs_pending := AList.delete (ws, rid) (rs_pending s), rs_store := da, rs_tick := t\<rparr>"
    and da: "da = rs_store s \<or> interrupted_to (pd_attempt_id p) (rs_store s) da"
    by (rule settle_request_failed)
  have "within P C A (s\<lparr>rs_store := da\<rparr>)"
    using da within_store [OF w interrupted_run] interrupted_quieter full_inv_within [OF w] w by auto
  then have "within P C A s'" by (rule within_less) (simp_all add: s' set_delete)
  moreover from this have "within P C A (unhealthy s')" by (rule within_less) (simp_all add: unhealthy_def)
  ultimately show "settledA store_fatal (within P C A) (Inl x :: store_error + unit, s')" by simp
next
  fix s c w assume "within P C A s"
  then show "within P C A (modify_connection c (mark_canceling w) s)"
    by (rule within_less) (auto simp: modify_connection_def map_entry_keys [THEN arg_cong [of _ _ set], simplified])
next
  fix s family assume "within P C A s"
  then show "within P C A (remove_family family s)"
    by (rule within_less) (auto simp: remove_family_def)
qed (simp_all add: within_def unhealthy_def)

section \<open>A request that was ended\<close>

lemma finish_removes:
  assumes inv: "full_inv (rs_store s)"
    and run: "finish_pending_error_with ev (disconnect_with_reason ev) ws rid code s = (r, s')"
  shows "(ws, rid) \<notin> fst ` set (rs_pending s')"
proof (cases "map_of (rs_pending s) (ws, rid)")
  case None
  with run show ?thesis by (auto simp: finish_pending_error_with_def map_of_eq_None_iff)
next
  case (Some p)
  let ?settle = "settle_request ev (ws, rid) p (terminal_pause_reason code)
    (result_insert ws SYSTEM_ROUTER rid p None False (Some code))"
  from run Some have run': "bindA ?settle (announce_result ev (disconnect_with_reason ev) ws rid code p) s = (r, s')"
    by (simp add: finish_pending_error_with_def)
  let ?P = "set (AList.delete (ws, rid) (rs_pending s))"
  have gone: "(ws, rid) \<notin> fst ` ?P" by (simp add: pending_keys_delete)
  show ?thesis
  proof (rule settle_request_cases [of ev "(ws, rid)" p "terminal_pause_reason code"
        "result_insert ws SYSTEM_ROUTER rid p None False (Some code)" s])
    fix e t da
    assume "?settle s = (Inl e, s\<lparr>rs_pending := AList.delete (ws, rid) (rs_pending s), rs_store := da, rs_tick := t\<rparr>)"
    with run' gone show ?thesis by (auto simp: bindA_def)
  next
    fix x t da db clock e
    let ?s1 = "s\<lparr>rs_pending := AList.delete (ws, rid) (rs_pending s), rs_store := db, rs_tick := t\<rparr>"
    assume step: "?settle s = (Inr x, ?s1)"
      and int: "interrupted_to (pd_attempt_id p) (rs_store s) da"
      and app: "append_event clock (result_insert ws SYSTEM_ROUTER rid p None False (Some code)) da = Inr (db, e)"
    have "full_inv db"
      using full_inv_within [OF within_settled [OF within_self [OF inv] int app]] by simp
    then have "within ?P (fst ` set (rs_connections s)) {a \<in> set (attempts db). is_running a} ?s1"
      by (simp add: within_def)
    then have "settledA (\<lambda>_. False) (within ?P (fst ` set (rs_connections s)) {a \<in> set (attempts db). is_running a})
        (announce_result ev (disconnect_with_reason ev) ws rid code p x ?s1)"
      by (rule okAD [OF within.ok_announce [OF within.dc_ok_disconnect]])
    with run' step have "set (rs_pending s') \<subseteq> ?P"
      by (cases r) (auto simp: bindA_def within_def)
    with gone show ?thesis by auto
  qed
qed

lemma within_finish:
  assumes "within P C A s"
    and "finish_pending_error_with ev (disconnect_with_reason ev) ws rid code s = (r, s')"
  shows "within P C A s'"
proof -
  have "settledA store_fatal (within P C A) (r, s')"
    unfolding assms(2) [symmetric]
    by (rule okAD [OF within.ok_finish_with [OF within.dc_ok_disconnect] assms(1)])
  then have "within P C A s' \<or> within P C A (unhealthy s')" by (cases r) (auto split: if_splits)
  then show ?thesis by (auto simp: within_def unhealthy_def)
qed

text \<open>Ending a list of requests ends each of them.\<close>

lemma finish_each_removes:
  assumes "within P C A s"
    and "eachA (\<lambda>(ws, rid, code). errA f (finish_pending_error_with ev (disconnect_with_reason ev) ws rid code)) ks s
      = (Inr u, s')"
  shows "within P C A s' \<and> set (rs_pending s') \<subseteq> set (rs_pending s) \<and>
    (\<forall>(ws, rid, code)\<in>set ks. (ws, rid) \<notin> fst ` set (rs_pending s'))"
  using assms
proof (induction ks arbitrary: s)
  case Nil
  then show ?case by (simp add: retA_def)
next
  case (Cons k ks)
  obtain ws rid code where k: "k = (ws, rid, code)" by (cases k)
  let ?fin = "finish_pending_error_with ev (disconnect_with_reason ev) ws rid code"
  obtain r s1 where fin: "?fin s = (r, s1)" by fastforce
  with Cons.prems(2) k have rest: "eachA (\<lambda>(ws, rid, code).
      errA f (finish_pending_error_with ev (disconnect_with_reason ev) ws rid code)) ks s1 = (Inr u, s')"
    by (cases r) (auto simp: bindA_def errA_def map_err_def)
  have w1: "within P C A s1" by (rule within_finish [OF Cons.prems(1) fin])
  have "within (set (rs_pending s)) (fst ` set (rs_connections s))
      {a \<in> set (attempts (rs_store s)). is_running a} s1"
    by (rule within_finish [OF within_self [OF full_inv_within [OF Cons.prems(1)]] fin])
  then have "set (rs_pending s1) \<subseteq> set (rs_pending s)" by (simp add: within_def)
  with Cons.IH [OF w1 rest] finish_removes [OF full_inv_within [OF Cons.prems(1)] fin] show ?case
    by (auto simp: k)
qed

section \<open>A connection that is gone\<close>

lemma interrupt_role_within:
  assumes "within P C A s" and run: "interrupt_role ev role g reason s = (Inr evs, s1)"
  shows "rs_pending s1 = rs_pending s" "rs_connections s1 = rs_connections s" "within P C A s1"
    "role = Some (AgentRole claims d token) \<Longrightarrow> \<forall>a\<in>set (attempts (rs_store s1)).
       a_agent_id a = ad_agent_id d \<and> a_credential_id a = pc_id claims \<and>
       a_session_id a = ad_session_id d \<and> a_connection_generation a = g \<longrightarrow> \<not> is_running a"
proof -
  have "settledA (\<lambda>_. True) (within P C A) (interrupt_role ev role g reason s)"
    by (rule okAD [OF within.ok_interrupt_role assms(1)])
  with run show "within P C A s1" by simp
  show "rs_pending s1 = rs_pending s" "rs_connections s1 = rs_connections s"
    using run
    by (auto simp: interrupt_role_def errA_def interrupt_sessionA_def Let_def bindA_def tickA_def storeA_def
        retA_def map_err_def split: option.splits connection_role.splits sum.splits prod.splits)
  assume role: "role = Some (AgentRole claims d token)"
  from run role obtain clocks evs1 where
    "interrupt_session_attempts clocks (ad_agent_id d) (pc_id claims) (ad_session_id d) g reason (rs_store s) =
      Inr (rs_store s1, evs1)"
    by (auto simp: interrupt_role_def errA_def interrupt_sessionA_def Let_def bindA_def tickA_def storeA_def
        map_err_def split: sum.splits prod.splits)
  from interrupt_session_quiet [OF this] assms(1) show "\<forall>a\<in>set (attempts (rs_store s1)).
       a_agent_id a = ad_agent_id d \<and> a_credential_id a = pc_id claims \<and>
       a_session_id a = ad_session_id d \<and> a_connection_generation a = g \<longrightarrow> \<not> is_running a"
    by (auto simp: within_def full_inv_def)
qed

lemma after_removal_ends:
  assumes keyed: "well_keyed ps" and w: "within (set ps) C A s"
    and run: "after_removal ev (disconnect_with_reason ev) c k actor family evs s = (Inr u, s')"
  shows "within (set ps) C A s' \<and> (\<forall>(key, p)\<in>set (rs_pending s'). \<not> involves family p)"
proof -
  let ?dc = "disconnect_with_reason ev"
  let ?s1 = "fold (fanout_with ev ?dc) evs s"
  have w1: "within (set ps) C A ?s1" by (rule within.fold_fanout_keeps [OF within.dc_ok_disconnect w])
  obtain r s2 where forget: "forget_role ev ?dc c k actor ?s1 = (r :: runtime_error + unit, s2)" by fastforce
  with run obtain v where r: "r = Inr v" by (cases r) (auto simp: after_removal_def bindA_def updA_def)
  have "settledA (\<lambda>_. True) (within (set ps) C A) (forget_role ev ?dc c k actor ?s1 :: (runtime_error + unit) \<times> router_state)"
    by (rule okAD [OF within.ok_forget_role [OF within.dc_ok_disconnect] w1])
  with forget r have w2: "within (set ps) C A s2" by simp
  from run forget r have each: "eachA (\<lambda>(ws, rid, code).
      errA RtStore (finish_pending_error_with ev ?dc ws rid code)) (affected_pending family s2) s2 = (Inr u, s')"
    by (simp add: after_removal_def bindA_def updA_def readA_def)
  note fin = finish_each_removes [OF w2 each]
  have "\<not> involves family p" if p: "(key, p) \<in> set (rs_pending s')" for key p
  proof
    assume inv: "involves family p"
    from p fin have in2: "(key, p) \<in> set (rs_pending s2)" by auto
    with w2 keyed have key: "key = (pd_workspace p, pd_request_id p)" by (fastforce simp: within_def well_keyed_def)
    from inv in2 have "\<exists>code. (pd_workspace p, pd_request_id p, code) \<in> set (affected_pending family s2)"
      by (force simp: affected_pending_def involves_def)
    with fin p show False by (force simp: key)
  qed
  with fin show ?thesis by blast
qed

lemma disconnect_leaves_nothing:
  assumes inv: "full_inv (rs_store s)" and keyed: "well_keyed (rs_pending s)"
    and k: "connection s c = Some k" and g: "cn_generation k = g"
    and run: "disconnect_with_reason ev c g reason s = (Inr u, s')"
  shows "\<forall>x\<in>set (connection_family s c). connection s' x = None"
    and "\<forall>(key, p)\<in>set (rs_pending s'). \<not> involves (connection_family s c) p"
    and "cn_role k = Some (AgentRole claims d token) \<Longrightarrow> \<forall>a\<in>set (attempts (rs_store s')).
       a_agent_id a = ad_agent_id d \<and> a_credential_id a = pc_id claims \<and>
       a_session_id a = ad_session_id d \<and> a_connection_generation a = g \<longrightarrow> \<not> is_running a"
proof -
  let ?dc = "disconnect_with_reason ev" and ?family = "connection_family s c"
  let ?actor = "case actor_id s c of Inl _ \<Rightarrow> None | Inr a \<Rightarrow> Some a"
  from run k g have body: "bindA (interrupt_role ev (cn_role k) g reason) (\<lambda>interrupted.
      bindA (updA (remove_family ?family)) (\<lambda>_. bindA (updA (drop_bucket (connection_credential_id s c))) (\<lambda>_.
      after_removal ev ?dc c k ?actor ?family interrupted))) s = (Inr u, s')"
    by (simp add: disconnect_recursion disconnect_body_def Let_def)
  obtain r s1 where r: "interrupt_role ev (cn_role k) g reason s = (r, s1)" by fastforce
  with body obtain evs where evs: "r = Inr evs" by (cases r) (auto simp: bindA_def)
  note first = interrupt_role_within [OF within_self [OF inv] r [unfolded evs]]
  let ?s2 = "drop_bucket (connection_credential_id s c) (remove_family ?family s1)"
  let ?C = "- set ?family" and ?A = "{a \<in> set (attempts (rs_store s1)). is_running a}"
  have fields: "rs_pending ?s2 = rs_pending s" "rs_store ?s2 = rs_store s1"
    "fst ` set (rs_connections ?s2) \<subseteq> ?C"
    using first(1) by (auto simp: drop_bucket_def remove_family_def split: option.split)
  have w2: "within (set (rs_pending s)) ?C ?A ?s2"
    using fields full_inv_within [OF first(3)] by (simp add: within_def)
  have rest: "after_removal ev ?dc c k ?actor ?family evs ?s2 = (Inr u, s')"
    using body r evs by (simp add: bindA_def updA_def)
  note fin = after_removal_ends [OF keyed w2 rest]
  then show "\<forall>x\<in>set ?family. connection s' x = None"
    by (force simp: within_def connection_def map_of_eq_None_iff)
  show "\<forall>(key, p)\<in>set (rs_pending s'). \<not> involves ?family p" using fin by blast
  assume role: "cn_role k = Some (AgentRole claims d token)"
  show "\<forall>a\<in>set (attempts (rs_store s')).
       a_agent_id a = ad_agent_id d \<and> a_credential_id a = pc_id claims \<and>
       a_session_id a = ad_session_id d \<and> a_connection_generation a = g \<longrightarrow> \<not> is_running a"
    using fin first(4) [OF role] by (auto simp: within_def)
qed

section \<open>Deadlines\<close>

lemma finish_all_each:
  "finish_all ev code keys = eachA (\<lambda>(ws, rid, c).
     errA RtStore (finish_pending_error_with ev (disconnect_with_reason ev) ws rid c))
     (map (\<lambda>(ws, rid). (ws, rid, code)) keys)"
  by (induction keys) (auto simp: finish_all_def finish_pending_error_def)

lemma finish_all_ends:
  assumes "full_inv (rs_store s)" and "finish_all ev code keys s = (Inr u, s')"
  shows "set (rs_pending s') \<subseteq> set (rs_pending s) \<and> (\<forall>k\<in>set keys. k \<notin> fst ` set (rs_pending s'))"
  using finish_each_removes [OF within_self [OF assms(1)] assms(2) [unfolded finish_all_each]] by force

lemma expired_ended:
  assumes inv: "full_inv (rs_store s)" and keyed: "well_keyed (rs_pending s)"
    and run: "expire_deadlines ev s = (Inr u, s')" and p: "(key, p) \<in> set (rs_pending s')"
  shows "(key, p) \<in> set (rs_pending s) \<and> re_instant ev (rs_tick s) < pd_deadline p"
proof -
  let ?now = "re_instant ev (rs_tick s)" and ?s1 = "s\<lparr>rs_tick := rs_tick s + 1\<rparr>"
  let ?keys = "map (\<lambda>(_, p). (pd_workspace p, pd_request_id p)) (filter (\<lambda>(_, p). pd_deadline p \<le> ?now) (rs_pending s))"
  from run have all: "finish_all ev RequestTimeout ?keys ?s1 = (Inr u, s')"
    by (simp add: expire_deadlines_def bindA_def tickA_def readA_def)
  have "full_inv (rs_store ?s1)" using inv by simp
  note ends = finish_all_ends [OF this all]
  from ends have sub: "set (rs_pending s') \<subseteq> set (rs_pending s)" by simp
  from ends have out: "\<forall>k\<in>set ?keys. k \<notin> fst ` set (rs_pending s')" by (rule conjunct2)
  from p sub have in0: "(key, p) \<in> set (rs_pending s)" by blast
  with keyed have key: "key = (pd_workspace p, pd_request_id p)" by (fastforce simp: well_keyed_def)
  have "\<not> pd_deadline p \<le> ?now"
  proof
    assume "pd_deadline p \<le> ?now"
    with in0 have "key \<in> set ?keys" by (force simp: key)
    with out p show False by (force simp: image_iff)
  qed
  with in0 show ?thesis by simp
qed

end
