(* ===== verification/Router_Guards.thy ===== *)
theory Router_Guards
  imports Router_Run Router_Gone
begin

text \<open>
  What the guards of the handlers refuse and what follows from a handler that succeeded.
\<close>

section \<open>Connections without a role\<close>

text \<open>A message to one connection, when it can be encoded, is written out or ends in a request to close the
  connection; nothing else happens.\<close>

definition answer_only :: "uuid \<Rightarrow> server_message \<Rightarrow> router_state \<Rightarrow> router_state \<Rightarrow> bool" where
  "answer_only c msg s s' \<longleftrightarrow>
     (\<exists>out. s' = s\<lparr>rs_out := rs_out s @ [out], rs_tick := rs_tick s + 1\<rparr> \<and>
        out \<in> {CloseOverloaded c, Frame c msg (is_registration_ack msg) (is_error_message msg)})"

lemma send_answer_only:
  assumes "re_json_len ev msg \<noteq> None" and "connection s c = Some k" and "cn_generation k = g"
  shows "answer_only c msg s (snd (send ev c g msg s))"
  using assms by (auto simp: answer_only_def send_def send_serialized_def ask_close_def)

lemma unregistered_values:
  assumes "connection s c = Some k" and "cn_role k = None" and "cn_workspace k = None"
  shows "role_of s c = None" "effective s c = c" "connection_credential_id s c = None"
    "current_workspace s c = Inl (actor_code WorkspaceRequired)" "claims_of s c = Inl (actor_code NotRegistered)"
    "Option.bind (connection s c) cn_workspace = None"
  using assms by (simp_all add: role_of_def effective_def effective_primary_def current_workspace_def
      claims_of_def connection_credential_id_def ok_or_def)

fun registers :: "client_message \<Rightarrow> bool" where
  "registers (MRegister _ _ _ _) \<longleftrightarrow> True"
| "registers (MRegisterDelegate _ _ _) \<longleftrightarrow> True"
| "registers (MRegisterOperator _ _) \<longleftrightarrow> True"
| "registers _ \<longleftrightarrow> False"

text \<open>Every handler but that of leaving refuses such a connection at its first guard.\<close>

lemma unregistered_refused:
  assumes k: "connection s c = Some k" "cn_role k = None" "cn_workspace k = None"
    and "\<not> registers m"
  shows "(\<exists>e. router_dispatch ev c g m s = (Inl (actor_code e), s) \<and> e \<noteq> StorageError) \<or>
    (\<exists>rid. m = MWorkspaceLeave rid \<and> router_dispatch ev c g m s = sendA ev c g (SWorkspaceLeft rid None) s)"
proof -
  note none = unregistered_values [OF k]
  have admin: "require_admin s c = Inl (actor_code PermissionDenied)"
    "require_operator s c = Inl (actor_code PermissionDenied)"
    "require_registered s c = Inl (actor_code NotRegistered)"
    "require_workspace_match s c w = Inl (actor_code WorkspaceRequired)"
    "authorize_workspace s c w = Inl (actor_code NotRegistered)" for w
    by (simp_all add: require_admin_def require_operator_def require_registered_def require_workspace_match_def
        authorize_workspace_def none guardR_def bindR_def)
  note handlers = ping_def set_readiness_def agents_list_def start_request_def finish_reply_def work_idle_def
    task_execution_stopped_def credential_issue_def credential_list_def credential_revoke_def invite_issue_def
    invite_revoke_def workspace_create_def workspace_list_def workspace_join_def workspace_leave_def
    workspace_post_def workspace_history_def workspace_subscribe_def workspace_unsubscribe_def
    task_list_def task_get_def task_history_def task_mutate_def task_request_def router_shutdown_def
    integration_list_def integration_check_def integration_reload_def router_external_status_def
    external_start_def external_resolve_def
  show ?thesis
    using assms(4)
    by (cases m) (auto simp: handlers bindA_def readA_def Let_def admin none k actor_code_def)
qed

lemma unregistered_answer:
  assumes k: "connection s c = Some k" "cn_role k = None" "cn_workspace k = None"
    and m: "\<not> registers m" and enc: "\<forall>msg. re_json_len ev msg \<noteq> None"
  shows "if cn_generation k = g
    then (\<exists>e. answer_only c (SError (request_id m) e None None None) s (handle_message ev c g m s)) \<or>
         (\<exists>rid. m = MWorkspaceLeave rid \<and> answer_only c (SWorkspaceLeft rid None) s (handle_message ev c g m s))
    else handle_message ev c g m s = s"
proof (cases "cn_generation k = g")
  case True
  have run: "handle_message ev c g m s = run_dispatch ev c g m s"
    by (simp add: handle_message_def k True unregistered_values [OF k])
  from unregistered_refused [OF k m, of ev g] show ?thesis
  proof (elim disjE exE conjE)
    fix e assume "router_dispatch ev c g m s = (Inl (actor_code e), s)" "e \<noteq> StorageError"
    then have "run_dispatch ev c g m s = snd (send ev c g (SError (request_id m) e None None None) s)"
      by (simp add: run_dispatch_def send_error_def actor_code_def)
    with run send_answer_only [OF enc [rule_format] k(1) True]
    have "answer_only c (SError (request_id m) e None None None) s (handle_message ev c g m s)" by simp
    with True show ?thesis by auto
  next
    fix rid assume "m = MWorkspaceLeave rid" "router_dispatch ev c g m s = sendA ev c g (SWorkspaceLeft rid None) s"
    then have "run_dispatch ev c g m s = snd (send ev c g (SWorkspaceLeft rid None) s)"
      by (simp add: run_dispatch_def sendA_def updA_def)
    with run send_answer_only [OF enc [rule_format] k(1) True]
    have "answer_only c (SWorkspaceLeft rid None) s (handle_message ev c g m s)" by simp
    with True \<open>m = MWorkspaceLeave rid\<close> show ?thesis by auto
  qed
qed (simp add: handle_message_def k)

section \<open>Replies\<close>

text \<open>What follows the settlement of a reply keeps every invariant of \<open>core_inv\<close> that busy flags leave alone.\<close>

context core_inv
begin

lemma complete_reply_keeps:
  assumes busy: "\<And>b s. I s \<Longrightarrow> I (set_busy c b s)"
    and run: "complete_reply ev c ws rid p ok content err s = (Inr u, s')"
    and settle: "settle_request ev (ws, rid) p (if ok then ReplyWithoutRelease else HostError)
      (result_insert ws (pd_recipient_id p) (pd_request_id p) p (reply_content ok content) ok (reply_error ok err)) s
      = (Inr x, s1)" and I: "I s1"
  shows "I s'"
proof -
  have settled: "errA actor_store (settle_request ev (ws, rid) p (if ok then ReplyWithoutRelease else HostError)
      (result_insert ws (pd_recipient_id p) (pd_request_id p) p (reply_content ok content) ok (reply_error ok err))) s
      = (Inr x, s1)"
    using settle by (simp add: errA_def map_err_def)
  have after: "settledA F I (f x s1) \<Longrightarrow> m s = (Inr x, s1) \<Longrightarrow> settledA F I (bindA m f s)" for F m f
    by (simp add: bindA_def)
  have "settledA (\<lambda>_. False) I (complete_reply ev c ws rid p ok content err s)"
    unfolding complete_reply_def
    by (rule after [rotated], rule settled, rule okAD [where I = I and s = s1, OF _ I])
      (intro ok_prod ok_bindA ok_updA ok_sendA ok_option ok_guardA ok_retA ok_errA [OF ok_notify] busy
        fanout_keeps fanout_opt_keeps sick; simp)
  with run show ?thesis by simp
qed

end

lemma within_busy: "within P C A s \<Longrightarrow> within P C A (set_busy c b s)"
  by (erule within_less)
    (auto simp: set_busy_def modify_connection_def Let_def map_entry_keys [THEN arg_cong [of _ _ set], simplified])

lemma finish_reply_done:
  assumes inv: "full_inv (rs_store s)" and run: "finish_reply ev c g rid ok content err s = (Inr u, s')"
  shows "\<exists>ws p. current_workspace s c = Inr ws \<and> map_of (rs_pending s) (ws, rid) = Some p \<and>
    pd_recipient p = c \<and> pd_recipient_generation p = g \<and> (ws, rid) \<notin> fst ` set (rs_pending s') \<and>
    (ws, pd_request_id p) \<in> set (results_logged (rs_store s'))"
proof -
  from run obtain ws p where ws: "current_workspace s c = Inr ws" "map_of (rs_pending s) (ws, rid) = Some p"
    "pd_recipient p = c" "pd_recipient_generation p = g"
    and reply: "complete_reply ev c ws rid p ok content err s = (Inr u, s')"
    by (auto simp: finish_reply_def split: sum.splits option.splits if_splits)
  let ?reason = "if ok then ReplyWithoutRelease else HostError"
  let ?result = "result_insert ws (pd_recipient_id p) (pd_request_id p) p (reply_content ok content) ok (reply_error ok err)"
  have "(ws, rid) \<notin> fst ` set (rs_pending s') \<and> (ws, pd_request_id p) \<in> set (results_logged (rs_store s'))"
  proof (rule settle_request_cases [of ev "(ws, rid)" p ?reason ?result s])
    fix e t da
    assume "settle_request ev (ws, rid) p ?reason ?result s =
      (Inl e, s\<lparr>rs_pending := AList.delete (ws, rid) (rs_pending s), rs_store := da, rs_tick := t\<rparr>)"
    with reply show ?thesis by (simp add: complete_reply_def bindA_def errA_def map_err_def)
  next
    fix x t da db clock e
    let ?s1 = "s\<lparr>rs_pending := AList.delete (ws, rid) (rs_pending s), rs_store := db, rs_tick := t\<rparr>"
    assume step: "settle_request ev (ws, rid) p ?reason ?result s = (Inr x, ?s1)"
      and int: "interrupted_to (pd_attempt_id p) (rs_store s) da" and app: "append_event clock ?result da = Inr (db, e)"
    let ?C = "fst ` set (rs_connections s)" and ?A = "{a \<in> set (attempts db). is_running a}"
    have full: "full_inv db" using full_inv_within [OF within_settled [OF within_self [OF inv] int app]] by simp
    have "within (set (AList.delete (ws, rid) (rs_pending s))) ?C ?A s'"
      by (rule within.complete_reply_keeps [OF within_busy reply step]) (use full in \<open>simp_all add: within_def\<close>)
    then have gone: "(ws, rid) \<notin> fst ` set (rs_pending s')"
      using pending_keys_delete [of "(ws, rid)" "rs_pending s"] by (auto simp: within_def)
    have "store_step\<^sup>*\<^sup>* db (rs_store s')"
      by (rule moves.complete_reply_keeps [OF _ reply step]) (simp_all add: set_busy_def modify_connection_def Let_def)
    then have "prefix (events db) (events (rs_store s'))" using store.run_ext full by (auto simp: appends_def)
    moreover have "(ws, pd_request_id p) \<in> set (results_logged db)"
      using app append_keys [of clock ?result da db e "pd_request_id p" KResult]
      by (auto simp: append_event_def result_simps result_insert_def)
    ultimately have "(ws, pd_request_id p) \<in> set (results_logged (rs_store s'))"
      by (auto simp: logged_key_iff prefix_def)
    with gone show ?thesis by blast
  qed
  with ws show ?thesis by blast
qed

section \<open>Task commands\<close>

lemma bindA_Inr:
  "bindA m f s = (Inr u, s') \<longleftrightarrow> (\<exists>x s1. m s = (Inr x, s1) \<and> f x s1 = (Inr u, s'))"
  by (auto simp: bindA_def split: prod.splits sum.splits)

lemma readA_Inr: "readA r s = (Inr x, s1) \<longleftrightarrow> r s = Inr x \<and> s1 = s"
  by (auto simp: readA_def)

lemma tickA_Inr: "tickA k r s = (Inr x, s1) \<longleftrightarrow> x = r (rs_tick s) \<and> s1 = s\<lparr>rs_tick := rs_tick s + k\<rparr>"
  by (auto simp: tickA_def)

lemma err_storeA_Inr:
  "errA g (storeA f) s = (Inr x, s1) \<longleftrightarrow> (\<exists>d. f (rs_store s) = Inr (d, x) \<and> s1 = s\<lparr>rs_store := d\<rparr>)"
  by (auto simp: errA_def storeA_def map_err_def split: sum.splits)

lemma task_mutate_applied:
  assumes "task_mutate ev c g rid ws cmd s = (Inr u, s')"
  shows "\<exists>caller d res. router_caller_context s c ws cmd = Inr caller \<and>
    apply_task (env_at ev (rs_tick s)) caller cmd (rs_store s) = Inr (d, res) \<and>
    require_workspace_match s c ws = Inr ()"
  using assms unfolding task_mutate_def bindA_Inr readA_Inr tickA_Inr err_storeA_Inr
  by (auto simp: require_workspace_match_def bindR_def split: sum.splits if_splits)

lemma caller_context_begin:
  assumes "router_caller_context s c ws cmd = Inr caller" and "begins cmd = Some (k, wr)"
  shows "cc_workspace caller = ws \<and>
    (\<exists>kn. connection s (effective s c) = Some kn \<and> cn_canceling kn = None) \<and>
    (cc_reservation caller \<noteq> None \<longrightarrow> (\<exists>p t. map_of (rs_pending s) (ws, wr) = Some p \<and>
       pd_recipient p = effective s c \<and> pd_task p = Some t \<and> dp_id t = k))"
  using assms
  by (auto simp: router_caller_context_def begin_free_def reservation_for_def result_simps
      split: option.splits if_splits)

end
