(* ===== verification/Router_Scenario.thy ===== *)
theory Router_Scenario
  imports Router_Guards External_Scenario
begin

text \<open>
  A concrete router for the witnesses: a workspace with an operator (connection 1), an agent that
  works on a request for task 1 (connection 2) and a connection that has not registered (3), with the
  bundles that evaluate the handlers on them.
\<close>

definition codecA :: codec where
  "codecA = \<lparr>b64_decode = (\<lambda>_. None), b64_encode = (\<lambda>s. s), sha256 = (\<lambda>_. 0), uuid_simple = (\<lambda>_. [])\<rparr>"

definition renv0 :: router_env where
  "renv0 = \<lparr>re_clock = (\<lambda>_. 1000), re_instant = (\<lambda>t. t), re_uuid = (\<lambda>_. 503), re_random = (\<lambda>_. None),
     re_permits = (\<lambda>_ _. True), re_channel = (\<lambda>_. True), re_json_len = (\<lambda>_. Some 10),
     re_budget_len = (\<lambda>_. Some 10), re_digest = (\<lambda>_. 9), re_body_len = (\<lambda>_. 100), re_codec = codecA,
     re_xcodec = codecX, re_file = (\<lambda>_ _. FileMissing), re_client = (\<lambda>_. Inr ())\<rparr>"

definition requestQ :: workspace_event where
  "requestQ = \<lparr>we_workspace = ws0, we_seq = 1, we_kind = KRequest, we_actor_id = ''operator:o'',
     we_created_at = 6, we_request_id = Some ''r'', we_target_id = Some ''a'', we_task_id = Some 1,
     we_content = Some (ContentText ''go''), we_ok = None, we_error = None\<rparr>"

definition dbQ :: db where
  "dbQ = db0\<lparr>workspaces := [\<lparr>w_name = ws0, w_created_at = 5, w_next_seq = 2, w_next_task_id = 2\<rparr>],
     events := [requestQ]\<rparr>"

definition claimsO :: public_claims where
  "claimsO = \<lparr>pc_version = 1, pc_id = 10, pc_role = RoleOperator, pc_subject = ''o'', pc_agent_side = None,
     pc_agent_client = None, pc_workspaces = [ws0]\<rparr>"

definition claimsA :: public_claims where
  "claimsA = \<lparr>pc_version = 1, pc_id = 11, pc_role = RoleAgent, pc_subject = ''a'', pc_agent_side = Some SideGeneric,
     pc_agent_client = Some ClientOmp, pc_workspaces = [ws0]\<rparr>"

definition descA :: agent_descriptor where
  "descA = \<lparr>ad_agent_id = ''a'', ad_side = SideGeneric, ad_client = ClientOmp, ad_activity = None,
     ad_status = Busy, ad_delivery_mode = Push, ad_ready = False, ad_session_id = 21\<rparr>"

definition connO :: connection_state where
  "connO = \<lparr>cn_generation = 1, cn_role = Some (OperatorRole claimsO False), cn_workspace = Some ws0,
     cn_subscribed = False, cn_stored_ready = False, cn_canceling = None\<rparr>"

definition connA :: connection_state where
  "connA = \<lparr>cn_generation = 7, cn_role = Some (AgentRole claimsA descA None), cn_workspace = Some ws0,
     cn_subscribed = False, cn_stored_ready = True, cn_canceling = None\<rparr>"

definition pendingQ :: pending_request where
  "pendingQ = \<lparr>pd_workspace = ws0, pd_request_id = ''r'', pd_requester = 1, pd_requester_generation = 1,
     pd_requester_id = ''operator:o'', pd_recipient = 2, pd_recipient_generation = 7,
     pd_recipient_id = ''a'', pd_deadline = 5000, pd_task = Some \<lparr>dp_id = 1, dp_expected_version = 2\<rparr>,
     pd_attempt_id = None\<rparr>"

definition registry0 :: integration_registry where
  "registry0 = \<lparr>ir_path = ''f'', ir_explicit = False, ir_invalid = False, ir_active = [((ws0, Github), activeX)]\<rparr>"

definition router0 :: router_state where
  "router0 = \<lparr>rs_store = dbQ,
     rs_connections = [(1, connO), (2, connA), (3, fresh_connection 4)],
     rs_primaries = [(''a'', 2)], rs_delegates = [], rs_pending = [((ws0, ''r''), pendingQ)],
     rs_buckets = [], rs_subscribers = [], rs_integrations = registry0, rs_client = True,
     rs_integration_requests = 0, rs_task_slots = [], rs_shutting_down = False, rs_healthy = True,
     rs_notified = False, rs_workers = [], rs_out = [], rs_tick = 0\<rparr>"

lemmas router_scenario = codecA_def renv0_def requestQ_def dbQ_def claimsO_def claimsA_def descA_def connO_def
  connA_def pendingQ_def router0_def fresh_connection_def

lemmas step_simps = bindA_def readA_def updA_def retA_def failA_def guardA_def callA_def errA_def tryA_def
  storeA_def tickA_def map_err_def

lemmas access_simps = connection_def role_of_def effective_def effective_primary_def delegates_of_def
  connection_family_def actor_id_def current_workspace_def require_workspace_match_def claims_of_def
  connection_credential_id_def agent_of_def

lemmas ending_simps = disconnect_recursion disconnect_body_def after_removal_def interrupt_role_def
  interrupt_sessionA_def interrupt_session_attempts_def session_attempts_def forget_role_def
  affected_pending_def remove_family_def drop_bucket_def finish_pending_error_def
  finish_pending_error_with_def settle_request_def interrupt_optA_def execution_attempt_opt_def
  appendA_def result_insert_def member_insert_def announce_result_def cancel_recipient_def can_cancel_def
  finish_all_def expire_deadlines_def append_event_def Let_def AList.delete_eq

lemmas send_simps = sendA_def send_def send_serialized_def is_registration_ack_def is_error_message_def
  U32_MAX_def fanout_def fanout_opt_def fanout_with_def fanout_opt_with_def

text \<open>A call that does not fail, split into result and state.\<close>

lemma ranA: "\<not> isl (fst r) \<Longrightarrow> r = (Inr (projr (fst r)), snd r)"
  by (cases r; cases "fst r") auto

lemma full_inv_dbQ: "full_inv dbQ"
  by (simp add: full_inv_def enroll_inv_def ext_inv_def operations_ok_def links_ok_def resolutions_ok_def
    inv_simps dbQ_def requestQ_def scenario check_simps)

lemma well_keyed_router0: "well_keyed (rs_pending router0)"
  by (simp add: well_keyed_def router0_def pendingQ_def)

lemma router0_store: "rs_store router0 = dbQ"
  by (simp add: router0_def)

lemma clocks_renv0: "positive_clocks renv0"
  by (simp add: positive_clocks_def renv0_def)

end
