(* ===== verification/Router_Slots.thy ===== *)
theory Router_Slots
  imports Router_Run
begin

text \<open>
  The books of the spawned tasks. The actor counts its integration requests and keeps a slot per task and
  provider; both are given back when a task reports. Two more interpretations of \<open>handler_inv\<close> show that
  nothing but the handlers of external operations touches them, and that count and slots are always those
  of the tasks that have not reported back.
\<close>

section \<open>The slots of the spawned tasks\<close>

fun worker_slot :: "worker \<Rightarrow> task_slot option" where
  "worker_slot (CheckWorker _ _ _ _ _ _) = None"
| "worker_slot (ExternalWorker _ p) =
     slot_of (po_workspace p) (eo_task_id (po_summary p)) (eo_provider (po_summary p))"
| "worker_slot (ResolutionWorker _ p _ _ _) = slot_of (pr_workspace p) (pr_task_id p) (pr_provider p)"

definition taken :: "worker list \<Rightarrow> task_slot list" where
  "taken ws = List.map_filter worker_slot ws"

definition fields :: "router_state \<Rightarrow> nat \<times> task_slot list \<times> worker list" where
  "fields s = (rs_integration_requests s, rs_task_slots s, rs_workers s)"

definition balanced :: "nat \<times> task_slot list \<times> worker list \<Rightarrow> bool" where
  "balanced x \<longleftrightarrow> (case x of (n, slots, ws) \<Rightarrow>
     n = length ws \<and> n \<le> INTEGRATION_REQUEST_LIMIT \<and> distinct slots \<and> mset slots = mset (taken ws))"

definition slots :: "router_state \<Rightarrow> bool" where
  "slots s \<longleftrightarrow> balanced (fields s)"

lemma settled_slots: "settledA F slots r \<longleftrightarrow> slots (snd r)"
  by (cases r; cases "fst r") (auto simp: settledA_def slots_def fields_def unhealthy_def split: sum.splits)

lemma slotsI: "fields s = x \<Longrightarrow> balanced x \<Longrightarrow> slots s"
  by (simp add: slots_def)

interpretation fields: handler_inv ev "\<lambda>s. fields s = x" for ev x
  by unfold_locales
    (auto simp: fields_def unhealthy_def modify_connection_def remove_family_def close_all_def
      elim!: settle_request_failed)

interpretation slots: handler_inv ev slots for ev
  by unfold_locales
    (auto simp: slots_def fields_def unhealthy_def modify_connection_def remove_family_def close_all_def
      elim!: settle_request_failed)

section \<open>Taking and giving back\<close>

lemma mset_removeAll_distinct: "distinct xs \<Longrightarrow> mset (removeAll k xs) = mset xs - {#k#}"
  by (induction xs) (auto simp: removeAll_id)

lemma drop_first_split:
  "x \<in> set xs \<Longrightarrow> P x \<Longrightarrow> \<exists>ys y zs. xs = ys @ y # zs \<and> P y \<and> drop_first P xs = ys @ zs"
proof (induction xs)
  case (Cons a xs)
  show ?case
  proof (cases "P a")
    case True
    then have "a # xs = [] @ a # xs \<and> P a \<and> drop_first P (a # xs) = [] @ xs" by simp
    then show ?thesis by blast
  next
    case False
    with Cons obtain ys y zs where "xs = ys @ y # zs \<and> P y \<and> drop_first P xs = ys @ zs" by auto
    with False have "a # xs = (a # ys) @ y # zs \<and> P y \<and> drop_first P (a # xs) = (a # ys) @ zs" by auto
    then show ?thesis by blast
  qed
qed simp

lemma taken_append: "taken (xs @ ys) = taken xs @ taken ys"
  by (simp add: taken_def map_filter_def)

lemma taken_Cons: "taken (w # ws) = (case worker_slot w of None \<Rightarrow> [] | Some k \<Rightarrow> [k]) @ taken ws"
  by (simp add: taken_def map_filter_def split: option.split)

text \<open>A reservation followed by a task with that slot keeps the balance; so does giving back what the
  first task that fits held.\<close>

lemma balanced_spawned:
  assumes "slots s" and "may_spawn (worker_slot w) s = Inr u"
    and "fields s' = fields (reserve (worker_slot w) s)"
  shows "slots (spawn w s')"
  using assms
  by (auto simp: slots_def fields_def balanced_def may_spawn_def result_simps reserve_def spawn_def taken_Cons
      split: option.splits)

lemma balanced_released:
  assumes "slots s" and "fields s' = fields (reserve slot s)" and "may_spawn slot s = Inr u"
  shows "slots (release slot s')"
  using assms
  by (auto simp: slots_def fields_def balanced_def may_spawn_def result_simps reserve_def release_def
      split: option.splits)

lemma balanced_reported:
  assumes "slots s" and "w \<in> set (rs_workers s)" and "P w" and same: "\<And>v. P v \<Longrightarrow> worker_slot v = slot"
  shows "slots (release slot (report_back P s))"
proof -
  from drop_first_split [of w "rs_workers s" P] assms(2,3) obtain ys y zs where
    y: "rs_workers s = ys @ y # zs" "P y" "drop_first P (rs_workers s) = ys @ zs" by blast
  have "mset (taken (rs_workers s)) = mset (taken (ys @ zs)) + mset (case slot of None \<Rightarrow> [] | Some k \<Rightarrow> [k])"
    by (simp add: y taken_append taken_Cons same [OF y(2)])
  with assms(1) y show ?thesis
    by (auto simp: slots_def fields_def balanced_def release_def report_back_def mset_removeAll_distinct
        distinct_removeAll split: option.splits)
qed

section \<open>Handlers\<close>

lemma reserve_rest [simp]: "rs_tick (reserve slot s) = rs_tick s" "rs_store (reserve slot s) = rs_store s"
  by (simp_all add: reserve_def)

lemma fields_send: "fields (snd (send ev c g m s)) = fields s"
  by (rule fields.send_keeps) simp

lemma fields_fanout: "fields (fanout ev e s) = fields s"
  by (rule fields.fanout_keeps) simp

lemma fields_fanout_opt: "fields (fanout_opt ev e s) = fields s"
  by (rule fields.fanout_opt_keeps) simp

lemmas fields_kept = fields_send fields_fanout fields_fanout_opt

lemma slots_fields: "slots s \<Longrightarrow> fields s' = fields s \<Longrightarrow> slots s'"
  by (simp add: slots_def)

lemma caller_workspace: "external_caller_context s c ws = Inr caller \<Longrightarrow> cc_workspace caller = ws"
  by (auto simp: external_caller_context_def result_simps split: prod.splits)

lemma plan_task: "plan_command v caller active command d = Inr (kind, task_id, version, payload) \<Longrightarrow>
    task_id = xc_task_id command"
proof (induction v caller active command d rule: plan_command.induct)
  case (3 v caller active op t version provider kind report_id d)
  then show ?case by (cases kind) (auto simp: plan_publish_def result_simps Let_def)
qed (auto simp: result_simps)

lemma prepared_slot:
  assumes "replay_external_operation (xv_codec v) d caller command = Inr None"
    and "prepare_external_operation v caller active command d = Inr (d', p)"
  shows "po_payload p \<noteq> None"
    and "worker_slot (ExternalWorker a p) = slot_of (cc_workspace caller) (xc_task_id command) (xc_provider command)"
  using assms
  by (auto simp: prepare_external_operation_def insert_prepared_def prepared_as_def new_summary_def result_simps
      Let_def dest!: plan_task split: prod.splits)

lemma prepared_resolution_slot:
  assumes "prepare_external_resolution v caller active op rrid outcome eid remark d = Inr (d', ResolutionVerify q)"
  shows "pr_workspace q = cc_workspace caller"
  using assms
  by (cases outcome)
    (auto simp: prepare_external_resolution_def start_resolution_def complete_not_applied_resolution_def
      result_simps Let_def split: option.splits prod.splits)


text \<open>The part of \<^verbatim>\<open>external_start\<close> after its checks.\<close>

lemma start_slots:
  assumes "slots s" and spawn: "may_spawn slot s = Inr u"
    and slot: "slot = slot_of (cc_workspace caller) (xc_task_id command) (xc_provider command)"
    and replay: "replay_external_operation (re_xcodec ev) (rs_store s) caller command = Inr None"
  shows "settledA F slots (bindA (updA (reserve slot)) (\<lambda>_.
         bindA (tickA 3 (xenv_at ev)) (\<lambda>v.
         bindA (attemptA (storeA (prepare_external_operation v caller active command))) (\<lambda>prepared.
         case prepared of
           Inl code \<Rightarrow> bindA (updA (release slot)) (\<lambda>_. failA (err code))
         | Inr p \<Rightarrow> start_worker ev c g rid ws active p))) s)"
proof (cases "prepare_external_operation (xenv_at ev (rs_tick s)) caller active command (rs_store s)")
  case (Inl code)
  have "slots (release slot ((reserve slot s)\<lparr>rs_tick := rs_tick s + 3\<rparr>))"
    by (rule balanced_released [OF assms(1) _ spawn]) (simp add: fields_def)
  from this slots.sick [OF this] Inl show ?thesis
    by (simp add: bindA_def updA_def tickA_def attemptA_def storeA_def failA_def)
next
  case (Inr r)
  obtain d p where r: "r = (d, p)" by fastforce
  have "replay_external_operation (xv_codec (xenv_at ev (rs_tick s))) (rs_store s) caller command = Inr None"
    using replay by (simp add: xenv_at_def)
  from prepared_slot(1) [OF this] prepared_slot(2) [OF this] Inr r have p: "po_payload p \<noteq> None"
    "worker_slot (ExternalWorker active p) = slot" by (auto simp: slot)
  let ?s = "(reserve slot s)\<lparr>rs_tick := rs_tick s + 3, rs_store := d\<rparr>"
  let ?t = "fanout_opt ev (po_event p) (snd (send ev c g (SExternalOperation rid ws (po_summary p)) ?s))"
  have "slots (spawn (ExternalWorker active p) ?t)"
    by (rule balanced_spawned [OF assms(1)]) (use spawn p in \<open>simp_all add: fields_kept\<close>, simp add: fields_def)
  with Inr r p show ?thesis
    by (auto simp: settled_slots bindA_def updA_def tickA_def attemptA_def storeA_def start_worker_def sendA_def)
qed

lemma external_start_slots:
  assumes "slots s"
  shows "settledA F slots (external_start ev c g rid ws command s)"
  unfolding external_start_def Let_def
  apply (rule slots.settled_readA [OF assms])+
  apply (split option.split, intro conjI impI allI)
   apply (rule slots.settled_readA [OF assms])+
   apply (rule start_slots [OF assms])
     apply (assumption | auto simp: result_simps dest!: caller_workspace)+
  apply (rule okAD [OF slots.ok_sendA assms])
  done

lemma settled_storeA:
  assumes "slots s" and "\<And>d x. op (rs_store s) = Inr (d, x) \<Longrightarrow> settledA F slots (f x (s\<lparr>rs_store := d\<rparr>))"
  shows "settledA F slots (bindA (errA h (storeA op)) f s)"
  using assms by (auto simp: bindA_def errA_def storeA_def map_err_def settled_slots split: sum.splits prod.splits)

lemma slots_ticked: "slots s \<Longrightarrow> slots (s\<lparr>rs_tick := t\<rparr>)" "slots s \<Longrightarrow> slots (s\<lparr>rs_store := d\<rparr>)"
  by (simp_all add: slots_def fields_def)

lemma external_resolve_slots:
  assumes "slots s"
  shows "settledA F slots (external_resolve ev c g rid ws op rrid outcome eid remark s)"
proof -
  let ?k = "\<lambda>active prepared. case prepared of
       ReplayResolution stored resolution \<Rightarrow> sendA ev c g (SExternalResolved rid ws stored resolution)
     | ResolutionCompleted completion \<Rightarrow> announce_resolution ev c g rid ws completion
     | ResolutionVerify p \<Rightarrow>
         bindA (readA (may_spawn (slot_of ws (pr_task_id p) (pr_provider p)))) (\<lambda>_.
         bindA (updA (reserve (slot_of ws (pr_task_id p) (pr_provider p)))) (\<lambda>_.
         updA (spawn (ResolutionWorker active p c g rid))))"
  have tail: "settledA F slots (?k active prepared t)"
    if "slots t" and "\<And>p. prepared = ResolutionVerify p \<Longrightarrow> pr_workspace p = ws" for prepared t active
  proof (cases prepared)
    case (ResolutionVerify p)
    let ?w = "ResolutionWorker active p c g rid"
    have w: "worker_slot ?w = slot_of ws (pr_task_id p) (pr_provider p)" using that(2) ResolutionVerify by simp
    have "slots (spawn ?w (reserve (worker_slot ?w) t))" if "may_spawn (worker_slot ?w) t = Inr u" for u
      by (rule balanced_spawned [OF \<open>slots t\<close> that refl])
    with w ResolutionVerify that(1) show ?thesis
      by (auto simp: settled_slots bindA_def readA_def updA_def split: sum.splits)
  qed (use that(1) in \<open>simp_all add: settled_slots announce_resolution_def bindA_def updA_def sendA_def
      slots_def fields_kept\<close>)
  show ?thesis
    unfolding external_resolve_def Let_def
    apply (rule slots.settled_readA [OF assms])+
    apply (unfold case_prod_beta)
    apply (rule slots.settled_readA [OF assms])+
    apply (rule slots.settled_tickA)
    apply (rule settled_storeA [OF slots_ticked(1) [OF assms]])
    apply (rule tail [OF slots_ticked(2) [OF slots_ticked(1) [OF assms]]])
    apply (auto dest: prepared_resolution_slot caller_workspace)
    done
qed

lemma integration_check_slots:
  assumes "slots s"
  shows "settledA F slots (integration_check ev c g rid ws prov s)"
proof -
  have "slots (spawn (CheckWorker active c g rid ws prov) (reserve None s))"
    if "rs_integration_requests s < INTEGRATION_REQUEST_LIMIT" for active
    using assms that by (auto simp: slots_def fields_def balanced_def reserve_def spawn_def taken_Cons)
  then show ?thesis
    unfolding integration_check_def
    by (intro slots.settled_readA [OF assms]) (auto simp: settled_slots bindA_def updA_def result_simps)
qed

lemma reload_slots: "okA F slots (reloadA ev)"
  by (auto simp: okA_def reloadA_def bindA_def tickA_def settled_slots slots_def fields_def
      split: sum.splits prod.splits)

lemma client_slots: "slots s \<Longrightarrow> slots (s\<lparr>rs_client := b\<rparr>)"
  by (simp add: slots_def fields_def)

lemma integration_reload_slots: "okA F slots (integration_reload ev c g rid)"
  unfolding integration_reload_def
  by (intro ok_bindA ok_if ok_updA ok_eachA ok_prod ok_errA [OF reload_slots [where F = "\<lambda>_. False"]]
      slots.ok_readA slots.ok_tickA slots.ok_sendA slots.fanout_keeps slots.sick client_slots; simp)

lemma dispatch_slots: "okA actor_fatal slots (router_dispatch ev c g m)"
proof (cases "is_external m")
  case True
  have "okA actor_fatal slots (integration_list ev c g rid ws)" for rid ws
    unfolding integration_list_def by (intro ok_intros slots.ok_readA slots.ok_sendA)
  moreover have "okA actor_fatal slots (router_external_status ev c g rid ws op)" for rid ws op
    unfolding router_external_status_def by (intro ok_intros slots.ok_readA slots.ok_sendA)
  ultimately show ?thesis
    using True external_start_slots external_resolve_slots integration_check_slots integration_reload_slots
    by (cases m) (auto simp: okA_def)
qed (rule slots.ok_dispatch)

section \<open>Reports\<close>

lemma fields_release: "fields s = fields s' \<Longrightarrow> fields (release slot s) = fields (release slot s')"
  by (cases slot) (simp_all add: fields_def release_def)

lemma sent_by_slot:
  "sent_by (CtlIntegrationCheckFinished c g rid ws prov result) w \<Longrightarrow> worker_slot w = None"
  "sent_by (CtlExternalFinished p r) w \<Longrightarrow>
     worker_slot w = slot_of (po_workspace p) (eo_task_id (po_summary p)) (eo_provider (po_summary p))"
  "sent_by (CtlResolutionFinished c g rid q x) w \<Longrightarrow>
     worker_slot w = slot_of (pr_workspace q) (pr_task_id q) (pr_provider q)"
  by (cases w; auto)+

text \<open>After giving back, the rest of a report leaves count and slots alone.\<close>

lemma okA_fields:
  assumes "\<And>x. okA (\<lambda>_. False) (\<lambda>s. fields s = x) m"
  shows "fields (snd (m s)) = fields s"
  using okAD [OF assms, of s "fields s"] by (cases "m s"; cases "fst (m s)") auto

lemma ok_send_error_fields: "okA F (\<lambda>s. fields s = x) (updA (send_error ev c g rid e))"
  by (rule ok_updA) (simp add: send_error_def fields_kept)

lemma ok_store_fields: "okA F (\<lambda>s. fields s = x) (storeA op)"
  by (auto simp: okA_def storeA_def fields_def unhealthy_def split: sum.splits prod.splits)

lemmas ok_fields = ok_bindA ok_prod ok_updA ok_retA ok_attemptA fields.ok_readA fields.ok_tickA fields.ok_sendA
  fields.fanout_keeps fields.fanout_opt_keeps ok_send_error_fields ok_store_fields fields.sick

lemma ok_sum: "(\<And>a. okA F I (f a)) \<Longrightarrow> (\<And>b. okA F I (h b)) \<Longrightarrow> okA F I (case x of Inl a \<Rightarrow> f a | Inr b \<Rightarrow> h b)"
  by (simp split: sum.split)

lemma updA_first: "snd (bindA (updA f) (\<lambda>_. m) s) = snd (m (f s))"
  by (simp add: bindA_def updA_def)

lemma check_finished_fields:
  "fields (snd (check_finished ev c g rid ws prov result s)) = fields (release None s)"
  unfolding check_finished_def updA_first
  by (rule okA_fields) (intro ok_fields ok_sum)

lemma external_gate_fields: "fields (snd (external_gate ev p s)) = fields s"
  unfolding external_gate_def
  by (rule okA_fields) (intro ok_fields ok_sum)

lemma external_finished_fields:
  "fields (snd (external_finished ev p result s)) =
     fields (release (slot_of (po_workspace p) (eo_task_id (po_summary p)) (eo_provider (po_summary p))) s)"
  unfolding external_finished_def updA_first release_external_reservation_def
  by (rule okA_fields) (intro ok_fields ok_sum ok_errA [OF ok_store_fields [where F = "\<lambda>_. False"]]; simp)

lemma resolution_finished_fields:
  "fields (snd (resolution_finished ev c g rid p result s)) =
     fields (release (slot_of (pr_workspace p) (pr_task_id p) (pr_provider p)) s)"
  unfolding resolution_finished_def updA_first release_resolution_reservation_def announce_resolution_def
  by (rule okA_fields) (intro ok_fields ok_sum)

lemma control_slots:
  assumes "slots s" and "from_worker ctl \<Longrightarrow> \<exists>w\<in>set (rs_workers s). sent_by ctl w"
  shows "settledA (\<lambda>_. True) slots (handle_control ev ctl s)"
proof (cases "from_worker ctl")
  case False
  then show ?thesis by (rule okAD [OF slots.ok_control assms(1)])
next
  case True
  with assms(2) obtain w where w: "w \<in> set (rs_workers s)" "sent_by ctl w" by blast
  have returned: "slots t" if "fields t = fields (release slot (report_back (sent_by ctl) s))"
    and "\<And>v. sent_by ctl v \<Longrightarrow> worker_slot v = slot" for t slot
    using balanced_reported [where P = "sent_by ctl", OF assms(1) w that(2)] that(1) by (simp add: slots_def)
  have last: "slots (snd (bindA m (\<lambda>x. retA (h x)) t)) \<longleftrightarrow> slots (snd (m t))" for m h t
    by (simp add: bindA_def retA_def split: prod.split sum.split)
  from True show ?thesis
  proof (cases ctl)
    case (CtlIntegrationCheckFinished c g rid ws prov result)
    then show ?thesis
      using returned [OF check_finished_fields] sent_by_slot(1)
      by (simp add: settled_slots updA_first last)
  next
    case (CtlExternalGate p)
    then show ?thesis
      using slots_fields [OF assms(1) external_gate_fields] by (simp add: settled_slots last)
  next
    case (CtlExternalFinished p result)
    then show ?thesis
      using returned [OF external_finished_fields] sent_by_slot(2)
      by (simp add: settled_slots updA_first last)
  next
    case (CtlResolutionFinished c g rid p result)
    then show ?thesis
      using returned [OF resolution_finished_fields [of ev c g rid p result]] sent_by_slot(3)
      by (simp add: settled_slots updA_first last)
  qed simp_all
qed

section \<open>Runs\<close>

lemma slots_start: "slots (start_state registry client d)"
  by (simp add: slots_def fields_def balanced_def start_state_def taken_def map_filter_def)

lemma slots_step:
  assumes "router_step ev s s'" and "slots s"
  shows "slots s'"
  using assms(1)
proof cases
  case (turn input t)
  have "slots (snd (actor_turn ev input s))"
    by (rule slots.actor_turn_keeps [OF assms(2) dispatch_slots control_slots [OF slots_ticked(1) [OF assms(2)]]])
      (use turn(2) in simp)
  with turn show ?thesis by simp
next
  case reorder
  then show ?thesis
    using assms(2) by (auto simp: reordered_def slots_def fields_def balanced_def) (metis mset_eq_imp_distinct_iff)
next
  case exit
  then show ?thesis
    using assms(2) by (auto simp: actor_exit_def close_all_def slots_def fields_def split: sum.split)
next
  case restart
  then show ?thesis by (simp add: slots_start)
qed

lemma slots_run: "(router_step ev)\<^sup>*\<^sup>* s s' \<Longrightarrow> slots s \<Longrightarrow> slots s'"
  by (induction rule: rtranclp_induct) (auto intro: slots_step)

end
