(* ===== verification/Router_Props.thy ===== *)
theory Router_Props
  imports Router_Scenario Router_Slots
begin

text \<open>
  The properties of the router actor: the life of a request across turns, crashes and restarts, the
  end of a connection, deadlines, who may do what, and the limits.
\<close>

section \<open>Requests\<close>

lemma first_turn:
  "router_step renv0 (start_state registry0 False (empty_db 7))
     (snd (actor_turn renv0 (InControl (CtlOpen 1 1)) (start_state registry0 False (empty_db 7))))"
  by (rule router_step.turn [OF surjective_pairing]) simp

text \<open>C4. Every request is accounted for. In every state of a run that starts with an empty store,
  takes any turns and restarts any number of times: no request id is used twice in a workspace, no
  request is answered twice and only requests are answered; what is pending was requested and not
  answered, and while the router is healthy every request without an answer is pending; there are
  never more than 256 pending requests.\<close>

theorem requests_accounted:
  assumes "positive_clocks ev" and "(router_step ev)\<^sup>*\<^sup>* (start_state registry client (empty_db server)) s"
  shows "distinct (requests_logged (rs_store s)) \<and> distinct (results_logged (rs_store s)) \<and>
    set (results_logged (rs_store s)) \<subseteq> set (requests_logged (rs_store s)) \<and>
    distinct (map fst (rs_pending s)) \<and> length (rs_pending s) \<le> 256 \<and>
    fst ` set (rs_pending s) \<subseteq> set (requests_logged (rs_store s)) - set (results_logged (rs_store s)) \<and>
    (rs_healthy s \<longrightarrow>
      set (requests_logged (rs_store s)) = fst ` set (rs_pending s) \<union> set (results_logged (rs_store s)))"
proof -
  have "books s" by (rule books_run [OF assms(2,1) books_empty crew_empty])
  then show ?thesis
    by (auto simp: books_def pending_keys_def well_keyed_def PENDING_REQUEST_LIMIT_def)
qed

theorem requests_accounted_witness:
  "length (rs_pending (snd (actor_turn renv0 (InControl (CtlOpen 1 1)) (start_state registry0 False (empty_db 7))))) \<le> 256"
  using requests_accounted [OF clocks_renv0 r_into_rtranclp [of "router_step renv0", OF first_turn]]
  by (elim conjE)

text \<open>C5. The router touches its store only through the operations of \<open>Store_Machine\<close>: whatever turns
  it takes, the store it holds is one that these operations reach from an empty store, so that all
  that is shown of reachable stores holds of it, and its log extends every earlier one.\<close>

theorem router_store_reachable:
  assumes "(router_step ev)\<^sup>*\<^sup>* (start_state registry client (empty_db server)) s"
    and "(router_step ev)\<^sup>*\<^sup>* s s'"
  shows "reachable (rs_store s') \<and> (\<exists>evs. events (rs_store s') = events (rs_store s) @ evs)"
proof -
  have run: "store_step\<^sup>*\<^sup>* (rs_store x) (rs_store y)" if "(router_step ev)\<^sup>*\<^sup>* x y" "crew x" for x y
    using that
    by (induction rule: rtranclp_induct) (auto intro: rtranclp_trans router_moves_store crew_run)
  note crew = crew_run [OF assms(1) crew_empty]
  have first: "store_step\<^sup>*\<^sup>* (empty_db server) (rs_store s)"
    using run [OF assms(1) crew_empty] by (simp add: start_state_def)
  have inv: "full_inv (rs_store s)" by (rule store.run_inv [OF first empty_db_inv])
  have "store_step\<^sup>*\<^sup>* (empty_db server) (rs_store s')" using first run [OF assms(2) crew] by (rule rtranclp_trans)
  with store.run_ext [OF run [OF assms(2) crew] inv] show ?thesis
    by (auto simp: reachable_def appends_def prefix_def)
qed

theorem router_store_reachable_witness:
  "reachable (rs_store (snd (actor_turn renv0 (InControl (CtlOpen 1 1)) (start_state registry0 False (empty_db 7)))))"
  using router_store_reachable [OF rtranclp.rtrancl_refl
      r_into_rtranclp [of "router_step renv0", OF first_turn]]
  by (elim conjE)

section \<open>Integration requests\<close>

text \<open>C19. The calls to the providers are accounted for. In every state of a run the counter of
  integration requests is the number of spawned tasks that have not reported back, at most four; the
  reserved slots are those of these tasks, each once: no two tasks work on the same task at the same
  provider, and no slot stays reserved after its task has reported, whatever the outcome.\<close>

theorem integration_requests_accounted:
  assumes "(router_step ev)\<^sup>*\<^sup>* (start_state registry client d) s"
  shows "rs_integration_requests s = length (rs_workers s) \<and> rs_integration_requests s \<le> 4 \<and>
    distinct (rs_task_slots s) \<and> mset (rs_task_slots s) = mset (List.map_filter worker_slot (rs_workers s))"
  using slots_run [OF assms slots_start]
  by (simp add: slots_def fields_def balanced_def taken_def INTEGRATION_REQUEST_LIMIT_def)

theorem integration_requests_accounted_witness:
  "rs_integration_requests (snd (actor_turn renv0 (InControl (CtlOpen 1 1)) (start_state registry0 False (empty_db 7)))) \<le> 4"
  using integration_requests_accounted [OF r_into_rtranclp [of "router_step renv0", OF first_turn]]
  by (elim conjE)

text \<open>A write that the provider carried out may still be refused by the store, for instance when the new
  issue was imported as a task of its own before the answer arrived. The operation then ends like one that
  was never sent: as failed, not as unconfirmed, and without the issue's id.\<close>

theorem applied_write_lost:
  assumes "po_payload p = Some (PayPublishIssue i title body marker)" and "eo_task_id (po_summary p) = Some k"
    and "l \<in> set (links (rs_store s))"
    and "l_external l = (eo_provider (po_summary p), po_namespace p, mu_external_id m)"
    and "0 \<le> re_clock ev (rs_tick s)"
    and "terminal_external_error (xenv_at ev (rs_tick s + 3)) p OpFailed (error_as_str StorageError) (rs_store s) = Inr r"
  shows "external_finished ev p (WorkerSuccess (WroteMutation m)) s =
    external_finished ev p (WorkerGateDenied StorageError) (s\<lparr>rs_tick := rs_tick s + 3\<rparr>)"
proof -
  have "complete_external_mutation (xenv_at ev (rs_tick s)) p m (rs_store s) = Inl StorageError"
    using assms(1-5)
    by (auto simp: complete_external_mutation_def storeR_def sqlR_def now_millis_def xenv_at_def insert_link_def new_link_def
        l_external_def exists_row_iff map_err_def)
  then show ?thesis
    using assms(6)
    by (simp add: external_finished_def bindA_def updA_def tickA_def readA_def attemptA_def storeA_def retA_def errA_def
        complete_external_def release_external_reservation_def release_def split: prod.split option.split)
qed

section \<open>The end of a connection\<close>

text \<open>C6. Disconnecting terminates. A subscriber that cannot take an event is disconnected, which ends
  its requests, which sends events to other subscribers, and so on; a depth of as many calls as there
  are connections is always enough, and with it the function satisfies the recursion of the code.\<close>

theorem disconnect_terminates:
  assumes "length (rs_connections s) \<le> n"
  shows "disconnect_n ev n c g reason s = disconnect_body ev (disconnect_with_reason ev) c g reason s"
  using disconnect_enough [OF assms] disconnect_recursion by metis

theorem disconnect_terminates_witness:
  "disconnect_n renv0 3 2 7 TransportLost router0 =
     disconnect_body renv0 (disconnect_with_reason renv0) 2 7 TransportLost router0"
  by (rule disconnect_terminates) (simp add: router0_def)

text \<open>C7. A disconnect that succeeds leaves nothing behind: the connection and its delegates are gone,
  no pending request has one of them as requester or recipient, and no attempt of the session runs.\<close>

theorem disconnect_complete:
  assumes "full_inv (rs_store s)" and "well_keyed (rs_pending s)"
    and "connection s c = Some k" and "cn_generation k = g"
    and "disconnect_with_reason ev c g reason s = (Inr u, s')"
  shows "(\<forall>x\<in>set (connection_family s c). connection s' x = None) \<and>
    (\<forall>(key, p)\<in>set (rs_pending s'). pd_requester p \<notin> set (connection_family s c) \<and>
       pd_recipient p \<notin> set (connection_family s c)) \<and>
    (\<forall>claims d token a. cn_role k = Some (AgentRole claims d token) \<longrightarrow> a \<in> set (attempts (rs_store s')) \<longrightarrow>
       a_agent_id a = ad_agent_id d \<longrightarrow> a_credential_id a = pc_id claims \<longrightarrow>
       a_session_id a = ad_session_id d \<longrightarrow> a_connection_generation a = g \<longrightarrow> a_status a \<noteq> Running)"
  using disconnect_leaves_nothing [OF assms] by (fastforce simp: involves_def is_running_def)

lemma disconnect_runs: "\<not> isl (fst (disconnect_with_reason renv0 2 7 TransportLost router0))"
  by (simp add: ending_simps step_simps access_simps send_simps router_scenario scenario check_simps
      statement_simps SYSTEM_ROUTER_def)

theorem disconnect_complete_witness:
  "connection (snd (disconnect_with_reason renv0 2 7 TransportLost router0)) 2 = None \<and>
   filter (\<lambda>(key, p). pd_recipient p = 2)
     (rs_pending (snd (disconnect_with_reason renv0 2 7 TransportLost router0))) = []"
proof -
  have "connection router0 2 = Some connA" "cn_generation connA = 7" "2 \<in> set (connection_family router0 2)"
    by (simp_all add: access_simps router0_def connA_def)
  with disconnect_complete [OF _ well_keyed_router0 _ _ ranA [OF disconnect_runs]] full_inv_dbQ
  show ?thesis by (fastforce simp: router0_store filter_empty_conv)
qed

section \<open>Deadlines\<close>

text \<open>C8. Deadlines are enforced: when the check of the deadlines succeeds, every request that is still
  pending was pending before and has its deadline after the clock that was read.\<close>

theorem deadlines_enforced:
  assumes "full_inv (rs_store s)" and "well_keyed (rs_pending s)"
    and "expire_deadlines ev s = (Inr u, s')"
  shows "\<forall>(key, p)\<in>set (rs_pending s'). (key, p) \<in> set (rs_pending s) \<and>
    re_instant ev (rs_tick s) < pd_deadline p"
  using expired_ended [OF assms] by blast

lemma expire_runs: "\<not> isl (fst (expire_deadlines renv0 (router0\<lparr>rs_tick := 6000\<rparr>)))"
  by (simp add: ending_simps step_simps access_simps send_simps router_scenario scenario check_simps
      statement_simps SYSTEM_ROUTER_def modify_connection_def)

theorem deadlines_enforced_witness:
  "filter (\<lambda>(key, p). pd_deadline p \<le> 6000)
     (rs_pending (snd (expire_deadlines renv0 (router0\<lparr>rs_tick := 6000\<rparr>)))) = []"
  using deadlines_enforced [OF _ _ ranA [OF expire_runs]] full_inv_dbQ well_keyed_router0
  by (fastforce simp: router0_store renv0_def filter_empty_conv)

section \<open>Who may do what\<close>

text \<open>C33. A connection that has not registered changes nothing. Whatever it sends, registrations apart, the
  router is left as it was but for one more output to that connection and the count of readings: an error, the
  answer that it left no workspace, or a request to close it because its channel is full; a message under
  an older generation of the connection gets nothing. The router's messages are supposed to be encodable.\<close>

theorem unregistered_harmless:
  assumes "connection s c = Some k" and "cn_role k = None" and "cn_workspace k = None"
    and "\<not> registers m" and "\<forall>msg. re_json_len ev msg \<noteq> None"
  shows "\<exists>outs. handle_message ev c g m s = s\<lparr>rs_out := rs_out s @ outs, rs_tick := rs_tick s + length outs\<rparr> \<and>
    (if cn_generation k \<noteq> g then outs = []
     else outs = [CloseOverloaded c] \<or>
       (\<exists>e. outs = [Frame c (SError (request_id m) e None None None) False True]) \<or>
       (\<exists>rid. m = MWorkspaceLeave rid \<and> outs = [Frame c (SWorkspaceLeft rid None) False False]))"
proof (cases "cn_generation k = g")
  case True
  have ack: "is_registration_ack (SError r e None None None) = False" "is_error_message (SError r e None None None)"
    "is_registration_ack (SWorkspaceLeft r2 None) = False" "is_error_message (SWorkspaceLeft r2 None) = False" for r r2 e
    by (simp_all add: is_registration_ack_def is_error_message_def)
  from unregistered_answer [OF assms, of g] True obtain msg out where
    "handle_message ev c g m s = s\<lparr>rs_out := rs_out s @ [out], rs_tick := rs_tick s + 1\<rparr>"
    "out \<in> {CloseOverloaded c, Frame c msg (is_registration_ack msg) (is_error_message msg)}"
    "(\<exists>e. msg = SError (request_id m) e None None None) \<or> (\<exists>rid. m = MWorkspaceLeave rid \<and> msg = SWorkspaceLeft rid None)"
    unfolding answer_only_def by auto
  with True show ?thesis by (intro exI [of _ "[out]"]) (auto simp: ack)
next
  case False
  with unregistered_answer [OF assms, of g] show ?thesis by (intro exI [of _ "[]"]) simp
qed

theorem unregistered_harmless_witness:
  "let s' = handle_message renv0 3 4 (MRouterShutdown ''q'') router0 in
   rs_store s' = dbQ \<and> \<not> rs_shutting_down s' \<and> rs_healthy s' \<and> length (rs_out s') = 1"
proof -
  have k: "connection router0 3 = Some (fresh_connection 4)" by (simp add: connection_def router0_def)
  have "\<exists>outs. handle_message renv0 3 4 (MRouterShutdown ''q'') router0 =
      router0\<lparr>rs_out := rs_out router0 @ outs, rs_tick := rs_tick router0 + length outs\<rparr> \<and> length outs = 1"
    using unregistered_harmless [OF k, of "MRouterShutdown ''q''" renv0 4]
    by (auto simp: fresh_connection_def renv0_def)
  then show ?thesis by (auto simp: Let_def router0_def)
qed

text \<open>C34. Only the administrator administers: issuing, listing and revoking credentials, issuing and
  revoking invites, creating workspaces, reloading the integrations and shutting down are refused to every connection that is not
  an administrating operator, which is answered \<^verbatim>\<open>permission_denied\<close> and nothing else.\<close>

theorem admin_only:
  assumes "\<forall>claims. role_of s c \<noteq> Some (OperatorRole claims True)"
    and "m \<in> {MCredentialIssue rid role subject side client grants, MCredentialList rid after limit,
      MCredentialRevoke rid i, MOnboardingInviteIssue rid ws create provider, MOnboardingInviteRevoke rid i,
      MWorkspaceCreate rid ws, MIntegrationReload rid, MRouterShutdown rid}"
  shows "run_dispatch ev c g m s =
    snd (send ev c g (SError (Some rid) PermissionDenied None None None) s)"
proof -
  have "require_admin s c = Inl (actor_code PermissionDenied)"
    using assms(1) by (auto simp: require_admin_def guardR_def split: option.splits connection_role.splits)
  then have "router_dispatch ev c g m s = (Inl (actor_code PermissionDenied), s)"
    using assms(2) by (auto simp: credential_issue_def credential_list_def credential_revoke_def
        invite_issue_def invite_revoke_def workspace_create_def router_shutdown_def integration_reload_def bindA_def readA_def)
  moreover have "request_id m = Some rid" using assms(2) by auto
  ultimately show ?thesis by (simp add: run_dispatch_def send_error_def actor_code_def Let_def)
qed

theorem admin_only_witness:
  "run_dispatch renv0 1 1 (MRouterShutdown ''q'') router0 =
     snd (send renv0 1 1 (SError (Some ''q'') PermissionDenied None None None) router0)"
  by (rule admin_only [where role = RoleAgent and subject = "[]" and side = None and client = None and
        grants = "[]" and after = None and limit = None and i = 0 and ws = "[]" and create = False and
        provider = None])
    (simp_all add: access_simps router0_def connO_def)

text \<open>C31. Work on a task begins only for a request: a begin that is carried out, and not replayed from
  its receipt, comes from the recipient of a pending request for this task, or one of its delegates,
  while the recipient is not finishing cancelled work; and the attempt is recorded under that request.\<close>

theorem begin_needs_request:
  assumes "mutation_receipt (rs_store s) ws op = None"
    and "task_mutate ev c g rid ws (CmdBegin op k wr v ck nt) s = (Inr u, s')"
  shows "\<exists>p t kn. map_of (rs_pending s) (ws, wr) = Some p \<and> pd_recipient p = effective s c \<and>
    pd_task p = Some t \<and> dp_id t = k \<and> connection s (effective s c) = Some kn \<and> cn_canceling kn = None"
proof -
  from task_mutate_applied [OF assms(2)] obtain caller d res where
    caller: "router_caller_context s c ws (CmdBegin op k wr v ck nt) = Inr caller"
    and run: "apply_task (env_at ev (rs_tick s)) caller (CmdBegin op k wr v ck nt) (rs_store s) = Inr (d, res)"
    by blast
  note ctx = caller_context_begin [OF caller, of k wr]
  with run assms(1) have "apply_begin (env_at ev (rs_tick s)) caller op k wr v ck nt
      (request_digest (env_at ev (rs_tick s)) (CmdBegin op k wr v ck nt)) (rs_store s) = Inr (d, res)"
    by (simp add: apply_task_fresh)
  from apply_begin_effect [OF this] ctx show ?thesis by auto
qed

definition callerQ :: caller_context where
  "callerQ = \<lparr>cc_actor_id = ''a'', cc_role = Agent, cc_workspace = ws0, cc_agent_id = Some ''a'',
     cc_credential_id = 11, cc_session_id = Some 21, cc_connection_generation = 7,
     cc_reservation = Some \<lparr>rf_work_request_id = ''r'', rf_task_id = 1\<rparr>\<rparr>"

lemma begin_applies: "\<not> isl (apply_task (env_at renv0 0) callerQ (CmdBegin 3 1 ''r'' 2 None ''s'') dbQ)"
  by (simp add: env_at_def callerQ_def router_scenario scenario check_simps statement_simps command_simps)

lemma begin_context: "router_caller_context router0 2 ws0 (CmdBegin 3 1 ''r'' 2 None ''s'') = Inr callerQ"
  by (simp add: router_caller_context_def caller_identity_def begin_free_def reservation_for_def access_simps
      router_scenario db0_def agent_execution_barriers_def agent_execution_fences_def fence_rows_def
      callerQ_def ok_or_def map_err_def)

lemma begin_turn_runs: "\<not> isl (fst (task_mutate renv0 2 7 ''q'' ws0 (CmdBegin 3 1 ''r'' 2 None ''s'') router0))"
proof -
  let ?c = "CmdBegin 3 1 ''r'' 2 None ''s''"
  obtain d res where run: "apply_task (env_at renv0 0) callerQ ?c dbQ = Inr (d, res)"
    using ran [OF begin_applies] by blast
  have "full_inv d" by (rule full_inv_run [OF r_into_rtranclp [of store_step, OF store_step.task [OF run]] full_inv_dbQ])
  then have fences: "\<exists>cp. agent_execution_fences d ag = Inr cp" for ag
    using fences_spec [of d ag] by (auto simp: full_inv_def)
  have here: "require_workspace_match router0 2 ws0 = Inr ()"
    by (simp add: access_simps router0_def connA_def ok_or_def)
  have store: "rs_store router0 = dbQ" "rs_tick router0 = 0" "rs_subscribers router0 = []" by (simp_all add: router0_def)
  have sent: "rs_store (snd (send renv0 c g m s)) = rs_store s \<and> rs_subscribers (snd (send renv0 c g m s)) = rs_subscribers s"
    for c g m s by (simp add: send_def send_serialized_def ask_close_def split: option.split)
  have quiet: "rs_subscribers s = [] \<Longrightarrow> fanout renv0 e s = s" for e s
    by (simp add: fanout_def fanout_with_def renv0_def)
  show ?thesis
    using fences
    by (auto simp: task_mutate_def begin_context here store run sent quiet interrupted_request_def set_attempt_def release_stopped_def
        step_simps sendA_def notify_task_attempt_changed_def Let_def modify_connection_def
        split: option.splits sum.splits prod.splits) (metis sum.distinct(1))+
qed

theorem begin_needs_request_witness:
  "map_option pd_recipient (map_of (rs_pending router0) (ws0, ''r'')) = Some (effective router0 2)"
  using begin_needs_request [OF _ ranA [OF begin_turn_runs]]
  by (auto simp: mutation_receipt_def router_scenario db0_def)

text \<open>C32. Only the recipient answers: a reply that succeeds came from the connection, of the same
  generation, to which the request was delivered; the request is no longer pending and its result is
  in the log.\<close>

theorem reply_by_recipient:
  assumes "full_inv (rs_store s)" and "finish_reply ev c g rid ok content err s = (Inr u, s')"
  shows "\<exists>ws p. current_workspace s c = Inr ws \<and> map_of (rs_pending s) (ws, rid) = Some p \<and>
    pd_recipient p = c \<and> pd_recipient_generation p = g \<and> (ws, rid) \<notin> fst ` set (rs_pending s') \<and>
    (ws, pd_request_id p) \<in> set (results_logged (rs_store s'))"
  using assms by (rule finish_reply_done)

lemma reply_runs: "\<not> isl (fst (finish_reply renv0 2 7 ''r'' True (Some ''done'') None router0))"
  by (simp add: finish_reply_def complete_reply_def reply_content_def reply_error_def ending_simps step_simps
      access_simps send_simps router_scenario scenario check_simps statement_simps SYSTEM_ROUTER_def)

theorem reply_by_recipient_witness:
  "map_option pd_recipient (map_of (rs_pending router0) (ws0, ''r'')) = Some 2 \<and>
   (ws0, ''r'') \<in> set (results_logged (rs_store (snd (finish_reply renv0 2 7 ''r'' True (Some ''done'') None router0))))"
proof -
  have ws: "current_workspace router0 2 = Inr ws0" by (simp add: access_simps router0_def connA_def ok_or_def)
  have p: "map_of (rs_pending router0) (ws0, ''r'') = Some pendingQ" by (simp add: router0_def)
  have "full_inv (rs_store router0)" by (simp add: router0_store full_inv_dbQ)
  from reply_by_recipient [OF this ranA [OF reply_runs]] ws p show ?thesis
    by (auto simp: pendingQ_def)
qed

section \<open>Limits\<close>

text \<open>C35. The token bucket holds: between its creation and any later time, a credential's bucket lets at
  most 40 messages and 20 more per second through, whatever the times of the messages.\<close>

theorem message_rate_bounded:
  assumes "bucket_run ts (bucket_new t0) = (b, n)" and "sorted (t0 # ts)" and "\<forall>t\<in>set ts. t \<le> t1" and "t0 \<le> t1"
  shows "n * 1000000000 \<le> 40 * 1000000000 + (t1 - t0) * 20"
  using bucket_run_bound [OF assms(1), of t1] assms(2-4)
  by (simp add: bucket_new_def UNIT_def CREDENTIAL_MESSAGE_BURST_def CREDENTIAL_MESSAGES_PER_SECOND_def)

theorem message_rate_bounded_witness:
  "snd (bucket_run (replicate 41 5) (bucket_new 5)) * 1000000000 \<le> 40 * 1000000000 + (5 - 5) * 20"
  by (rule message_rate_bounded [OF surjective_pairing]) simp_all

text \<open>C36. The enrollment limiter implements its specification: at every call it admits exactly when
  fewer than 60 attempts in all and fewer than 10 of the same peer were admitted in the last minute;
  so in no minute are more admitted.\<close>

theorem enrollment_rate_implements_window:
  assumes "sorted (map fst tries)" and "rate_run tries rate_default = (rate, accepted)"
    and "\<forall>a\<in>set tries. fst a \<le> now"
  shows "within_limits accepted \<and>
    snd (rate_record peer now rate) = window_admits accepted peer now"
proof -
  have srt: "sorted (0 # map fst tries)" using assms(1) by simp
  from rate_run_represents [OF represents_default srt assms(2)]
  have rep: "represents (last (0 # map fst tries)) accepted rate" by simp
  have "last (0 # map fst tries) \<le> now" using assms(3) by (auto simp: last_map)
  from rate_record_refines(1) [OF rep this] rate_run_limits [OF represents_default _ srt assms(2)]
  show ?thesis by (simp add: within_limits_def)
qed

theorem enrollment_rate_implements_window_witness:
  "within_limits (snd (rate_run (replicate 12 (5, V4 1)) rate_default)) \<and>
   snd (rate_record (V4 1) 6 (fst (rate_run (replicate 12 (5, V4 1)) rate_default))) =
     window_admits (snd (rate_run (replicate 12 (5, V4 1)) rate_default)) (V4 1) 6"
  by (rule enrollment_rate_implements_window [OF _ surjective_pairing]) simp_all

text \<open>C37. Cutting pages to the response budget loses nothing. Two things are asked of the encoder, for the
  events of the workspace's log and for the cursors a client has among them: adding an event makes no
  response shorter, and a response with at most one event fits 256 KiB, as the limits on the content of
  events are set for. Then a client that follows the cursors of the cut pages of the history sees every later
  event once and in order, with at most one page more than there are events, and every page fits
  256 KiB.\<close>

theorem bounded_history_complete:
  assumes "log_inv d" and "latest_seq d ws = Some n" and "after \<le> n" and "1 \<le> limit"
    and "length (filter (\<lambda>e. after < we_seq e) (workspace_log d ws)) < fuel"
    and longer: "\<And>es x c m c' m'. set (es @ [x]) \<subseteq> set (workspace_log d ws) \<Longrightarrow>
      {c, c'} \<subseteq> insert after (we_seq ` set (workspace_log d ws)) \<Longrightarrow> bytes es c m \<le> bytes (es @ [x]) c' m'"
    and fits: "\<And>es c m. set es \<subseteq> set (workspace_log d ws) \<Longrightarrow> length es \<le> 1 \<Longrightarrow>
      c \<in> insert after (we_seq ` set (workspace_log d ws)) \<Longrightarrow> bytes es c m \<le> 256 * 1024"
  shows "collect_pages fuel (\<lambda>c. case history d ws c limit of Inl e \<Rightarrow> Inl (actor_store e)
      | Inr (rs, cur, src) \<Rightarrow> bound_history_page (\<lambda>es c m. Some (bytes es c m)) rs c src) after =
    Some (Inr (filter (\<lambda>e. after < we_seq e) (workspace_log d ws))) \<and>
    (\<forall>rs c src es cur m. bound_history_page (\<lambda>es c m. Some (bytes es c m)) rs c src = Inr (es, cur, m) \<longrightarrow>
       bytes es cur m \<le> 256 * 1024)"
proof
  show "\<forall>rs c src es cur m. bound_history_page (\<lambda>es c m. Some (bytes es c m)) rs c src = Inr (es, cur, m) \<longrightarrow>
       bytes es cur m \<le> 256 * 1024"
    unfolding bound_history_page_def by (auto dest!: bound_page_ok simp: MAX_RESPONSE_BYTES_def)
  let ?C = "insert after (we_seq ` set (workspace_log d ws))"
  show "collect_pages fuel (\<lambda>c. case history d ws c limit of Inl e \<Rightarrow> Inl (actor_store e)
      | Inr (rs, cur, src) \<Rightarrow> bound_history_page (\<lambda>es c m. Some (bytes es c m)) rs c src) after =
    Some (Inr (filter (\<lambda>e. after < we_seq e) (workspace_log d ws)))"
  proof (rule hist.collect_bounded_complete [where C = ?C])
    fix c rs cur src
    assume "c \<in> ?C" "set rs \<subseteq> set (workspace_log d ws)"
    then show "\<exists>k\<le>length rs. (rs \<noteq> [] \<longrightarrow> 0 < k) \<and>
        bound_history_page (\<lambda>es c m. Some (bytes es c m)) rs c src =
          Inr (take k rs, next_cursor we_seq c (take k rs), src \<or> k < length rs)"
      unfolding bound_history_page_def
      by (intro bound_page_progress [where R = "set (workspace_log d ws)" and C = ?C])
        (use longer fits in \<open>auto simp: MAX_RESPONSE_BYTES_def\<close>)
  qed (use assms in \<open>auto simp: history_ready_def\<close>)
qed

text \<open>Two events of 150 KiB each, which the budget sends in two pages.\<close>

definition event1 :: workspace_event where "event1 = event0\<lparr>we_seq := 2\<rparr>"

definition db2 :: db where
  "db2 = dbM\<lparr>workspaces := [\<lparr>w_name = ws0, w_created_at = 5, w_next_seq = 3, w_next_task_id = 2\<rparr>],
     events := [event0, event1]\<rparr>"

theorem bounded_history_complete_witness:
  "collect_pages 3 (\<lambda>c. case history db2 ws0 c 10 of Inl e \<Rightarrow> Inl (actor_store e)
      | Inr (rs, cur, src) \<Rightarrow> bound_history_page (\<lambda>es c m. Some (153600 * length es)) rs c src) 0 =
    Some (Inr [event0, event1]) \<and>
   (case history db2 ws0 0 10 of Inr (rs, cur, src) \<Rightarrow> length rs = 2 | _ \<Rightarrow> False) \<and>
   (\<exists>es cur m. bound_history_page (\<lambda>es c m. Some (153600 * length es)) [event0, event1] 0 False = Inr (es, cur, m) \<and>
      length es = 1)"
proof -
  have log: "log_inv db2"
    by (simp add: inv_simps event1_def db2_def scenario check_simps event_conflict_def upto_rec1)
  have "latest_seq db2 ws0 = Some 2" "filter (\<lambda>e. 0 < we_seq e) (workspace_log db2 ws0) = [event0, event1]"
    by (simp_all add: db2_def event1_def scenario latest_seq_def workspace_log_def)
  with bounded_history_complete [OF log, of ws0 2 0 10 3 "\<lambda>es c m. 153600 * length es"]
  have "collect_pages 3 (\<lambda>c. case history db2 ws0 c 10 of Inl e \<Rightarrow> Inl (actor_store e)
      | Inr (rs, cur, src) \<Rightarrow> bound_history_page (\<lambda>es c m. Some (153600 * length es)) rs c src) 0 =
    Some (Inr [event0, event1])" by simp
  moreover have "case history db2 ws0 0 10 of Inr (rs, cur, src) \<Rightarrow> length rs = 2 | _ \<Rightarrow> False"
    by (simp add: history_def pop_page_def workspace_log_def db2_def event1_def scenario latest_seq_def Let_def)
  moreover have "\<exists>es cur m. bound_history_page (\<lambda>es c m. Some (153600 * length es)) [event0, event1] 0 False = Inr (es, cur, m) \<and>
      length es = 1"
    by (auto simp: bound_history_page_def bound_page_def largest_response_prefix_def prefix_search.simps
        MAX_RESPONSE_BYTES_def Let_def ok_or_def)
  ultimately show ?thesis by blast
qed

end
