(* ===== verification/Protocol_Messages.thy ===== *)
theory Protocol_Messages
  imports Router_Types
begin

text \<open>
  Messages on the wire (\<^verbatim>\<open>src/protocol.rs\<close>): the type and the field names under which a message is
  serialized, the tables of allowed fields, the validation of every message of a client and of the router,
  and \<^verbatim>\<open>parse_client_message\<close> and \<^verbatim>\<open>parse_server_message\<close>. JSON comes from another crate: what it makes of a
  text is in \<open>wire\<close>.
\<close>

section \<open>JSON\<close>

text \<open>What the parsers look at before the message itself: the keys of the object, its \<^verbatim>\<open>type\<close> if that is a
  string, its \<^verbatim>\<open>protocolVersion\<close> if that is an unsigned integer.\<close>

record wire_object =
  wo_keys :: "string list"
  wo_type :: "string option"
  wo_version :: "nat option"

record wire =
  wr_object :: "string \<Rightarrow> wire_object option"
  wr_client :: "string \<Rightarrow> client_message option"
  wr_server :: "string \<Rightarrow> server_message option"
  wr_text_len :: "string \<Rightarrow> nat option"
  wr_body_len :: "report_body \<Rightarrow> nat"
  wr_content :: "event_content \<Rightarrow> string"
  wr_codec :: codec

definition MAX_SHARED_CONTENT_BYTES :: nat where "MAX_SHARED_CONTENT_BYTES = 64 * 1024"
definition MAX_JSON_STRING_BYTES :: nat where "MAX_JSON_STRING_BYTES = 128 * 1024"
definition MAX_WEBSOCKET_MESSAGE_BYTES :: nat where "MAX_WEBSOCKET_MESSAGE_BYTES = 512 * 1024"
definition MAX_ERROR_BYTES :: nat where "MAX_ERROR_BYTES = 256"

section \<open>Types and fields\<close>

text \<open>The enumerations are tagged with the variant's name in snake case; the attributes give the field
  names. An absent option is a null field unless it is skipped.\<close>

primrec client_type :: "client_message \<Rightarrow> string" where
  "client_type (MRegister _ _ _ _) = ''register''"
| "client_type (MRegisterDelegate _ _ _) = ''register_delegate''"
| "client_type (MRegisterOperator _ _) = ''register_operator''"
| "client_type (MPing _) = ''ping''"
| "client_type (MReadiness _) = ''readiness''"
| "client_type (MList _) = ''list''"
| "client_type (MSend _ _ _ _) = ''send''"
| "client_type (MReply _ _ _ _) = ''reply''"
| "client_type (MWorkIdle _ _ _ _ _) = ''work_idle''"
| "client_type (MTaskExecutionStopped _ _ _ _ _ _ _) = ''task_execution_stopped''"
| "client_type (MCredentialIssue _ _ _ _ _ _) = ''credential_issue''"
| "client_type (MCredentialList _ _ _) = ''credential_list''"
| "client_type (MCredentialRevoke _ _) = ''credential_revoke''"
| "client_type (MOnboardingInviteIssue _ _ _ _) = ''onboarding_invite_issue''"
| "client_type (MOnboardingInviteRevoke _ _) = ''onboarding_invite_revoke''"
| "client_type (MWorkspaceCreate _ _) = ''workspace_create''"
| "client_type (MWorkspaceList _ _ _) = ''workspace_list''"
| "client_type (MWorkspaceJoin _ _) = ''workspace_join''"
| "client_type (MWorkspaceLeave _) = ''workspace_leave''"
| "client_type (MWorkspaceMembers _) = ''workspace_members''"
| "client_type (MWorkspacePost _ _) = ''workspace_post''"
| "client_type (MWorkspaceHistory _ _ _) = ''workspace_history''"
| "client_type (MWorkspaceSubscribe _ _) = ''workspace_subscribe''"
| "client_type (MWorkspaceUnsubscribe _) = ''workspace_unsubscribe''"
| "client_type (MTaskList _ _ _ _ _ _) = ''task_list''"
| "client_type (MTaskGet _ _ _) = ''task_get''"
| "client_type (MTaskHistory _ _ _ _ _) = ''task_history''"
| "client_type (MTaskCreate _ _ _ _ _) = ''task_create''"
| "client_type (MTaskEdit _ _ _ _ _ _ _) = ''task_edit''"
| "client_type (MTaskAssign _ _ _ _ _ _) = ''task_assign''"
| "client_type (MTaskNote _ _ _ _ _) = ''task_note''"
| "client_type (MTaskBegin _ _ _ _ _ _ _ _) = ''task_begin''"
| "client_type (MTaskCheckpoint _ _ _ _ _ _ _) = ''task_checkpoint''"
| "client_type (MTaskPause _ _ _ _ _ _ _ _) = ''task_pause''"
| "client_type (MTaskComplete _ _ _ _ _ _ _) = ''task_complete''"
| "client_type (MTaskCancel _ _ _ _ _ _) = ''task_cancel''"
| "client_type (MTaskReopen _ _ _ _ _ _) = ''task_reopen''"
| "client_type (MTaskRequest _ _ _ _ _ _) = ''task_request''"
| "client_type (MTaskInterrupt _ _ _ _ _ _) = ''task_interrupt''"
| "client_type (MTaskConfirmStopped _ _ _ _ _ _ _) = ''task_confirm_stopped''"
| "client_type (MTaskImport _ _ _ _ _) = ''task_import''"
| "client_type (MTaskLink _ _ _ _ _ _ _ _) = ''task_link''"
| "client_type (MTaskPublish _ _ _ _ _ _ _ _) = ''task_publish''"
| "client_type (MTaskExternalStatus _ _ _) = ''task_external_status''"
| "client_type (MTaskExternalResolve _ _ _ _ _ _ _) = ''task_external_resolve''"
| "client_type (MIntegrationList _ _) = ''integration_list''"
| "client_type (MIntegrationCheck _ _ _) = ''integration_check''"
| "client_type (MIntegrationReload _) = ''integration_reload''"
| "client_type (MRouterShutdown _) = ''router_shutdown''"

primrec client_fields :: "client_message \<Rightarrow> string list" where
  "client_fields (MRegister _ _ _ _) =
     [''type'', ''protocolVersion'', ''agent'', ''token'', ''delegationToken'']"
| "client_fields (MRegisterDelegate _ _ _) =
     [''type'', ''protocolVersion'', ''ownerId'', ''delegationToken'']"
| "client_fields (MRegisterOperator _ _) = [''type'', ''protocolVersion'', ''token'']"
| "client_fields (MPing _) = [''type'', ''requestId'']"
| "client_fields (MReadiness _) = [''type'', ''ready'']"
| "client_fields (MList _) = [''type'', ''requestId'']"
| "client_fields (MSend _ _ _ _) = [''type'', ''requestId'', ''to'', ''content'', ''timeoutMs'']"
| "client_fields (MReply _ _ _ _) = [''type'', ''requestId'', ''ok'', ''content'', ''error'']"
| "client_fields (MWorkIdle _ _ _ _ _) =
     [''type'', ''requestId'', ''workspace'', ''workRequestId'', ''task'', ''ready'']"
| "client_fields (MTaskExecutionStopped _ _ _ _ _ _ _) =
     [''type'', ''requestId'', ''workspace'', ''taskId'', ''attemptId'', ''endedSessionId'',
      ''evidence'', ''reason'']"
| "client_fields (MCredentialIssue _ _ _ _ _ _) =
     [''type'', ''requestId'', ''role'', ''subject'', ''agentSide'', ''agentClient'', ''workspaces'']"
| "client_fields (MCredentialList _ _ _) = [''type'', ''requestId'', ''after'', ''limit'']"
| "client_fields (MCredentialRevoke _ _) = [''type'', ''requestId'', ''id'']"
| "client_fields (MOnboardingInviteIssue _ _ _ _) =
     [''type'', ''requestId'', ''workspace'', ''createWorkspace'', ''provider'']"
| "client_fields (MOnboardingInviteRevoke _ _) = [''type'', ''requestId'', ''inviteId'']"
| "client_fields (MWorkspaceCreate _ _) = [''type'', ''requestId'', ''name'']"
| "client_fields (MWorkspaceList _ _ _) = [''type'', ''requestId'', ''after'', ''limit'']"
| "client_fields (MWorkspaceJoin _ _) = [''type'', ''requestId'', ''name'']"
| "client_fields (MWorkspaceLeave _) = [''type'', ''requestId'']"
| "client_fields (MWorkspaceMembers _) = [''type'', ''requestId'']"
| "client_fields (MWorkspacePost _ _) = [''type'', ''requestId'', ''content'']"
| "client_fields (MWorkspaceHistory _ _ _) = [''type'', ''requestId'', ''after'', ''limit'']"
| "client_fields (MWorkspaceSubscribe _ _) = [''type'', ''requestId'', ''after'']"
| "client_fields (MWorkspaceUnsubscribe _) = [''type'', ''requestId'']"
| "client_fields (MTaskList _ _ _ _ _ _) =
     [''type'', ''requestId'', ''workspace'', ''states'', ''assignedAgentId'', ''after'', ''limit'']"
| "client_fields (MTaskGet _ _ _) = [''type'', ''requestId'', ''workspace'', ''taskId'']"
| "client_fields (MTaskHistory _ _ _ _ _) =
     [''type'', ''requestId'', ''workspace'', ''taskId'', ''after'', ''limit'']"
| "client_fields (MTaskCreate _ _ _ _ _) =
     [''type'', ''requestId'', ''workspace'', ''operationId'', ''title'', ''description'']"
| "client_fields (MTaskEdit _ _ _ _ _ _ _) =
     [''type'', ''requestId'', ''workspace'', ''operationId'', ''taskId'', ''expectedVersion'',
      ''title'', ''description'']"
| "client_fields (MTaskAssign _ _ _ _ _ _) =
     [''type'', ''requestId'', ''workspace'', ''operationId'', ''taskId'', ''expectedVersion'',
      ''agentId'']"
| "client_fields (MTaskNote _ _ _ _ _) =
     [''type'', ''requestId'', ''workspace'', ''operationId'', ''taskId'', ''text'']"
| "client_fields (MTaskBegin _ _ _ _ _ _ _ _) =
     [''type'', ''requestId'', ''workspace'', ''operationId'', ''taskId'', ''workRequestId'',
      ''expectedVersion'', ''lastCheckpointId'', ''resumeNote'']"
| "client_fields (MTaskCheckpoint _ _ _ _ _ _ _) =
     [''type'', ''requestId'', ''workspace'', ''operationId'', ''taskId'', ''attemptId'',
      ''expectedVersion'', ''checkpoint'']"
| "client_fields (MTaskPause _ _ _ _ _ _ _ _) =
     [''type'', ''requestId'', ''workspace'', ''operationId'', ''taskId'', ''attemptId'',
      ''expectedVersion'', ''checkpoint'', ''reason'']"
| "client_fields (MTaskComplete _ _ _ _ _ _ _) =
     [''type'', ''requestId'', ''workspace'', ''operationId'', ''taskId'', ''attemptId'',
      ''expectedVersion'', ''result'']"
| "client_fields (MTaskCancel _ _ _ _ _ _) =
     [''type'', ''requestId'', ''workspace'', ''operationId'', ''taskId'', ''expectedVersion'', ''note'']"
| "client_fields (MTaskReopen _ _ _ _ _ _) =
     [''type'', ''requestId'', ''workspace'', ''operationId'', ''taskId'', ''expectedVersion'', ''note'']"
| "client_fields (MTaskRequest _ _ _ _ _ _) =
     [''type'', ''requestId'', ''workspace'', ''taskId'', ''expectedVersion'', ''message'',
      ''timeoutMs'']"
| "client_fields (MTaskInterrupt _ _ _ _ _ _) =
     [''type'', ''requestId'', ''workspace'', ''operationId'', ''taskId'', ''expectedVersion'', ''note'']"
| "client_fields (MTaskConfirmStopped _ _ _ _ _ _ _) =
     [''type'', ''requestId'', ''workspace'', ''operationId'', ''taskId'', ''attemptId'',
      ''expectedVersion'', ''note'']"
| "client_fields (MTaskImport _ _ _ _ _) =
     [''type'', ''requestId'', ''workspace'', ''provider'', ''externalId'', ''operationId'']"
| "client_fields (MTaskLink _ _ _ _ _ _ _ _) =
     [''type'', ''requestId'', ''workspace'', ''operationId'', ''taskId'', ''expectedVersion'',
      ''provider'', ''externalId'', ''replace'']"
| "client_fields (MTaskPublish _ _ _ _ _ _ _ _) =
     [''type'', ''requestId'', ''workspace'', ''operationId'', ''taskId'', ''expectedVersion'',
      ''provider'', ''kind'', ''reportId'']"
| "client_fields (MTaskExternalStatus _ _ _) = [''type'', ''requestId'', ''workspace'', ''operationId'']"
| "client_fields (MTaskExternalResolve _ _ _ _ _ _ _) =
     [''type'', ''requestId'', ''workspace'', ''operationId'', ''resolutionId'', ''outcome'',
      ''externalId'', ''note'']"
| "client_fields (MIntegrationList _ _) = [''type'', ''requestId'', ''workspace'']"
| "client_fields (MIntegrationCheck _ _ _) = [''type'', ''requestId'', ''workspace'', ''provider'']"
| "client_fields (MIntegrationReload _) = [''type'', ''requestId'']"
| "client_fields (MRouterShutdown _) = [''type'', ''requestId'']"

primrec server_type :: "server_message \<Rightarrow> string" where
  "server_type (SRegistered _ _ _ _ _) = ''registered''"
| "server_type (SRegisteredOperator _ _ _ _ _) = ''registered_operator''"
| "server_type (SPong _) = ''pong''"
| "server_type (SError _ _ _ _ _) = ''error''"
| "server_type (SAgents _ _ _) = ''agents''"
| "server_type (SAccepted _ _ _) = ''accepted''"
| "server_type (SDeliver _ _ _ _ _ _) = ''deliver''"
| "server_type (SResult _ _ _ _ _ _ _) = ''result''"
| "server_type (SCancelWork _ _ _ _) = ''cancel_work''"
| "server_type (SWorkIdleAck _ _ _) = ''work_idle_ack''"
| "server_type (STaskExecutionStoppedAck _ _ _ _) = ''task_execution_stopped_ack''"
| "server_type (STaskAttemptChanged _ _ _ _ _ _) = ''task_attempt_changed''"
| "server_type (SWorkspaceCreated _ _) = ''workspace_created''"
| "server_type (SWorkspaces _ _ _ _) = ''workspaces''"
| "server_type (SCredentialIssued _ _) = ''credential_issued''"
| "server_type (SCredentials _ _ _ _) = ''credentials''"
| "server_type (SCredentialRevoked _ _) = ''credential_revoked''"
| "server_type (SOnboardingInviteIssued _ _ _ _ _ _ _) = ''onboarding_invite_issued''"
| "server_type (SOnboardingInviteRevoked _ _) = ''onboarding_invite_revoked''"
| "server_type (SIntegrations _ _ _) = ''integrations''"
| "server_type (SIntegrationChecked _ _ _) = ''integration_checked''"
| "server_type (SIntegrationsReloaded _ _) = ''integrations_reloaded''"
| "server_type (SExternalOperation _ _ _) = ''external_operation''"
| "server_type (SExternalStatus _ _ _ _) = ''external_status''"
| "server_type (SExternalResolved _ _ _ _) = ''external_resolved''"
| "server_type (SWorkspaceJoined _ _ _) = ''workspace_joined''"
| "server_type (SWorkspaceLeft _ _) = ''workspace_left''"
| "server_type (SWorkspaceChanged _ _) = ''workspace_changed''"
| "server_type (SWorkspacePosted _ _ _) = ''workspace_posted''"
| "server_type (SWorkspaceHistory _ _) = ''workspace_history''"
| "server_type (SWorkspaceSubscription _ _ _ _ _) = ''workspace_subscription''"
| "server_type (SWorkspaceEvent _) = ''workspace_event''"
| "server_type (SWorkspaceUnsubscribed _ _) = ''workspace_unsubscribed''"
| "server_type (STasks _ _ _ _ _) = ''tasks''"
| "server_type (STask _ _ _) = ''task''"
| "server_type (STaskHistory _ _) = ''task_history''"
| "server_type (STaskMutated _ _ _) = ''task_mutated''"
| "server_type (SRouterStopping _) = ''router_stopping''"

primrec server_fields :: "server_message \<Rightarrow> string list" where
  "server_fields (SRegistered _ _ _ _ _) =
     [''type'', ''protocolVersion'', ''agent'', ''role'', ''workspace'', ''cursor'']"
| "server_fields (SRegisteredOperator _ _ _ _ _) =
     [''type'', ''protocolVersion'', ''subject'', ''admin'', ''workspace'', ''cursor'']"
| "server_fields (SPong _) = [''type'', ''requestId'']"
| "server_fields (SError req _ wor ope cur) =
     [''type''] @ (case req of None \<Rightarrow> [] | Some _ \<Rightarrow> [''requestId'']) @
     [''code''] @
     (case wor of None \<Rightarrow> [] | Some _ \<Rightarrow> [''workspace'']) @
     (case ope of None \<Rightarrow> [] | Some _ \<Rightarrow> [''operationId'']) @
     (case cur of None \<Rightarrow> [] | Some _ \<Rightarrow> [''currentVersion''])"
| "server_fields (SAgents _ _ _) = [''type'', ''requestId'', ''workspace'', ''agents'']"
| "server_fields (SAccepted _ _ _) = [''type'', ''requestId'', ''workspace'', ''to'']"
| "server_fields (SDeliver _ _ _ _ _ _) =
     [''type'', ''workspace'', ''requestId'', ''from'', ''content'', ''timeoutMs'', ''task'']"
| "server_fields (SResult _ _ _ _ _ _ _) =
     [''type'', ''workspace'', ''requestId'', ''from'', ''ok'', ''content'', ''error'', ''taskId'']"
| "server_fields (SCancelWork _ _ _ _) = [''type'', ''workspace'', ''requestId'', ''reason'', ''task'']"
| "server_fields (SWorkIdleAck _ _ _) = [''type'', ''requestId'', ''workspace'', ''workRequestId'']"
| "server_fields (STaskExecutionStoppedAck _ _ _ _) =
     [''type'', ''requestId'', ''workspace'', ''taskId'', ''attemptId'']"
| "server_fields (STaskAttemptChanged _ _ _ _ _ _) =
     [''type'', ''workspace'', ''taskId'', ''attempt'', ''closedAttemptId'', ''current'',
      ''stopPending'']"
| "server_fields (SWorkspaceCreated _ _) = [''type'', ''requestId'', ''workspace'']"
| "server_fields (SWorkspaces _ _ _ _) =
     [''type'', ''requestId'', ''workspaces'', ''nextCursor'', ''hasMore'']"
| "server_fields (SCredentialIssued _ _) = [''type'', ''requestId'', ''credential'']"
| "server_fields (SCredentials _ _ _ _) =
     [''type'', ''requestId'', ''credentials'', ''nextCursor'', ''hasMore'']"
| "server_fields (SCredentialRevoked _ _) = [''type'', ''requestId'', ''id'']"
| "server_fields (SOnboardingInviteIssued _ _ _ _ _ _ _) =
     [''type'', ''requestId'', ''serverId'', ''inviteId'', ''inviteToken'', ''expiresAt'',
      ''workspace'', ''provider'']"
| "server_fields (SOnboardingInviteRevoked _ _) = [''type'', ''requestId'', ''inviteId'']"
| "server_fields (SIntegrations _ _ _) = [''type'', ''requestId'', ''workspace'', ''integrations'']"
| "server_fields (SIntegrationChecked _ _ _) = [''type'', ''requestId'', ''workspace'', ''integration'']"
| "server_fields (SIntegrationsReloaded _ _) = [''type'', ''requestId'', ''integrations'']"
| "server_fields (SExternalOperation _ _ _) = [''type'', ''requestId'', ''workspace'', ''operation'']"
| "server_fields (SExternalStatus _ _ _ _) =
     [''type'', ''requestId'', ''workspace'', ''operation'', ''resolution'']"
| "server_fields (SExternalResolved _ _ _ _) =
     [''type'', ''requestId'', ''workspace'', ''operation'', ''resolution'']"
| "server_fields (SWorkspaceJoined _ _ _) = [''type'', ''requestId'', ''workspace'', ''cursor'']"
| "server_fields (SWorkspaceLeft _ _) = [''type'', ''requestId'', ''workspace'']"
| "server_fields (SWorkspaceChanged _ _) = [''type'', ''workspace'', ''cursor'']"
| "server_fields (SWorkspacePosted _ _ _) = [''type'', ''requestId'', ''workspace'', ''seq'']"
| "server_fields (SWorkspaceHistory _ _) =
     [''type'', ''requestId'', ''workspace'', ''events'', ''nextCursor'', ''hasMore'']"
| "server_fields (SWorkspaceSubscription _ _ _ _ _) =
     [''type'', ''requestId'', ''workspace'', ''events'', ''nextCursor'', ''live'']"
| "server_fields (SWorkspaceEvent _) = [''type'', ''event'']"
| "server_fields (SWorkspaceUnsubscribed _ _) = [''type'', ''requestId'', ''workspace'']"
| "server_fields (STasks _ _ _ _ _) =
     [''type'', ''requestId'', ''workspace'', ''tasks'', ''nextCursor'', ''hasMore'']"
| "server_fields (STask _ _ _) = [''type'', ''requestId'', ''workspace'', ''task'']"
| "server_fields (STaskHistory _ _) =
     [''type'', ''requestId'', ''workspace'', ''taskId'', ''events'', ''nextCursor'', ''hasMore'']"
| "server_fields (STaskMutated _ _ _) =
     [''type'', ''requestId'', ''workspace'', ''operationId'', ''appliedVersion'', ''reportId'',
      ''task'']"
| "server_fields (SRouterStopping _) = [''type'', ''requestId'']"

definition client_fields_table :: "(string list \<times> string list) list" where
  "client_fields_table =
    [([''register''],
      [''type'', ''protocolVersion'', ''agent'', ''token'', ''delegationToken'']),
     ([''register_delegate''],
      [''type'', ''protocolVersion'', ''ownerId'', ''delegationToken'']),
     ([''register_operator''],
      [''type'', ''protocolVersion'', ''token'']),
     ([''ping'', ''list'', ''workspace_leave'', ''workspace_members'', ''workspace_unsubscribe'',
        ''router_shutdown'', ''integration_reload''],
      [''type'', ''requestId'']),
     ([''readiness''],
      [''type'', ''ready'']),
     ([''send''],
      [''type'', ''requestId'', ''to'', ''content'', ''timeoutMs'']),
     ([''reply''],
      [''type'', ''requestId'', ''ok'', ''content'', ''error'']),
     ([''work_idle''],
      [''type'', ''requestId'', ''workspace'', ''workRequestId'', ''task'', ''ready'']),
     ([''task_execution_stopped''],
      [''type'', ''requestId'', ''workspace'', ''taskId'', ''attemptId'', ''endedSessionId'',
       ''evidence'', ''reason'']),
     ([''credential_issue''],
      [''type'', ''requestId'', ''role'', ''subject'', ''agentSide'', ''agentClient'', ''workspaces'']),
     ([''credential_revoke''],
      [''type'', ''requestId'', ''id'']),
     ([''onboarding_invite_issue''],
      [''type'', ''requestId'', ''workspace'', ''createWorkspace'', ''provider'']),
     ([''onboarding_invite_revoke''],
      [''type'', ''requestId'', ''inviteId'']),
     ([''workspace_create'', ''workspace_join''],
      [''type'', ''requestId'', ''name'']),
     ([''workspace_list'', ''workspace_history'', ''credential_list''],
      [''type'', ''requestId'', ''after'', ''limit'']),
     ([''workspace_post''],
      [''type'', ''requestId'', ''content'']),
     ([''workspace_subscribe''],
      [''type'', ''requestId'', ''after'']),
     ([''task_list''],
      [''type'', ''requestId'', ''workspace'', ''states'', ''assignedAgentId'', ''after'', ''limit'']),
     ([''task_get''],
      [''type'', ''requestId'', ''workspace'', ''taskId'']),
     ([''task_history''],
      [''type'', ''requestId'', ''workspace'', ''taskId'', ''after'', ''limit'']),
     ([''task_create''],
      [''type'', ''requestId'', ''workspace'', ''operationId'', ''title'', ''description'']),
     ([''task_edit''],
      [''type'', ''requestId'', ''workspace'', ''operationId'', ''taskId'', ''expectedVersion'',
       ''title'', ''description'']),
     ([''task_assign''],
      [''type'', ''requestId'', ''workspace'', ''operationId'', ''taskId'', ''expectedVersion'',
       ''agentId'']),
     ([''task_note''],
      [''type'', ''requestId'', ''workspace'', ''operationId'', ''taskId'', ''text'']),
     ([''task_begin''],
      [''type'', ''requestId'', ''workspace'', ''operationId'', ''taskId'', ''workRequestId'',
       ''expectedVersion'', ''lastCheckpointId'', ''resumeNote'']),
     ([''task_checkpoint''],
      [''type'', ''requestId'', ''workspace'', ''operationId'', ''taskId'', ''attemptId'',
       ''expectedVersion'', ''checkpoint'']),
     ([''task_pause''],
      [''type'', ''requestId'', ''workspace'', ''operationId'', ''taskId'', ''attemptId'',
       ''expectedVersion'', ''checkpoint'', ''reason'']),
     ([''task_complete''],
      [''type'', ''requestId'', ''workspace'', ''operationId'', ''taskId'', ''attemptId'',
       ''expectedVersion'', ''result'']),
     ([''task_cancel'', ''task_reopen'', ''task_interrupt''],
      [''type'', ''requestId'', ''workspace'', ''operationId'', ''taskId'', ''expectedVersion'',
       ''note'']),
     ([''task_confirm_stopped''],
      [''type'', ''requestId'', ''workspace'', ''operationId'', ''taskId'', ''attemptId'',
       ''expectedVersion'', ''note'']),
     ([''task_request''],
      [''type'', ''requestId'', ''workspace'', ''taskId'', ''expectedVersion'', ''message'',
       ''timeoutMs'']),
     ([''task_import''],
      [''type'', ''requestId'', ''workspace'', ''provider'', ''externalId'', ''operationId'']),
     ([''task_link''],
      [''type'', ''requestId'', ''workspace'', ''operationId'', ''taskId'', ''expectedVersion'',
       ''provider'', ''externalId'', ''replace'']),
     ([''task_publish''],
      [''type'', ''requestId'', ''workspace'', ''operationId'', ''taskId'', ''expectedVersion'',
       ''provider'', ''kind'', ''reportId'']),
     ([''task_external_status''],
      [''type'', ''requestId'', ''workspace'', ''operationId'']),
     ([''task_external_resolve''],
      [''type'', ''requestId'', ''workspace'', ''operationId'', ''resolutionId'', ''outcome'',
       ''externalId'', ''note'']),
     ([''integration_check''],
      [''type'', ''requestId'', ''workspace'', ''provider'']),
     ([''integration_list''],
      [''type'', ''requestId'', ''workspace''])]"

definition server_fields_table :: "(string list \<times> string list) list" where
  "server_fields_table =
    [([''registered''],
      [''type'', ''protocolVersion'', ''agent'', ''role'', ''workspace'', ''cursor'']),
     ([''registered_operator''],
      [''type'', ''protocolVersion'', ''subject'', ''admin'', ''workspace'', ''cursor'']),
     ([''pong'', ''router_stopping''],
      [''type'', ''requestId'']),
     ([''error''],
      [''type'', ''requestId'', ''code'', ''workspace'', ''operationId'', ''currentVersion'']),
     ([''agents''],
      [''type'', ''requestId'', ''workspace'', ''agents'']),
     ([''accepted''],
      [''type'', ''requestId'', ''workspace'', ''to'']),
     ([''deliver''],
      [''type'', ''workspace'', ''requestId'', ''from'', ''content'', ''timeoutMs'', ''task'']),
     ([''cancel_work''],
      [''type'', ''workspace'', ''requestId'', ''reason'', ''task'']),
     ([''work_idle_ack''],
      [''type'', ''requestId'', ''workspace'', ''workRequestId'']),
     ([''task_execution_stopped_ack''],
      [''type'', ''requestId'', ''workspace'', ''taskId'', ''attemptId'']),
     ([''task_attempt_changed''],
      [''type'', ''workspace'', ''taskId'', ''attempt'', ''closedAttemptId'', ''current'',
       ''stopPending'']),
     ([''credential_issued''],
      [''type'', ''requestId'', ''credential'']),
     ([''credentials''],
      [''type'', ''requestId'', ''credentials'', ''nextCursor'', ''hasMore'']),
     ([''credential_revoked''],
      [''type'', ''requestId'', ''id'']),
     ([''onboarding_invite_issued''],
      [''type'', ''requestId'', ''serverId'', ''inviteId'', ''inviteToken'', ''expiresAt'',
       ''workspace'', ''provider'']),
     ([''onboarding_invite_revoked''],
      [''type'', ''requestId'', ''inviteId'']),
     ([''result''],
      [''type'', ''workspace'', ''requestId'', ''from'', ''ok'', ''content'', ''error'', ''taskId'']),
     ([''workspace_created'', ''workspace_left'', ''workspace_unsubscribed''],
      [''type'', ''requestId'', ''workspace'']),
     ([''workspaces''],
      [''type'', ''requestId'', ''workspaces'', ''nextCursor'', ''hasMore'']),
     ([''integrations''],
      [''type'', ''requestId'', ''workspace'', ''integrations'']),
     ([''integration_checked''],
      [''type'', ''requestId'', ''workspace'', ''integration'']),
     ([''integrations_reloaded''],
      [''type'', ''requestId'', ''integrations'']),
     ([''external_operation''],
      [''type'', ''requestId'', ''workspace'', ''operation'']),
     ([''external_status'', ''external_resolved''],
      [''type'', ''requestId'', ''workspace'', ''operation'', ''resolution'']),
     ([''workspace_joined''],
      [''type'', ''requestId'', ''workspace'', ''cursor'']),
     ([''workspace_changed''],
      [''type'', ''workspace'', ''cursor'']),
     ([''workspace_posted''],
      [''type'', ''requestId'', ''workspace'', ''seq'']),
     ([''workspace_history''],
      [''type'', ''requestId'', ''workspace'', ''events'', ''nextCursor'', ''hasMore'']),
     ([''workspace_subscription''],
      [''type'', ''requestId'', ''workspace'', ''events'', ''nextCursor'', ''live'']),
     ([''workspace_event''],
      [''type'', ''event'']),
     ([''tasks''],
      [''type'', ''requestId'', ''workspace'', ''tasks'', ''nextCursor'', ''hasMore'']),
     ([''task''],
      [''type'', ''requestId'', ''workspace'', ''task'']),
     ([''task_history''],
      [''type'', ''requestId'', ''workspace'', ''taskId'', ''events'', ''nextCursor'', ''hasMore'']),
     ([''task_mutated''],
      [''type'', ''requestId'', ''workspace'', ''operationId'', ''appliedVersion'', ''reportId'',
       ''task''])]"

definition allowed_in :: "(string list \<times> string list) list \<Rightarrow> string \<Rightarrow> string list option" where
  "allowed_in table message_type = map_option snd (find (\<lambda>(types, _). message_type \<in> set types) table)"

definition validate_unknown_fields :: "string \<Rightarrow> string list \<Rightarrow> router_error_code + unit" where
  "validate_unknown_fields message_type keys =
     bindR (ok_or (allowed_in client_fields_table message_type) InvalidMessage) (\<lambda>allowed.
     guardR (list_all (\<lambda>key. key \<in> set allowed) keys) InvalidMessage)"

definition validate_server_unknown_fields :: "string \<Rightarrow> string list \<Rightarrow> router_error_code + unit" where
  "validate_server_unknown_fields message_type keys =
     bindR (ok_or (allowed_in server_fields_table message_type) InvalidMessage) (\<lambda>allowed.
     guardR (list_all (\<lambda>key. key \<in> set allowed) keys) InvalidMessage)"

section \<open>Fields\<close>

text \<open>\<^verbatim>\<open>char::is_control\<close> on UTF-8: the C0 controls, delete, and the C1 controls, which are encoded as
  \<^verbatim>\<open>C2 80\<close> to \<^verbatim>\<open>C2 9F\<close>.\<close>

fun has_control :: "string \<Rightarrow> bool" where
  "has_control [] = False"
| "has_control (c # cs) =
     (byte c < 32 \<or> byte c = 127 \<or>
      byte c = 0xC2 \<and> (case cs of [] \<Rightarrow> False | d # _ \<Rightarrow> 0x80 \<le> byte d \<and> byte d \<le> 0x9F) \<or>
      has_control cs)"

definition valid_activity :: "string option \<Rightarrow> bool" where
  "valid_activity activity =
     (case activity of None \<Rightarrow> True | Some a \<Rightarrow> length a \<le> MAX_ERROR_BYTES \<and> \<not> has_control a)"

definition valid_shared_content :: "wire \<Rightarrow> string \<Rightarrow> bool" where
  "valid_shared_content w value =
     (value \<noteq> [] \<and> length value \<le> MAX_SHARED_CONTENT_BYTES \<and>
      (case wr_text_len w value of None \<Rightarrow> False | Some n \<Rightarrow> n \<le> MAX_JSON_STRING_BYTES))"

definition invalid_ifR :: "validation_error + unit \<Rightarrow> router_error_code + unit" where
  "invalid_ifR m = map_err (\<lambda>_. InvalidMessage) m"

definition positive_safe :: "int \<Rightarrow> bool" where
  "positive_safe i = (validate_positive_safe_integer i = Inr ())"

definition validate_task_version :: "int \<Rightarrow> int \<Rightarrow> router_error_code + unit" where
  "validate_task_version task_id expected_version =
     bindR (invalid_ifR (validate_positive_safe_integer task_id)) (\<lambda>_.
     invalid_ifR (validate_positive_safe_integer expected_version))"

definition valid_fence :: "task_fence option \<Rightarrow> bool" where
  "valid_fence fence = (case fence of None \<Rightarrow> True | Some f \<Rightarrow> positive_safe (fst f))"

definition valid_result :: "wire \<Rightarrow> bool \<Rightarrow> string option \<Rightarrow> router_error_code option \<Rightarrow> bool" where
  "valid_result w ok content err =
     (if ok then (case content of None \<Rightarrow> False | Some c \<Rightarrow> valid_shared_content w c) \<and> err = None
      else content = None \<and> err \<noteq> None)"

definition valid_external_id :: "string \<Rightarrow> bool" where
  "valid_external_id value = (value \<noteq> [] \<and> length value \<le> MAX_ERROR_BYTES)"

definition valid_issue :: "credential_role \<Rightarrow> string \<Rightarrow> agent_side option \<Rightarrow> agent_client option \<Rightarrow>
    workspace_name list \<Rightarrow> bool" where
  "valid_issue role subject side client grants =
     ((case role of
         RoleAgent \<Rightarrow> is_agent_id subject \<and>
           (case (side, client) of (Some s, Some c) \<Rightarrow> valid_agent_client s c | _ \<Rightarrow> False) \<and> grants \<noteq> []
       | RoleOperator \<Rightarrow> subject \<noteq> [] \<and> length subject \<le> 119 \<and> is_ascii subject \<and>
           \<not> starts_with subject ''system:'' \<and> side = None \<and> client = None) \<and>
      length grants \<le> MAX_GRANTS \<and> length (remdups grants) = length grants)"

definition stop_reasons :: "pause_reason list" where
  "stop_reasons = [SessionEnded, TurnEnded, HostError, OperatorInterrupt, ReasonRequestTimeout, ReasonRequestCancelled]"


section \<open>Messages of a client\<close>

primrec validate_client_body :: "wire \<Rightarrow> client_message \<Rightarrow> router_error_code + unit" where
  "validate_client_body w (MRegister _ agent token delegation_token) =
     guardR (is_agent_id (rg_agent_id agent) \<and> valid_bearer token \<and> opt_all valid_bearer delegation_token \<and>
             valid_agent_client (rg_side agent) (rg_client agent) \<and> valid_activity (rg_activity agent))
       InvalidMessage"
| "validate_client_body w (MRegisterDelegate _ owner_id delegation_token) =
     guardR (is_agent_id owner_id \<and> valid_bearer delegation_token) InvalidMessage"
| "validate_client_body w (MRegisterOperator _ token) = guardR (valid_bearer token) InvalidMessage"
| "validate_client_body w (MSend _ to content timeout_ms) =
     guardR (is_agent_id to \<and> valid_shared_content w content \<and> valid_timeout timeout_ms) InvalidMessage"
| "validate_client_body w (MReply _ ok content err) = guardR (valid_result w ok content err) InvalidMessage"
| "validate_client_body w (MWorkIdle _ _ work_request_id task _) =
     guardR (is_request_id work_request_id \<and> valid_fence task) InvalidMessage"
| "validate_client_body w (MTaskExecutionStopped _ _ task_id _ _ _ reason) =
     guardR (positive_safe task_id \<and> reason \<in> set stop_reasons) InvalidMessage"
| "validate_client_body w (MCredentialIssue _ role subject side client grants) =
     guardR (valid_issue role subject side client grants) InvalidMessage"
| "validate_client_body w (MOnboardingInviteRevoke _ invite_id) = guardR (invite_id \<noteq> nil_uuid) InvalidMessage"
| "validate_client_body w (MCredentialList _ _ limit) = guardR (valid_limit limit) InvalidMessage"
| "validate_client_body w (MWorkspaceList _ after limit) =
     guardR (opt_all is_workspace_name after \<and> valid_limit limit) InvalidMessage"
| "validate_client_body w (MWorkspaceHistory _ after limit) =
     guardR (valid_cursor after \<and> valid_limit limit) InvalidMessage"
| "validate_client_body w (MWorkspaceSubscribe _ after) =
     guardR (0 \<le> after \<and> after \<le> MAX_SAFE_INTEGER) InvalidMessage"
| "validate_client_body w (MWorkspacePost _ content) = guardR (valid_shared_content w content) InvalidMessage"
| "validate_client_body w (MTaskList _ _ states assigned after limit) =
     guardR (opt_all (\<lambda>values. values \<noteq> [] \<and> length values \<le> 6 \<and>
               length (remdups values) = length values) states \<and>
             opt_all is_agent_id assigned \<and> valid_cursor after \<and> valid_limit limit) InvalidMessage"
| "validate_client_body w (MTaskGet _ _ task_id) = invalid_ifR (validate_positive_safe_integer task_id)"
| "validate_client_body w (MTaskHistory _ _ task_id after limit) =
     bindR (invalid_ifR (validate_positive_safe_integer task_id)) (\<lambda>_.
     guardR (valid_cursor after \<and> valid_limit limit) InvalidMessage)"
| "validate_client_body w (MTaskCreate _ _ _ title description) =
     bindR (invalid_ifR (validate_title title)) (\<lambda>_. invalid_ifR (validate_description description))"
| "validate_client_body w (MTaskEdit _ _ _ task_id expected_version title description) =
     bindR (validate_task_version task_id expected_version) (\<lambda>_.
     bindR (guardR (\<not> (title = None \<and> description = None)) InvalidMessage) (\<lambda>_.
     bindR (case title of None \<Rightarrow> Inr () | Some t \<Rightarrow> invalid_ifR (validate_title t)) (\<lambda>_.
     case description of None \<Rightarrow> Inr () | Some d \<Rightarrow> invalid_ifR (validate_description d))))"
| "validate_client_body w (MTaskAssign _ _ _ task_id expected_version agent_id) =
     bindR (validate_task_version task_id expected_version) (\<lambda>_.
     guardR (opt_all is_agent_id agent_id) InvalidMessage)"
| "validate_client_body w (MTaskNote _ _ _ task_id remark) =
     bindR (invalid_ifR (validate_positive_safe_integer task_id)) (\<lambda>_. invalid_ifR (validate_note remark))"
| "validate_client_body w (MTaskBegin _ _ _ task_id work_request_id expected_version _ resume_note) =
     bindR (validate_task_version task_id expected_version) (\<lambda>_.
     bindR (guardR (is_request_id work_request_id) InvalidMessage) (\<lambda>_.
     invalid_ifR (validate_handoff_note resume_note)))"
| "validate_client_body w (MTaskCheckpoint _ _ _ task_id _ expected_version checkpoint) =
     bindR (validate_task_version task_id expected_version) (\<lambda>_.
     invalid_ifR (checkpoint_validate (wr_body_len w) checkpoint))"
| "validate_client_body w (MTaskPause _ _ _ task_id _ expected_version checkpoint _) =
     bindR (validate_task_version task_id expected_version) (\<lambda>_.
     invalid_ifR (checkpoint_validate (wr_body_len w) checkpoint))"
| "validate_client_body w (MTaskComplete _ _ _ task_id _ expected_version result) =
     bindR (validate_task_version task_id expected_version) (\<lambda>_.
     invalid_ifR (checkpoint_validate (wr_body_len w) result))"
| "validate_client_body w (MTaskCancel _ _ _ task_id expected_version remark) =
     bindR (validate_task_version task_id expected_version) (\<lambda>_. invalid_ifR (validate_handoff_note remark))"
| "validate_client_body w (MTaskReopen _ _ _ task_id expected_version remark) =
     bindR (validate_task_version task_id expected_version) (\<lambda>_. invalid_ifR (validate_handoff_note remark))"
| "validate_client_body w (MTaskInterrupt _ _ _ task_id expected_version remark) =
     bindR (validate_task_version task_id expected_version) (\<lambda>_. invalid_ifR (validate_handoff_note remark))"
| "validate_client_body w (MTaskConfirmStopped _ _ _ task_id _ expected_version remark) =
     bindR (validate_task_version task_id expected_version) (\<lambda>_. invalid_ifR (validate_handoff_note remark))"
| "validate_client_body w (MTaskRequest _ _ task_id expected_version message timeout_ms) =
     bindR (validate_task_version task_id expected_version) (\<lambda>_.
     guardR (opt_all (valid_shared_content w) message \<and> valid_timeout timeout_ms) InvalidMessage)"
| "validate_client_body w (MTaskImport _ _ _ external_id _) = guardR (valid_external_id external_id) InvalidMessage"
| "validate_client_body w (MTaskLink _ _ _ task_id expected_version _ external_id _) =
     bindR (validate_task_version task_id expected_version) (\<lambda>_.
     guardR (valid_external_id external_id) InvalidMessage)"
| "validate_client_body w (MTaskPublish _ _ _ task_id expected_version _ kind report_id) =
     bindR (validate_task_version task_id expected_version) (\<lambda>_.
     guardR (\<not> (kind = PkIssue \<and> report_id \<noteq> None \<or> kind = PkReport \<and> report_id = None)) InvalidMessage)"
| "validate_client_body w (MTaskExternalResolve _ _ _ _ outcome external_id remark) =
     bindR (invalid_ifR (validate_handoff_note remark)) (\<lambda>_.
       let valid_id = (case external_id of None \<Rightarrow> False | Some e \<Rightarrow> valid_external_id e) in
       guardR ((outcome = Applied) = valid_id) InvalidMessage)"
| "validate_client_body w (MPing _) = Inr ()"
| "validate_client_body w (MReadiness _) = Inr ()"
| "validate_client_body w (MList _) = Inr ()"
| "validate_client_body w (MCredentialRevoke _ _) = Inr ()"
| "validate_client_body w (MOnboardingInviteIssue _ _ _ _) = Inr ()"
| "validate_client_body w (MWorkspaceCreate _ _) = Inr ()"
| "validate_client_body w (MWorkspaceJoin _ _) = Inr ()"
| "validate_client_body w (MWorkspaceLeave _) = Inr ()"
| "validate_client_body w (MWorkspaceMembers _) = Inr ()"
| "validate_client_body w (MWorkspaceUnsubscribe _) = Inr ()"
| "validate_client_body w (MTaskExternalStatus _ _ _) = Inr ()"
| "validate_client_body w (MIntegrationList _ _) = Inr ()"
| "validate_client_body w (MIntegrationCheck _ _ _) = Inr ()"
| "validate_client_body w (MIntegrationReload _) = Inr ()"
| "validate_client_body w (MRouterShutdown _) = Inr ()"

definition validate_client_message :: "wire \<Rightarrow> client_message \<Rightarrow> router_error_code + unit" where
  "validate_client_message w m =
     bindR (guardR (opt_all is_request_id (request_id m)) InvalidMessage) (\<lambda>_. validate_client_body w m)"

section \<open>Messages of the router\<close>

text \<open>\<^verbatim>\<open>ServerMessage::request_id\<close>.\<close>

primrec server_request_id :: "server_message \<Rightarrow> string option" where
  "server_request_id (SPong r) = Some r"
| "server_request_id (SAgents r _ _) = Some r"
| "server_request_id (SAccepted r _ _) = Some r"
| "server_request_id (SResult _ r _ _ _ _ _) = Some r"
| "server_request_id (SWorkIdleAck r _ _) = Some r"
| "server_request_id (STaskExecutionStoppedAck r _ _ _) = Some r"
| "server_request_id (SWorkspaceCreated r _) = Some r"
| "server_request_id (SWorkspaces r _ _ _) = Some r"
| "server_request_id (SCredentialIssued r _) = Some r"
| "server_request_id (SCredentials r _ _ _) = Some r"
| "server_request_id (SCredentialRevoked r _) = Some r"
| "server_request_id (SOnboardingInviteIssued r _ _ _ _ _ _) = Some r"
| "server_request_id (SOnboardingInviteRevoked r _) = Some r"
| "server_request_id (SIntegrations r _ _) = Some r"
| "server_request_id (SIntegrationChecked r _ _) = Some r"
| "server_request_id (SIntegrationsReloaded r _) = Some r"
| "server_request_id (SExternalOperation r _ _) = Some r"
| "server_request_id (SExternalStatus r _ _ _) = Some r"
| "server_request_id (SExternalResolved r _ _ _) = Some r"
| "server_request_id (SWorkspaceJoined r _ _) = Some r"
| "server_request_id (SWorkspaceLeft r _) = Some r"
| "server_request_id (SWorkspacePosted r _ _) = Some r"
| "server_request_id (SWorkspaceHistory r _) = Some r"
| "server_request_id (SWorkspaceSubscription r _ _ _ _) = Some r"
| "server_request_id (SWorkspaceUnsubscribed r _) = Some r"
| "server_request_id (STasks r _ _ _ _) = Some r"
| "server_request_id (STask r _ _) = Some r"
| "server_request_id (STaskHistory r _) = Some r"
| "server_request_id (STaskMutated r _ _) = Some r"
| "server_request_id (SRouterStopping r) = Some r"
| "server_request_id (SError r _ _ _ _) = r"
| "server_request_id (SRegistered _ _ _ _ _) = None"
| "server_request_id (SRegisteredOperator _ _ _ _ _) = None"
| "server_request_id (SDeliver _ _ _ _ _ _) = None"
| "server_request_id (SCancelWork _ _ _ _) = None"
| "server_request_id (STaskAttemptChanged _ _ _ _ _ _) = None"
| "server_request_id (SWorkspaceChanged _ _) = None"
| "server_request_id (SWorkspaceEvent _) = None"

definition valid_descriptor :: "agent_descriptor \<Rightarrow> bool" where
  "valid_descriptor agent =
     (is_agent_id (ad_agent_id agent) \<and> valid_agent_client (ad_side agent) (ad_client agent) \<and>
      valid_activity (ad_activity agent))"

definition valid_task_summary :: "task_summary \<Rightarrow> bool" where
  "valid_task_summary t =
     (positive_safe (ts_id t) \<and> is_workspace_name (ts_workspace t) \<and> validate_title (ts_title t) = Inr () \<and>
      positive_safe (ts_version t) \<and> opt_all is_agent_id (ts_assigned_agent_id t) \<and>
      0 \<le> ts_created_at t \<and> 0 \<le> ts_updated_at t)"

definition safe_cursor :: "int \<Rightarrow> bool" where
  "safe_cursor c = (0 \<le> c \<and> c \<le> MAX_SAFE_INTEGER)"

definition validate_workspace_event :: "wire \<Rightarrow> workspace_event \<Rightarrow> router_error_code + unit" where
  "validate_workspace_event w e =
     guardR (positive_safe (we_seq e) \<and> \<not> we_created_at e < 0 \<and> \<not> we_created_at e > MAX_SAFE_INTEGER \<and>
             valid_actor_id (we_actor_id e) \<and> opt_all is_request_id (we_request_id e) \<and>
             opt_all positive_safe (we_task_id e) \<and>
             opt_all (\<lambda>c. \<not> (length (wr_content w c) > MAX_SHARED_CONTENT_BYTES \<or>
               (case wr_text_len w (wr_content w c) of None \<Rightarrow> False | Some n \<Rightarrow> n > MAX_JSON_STRING_BYTES)))
               (we_content e)) InvalidMessage"

definition validate_event_page :: "wire \<Rightarrow> workspace_event list \<Rightarrow> int \<Rightarrow> router_error_code + unit" where
  "validate_event_page w es cursor_to =
     bindR (guardR (safe_cursor cursor_to) InvalidMessage) (\<lambda>_.
     foldR (\<lambda>e _. validate_workspace_event w e) es ())"

fun valid_history_events :: "task_history_page \<Rightarrow> int \<Rightarrow> task_history_event list \<Rightarrow> bool" where
  "valid_history_events page previous [] = True"
| "valid_history_events page previous (e # es) =
     (positive_safe (th_seq e) \<and> \<not> th_seq e \<le> previous \<and> \<not> th_seq e > hq_next_cursor page \<and>
      \<not> th_created_at e < 0 \<and> valid_actor_id (th_actor_id e) \<and>
      ts_id (te_task (th_event e)) = hq_task_id page \<and>
      ts_workspace (te_task (th_event e)) = hq_workspace page \<and>
      valid_task_summary (te_task (th_event e)) \<and> valid_history_events page (th_seq e) es)"

definition valid_attempt_of :: "int \<Rightarrow> task_attempt option \<Rightarrow> bool" where
  "valid_attempt_of task_id attempt =
     opt_all (\<lambda>a. ta_task_id a = task_id \<and> valid_actor_id (ta_agent_id a) \<and> positive_safe (ta_task_id a)) attempt"

primrec validate_server_body :: "wire \<Rightarrow> server_message \<Rightarrow> router_error_code + unit" where
  "validate_server_body w (SRegistered version agent _ _ cursor) =
     guardR (version = PROTOCOL_VERSION \<and> valid_descriptor agent \<and> safe_cursor cursor) InvalidMessage"
| "validate_server_body w (SRegisteredOperator version subject _ _ cursor) =
     guardR (version = PROTOCOL_VERSION \<and> subject \<noteq> [] \<and> length subject \<le> 119 \<and> is_ascii subject \<and>
             safe_cursor cursor) InvalidMessage"
| "validate_server_body w (SAgents _ _ agents) = guardR (list_all valid_descriptor agents) InvalidMessage"
| "validate_server_body w (SDeliver _ rid from_id content timeout_ms task) =
     guardR (is_request_id rid \<and> valid_actor_id from_id \<and> valid_shared_content w content \<and>
             1 \<le> timeout_ms \<and> timeout_ms \<le> MAX_REQUEST_TIMEOUT_MS \<and>
             opt_all (\<lambda>t. positive_safe (dp_id t) \<and> positive_safe (dp_expected_version t)) task) InvalidMessage"
| "validate_server_body w (SCancelWork _ rid _ task) =
     guardR (is_request_id rid \<and> valid_fence task) InvalidMessage"
| "validate_server_body w (SWorkIdleAck _ _ work_request_id) = guardR (is_request_id work_request_id) InvalidMessage"
| "validate_server_body w (STaskExecutionStoppedAck _ _ task_id _) = guardR (positive_safe task_id) InvalidMessage"
| "validate_server_body w (STaskAttemptChanged _ task_id attempt _ current stop_pending) =
     guardR (positive_safe task_id \<and> valid_attempt_of task_id attempt \<and> valid_fence current \<and>
             valid_fence stop_pending) InvalidMessage"
| "validate_server_body w (SCredentialIssued _ credential) =
     map_err (\<lambda>_. InvalidMessage) (credential_validate (wr_codec w) credential)"
| "validate_server_body w (SOnboardingInviteIssued _ server invite token expires_at _ _) =
     guardR (server \<noteq> nil_uuid \<and> invite \<noteq> nil_uuid \<and> valid_bearer token \<and>
             1 \<le> expires_at \<and> expires_at \<le> MAX_SAFE_INTEGER) InvalidMessage"
| "validate_server_body w (SOnboardingInviteRevoked _ invite) = guardR (invite \<noteq> nil_uuid) InvalidMessage"
| "validate_server_body w (SCredentials _ listed _ _) =
     guardR (list_all (\<lambda>c. \<not> cs_created_at c < 0 \<and> opt_all (\<lambda>r. \<not> r < cs_created_at c) (cs_revoked_at c))
       listed) InvalidMessage"
| "validate_server_body w (SResult _ _ from_id ok content err task_id) =
     guardR (valid_result w ok content err \<and> valid_actor_id from_id \<and> opt_all positive_safe task_id) InvalidMessage"
| "validate_server_body w (SWorkspaceHistory _ page) = validate_event_page w (hp_events page) (hp_next_cursor page)"
| "validate_server_body w (SWorkspaceSubscription _ _ es cursor_to _) = validate_event_page w es cursor_to"
| "validate_server_body w (SWorkspaceEvent e) = validate_workspace_event w e"
| "validate_server_body w (SWorkspaceJoined _ _ cursor) = guardR (safe_cursor cursor) InvalidMessage"
| "validate_server_body w (SWorkspaceChanged _ cursor) = guardR (safe_cursor cursor) InvalidMessage"
| "validate_server_body w (SWorkspacePosted _ _ seq) = guardR (positive_safe seq) InvalidMessage"
| "validate_server_body w (STasks _ _ summaries cursor_to _) =
     guardR (safe_cursor cursor_to \<and> list_all valid_task_summary summaries) InvalidMessage"
| "validate_server_body w (STask _ _ task) = guardR (valid_task_summary (td_summary task)) InvalidMessage"
| "validate_server_body w (STaskMutated _ _ result) =
     guardR (valid_task_summary (td_summary (tm_task result))) InvalidMessage"
| "validate_server_body w (STaskHistory _ page) =
     bindR (guardR (positive_safe (hq_task_id page) \<and> safe_cursor (hq_next_cursor page)) InvalidMessage) (\<lambda>_.
     guardR (valid_history_events page 0 (hq_events page)) InvalidMessage)"
| "validate_server_body w (SError rid _ _ _ current_version) =
     guardR (opt_all is_request_id rid \<and> opt_all positive_safe current_version) InvalidMessage"
| "validate_server_body w (SPong _) = Inr ()"
| "validate_server_body w (SAccepted _ _ _) = Inr ()"
| "validate_server_body w (SWorkspaceCreated _ _) = Inr ()"
| "validate_server_body w (SWorkspaces _ _ _ _) = Inr ()"
| "validate_server_body w (SCredentialRevoked _ _) = Inr ()"
| "validate_server_body w (SIntegrations _ _ _) = Inr ()"
| "validate_server_body w (SIntegrationChecked _ _ _) = Inr ()"
| "validate_server_body w (SIntegrationsReloaded _ _) = Inr ()"
| "validate_server_body w (SExternalOperation _ _ _) = Inr ()"
| "validate_server_body w (SExternalStatus _ _ _ _) = Inr ()"
| "validate_server_body w (SExternalResolved _ _ _ _) = Inr ()"
| "validate_server_body w (SWorkspaceLeft _ _) = Inr ()"
| "validate_server_body w (SWorkspaceUnsubscribed _ _) = Inr ()"
| "validate_server_body w (SRouterStopping _) = Inr ()"

definition validate_server_message :: "wire \<Rightarrow> server_message \<Rightarrow> router_error_code + unit" where
  "validate_server_message w m =
     bindR (guardR (opt_all is_request_id (server_request_id m)) InvalidMessage) (\<lambda>_. validate_server_body w m)"

section \<open>Parsing\<close>

definition checked_object :: "wire \<Rightarrow> string list \<Rightarrow> string \<Rightarrow> router_error_code + string \<times> string list" where
  "checked_object w registrations raw =
     bindR (guardR (\<not> length raw > MAX_WEBSOCKET_MESSAGE_BYTES) MessageTooLarge) (\<lambda>_.
     bindR (ok_or (wr_object w raw) InvalidMessage) (\<lambda>object.
     bindR (ok_or (wo_type object) InvalidMessage) (\<lambda>message_type.
     bindR (guardR (\<not> (message_type \<in> set registrations \<and> wo_version object \<noteq> Some PROTOCOL_VERSION))
              ProtocolMismatch) (\<lambda>_.
     Inr (message_type, wo_keys object)))))"

definition parse_client_message :: "wire \<Rightarrow> string \<Rightarrow> router_error_code + client_message" where
  "parse_client_message w raw =
     bindR (checked_object w [''register'', ''register_delegate'', ''register_operator''] raw) (\<lambda>(message_type, keys).
     bindR (validate_unknown_fields message_type keys) (\<lambda>_.
     bindR (ok_or (wr_client w raw) InvalidMessage) (\<lambda>m.
     bindR (validate_client_message w m) (\<lambda>_. Inr m))))"

definition parse_server_message :: "wire \<Rightarrow> string \<Rightarrow> router_error_code + server_message" where
  "parse_server_message w raw =
     bindR (checked_object w [''registered'', ''registered_operator''] raw) (\<lambda>(message_type, keys).
     bindR (validate_server_unknown_fields message_type keys) (\<lambda>_.
     bindR (ok_or (wr_server w raw) InvalidMessage) (\<lambda>m.
     bindR (validate_server_message w m) (\<lambda>_. Inr m))))"

end
