(* ===== verification/Protocol_Props.thy ===== *)
theory Protocol_Props
  imports Router_Scenario Protocol_Messages
begin

text \<open>
  The properties of the messages on the wire: the tables of allowed fields fit the messages, and the
  protocol and the task commands agree on which task messages are well formed.
\<close>

section \<open>Fields\<close>

lemma allowed_in_Cons:
  "allowed_in ((types, names) # table) t = (if t \<in> set types then Some names else allowed_in table t)"
  by (simp add: allowed_in_def)

lemma client_fields_allowed:
  "\<exists>allowed. allowed_in client_fields_table (client_type m) = Some allowed \<and> set allowed = set (client_fields m)"
  by (cases m) (simp_all add: client_fields_table_def allowed_in_Cons insert_commute)

lemma server_fields_allowed:
  "\<exists>allowed. allowed_in server_fields_table (server_type m) = Some allowed \<and> set (server_fields m) \<subseteq> set allowed"
  by (cases m) (simp_all add: server_fields_table_def allowed_in_Cons, auto split: option.splits)

text \<open>C13. The tables of allowed fields fit the messages. For every message of a client the fields under
  which it is serialized are exactly those its type allows, and for every message of the router they are
  among them: no message is refused for its own fields, and the client's table has no superfluous entry.\<close>

theorem fields_fit_messages:
  "(\<exists>allowed. allowed_in client_fields_table (client_type m) = Some allowed \<and> set allowed = set (client_fields m)) \<and>
   validate_unknown_fields (client_type m) (client_fields m) = Inr () \<and>
   validate_server_unknown_fields (server_type r) (server_fields r) = Inr ()"
  using client_fields_allowed [of m] server_fields_allowed [of r]
  by (auto simp: validate_unknown_fields_def validate_server_unknown_fields_def list_all_iff)

section \<open>Task commands\<close>

text \<open>The command that the dispatcher makes of a message.\<close>

definition command_of :: "client_message \<Rightarrow> (workspace_name \<times> task_command) option" where
  "command_of m = (case m of
       MTaskCreate _ ws op title description \<Rightarrow> Some (ws, CmdCreate op title description)
     | MTaskEdit _ ws op task_id version title description \<Rightarrow> Some (ws, CmdEdit op task_id version title description)
     | MTaskAssign _ ws op task_id version agent_id \<Rightarrow> Some (ws, CmdAssign op task_id version agent_id)
     | MTaskNote _ ws op task_id remark \<Rightarrow> Some (ws, CmdNote op task_id remark)
     | MTaskBegin _ ws op task_id rid version checkpoint_id remark \<Rightarrow>
         Some (ws, CmdBegin op task_id rid version checkpoint_id remark)
     | MTaskCheckpoint _ ws op task_id attempt_id version checkpoint \<Rightarrow>
         Some (ws, CmdCheckpoint op task_id attempt_id version checkpoint)
     | MTaskPause _ ws op task_id attempt_id version checkpoint kind \<Rightarrow>
         Some (ws, CmdPause op task_id attempt_id version checkpoint (kind = PauseKindBlocked))
     | MTaskComplete _ ws op task_id attempt_id version result \<Rightarrow>
         Some (ws, CmdComplete op task_id attempt_id version result)
     | MTaskCancel _ ws op task_id version remark \<Rightarrow> Some (ws, CmdCancel op task_id version remark)
     | MTaskReopen _ ws op task_id version remark \<Rightarrow> Some (ws, CmdReopen op task_id version remark)
     | MTaskInterrupt _ ws op task_id version remark \<Rightarrow> Some (ws, CmdInterrupt op task_id version remark)
     | MTaskConfirmStopped _ ws op task_id attempt_id version remark \<Rightarrow>
         Some (ws, CmdConfirmStopped op task_id attempt_id version remark)
     | _ \<Rightarrow> None)"

lemma command_of_dispatch:
  "command_of m = Some (ws, cmd) \<Longrightarrow>
     \<exists>rid. request_id m = Some rid \<and> router_dispatch ev c g m = task_mutate ev c g rid ws cmd"
  by (cases m) (auto simp: command_of_def)

lemma invalid_ifR_ok [simp]: "invalid_ifR x = Inr () \<longleftrightarrow> x = Inr ()"
  by (cases x) (simp_all add: invalid_ifR_def)

text \<open>The numbers in a command: the task's and the version it is expected to have.\<close>

definition command_numbers :: "task_command \<Rightarrow> int list" where
  "command_numbers cmd = (case cmd of
       CmdCreate _ _ _ \<Rightarrow> []
     | CmdEdit _ k v _ _ \<Rightarrow> [k, v]
     | CmdAssign _ k v _ \<Rightarrow> [k, v]
     | CmdNote _ k _ \<Rightarrow> [k]
     | CmdBegin _ k _ v _ _ \<Rightarrow> [k, v]
     | CmdCheckpoint _ k _ v _ \<Rightarrow> [k, v]
     | CmdPause _ k _ v _ _ \<Rightarrow> [k, v]
     | CmdComplete _ k _ v _ \<Rightarrow> [k, v]
     | CmdCancel _ k v _ \<Rightarrow> [k, v]
     | CmdReopen _ k v _ \<Rightarrow> [k, v]
     | CmdInterrupt _ k v _ \<Rightarrow> [k, v]
     | CmdConfirmStopped _ k _ v _ \<Rightarrow> [k, v])"

text \<open>What the body of a command has to satisfy, whoever sends it.\<close>

fun body_ok :: "(report_body \<Rightarrow> nat) \<Rightarrow> task_command \<Rightarrow> bool" where
  "body_ok len (CmdCreate _ title description) =
     (validate_title title = Inr () \<and> validate_description description = Inr ())"
| "body_ok len (CmdEdit _ _ _ title description) =
     (\<not> (title = None \<and> description = None) \<and> opt_all (\<lambda>t. validate_title t = Inr ()) title \<and>
      opt_all (\<lambda>x. validate_description x = Inr ()) description)"
| "body_ok len (CmdAssign _ _ _ agent_id) = opt_all is_agent_id agent_id"
| "body_ok len (CmdNote _ _ remark) = (validate_note remark = Inr ())"
| "body_ok len (CmdBegin _ _ work_request_id _ _ remark) =
     (validate_handoff_note remark = Inr () \<and> is_request_id work_request_id)"
| "body_ok len (CmdCheckpoint _ _ _ _ checkpoint) = (checkpoint_validate len checkpoint = Inr ())"
| "body_ok len (CmdPause _ _ _ _ checkpoint _) = (checkpoint_validate len checkpoint = Inr ())"
| "body_ok len (CmdComplete _ _ _ _ checkpoint) = (checkpoint_validate len checkpoint = Inr ())"
| "body_ok len (CmdCancel _ _ _ remark) = (validate_handoff_note remark = Inr ())"
| "body_ok len (CmdReopen _ _ _ remark) = (validate_handoff_note remark = Inr ())"
| "body_ok len (CmdInterrupt _ _ _ remark) = (validate_handoff_note remark = Inr ())"
| "body_ok len (CmdConfirmStopped _ _ _ _ remark) = (validate_handoff_note remark = Inr ())"

definition only_denied :: "task_error + unit \<Rightarrow> bool" where
  "only_denied x \<longleftrightarrow> (\<forall>e. x = Inl e \<longrightarrow> err_code e = PermissionDenied)"

lemma only_denied_simps:
  "only_denied (Inr u)"
  "only_denied (Inl e) \<longleftrightarrow> err_code e = PermissionDenied"
  "only_denied (require_executor caller op)"
  "only_denied (map_err (\<lambda>_. task_error_code InvalidMessage op) x) \<longleftrightarrow> x = Inr ()"
  "only_denied (guardR b (task_error_code InvalidMessage op)) \<longleftrightarrow> b"
  "only_denied (bindR (map_err (\<lambda>_. task_error_code InvalidMessage op) x) k) \<longleftrightarrow> x = Inr () \<and> only_denied (k ())"
  "only_denied (bindR (guardR b (task_error_code InvalidMessage op)) l) \<longleftrightarrow> b \<and> only_denied (l ())"
  by (cases x; simp add: only_denied_def require_executor_def guardR_def)+

lemma validate_command_denied: "only_denied (validate_command ev caller cmd) \<longleftrightarrow> only_denied (validate_body ev caller cmd)"
  by (cases "validate_body ev caller cmd") (simp_all add: validate_command_def only_denied_def)

lemma unit_bind_ok: "bindR x (\<lambda>_. y) = Inr () \<longleftrightarrow> x = Inr () \<and> y = Inr ()" for x :: "'e + unit"
  by (cases x) simp_all

lemma body_denied: "only_denied (validate_body ev caller cmd) \<longleftrightarrow> body_ok (body_json_len ev) cmd"
proof (cases cmd)
  case (CmdEdit op k v title description)
  then show ?thesis
    by (cases title; cases description) (simp_all add: only_denied_simps opt_all_def)
qed (simp_all add: only_denied_simps unit_bind_ok opt_all_def split: option.splits)

lemma positive_safe_iff: "validate_positive_safe_integer i = Inr () \<longleftrightarrow> 1 \<le> i \<and> i < 2 ^ 53"
  by (auto simp: validate_positive_safe_integer_def MAX_SAFE_INTEGER_def)

lemma message_accepted:
  assumes "command_of m = Some (ws, cmd)" and "request_id m = Some rid"
  shows "validate_client_message w m = Inr () \<longleftrightarrow>
    is_request_id rid \<and> (\<forall>i\<in>set (command_numbers cmd). 1 \<le> i \<and> i < 2 ^ 53) \<and> body_ok (wr_body_len w) cmd"
proof -
  have "validate_client_message w m = Inr () \<longleftrightarrow> is_request_id rid \<and> validate_client_body w m = Inr ()"
    by (simp add: validate_client_message_def assms(2) opt_all_def unit_bind_ok)
  moreover have "validate_client_body w m = Inr () \<longleftrightarrow>
      (\<forall>i\<in>set (command_numbers cmd). 1 \<le> i \<and> i < 2 ^ 53) \<and> body_ok (wr_body_len w) cmd"
    using assms(1)
    by (cases m) (auto simp: command_of_def command_numbers_def validate_task_version_def unit_bind_ok
        positive_safe_iff opt_all_def simp del: power_numeral split: option.splits)
  ultimately show ?thesis by blast
qed

text \<open>C11. The two validations agree. The dispatcher hands a task message on as a command, and the protocol
  accepts the message exactly when its request id is well formed, the task number and the expected version are
  positive integers below two to the 53rd, and the task model refuses the command for nothing but who sends it:
  the protocol lets no malformed command through and is no stricter about a body than the task model.\<close>

theorem accepted_message_valid_command:
  assumes "command_of m = Some (ws, cmd)" and "request_id m = Some rid"
    and "body_json_len tev = wr_body_len w"
  shows "router_dispatch ev c g m = task_mutate ev c g rid ws cmd \<and>
    (validate_client_message w m = Inr () \<longleftrightarrow>
       is_request_id rid \<and> (\<forall>i\<in>set (command_numbers cmd). 1 \<le> i \<and> i < 2 ^ 53) \<and>
       (\<forall>e. validate_command tev caller cmd = Inl e \<longrightarrow> err_code e = PermissionDenied))"
proof
  show "router_dispatch ev c g m = task_mutate ev c g rid ws cmd"
    using command_of_dispatch [OF assms(1)] assms(2) by fastforce
  show "validate_client_message w m = Inr () \<longleftrightarrow>
       is_request_id rid \<and> (\<forall>i\<in>set (command_numbers cmd). 1 \<le> i \<and> i < 2 ^ 53) \<and>
       (\<forall>e. validate_command tev caller cmd = Inl e \<longrightarrow> err_code e = PermissionDenied)"
    using message_accepted [OF assms(1,2), of w] validate_command_denied [of tev caller cmd]
      body_denied [of tev caller cmd] unfolding only_denied_def assms(3) by blast
qed

text \<open>A wire that reads nothing, and a message with a note.\<close>

definition wireW :: wire where
  "wireW = \<lparr>wr_object = (\<lambda>_. None), wr_client = (\<lambda>_. None), wr_server = (\<lambda>_. None),
     wr_text_len = (\<lambda>s. Some (length s + 2)), wr_body_len = (\<lambda>_. 100), wr_content = (\<lambda>_. ''c''), wr_codec = codecA\<rparr>"

definition noteW :: client_message where "noteW = MTaskNote ''r1'' ws0 5 1 ''n''"

theorem accepted_message_valid_command_witness:
  "router_dispatch renv0 1 1 noteW = task_mutate renv0 1 1 ''r1'' ws0 (CmdNote 5 1 ''n'') \<and>
   validate_client_message wireW noteW = Inr () \<and>
   validate_client_message wireW (MTaskNote ''r1'' ws0 5 1 []) \<noteq> Inr ()"
proof -
  have "validate_command (env_at renv0 0) admin0 (CmdNote 5 1 ''n'') = Inr ()"
    "validate_command (env_at renv0 0) admin0 (CmdNote 5 1 []) = Inl (task_error_code InvalidMessage (Some 5))"
    "is_request_id ''r1''" "body_json_len (env_at renv0 0) = wr_body_len wireW"
    by (simp_all add: validate_command_def validate_note_def MAX_NOTE_BYTES_def validate_nonempty_text_def
        validate_text_def is_request_id_def MAX_AGENT_ID_BYTES_def is_ascii_def byte_def is_ascii_alphanumeric_def
        env_at_def renv0_def wireW_def)
  then show ?thesis
    using accepted_message_valid_command [of noteW ws0 "CmdNote 5 1 ''n''" "''r1''" "env_at renv0 0" wireW renv0 1 1 admin0]
      accepted_message_valid_command [of "MTaskNote ''r1'' ws0 5 1 []" ws0 "CmdNote 5 1 []" "''r1''" "env_at renv0 0"
        wireW renv0 1 1 admin0]
    by (simp add: noteW_def command_of_def command_numbers_def)
qed

section \<open>A listing that the client refuses\<close>

text \<open>Nothing keeps a credential from being revoked at a time before it was created, when the clock has been
  set back; the router sends the listing with it, and the client refuses the whole page.\<close>

definition listing_of :: "db \<Rightarrow> server_message" where
  "listing_of d = (case list_credentials d None 100 of
     Inr (rows, after, has_more) \<Rightarrow> SCredentials ''r1'' (map (\<lambda>r. \<lparr>cs_claims = sc_claims r,
       cs_created_at = sc_created_at r, cs_revoked_at = sc_revoked_at r\<rparr>) rows) after has_more)"

lemma revoked_early_refused:
  "\<exists>d. revoke_credential 1 11 db0 = Inr (d, True) \<and>
     validate_server_message wireW (listing_of db0) = Inr () \<and>
     validate_server_message wireW (listing_of d) = Inl InvalidMessage"
  by (simp add: revoke_credential_def update_credentials_def listing_of_def list_credentials_def credential_from_row_def
      validate_server_message_def is_request_id_def MAX_AGENT_ID_BYTES_def is_ascii_def byte_def pop_page_def
      is_ascii_alphanumeric_def opt_all_def scenario check_simps statement_simps guardR_def)

end
