(* ===== verification/Provider_Inbox.thy ===== *)
theory Provider_Inbox
  imports Router_Types
begin

text \<open>
  The inbox of a provider host (\<^verbatim>\<open>src/providers/inbox.rs\<close>) with the types of \<^verbatim>\<open>src/providers/mod.rs\<close> it
  uses: one turn at a time, its task fence, its cancellation, and the stop that has to be confirmed before
  the next turn. The mutex makes every method one step on the state.
\<close>

section \<open>Types of the providers\<close>

datatype provider_error =
    ProviderNotReady | SessionBusy | PeRequestTimeout | ProviderDisconnected | CodexInitializeFailed
  | CodexProtocolError | CodexTurnInterrupted | CodexTurnFailed | CodexNoFinalResponse
  | ClaudeInitializeFailed | BridgeProtocolError | ClaudeProtocolError | ClaudeMaxTurns | ClaudeMaxBudget
  | ClaudeStructuredOutputError | ClaudeExecutionError | ClaudeNoResult | ClaudeSdkError
  | InvalidLaunchContext | RouterLifecycleUnavailable | ExecutionFenceChanged | LaunchFailed

primrec provider_error_code :: "provider_error \<Rightarrow> string" where
  "provider_error_code ProviderNotReady = ''provider_not_ready''"
| "provider_error_code SessionBusy = ''session_busy''"
| "provider_error_code PeRequestTimeout = ''request_timeout''"
| "provider_error_code ProviderDisconnected = ''provider_disconnected''"
| "provider_error_code CodexInitializeFailed = ''codex_initialize_failed''"
| "provider_error_code CodexProtocolError = ''codex_protocol_error''"
| "provider_error_code CodexTurnInterrupted = ''codex_turn_interrupted''"
| "provider_error_code CodexTurnFailed = ''codex_turn_failed''"
| "provider_error_code CodexNoFinalResponse = ''codex_no_final_response''"
| "provider_error_code ClaudeInitializeFailed = ''claude_initialize_failed''"
| "provider_error_code BridgeProtocolError = ''bridge_protocol_error''"
| "provider_error_code ClaudeProtocolError = ''claude_protocol_error''"
| "provider_error_code ClaudeMaxTurns = ''claude_max_turns''"
| "provider_error_code ClaudeMaxBudget = ''claude_max_budget''"
| "provider_error_code ClaudeStructuredOutputError = ''claude_structured_output_error''"
| "provider_error_code ClaudeExecutionError = ''claude_execution_error''"
| "provider_error_code ClaudeNoResult = ''claude_no_result''"
| "provider_error_code ClaudeSdkError = ''claude_sdk_error''"
| "provider_error_code InvalidLaunchContext = ''invalid_launch_context''"
| "provider_error_code RouterLifecycleUnavailable = ''router_lifecycle_unavailable''"
| "provider_error_code ExecutionFenceChanged = ''execution_fence_changed''"
| "provider_error_code LaunchFailed = ''provider_launch_failed''"

datatype cancel_reason = CrRequestTimeout | CrProviderDisconnected | CrTaskInterrupted | CrRequestCancelled

primrec cancel_reason_as_str :: "cancel_reason \<Rightarrow> string" where
  "cancel_reason_as_str CrRequestTimeout = ''request_timeout''"
| "cancel_reason_as_str CrProviderDisconnected = ''provider_disconnected''"
| "cancel_reason_as_str CrTaskInterrupted = ''task_interrupted''"
| "cancel_reason_as_str CrRequestCancelled = ''request_cancelled''"

datatype terminal_reason =
    TrTurnEnded | TrSessionEnded | TrHostError | TrOperatorInterrupt | TrRequestTimeout | TrRequestCancelled

record terminal_evidence =
  tev_request_id :: string
  tev_reason :: terminal_reason
  tev_child_reaped :: bool

record session_request =
  sr_request_id :: string
  sr_workspace :: "workspace_name option"
  sr_from :: string
  sr_content :: string
  sr_deadline :: nat
  sr_task :: "task_dispatch option"

datatype session_result = ResultSuccess string | ResultFailure provider_error

section \<open>The inbox\<close>

datatype inbox_phase = PhaseIdle | PhaseRunning | PhaseCancelling | PhaseStopPending | PhaseClosed

record inbox_active =
  ib_workspace :: workspace_name
  ib_request_id :: string
  ib_task :: "task_dispatch option"
  ib_fence :: "task_fence option"
  ib_result_settled :: bool
  ib_cancel_reason :: "cancel_reason option"

record pending_stop =
  ps_active :: inbox_active
  ps_evidence :: terminal_evidence
  ps_action_issued :: bool

datatype inbox_state =
    InboxIdle | InboxActive inbox_active | InboxStopPending pending_stop | InboxClosed

record inbox_action =
  ia_workspace :: workspace_name
  ia_evidence :: terminal_evidence
  ia_fence :: "task_fence option"
  ia_cancelled :: bool

fun inbox_phase_of :: "inbox_state \<Rightarrow> inbox_phase" where
  "inbox_phase_of InboxIdle = PhaseIdle"
| "inbox_phase_of (InboxActive a) = (if ib_cancel_reason a \<noteq> None then PhaseCancelling else PhaseRunning)"
| "inbox_phase_of (InboxStopPending _) = PhaseStopPending"
| "inbox_phase_of InboxClosed = PhaseClosed"

definition inbox_begin :: "session_request \<Rightarrow> inbox_state \<Rightarrow> (provider_error + unit) \<times> inbox_state" where
  "inbox_begin request s =
     (case sr_workspace request of
        None \<Rightarrow> (Inl ExecutionFenceChanged, s)
      | Some workspace \<Rightarrow>
          (case s of
             InboxIdle \<Rightarrow>
               (Inr (), InboxActive \<lparr>ib_workspace = workspace, ib_request_id = sr_request_id request,
                  ib_task = sr_task request, ib_fence = None, ib_result_settled = False,
                  ib_cancel_reason = None\<rparr>)
           | InboxClosed \<Rightarrow> (Inl ProviderNotReady, s)
           | _ \<Rightarrow> (Inl SessionBusy, s)))"

definition validate_fence :: "inbox_active \<Rightarrow> string \<Rightarrow> task_fence \<Rightarrow> provider_error + unit" where
  "validate_fence a rid fence =
     guardR (\<not> (ib_request_id a \<noteq> rid \<or> map_option dp_id (ib_task a) \<noteq> Some (fst fence) \<or>
                (case ib_fence a of None \<Rightarrow> False | Some current \<Rightarrow> current \<noteq> fence))) ExecutionFenceChanged"

fun validate_cancel_fence :: "inbox_active \<Rightarrow> task_fence option \<Rightarrow> provider_error + unit" where
  "validate_cancel_fence a fence =
     guardR (case (ib_task a, ib_fence a, fence) of
         (Some task, Some bound, Some cancelled) \<Rightarrow> dp_id task = fst cancelled \<and> bound = cancelled
       | (None, None, None) \<Rightarrow> True
       | _ \<Rightarrow> False) ExecutionFenceChanged"

definition take_terminal_action :: "pending_stop \<Rightarrow> inbox_action option \<times> pending_stop" where
  "take_terminal_action p =
     (if ps_action_issued p \<or> (ib_task (ps_active p) \<noteq> None \<and> ib_fence (ps_active p) = None) then (None, p)
      else (Some \<lparr>ia_workspace = ib_workspace (ps_active p), ia_evidence = ps_evidence p,
                  ia_fence = ib_fence (ps_active p), ia_cancelled = (ib_cancel_reason (ps_active p) \<noteq> None)\<rparr>,
            p\<lparr>ps_action_issued := True\<rparr>))"

definition bind_task_fence ::
  "string \<Rightarrow> task_fence \<Rightarrow> inbox_state \<Rightarrow> (provider_error + inbox_action option) \<times> inbox_state" where
  "bind_task_fence rid fence s =
     (case s of
        InboxActive a \<Rightarrow>
          (case validate_fence a rid fence of
             Inl e \<Rightarrow> (Inl e, s)
           | Inr _ \<Rightarrow> (Inr None, InboxActive (a\<lparr>ib_fence := Some fence\<rparr>)))
      | InboxStopPending p \<Rightarrow>
          (case validate_fence (ps_active p) rid fence of
             Inl e \<Rightarrow> (Inl e, s)
           | Inr _ \<Rightarrow>
               (case take_terminal_action (p\<lparr>ps_active := (ps_active p)\<lparr>ib_fence := Some fence\<rparr>\<rparr>) of
                  (action, p1) \<Rightarrow> (Inr action, InboxStopPending p1)))
      | _ \<Rightarrow> (Inl ProviderNotReady, s))"

definition settle_active :: "string \<Rightarrow> inbox_active \<Rightarrow> (bool \<times> inbox_active)" where
  "settle_active rid a =
     (if ib_request_id a \<noteq> rid \<or> ib_result_settled a then (False, a)
      else (True, a\<lparr>ib_result_settled := True\<rparr>))"

definition result_settled :: "string \<Rightarrow> inbox_state \<Rightarrow> bool \<times> inbox_state" where
  "result_settled rid s =
     (case s of
        InboxActive a \<Rightarrow> map_prod id InboxActive (settle_active rid a)
      | InboxStopPending p \<Rightarrow>
          map_prod id (\<lambda>a. InboxStopPending (p\<lparr>ps_active := a\<rparr>)) (settle_active rid (ps_active p))
      | _ \<Rightarrow> (False, s))"

definition request_cancel ::
  "workspace_name \<Rightarrow> string \<Rightarrow> task_fence option \<Rightarrow> cancel_reason \<Rightarrow> inbox_state \<Rightarrow>
     (provider_error + bool) \<times> inbox_state" where
  "request_cancel workspace rid fence reason s =
     (case s of
        InboxActive a \<Rightarrow>
          if ib_workspace a \<noteq> workspace \<or> ib_request_id a \<noteq> rid then (Inl ExecutionFenceChanged, s)
          else (case validate_cancel_fence a fence of
                  Inl e \<Rightarrow> (Inl e, s)
                | Inr _ \<Rightarrow>
                    if ib_cancel_reason a \<noteq> None then (Inr False, s)
                    else (Inr True, InboxActive (a\<lparr>ib_cancel_reason := Some reason\<rparr>)))
      | InboxStopPending _ \<Rightarrow> (Inr False, s)
      | _ \<Rightarrow> (Inl ProviderNotReady, s))"

definition acknowledge_cancel :: "string \<Rightarrow> inbox_state \<Rightarrow> bool" where
  "acknowledge_cancel rid s =
     (case s of InboxActive a \<Rightarrow> ib_request_id a = rid \<and> ib_cancel_reason a \<noteq> None | _ \<Rightarrow> False)"

definition observe_terminal :: "terminal_evidence \<Rightarrow> inbox_state \<Rightarrow> inbox_action option \<times> inbox_state" where
  "observe_terminal evidence s =
     (case s of
        InboxActive a \<Rightarrow>
          if ib_request_id a \<noteq> tev_request_id evidence then (None, s)
          else (case take_terminal_action
                       \<lparr>ps_active = a, ps_evidence = evidence, ps_action_issued = False\<rparr> of
                  (action, p) \<Rightarrow> (action, InboxStopPending p))
      | _ \<Rightarrow> (None, s))"

definition confirm_stopped ::
  "workspace_name \<Rightarrow> string \<Rightarrow> task_fence option \<Rightarrow> inbox_state \<Rightarrow> bool \<times> inbox_state" where
  "confirm_stopped workspace rid fence s =
     (case s of
        InboxStopPending p \<Rightarrow>
          if ib_workspace (ps_active p) \<noteq> workspace \<or> ib_request_id (ps_active p) \<noteq> rid \<or>
             ib_fence (ps_active p) \<noteq> fence \<or> (ib_task (ps_active p) \<noteq> None \<and> fence = None) \<or>
             \<not> ps_action_issued p
          then (False, s) else (True, InboxIdle)
      | _ \<Rightarrow> (False, s))"

definition inbox_close :: "inbox_state \<Rightarrow> (provider_error + unit) \<times> inbox_state" where
  "inbox_close s =
     (case s of InboxIdle \<Rightarrow> (Inr (), InboxClosed) | InboxClosed \<Rightarrow> (Inr (), s) | _ \<Rightarrow> (Inl SessionBusy, s))"

section \<open>Runs of the inbox\<close>

datatype inbox_op =
    CallBegin session_request
  | CallBind string task_fence
  | CallSettle string
  | CallCancel workspace_name string "task_fence option" cancel_reason
  | CallTerminal terminal_evidence
  | CallConfirm workspace_name string "task_fence option"
  | CallClose

text \<open>What the host learns from a call that matters to the order of turns.\<close>

datatype milestone = Began session_request | Issued inbox_action | Confirmed string

fun inbox_call :: "inbox_op \<Rightarrow> inbox_state \<Rightarrow> milestone list \<times> inbox_state" where
  "inbox_call (CallBegin r) s =
     (case inbox_begin r s of (Inr _, s1) \<Rightarrow> ([Began r], s1) | (Inl _, s1) \<Rightarrow> ([], s1))"
| "inbox_call (CallBind rid fence) s =
     (case bind_task_fence rid fence s of (Inr (Some a), s1) \<Rightarrow> ([Issued a], s1) | (_, s1) \<Rightarrow> ([], s1))"
| "inbox_call (CallSettle rid) s = ([], snd (result_settled rid s))"
| "inbox_call (CallCancel ws rid fence reason) s = ([], snd (request_cancel ws rid fence reason s))"
| "inbox_call (CallTerminal ev) s =
     (case observe_terminal ev s of (Some a, s1) \<Rightarrow> ([Issued a], s1) | (None, s1) \<Rightarrow> ([], s1))"
| "inbox_call (CallConfirm ws rid fence) s =
     (case confirm_stopped ws rid fence s of (True, s1) \<Rightarrow> ([Confirmed rid], s1) | (False, s1) \<Rightarrow> ([], s1))"
| "inbox_call CallClose s = ([], snd (inbox_close s))"

fun inbox_run :: "inbox_op list \<Rightarrow> inbox_state \<Rightarrow> milestone list \<times> inbox_state" where
  "inbox_run [] s = ([], s)"
| "inbox_run (c # cs) s =
     (let (ms, s1) = inbox_call c s; (ns, s2) = inbox_run cs s1 in (ms @ ns, s2))"

section \<open>What a turn is\<close>

text \<open>The abstract machine: a turn begins, its stop is announced once, the stop is confirmed; only then
  another turn begins.\<close>

datatype turn_state = NoTurn | Turn session_request | Stopping session_request

fun turn_step :: "milestone \<Rightarrow> turn_state \<Rightarrow> turn_state option" where
  "turn_step (Began r) NoTurn = Some (Turn r)"
| "turn_step (Issued a) (Turn r) =
     (if tev_request_id (ia_evidence a) = sr_request_id r \<and> Some (ia_workspace a) = sr_workspace r \<and>
         map_option fst (ia_fence a) = map_option dp_id (sr_task r)
      then Some (Stopping r) else None)"
| "turn_step (Confirmed rid) (Stopping r) = (if rid = sr_request_id r then Some NoTurn else None)"
| "turn_step _ _ = None"

fun turn_steps :: "milestone list \<Rightarrow> turn_state \<Rightarrow> turn_state option" where
  "turn_steps [] t = Some t"
| "turn_steps (m # ms) t = (case turn_step m t of None \<Rightarrow> None | Some t1 \<Rightarrow> turn_steps ms t1)"

text \<open>The states of the inbox that stand for a state of the machine.\<close>

definition about :: "session_request \<Rightarrow> inbox_active \<Rightarrow> bool" where
  "about r a \<longleftrightarrow> sr_workspace r = Some (ib_workspace a) \<and> ib_request_id a = sr_request_id r \<and>
     ib_task a = sr_task r \<and> (\<forall>f. ib_fence a = Some f \<longrightarrow> map_option dp_id (sr_task r) = Some (fst f))"

fun stands_for :: "inbox_state \<Rightarrow> turn_state \<Rightarrow> bool" where
  "stands_for InboxIdle t \<longleftrightarrow> t = NoTurn"
| "stands_for InboxClosed t \<longleftrightarrow> t = NoTurn"
| "stands_for (InboxActive a) t \<longleftrightarrow> (\<exists>r. t = Turn r \<and> about r a)"
| "stands_for (InboxStopPending p) t \<longleftrightarrow>
     (\<exists>r. t = (if ps_action_issued p then Stopping r else Turn r) \<and> about r (ps_active p) \<and>
        tev_request_id (ps_evidence p) = sr_request_id r)"

lemma begin_simulates:
  assumes "stands_for s t" and "inbox_call (CallBegin r) s = (ms, s')"
  shows "\<exists>t'. turn_steps ms t = Some t' \<and> stands_for s' t'"
  using assms by (cases s) (auto simp: inbox_begin_def about_def split: option.splits)

lemma take_terminal_cases:
  "take_terminal_action p = (None, p) \<and> (ps_action_issued p \<or> (ib_task (ps_active p) \<noteq> None \<and> ib_fence (ps_active p) = None))
   \<or> (\<exists>a. take_terminal_action p = (Some a, p\<lparr>ps_action_issued := True\<rparr>) \<and> \<not> ps_action_issued p \<and>
        (ib_task (ps_active p) = None \<or> ib_fence (ps_active p) \<noteq> None) \<and>
        ia_workspace a = ib_workspace (ps_active p) \<and> ia_evidence a = ps_evidence p \<and> ia_fence a = ib_fence (ps_active p))"
  by (auto simp: take_terminal_action_def)

lemma issue_simulates:
  assumes act: "take_terminal_action p = (action, p')"
    and about: "about r (ps_active p)" "tev_request_id (ps_evidence p) = sr_request_id r"
  shows "\<exists>t'. turn_steps (case action of None \<Rightarrow> [] | Some a \<Rightarrow> [Issued a])
                (if ps_action_issued p then Stopping r else Turn r) = Some t' \<and> stands_for (InboxStopPending p') t'"
  using take_terminal_cases [of p] act about
  by (cases "ib_fence (ps_active p)") (auto simp: about_def)

lemma bind_simulates:
  assumes "stands_for s t" and "inbox_call (CallBind rid fence) s = (ms, s')"
  shows "\<exists>t'. turn_steps ms t = Some t' \<and> stands_for s' t'"
proof (cases s)
  case (InboxStopPending p)
  show ?thesis
  proof (cases "validate_fence (ps_active p) rid fence")
    case (Inr u)
    obtain r where r: "t = (if ps_action_issued p then Stopping r else Turn r)" "about r (ps_active p)"
        "tev_request_id (ps_evidence p) = sr_request_id r"
      using assms(1) InboxStopPending by auto
    let ?p = "p\<lparr>ps_active := (ps_active p)\<lparr>ib_fence := Some fence\<rparr>\<rparr>"
    obtain action q where q: "take_terminal_action ?p = (action, q)" by fastforce
    have "about r (ps_active ?p)"
      using r(2) Inr by (auto simp: about_def validate_fence_def guardR_def split: if_splits)
    from issue_simulates [OF q this] r Inr InboxStopPending assms(2) q show ?thesis
      by (auto simp: bind_task_fence_def split: option.splits)
  qed (use assms InboxStopPending in \<open>auto simp: bind_task_fence_def\<close>)
qed (use assms in \<open>auto simp: bind_task_fence_def about_def validate_fence_def guardR_def split: sum.splits if_splits\<close>)

lemma terminal_simulates:
  assumes "stands_for s t" and "inbox_call (CallTerminal ev) s = (ms, s')"
  shows "\<exists>t'. turn_steps ms t = Some t' \<and> stands_for s' t'"
proof (cases s)
  case (InboxActive a)
  let ?p = "\<lparr>ps_active = a, ps_evidence = ev, ps_action_issued = False\<rparr>"
  obtain r where r: "t = Turn r" "about r a" using assms(1) InboxActive by auto
  obtain action q where q: "take_terminal_action ?p = (action, q)" by fastforce
  show ?thesis
  proof (cases "ib_request_id a = tev_request_id ev")
    case True
    then have "tev_request_id (ps_evidence ?p) = sr_request_id r" using r(2) by (simp add: about_def)
    from issue_simulates [OF q _ this] r True q assms(2) InboxActive show ?thesis
      by (auto simp: observe_terminal_def split: option.splits)
  qed (use assms InboxActive in \<open>auto simp: observe_terminal_def\<close>)
qed (use assms in \<open>auto simp: observe_terminal_def\<close>)

lemma call_simulates:
  assumes "stands_for s t" and "inbox_call c s = (ms, s')"
  shows "\<exists>t'. turn_steps ms t = Some t' \<and> stands_for s' t'"
proof (cases c)
  case (CallBegin r)
  then show ?thesis using begin_simulates assms by blast
next
  case (CallBind rid fence)
  then show ?thesis using bind_simulates assms by blast
next
  case (CallSettle rid)
  then show ?thesis using assms
    by (cases s) (auto simp: result_settled_def settle_active_def about_def)
next
  case (CallCancel ws rid fence reason)
  then show ?thesis using assms
    by (cases s) (auto simp: request_cancel_def about_def split: sum.splits)
next
  case (CallTerminal ev)
  then show ?thesis using terminal_simulates assms by blast
next
  case (CallConfirm ws rid fence)
  then show ?thesis using assms
    by (cases s) (auto simp: confirm_stopped_def about_def split: if_splits)
next
  case CallClose
  then show ?thesis using assms by (cases s) (auto simp: inbox_close_def)
qed

lemma turn_steps_append:
  "turn_steps (ms @ ns) t = (case turn_steps ms t of None \<Rightarrow> None | Some t' \<Rightarrow> turn_steps ns t')"
  by (induction ms arbitrary: t) (auto split: option.split)

lemma run_simulates:
  "stands_for s t \<Longrightarrow> inbox_run cs s = (ms, s') \<Longrightarrow> \<exists>t'. turn_steps ms t = Some t' \<and> stands_for s' t'"
proof (induction cs arbitrary: s t ms s')
  case (Cons c cs)
  obtain m1 s1 where c: "inbox_call c s = (m1, s1)" by fastforce
  obtain m2 s2 where d: "inbox_run cs s1 = (m2, s2)" by fastforce
  obtain t1 where t1: "turn_steps m1 t = Some t1" "stands_for s1 t1"
    using call_simulates [OF Cons.prems(1) c] by blast
  from Cons.IH [OF t1(2) d] t1(1) c d Cons.prems(2) show ?case by (auto simp: turn_steps_append)
qed simp

end
