(* ===== verification/Provider_Host.thy ===== *)
theory Provider_Host
  imports Provider_Inbox
begin

text \<open>
  The host of a provider: the lifecycle adapter and the managed provider of \<^verbatim>\<open>src/providers/router.rs\<close>
  and the loop around them of \<^verbatim>\<open>src/hosts.rs\<close>. A call of \<^verbatim>\<open>handle\<close> is split at its
  \<^verbatim>\<open>await\<close> points, so that concurrent calls and cancellations interleave there; what the client, the
  provider and the clock answer are arguments of the steps.
\<close>

section \<open>State\<close>

record execution_barrier =
  eb_session_id :: uuid
  eb_current :: "task_fence option"
  eb_stop_pending :: "task_fence option"

record barrier_lease =
  bl_session_id :: uuid
  bl_task :: "task_fence option"

record lifecycle_config =
  lc_workspace :: workspace_name
  lc_explicit_readiness :: bool

text \<open>What a call reads without waiting: whether the provider is ready, the clock at its first and at its
  second reading, the session of the client's connection.\<close>

record moment =
  mo_ready :: bool
  mo_now :: nat
  mo_then :: nat
  mo_session :: "uuid option"

datatype host_output =
    OutSetReady bool
  | OutTurn session_request uuid "task_fence option"
  | SawTerminal terminal_evidence
  | OutStopped workspace_name task_fence uuid task_execution_evidence pause_reason
  | OutWorkIdle workspace_name string "task_fence option" bool
  | OutCancel string cancel_reason
  | TurnClosed string

text \<open>Where a call of \<^verbatim>\<open>handle\<close> waits.\<close>

datatype host_pc =
    WaitNotReady session_request
  | WaitBarrier session_request uuid
  | WaitRestore session_request "provider_error option"
  | WaitProvider session_request
  | WaitTerminal string session_result
  | WaitStopBarrier inbox_action session_result barrier_lease uuid
  | WaitStopSent inbox_action session_result barrier_lease
  | WaitIdle inbox_action session_result
  | Returned session_result

record managed =
  mg_lease :: "barrier_lease option"
  mg_inbox :: inbox_state
  mg_calls :: "host_pc list"
  mg_log :: "host_output list"

definition managed_new :: managed where
  "managed_new = \<lparr>mg_lease = None, mg_inbox = InboxIdle, mg_calls = [], mg_log = []\<rparr>"

definition at_pc :: "nat \<Rightarrow> host_pc \<Rightarrow> managed \<Rightarrow> managed" where
  "at_pc i pc h = h\<lparr>mg_calls := (mg_calls h)[i := pc]\<rparr>"

definition tell :: "host_output \<Rightarrow> managed \<Rightarrow> managed" where
  "tell out h = h\<lparr>mg_log := mg_log h @ [out]\<rparr>"

definition fail_call :: "nat \<Rightarrow> provider_error \<Rightarrow> managed \<Rightarrow> managed" where
  "fail_call i e h = at_pc i (Returned (ResultFailure e)) h"

section \<open>The lifecycle adapter\<close>

fun matching_dispatch :: "task_dispatch option \<Rightarrow> task_fence option \<Rightarrow> bool" where
  "matching_dispatch (Some d) (Some fence) \<longleftrightarrow> dp_id d = fst fence"
| "matching_dispatch None None \<longleftrightarrow> True"
| "matching_dispatch _ _ \<longleftrightarrow> False"

primrec evidence_pause_reason :: "terminal_reason \<Rightarrow> pause_reason" where
  "evidence_pause_reason TrTurnEnded = TurnEnded"
| "evidence_pause_reason TrSessionEnded = SessionEnded"
| "evidence_pause_reason TrHostError = HostError"
| "evidence_pause_reason TrOperatorInterrupt = OperatorInterrupt"
| "evidence_pause_reason TrRequestTimeout = ReasonRequestTimeout"
| "evidence_pause_reason TrRequestCancelled = ReasonRequestCancelled"

definition evidence_kind :: "terminal_evidence \<Rightarrow> task_execution_evidence" where
  "evidence_kind e = (if tev_child_reaped e then ProviderClosed else ProviderTerminal)"

definition abandon_unowned_barrier :: "task_fence option \<Rightarrow> managed \<Rightarrow> managed" where
  "abandon_unowned_barrier task h =
     (case mg_lease h of
        Some lease \<Rightarrow> if bl_task lease = task then h\<lparr>mg_lease := None\<rparr> else h
      | None \<Rightarrow> h)"

text \<open>\<^verbatim>\<open>set_ready\<close> sends nothing and does not wait when readiness is not explicit.\<close>

definition set_ready_then ::
  "lifecycle_config \<Rightarrow> bool \<Rightarrow> nat \<Rightarrow> host_pc \<Rightarrow> (managed \<Rightarrow> managed) \<Rightarrow> managed \<Rightarrow> managed" where
  "set_ready_then cfg ready i pc k h =
     (if lc_explicit_readiness cfg then at_pc i pc (tell (OutSetReady ready) h) else k h)"

text \<open>The first part of \<^verbatim>\<open>acquire_barrier\<close>, up to the reading of the barrier, and the part after
  it.\<close>

definition acquire_start :: "moment \<Rightarrow> managed \<Rightarrow> provider_error + uuid" where
  "acquire_start m h =
     (if mg_lease h \<noteq> None then Inl provider_error.SessionBusy
      else case mo_session m of None \<Rightarrow> Inl RouterLifecycleUnavailable | Some session \<Rightarrow> Inr session)"

definition acquire_finish ::
  "uuid \<Rightarrow> execution_barrier option \<Rightarrow> managed \<Rightarrow> (provider_error + task_fence option) \<times> managed" where
  "acquire_finish session answer h =
     (case answer of
        None \<Rightarrow> (Inl RouterLifecycleUnavailable, h)
      | Some barrier \<Rightarrow>
          if eb_session_id barrier \<noteq> session \<or> eb_stop_pending barrier \<noteq> None
          then (Inl ExecutionFenceChanged, h)
          else if mg_lease h \<noteq> None then (Inl provider_error.SessionBusy, h)
          else (Inr (eb_current barrier),
                h\<lparr>mg_lease := Some \<lparr>bl_session_id = session, bl_task = eb_current barrier\<rparr>\<rparr>))"

text \<open>\<^verbatim>\<open>finish_execution\<close> before it reads the barrier, what it decides then, and its end.\<close>

definition finish_start :: "task_fence option \<Rightarrow> moment \<Rightarrow> managed \<Rightarrow> provider_error + (barrier_lease \<times> uuid)" where
  "finish_start task m h =
     (case mg_lease h of
        None \<Rightarrow> Inl ExecutionFenceChanged
      | Some lease \<Rightarrow>
          if bl_task lease \<noteq> task then Inl ExecutionFenceChanged
          else case mo_session m of None \<Rightarrow> Inl RouterLifecycleUnavailable | Some session \<Rightarrow> Inr (lease, session))"

definition finish_decide ::
  "task_fence option \<Rightarrow> barrier_lease \<Rightarrow> uuid \<Rightarrow> execution_barrier option \<Rightarrow> provider_error + task_fence option" where
  "finish_decide task lease session answer =
     (case answer of
        None \<Rightarrow> Inl RouterLifecycleUnavailable
      | Some barrier \<Rightarrow>
          if session \<noteq> bl_session_id lease \<or> eb_session_id barrier \<noteq> bl_session_id lease
          then Inl ExecutionFenceChanged
          else if task \<noteq> None \<and> (eb_current barrier = task \<or> eb_stop_pending barrier = task)
          then (case (eb_current barrier, eb_stop_pending barrier) of
                  (Some current, Some pending) \<Rightarrow>
                    if current \<noteq> pending then Inl ExecutionFenceChanged else Inr task
                | _ \<Rightarrow> Inr task)
          else if eb_current barrier = None \<and> eb_stop_pending barrier = None then Inr None
          else Inl ExecutionFenceChanged)"

definition finish_end :: "barrier_lease \<Rightarrow> managed \<Rightarrow> (provider_error + unit) \<times> managed" where
  "finish_end lease h =
     (if mg_lease h \<noteq> Some lease then (Inl ExecutionFenceChanged, h) else (Inr (), h\<lparr>mg_lease := None\<rparr>))"

section \<open>One call of handle\<close>

text \<open>The continuations, the last first.\<close>

definition after_idle :: "nat \<Rightarrow> inbox_action \<Rightarrow> session_result \<Rightarrow> bool \<Rightarrow> managed \<Rightarrow> managed" where
  "after_idle i action result ok h =
     (if \<not> ok then fail_call i RouterLifecycleUnavailable h
      else case confirm_stopped (ia_workspace action) (tev_request_id (ia_evidence action)) (ia_fence action)
                  (mg_inbox h) of
             (True, inbox) \<Rightarrow>
               at_pc i (Returned result)
                 (tell (TurnClosed (tev_request_id (ia_evidence action))) (h\<lparr>mg_inbox := inbox\<rparr>))
           | (False, _) \<Rightarrow> fail_call i ExecutionFenceChanged h)"

definition after_finish ::
  "lifecycle_config \<Rightarrow> moment \<Rightarrow> nat \<Rightarrow> inbox_action \<Rightarrow> session_result \<Rightarrow> barrier_lease \<Rightarrow> managed \<Rightarrow> managed" where
  "after_finish cfg m i action result lease h =
     (case finish_end lease h of
        (Inl e, h1) \<Rightarrow> fail_call i e h1
      | (Inr _, h1) \<Rightarrow>
          if ia_cancelled action
          then at_pc i (WaitIdle action result)
                 (tell (OutWorkIdle (ia_workspace action) (tev_request_id (ia_evidence action)) (ia_fence action)
                          (mo_ready m)) h1)
          else set_ready_then cfg (mo_ready m) i (WaitIdle action result) (after_idle i action result True) h1)"

definition after_stop_sent ::
  "lifecycle_config \<Rightarrow> moment \<Rightarrow> nat \<Rightarrow> inbox_action \<Rightarrow> session_result \<Rightarrow> barrier_lease \<Rightarrow> bool \<Rightarrow> managed \<Rightarrow>
     managed" where
  "after_stop_sent cfg m i action result lease ok h =
     (if ok then after_finish cfg m i action result lease h else fail_call i RouterLifecycleUnavailable h)"

definition after_stop_barrier ::
  "lifecycle_config \<Rightarrow> moment \<Rightarrow> nat \<Rightarrow> inbox_action \<Rightarrow> session_result \<Rightarrow> barrier_lease \<Rightarrow> uuid \<Rightarrow>
     execution_barrier option \<Rightarrow> managed \<Rightarrow> managed" where
  "after_stop_barrier cfg m i action result lease session answer h =
     (case finish_decide (ia_fence action) lease session answer of
        Inl e \<Rightarrow> fail_call i e h
      | Inr (Some fence) \<Rightarrow>
          at_pc i (WaitStopSent action result lease)
            (tell (OutStopped (lc_workspace cfg) fence (bl_session_id lease) (evidence_kind (ia_evidence action))
                     (evidence_pause_reason (tev_reason (ia_evidence action)))) h)
      | Inr None \<Rightarrow> after_finish cfg m i action result lease h)"

text \<open>What the receiver of terminal evidence yields: evidence, or an end (lagged, closed or out of
  time).\<close>

definition after_terminal ::
  "moment \<Rightarrow> nat \<Rightarrow> string \<Rightarrow> session_result \<Rightarrow> terminal_evidence option \<Rightarrow> managed \<Rightarrow> managed" where
  "after_terminal m i rid result received h =
     (case received of
        None \<Rightarrow> fail_call i RouterLifecycleUnavailable h
      | Some evidence \<Rightarrow>
          if tev_request_id evidence \<noteq> rid then h
          else
            (case observe_terminal evidence (mg_inbox h) of
               (None, inbox) \<Rightarrow> fail_call i ExecutionFenceChanged (h\<lparr>mg_inbox := inbox\<rparr>)
             | (Some action, inbox) \<Rightarrow>
                 (let h1 = tell (SawTerminal evidence) (h\<lparr>mg_inbox := inbox\<rparr>) in
                  case finish_start (ia_fence action) m h1 of
                    Inl e \<Rightarrow> fail_call i e h1
                  | Inr (lease, session) \<Rightarrow> at_pc i (WaitStopBarrier action result lease session) h1)))"

definition after_provider :: "nat \<Rightarrow> session_request \<Rightarrow> session_result \<Rightarrow> managed \<Rightarrow> managed" where
  "after_provider i request result h =
     at_pc i (WaitTerminal (sr_request_id request) result)
       (h\<lparr>mg_inbox := snd (result_settled (sr_request_id request) (mg_inbox h))\<rparr>)"

text \<open>A call that gave the barrier up claims readiness again and then fails, with the error of the inbox or, when
  it was refused before, with one that depends on the clock at that point.\<close>

definition restore_error :: "nat \<Rightarrow> session_request \<Rightarrow> provider_error option \<Rightarrow> provider_error" where
  "restore_error now request e =
     (case e of
        Some error \<Rightarrow> error
      | None \<Rightarrow> if sr_deadline request \<le> now then PeRequestTimeout else ExecutionFenceChanged)"

definition restore_ready ::
  "lifecycle_config \<Rightarrow> moment \<Rightarrow> nat \<Rightarrow> session_request \<Rightarrow> task_fence option \<Rightarrow> provider_error option \<Rightarrow>
     managed \<Rightarrow> managed" where
  "restore_ready cfg m i request fence e h =
     set_ready_then cfg (mo_ready m) i (WaitRestore request e) (fail_call i (restore_error (mo_then m) request e))
       (abandon_unowned_barrier fence h)"

definition after_barrier ::
  "lifecycle_config \<Rightarrow> moment \<Rightarrow> nat \<Rightarrow> session_request \<Rightarrow> uuid \<Rightarrow> execution_barrier option \<Rightarrow> managed \<Rightarrow>
     managed" where
  "after_barrier cfg m i request session answer h =
     (case acquire_finish session answer h of
        (Inl e, h1) \<Rightarrow> fail_call i e h1
      | (Inr fence, h1) \<Rightarrow>
          if \<not> matching_dispatch (sr_task request) fence \<or> sr_deadline request \<le> mo_now m
          then restore_ready cfg m i request fence None h1
          else
            (case inbox_begin request (mg_inbox h1) of
               (Inl e, _) \<Rightarrow> restore_ready cfg m i request fence (Some e) h1
             | (Inr _, inbox) \<Rightarrow>
                 (let h2 = h1\<lparr>mg_inbox := inbox\<rparr>; run = (\<lambda>g. at_pc i (WaitProvider request) (tell (OutTurn request session fence) g)) in
                  case fence of
                    None \<Rightarrow> run h2
                  | Some bound \<Rightarrow>
                      (case bind_task_fence (sr_request_id request) bound (mg_inbox h2) of
                         (Inl e, inbox) \<Rightarrow> fail_call i e (abandon_unowned_barrier fence (h2\<lparr>mg_inbox := inbox\<rparr>))
                       | (Inr _, inbox) \<Rightarrow> run (h2\<lparr>mg_inbox := inbox\<rparr>)))))"

definition after_not_ready :: "moment \<Rightarrow> nat \<Rightarrow> session_request \<Rightarrow> managed \<Rightarrow> managed" where
  "after_not_ready m i request h =
     (case acquire_start m h of
        Inl e \<Rightarrow> fail_call i e h
      | Inr session \<Rightarrow> at_pc i (WaitBarrier request session) h)"

definition start_handle :: "lifecycle_config \<Rightarrow> moment \<Rightarrow> session_request \<Rightarrow> managed \<Rightarrow> managed" where
  "start_handle cfg m request h0 =
     (let i = length (mg_calls h0); h = h0\<lparr>mg_calls := mg_calls h0 @ [WaitNotReady request]\<rparr> in
      if sr_workspace request \<noteq> Some (lc_workspace cfg) then fail_call i ExecutionFenceChanged h
      else if \<not> mo_ready m \<or> sr_deadline request \<le> mo_now m
      then fail_call i (if sr_deadline request \<le> mo_then m then PeRequestTimeout else provider_error.SessionBusy) h
      else set_ready_then cfg False i (WaitNotReady request) (after_not_ready m i request) h)"

text \<open>What a waiting call is answered.\<close>

datatype host_answer =
    AnsClient bool
  | AnsBarrier "execution_barrier option"
  | AnsProvider session_result
  | AnsTerminal "terminal_evidence option"

fun resume :: "lifecycle_config \<Rightarrow> moment \<Rightarrow> nat \<Rightarrow> host_pc \<Rightarrow> host_answer \<Rightarrow> managed \<Rightarrow> managed" where
  "resume cfg m i (WaitNotReady request) (AnsClient ok) h =
     (if ok then after_not_ready m i request h else fail_call i RouterLifecycleUnavailable h)"
| "resume cfg m i (WaitBarrier request session) (AnsBarrier answer) h =
     after_barrier cfg m i request session answer h"
| "resume cfg m i (WaitRestore request e) (AnsClient ok) h = fail_call i (restore_error (mo_now m) request e) h"
| "resume cfg m i (WaitProvider request) (AnsProvider result) h = after_provider i request result h"
| "resume cfg m i (WaitTerminal rid result) (AnsTerminal received) h = after_terminal m i rid result received h"
| "resume cfg m i (WaitStopBarrier action result lease session) (AnsBarrier answer) h =
     after_stop_barrier cfg m i action result lease session answer h"
| "resume cfg m i (WaitStopSent action result lease) (AnsClient ok) h =
     after_stop_sent cfg m i action result lease ok h"
| "resume cfg m i (WaitIdle action result) (AnsClient ok) h = after_idle i action result ok h"
| "resume cfg m i _ _ h = h"

definition managed_cancel ::
  "workspace_name \<Rightarrow> string \<Rightarrow> task_fence option \<Rightarrow> cancel_reason \<Rightarrow> (provider_error + unit) \<Rightarrow> managed \<Rightarrow>
     (provider_error + unit) \<times> managed" where
  "managed_cancel workspace rid task reason answer h =
     (case request_cancel workspace rid task reason (mg_inbox h) of
        (Inl e, _) \<Rightarrow> (Inl e, h)
      | (Inr False, _) \<Rightarrow> (Inr (), h)
      | (Inr True, inbox) \<Rightarrow> (answer, tell (OutCancel rid reason) (h\<lparr>mg_inbox := inbox\<rparr>)))"

text \<open>\<^verbatim>\<open>ready\<close>, \<^verbatim>\<open>activate\<close> and \<^verbatim>\<open>close\<close>; the last yields whether the provider
  was asked to close.\<close>

definition managed_ready :: "bool \<Rightarrow> managed \<Rightarrow> bool" where
  "managed_ready provider_ready h \<longleftrightarrow> provider_ready \<and> mg_inbox h = InboxIdle"

definition managed_set_ready ::
  "lifecycle_config \<Rightarrow> bool \<Rightarrow> bool \<Rightarrow> managed \<Rightarrow> (provider_error + unit) \<times> managed" where
  "managed_set_ready cfg ready ok h =
     (if \<not> lc_explicit_readiness cfg then (Inr (), h)
      else (if ok then Inr () else Inl RouterLifecycleUnavailable, tell (OutSetReady ready) h))"

definition managed_activate ::
  "lifecycle_config \<Rightarrow> moment \<Rightarrow> bool \<Rightarrow> managed \<Rightarrow> (provider_error + unit) \<times> managed" where
  "managed_activate cfg m ok h = managed_set_ready cfg (mo_ready m) ok h"

definition managed_close ::
  "lifecycle_config \<Rightarrow> bool \<Rightarrow> provider_error + unit \<Rightarrow> managed \<Rightarrow> (provider_error + unit) \<times> bool \<times> managed" where
  "managed_close cfg ok answer h =
     (case managed_set_ready cfg False ok h of
        (Inl e, h1) \<Rightarrow> (Inl e, False, h1)
      | (Inr _, h1) \<Rightarrow> (answer, True, h1))"

datatype managed_event =
    EvHandle moment session_request
  | EvAnswer moment nat host_answer
  | EvCancel workspace_name string "task_fence option" cancel_reason "provider_error + unit"
  | EvClose bool "provider_error + unit"

fun managed_step :: "lifecycle_config \<Rightarrow> managed_event \<Rightarrow> managed \<Rightarrow> managed" where
  "managed_step cfg (EvHandle m request) h = start_handle cfg m request h"
| "managed_step cfg (EvAnswer m i answer) h =
     (if i < length (mg_calls h) then resume cfg m i (mg_calls h ! i) answer h else h)"
| "managed_step cfg (EvCancel ws rid task reason answer) h = snd (managed_cancel ws rid task reason answer h)"
| "managed_step cfg (EvClose ok answer) h = snd (snd (managed_close cfg ok answer h))"

text \<open>A run starts with the activation.\<close>

definition managed_run :: "lifecycle_config \<Rightarrow> moment \<Rightarrow> bool \<Rightarrow> managed_event list \<Rightarrow> managed" where
  "managed_run cfg m ok evs = fold (managed_step cfg) evs (snd (managed_activate cfg m ok managed_new))"

section \<open>What the host promises\<close>

text \<open>A turn runs under the session and the fence that were read before it; nothing is reported of it
  before its terminal evidence, a stop at most once and exactly for its fence; readiness is not claimed
  while it runs; the next turn begins after it is closed.\<close>

datatype duty =
    Free
  | Turning session_request uuid "task_fence option"
  | Ended session_request uuid "task_fence option" terminal_evidence bool

fun duty_step :: "lifecycle_config \<Rightarrow> host_output \<Rightarrow> duty \<Rightarrow> duty option" where
  "duty_step cfg (OutTurn r session fence) Free =
     (if sr_workspace r = Some (lc_workspace cfg) \<and> matching_dispatch (sr_task r) fence
      then Some (Turning r session fence) else None)"
| "duty_step cfg (SawTerminal e) (Turning r session fence) =
     (if tev_request_id e = sr_request_id r then Some (Ended r session fence e False) else None)"
| "duty_step cfg (OutCancel rid reason) (Turning r session fence) =
     (if rid = sr_request_id r then Some (Turning r session fence) else None)"
| "duty_step cfg (OutStopped ws f s kind reason) (Ended r session fence e reported) =
     (if \<not> reported \<and> ws = lc_workspace cfg \<and> fence = Some f \<and> s = session \<and> kind = evidence_kind e \<and>
         reason = evidence_pause_reason (tev_reason e)
      then Some (Ended r session fence e True) else None)"
| "duty_step cfg (OutWorkIdle ws rid f ready) (Ended r session fence e reported) =
     (if ws = lc_workspace cfg \<and> rid = sr_request_id r \<and> f = fence
      then Some (Ended r session fence e reported) else None)"
| "duty_step cfg (TurnClosed rid) (Ended r session fence e reported) =
     (if rid = sr_request_id r then Some Free else None)"
| "duty_step cfg (OutSetReady ready) (Turning r session fence) =
     (if ready then None else Some (Turning r session fence))"
| "duty_step cfg (OutSetReady ready) d = Some d"
| "duty_step cfg _ _ = None"

fun duty_steps :: "lifecycle_config \<Rightarrow> host_output list \<Rightarrow> duty \<Rightarrow> duty option" where
  "duty_steps cfg [] d = Some d"
| "duty_steps cfg (out # outs) d = (case duty_step cfg out d of None \<Rightarrow> None | Some d1 \<Rightarrow> duty_steps cfg outs d1)"

lemma duty_steps_append:
  "duty_steps cfg (xs @ ys) d = (case duty_steps cfg xs d of None \<Rightarrow> None | Some d1 \<Rightarrow> duty_steps cfg ys d1)"
  by (induction xs arbitrary: d) (auto split: option.split)

lemma duty_not_ready [simp]: "duty_step cfg (OutSetReady False) d = Some d"
  by (cases d) simp_all

text \<open>How the lease, the inbox and the waiting calls stand to the state of the contract.\<close>

definition about_turn :: "lifecycle_config \<Rightarrow> session_request \<Rightarrow> task_fence option \<Rightarrow> inbox_active \<Rightarrow> bool" where
  "about_turn cfg r fence a \<longleftrightarrow> ib_workspace a = lc_workspace cfg \<and> ib_request_id a = sr_request_id r \<and>
     ib_task a = sr_task r \<and> ib_fence a = fence \<and> matching_dispatch (sr_task r) fence"

fun agrees :: "lifecycle_config \<Rightarrow> inbox_state \<Rightarrow> barrier_lease option \<Rightarrow> duty \<Rightarrow> bool" where
  "agrees cfg inbox lease Free \<longleftrightarrow> inbox = InboxIdle \<and> lease = None"
| "agrees cfg inbox lease (Turning r s f) \<longleftrightarrow>
     lease = Some \<lparr>bl_session_id = s, bl_task = f\<rparr> \<and> (\<exists>a. inbox = InboxActive a \<and> about_turn cfg r f a)"
| "agrees cfg inbox lease (Ended r s f e reported) \<longleftrightarrow>
     (lease = None \<or> lease = Some \<lparr>bl_session_id = s, bl_task = f\<rparr>) \<and> tev_request_id e = sr_request_id r \<and>
     (\<exists>p. inbox = InboxStopPending p \<and> ps_action_issued p \<and> ps_evidence p = e \<and> about_turn cfg r f (ps_active p))"

definition action_of :: "lifecycle_config \<Rightarrow> session_request \<Rightarrow> task_fence option \<Rightarrow> terminal_evidence \<Rightarrow>
    inbox_action \<Rightarrow> bool" where
  "action_of cfg r f e action \<longleftrightarrow>
     ia_workspace action = lc_workspace cfg \<and> ia_evidence action = e \<and> ia_fence action = f"

primrec owning :: "host_pc \<Rightarrow> bool" where
  "owning (WaitNotReady _) \<longleftrightarrow> False"
| "owning (WaitBarrier _ _) \<longleftrightarrow> False"
| "owning (WaitRestore _ _) \<longleftrightarrow> False"
| "owning (WaitProvider _) \<longleftrightarrow> True"
| "owning (WaitTerminal _ _) \<longleftrightarrow> True"
| "owning (WaitStopBarrier _ _ _ _) \<longleftrightarrow> True"
| "owning (WaitStopSent _ _ _) \<longleftrightarrow> True"
| "owning (WaitIdle _ _) \<longleftrightarrow> True"
| "owning (Returned _) \<longleftrightarrow> False"

primrec pc_ok :: "lifecycle_config \<Rightarrow> barrier_lease option \<Rightarrow> duty \<Rightarrow> host_pc \<Rightarrow> bool" where
  "pc_ok cfg held d (WaitNotReady r) \<longleftrightarrow> sr_workspace r = Some (lc_workspace cfg)"
| "pc_ok cfg held d (WaitBarrier r _) \<longleftrightarrow> sr_workspace r = Some (lc_workspace cfg)"
| "pc_ok cfg held d (WaitRestore _ _) \<longleftrightarrow> True"
| "pc_ok cfg held d (WaitProvider r) \<longleftrightarrow> (\<exists>s f. d = Turning r s f)"
| "pc_ok cfg held d (WaitTerminal rid _) \<longleftrightarrow> (\<exists>r s f. d = Turning r s f \<and> rid = sr_request_id r)"
| "pc_ok cfg held d (WaitStopBarrier action _ lease _) \<longleftrightarrow>
     (\<exists>r s f e. d = Ended r s f e False \<and> lease = \<lparr>bl_session_id = s, bl_task = f\<rparr> \<and> held = Some lease \<and>
        action_of cfg r f e action)"
| "pc_ok cfg held d (WaitStopSent action _ lease) \<longleftrightarrow>
     (\<exists>r s f e. d = Ended r s f e True \<and> lease = \<lparr>bl_session_id = s, bl_task = f\<rparr> \<and> held = Some lease \<and>
        action_of cfg r f e action)"
| "pc_ok cfg held d (WaitIdle action _) \<longleftrightarrow>
     held = None \<and> (\<exists>r s f e rep. d = Ended r s f e rep \<and> action_of cfg r f e action)"
| "pc_ok cfg held d (Returned _) \<longleftrightarrow> True"

definition managed_inv :: "lifecycle_config \<Rightarrow> managed \<Rightarrow> duty \<Rightarrow> bool" where
  "managed_inv cfg h d \<longleftrightarrow>
     duty_steps cfg (mg_log h) Free = Some d \<and> agrees cfg (mg_inbox h) (mg_lease h) d \<and>
     (\<forall>pc \<in> set (mg_calls h). pc_ok cfg (mg_lease h) d pc) \<and>
     (\<forall>i j. i < length (mg_calls h) \<longrightarrow> j < length (mg_calls h) \<longrightarrow> owning (mg_calls h ! i) \<longrightarrow>
        owning (mg_calls h ! j) \<longrightarrow> i = j)"

lemma pc_ok_not_owning: "pc_ok cfg held d pc \<Longrightarrow> \<not> owning pc \<Longrightarrow> pc_ok cfg held' d' pc"
  by (cases pc) auto

lemma free_not_owning: "pc_ok cfg held Free pc \<Longrightarrow> \<not> owning pc"
  by (cases pc) auto

lemma inv_move:
  assumes inv: "managed_inv cfg h d" and i: "i < length (mg_calls h)"
    and others: "\<And>j. j < length (mg_calls h) \<Longrightarrow> j \<noteq> i \<Longrightarrow> \<not> owning (mg_calls h ! j)"
    and calls: "mg_calls h' = mg_calls h" and log: "duty_steps cfg (mg_log h') Free = Some d'"
    and agrees: "agrees cfg (mg_inbox h') (mg_lease h') d'" and pc: "pc_ok cfg (mg_lease h') d' pc"
  shows "managed_inv cfg (at_pc i pc h') d'"
proof -
  have "pc_ok cfg (mg_lease h') d' ((mg_calls h)[i := pc] ! j)" if "j < length (mg_calls h)" for j
  proof (cases "j = i")
    case False
    have "pc_ok cfg (mg_lease h) d (mg_calls h ! j)" using inv that by (simp add: managed_inv_def)
    from pc_ok_not_owning [OF this others [OF that False]] False show ?thesis by simp
  qed (use pc i in simp)
  then have "\<forall>x \<in> set ((mg_calls h)[i := pc]). pc_ok cfg (mg_lease h') d' x"
    by (auto simp: in_set_conv_nth)
  moreover have "j = k" if "j < length (mg_calls h)" "k < length (mg_calls h)"
      "owning ((mg_calls h)[i := pc] ! j)" "owning ((mg_calls h)[i := pc] ! k)" for j k
  proof -
    have "j = i" using others [OF that(1)] that(3) by (cases "j = i") auto
    moreover have "k = i" using others [OF that(2)] that(4) by (cases "k = i") auto
    ultimately show ?thesis by simp
  qed
  ultimately show ?thesis using log agrees calls by (auto simp: managed_inv_def at_pc_def)
qed

lemma owner_alone:
  "managed_inv cfg h d \<Longrightarrow> i < length (mg_calls h) \<Longrightarrow> owning (mg_calls h ! i) \<Longrightarrow>
   j < length (mg_calls h) \<Longrightarrow> j \<noteq> i \<Longrightarrow> \<not> owning (mg_calls h ! j)"
  unfolding managed_inv_def by blast

lemma inv_stay:
  assumes inv: "managed_inv cfg h d" and i: "i < length (mg_calls h)"
    and same: "mg_calls h' = mg_calls h" "mg_inbox h' = mg_inbox h" "mg_lease h' = mg_lease h"
    and log: "duty_steps cfg (mg_log h') Free = Some d"
    and pc: "\<not> owning pc" "pc_ok cfg (mg_lease h) d pc"
  shows "managed_inv cfg (at_pc i pc h') d"
proof -
  have "set ((mg_calls h)[i := pc]) \<subseteq> insert pc (set (mg_calls h))" by (rule set_update_subset_insert)
  then have "\<forall>x \<in> set ((mg_calls h)[i := pc]). pc_ok cfg (mg_lease h) d x"
    using inv pc(2) by (auto simp: managed_inv_def)
  moreover have "j = k" if "j < length (mg_calls h)" "k < length (mg_calls h)"
      "owning ((mg_calls h)[i := pc] ! j)" "owning ((mg_calls h)[i := pc] ! k)" for j k
    using that pc(1) i owner_alone [OF inv that(1)] that by (cases "j = i"; cases "k = i") auto
  ultimately show ?thesis using inv same log by (auto simp: managed_inv_def at_pc_def)
qed

lemma inv_fail:
  "managed_inv cfg h d \<Longrightarrow> i < length (mg_calls h) \<Longrightarrow> managed_inv cfg (fail_call i e h) d"
  unfolding fail_call_def by (rule inv_stay [of cfg h d i h]) (auto simp: managed_inv_def)

lemma tell_fields [simp]:
  "mg_calls (tell out h) = mg_calls h" "mg_inbox (tell out h) = mg_inbox h" "mg_lease (tell out h) = mg_lease h"
  "mg_log (tell out h) = mg_log h @ [out]"
  by (simp_all add: tell_def)

lemma inv_log: "managed_inv cfg h d \<Longrightarrow> duty_steps cfg (mg_log h) Free = Some d"
  by (simp add: managed_inv_def)

lemma inv_pc: "managed_inv cfg h d \<Longrightarrow> i < length (mg_calls h) \<Longrightarrow> pc_ok cfg (mg_lease h) d (mg_calls h ! i)"
  by (simp add: managed_inv_def)

lemma inv_agrees: "managed_inv cfg h d \<Longrightarrow> agrees cfg (mg_inbox h) (mg_lease h) d"
  by (simp add: managed_inv_def)

lemma inv_alone:
  assumes "managed_inv cfg h d" and "j < length (mg_calls h)" and "j \<noteq> i"
    and "i < length (mg_calls h) \<and> owning (mg_calls h ! i) \<or> d = Free"
  shows "\<not> owning (mg_calls h ! j)"
  using assms owner_alone [of cfg h d i j] free_not_owning inv_pc [of cfg h d j] by blast

lemma after_not_ready_inv:
  assumes "managed_inv cfg h d" "i < length (mg_calls h)" "sr_workspace request = Some (lc_workspace cfg)"
  shows "managed_inv cfg (after_not_ready m i request h) d"
  using assms inv_fail [OF assms(1,2)] inv_stay [of cfg h d i h "WaitBarrier request _"] inv_log [OF assms(1)]
  by (auto simp: after_not_ready_def split: sum.split)

lemma start_handle_inv:
  assumes inv: "managed_inv cfg h d"
  shows "managed_inv cfg (start_handle cfg m request h) d"
proof -
  let ?h = "h\<lparr>mg_calls := mg_calls h @ [Returned (ResultFailure ExecutionFenceChanged)]\<rparr>"
  let ?g = "h\<lparr>mg_calls := mg_calls h @ [WaitNotReady request]\<rparr>"
  let ?i = "length (mg_calls h)"
  have h: "managed_inv cfg ?h d"
    using inv unfolding managed_inv_def by (auto simp: nth_append split: if_splits)
  have same: "at_pc ?i pc (tell out ?g) = at_pc ?i pc (tell out ?h)" "at_pc ?i pc ?g = at_pc ?i pc ?h" for pc out
    by (simp_all add: at_pc_def tell_def)
  have fail: "managed_inv cfg (fail_call ?i e ?g) d" for e
    using inv_fail [OF h, of ?i e] by (simp add: fail_call_def same)
  show ?thesis
  proof (cases "sr_workspace request = Some (lc_workspace cfg)")
    case True
    have wait: "managed_inv cfg (at_pc ?i (WaitNotReady request) (tell (OutSetReady False) ?g)) d"
      unfolding same using True inv_log [OF h]
      by (intro inv_stay [OF h]) (auto simp: duty_steps_append)
    have "managed_inv cfg (after_not_ready m ?i request ?g) d"
      using True inv_stay [OF h, of ?i ?h "WaitBarrier request _"] inv_log [OF h] fail
      by (auto simp: after_not_ready_def same acquire_start_def split: sum.split)
    with True wait fail show ?thesis by (auto simp: start_handle_def Let_def set_ready_then_def)
  qed (use fail in \<open>simp add: start_handle_def Let_def\<close>)
qed

lemma after_provider_inv:
  assumes inv: "managed_inv cfg h d" and i: "i < length (mg_calls h)" and pc: "mg_calls h ! i = WaitProvider r"
  shows "managed_inv cfg (after_provider i r result h) d"
  unfolding after_provider_def
proof (rule inv_move [OF inv i])
  from inv_pc [OF inv i] pc obtain s f where d: "d = Turning r s f" by auto
  with inv_agrees [OF inv] obtain a where "mg_inbox h = InboxActive a" "about_turn cfg r f a"
      "mg_lease h = Some \<lparr>bl_session_id = s, bl_task = f\<rparr>" by auto
  then show "agrees cfg (mg_inbox (h\<lparr>mg_inbox := snd (result_settled (sr_request_id r) (mg_inbox h))\<rparr>))
      (mg_lease (h\<lparr>mg_inbox := snd (result_settled (sr_request_id r) (mg_inbox h))\<rparr>)) d"
    using d by (auto simp: result_settled_def settle_active_def about_turn_def)
  show "pc_ok cfg (mg_lease (h\<lparr>mg_inbox := snd (result_settled (sr_request_id r) (mg_inbox h))\<rparr>)) d
      (WaitTerminal (sr_request_id r) result)" using d by auto
qed (use inv i pc inv_log [OF inv] inv_alone [OF inv, of _ i] in auto)

lemma matching_dispatch_iff: "matching_dispatch t f \<longleftrightarrow> map_option dp_id t = map_option fst f"
  by (cases t; cases f) auto

lemma observe_issues:
  assumes "mg_inbox h = InboxActive a" "about_turn cfg r f a" "tev_request_id e = sr_request_id r"
  shows "\<exists>action p. observe_terminal e (InboxActive a) = (Some action, InboxStopPending p) \<and> ps_action_issued p \<and>
           ps_evidence p = e \<and> ps_active p = a \<and> action_of cfg r f e action"
proof -
  have "\<not> (ib_task a \<noteq> None \<and> ib_fence a = None)"
    using assms(2) unfolding about_turn_def matching_dispatch_iff by (metis map_option_is_None option.map(1))
  with assms show ?thesis
    by (simp add: observe_terminal_def take_terminal_action_def about_turn_def action_of_def)
qed

lemma after_terminal_inv:
  assumes inv: "managed_inv cfg h d" and i: "i < length (mg_calls h)" and pc: "mg_calls h ! i = WaitTerminal rid result"
  shows "\<exists>d'. managed_inv cfg (after_terminal m i rid result received h) d'"
proof (cases received)
  case None
  then show ?thesis using inv_fail [OF inv i] by (auto simp: after_terminal_def)
next
  case (Some e)
  show ?thesis
  proof (cases "tev_request_id e = rid")
    case True
    from inv_pc [OF inv i] pc obtain r s f where d: "d = Turning r s f" and rid: "rid = sr_request_id r" by auto
    from inv_agrees [OF inv] d obtain a where a: "mg_inbox h = InboxActive a" "about_turn cfg r f a"
      and lease: "mg_lease h = Some \<lparr>bl_session_id = s, bl_task = f\<rparr>" by auto
    obtain action p where obs: "observe_terminal e (mg_inbox h) = (Some action, InboxStopPending p)"
      and p: "ps_action_issued p" "ps_evidence p = e" "ps_active p = a" and action: "action_of cfg r f e action"
      using observe_issues [OF a, of e] a(1) True rid by auto
    let ?h = "tell (SawTerminal e) (h\<lparr>mg_inbox := InboxStopPending p\<rparr>)"
    have log: "duty_steps cfg (mg_log ?h) Free = Some (Ended r s f e False)"
      using inv_log [OF inv] d True rid by (simp add: duty_steps_append)
    have ag: "agrees cfg (mg_inbox ?h) (mg_lease ?h) (Ended r s f e False)" using lease p a(2) True rid by simp
    have move: "managed_inv cfg (at_pc i q ?h) (Ended r s f e False)"
      if "pc_ok cfg (mg_lease ?h) (Ended r s f e False) q" for q
      by (rule inv_move [OF inv i]) (use that log ag i pc inv_alone [OF inv, of _ i] in auto)
    have fence: "ia_fence action = f" using action by (simp add: action_of_def)
    show ?thesis
    proof (cases "mo_session m")
      case None
      then show ?thesis using Some True obs fence lease move [of "Returned (ResultFailure RouterLifecycleUnavailable)"]
        by (auto simp: after_terminal_def finish_start_def fail_call_def)
    next
      case (Some session)
      then show ?thesis using \<open>received = Some e\<close> True obs fence lease action
          move [of "WaitStopBarrier action result \<lparr>bl_session_id = s, bl_task = f\<rparr> session"]
        by (auto simp: after_terminal_def finish_start_def)
    qed
  qed (use Some inv in \<open>auto simp: after_terminal_def\<close>)
qed

lemma after_idle_inv:
  assumes inv: "managed_inv cfg h d" and i: "i < length (mg_calls h)"
    and pc: "pc_ok cfg (mg_lease h) d (WaitIdle action result)"
    and alone: "\<And>j. j < length (mg_calls h) \<Longrightarrow> j \<noteq> i \<Longrightarrow> \<not> owning (mg_calls h ! j)"
  shows "\<exists>d'. managed_inv cfg (after_idle i action result ok h) d'"
proof (cases "ok \<and> fst (confirm_stopped (ia_workspace action) (tev_request_id (ia_evidence action)) (ia_fence action) (mg_inbox h))")
  case True
  from pc obtain r s f e rep where d: "d = Ended r s f e rep" and act: "action_of cfg r f e action"
    and free: "mg_lease h = None" by auto
  from inv_agrees [OF inv] d have rid: "tev_request_id e = sr_request_id r" by simp
  obtain inbox where conf: "confirm_stopped (ia_workspace action) (tev_request_id (ia_evidence action)) (ia_fence action)
      (mg_inbox h) = (True, inbox)" using True by (cases "confirm_stopped (ia_workspace action)
        (tev_request_id (ia_evidence action)) (ia_fence action) (mg_inbox h)") auto
  then have idle: "inbox = InboxIdle" by (auto simp: confirm_stopped_def split: inbox_state.splits if_splits)
  have "managed_inv cfg (at_pc i (Returned result)
      (tell (TurnClosed (tev_request_id (ia_evidence action))) (h\<lparr>mg_inbox := inbox\<rparr>))) Free"
    using inv_log [OF inv] d act rid free idle
    by (intro inv_move [OF inv i alone]) (auto simp: duty_steps_append action_of_def)
  then show ?thesis using True conf by (auto simp: after_idle_def)
next
  case False
  then show ?thesis using inv_fail [OF inv i] by (auto simp: after_idle_def split: prod.split bool.split)
qed

lemma after_finish_inv:
  assumes inv: "managed_inv cfg h d" and i: "i < length (mg_calls h)"
    and pc: "\<exists>r s f e rep. d = Ended r s f e rep \<and> lease = \<lparr>bl_session_id = s, bl_task = f\<rparr> \<and>
               mg_lease h = Some lease \<and> action_of cfg r f e action"
    and alone: "\<And>j. j < length (mg_calls h) \<Longrightarrow> j \<noteq> i \<Longrightarrow> \<not> owning (mg_calls h ! j)"
  shows "\<exists>d'. managed_inv cfg (after_finish cfg m i action result lease h) d'"
proof -
  from pc obtain r s f e rep where d: "d = Ended r s f e rep" and act: "action_of cfg r f e action"
    and lease: "mg_lease h = Some lease" by blast
  from inv_agrees [OF inv] d have rid: "tev_request_id e = sr_request_id r" by simp
  let ?h = "h\<lparr>mg_lease := None\<rparr>"
  have ag: "agrees cfg (mg_inbox h) None d" using inv_agrees [OF inv] d by auto
  have wait: "pc_ok cfg None d (WaitIdle action result)" using d act by auto
  have moved: "managed_inv cfg (at_pc i (WaitIdle action result) (tell out ?h)) d"
    if "duty_step cfg out d = Some d" for out
    by (rule inv_move [OF inv i alone]) (use that wait ag inv_log [OF inv] in \<open>auto simp: duty_steps_append\<close>)
  have here: "managed_inv cfg (at_pc i (WaitIdle action result) ?h) d"
    by (rule inv_move [OF inv i alone]) (use wait ag inv_log [OF inv] in auto)
  have "after_idle i action result True (at_pc i (WaitIdle action result) ?h) = after_idle i action result True ?h"
    by (simp add: after_idle_def at_pc_def tell_def fail_call_def split: prod.split bool.split)
  with after_idle_inv [OF here, of i action result True] i wait alone
  have close: "\<exists>d'. managed_inv cfg (after_idle i action result True ?h) d'"
    by (auto simp: at_pc_def)
  have ready: "managed_inv cfg (at_pc i (WaitIdle action result) (tell (OutSetReady (mo_ready m)) ?h)) d"
    by (rule moved) (simp add: d)
  have work: "managed_inv cfg (at_pc i (WaitIdle action result) (tell (OutWorkIdle (ia_workspace action)
      (tev_request_id (ia_evidence action)) (ia_fence action) (mo_ready m)) ?h)) d"
    by (rule moved) (use d act rid in \<open>simp add: action_of_def\<close>)
  have finish: "finish_end lease h = (Inr (), ?h)" using lease by (simp add: finish_end_def)
  show ?thesis
    unfolding after_finish_def finish set_ready_then_def using close ready work by auto
qed

lemma after_stop_barrier_inv:
  assumes inv: "managed_inv cfg h d" and i: "i < length (mg_calls h)"
    and pc: "mg_calls h ! i = WaitStopBarrier action result lease session"
  shows "\<exists>d'. managed_inv cfg (after_stop_barrier cfg m i action result lease session answer h) d'"
proof -
  from inv_pc [OF inv i] pc obtain r s f e where d: "d = Ended r s f e False"
    and lease: "lease = \<lparr>bl_session_id = s, bl_task = f\<rparr>" "mg_lease h = Some lease" and act: "action_of cfg r f e action"
    by auto
  have alone: "\<not> owning (mg_calls h ! j)" if "j < length (mg_calls h)" "j \<noteq> i" for j
    using inv_alone [OF inv that] i pc by simp
  show ?thesis
  proof (cases "finish_decide (ia_fence action) lease session answer")
    case (Inl e)
    then show ?thesis using inv_fail [OF inv i] by (auto simp: after_stop_barrier_def)
  next
    case (Inr out)
    show ?thesis
    proof (cases out)
      case None
      have "\<exists>d'. managed_inv cfg (after_finish cfg m i action result lease h) d'"
        using after_finish_inv [OF inv i, of lease action] alone d lease act by blast
      with Inr None show ?thesis by (simp add: after_stop_barrier_def)
    next
      case (Some fence)
      have f: "f = Some fence" using Inr Some act
        by (auto simp: finish_decide_def action_of_def split: option.splits if_splits)
      have "managed_inv cfg (at_pc i (WaitStopSent action result lease)
          (tell (OutStopped (lc_workspace cfg) fence (bl_session_id lease) (evidence_kind (ia_evidence action))
             (evidence_pause_reason (tev_reason (ia_evidence action)))) h)) (Ended r s f e True)"
        by (rule inv_move [OF inv i alone])
          (use inv_log [OF inv] inv_agrees [OF inv] d f lease act in \<open>auto simp: duty_steps_append action_of_def\<close>)
      then show ?thesis using Inr Some by (auto simp: after_stop_barrier_def)
    qed
  qed
qed

lemma after_stop_sent_inv:
  assumes inv: "managed_inv cfg h d" and i: "i < length (mg_calls h)"
    and pc: "mg_calls h ! i = WaitStopSent action result lease"
  shows "\<exists>d'. managed_inv cfg (after_stop_sent cfg m i action result lease ok h) d'"
proof -
  from inv_pc [OF inv i] pc obtain r s f e where "d = Ended r s f e True"
    "lease = \<lparr>bl_session_id = s, bl_task = f\<rparr>" "mg_lease h = Some lease" "action_of cfg r f e action"
    by auto
  moreover have "\<not> owning (mg_calls h ! j)" if "j < length (mg_calls h)" "j \<noteq> i" for j
    using inv_alone [OF inv that] i pc by simp
  ultimately have "\<exists>d'. managed_inv cfg (after_finish cfg m i action result lease h) d'"
    using after_finish_inv [OF inv i, of lease action] by blast
  then show ?thesis using inv_fail [OF inv i] by (auto simp: after_stop_sent_def)
qed

lemma restore_ready_inv:
  assumes inv: "managed_inv cfg h d" and i: "i < length (mg_calls h)" and free: "mg_lease h = None"
    and lease: "bl_task lease = fence"
  shows "managed_inv cfg (restore_ready cfg m i request fence e (h\<lparr>mg_lease := Some lease\<rparr>)) d"
proof -
  have undone: "abandon_unowned_barrier fence (h\<lparr>mg_lease := Some lease\<rparr>) = h"
    using free lease by (simp add: abandon_unowned_barrier_def)
  have "duty_step cfg (OutSetReady (mo_ready m)) d = Some d"
    using inv_agrees [OF inv] free by (cases d) auto
  then have "managed_inv cfg (at_pc i (WaitRestore request e) (tell (OutSetReady (mo_ready m)) h)) d"
    using inv_log [OF inv] by (intro inv_stay [OF inv i]) (auto simp: duty_steps_append)
  then show ?thesis using inv_fail [OF inv i] by (simp add: restore_ready_def undone set_ready_then_def)
qed

lemma begin_turn:
  assumes "sr_workspace request = Some (lc_workspace cfg)" and "matching_dispatch (sr_task request) fence"
  shows "\<exists>a. inbox_begin request InboxIdle = (Inr (), InboxActive a) \<and>
     (fence = None \<longrightarrow> about_turn cfg request fence a) \<and>
     (\<forall>bound. fence = Some bound \<longrightarrow> bind_task_fence (sr_request_id request) bound (InboxActive a) =
        (Inr None, InboxActive (a\<lparr>ib_fence := fence\<rparr>)) \<and> about_turn cfg request fence (a\<lparr>ib_fence := fence\<rparr>))"
  using assms
  by (auto simp: inbox_begin_def about_turn_def bind_task_fence_def validate_fence_def guardR_def matching_dispatch_iff)

lemma after_barrier_inv:
  assumes inv: "managed_inv cfg h d" and i: "i < length (mg_calls h)"
    and pc: "mg_calls h ! i = WaitBarrier request session"
  shows "\<exists>d'. managed_inv cfg (after_barrier cfg m i request session answer h) d'"
proof (cases "acquire_finish session answer h")
  case (Pair res h1)
  have ws: "sr_workspace request = Some (lc_workspace cfg)" using inv_pc [OF inv i] pc by simp
  show ?thesis
  proof (cases res)
    case (Inl e)
    then have "h1 = h" using Pair by (auto simp: acquire_finish_def split: option.splits if_splits)
    with Pair Inl have "after_barrier cfg m i request session answer h = fail_call i e h"
      by (simp add: after_barrier_def)
    with inv_fail [OF inv i, of e] show ?thesis by auto
  next
    case (Inr fence)
    let ?lease = "\<lparr>bl_session_id = session, bl_task = fence\<rparr>"
    have free: "mg_lease h = None" and h1: "h1 = h\<lparr>mg_lease := Some ?lease\<rparr>"
      using Pair Inr by (auto simp: acquire_finish_def split: option.splits if_splits)
    have restore: "managed_inv cfg (restore_ready cfg m i request fence e h1) d" for e
      unfolding h1 using inv i free by (rule restore_ready_inv) simp
    show ?thesis
    proof (cases "matching_dispatch (sr_task request) fence \<and> \<not> sr_deadline request \<le> mo_now m \<and> mg_inbox h = InboxIdle")
      case True
      from inv_agrees [OF inv] True free have d: "d = Free" by (cases d) auto
      obtain a where a: "inbox_begin request InboxIdle = (Inr (), InboxActive a)"
        and none: "fence = None \<Longrightarrow> about_turn cfg request fence a"
        and some: "\<And>bound. fence = Some bound \<Longrightarrow> bind_task_fence (sr_request_id request) bound (InboxActive a) =
            (Inr None, InboxActive (a\<lparr>ib_fence := fence\<rparr>)) \<and> about_turn cfg request fence (a\<lparr>ib_fence := fence\<rparr>)"
        using begin_turn [OF ws, of fence] True by blast
      have start: "managed_inv cfg (at_pc i (WaitProvider request) (tell (OutTurn request session fence)
          (h1\<lparr>mg_inbox := InboxActive b\<rparr>))) (Turning request session fence)" if "about_turn cfg request fence b" for b
        by (rule inv_move [OF inv i])
          (use that inv_log [OF inv] inv_alone [OF inv, of _ i] d ws True h1 in \<open>auto simp: duty_steps_append\<close>)
      show ?thesis
      proof (cases fence)
        case None
        with start [OF none] Pair Inr True a h1 show ?thesis by (auto simp: after_barrier_def)
      next
        case (Some bound)
        with start some [OF Some] Pair Inr True a h1 show ?thesis by (auto simp: after_barrier_def)
      qed
    next
      case False
      then have "\<exists>e. inbox_begin request (mg_inbox h) = (Inl e, mg_inbox h)"
        if "matching_dispatch (sr_task request) fence" "\<not> sr_deadline request \<le> mo_now m"
        using that ws by (cases "mg_inbox h") (auto simp: inbox_begin_def)
      then obtain e where "after_barrier cfg m i request session answer h = restore_ready cfg m i request fence e h1"
        using Pair Inr h1 by (cases "matching_dispatch (sr_task request) fence \<and> \<not> sr_deadline request \<le> mo_now m")
          (auto simp: after_barrier_def)
      with restore show ?thesis by auto
    qed
  qed
qed

lemma managed_cancel_inv:
  assumes inv: "managed_inv cfg h d"
  shows "managed_inv cfg (snd (managed_cancel ws rid task reason answer h)) d"
proof (cases "fst (request_cancel ws rid task reason (mg_inbox h)) = Inr True")
  case True
  then obtain a where a: "mg_inbox h = InboxActive a" "ib_request_id a = rid"
    and upd: "request_cancel ws rid task reason (mg_inbox h) = (Inr True, InboxActive (a\<lparr>ib_cancel_reason := Some reason\<rparr>))"
    by (cases "mg_inbox h") (auto simp: request_cancel_def split: sum.splits if_splits)
  from inv_agrees [OF inv] a obtain r s f where "d = Turning r s f" "about_turn cfg r f a"
    "mg_lease h = Some \<lparr>bl_session_id = s, bl_task = f\<rparr>" by (cases d) auto
  then show ?thesis using inv a(2) upd
    by (simp add: managed_cancel_def managed_inv_def duty_steps_append about_turn_def)
next
  case False
  then have "snd (managed_cancel ws rid task reason answer h) = h"
    by (auto simp: managed_cancel_def split: prod.splits sum.splits bool.splits)
  with inv show ?thesis by simp
qed

lemma managed_close_inv:
  "managed_inv cfg h d \<Longrightarrow> managed_inv cfg (snd (snd (managed_close cfg ok answer h))) d"
  by (auto simp: managed_close_def managed_set_ready_def managed_inv_def duty_steps_append split: prod.split sum.split)

lemma resume_inv:
  assumes inv: "managed_inv cfg h d" and i: "i < length (mg_calls h)"
  shows "\<exists>d'. managed_inv cfg (resume cfg m i (mg_calls h ! i) answer h) d'"
proof (cases "mg_calls h ! i")
  case (WaitNotReady r)
  then show ?thesis using inv inv_fail [OF inv i] after_not_ready_inv [OF inv i, of r m] inv_pc [OF inv i]
    by (cases answer) auto
next
  case (WaitBarrier r session)
  then show ?thesis using inv after_barrier_inv [OF inv i] by (cases answer) auto
next
  case (WaitRestore request e)
  then show ?thesis using inv inv_fail [OF inv i] by (cases answer) auto
next
  case (WaitProvider r)
  then show ?thesis using inv after_provider_inv [OF inv i] by (cases answer) auto
next
  case (WaitTerminal rid result)
  then show ?thesis using inv after_terminal_inv [OF inv i] by (cases answer) auto
next
  case (WaitStopBarrier action result lease session)
  then show ?thesis using inv after_stop_barrier_inv [OF inv i] by (cases answer) auto
next
  case (WaitStopSent action result lease)
  then show ?thesis using inv after_stop_sent_inv [OF inv i] by (cases answer) auto
next
  case (WaitIdle action result)
  then have "\<exists>d'. managed_inv cfg (after_idle i action result ok h) d'" for ok
    using after_idle_inv [OF inv i, of action result ok] inv_pc [OF inv i] inv_alone [OF inv, of _ i] i by simp
  with WaitIdle inv show ?thesis by (cases answer) auto
next
  case (Returned result)
  then show ?thesis using inv by (cases answer) auto
qed

lemma managed_step_inv:
  assumes inv: "managed_inv cfg h d"
  shows "\<exists>d'. managed_inv cfg (managed_step cfg ev h) d'"
proof (cases ev)
  case (EvHandle m request)
  then show ?thesis using start_handle_inv [OF inv, of m request] by auto
next
  case (EvAnswer m i answer)
  show ?thesis
  proof (cases "i < length (mg_calls h)")
    case True
    then show ?thesis using resume_inv [OF inv True, of m answer] EvAnswer by simp
  qed (use inv EvAnswer in auto)
next
  case (EvCancel ws rid task reason answer)
  then show ?thesis using managed_cancel_inv [OF inv, of ws rid task reason answer] by auto
next
  case (EvClose ok answer)
  then show ?thesis using managed_close_inv [OF inv, of ok answer] by auto
qed

lemma managed_fold_inv: "managed_inv cfg h d \<Longrightarrow> \<exists>d'. managed_inv cfg (fold (managed_step cfg) evs h) d'"
proof (induction evs arbitrary: h d)
  case (Cons ev evs)
  then show ?case using managed_step_inv by (metis fold_simps(2))
qed auto

lemma activate_inv: "managed_inv cfg (snd (managed_activate cfg m ok managed_new)) Free"
  by (simp add: managed_activate_def managed_set_ready_def managed_inv_def managed_new_def tell_def)

lemma managed_run_inv: "\<exists>d. managed_inv cfg (managed_run cfg m ok evs) d"
  unfolding managed_run_def using activate_inv by (rule managed_fold_inv)

end
