(* ===== verification/Provider_Loop.thy ===== *)
theory Provider_Loop
  imports Provider_Host "HOL-Library.Multiset"
begin

text \<open>
  The loop of a managed host (\<^verbatim>\<open>run_host_loop\<close> of \<^verbatim>\<open>src/hosts.rs\<close>): deliveries, cancellations and
  outcomes of turns, and how the host closes. The spawned task of a turn runs the call of
  \<^verbatim>\<open>Provider_Host\<close>; its steps interleave with those of the loop.
\<close>

section \<open>Types\<close>

datatype client_error =
    CeRouter router_error_code | CeDisconnected | CeMessageTooLarge | CeQueueFull | CeClosed | CeTransport

text \<open>The errors the loop and the close of a host can end with.\<close>

datatype host_error =
    HeClient client_error | HeProvider provider_error | HeRouterClosed router_error_code | HeProviderTask
  | HeCloseTimeout

record host_delivery =
  hd_workspace :: workspace_name
  hd_request_id :: string
  hd_from :: string
  hd_content :: string
  hd_timeout_ms :: nat
  hd_task :: "task_dispatch option"

text \<open>The clock of a host counts nanoseconds. The join handle of a turn: its task has not run yet, or runs the call with that index.\<close>

datatype turn_task = TaskSpawned session_request | TaskCall nat

record active_turn =
  act_request_id :: string
  act_workspace :: workspace_name
  act_task_id :: "int option"
  act_cancelled :: bool
  act_task :: turn_task

datatype host_reply = ReplyOk string | ReplyFail router_error_code

text \<open>The state of the loop, with the replies it has sent and how it ended.\<close>

record host_loop =
  hl_managed :: "managed option"
  hl_active :: "active_turn option"
  hl_replies :: "(string \<times> host_reply) list"
  hl_ended :: "(host_error option) option"

section \<open>Helpers\<close>

fun matching_cancel_task :: "int option \<Rightarrow> task_fence option \<Rightarrow> bool" where
  "matching_cancel_task None None \<longleftrightarrow> True"
| "matching_cancel_task (Some task_id) (Some fence) \<longleftrightarrow> task_id = fst fence"
| "matching_cancel_task _ _ \<longleftrightarrow> False"

definition cancel_reason_of :: "router_error_code \<Rightarrow> cancel_reason" where
  "cancel_reason_of reason =
     (if reason = RequestTimeout then CrRequestTimeout
      else if reason = TaskInterrupted then CrTaskInterrupted
      else if reason \<in> {router_error_code.ProviderDisconnected, TargetDisconnected, RequesterDisconnected, RouterRestarted}
      then CrProviderDisconnected
      else CrRequestCancelled)"

primrec provider_router_error :: "provider_error \<Rightarrow> router_error_code" where
  "provider_router_error provider_error.ProviderNotReady = router_error_code.ProviderNotReady"
| "provider_router_error provider_error.SessionBusy = router_error_code.SessionBusy"
| "provider_router_error PeRequestTimeout = RequestTimeout"
| "provider_router_error provider_error.ProviderDisconnected = router_error_code.ProviderDisconnected"
| "provider_router_error CodexInitializeFailed = router_error_code.CodexProtocolError"
| "provider_router_error provider_error.CodexProtocolError = router_error_code.CodexProtocolError"
| "provider_router_error provider_error.CodexTurnInterrupted = router_error_code.CodexTurnInterrupted"
| "provider_router_error provider_error.CodexTurnFailed = router_error_code.CodexTurnFailed"
| "provider_router_error provider_error.CodexNoFinalResponse = router_error_code.CodexNoFinalResponse"
| "provider_router_error ClaudeInitializeFailed = router_error_code.ClaudeSdkError"
| "provider_router_error BridgeProtocolError = router_error_code.ClaudeProtocolError"
| "provider_router_error provider_error.ClaudeProtocolError = router_error_code.ClaudeProtocolError"
| "provider_router_error provider_error.ClaudeMaxTurns = router_error_code.ClaudeMaxTurns"
| "provider_router_error provider_error.ClaudeMaxBudget = router_error_code.ClaudeMaxBudget"
| "provider_router_error provider_error.ClaudeStructuredOutputError = router_error_code.ClaudeStructuredOutputError"
| "provider_router_error provider_error.ClaudeExecutionError = router_error_code.ClaudeExecutionError"
| "provider_router_error provider_error.ClaudeNoResult = router_error_code.ClaudeNoResult"
| "provider_router_error provider_error.ClaudeSdkError = router_error_code.ClaudeSdkError"
| "provider_router_error InvalidLaunchContext = ProviderError"
| "provider_router_error RouterLifecycleUnavailable = ProviderError"
| "provider_router_error ExecutionFenceChanged = TaskStaleAttempt"
| "provider_router_error LaunchFailed = ProviderError"

definition uses_explicit_readiness :: "bool \<Rightarrow> delivery_mode \<Rightarrow> bool" where
  "uses_explicit_readiness primary mode \<longleftrightarrow> primary \<and> mode = Pull"

section \<open>Events of the loop\<close>

definition send_reply :: "string \<Rightarrow> host_reply \<Rightarrow> client_error + unit \<Rightarrow> host_loop \<Rightarrow> (host_error + unit) \<times> host_loop" where
  "send_reply rid reply answer l =
     (map_sum HeClient id answer, l\<lparr>hl_replies := hl_replies l @ [(rid, reply)]\<rparr>)"

definition receive_delivery ::
  "workspace_name option \<Rightarrow> nat \<Rightarrow> host_delivery \<Rightarrow> client_error + unit \<Rightarrow> host_loop \<Rightarrow>
     (host_error + unit) \<times> host_loop" where
  "receive_delivery workspace now delivery answer l =
     (if hl_managed l = None then send_reply (hd_request_id delivery) (ReplyFail WorkspaceRequired) answer l
      else if workspace \<noteq> Some (hd_workspace delivery)
      then send_reply (hd_request_id delivery) (ReplyFail WorkspaceMismatch) answer l
      else if hl_active l \<noteq> None
      then send_reply (hd_request_id delivery) (ReplyFail router_error_code.SessionBusy) answer l
      else (Inr (), l\<lparr>hl_active := Some
              \<lparr>act_request_id = hd_request_id delivery, act_workspace = hd_workspace delivery,
               act_task_id = map_option dp_id (hd_task delivery), act_cancelled = False,
               act_task = TaskSpawned
                 \<lparr>sr_request_id = hd_request_id delivery, sr_workspace = Some (hd_workspace delivery),
                  sr_from = hd_from delivery, sr_content = hd_content delivery,
                  sr_deadline = now + normalize_timeout_ms (Some (hd_timeout_ms delivery)) * 1000000,
                  sr_task = hd_task delivery\<rparr>\<rparr>\<rparr>))"

definition cancel_delivery ::
  "workspace_name \<Rightarrow> string \<Rightarrow> task_fence option \<Rightarrow> router_error_code \<Rightarrow> provider_error + unit \<Rightarrow> host_loop \<Rightarrow>
     (host_error + unit) \<times> host_loop" where
  "cancel_delivery workspace rid task reason answer l =
     (case (hl_managed l, hl_active l) of
        (Some managed, Some active) \<Rightarrow>
          if act_workspace active \<noteq> workspace \<or> act_request_id active \<noteq> rid \<or>
             \<not> matching_cancel_task (act_task_id active) task
          then (Inr (), l)
          else
            (case managed_cancel workspace rid task (cancel_reason_of reason) answer managed of
               (result, managed1) \<Rightarrow>
                 ((case result of
                     Inr _ \<Rightarrow> Inr ()
                   | Inl e \<Rightarrow> if e = ExecutionFenceChanged then Inr () else Inl (HeProvider e)),
                  l\<lparr>hl_active := Some (active\<lparr>act_cancelled := True\<rparr>), hl_managed := Some managed1\<rparr>))
      | _ \<Rightarrow> (Inr (), l))"

text \<open>A task that has sent its outcome ends, so that joining it succeeds.\<close>

definition finish_turn ::
  "string \<Rightarrow> session_result \<Rightarrow> client_error + unit \<Rightarrow> host_loop \<Rightarrow> (host_error + unit) \<times> host_loop" where
  "finish_turn rid result answer l =
     (case hl_active l of
        None \<Rightarrow> (Inr (), l)
      | Some current \<Rightarrow>
          if act_request_id current \<noteq> rid then (Inr (), l)
          else
            (let l1 = l\<lparr>hl_active := None\<rparr> in
             if act_cancelled current then (Inr (), l1)
             else case result of
                    ResultSuccess content \<Rightarrow> send_reply rid (ReplyOk content) answer l1
                  | ResultFailure e \<Rightarrow> send_reply rid (ReplyFail (provider_router_error e)) answer l1))"

datatype loop_event =
    LpDelivery nat host_delivery "client_error + unit"
  | LpCancelled workspace_name string "task_fence option" router_error_code "provider_error + unit"
  | LpWorkspaceEvent workspace_name "client_error + unit"
  | LpOther
  | LpClosed router_error_code
  | LpEventsGone
  | LpShutdown
  | LpOutcome "client_error + unit"
  | LpRun moment
  | LpAnswer moment host_answer

definition end_on_error :: "(host_error + unit) \<times> host_loop \<Rightarrow> host_loop" where
  "end_on_error r = (case r of (Inl e, l) \<Rightarrow> l\<lparr>hl_ended := Some (Some e)\<rparr> | (Inr _, l) \<Rightarrow> l)"

text \<open>The outcome that the task of the current turn has sent, once its call has returned.\<close>

definition turn_outcome :: "host_loop \<Rightarrow> (string \<times> session_result) option" where
  "turn_outcome l =
     (case (hl_managed l, hl_active l) of
        (Some managed, Some active) \<Rightarrow>
          (case act_task active of
             TaskCall i \<Rightarrow>
               if i < length (mg_calls managed)
               then (case mg_calls managed ! i of Returned result \<Rightarrow> Some (act_request_id active, result) | _ \<Rightarrow> None)
               else None
           | _ \<Rightarrow> None)
      | _ \<Rightarrow> None)"

text \<open>What the loop does with an event; the last two are steps of the turn's own task.\<close>

fun loop_step :: "lifecycle_config \<Rightarrow> workspace_name option \<Rightarrow> loop_event \<Rightarrow> host_loop \<Rightarrow> host_loop" where
  "loop_step cfg workspace (LpRun m) l =
     (case (hl_managed l, hl_active l) of
        (Some managed, Some active) \<Rightarrow>
          (case act_task active of
             TaskSpawned request \<Rightarrow>
               l\<lparr>hl_active := Some (active\<lparr>act_task := TaskCall (length (mg_calls managed))\<rparr>),
                 hl_managed := Some (start_handle cfg m request managed)\<rparr>
           | _ \<Rightarrow> l)
      | _ \<Rightarrow> l)"
| "loop_step cfg workspace (LpAnswer m answer) l =
     (case (hl_managed l, hl_active l) of
        (Some managed, Some active) \<Rightarrow>
          (case act_task active of
             TaskCall i \<Rightarrow> l\<lparr>hl_managed := Some (managed_step cfg (EvAnswer m i answer) managed)\<rparr>
           | _ \<Rightarrow> l)
      | _ \<Rightarrow> l)"
| "loop_step cfg workspace ev l =
     (if hl_ended l \<noteq> None then l
      else case ev of
             LpDelivery now delivery answer \<Rightarrow>
               end_on_error (receive_delivery workspace now delivery answer l)
           | LpCancelled ws rid task reason answer \<Rightarrow> end_on_error (cancel_delivery ws rid task reason answer l)
           | LpWorkspaceEvent ws answer \<Rightarrow>
               if workspace = Some ws then end_on_error (map_sum HeClient id answer, l) else l
           | LpClosed code \<Rightarrow> l\<lparr>hl_ended := Some (Some (HeRouterClosed code))\<rparr>
           | LpEventsGone \<Rightarrow> l\<lparr>hl_ended := Some (Some (HeRouterClosed router_error_code.ProviderDisconnected))\<rparr>
           | LpShutdown \<Rightarrow> l\<lparr>hl_ended := Some None\<rparr>
           | LpOutcome answer \<Rightarrow>
               (case turn_outcome l of
                  Some (rid, result) \<Rightarrow> end_on_error (finish_turn rid result answer l)
                | None \<Rightarrow> l)
           | _ \<Rightarrow> l)"

text \<open>\<^verbatim>\<open>prepare_managed\<close>: without a workspace no delivery can start a turn; with one it is joined first.
  The arguments are what the client answers to the readiness, to the join and to the activation.\<close>

definition prepare_managed ::
  "lifecycle_config \<Rightarrow> workspace_name option \<Rightarrow> client_error + unit \<Rightarrow> client_error + workspace_name \<Rightarrow> moment \<Rightarrow>
     bool \<Rightarrow> host_error + managed option" where
  "prepare_managed cfg workspace readiness join m ok =
     (case workspace of
        None \<Rightarrow>
          if lc_explicit_readiness cfg
          then (case readiness of Inl e \<Rightarrow> Inl (HeClient e) | Inr _ \<Rightarrow> Inr None) else Inr None
      | Some wanted \<Rightarrow>
          (case join of
             Inl e \<Rightarrow> Inl (HeClient e)
           | Inr joined \<Rightarrow>
               if joined \<noteq> wanted then Inl (HeClient (CeRouter WorkspaceMismatch))
               else case managed_activate cfg m ok managed_new of
                      (Inl e, _) \<Rightarrow> Inl (HeProvider e)
                    | (Inr _, h) \<Rightarrow> Inr (Some h)))"

definition loop_start :: "managed option \<Rightarrow> host_loop" where
  "loop_start managed = \<lparr>hl_managed = managed, hl_active = None, hl_replies = [], hl_ended = None\<rparr>"

text \<open>A run of the loop on what was prepared.\<close>

definition loop_run ::
  "lifecycle_config \<Rightarrow> workspace_name option \<Rightarrow> managed option \<Rightarrow> loop_event list \<Rightarrow> host_loop" where
  "loop_run cfg workspace managed evs = fold (loop_step cfg workspace) evs (loop_start managed)"

section \<open>Closing\<close>

definition tolerated :: "client_error + unit \<Rightarrow> bool" where
  "tolerated r \<longleftrightarrow> r \<in> {Inr (), Inl CeClosed, Inl CeDisconnected}"

text \<open>How a turn that was still active ended: its task was joined, had panicked, or did not end in
  time.\<close>

datatype turn_join = Joined | Panicked | JoinTimeout

fun close_host ::
  "client_error + unit \<Rightarrow> turn_join option \<Rightarrow> provider_error + unit \<Rightarrow> client_error + unit \<Rightarrow> host_error + unit" where
  "close_host readiness turn provider_close client_close =
     (case provider_close of
        Inl e \<Rightarrow> Inl (HeProvider e)
      | Inr _ \<Rightarrow>
          if turn = Some Panicked then Inl HeProviderTask
          else if turn = Some JoinTimeout then Inl HeCloseTimeout
          else if \<not> tolerated readiness then map_sum HeClient id readiness
          else if \<not> tolerated client_close then map_sum HeClient id client_close
          else Inr ())"

definition run_owned_result :: "host_error option \<Rightarrow> host_error + unit \<Rightarrow> host_error + unit" where
  "run_owned_result ended close_result = (case ended of Some e \<Rightarrow> Inl e | None \<Rightarrow> close_result)"

section \<open>Replies\<close>

text \<open>The accounts of a run are kept by its events: a delivery that the running loop takes, and a cancellation
  that names the workspace, the request and the task of the turn in progress, which was not cancelled
  before.\<close>

definition delivered_by :: "loop_event \<Rightarrow> host_loop \<Rightarrow> string list" where
  "delivered_by ev l = (case ev of
       LpDelivery _ delivery _ \<Rightarrow> if hl_ended l = None then [hd_request_id delivery] else []
     | _ \<Rightarrow> [])"

definition cancelled_by :: "loop_event \<Rightarrow> host_loop \<Rightarrow> string list" where
  "cancelled_by ev l = (case (ev, hl_active l) of
       (LpCancelled workspace rid task _ _, Some active) \<Rightarrow>
         if hl_ended l = None \<and> act_workspace active = workspace \<and> act_request_id active = rid \<and>
            act_task_id active = map_option fst task \<and> \<not> act_cancelled active
         then [rid] else []
     | _ \<Rightarrow> [])"

primrec over_run ::
  "(loop_event \<Rightarrow> host_loop \<Rightarrow> 'a list) \<Rightarrow> lifecycle_config \<Rightarrow> workspace_name option \<Rightarrow> loop_event list \<Rightarrow> host_loop \<Rightarrow>
     'a list" where
  "over_run f cfg workspace [] l = []"
| "over_run f cfg workspace (ev # evs) l = f ev l @ over_run f cfg workspace evs (loop_step cfg workspace ev l)"

text \<open>The turn in progress while a reply to it is due.\<close>

definition open_turn :: "host_loop \<Rightarrow> string list" where
  "open_turn l = (case hl_active l of
       Some active \<Rightarrow> if act_cancelled active then [] else [act_request_id active] | None \<Rightarrow> [])"

definition promised :: "host_loop \<Rightarrow> string multiset" where
  "promised l = mset (map fst (hl_replies l)) + mset (open_turn l)"

text \<open>Without a managed provider there is no turn.\<close>

definition turn_managed :: "host_loop \<Rightarrow> bool" where
  "turn_managed l \<longleftrightarrow> (hl_managed l = None \<longrightarrow> hl_active l = None)"

lemma matching_cancel_task_iff: "matching_cancel_task task_id fence \<longleftrightarrow> task_id = map_option fst fence"
  by (cases task_id; cases fence) auto

lemma end_on_error_promised [simp]:
  "promised (end_on_error r) = promised (snd r)" "turn_managed (end_on_error r) = turn_managed (snd r)"
  by (cases r; simp add: end_on_error_def promised_def open_turn_def turn_managed_def split: sum.split)+

lemma receive_delivery_promised:
  "promised (snd (receive_delivery workspace now delivery answer l)) = add_mset (hd_request_id delivery) (promised l)"
  "turn_managed l \<Longrightarrow> turn_managed (snd (receive_delivery workspace now delivery answer l))"
  by (auto simp: receive_delivery_def send_reply_def promised_def open_turn_def turn_managed_def)

lemma cancel_delivery_promised:
  assumes "turn_managed l" and "hl_ended l = None"
  shows "promised (snd (cancel_delivery ws rid task reason answer l)) +
      mset (cancelled_by (LpCancelled ws rid task reason answer) l) = promised l"
    "turn_managed (snd (cancel_delivery ws rid task reason answer l))"
  using assms
  by (auto simp: cancel_delivery_def promised_def open_turn_def turn_managed_def cancelled_by_def
      matching_cancel_task_iff split: option.splits prod.splits)

lemma finish_turn_promised:
  "promised (snd (finish_turn rid result answer l)) = promised l"
  "turn_managed l \<Longrightarrow> turn_managed (snd (finish_turn rid result answer l))"
  by (auto simp: finish_turn_def send_reply_def promised_def open_turn_def turn_managed_def Let_def
      split: option.splits session_result.split)

lemma loop_step_promised:
  assumes "turn_managed l"
  shows "promised (loop_step cfg workspace ev l) + mset (cancelled_by ev l) = promised l + mset (delivered_by ev l) \<and>
    turn_managed (loop_step cfg workspace ev l)"
proof (cases ev)
  case (LpRun m)
  then show ?thesis using assms
    by (auto simp: promised_def open_turn_def turn_managed_def cancelled_by_def delivered_by_def
        split: option.split turn_task.split)
next
  case (LpAnswer m answer)
  then show ?thesis using assms
    by (auto simp: promised_def open_turn_def turn_managed_def cancelled_by_def delivered_by_def
        split: option.split turn_task.split)
next
  case (LpDelivery now delivery answer)
  then show ?thesis using assms
    by (cases "hl_ended l") (simp_all add: receive_delivery_promised cancelled_by_def delivered_by_def)
next
  case (LpCancelled ws rid task reason answer)
  then show ?thesis using assms cancel_delivery_promised [OF assms, of ws rid task reason answer]
    by (cases "hl_ended l") (simp_all add: delivered_by_def, simp add: cancelled_by_def split: option.split)
next
  case (LpOutcome answer)
  then show ?thesis using assms
    by (auto simp: finish_turn_promised cancelled_by_def delivered_by_def split: option.split)
qed (use assms in \<open>auto simp: promised_def open_turn_def turn_managed_def cancelled_by_def delivered_by_def
      end_on_error_def split: sum.split\<close>)

lemma balance:
  fixes a :: "'a multiset"
  assumes "a + c1 = p + d1" and "q + c2 = a + d2"
  shows "q + (c1 + c2) = p + (d1 + d2)"
proof -
  have "q + (c1 + c2) = (q + c2) + c1" by (simp add: ac_simps)
  also have "\<dots> = (a + c1) + d2" unfolding assms(2) by (simp add: ac_simps)
  also have "\<dots> = p + (d1 + d2)" unfolding assms(1) by (simp add: ac_simps)
  finally show ?thesis .
qed

lemma over_run_promised:
  assumes "turn_managed l"
  shows "promised (fold (loop_step cfg workspace) evs l) + mset (over_run cancelled_by cfg workspace evs l) =
      promised l + mset (over_run delivered_by cfg workspace evs l)"
  using assms
proof (induction evs arbitrary: l)
  case (Cons ev evs)
  note step = loop_step_promised [OF Cons.prems, of cfg workspace ev]
  show ?case
    using balance [OF conjunct1 [OF step] Cons.IH [OF conjunct2 [OF step]]]
    by (simp only: fold_Cons o_apply over_run.simps mset_append)
qed simp

lemma loop_run_promised:
  "promised (loop_run cfg workspace managed evs) +
     mset (over_run cancelled_by cfg workspace evs (loop_start managed)) =
     mset (over_run delivered_by cfg workspace evs (loop_start managed))"
proof -
  have "promised (loop_start managed) = {#}" "turn_managed (loop_start managed)"
    by (simp_all add: loop_start_def promised_def open_turn_def turn_managed_def)
  with over_run_promised [of "loop_start managed" cfg workspace evs] show ?thesis by (simp add: loop_run_def)
qed

section \<open>The provider under the loop\<close>

text \<open>The loop calls the managed provider only in ways that keep its contract with the router.\<close>

definition loop_inv :: "lifecycle_config \<Rightarrow> host_loop \<Rightarrow> bool" where
  "loop_inv cfg l \<longleftrightarrow> (\<forall>managed. hl_managed l = Some managed \<longrightarrow> (\<exists>d. managed_inv cfg managed d))"

lemma loop_inv_same: "loop_inv cfg l \<Longrightarrow> hl_managed l' = hl_managed l \<Longrightarrow> loop_inv cfg l'"
  by (simp add: loop_inv_def)

lemma hl_managed_simps [simp]:
  "hl_managed (end_on_error r) = hl_managed (snd r)"
  "hl_managed (snd (receive_delivery workspace now delivery answer l)) = hl_managed l"
  "hl_managed (snd (finish_turn rid result answer l)) = hl_managed l"
  by (auto simp: end_on_error_def receive_delivery_def finish_turn_def send_reply_def Let_def
      split: sum.split prod.split option.split session_result.split)

lemma cancel_delivery_inv:
  assumes "loop_inv cfg l"
  shows "loop_inv cfg (snd (cancel_delivery ws rid task reason answer l))"
proof (cases "hl_managed l")
  case (Some managed)
  with assms obtain d where "managed_inv cfg managed d" by (auto simp: loop_inv_def)
  from managed_cancel_inv [OF this, of ws rid task "cancel_reason_of reason" answer] show ?thesis
    using assms Some by (auto simp: cancel_delivery_def loop_inv_def split: option.split prod.split)
qed (use assms in \<open>simp add: cancel_delivery_def\<close>)

lemma loop_step_inv:
  assumes inv: "loop_inv cfg l"
  shows "loop_inv cfg (loop_step cfg workspace ev l)"
proof -
  have step: "\<exists>d. managed_inv cfg (managed_step cfg e managed) d" if "hl_managed l = Some managed" for e managed
    using inv that managed_step_inv by (fastforce simp: loop_inv_def)
  show ?thesis
  proof (cases ev)
    case (LpRun m)
    then show ?thesis using inv step [of _ "EvHandle m _"]
      by (auto simp: loop_inv_def split: option.split turn_task.split)
  next
    case (LpAnswer m answer)
    then show ?thesis using inv step [of _ "EvAnswer m _ answer"]
      by (auto simp: loop_inv_def split: option.split turn_task.split)
  next
    case (LpCancelled ws rid task reason answer)
    then show ?thesis using inv cancel_delivery_inv [OF inv, of ws rid task reason answer]
      by (auto intro: loop_inv_same)
  qed (use inv in \<open>auto intro: loop_inv_same split: option.split\<close>)
qed

lemma loop_run_inv:
  assumes "prepare_managed cfg workspace readiness join m ok = Inr managed"
  shows "loop_inv cfg (loop_run cfg workspace managed evs)"
proof -
  have "loop_inv cfg l \<Longrightarrow> loop_inv cfg (fold (loop_step cfg workspace) evs l)" for l
    by (induction evs arbitrary: l) (simp_all add: loop_step_inv del: loop_step.simps)
  moreover have "loop_inv cfg (loop_start managed)"
    using assms activate_inv [of cfg m ok]
    by (auto simp: loop_start_def loop_inv_def prepare_managed_def split: option.splits sum.splits if_splits prod.splits)
  ultimately show ?thesis by (simp add: loop_run_def)
qed

end
