(* ===== verification/Provider_Props.thy ===== *)
theory Provider_Props
  imports Provider_Loop
begin

text \<open>
  What the provider host promises: the order of turns in the inbox, the reports to the router, the replies
  to deliveries, and what a cancellation outside a turn does.
\<close>

text \<open>C14. The inbox, whatever the order of its calls, implements the order of turns: a turn begins only when no
  other is open, the action for its end is issued exactly once, for its own request, workspace and task, and
  only a stop confirmed for that request closes it.\<close>

theorem inbox_turns_in_order: "turn_steps (fst (inbox_run calls InboxIdle)) NoTurn \<noteq> None"
  using run_simulates [of InboxIdle NoTurn calls "fst (inbox_run calls InboxIdle)" "snd (inbox_run calls InboxIdle)"]
  by auto

text \<open>C9. Whatever calls of handle run concurrently, whatever the router, the provider and the clock answer and
  whenever cancellations arrive, the host keeps its contract with the router: the provider runs one turn at
  a time, under the session and the fence read before it, and only for the task it was dispatched; nothing
  is reported of a turn before its terminal evidence; a stop is reported at most once, for exactly that
  fence, session and evidence; readiness is never claimed while a turn runs; and the next turn starts only
  after the last one was closed.\<close>

theorem host_reports_in_order: "duty_steps cfg (mg_log (managed_run cfg m ok evs)) Free \<noteq> None"
  using managed_run_inv [of cfg m ok evs] inv_log by fastforce

text \<open>C12. In every run of the host loop the deliveries it took, counted with repetition, are exactly those it
  has replied to, the turn in progress unless it was cancelled, and those whose turn a cancellation with the
  turn's workspace, request and task hit: a turn that is not cancelled gets one reply when it ends, a
  cancelled one gets none.\<close>

theorem deliveries_accounted:
  "mset (over_run delivered_by cfg workspace evs (loop_start managed)) =
     mset (map fst (hl_replies (loop_run cfg workspace managed evs))) +
     (case hl_active (loop_run cfg workspace managed evs) of
        Some active \<Rightarrow> if act_cancelled active then {#} else {#act_request_id active#}
      | None \<Rightarrow> {#}) +
     mset (over_run cancelled_by cfg workspace evs (loop_start managed))"
  unfolding loop_run_promised [symmetric] promised_def open_turn_def by (auto split: option.split)

definition host_cfg :: lifecycle_config where
  "host_cfg = \<lparr>lc_workspace = ''ws'', lc_explicit_readiness = True\<rparr>"

definition host_moment :: moment where
  "host_moment = \<lparr>mo_ready = True, mo_now = 1, mo_then = 1, mo_session = Some 7\<rparr>"

definition host_managed :: managed where
  "host_managed = \<lparr>mg_lease = None, mg_inbox = InboxIdle, mg_calls = [], mg_log = [OutSetReady True]\<rparr>"

definition host_delivered :: "loop_event list" where
  "host_delivered = [LpDelivery 0 \<lparr>hd_workspace = ''ws'', hd_request_id = ''r'', hd_from = ''a'', hd_content = ''hi'',
     hd_timeout_ms = 60000, hd_task = None\<rparr> (Inr ()), LpRun host_moment]"

lemmas host_eval = loop_run_def loop_start_def receive_delivery_def end_on_error_def managed_new_def start_handle_def
  host_cfg_def host_moment_def host_managed_def host_delivered_def set_ready_then_def at_pc_def tell_def
  normalize_timeout_ms_def MAX_REQUEST_TIMEOUT_MS_def Let_def

theorem deliveries_accounted_witness:
  "over_run delivered_by host_cfg (Some ''ws'') host_delivered (loop_start (Some host_managed)) = [''r''] \<and>
   hl_replies (loop_run host_cfg (Some ''ws'') (Some host_managed) host_delivered) = [] \<and>
   over_run cancelled_by host_cfg (Some ''ws'')
     (host_delivered @ [LpCancelled ''ws'' ''r'' None RequestCancelled (Inr ())]) (loop_start (Some host_managed)) = [''r'']"
  using deliveries_accounted [of host_cfg "Some ''ws''" host_delivered "Some host_managed"]
    deliveries_accounted [of host_cfg "Some ''ws''"
      "host_delivered @ [LpCancelled ''ws'' ''r'' None RequestCancelled (Inr ())]" "Some host_managed"]
  by (simp add: host_eval delivered_by_def cancelled_by_def)





end
