(* ===== verification/Spec2Isabelle.thy ===== *)
theory Spec2Isabelle
  imports Task_Props Exec_Props Stop_Props Store_Props Credential_Props External_Props Router_Props
    Protocol_Props Provider_Props
begin

text \<open>
  A verification of the Agent Session Router.

  The program is a router (\<^verbatim>\<open>src/router.rs\<close>) to which coding agents and operators connect over
  WebSockets. It keeps workspaces, an event log per workspace, credentials and tasks in one SQLite
  database (\<^verbatim>\<open>src/store.rs\<close>); tasks are worked on by agents in attempts (\<^verbatim>\<open>src/tasks.rs\<close>); agents
  obtain credentials by redeeming invites (\<^verbatim>\<open>src/credentials.rs\<close>, \<^verbatim>\<open>src/onboarding.rs\<close>); tasks may be
  imported from, linked with and published to GitHub and Linear (\<^verbatim>\<open>src/integrations\<close>). On the machine of
  an agent a host (\<^verbatim>\<open>src/hosts.rs\<close>, \<^verbatim>\<open>src/providers\<close>) runs the turns that the router delivers to it.

  \<^bold>\<open>Theories and what they model.\<close>
  \<^item> \<open>Asr_Prelude\<close>: results (Rust's \<^verbatim>\<open>Result\<close> and \<^verbatim>\<open>?\<close>), tables as row lists, fixed-width
    identifiers, byte strings. \<open>Paging\<close>: the page construction every listing shares, and the locale
    \<open>paged_query\<close> in which a client that follows cursors is shown to see every row once.
  \<^item> \<open>Protocol_Core\<close>: \<^verbatim>\<open>src/protocol.rs\<close>, error codes, identities, identifier and page validators.
  \<^item> \<open>Task_Types\<close>, \<open>Task_Commands\<close>: the data of \<^verbatim>\<open>src/tasks.rs\<close> and \<^verbatim>\<open>validate_command\<close>.
  \<^item> \<open>Store_Schema\<close>: the tables of \<^verbatim>\<open>SCHEMA\<close> and \<^verbatim>\<open>ONBOARDING_SCHEMA\<close> with their constraints; each
    statement the program issues is a function that fails where SQLite would.
  \<^item> \<open>Event_Log\<close>: appends, chat, requests, workspaces and histories; the locale \<open>append_log\<close>.
  \<^item> \<open>Task_Read\<close>, \<open>Task_Ops\<close>: the readers and every command of \<^verbatim>\<open>apply_task\<close>, with receipts and
    replay, and \<^verbatim>\<open>interrupt_attempt\<close>, \<^verbatim>\<open>interrupt_session_attempts\<close>,
    \<^verbatim>\<open>record_execution_stopped\<close>.
  \<^item> \<open>Recovery\<close>: \<^verbatim>\<open>recover\<close>. \<open>Credentials\<close>: credentials and invites.
  \<^item> \<open>Integrations\<close>: \<^verbatim>\<open>src/integrations/mod.rs\<close>, the configuration file with its validation, targets,
    \<^verbatim>\<open>apply_catalog\<close> and the registry of bindings. \<open>External_Ops\<close>: preparing an external operation;
    \<open>External_Finish\<close>: the gate of a write, recording what a worker brought back, and resolutions.
  \<^item> \<open>Limits\<close>: the token bucket of a credential, the window of enrollment attempts and the
    pre-authentication counters of \<^verbatim>\<open>src/router.rs\<close>. \<open>Response_Budget\<close>: the search for the largest page
    that fits a response and the pages cut by it.
  \<^item> \<open>Router_Types\<close>: the messages of the protocol and the state of the router actor, \<open>Listings\<close> the
    listings it serves. \<open>Router_Core\<close>: steps of the actor as functions on its state that may fail, its
    accessors and guards, sending, fanning out, ending requests and disconnecting. \<open>Router_Ops\<close>: one
    definition per handler. \<open>Router_External\<close>: the handlers of integrations and external operations, the
    tasks they spawn and what these report. \<open>Router_Actor\<close>: the dispatcher, rate limiting, deadlines, control commands
    and the turns of the loop. \<open>Router_Run\<close>: runs of the router with crashes and restarts.

  \<^item> \<open>Protocol_Messages\<close>: the rest of \<^verbatim>\<open>src/protocol.rs\<close>, the tags and fields of the messages, the tables of
    allowed fields, the validation of every message and the two parsers.
  \<^item> \<open>Provider_Inbox\<close>: \<^verbatim>\<open>src/providers/inbox.rs\<close>, one turn at a time. \<open>Provider_Host\<close>:
    \<^verbatim>\<open>src/providers/router.rs\<close>, the lease of the execution barrier and \<^verbatim>\<open>handle\<close> as a program split at its
    \<^verbatim>\<open>await\<close> points, so that calls and cancellations interleave. \<open>Provider_Loop\<close>: the loop of a managed host
    of \<^verbatim>\<open>src/hosts.rs\<close>.

  \<^bold>\<open>What the lemmas show.\<close> \<open>Task_Inv\<close>, \<open>Task_Steps\<close> and \<open>Task_Keep\<close>: the invariant \<open>store_inv\<close>
  and that every operation keeps it. \<open>Task_Replay\<close>: a command that succeeded replays. \<open>Task_Effects\<close>:
  the exact row after each command and the state machine \<open>task_step\<close>. \<open>Store_Machine\<close>: all
  operations as one step relation, with the invariant and the append-only log on every run.
  \<open>Store_Records\<close>: receipts and resolutions are only added, so a command sent again later is answered
  from its receipt. \<open>Queries\<close>: readers never fail, listings are complete, fences are exact. \<open>Progress\<close>: appends and
  interruptions succeed. \<open>Execution\<close>: what lifts an agent's execution barrier.

  Of the external operations: \<open>External_Inv\<close> states the invariant \<open>ext_inv\<close> of their tables and the order
  \<open>ops_grow\<close> in which operations only move forward, \<open>External_Keep\<close>, \<open>External_Steps\<close> and \<open>External_Frame\<close> that
  every operation of the store keeps them; \<open>External_Runs\<close> follows one operation through a run,
  \<open>External_Resolve\<close> what the two kinds of resolution leave behind for good, and \<open>Catalog_Facts\<close> shows what a
  new configuration does to the bindings.

  Of the router: \<open>Router_Steps\<close> and \<open>Router_Handlers\<close> state, as the locales \<open>core_inv\<close> and
  \<open>handler_inv\<close>, what an invariant has to survive so that every handler and every turn keeps it.
  \<open>Router_Fuel\<close> interprets them with a bound on the connections: the nesting of disconnects is never
  deeper than their number. \<open>Router_Crew\<close> extends them to \<open>external_inv\<close>, with the handlers of external
  operations and the reports of spawned tasks; \<open>Router_Quiet\<close> shows that these leave requests alone.
  \<open>Router_Books\<close> interprets \<open>external_inv\<close> three times, with the steps of the store, with the accounts of
  requests and results and with what the spawned tasks know; \<open>Router_Slots\<close> shows the accounts of spawned
  tasks; \<open>Router_Gone\<close> interprets \<open>core_inv\<close> with the absence of new requests, connections
  and running attempts. \<open>Router_Guards\<close>: what the guards of the handlers refuse.

  Of the hosts: \<open>Provider_Inbox\<close> shows that the inbox simulates the order of turns \<open>turn_step\<close>, \<open>Provider_Host\<close>
  with the invariant \<open>managed_inv\<close> over all waiting calls that the reports keep the contract \<open>duty_step\<close>, and
  \<open>Provider_Loop\<close> that every delivery is replied to once unless its turn was cancelled.

  \<^bold>\<open>Properties\<close> are in \<open>Task_Props\<close>, \<open>Exec_Props\<close>, \<open>Stop_Props\<close>, \<open>Store_Props\<close>,
  \<open>Credential_Props\<close>, \<open>External_Props\<close>, \<open>Router_Props\<close>, \<open>Protocol_Props\<close> and \<open>Provider_Props\<close>; those with
  hypotheses have a witness on the concrete stores of \<open>Scenario\<close> and \<open>External_Scenario\<close>, the concrete router
  of \<open>Router_Scenario\<close> and the concrete host of \<open>Provider_Props\<close>.

  \<^bold>\<open>Parameters.\<close> What comes from outside the repository is an argument: clock readings, identifiers
  from \<^verbatim>\<open>Uuid::new_v4\<close>, the SHA-256 of a command and the length of a JSON text (record \<open>env\<close>),
  base64, token hashes and the text of a UUID (record \<open>codec\<close>), reading the configuration and JSON texts
  (record \<open>xcodec\<close>), and for the router the readings of \<open>router_env\<close>, with whether a writer's queue takes a
  frame, JSON texts of messages (record \<open>wire\<close>); the answers of the providers are arguments of the spawned tasks,
  and those of the client, the provider and the clock arguments of the steps of a host. Nothing is assumed of them, except
  that the accounts of requests need clocks that are not before 1970, that \<open>config_hash_faithful\<close> speaks of
  inputs on which SHA-256 does not collide, that \<open>unregistered_harmless\<close> supposes messages that can be encoded and
  \<open>bounded_history_complete\<close> an encoder whose responses grow with the events and fit one event of the log. A hash map is an association list; its order
  is the iteration order, and a run may reorder it between any two turns.

  \<^bold>\<open>Bounds.\<close> All loops are recursion over rows; fuel appears twice. \<open>collect_pages\<close> is a client that
  follows cursors, and one page more than there are rows is shown to be enough. \<open>disconnect_n\<close> bounds
  how deep disconnects nest; the number of connections is shown to be enough, with which the function
  satisfies the recursion of the code.

  \<^bold>\<open>Not modelled.\<close> Faults of the storage medium and of the file system, sockets, TLS, the child
  processes of the providers, terminal and HTTP input and output, and JSON text; of the hosts the interactive
  loop and the launch plans; the WebSocket client, the MCP server, the terminal and command-line front ends,
  the onboarding of a client machine and the installation, which are input and output around the protocol.
\<close>

end
